(* ===== verification/Prelude.thy ===== *)
theory Prelude
  imports Complex_Main
begin

text \<open>
  The shared vocabulary of the development.

  \<^item> Guards of a handler. The services of the repository are JavaScript methods that check
    one condition after another, throw on the first that fails and write to the database
    at the end. A handler is a function into \<open>'e + 'a\<close> (\<open>Inl\<close> the thrown error), built
    from \<open>throw_if\<close>, \<open>need\<close> and \<open>and_then\<close>; the collection \<open>tx_ok\<close> inverts a handler
    that returned, the collection \<open>tx_err\<close> one that threw.
  \<^item> Tables. An SQLite table is the list of its rows in rowid order; \<open>row_of\<close>,
    \<open>update_where\<close> and \<open>count_where\<close> are SELECT by key, UPDATE \<dots> WHERE and COUNT(*).
  \<^item> Step systems: reachability and invariants, as a locale.
\<close>

named_theorems tx_ok \<open>inversion of a handler that returned\<close>
named_theorems tx_err \<open>inversion of a handler that threw\<close>

section \<open>Guards\<close>

definition throw_if :: "bool \<Rightarrow> 'e \<Rightarrow> 'e + 'a \<Rightarrow> 'e + 'a" where
  "throw_if b e k = (if b then Inl e else k)"

definition need :: "'b option \<Rightarrow> 'e \<Rightarrow> ('b \<Rightarrow> 'e + 'a) \<Rightarrow> 'e + 'a" where
  "need x e k = (case x of None \<Rightarrow> Inl e | Some y \<Rightarrow> k y)"

definition and_then :: "'e + 'b \<Rightarrow> ('b \<Rightarrow> 'e + 'a) \<Rightarrow> 'e + 'a" where
  "and_then r k = (case r of Inl e \<Rightarrow> Inl e | Inr y \<Rightarrow> k y)"

lemma throw_if_ok [simp, tx_ok]: "throw_if b e k = Inr x \<longleftrightarrow> \<not> b \<and> k = Inr x"
  by (simp add: throw_if_def)

lemma throw_if_err [tx_err]: "throw_if b e k = Inl x \<longleftrightarrow> (if b then e = x else k = Inl x)"
  by (simp add: throw_if_def)

lemma throw_if_simps [simp]: "throw_if True e k = Inl e" "throw_if False e k = k"
  by (simp_all add: throw_if_def)

lemma need_ok [simp, tx_ok]: "need x e k = Inr r \<longleftrightarrow> (\<exists>y. x = Some y \<and> k y = Inr r)"
  by (simp add: need_def split: option.splits)

lemma need_err [tx_err]:
  "need x e k = Inl r \<longleftrightarrow> (x = None \<and> e = r) \<or> (\<exists>y. x = Some y \<and> k y = Inl r)"
  by (auto simp: need_def split: option.splits)

lemma need_simps [simp]: "need None e k = Inl e" "need (Some y) e k = k y"
  by (simp_all add: need_def)

lemma and_then_ok [simp, tx_ok]: "and_then r k = Inr x \<longleftrightarrow> (\<exists>y. r = Inr y \<and> k y = Inr x)"
  by (simp add: and_then_def split: sum.splits)

lemma and_then_err [tx_err]:
  "and_then r k = Inl x \<longleftrightarrow> r = Inl x \<or> (\<exists>y. r = Inr y \<and> k y = Inl x)"
  by (auto simp: and_then_def split: sum.splits)

lemma and_then_simps [simp]: "and_then (Inl e) k = Inl e" "and_then (Inr y) k = k y"
  by (simp_all add: and_then_def)

section \<open>Tables\<close>

definition row_of :: "('r \<Rightarrow> 'k) \<Rightarrow> 'k \<Rightarrow> 'r list \<Rightarrow> 'r option" where
  "row_of key k rows = List.find (\<lambda>r. key r = k) rows"

definition update_where :: "('r \<Rightarrow> bool) \<Rightarrow> ('r \<Rightarrow> 'r) \<Rightarrow> 'r list \<Rightarrow> 'r list" where
  "update_where p f rows = map (\<lambda>r. if p r then f r else r) rows"

definition count_where :: "('r \<Rightarrow> bool) \<Rightarrow> 'r list \<Rightarrow> nat" where
  "count_where p rows = length (filter p rows)"

lemma row_of_Nil [simp]: "row_of key k [] = None"
  by (simp add: row_of_def)

lemma row_of_Cons [simp]:
  "row_of key k (r # rows) = (if key r = k then Some r else row_of key k rows)"
  by (simp add: row_of_def)

lemma row_of_append:
  "row_of key k (xs @ ys) =
     (case row_of key k xs of None \<Rightarrow> row_of key k ys | Some r \<Rightarrow> Some r)"
  by (induction xs) auto

lemma row_of_SomeD: "row_of key k rows = Some r \<Longrightarrow> r \<in> set rows \<and> key r = k"
  by (induction rows) (auto split: if_splits)

lemma row_of_key: "row_of key k rows = Some r \<Longrightarrow> key r = k"
  using row_of_SomeD by fast

lemma row_of_in: "row_of key k rows = Some r \<Longrightarrow> r \<in> set rows"
  using row_of_SomeD by fast

lemma row_of_None: "row_of key k rows = None \<longleftrightarrow> k \<notin> key ` set rows"
  by (induction rows) auto

lemma row_of_distinct:
  "distinct (map key rows) \<Longrightarrow> r \<in> set rows \<Longrightarrow> row_of key (key r) rows = Some r"
  by (induction rows) (auto simp: image_iff)

lemma row_of_map:
  "(\<And>r. key (f r) = key r) \<Longrightarrow> row_of key k (map f rows) = map_option f (row_of key k rows)"
  by (induction rows) auto

lemma update_where_Nil [simp]: "update_where p f [] = []"
  by (simp add: update_where_def)

lemma update_where_Cons [simp]:
  "update_where p f (r # rows) = (if p r then f r else r) # update_where p f rows"
  by (simp add: update_where_def)

lemma update_where_append [simp]:
  "update_where p f (xs @ ys) = update_where p f xs @ update_where p f ys"
  by (simp add: update_where_def)

lemma set_update_where:
  "set (update_where p f rows) = (\<lambda>r. if p r then f r else r) ` set rows"
  by (simp add: update_where_def)

lemma in_update_where:
  "r' \<in> set (update_where p f rows) \<longleftrightarrow>
     (\<exists>r \<in> set rows. r' = (if p r then f r else r))"
  by (auto simp: set_update_where)

lemma length_update_where [simp]: "length (update_where p f rows) = length rows"
  by (simp add: update_where_def)

lemma map_key_update_where:
  "(\<And>r. p r \<Longrightarrow> key (f r) = key r) \<Longrightarrow> map key (update_where p f rows) = map key rows"
  by (simp add: update_where_def)

lemma row_of_update_where:
  assumes "\<And>r. key (f r) = key r"
  shows "row_of key k (update_where p f rows) =
     map_option (\<lambda>r. if p r then f r else r) (row_of key k rows)"
  unfolding update_where_def by (rule row_of_map) (simp add: assms)

lemma row_of_update_at:
  assumes "\<And>r. key (f r) = key r"
  shows "row_of key k (update_where (\<lambda>r. key r = k0 \<and> q r) f rows) =
     (if k = k0 then map_option (\<lambda>r. if q r then f r else r) (row_of key k rows)
      else row_of key k rows)"
  by (induction rows) (auto simp: assms)

lemma row_of_update_key:
  assumes "\<And>r. key (f r) = key r"
  shows "row_of key k (update_where (\<lambda>r. key r = k0) f rows) =
     (if k = k0 then map_option f (row_of key k rows) else row_of key k rows)"
  by (induction rows) (auto simp: assms)

lemma update_where_none: "(\<And>r. r \<in> set rows \<Longrightarrow> \<not> p r) \<Longrightarrow> update_where p f rows = rows"
  by (induction rows) auto

lemma count_where_Nil [simp]: "count_where p [] = 0"
  by (simp add: count_where_def)

lemma count_where_Cons [simp]:
  "count_where p (r # rows) = (if p r then Suc (count_where p rows) else count_where p rows)"
  by (simp add: count_where_def)

lemma count_where_append [simp]: "count_where p (xs @ ys) = count_where p xs + count_where p ys"
  by (simp add: count_where_def)

lemma count_where_0: "count_where p rows = 0 \<longleftrightarrow> (\<forall>r \<in> set rows. \<not> p r)"
  by (induction rows) auto

lemma count_where_flip:
  assumes "distinct (map key rows)" and "r \<in> set rows" and "key r = k" and "\<not> p r"
    and "p (f r)" and "\<And>x. key x \<noteq> k \<Longrightarrow> q x = p x"
    and "\<And>x. key x = k \<Longrightarrow> q x = p (f x)"
  shows "count_where q rows = Suc (count_where p rows)"
  using assms(1,2)
proof (induction rows)
  case Nil
  then show ?case by simp
next
  case (Cons x xs)
  show ?case
  proof (cases "key x = k")
    case True
    with Cons.prems assms(3) have "x = r" by (auto simp: image_iff) 
    have "\<forall>y \<in> set xs. key y \<noteq> k"
      using Cons.prems True by (auto simp: image_iff)
    then have "count_where q xs = count_where p xs"
      unfolding count_where_def by (intro arg_cong[where f = length] filter_cong) (auto simp: assms(6))
    with \<open>x = r\<close> True assms(4,5,7) show ?thesis by auto
  next
    case False
    with Cons assms(3,6) show ?thesis by auto
  qed
qed

section \<open>Step systems\<close>

inductive reach :: "('s \<Rightarrow> bool) \<Rightarrow> ('s \<Rightarrow> 's \<Rightarrow> bool) \<Rightarrow> 's \<Rightarrow> bool"
  for start :: "'s \<Rightarrow> bool" and stp :: "'s \<Rightarrow> 's \<Rightarrow> bool" where
  reach_start: "start s \<Longrightarrow> reach start stp s"
| reach_step: "reach start stp s \<Longrightarrow> stp s t \<Longrightarrow> reach start stp t"

text \<open>
  \<open>inductive_inv\<close> is the contract of an invariant: the start states have it and every step
  keeps it. \<open>step_preorder\<close> is the contract of a two-state property (a counter never goes
  back, a row keeps its columns): it holds of a step, is reflexive and composes.
\<close>

locale inductive_inv =
  fixes start :: "'s \<Rightarrow> bool" and stp :: "'s \<Rightarrow> 's \<Rightarrow> bool" and inv :: "'s \<Rightarrow> bool"
  assumes inv_start: "start s \<Longrightarrow> inv s"
    and inv_step: "inv s \<Longrightarrow> stp s t \<Longrightarrow> inv t"
begin

lemma reach_inv: "reach start stp s \<Longrightarrow> inv s"
  by (induction rule: reach.induct) (auto intro: inv_start inv_step)

lemma run_inv: "stp\<^sup>*\<^sup>* s t \<Longrightarrow> inv s \<Longrightarrow> inv t"
  by (induction rule: rtranclp_induct) (auto intro: inv_step)

end

locale step_preorder =
  fixes stp :: "'s \<Rightarrow> 's \<Rightarrow> bool" and rel :: "'s \<Rightarrow> 's \<Rightarrow> bool"
  assumes rel_step: "stp s t \<Longrightarrow> rel s t"
    and rel_refl: "rel s s"
    and rel_trans: "rel s t \<Longrightarrow> rel t u \<Longrightarrow> rel s u"
begin

lemma run_rel: "stp\<^sup>*\<^sup>* s t \<Longrightarrow> rel s t"
  by (induction rule: rtranclp_induct) (auto intro: rel_refl rel_step rel_trans)

end

text \<open>
  \<open>fencing\<close> is the contract of a fencing-token mint: a generation per resource that no step takes
  back, and grants that raise it to the token they hand out. What a resource relies on follows:
  a later token is larger, and once it is out the earlier one no longer matches.
\<close>

locale fencing =
  fixes ok :: "'s \<Rightarrow> bool" and stp :: "'s \<Rightarrow> 's \<Rightarrow> bool"
    and gen :: "'s \<Rightarrow> 'r \<Rightarrow> int" and mints :: "'s \<Rightarrow> 'r \<Rightarrow> int \<Rightarrow> 's \<Rightarrow> bool"
  assumes ok_step: "ok s \<Longrightarrow> stp s t \<Longrightarrow> ok t"
    and gen_step: "ok s \<Longrightarrow> stp s t \<Longrightarrow> gen s r \<le> gen t r"
    and mint_step: "mints s r g t \<Longrightarrow> stp s t"
    and mint_fresh: "ok s \<Longrightarrow> mints s r g t \<Longrightarrow> gen s r < g \<and> gen t r = g"
begin

lemma run_ok: "stp\<^sup>*\<^sup>* s t \<Longrightarrow> ok s \<Longrightarrow> ok t"
  by (induction rule: rtranclp_induct) (auto intro: ok_step)

lemma run_gen: "stp\<^sup>*\<^sup>* s t \<Longrightarrow> ok s \<Longrightarrow> gen s r \<le> gen t r"
proof (induction rule: rtranclp_induct)
  case base
  show ?case by simp
next
  case (step t u)
  from step.IH [OF step.prems] gen_step [OF run_ok [OF step.hyps(1) step.prems] step.hyps(2), of r]
  show ?case by simp
qed

lemma tokens_rise:
  assumes "ok s" and "mints s r g t" and "stp\<^sup>*\<^sup>* t u" and "mints u r h v"
  shows "g < h"
proof -
  have t: "ok t" by (rule ok_step [OF assms(1) mint_step [OF assms(2)]])
  have "g \<le> gen u r" using mint_fresh [OF assms(1,2)] run_gen [OF assms(3) t, of r] by simp
  with mint_fresh [OF run_ok [OF assms(3) t] assms(4)] show ?thesis by simp
qed

lemma old_token_stale:
  assumes "ok s" and "mints s r g t" and "stp\<^sup>*\<^sup>* t u" and "mints u r h v" and "stp\<^sup>*\<^sup>* v w"
  shows "g < gen w r"
proof -
  have u: "ok u" by (rule run_ok [OF assms(3) ok_step [OF assms(1) mint_step [OF assms(2)]]])
  have v: "ok v" by (rule ok_step [OF u mint_step [OF assms(4)]])
  from tokens_rise [OF assms(1-4)] mint_fresh [OF u assms(4)] run_gen [OF assms(5) v, of r]
  show ?thesis by simp
qed

end

end
