(* ===== verification/BoardTypes.thy ===== *)
theory BoardTypes
  imports Json "HOL-Library.Char_ord" "HOL-Library.List_Lexorder"
begin

text \<open>
  The vocabulary of the Board (\<open>src/apps/board/server/src/constants.js\<close>, \<open>errors.js\<close>,
  \<open>core/state-machine.js\<close>): the enumerations as datatypes with their wire strings, the error
  codes with their HTTP status, and the transition authority tables.
\<close>

section \<open>Ticket states\<close>

datatype status = Todo | InProgress | AwaitingApproval | Approved | Executing | Verifying
  | NeedsReview | Blocked | Done | Failed | Cancelled

fun status_str :: "status \<Rightarrow> string" where
  "status_str Todo = ''todo''"
| "status_str InProgress = ''in_progress''"
| "status_str AwaitingApproval = ''awaiting_approval''"
| "status_str Approved = ''approved''"
| "status_str Executing = ''executing''"
| "status_str Verifying = ''verifying''"
| "status_str NeedsReview = ''needs_review''"
| "status_str Blocked = ''blocked''"
| "status_str Done = ''done''"
| "status_str Failed = ''failed''"
| "status_str Cancelled = ''cancelled''"

definition all_states :: "status list" where
  "all_states = [Todo, InProgress, AwaitingApproval, Approved, Executing, Verifying,
     NeedsReview, Blocked, Done, Failed, Cancelled]"

text \<open>A request names a state by its string; an unknown string names none.\<close>

definition state_of :: "string \<Rightarrow> status option" where
  "state_of s = List.find (\<lambda>x. status_str x = s) all_states"

definition terminal_states :: "status list" where
  "terminal_states = [Done, Failed, Cancelled]"

definition is_terminal :: "status \<Rightarrow> bool" where
  "is_terminal s = (s \<in> set terminal_states)"

lemma state_of_str [simp]: "state_of (status_str s) = Some s"
  by (cases s) (simp_all add: state_of_def all_states_def)

lemma state_of_SomeD: "state_of x = Some s \<Longrightarrow> x = status_str s"
  by (auto simp: state_of_def find_Some_iff)

lemma is_terminal_simps [simp]:
  "is_terminal Done" "is_terminal Failed" "is_terminal Cancelled" "\<not> is_terminal Todo"
  "\<not> is_terminal InProgress" "\<not> is_terminal AwaitingApproval" "\<not> is_terminal Approved"
  "\<not> is_terminal Executing" "\<not> is_terminal Verifying" "\<not> is_terminal NeedsReview"
  "\<not> is_terminal Blocked"
  by (simp_all add: is_terminal_def terminal_states_def)

section \<open>The transition authority\<close>

fun legal_targets :: "status \<Rightarrow> status list" where
  "legal_targets Todo = [InProgress, Cancelled]"
| "legal_targets InProgress = [Todo, AwaitingApproval, NeedsReview, Blocked]"
| "legal_targets AwaitingApproval = [Approved, Cancelled]"
| "legal_targets Approved = [Executing, Cancelled, AwaitingApproval]"
| "legal_targets Executing = [Verifying, NeedsReview, Failed]"
| "legal_targets Verifying = [Done, Failed]"
| "legal_targets NeedsReview = [Done, Todo]"
| "legal_targets Blocked = [Todo, Cancelled]"
| "legal_targets Done = []"
| "legal_targets Failed = []"
| "legal_targets Cancelled = []"

definition is_legal :: "status \<Rightarrow> status \<Rightarrow> bool" where
  "is_legal frm to = (to \<in> set (legal_targets frm))"

definition agent_transition_targets :: "status list" where
  "agent_transition_targets = [AwaitingApproval, NeedsReview, Blocked]"

definition agent_may_transition :: "status \<Rightarrow> string \<Rightarrow> bool" where
  "agent_may_transition frm to =
     (frm = InProgress \<and> to \<in> set (map status_str agent_transition_targets))"

definition agent_forbidden_targets :: "status list" where
  "agent_forbidden_targets = [Approved, Executing, Verifying, Done, Failed, Cancelled]"

definition is_agent_forbidden_target :: "string \<Rightarrow> bool" where
  "is_agent_forbidden_target to = (to \<in> set (map status_str agent_forbidden_targets))"

fun operator_targets :: "status \<Rightarrow> status list" where
  "operator_targets AwaitingApproval = [Cancelled]"
| "operator_targets Approved = [Cancelled]"
| "operator_targets NeedsReview = [Done, Todo]"
| "operator_targets Blocked = [Todo, Cancelled]"
| "operator_targets Todo = [Cancelled]"
| "operator_targets Verifying = [Failed]"
| "operator_targets _ = []"

definition operator_may_transition :: "status \<Rightarrow> string \<Rightarrow> bool" where
  "operator_may_transition frm to = (to \<in> set (map status_str (operator_targets frm)))"

definition holds_claim_lease :: "status \<Rightarrow> bool" where
  "holds_claim_lease s = (s = InProgress)"

lemma operator_may_legal:
  assumes "operator_may_transition frm to"
  shows "\<exists>s. state_of to = Some s \<and> is_legal frm s"
proof -
  from assms obtain s where "to = status_str s" and "s \<in> set (operator_targets frm)"
    by (auto simp: operator_may_transition_def)
  moreover from this(2) have "is_legal frm s" by (cases frm) (auto simp: is_legal_def)
  ultimately show ?thesis by auto
qed

lemma agent_may_cases:
  "agent_may_transition frm to \<Longrightarrow>
     frm = InProgress \<and> (to = status_str AwaitingApproval \<or> to = status_str NeedsReview
       \<or> to = status_str Blocked)"
  by (auto simp: agent_may_transition_def agent_transition_targets_def)

lemma legal_not_terminal: "is_legal frm to \<Longrightarrow> \<not> is_terminal frm"
  by (cases frm) (auto simp: is_legal_def)

section \<open>Ceremony phases\<close>

datatype phase = PTriage | PRecon | PPlanning | PReview | PBacklog | PExecute | PRetro

fun phase_str :: "phase \<Rightarrow> string" where
  "phase_str PTriage = ''triage''"
| "phase_str PRecon = ''recon''"
| "phase_str PPlanning = ''planning''"
| "phase_str PReview = ''adversarial_review''"
| "phase_str PBacklog = ''backlog''"
| "phase_str PExecute = ''execute''"
| "phase_str PRetro = ''retro''"

definition phase_order :: "phase list" where
  "phase_order = [PTriage, PRecon, PPlanning, PReview, PBacklog, PExecute, PRetro]"

definition phase_of :: "string \<Rightarrow> phase option" where
  "phase_of s = List.find (\<lambda>x. phase_str x = s) phase_order"

lemma phase_of_str [simp]: "phase_of (phase_str p) = Some p"
  by (cases p) (simp_all add: phase_of_def phase_order_def)

lemma phase_of_SomeD: "phase_of x = Some p \<Longrightarrow> x = phase_str p"
  by (auto simp: phase_of_def find_Some_iff)

fun phase_rank :: "phase \<Rightarrow> int" where
  "phase_rank PTriage = 0"
| "phase_rank PRecon = 1"
| "phase_rank PPlanning = 2"
| "phase_rank PReview = 3"
| "phase_rank PBacklog = 4"
| "phase_rank PExecute = 5"
| "phase_rank PRetro = 6"

text \<open>\<open>rankOf\<close>, \<open>PHASE_RANK\<close> and \<open>PHASE_ORDER.indexOf(phase ?? '')\<close>: no phase has rank -1.\<close>

definition rank_of :: "phase option \<Rightarrow> int" where
  "rank_of p = (case p of None \<Rightarrow> -1 | Some q \<Rightarrow> phase_rank q)"

instantiation phase :: linorder
begin

definition less_eq_phase :: "phase \<Rightarrow> phase \<Rightarrow> bool" where
  "less_eq_phase p q = (phase_rank p \<le> phase_rank q)"

definition less_phase :: "phase \<Rightarrow> phase \<Rightarrow> bool" where
  "less_phase p q = (phase_rank p < phase_rank q)"

instance
proof
  fix p q r :: phase
  have inj: "phase_rank p = phase_rank q \<Longrightarrow> p = q" by (cases p; cases q) auto
  show "(p < q) = (p \<le> q \<and> \<not> q \<le> p)" "p \<le> p" "p \<le> q \<or> q \<le> p"
    by (auto simp: less_eq_phase_def less_phase_def)
  show "p \<le> q \<Longrightarrow> q \<le> r \<Longrightarrow> p \<le> r" by (simp add: less_eq_phase_def)
  show "p \<le> q \<Longrightarrow> q \<le> p \<Longrightarrow> p = q" by (rule inj) (simp add: less_eq_phase_def)
qed

end

definition phase_at_least :: "phase option \<Rightarrow> phase \<Rightarrow> bool" where
  "phase_at_least p flr = (rank_of p \<ge> phase_rank flr)"

lemma phase_rank_nonneg [simp]: "0 \<le> phase_rank p"
  by (cases p) simp_all

lemma phase_rank_not_neg [simp]: "\<not> phase_rank p \<le> - 1"
  using phase_rank_nonneg [of p] by linarith

lemma phase_at_least_iff: "phase_at_least p flr \<longleftrightarrow> (\<exists>q. p = Some q \<and> flr \<le> q)"
  by (cases p) (simp_all add: phase_at_least_def rank_of_def less_eq_phase_def)

lemma phase_rank_inj: "phase_rank p = phase_rank q \<longleftrightarrow> p = q"
  by (cases p; cases q) auto

section \<open>Other enumerations\<close>

datatype lane = LStraight | LLight | LFull

fun lane_str :: "lane \<Rightarrow> string" where
  "lane_str LStraight = ''straight_to_execute''"
| "lane_str LLight = ''lightweight''"
| "lane_str LFull = ''full''"

text \<open>A token may carry any kind; the three the Board knows are constructors of their own.\<close>

datatype pkind = Human | Agent | Service | OtherKind string

datatype tkind = KTicket | KEpic | KStanding

datatype cclass = General | Recon | Execution

datatype origin = OOperator | OScheduled | OWebhook | OAgent

datatype akind = Operator | TierPolicy

datatype astatus = Granted | Consumed | Revoked | Expired

datatype hold = ClaimHold | ExecHold

fun pkind_str :: "pkind \<Rightarrow> string" where
  "pkind_str Human = ''human''" | "pkind_str Agent = ''agent''" | "pkind_str Service = ''service''"
| "pkind_str (OtherKind k) = k"

fun tkind_str :: "tkind \<Rightarrow> string" where
  "tkind_str KTicket = ''ticket''" | "tkind_str KEpic = ''epic''" | "tkind_str KStanding = ''standing''"

fun cclass_str :: "cclass \<Rightarrow> string" where
  "cclass_str General = ''general''" | "cclass_str Recon = ''recon''"
| "cclass_str Execution = ''execution''"

fun origin_str :: "origin \<Rightarrow> string" where
  "origin_str OOperator = ''operator''" | "origin_str OScheduled = ''scheduled''"
| "origin_str OWebhook = ''event_webhook''" | "origin_str OAgent = ''agent''"

fun akind_str :: "akind \<Rightarrow> string" where
  "akind_str Operator = ''operator''" | "akind_str TierPolicy = ''tier_policy''"

fun astatus_str :: "astatus \<Rightarrow> string" where
  "astatus_str Granted = ''granted''" | "astatus_str Consumed = ''consumed''"
| "astatus_str Revoked = ''revoked''" | "astatus_str Expired = ''expired''"

fun hold_str :: "hold \<Rightarrow> string" where
  "hold_str ClaimHold = ''claim''" | "hold_str ExecHold = ''execution''"

record principal =
  p_sub :: string
  p_kind :: pkind
  p_scopes :: "string list"

section \<open>Errors\<close>

datatype ecode = CLAIM_CONFLICT | NO_ELIGIBLE_WORK | WIP_CAP | LINEAGE_CAP | HOST_LOCKED
  | QUIESCED | STALE_FENCING | NOT_HOLDER | ILLEGAL_TRANSITION | NOT_FOUND | VERSION_CONFLICT
  | FOUR_EYES | AUTO_APPROVE_FORBIDDEN | APPROVAL_CONSUMED | APPROVAL_REVOKED
  | APPROVAL_EXPIRED | PLAN_UNPARSEABLE | PLAN_PIN_MOVED | DEP_UNMET | DEP_CYCLE | OP_MISMATCH
  | OP_IN_PROGRESS | OUT_OF_ORDER_STATEMENT | NOT_ROSTER | VETO_UNRESOLVED | DISSENT_REQUIRED
  | DISSENT_UNGROUNDED | SIGNAL_UNAVAILABLE | DEP_UNAVAILABLE | QUARANTINED | VALIDATION

fun err_http :: "ecode \<Rightarrow> nat" where
  "err_http NO_ELIGIBLE_WORK = 200"
| "err_http NOT_HOLDER = 403"
| "err_http NOT_FOUND = 404"
| "err_http FOUR_EYES = 403"
| "err_http AUTO_APPROVE_FORBIDDEN = 403"
| "err_http PLAN_UNPARSEABLE = 422"
| "err_http NOT_ROSTER = 403"
| "err_http DISSENT_UNGROUNDED = 422"
| "err_http SIGNAL_UNAVAILABLE = 503"
| "err_http DEP_UNAVAILABLE = 503"
| "err_http VALIDATION = 422"
| "err_http _ = 409"

text \<open>
  What a service call may throw: a \<open>BusinessError\<close> with its code and structured details (the
  human-readable message is left out), an exception of the database binding (a failed
  constraint, or a value it cannot bind), a \<open>TypeError\<close> of the language, or the error of an
  upstream fetch.
\<close>

datatype exn = Biz ecode "(string \<times> json) list" | SqliteConstraint | BindError | TypeErr | Upstream

fun exn_code :: "exn \<Rightarrow> ecode option" where
  "exn_code (Biz c _) = Some c"
| "exn_code _ = None"

abbreviation err :: "ecode \<Rightarrow> exn" where "err c \<equiv> Biz c []"

fun http_status :: "exn \<Rightarrow> nat" where
  "http_status (Biz c _) = err_http c"
| "http_status _ = 500"

end
