(* ===== verification/Bearer.thy ===== *)
theory Bearer
  imports BoardTypes
begin

text \<open>
  What the resource servers of the suite (\<open>auth/rs.js\<close> of each service) have in common: the headers they
  read, the bearer token of the Authorization header, the scopes and the principal kind of a token; and what
  the services share besides: the outcome of a fetch, the time stamps of \<open>Date\<close>, classes of characters.
\<close>

text \<open>A refusal of the middleware: the HTTP status and the error code of the answer.\<close>

datatype refusal = Refusal nat string

text \<open>The request headers the authentication reads.\<close>

record headers =
  h_dev_sub :: "string option"
  h_dev_scopes :: "string option"
  h_dev_kind :: "string option"
  h_authorization :: "string option"

fun kind_of :: "string \<Rightarrow> pkind" where
  "kind_of s = (if s = ''human'' then Human else if s = ''agent'' then Agent
     else if s = ''service'' then Service else OtherKind s)"

definition kind_json :: "json \<Rightarrow> pkind" where
  "kind_json j = (case j of JStr s \<Rightarrow> kind_of s | _ \<Rightarrow> OtherKind (js_string j))"

definition infer_kind :: "string \<Rightarrow> pkind" where
  "infer_kind s = (if starts_with ''svc:'' s then Service
     else if starts_with ''agent:'' s then Agent else Human)"

text \<open>\<open>s.split(/\s+/).filter(Boolean)\<close>.\<close>

fun words_from :: "string \<Rightarrow> string \<Rightarrow> string list" where
  "words_from acc [] = (if acc = [] then [] else [rev acc])"
| "words_from acc (c # s) =
     (if is_ws c then (if acc = [] then words_from [] s else rev acc # words_from [] s)
      else words_from (c # acc) s)"

definition split_words :: "string \<Rightarrow> string list" where
  "split_words = words_from []"

definition lower_char :: "char \<Rightarrow> char" where
  "lower_char c = (let n = (of_char c :: nat) in if 65 \<le> n \<and> n \<le> 90 then char_of (n + 32) else c)"

text \<open>\<open>/^Bearer\s+(.+)$/i\<close>, on a header value, which holds no line break.\<close>

definition bearer_token :: "string \<Rightarrow> string option" where
  "bearer_token v =
     (let ws = takeWhile is_ws (drop 6 v); rest = dropWhile is_ws (drop 6 v) in
      if map lower_char (take 6 v) \<noteq> ''bearer'' \<or> ws = [] then None
      else if rest \<noteq> [] then Some rest
      else if 2 \<le> length ws then Some [last ws] else None)"

definition truthy_or :: "string option \<Rightarrow> string \<Rightarrow> string" where
  "truthy_or x d = (if truthy_str x then the x else d)"

definition claimed_kind :: "json \<Rightarrow> string \<Rightarrow> pkind" where
  "claimed_kind payload sub =
     (if js_truthy (jget ''kind'' payload) then kind_json (the (jget ''kind'' payload))
      else if js_truthy (jget ''principal_kind'' payload) then kind_json (the (jget ''principal_kind'' payload))
      else infer_kind sub)"

section \<open>The outcome of a fetch\<close>

text \<open>The outcome of a \<open>fetch\<close>: it throws, or it gives a response with a status and a body, \<open>None\<close> when
  the body is no JSON text.\<close>

datatype fetched = NetError | Resp nat "json option"

definition resp_ok :: "nat \<Rightarrow> bool" where
  "resp_ok st = (200 \<le> st \<and> st < 300)"

section \<open>Time stamps\<close>

text \<open>\<open>new Date(t).toISOString()\<close>, with the civil date computed from the day number.\<close>

definition civil_of_days :: "int \<Rightarrow> int \<times> int \<times> int" where
  "civil_of_days days =
     (let z = days + 719468;
          era = z div 146097;
          doe = z mod 146097;
          yoe = (doe - doe div 1460 + doe div 36524 - doe div 146096) div 365;
          doy = doe - (365 * yoe + yoe div 4 - yoe div 100);
          mp = (5 * doy + 2) div 153;
          d = doy - (153 * mp + 2) div 5 + 1;
          m = (if mp < 10 then mp + 3 else mp - 9)
      in (yoe + era * 400 + (if m \<le> 2 then 1 else 0), m, d))"

definition digits :: "nat \<Rightarrow> int \<Rightarrow> string" where
  "digits n i = pad_start n (CHR ''0'') (nat_str (nat i))"

text \<open>Evaluation computes numerals on integers.\<close>

function pos_str :: "int \<Rightarrow> string" where
  "pos_str i = (if i < 10 then [digit_char (nat i)] else pos_str (i div 10) @ [digit_char (nat (i mod 10))])"
  by pat_completeness auto
termination by (relation "measure nat") auto

declare pos_str.simps [simp del]

lemma nat_str_pos: "nat_str n = pos_str (int n)"
proof (induction n rule: nat_str.induct)
  case (1 n)
  then show ?case
    by (subst nat_str.simps, subst pos_str.simps) (simp add: zdiv_int nat_mod_distrib)
qed

lemma digits_code [code]: "digits n i = pad_start n (CHR ''0'') (pos_str (max 0 i))"
  by (simp add: digits_def nat_str_pos int_nat_eq max_def)

definition year_str :: "int \<Rightarrow> string" where
  "year_str y = (if 0 \<le> y \<and> y \<le> 9999 then digits 4 y
     else if y < 0 then ''-'' @ digits 6 (- y) else ''+'' @ digits 6 y)"

definition iso_string :: "int \<Rightarrow> string" where
  "iso_string t =
     (let (y, m, d) = civil_of_days (t div 86400000); ms = t mod 86400000 in
      year_str y @ ''-'' @ digits 2 m @ ''-'' @ digits 2 d @ ''T'' @ digits 2 (ms div 3600000) @ '':'' @
      digits 2 (ms div 60000 mod 60) @ '':'' @ digits 2 (ms div 1000 mod 60) @ ''.'' @ digits 3 (ms mod 1000) @ ''Z'')"

section \<open>Classes of characters\<close>

definition lower_alnum :: "char \<Rightarrow> bool" where
  "lower_alnum c = (is_digit c \<or> (97 \<le> (of_char c :: nat) \<and> (of_char c :: nat) \<le> 122))"

definition alnum :: "char \<Rightarrow> bool" where
  "alnum c = (lower_alnum c \<or> (65 \<le> (of_char c :: nat) \<and> (of_char c :: nat) \<le> 90))"

definition crockford :: "char \<Rightarrow> bool" where
  "crockford c = (c \<in> set ''0123456789ABCDEFGHJKMNPQRSTVWXYZ'')"

end
