(* ===== verification/JsRegex.thy ===== *)
theory JsRegex
  imports Bearer
begin

text \<open>
  Regular expressions as JavaScript matches them: the constructs the Notes service uses, a
  backtracking matcher that lists where a match may end in the order of preference, the search for
  the leftmost match, and the replacement of all of them. \<open>rx_matches\<close> says what a match is without
  any order; \<open>ends_iff\<close> and \<open>exec_None\<close> relate the two.

  A position is the character before it and the text after it. A quantifier is greedy, and an
  iteration beyond the minimum has to consume something, as in ECMAScript.
\<close>

section \<open>Expressions\<close>

datatype rx = Nothing | Chr "char \<Rightarrow> bool" | Edge | Cat rx rx | Alt rx rx | Rep nat "nat option" rx

type_synonym pos = "char option \<times> string"

fun lit :: "string \<Rightarrow> rx" where
  "lit [] = Nothing"
| "lit [c] = Chr (\<lambda>d. d = c)"
| "lit (c # s) = Cat (Chr (\<lambda>d. d = c)) (lit s)"

text \<open>A literal under the flag \<open>i\<close>, given in lower case.\<close>

fun ilit :: "string \<Rightarrow> rx" where
  "ilit [] = Nothing"
| "ilit [c] = Chr (\<lambda>d. lower_char d = c)"
| "ilit (c # s) = Cat (Chr (\<lambda>d. lower_char d = c)) (ilit s)"

fun cats :: "rx list \<Rightarrow> rx" where
  "cats [] = Nothing"
| "cats [r] = r"
| "cats (r # rs) = Cat r (cats rs)"

fun alts :: "rx \<Rightarrow> rx list \<Rightarrow> rx" where
  "alts r [] = r"
| "alts r (s # rs) = Alt r (alts s rs)"

abbreviation star :: "rx \<Rightarrow> rx" where "star r \<equiv> Rep 0 None r"

abbreviation maybe :: "rx \<Rightarrow> rx" where "maybe r \<equiv> Rep 0 (Some 1) r"

definition word_char :: "char \<Rightarrow> bool" where
  "word_char c = (alnum c \<or> c = CHR ''_'')"

definition at_edge :: "char option \<Rightarrow> string \<Rightarrow> bool" where
  "at_edge p s =
     ((case p of None \<Rightarrow> False | Some c \<Rightarrow> word_char c) \<noteq> (case s of [] \<Rightarrow> False | c # _ \<Rightarrow> word_char c))"

definition last_of :: "char option \<Rightarrow> string \<Rightarrow> char option" where
  "last_of p u = (if u = [] then p else Some (last u))"

section \<open>The matcher\<close>

fun greedy :: "(pos \<Rightarrow> pos list) \<Rightarrow> nat \<Rightarrow> nat \<Rightarrow> nat option \<Rightarrow> pos \<Rightarrow> pos list" where
  "greedy f 0 lo hi x = (if lo = 0 then [x] else [])"
| "greedy f (Suc n) lo hi x =
     (if hi = Some 0 then [x] else
      concat (map (\<lambda>y. if lo = 0 \<and> snd y = snd x then []
                       else greedy f n (lo - 1) (map_option (\<lambda>h. h - 1) hi) y) (f x)) @
      (if lo = 0 then [x] else []))"

fun ends :: "rx \<Rightarrow> pos \<Rightarrow> pos list" where
  "ends Nothing x = [x]"
| "ends (Chr p) (q, s) = (case s of [] \<Rightarrow> [] | c # t \<Rightarrow> if p c then [(Some c, t)] else [])"
| "ends Edge (q, s) = (if at_edge q s then [(q, s)] else [])"
| "ends (Cat a b) x = concat (map (ends b) (ends a x))"
| "ends (Alt a b) x = ends a x @ ends b x"
| "ends (Rep lo hi r) x = greedy (ends r) (lo + length (snd x)) lo hi x"

text \<open>The leftmost match: the text before it, the match, the position after it.\<close>

fun exec :: "rx \<Rightarrow> char option \<Rightarrow> string \<Rightarrow> (string \<times> string \<times> pos) option" where
  "exec r q s =
     (case ends r (q, s) of
        (p, t) # _ \<Rightarrow> Some ([], take (length s - length t) s, (p, t))
      | [] \<Rightarrow> (case s of
            [] \<Rightarrow> None
          | c # t \<Rightarrow> map_option (\<lambda>(b, m, x). (c # b, m, x)) (exec r (Some c) t)))"

declare exec.simps [simp del]

definition rx_test :: "rx \<Rightarrow> string \<Rightarrow> bool" where
  "rx_test r s = (exec r None s \<noteq> None)"

text \<open>\<open>s.replace(re, rep)\<close> with the flag \<open>g\<close>, and the successive matches of \<open>exec\<close>, for an expression that
  matches no empty text: one round per character is enough.\<close>

fun replace_all :: "nat \<Rightarrow> rx \<Rightarrow> string \<Rightarrow> pos \<Rightarrow> string" where
  "replace_all 0 r rep x = snd x"
| "replace_all (Suc n) r rep x =
     (case exec r (fst x) (snd x) of
        None \<Rightarrow> snd x
      | Some (b, m, y) \<Rightarrow> b @ rep @ replace_all n r rep y)"

fun all_matches :: "nat \<Rightarrow> rx \<Rightarrow> pos \<Rightarrow> string list" where
  "all_matches 0 r x = []"
| "all_matches (Suc n) r x =
     (case exec r (fst x) (snd x) of
        None \<Rightarrow> []
      | Some (b, m, y) \<Rightarrow> m # all_matches n r y)"

definition js_replace :: "rx \<Rightarrow> string \<Rightarrow> string \<Rightarrow> string" where
  "js_replace r rep s = replace_all (length s) r rep (None, s)"

definition js_matches :: "rx \<Rightarrow> string \<Rightarrow> string list" where
  "js_matches r s = all_matches (length s) r (None, s)"

section \<open>What a match is\<close>

text \<open>\<open>rx_matches r p u s\<close>: the text \<open>u\<close>, with \<open>p\<close> before it and \<open>s\<close> after it, is a match.\<close>

inductive rx_matches :: "rx \<Rightarrow> char option \<Rightarrow> string \<Rightarrow> string \<Rightarrow> bool" where
  m_nothing: "rx_matches Nothing p [] s"
| m_chr: "P c \<Longrightarrow> rx_matches (Chr P) p [c] s"
| m_edge: "at_edge p s \<Longrightarrow> rx_matches Edge p [] s"
| m_cat: "rx_matches a p u (v @ s) \<Longrightarrow> rx_matches b (last_of p u) v s \<Longrightarrow> rx_matches (Cat a b) p (u @ v) s"
| m_altl: "rx_matches a p u s \<Longrightarrow> rx_matches (Alt a b) p u s"
| m_altr: "rx_matches b p u s \<Longrightarrow> rx_matches (Alt a b) p u s"
| m_stop: "rx_matches (Rep 0 hi r) p [] s"
| m_more: "hi \<noteq> Some 0 \<Longrightarrow> rx_matches r p u (v @ s) \<Longrightarrow>
     rx_matches (Rep (lo - 1) (map_option (\<lambda>h. h - 1) hi) r) (last_of p u) v s \<Longrightarrow>
     rx_matches (Rep lo hi r) p (u @ v) s"

inductive_cases chr_matchE: "rx_matches (Chr P) p u s"
inductive_cases nothing_matchE: "rx_matches Nothing p u s"
inductive_cases edge_matchE: "rx_matches Edge p u s"
inductive_cases cat_matchE: "rx_matches (Cat a b) p u s"
inductive_cases alt_matchE: "rx_matches (Alt a b) p u s"
inductive_cases rep_matchE: "rx_matches (Rep lo hi r) p u s"

lemma last_of_simps [simp]:
  "last_of p [] = p" "last_of p (u @ v) = last_of (last_of p u) v" "last_of p [c] = Some c"
  by (simp_all add: last_of_def)

text \<open>What an expression's list of ends has to satisfy, so that its repetitions do.\<close>

definition lists_ends :: "rx \<Rightarrow> (pos \<Rightarrow> pos list) \<Rightarrow> bool" where
  "lists_ends r f = (\<forall>p t q s. (q, s) \<in> set (f (p, t)) \<longleftrightarrow> (\<exists>u. t = u @ s \<and> q = last_of p u \<and> rx_matches r p u s))"

lemma lists_endsD:
  "lists_ends r f \<Longrightarrow> (q, s) \<in> set (f (p, t)) \<Longrightarrow> \<exists>u. t = u @ s \<and> q = last_of p u \<and> rx_matches r p u s"
  unfolding lists_ends_def by blast

lemma lists_endsI:
  "lists_ends r f \<Longrightarrow> rx_matches r p u s \<Longrightarrow> (last_of p u, s) \<in> set (f (p, u @ s))"
  unfolding lists_ends_def by blast

lemma greedy_sound:
  assumes f: "lists_ends r f"
  shows "(q, s) \<in> set (greedy f n lo hi (p, t)) \<Longrightarrow> (case hi of None \<Rightarrow> True | Some h \<Rightarrow> lo \<le> h) \<Longrightarrow>
    \<exists>u. t = u @ s \<and> q = last_of p u \<and> rx_matches (Rep lo hi r) p u s"
proof (induction n arbitrary: lo hi p t)
  case 0
  then have "lo = 0" "q = p" "s = t" by (auto split: if_splits)
  then show ?case by (auto intro: m_stop)
next
  case (Suc n)
  show ?case
  proof (cases "hi = Some 0 \<or> (lo = 0 \<and> (q, s) = (p, t))")
    case True
    with Suc.prems have "lo = 0" "q = p" "s = t" by auto
    then show ?thesis by (auto intro: m_stop)
  next
    case False
    with Suc.prems(1) obtain p' t' where y: "(p', t') \<in> set (f (p, t))"
      and g: "(q, s) \<in> set (greedy f n (lo - 1) (map_option (\<lambda>h. h - 1) hi) (p', t'))"
      by (auto split: if_splits)
    from y f obtain u where u: "t = u @ t'" "p' = last_of p u" "rx_matches r p u t'"
      unfolding lists_ends_def by blast
    have "case map_option (\<lambda>h. h - 1) hi of None \<Rightarrow> True | Some h \<Rightarrow> lo - 1 \<le> h"
      using Suc.prems(2) by (auto split: option.splits)
    from Suc.IH [OF g this] obtain v where v: "t' = v @ s" "q = last_of p' v"
      "rx_matches (Rep (lo - 1) (map_option (\<lambda>h. h - 1) hi) r) p' v s" by blast
    have "rx_matches (Rep lo hi r) p (u @ v) s"
      using False u v by (intro m_more) auto
    with u v show ?thesis by auto
  qed
qed

text \<open>A bound more, or an empty iteration that is left out, loses no match.\<close>

lemma greedy_hi:
  "y \<in> set (greedy f n 0 (map_option (\<lambda>h. h - 1) hi) x) \<Longrightarrow> y \<in> set (greedy f n 0 hi x)"
proof (induction n arbitrary: hi x)
  case 0
  then show ?case by simp
next
  case (Suc n)
  show ?case
  proof (cases hi)
    case None
    with Suc.prems show ?thesis by simp
  next
    case (Some h)
    show ?thesis
    proof (cases "h \<le> 1")
      case True
      with Suc.prems Some show ?thesis by (cases "h = 0") auto
    next
      case False
      with Suc.prems Some obtain z where "y = x \<or> (z \<in> set (f x) \<and> snd z \<noteq> snd x \<and>
          y \<in> set (greedy f n 0 (map_option (\<lambda>h. h - 1) (Some (h - 1))) z))"
        by (auto split: if_splits)
      with Suc.IH [of "Some (h - 1)" z] Some False show ?thesis by (auto split: if_splits intro!: bexI)
    qed
  qed
qed

lemma greedy_complete:
  assumes f: "lists_ends r f"
  shows "rx_matches (Rep lo hi r) p u s \<Longrightarrow> lo + length u \<le> n \<Longrightarrow> (last_of p u, s) \<in> set (greedy f n lo hi (p, u @ s))"
proof (induction "Rep lo hi r" p u s arbitrary: lo hi n rule: rx_matches.induct)
  case (m_stop hi p s)
  then show ?case by (cases n) auto
next
  case (m_more hi p u v s lo)
  have y: "(last_of p u, v @ s) \<in> set (f (p, u @ v @ s))"
    using f m_more.hyps(2) unfolding lists_ends_def by blast
  show ?case
  proof (cases "lo = 0 \<and> u = []")
    case True
    then have "(last_of p v, s) \<in> set (greedy f n 0 (map_option (\<lambda>h. h - 1) hi) (p, v @ s))"
      using m_more.hyps(5) [of n] m_more.prems by simp
    with True show ?thesis by (simp add: greedy_hi)
  next
    case False
    with m_more.prems obtain m where n: "n = Suc m" by (cases n) auto
    have "(last_of (last_of p u) v, s) \<in> set (greedy f m (lo - 1) (map_option (\<lambda>h. h - 1) hi) (last_of p u, v @ s))"
      using m_more.hyps(5) [of m] m_more.prems False n by (cases lo; cases u) auto
    with y False m_more.hyps(1) n show ?thesis
      by (auto intro!: bexI [of _ "(last_of p u, v @ s)"])
  qed
qed

text \<open>Every bound of a repetition is at least its minimum.\<close>

fun well_bounded :: "rx \<Rightarrow> bool" where
  "well_bounded (Cat a b) = (well_bounded a \<and> well_bounded b)"
| "well_bounded (Alt a b) = (well_bounded a \<and> well_bounded b)"
| "well_bounded (Rep lo hi r) = ((case hi of None \<Rightarrow> True | Some h \<Rightarrow> lo \<le> h) \<and> well_bounded r)"
| "well_bounded _ = True"

lemma ends_lists: "well_bounded r \<Longrightarrow> lists_ends r (ends r)"
proof (induction r)
  case Nothing
  show ?case unfolding lists_ends_def by (auto intro: m_nothing elim: nothing_matchE)
next
  case (Chr P)
  show ?case unfolding lists_ends_def
    by (auto split: list.splits if_splits intro: m_chr elim: chr_matchE)
next
  case Edge
  show ?case unfolding lists_ends_def by (auto intro: m_edge elim: edge_matchE)
next
  case (Cat a b)
  then have ab: "lists_ends a (ends a)" "lists_ends b (ends b)" by simp_all
  show ?case unfolding lists_ends_def
  proof (intro allI iffI)
    fix p t q s
    assume "(q, s) \<in> set (ends (Cat a b) (p, t))"
    then obtain p' t' where e: "(p', t') \<in> set (ends a (p, t))" "(q, s) \<in> set (ends b (p', t'))" by auto
    from lists_endsD [OF ab(1) e(1)] obtain u where u: "t = u @ t'" "p' = last_of p u" "rx_matches a p u t'" by blast
    from lists_endsD [OF ab(2) e(2)] obtain v where v: "t' = v @ s" "q = last_of p' v" "rx_matches b p' v s" by blast
    with u have "rx_matches (Cat a b) p (u @ v) s" by (intro m_cat) simp_all
    with u v show "\<exists>u. t = u @ s \<and> q = last_of p u \<and> rx_matches (Cat a b) p u s"
      by (intro exI [of _ "u @ v"]) simp
  next
    fix p t q s
    assume "\<exists>u. t = u @ s \<and> q = last_of p u \<and> rx_matches (Cat a b) p u s"
    then obtain u v where uv: "t = (u @ v) @ s" "q = last_of p (u @ v)"
      "rx_matches a p u (v @ s)" "rx_matches b (last_of p u) v s"
      by (auto elim: cat_matchE)
    with ab have "(last_of p u, v @ s) \<in> set (ends a (p, t))" "(q, s) \<in> set (ends b (last_of p u, v @ s))"
      unfolding lists_ends_def by auto
    then show "(q, s) \<in> set (ends (Cat a b) (p, t))" by auto
  qed
next
  case (Alt a b)
  then have ab: "lists_ends a (ends a)" "lists_ends b (ends b)" by simp_all
  then show ?case unfolding lists_ends_def
    by (auto intro: m_altl m_altr elim!: alt_matchE)
next
  case (Rep lo hi r)
  then have r: "lists_ends r (ends r)" and b: "case hi of None \<Rightarrow> True | Some h \<Rightarrow> lo \<le> h" by simp_all
  show ?case unfolding lists_ends_def
    using greedy_sound [OF r _ b] greedy_complete [OF r] by auto
qed

lemma ends_iff:
  "well_bounded r \<Longrightarrow>
   (q, s) \<in> set (ends r (p, t)) \<longleftrightarrow> (\<exists>u. t = u @ s \<and> q = last_of p u \<and> rx_matches r p u s)"
  using ends_lists unfolding lists_ends_def by blast

lemma ends_Nil: "well_bounded r \<Longrightarrow> ends r (p, t) = [] \<longleftrightarrow> (\<nexists>u s. t = u @ s \<and> rx_matches r p u s)"
  by (metis (no_types, lifting) ends_iff list.set_intros(1) neq_Nil_conv empty_iff list.set(1) surj_pair)

text \<open>The search finds nothing exactly when no factor of the text is a match where it stands.\<close>

lemma exec_None:
  assumes "well_bounded r"
  shows "exec r p t = None \<longleftrightarrow> (\<nexists>b u s. t = b @ u @ s \<and> rx_matches r (last_of p b) u s)"
proof (induction t arbitrary: p)
  case Nil
  show ?case using ends_Nil [OF assms, of p "[]"]
    by (subst exec.simps) (auto split: list.splits)
next
  case (Cons c t)
  have "exec r p (c # t) = None \<longleftrightarrow> ends r (p, c # t) = [] \<and> exec r (Some c) t = None"
    by (subst exec.simps) (auto split: list.splits)
  also have "\<dots> \<longleftrightarrow> (\<nexists>b u s. c # t = b @ u @ s \<and> rx_matches r (last_of p b) u s)" (is "?L \<longleftrightarrow> ?R")
  proof
    assume ?L
    then have 1: "\<nexists>u s. c # t = u @ s \<and> rx_matches r p u s"
      and 2: "\<nexists>b u s. t = b @ u @ s \<and> rx_matches r (last_of (Some c) b) u s"
      unfolding ends_Nil [OF assms] Cons.IH by (rule conjunct1, rule conjunct2)
    show ?R
    proof (intro notI, elim exE conjE)
      fix b u s assume t: "c # t = b @ u @ s" and m: "rx_matches r (last_of p b) u s"
      show False
      proof (cases b)
        case Nil
        with t m 1 show False by auto
      next
        case (Cons d b')
        with t m have "t = b' @ u @ s" "rx_matches r (last_of (Some c) b') u s"
          by (auto simp: last_of_def split: if_splits)
        with 2 show False by blast
      qed
    qed
  next
    assume r: ?R
    have "\<nexists>u s. c # t = u @ s \<and> rx_matches r p u s"
    proof (intro notI, elim exE conjE)
      fix u s assume "c # t = u @ s" "rx_matches r p u s"
      with r show False by (metis append_Nil last_of_simps(1))
    qed
    moreover have "\<nexists>b u s. t = b @ u @ s \<and> rx_matches r (last_of (Some c) b) u s"
    proof (intro notI, elim exE conjE)
      fix b u s assume "t = b @ u @ s" "rx_matches r (last_of (Some c) b) u s"
      then have "c # t = (c # b) @ u @ s" "rx_matches r (last_of p (c # b)) u s" by (auto simp: last_of_def split: if_splits)
      with r show False by blast
    qed
    ultimately show ?L unfolding ends_Nil [OF assms] Cons.IH by (rule conjI)
  qed
  finally show ?case .
qed

end
