(* ===== verification/NotesTypes.thy ===== *)
theory NotesTypes
  imports JsRegex
begin

text \<open>
  The vocabulary of the Notes service (\<open>src/apps/notes/server/src/constants.js\<close>, \<open>errors.js\<close>,
  \<open>identifiers.js\<close>, \<open>config.js\<close>) and the provenance taint (\<open>storage/taint.js\<close>). Texts are UTF-8 bytes:
  what the code does character by character is exact on ASCII.
\<close>

section \<open>Vocabulary\<close>

definition note_types :: "string list" where
  "note_types = [''research'', ''plan'', ''retro'', ''deliberation'', ''checkpoint'', ''general'']"

definition ceremony_phases :: "string list" where
  "ceremony_phases = [''triage'', ''recon'', ''planning'', ''adversarial_review'', ''backlog'', ''execute'', ''retro'']"

definition provenances :: "string list" where
  "provenances = [''agent'', ''operator'', ''host_originated'', ''external'']"

datatype nscope = NotesRead | NotesSearch | NotesAppend | NotesWrite

fun nscope_str :: "nscope \<Rightarrow> string" where
  "nscope_str NotesRead = ''notes:read''"
| "nscope_str NotesSearch = ''notes:search''"
| "nscope_str NotesAppend = ''notes:append''"
| "nscope_str NotesWrite = ''notes:write''"

definition canonical_frontmatter :: "string list" where
  "canonical_frontmatter = [''id'', ''type'', ''title'', ''created'', ''updated'', ''ticket'', ''tags'', ''links'',
     ''participants'', ''provenance'', ''provenance_taint'', ''authored_by'']"

definition display_only_frontmatter :: "string list" where
  "display_only_frontmatter = [''ceremony_phase_display'', ''ticket_status_display'']"

section \<open>Errors\<close>

datatype ncode = NotFound | Validation | PreconditionHash | StaleFence | FenceRequired | FenceUnverifiable
  | TaintDowngrade | HygieneReject | TicketUnknown | AlreadyApplied | SectionUnknown | TooLarge

fun ncode_str :: "ncode \<Rightarrow> string" where
  "ncode_str NotFound = ''NOT_FOUND''" | "ncode_str Validation = ''VALIDATION''"
| "ncode_str PreconditionHash = ''PRECONDITION_HASH''" | "ncode_str StaleFence = ''STALE_FENCE''"
| "ncode_str FenceRequired = ''FENCE_REQUIRED''" | "ncode_str FenceUnverifiable = ''FENCE_UNVERIFIABLE''"
| "ncode_str TaintDowngrade = ''TAINT_DOWNGRADE''" | "ncode_str HygieneReject = ''HYGIENE_REJECT''"
| "ncode_str TicketUnknown = ''TICKET_UNKNOWN''" | "ncode_str AlreadyApplied = ''ALREADY_APPLIED''"
| "ncode_str SectionUnknown = ''SECTION_UNKNOWN''" | "ncode_str TooLarge = ''TOO_LARGE''"

fun ncode_http :: "ncode \<Rightarrow> nat" where
  "ncode_http NotFound = 404" | "ncode_http Validation = 400" | "ncode_http PreconditionHash = 409"
| "ncode_http StaleFence = 409" | "ncode_http FenceRequired = 400" | "ncode_http FenceUnverifiable = 503"
| "ncode_http TaintDowngrade = 422" | "ncode_http HygieneReject = 422" | "ncode_http TicketUnknown = 422"
| "ncode_http AlreadyApplied = 200" | "ncode_http SectionUnknown = 400" | "ncode_http TooLarge = 413"

text \<open>
  What a call may throw: a \<open>BusinessError\<close> with its code and details (the message is left out), an
  \<open>AuthError\<close> with its status and code, a value the database binding refuses, a \<open>TypeError\<close>, or an
  error of the file system or of git.
\<close>

datatype nexn = NBiz ncode "(string \<times> json) list" | NAuth nat string | NBind | NType | NIo

abbreviation nerr :: "ncode \<Rightarrow> nexn" where "nerr c \<equiv> NBiz c []"

fun nexn_status :: "nexn \<Rightarrow> nat" where
  "nexn_status (NBiz c _) = ncode_http c"
| "nexn_status (NAuth s _) = s"
| "nexn_status _ = 500"

section \<open>Identifiers\<close>

text \<open>\<open>NOTE_ID_RE\<close> and \<open>TICKET_ID_RE\<close>.\<close>

definition is_note_id :: "string \<Rightarrow> bool" where
  "is_note_id s = (starts_with ''N-'' s \<and> length s = 28 \<and> list_all crockford (drop 2 s))"

definition is_ticket_shape :: "json option \<Rightarrow> bool" where
  "is_ticket_shape v =
     (case v of Some (JStr s) \<Rightarrow> starts_with ''T-'' s \<and> drop 2 s \<noteq> [] \<and> list_all is_digit (drop 2 s) | _ \<Rightarrow> False)"

definition is_note_json :: "json option \<Rightarrow> bool" where
  "is_note_json v = (case v of Some (JStr s) \<Rightarrow> is_note_id s | _ \<Rightarrow> False)"

definition json_text :: "json option \<Rightarrow> string" where
  "json_text v = (case v of Some (JStr s) \<Rightarrow> s | _ \<Rightarrow> [])"

text \<open>\<open>slugify\<close>: every run of other characters becomes one hyphen.\<close>

fun hyphenate :: "bool \<Rightarrow> string \<Rightarrow> string" where
  "hyphenate run [] = []"
| "hyphenate run (c # s) =
     (if lower_alnum c then c # hyphenate False s
      else if run then hyphenate True s else CHR ''-'' # hyphenate True s)"

definition strip_hyphens :: "string \<Rightarrow> string" where
  "strip_hyphens s = rev (dropWhile (\<lambda>c. c = CHR ''-'') (rev (dropWhile (\<lambda>c. c = CHR ''-'') s)))"

definition slugify :: "string \<Rightarrow> string" where
  "slugify title =
     (let base = take 60 (strip_hyphens (hyphenate False (map lower_char title))) in
      if base = [] then ''untitled'' else base)"

section \<open>Provenance taint\<close>

text \<open>
  A table of the code is an object, so a key that names a member of \<open>Object.prototype\<close> reads that
  member, which is no number: a rank is a number or the text such a member compares as. Two
  numbers and two texts compare by size, a number and such a text never (NaN).
\<close>

datatype trank = Rank int | Member string

definition object_members :: "(string \<times> string) list" where
  "object_members =
     (''__proto__'', ''[object Object]'') # (''constructor'', ''function Object() { [native code] }'') #
     map (\<lambda>n. (n, ''function '' @ n @ ''() { [native code] }''))
       [''toString'', ''valueOf'', ''hasOwnProperty'', ''isPrototypeOf'', ''propertyIsEnumerable'', ''toLocaleString'',
        ''__defineGetter__'', ''__defineSetter__'', ''__lookupGetter__'', ''__lookupSetter__'']"

text \<open>The key under which \<open>table[v]\<close> looks; an absent value reads the member \<open>undefined\<close>.\<close>

definition key_text :: "json option \<Rightarrow> string" where
  "key_text v = (case v of None \<Rightarrow> ''undefined'' | Some j \<Rightarrow> js_string j)"

definition taint_rank :: "json option \<Rightarrow> trank" where
  "taint_rank t =
     (let k = key_text t in
      if k = ''clean'' then Rank 0
      else if k = ''host_originated'' then Rank 1
      else case map_of object_members k of Some m \<Rightarrow> Member m | None \<Rightarrow> Rank 0)"

fun rank_ge :: "trank \<Rightarrow> trank \<Rightarrow> bool" where
  "rank_ge (Rank a) (Rank b) = (b \<le> a)"
| "rank_ge (Member a) (Member b) = (b \<le> a)"
| "rank_ge _ _ = False"

fun rank_lt :: "trank \<Rightarrow> trank \<Rightarrow> bool" where
  "rank_lt (Rank a) (Rank b) = (a < b)"
| "rank_lt (Member a) (Member b) = (a < b)"
| "rank_lt _ _ = False"

definition max_taint :: "json \<Rightarrow> json \<Rightarrow> json" where
  "max_taint a b = (if rank_ge (taint_rank (Some a)) (taint_rank (Some b)) then a else b)"

definition is_downgrade :: "json \<Rightarrow> json \<Rightarrow> bool" where
  "is_downgrade current next' = rank_lt (taint_rank (Some next')) (taint_rank (Some current))"

definition clean :: json where "clean = JStr ''clean''"

definition host_originated :: json where "host_originated = JStr ''host_originated''"

text \<open>A member of \<open>Object.prototype\<close> as a floor is no text: the database takes it as little as an object,
  and its rank is that of an object, so it is \<open>JObj []\<close> here.\<close>

definition floor_for_provenance :: "json option \<Rightarrow> json" where
  "floor_for_provenance p =
     (let k = key_text p in
      if k \<in> set [''agent'', ''operator'', ''external''] then clean
      else if k = ''host_originated'' then host_originated
      else case map_of object_members k of Some _ \<Rightarrow> JObj [] | None \<Rightarrow> clean)"

text \<open>\<open>x || d\<close>\<close>

definition or_else :: "json option \<Rightarrow> json \<Rightarrow> json" where
  "or_else x d = (if js_truthy x then the x else d)"

definition resolve_own_taint :: "json \<Rightarrow> json \<Rightarrow> json option \<Rightarrow> json" where
  "resolve_own_taint existing fl declared =
     (let t = max_taint existing fl in
      if js_truthy declared then max_taint t (the declared) else t)"

definition taint_from_provenance :: "json option \<Rightarrow> json option" where
  "taint_from_provenance p =
     (if \<not> js_truthy p then None
      else if floor_for_provenance p = host_originated then Some host_originated else None)"

lemma rank_clean [simp]: "taint_rank (Some clean) = Rank 0"
  by (simp add: taint_rank_def clean_def key_text_def)

lemma rank_host [simp]: "taint_rank (Some host_originated) = Rank 1"
  by (simp add: taint_rank_def host_originated_def key_text_def)

lemma rank_pos: "rank_lt (Rank 0) (taint_rank t) \<longleftrightarrow> key_text t = ''host_originated''"
  by (simp add: taint_rank_def Let_def split: option.splits)

lemma rank_le_1: "taint_rank t = Rank n \<Longrightarrow> 0 \<le> n \<and> n \<le> 1"
  by (auto simp: taint_rank_def Let_def split: if_splits option.splits)

section \<open>Configuration and world\<close>

record nconfig =
  nc_dev :: bool
  nc_corpus :: string
  nc_remote_url :: "string option"
  nc_lag_alarm :: int
  nc_debounce :: int
  nc_max_bytes :: nat
  nc_ceiling :: nat

text \<open>
  What the service takes from elsewhere: SHA-256 and the salted HMAC in hexadecimal, \<open>yaml.load\<close>
  (\<open>None\<close> when it throws) and \<open>yaml.dump\<close> of js-yaml, the commit message as isomorphic-git stores it,
  and the matches of an FTS5 expression among the notes, given as (id, title, body): their ids with snippet
  and score, best first, \<open>None\<close> when SQLite refuses the expression. A YAML value is read as a JSON value.
\<close>

record nworld =
  nw_sha :: "string \<Rightarrow> string"
  nw_hmac :: "string \<Rightarrow> string"
  nw_yload :: "string \<Rightarrow> json option"
  nw_ydump :: "(string \<times> json) list \<Rightarrow> string"
  nw_message :: "string \<Rightarrow> string"
  nw_fts :: "string \<Rightarrow> (string \<times> string option \<times> string) list \<Rightarrow> (string \<times> string \<times> json) list option"

section \<open>Number(v)\<close>

text \<open>
  The integer a value converts to, \<open>None\<close> when it is NaN, infinite or not an integer. A numeral is white
  space around a sign, digits with a point, and an exponent, or \<open>0x\<close>, \<open>0o\<close>, \<open>0b\<close> and digits of that base.
\<close>

definition digit_in :: "nat \<Rightarrow> char \<Rightarrow> nat option" where
  "digit_in base c =
     (let n = (of_char (lower_char c) :: nat);
          d = (if is_digit c then n - 48 else if 97 \<le> n \<and> n \<le> 122 then n - 87 else 99)
      in if d < base then Some d else None)"

fun base_digits :: "nat \<Rightarrow> int \<Rightarrow> string \<Rightarrow> int option" where
  "base_digits base acc [] = Some acc"
| "base_digits base acc (c # s) =
     (case digit_in base c of None \<Rightarrow> None | Some d \<Rightarrow> base_digits base (acc * int base + int d) s)"

definition some_digits :: "nat \<Rightarrow> string \<Rightarrow> int option" where
  "some_digits base s = (if s = [] then None else base_digits base 0 s)"

definition split_sign :: "string \<Rightarrow> int \<times> string" where
  "split_sign s = (case s of c # t \<Rightarrow> if c = CHR ''-'' then (- 1, t) else if c = CHR ''+'' then (1, t) else (1, s) | [] \<Rightarrow> (1, s))"

text \<open>\<open>m * 10 ^ e\<close>, if it is an integer.\<close>

definition scaled :: "int \<Rightarrow> int \<Rightarrow> int option" where
  "scaled m e =
     (if 0 \<le> e then Some (m * 10 ^ nat e)
      else if m mod 10 ^ nat (- e) = 0 then Some (m div 10 ^ nat (- e)) else None)"

definition decimal_number :: "string \<Rightarrow> int option" where
  "decimal_number s =
     (let (sg, t) = split_sign s;
          mant = takeWhile (\<lambda>c. lower_char c \<noteq> CHR ''e'') t;
          rest = drop (length mant) t;
          whole = takeWhile is_digit mant;
          frac = drop (length whole) mant;
          fdigits = (if frac = [] then [] else drop 1 frac);
          (esg, edigits) = split_sign (drop 1 rest)
      in if (frac \<noteq> [] \<and> hd frac \<noteq> CHR ''.'') \<or> \<not> list_all is_digit fdigits \<or> whole @ fdigits = [] \<or>
            (rest \<noteq> [] \<and> (edigits = [] \<or> \<not> list_all is_digit edigits)) then None
         else map_option (\<lambda>n. sg * n)
           (scaled (int (digits_val (whole @ fdigits)))
              ((if rest = [] then 0 else esg * int (digits_val edigits)) - int (length fdigits))))"

definition number_of_text :: "string \<Rightarrow> int option" where
  "number_of_text s =
     (let t = trim s; p = map lower_char (take 2 t) in
      if t = [] then Some 0
      else if p = ''0x'' then some_digits 16 (drop 2 t)
      else if p = ''0o'' then some_digits 8 (drop 2 t)
      else if p = ''0b'' then some_digits 2 (drop 2 t)
      else decimal_number t)"

fun number_of :: "json option \<Rightarrow> int option" where
  "number_of None = None"
| "number_of (Some JNull) = Some 0"
| "number_of (Some (JBool b)) = Some (if b then 1 else 0)"
| "number_of (Some (JNum n)) = Some n"
| "number_of (Some (JStr s)) = number_of_text s"
| "number_of (Some (JArr xs)) = number_of_text (js_string (JArr xs))"
| "number_of (Some (JObj _)) = None"

end
