(* ===== verification/DriveTypes.thy ===== *)
theory DriveTypes
  imports NotesTypes
begin

text \<open>
  The vocabulary of Drive (\<open>src/apps/drive/src\<close>): \<open>lib/errors.ts\<close>, \<open>lib/principal.ts\<close>, \<open>lib/ids.ts\<close>,
  \<open>config.ts\<close>, and the sniffing of content types (\<open>lib/mime.ts\<close>). A file is the string of its bytes.
\<close>

section \<open>Errors\<close>

datatype dcode = DMalformed | DFencingRequired | DStaleFencing | DTicketNotFound | DUploadExpired | DUploadState
  | DNotOwner | DOverSize | DTypeRejected | DQuota | DWatermark | DNotFound | DConflict | DForbidden
  | DUnauthenticated | DInsufficientScope

fun dcode_str :: "dcode \<Rightarrow> string" where
  "dcode_str DMalformed = ''MALFORMED_ID''" | "dcode_str DFencingRequired = ''FENCING_REQUIRED''"
| "dcode_str DStaleFencing = ''STALE_FENCING''" | "dcode_str DTicketNotFound = ''TICKET_NOT_FOUND''"
| "dcode_str DUploadExpired = ''UPLOAD_EXPIRED''" | "dcode_str DUploadState = ''UPLOAD_STATE''"
| "dcode_str DNotOwner = ''NOT_OWNER''" | "dcode_str DOverSize = ''OVER_SIZE_CAP''"
| "dcode_str DTypeRejected = ''TYPE_REJECTED''" | "dcode_str DQuota = ''QUOTA_EXHAUSTED''"
| "dcode_str DWatermark = ''DISK_WATERMARK''" | "dcode_str DNotFound = ''NOT_FOUND''"
| "dcode_str DConflict = ''CONFLICT''" | "dcode_str DForbidden = ''FORBIDDEN''"
| "dcode_str DUnauthenticated = ''UNAUTHENTICATED''" | "dcode_str DInsufficientScope = ''INSUFFICIENT_SCOPE''"

fun dcode_http :: "dcode \<Rightarrow> nat" where
  "dcode_http DMalformed = 400" | "dcode_http DFencingRequired = 409" | "dcode_http DStaleFencing = 409"
| "dcode_http DTicketNotFound = 422" | "dcode_http DUploadExpired = 409" | "dcode_http DUploadState = 409"
| "dcode_http DNotOwner = 403" | "dcode_http DOverSize = 413" | "dcode_http DTypeRejected = 415"
| "dcode_http DQuota = 429" | "dcode_http DWatermark = 507" | "dcode_http DNotFound = 404"
| "dcode_http DConflict = 409" | "dcode_http DForbidden = 403" | "dcode_http DUnauthenticated = 401"
| "dcode_http DInsufficientScope = 403"

text \<open>
  What a call may throw: a \<open>DriveError\<close> with its code and detail (the message is left out), a constraint
  of SQLite, a \<open>TypeError\<close>, an error of the file system.
\<close>

datatype dexn = DErr dcode "(string \<times> json) list" | DSqlite | DTypeError | DFile

abbreviation derr :: "dcode \<Rightarrow> dexn" where "derr c \<equiv> DErr c []"

fun dexn_status :: "dexn \<Rightarrow> nat" where
  "dexn_status (DErr c _) = dcode_http c"
| "dexn_status _ = 500"

section \<open>Principals and identifiers\<close>

datatype dkind = DAgent | DService | DHuman | DAnonymous

definition kind_of_sub :: "string \<Rightarrow> dkind" where
  "kind_of_sub s = (if starts_with ''agent:'' s then DAgent else if starts_with ''svc:'' s then DService
     else if starts_with ''op:'' s then DHuman else DAnonymous)"

record dprincipal =
  dp_sub :: string
  dp_scopes :: "string list"
  dp_identity :: bool

definition dp_kind :: "dprincipal \<Rightarrow> dkind" where
  "dp_kind p = kind_of_sub (dp_sub p)"

definition has_scope :: "dprincipal \<Rightarrow> string \<Rightarrow> bool" where
  "has_scope p sc = (sc \<in> set (dp_scopes p))"

definition drive_ticket :: "string \<Rightarrow> bool" where
  "drive_ticket s = (starts_with ''T-'' s \<and> 6 \<le> length (drop 2 s) \<and> list_all is_digit (drop 2 s))"

fun plausible_note :: "json \<Rightarrow> bool" where
  "plausible_note (JStr s) = (s \<noteq> [] \<and> length s \<le> 128)"
| "plausible_note _ = False"

text \<open>The settings the code reads, with the limits and the addresses it branches on.\<close>

record dconfig =
  dc_max_bytes :: nat
  dc_ttl :: int
  dc_quota :: int
  dc_max_pending :: nat
  dc_watermark :: int
  dc_executables :: bool
  dc_inflight :: nat
  dc_recheck :: "int list"
  dc_board :: bool
  dc_budget :: bool
  dc_audience :: string
  dc_internal :: string
  dc_public :: string

section \<open>Content types\<close>

definition codes :: "string \<Rightarrow> nat list" where
  "codes = map of_char"

definition sig_at :: "nat \<Rightarrow> nat list \<Rightarrow> string \<Rightarrow> bool" where
  "sig_at off sig b = (codes (take (length sig) (drop off b)) = sig)"

definition executable_mime :: "string \<Rightarrow> bool" where
  "executable_mime m = (m \<in> {''application/x-msdownload'', ''application/x-elf'', ''application/x-mach-binary''})"

text \<open>\<open>trimStart\<close> of the text decoded from UTF-8: the white space of ECMAScript as bytes.\<close>

definition wide_spaces :: "nat list list" where
  "wide_spaces = [[0xC2, 0xA0], [0xE1, 0x9A, 0x80], [0xE2, 0x80, 0xA8], [0xE2, 0x80, 0xA9], [0xE2, 0x80, 0xAF],
     [0xE2, 0x81, 0x9F], [0xE3, 0x80, 0x80], [0xEF, 0xBB, 0xBF]] @ map (\<lambda>k. [0xE2, 0x80, k]) [0x80..<0x8B]"

fun trim_start :: "string \<Rightarrow> string" where
  "trim_start [] = []"
| "trim_start (c # s) =
     (if is_ws c then trim_start s
      else if codes (take 2 (c # s)) \<in> set wide_spaces then trim_start (drop 1 s)
      else if codes (take 3 (c # s)) \<in> set wide_spaces then trim_start (drop 2 s)
      else c # s)"

definition printable :: "char \<Rightarrow> bool" where
  "printable c = (let n = (of_char c :: nat) in n \<in> {9, 10, 13} \<or> (32 \<le> n \<and> n < 127) \<or> 0xC0 \<le> n)"

definition probably_text :: "string \<Rightarrow> bool" where
  "probably_text b =
     (let h = take 512 b in
      h \<noteq> [] \<and> CHR 0x00 \<notin> set h \<and> 9 * length h < 10 * length (filter printable h))"

definition sniff :: "string \<Rightarrow> string" where
  "sniff b =
     (let t = trim_start (take 64 b); l = map lower_char t in
      if sig_at 0 [0x7F, 0x45, 0x4C, 0x46] b then ''application/x-elf''
      else if sig_at 0 [0x4D, 0x5A] b then ''application/x-msdownload''
      else if sig_at 0 [0xFE, 0xED, 0xFA, 0xCE] b \<or> sig_at 0 [0xFE, 0xED, 0xFA, 0xCF] b \<or>
              sig_at 0 [0xCF, 0xFA, 0xED, 0xFE] b \<or> sig_at 0 [0xCA, 0xFE, 0xBA, 0xBE] b then ''application/x-mach-binary''
      else if sig_at 0 [0x89, 0x50, 0x4E, 0x47, 0x0D, 0x0A, 0x1A, 0x0A] b then ''image/png''
      else if sig_at 0 [0xFF, 0xD8, 0xFF] b then ''image/jpeg''
      else if sig_at 0 [0x47, 0x49, 0x46, 0x38] b then ''image/gif''
      else if sig_at 0 [0x52, 0x49, 0x46, 0x46] b \<and> sig_at 8 [0x57, 0x45, 0x42, 0x50] b then ''image/webp''
      else if sig_at 0 [0x25, 0x50, 0x44, 0x46, 0x2D] b then ''application/pdf''
      else if sig_at 0 [0x50, 0x4B, 0x03, 0x04] b \<or> sig_at 0 [0x50, 0x4B, 0x05, 0x06] b then ''application/zip''
      else if sig_at 0 [0x1F, 0x8B] b then ''application/gzip''
      else if 262 < length b \<and> sig_at 257 [0x75, 0x73, 0x74, 0x61, 0x72] b then ''application/x-tar''
      else if starts_with ''<?xml'' t \<or> starts_with ''<svg'' t then ''image/svg+xml''
      else if starts_with ''<!doctype html'' l \<or> starts_with ''<html'' l then ''text/html''
      else if probably_text b then
        (case t of c # _ \<Rightarrow> if c = CHR ''{'' \<or> c = CHR ''['' then ''application/json'' else ''text/plain'' | [] \<Rightarrow> ''text/plain'')
      else ''application/octet-stream'')"

text \<open>The sniffer sees the first 512 bytes of the stream.\<close>

definition sniffed :: "string \<Rightarrow> string" where
  "sniffed content = sniff (take 512 content)"

definition inline_allowed :: "string \<Rightarrow> bool" where
  "inline_allowed m = (m \<in> {''image/png'', ''image/jpeg'', ''image/webp'', ''image/gif'', ''application/pdf'', ''text/plain''})"

end
