(* ===== verification/DriveStore.thy ===== *)
theory DriveStore
  imports DriveTypes
begin

text \<open>
  The store of Drive (\<open>db/schema.ts\<close>, \<open>storage/cas.ts\<close>, \<open>storage/journal.ts\<close>): the tables of the index, the
  two journals, the files. A transaction that throws rolls the tables back and nothing else: journal lines
  and renamed files stay. Times are epoch milliseconds, the texts in the tables are those of
  \<open>toISOString\<close>. The journal files of the days are one list in the order they are replayed; the
  identifier of an event, which no code reads, is left out.
\<close>

section \<open>Tables\<close>

datatype tstate = TVerified | TUnverified | TAbsent

datatype ustate = UPending | UCommitted | UAborted | UExpired

datatype doutcome = AuditOk | AuditDenied | AuditRejected

record blob_row =
  bl_sha :: string
  bl_size :: nat
  bl_refs :: int
  bl_created :: int

record artifact_row =
  ar_id :: string
  ar_ticket :: string
  ar_name :: string
  ar_current :: "string option"
  ar_state :: tstate
  ar_by :: string
  ar_created :: int

record version_row =
  ve_id :: string
  ve_artifact :: string
  ve_seq :: nat
  ve_sha :: "string option"
  ve_ticket :: string
  ve_note :: "string option"
  ve_by :: string
  ve_fence :: "int option"
  ve_op :: string
  ve_mime :: string
  ve_hint :: "string option"
  ve_size :: nat
  ve_name :: string
  ve_marker :: bool
  ve_created :: int

record upload_row =
  up_id :: string
  up_state :: ustate
  up_by :: string
  up_op :: string
  up_ticket :: string
  up_name :: string
  up_note :: "string option"
  up_fence :: "int option"
  up_hint :: "string option"
  up_expected :: "string option"
  up_artifact :: string
  up_result :: "string option"
  up_active :: int
  up_bytes :: int

record drive_audit =
  da_ts :: int
  da_sub :: string
  da_kind :: dkind
  da_action :: string
  da_ticket :: "string option"
  da_artifact :: "string option"
  da_version :: "string option"
  da_outcome :: doutcome
  da_detail :: "json option"

record check_row =
  ck_ticket :: string
  ck_state :: tstate
  ck_checked :: int
  ck_next :: int
  ck_attempts :: nat

record ddb =
  db_blobs :: "blob_row list"
  db_artifacts :: "artifact_row list"
  db_versions :: "version_row list"
  db_fences :: "(string \<times> int) list"
  db_uploads :: "upload_row list"
  db_audit :: "drive_audit list"
  db_checks :: "check_row list"
  db_daily :: "((string \<times> string) \<times> int) list"
  db_meta :: "(string \<times> string) list"

section \<open>Journals and files\<close>

datatype vevent =
    EvCommitted version_row string tstate
  | EvDelete string string
  | EvMove string string
  | EvPurge string
  | EvAborted string

text \<open>
  Files are inodes: a name is taken away or moved while a stream that has the file open goes on writing. The
  staging area and the content-addressed area map names to inodes; the quarantine too.
\<close>

record dfile =
  fl_bytes :: string
  fl_mtime :: int

record dfiles =
  df_journal :: "vevent list"
  df_audits :: "drive_audit list"
  df_inodes :: "nat \<Rightarrow> dfile"
  df_next :: nat
  df_staging :: "string \<rightharpoonup> nat"
  df_cas :: "string \<rightharpoonup> nat"
  df_quarantine :: "string \<rightharpoonup> nat"

record dstore =
  ds_db :: ddb
  ds_files :: dfiles

definition empty_ddb :: ddb where
  "empty_ddb = \<lparr>db_blobs = [], db_artifacts = [], db_versions = [], db_fences = [], db_uploads = [], db_audit = [],
     db_checks = [], db_daily = [], db_meta = []\<rparr>"

definition empty_dfiles :: dfiles where
  "empty_dfiles = \<lparr>df_journal = [], df_audits = [], df_inodes = (\<lambda>_. \<lparr>fl_bytes = [], fl_mtime = 0\<rparr>), df_next = 0,
     df_staging = Map.empty, df_cas = Map.empty, df_quarantine = Map.empty\<rparr>"

definition empty_dstore :: dstore where
  "empty_dstore = \<lparr>ds_db = empty_ddb, ds_files = empty_dfiles\<rparr>"

abbreviation on_db :: "(ddb \<Rightarrow> ddb) \<Rightarrow> dstore \<Rightarrow> dstore" where
  "on_db f s \<equiv> s\<lparr>ds_db := f (ds_db s)\<rparr>"

abbreviation on_files :: "(dfiles \<Rightarrow> dfiles) \<Rightarrow> dstore \<Rightarrow> dstore" where
  "on_files f s \<equiv> s\<lparr>ds_files := f (ds_files s)\<rparr>"

definition journal :: "vevent \<Rightarrow> dstore \<Rightarrow> dstore" where
  "journal e s = on_files (\<lambda>f. f\<lparr>df_journal := df_journal f @ [e]\<rparr>) s"

text \<open>\<open>audit\<close>: a row, and a line in the audit journal for all but the reads that went well.\<close>

definition daudit ::
  "int \<Rightarrow> dprincipal \<Rightarrow> string \<Rightarrow> doutcome \<Rightarrow> string option \<Rightarrow> string option \<Rightarrow> string option \<Rightarrow> json option \<Rightarrow> dstore \<Rightarrow> dstore" where
  "daudit now p action oc tk art ver detail s =
     (let r = \<lparr>da_ts = now, da_sub = dp_sub p, da_kind = dp_kind p, da_action = action, da_ticket = tk,
                da_artifact = art, da_version = ver, da_outcome = oc, da_detail = detail\<rparr>;
          s1 = on_db (\<lambda>d. d\<lparr>db_audit := db_audit d @ [r]\<rparr>) s
      in if action \<in> {''read'', ''list''} \<and> oc = AuditOk then s1
         else on_files (\<lambda>f. f\<lparr>df_audits := df_audits f @ [r]\<rparr>) s1)"

section \<open>Files\<close>

text \<open>Opening a file for writing truncates it if the name is there, and makes a new one otherwise.\<close>

definition open_staging :: "int \<Rightarrow> string \<Rightarrow> dfiles \<Rightarrow> nat \<times> dfiles" where
  "open_staging now u f =
     (case df_staging f u of
        Some i \<Rightarrow> (i, f\<lparr>df_inodes := (df_inodes f)(i := \<lparr>fl_bytes = [], fl_mtime = now\<rparr>)\<rparr>)
      | None \<Rightarrow> (df_next f, f\<lparr>df_inodes := (df_inodes f)(df_next f := \<lparr>fl_bytes = [], fl_mtime = now\<rparr>),
          df_staging := (df_staging f)(u \<mapsto> df_next f), df_next := df_next f + 1\<rparr>))"

text \<open>A write at an offset: a gap before it is filled with zero bytes.\<close>

definition write_at :: "nat \<Rightarrow> string \<Rightarrow> string \<Rightarrow> string" where
  "write_at off new old = take off (old @ replicate (off - length old) (CHR 0x00)) @ new @ drop (off + length new) old"

definition write_inode :: "int \<Rightarrow> nat \<Rightarrow> nat \<Rightarrow> string \<Rightarrow> dfiles \<Rightarrow> dfiles" where
  "write_inode now i off new f =
     f\<lparr>df_inodes := (df_inodes f)(i := \<lparr>fl_bytes = write_at off new (fl_bytes (df_inodes f i)), fl_mtime = now\<rparr>)\<rparr>"

text \<open>\<open>materialize\<close>: an existing file of that hash is kept; a missing temporary file makes the rename throw.\<close>

definition materialize :: "string \<Rightarrow> string \<Rightarrow> dfiles \<Rightarrow> dexn + dfiles" where
  "materialize u sha f =
     (if df_cas f sha \<noteq> None then Inr f
      else case df_staging f u of
          None \<Rightarrow> Inl DFile
        | Some i \<Rightarrow> Inr (f\<lparr>df_staging := (df_staging f)(u := None), df_cas := (df_cas f)(sha \<mapsto> i)\<rparr>))"

definition discard_staging :: "string \<Rightarrow> dfiles \<Rightarrow> dfiles" where
  "discard_staging u f = f\<lparr>df_staging := (df_staging f)(u := None)\<rparr>"

definition quarantine_blob :: "string \<Rightarrow> dfiles \<Rightarrow> dfiles" where
  "quarantine_blob sha f =
     (case df_cas f sha of
        None \<Rightarrow> f
      | Some i \<Rightarrow> f\<lparr>df_cas := (df_cas f)(sha := None), df_quarantine := (df_quarantine f)(sha \<mapsto> i)\<rparr>)"

section \<open>Rows\<close>

definition get_upload :: "string \<Rightarrow> dstore \<Rightarrow> upload_row option" where
  "get_upload u s = row_of up_id u (db_uploads (ds_db s))"

definition upload_by_op :: "string \<Rightarrow> string \<Rightarrow> dstore \<Rightarrow> upload_row option" where
  "upload_by_op sub op s = List.find (\<lambda>r. up_by r = sub \<and> up_op r = op) (db_uploads (ds_db s))"

definition upd_upload :: "string \<Rightarrow> (upload_row \<Rightarrow> upload_row) \<Rightarrow> ddb \<Rightarrow> ddb" where
  "upd_upload u g d = d\<lparr>db_uploads := update_where (\<lambda>r. up_id r = u) g (db_uploads d)\<rparr>"

definition find_artifact :: "string \<Rightarrow> ddb \<Rightarrow> artifact_row option" where
  "find_artifact a d = row_of ar_id a (db_artifacts d)"

definition set_current :: "string \<Rightarrow> string option \<Rightarrow> ddb \<Rightarrow> ddb" where
  "set_current a v d = d\<lparr>db_artifacts := update_where (\<lambda>r. ar_id r = a) (\<lambda>r. r\<lparr>ar_current := v\<rparr>) (db_artifacts d)\<rparr>"

definition find_version :: "string \<Rightarrow> ddb \<Rightarrow> version_row option" where
  "find_version v d = row_of ve_id v (db_versions d)"

definition versions_of :: "string \<Rightarrow> ddb \<Rightarrow> version_row list" where
  "versions_of a d = filter (\<lambda>r. ve_artifact r = a) (db_versions d)"

definition find_blob :: "string \<Rightarrow> ddb \<Rightarrow> blob_row option" where
  "find_blob sha d = row_of bl_sha sha (db_blobs d)"

text \<open>\<open>COALESCE(MAX(seq), 0)\<close> of an artifact.\<close>

definition max_seq :: "string \<Rightarrow> ddb \<Rightarrow> nat" where
  "max_seq a d = Max (insert 0 (ve_seq ` set (versions_of a d)))"

text \<open>The constraints of \<open>artifact_versions\<close>: its three keys and its two references.\<close>

definition version_clash :: "version_row \<Rightarrow> version_row \<Rightarrow> bool" where
  "version_clash v r = (ve_id r = ve_id v \<or> (ve_artifact r = ve_artifact v \<and> ve_seq r = ve_seq v) \<or>
     (ve_by r = ve_by v \<and> ve_op r = ve_op v))"

definition version_refs :: "version_row \<Rightarrow> ddb \<Rightarrow> bool" where
  "version_refs v d = (find_artifact (ve_artifact v) d \<noteq> None \<and>
     (case ve_sha v of None \<Rightarrow> True | Some h \<Rightarrow> find_blob h d \<noteq> None))"

definition insert_version :: "version_row \<Rightarrow> ddb \<Rightarrow> dexn + ddb" where
  "insert_version v d =
     (if list_ex (version_clash v) (db_versions d) \<or> \<not> version_refs v d then Inl DSqlite
      else Inr (d\<lparr>db_versions := db_versions d @ [v]\<rparr>))"

definition ref_up :: "string \<Rightarrow> ddb \<Rightarrow> ddb" where
  "ref_up sha d = d\<lparr>db_blobs := update_where (\<lambda>r. bl_sha r = sha) (\<lambda>r. r\<lparr>bl_refs := bl_refs r + 1\<rparr>) (db_blobs d)\<rparr>"

definition ref_down :: "string \<Rightarrow> ddb \<Rightarrow> ddb" where
  "ref_down sha d = d\<lparr>db_blobs := update_where (\<lambda>r. bl_sha r = sha) (\<lambda>r. r\<lparr>bl_refs := max 0 (bl_refs r - 1)\<rparr>) (db_blobs d)\<rparr>"

definition day_of :: "int \<Rightarrow> string" where
  "day_of now = take 10 (iso_string now)"

definition alist_get :: "'k \<Rightarrow> ('k \<times> 'v) list \<Rightarrow> 'v option" where
  "alist_get k kvs = map_of kvs k"

fun alist_put :: "'k \<Rightarrow> 'v \<Rightarrow> ('k \<times> 'v) list \<Rightarrow> ('k \<times> 'v) list" where
  "alist_put k v [] = [(k, v)]"
| "alist_put k v ((l, w) # kvs) = (if l = k then (k, v) # kvs else (l, w) # alist_put k v kvs)"

lemma alist_get_put: "alist_get l (alist_put k v kvs) = (if l = k then Some v else alist_get l kvs)"
  unfolding alist_get_def by (induction kvs) auto

end
