(* ===== verification/DriveOps.thy ===== *)
theory DriveOps
  imports DriveStore
begin

text \<open>
  The service layer of Drive (\<open>storage/store.ts\<close>): fencing, registration, upload sessions, quota, the commit,
  the pointer operations of the operator. Every operation gives its answer or what it throws together with
  the store it leaves; minted identifiers and the clock are arguments.
\<close>

type_synonym 'a dres = "(dexn + 'a) \<times> dstore"

section \<open>Fencing\<close>

text \<open>\<open>normalizeFencingToken\<close>: only agents must echo a token.\<close>

definition normalize_token :: "dkind \<Rightarrow> json option \<Rightarrow> string \<Rightarrow> dexn + int option" where
  "normalize_token k raw tk =
     (if k \<noteq> DAgent then Inr None
      else if nullish raw \<or> raw = Some (JStr []) then Inl (DErr DFencingRequired [(''ticket_id'', JStr tk)])
      else case number_of raw of
          Some n \<Rightarrow> if n < 0 then Inl (DErr DFencingRequired [(''ticket_id'', JStr tk), (''got'', the raw)]) else Inr (Some n)
        | None \<Rightarrow> Inl (DErr DFencingRequired [(''ticket_id'', JStr tk), (''got'', the raw)]))"

definition fence_high :: "string \<Rightarrow> ddb \<Rightarrow> int" where
  "fence_high tk d = (case alist_get tk (db_fences d) of None \<Rightarrow> - 1 | Some n \<Rightarrow> n)"

text \<open>\<open>enforceFencingInTxn\<close>\<close>

definition enforce_fencing :: "string \<Rightarrow> int option \<Rightarrow> ddb \<Rightarrow> dexn + ddb" where
  "enforce_fencing tk token d =
     (case token of
        None \<Rightarrow> Inr d
      | Some n \<Rightarrow>
          if n < fence_high tk d then Inl (DErr DStaleFencing
            [(''ticket_id'', JStr tk), (''presented'', JNum n), (''high_water'', JNum (fence_high tk d))])
          else if fence_high tk d < n then Inr (d\<lparr>db_fences := alist_put tk n (db_fences d)\<rparr>)
          else Inr d)"

section \<open>Registration\<close>

definition registered_state :: "string \<Rightarrow> ddb \<Rightarrow> tstate" where
  "registered_state tk d = (case row_of ck_ticket tk (db_checks d) of None \<Rightarrow> TUnverified | Some c \<Rightarrow> ck_state c)"

text \<open>
  A value bound to a text column; booleans and objects throw in the driver, which spreads an array over the
  parameters: one of a single value stands for that value, any other gives a wrong number of them.
\<close>

fun bound_scalar :: "json \<Rightarrow> dexn + string option" where
  "bound_scalar JNull = Inr None"
| "bound_scalar (JStr s) = Inr (Some s)"
| "bound_scalar (JNum n) = Inr (Some (int_str n @ ''.0''))"
| "bound_scalar _ = Inl DTypeError"

fun bound_text :: "json option \<Rightarrow> dexn + string option" where
  "bound_text None = Inr None"
| "bound_text (Some (JArr [x])) = bound_scalar x"
| "bound_text (Some x) = bound_scalar x"

record reg_args =
  ri_ticket :: string
  ri_name :: string
  ri_op :: string
  ri_fence :: "json option"
  ri_hint :: "json option"
  ri_note :: "json option"
  ri_expected :: "json option"

record reg_result =
  rg_artifact :: string
  rg_upload :: string
  rg_state :: tstate
  rg_policy :: string

definition expires_policy :: "dconfig \<Rightarrow> string" where
  "expires_policy cfg = ''inactivity:'' @ int_str (dc_ttl cfg) @ ''s''"

definition pending_count :: "string \<Rightarrow> ddb \<Rightarrow> nat" where
  "pending_count sub d = count_where (\<lambda>r. up_by r = sub \<and> up_state r = UPending) (db_uploads d)"

text \<open>Resolve or create the artifact; the transaction of \<open>register\<close>.\<close>

definition upsert_artifact :: "int \<Rightarrow> string \<Rightarrow> string \<Rightarrow> string \<Rightarrow> string \<Rightarrow> ddb \<Rightarrow> dexn + string \<times> ddb" where
  "upsert_artifact now aid tk name sub d =
     (case List.find (\<lambda>r. ar_ticket r = tk \<and> ar_name r = name) (db_artifacts d) of
        Some r \<Rightarrow> Inr (ar_id r, d)
      | None \<Rightarrow>
          if find_artifact aid d \<noteq> None then Inl DSqlite
          else Inr (aid, d\<lparr>db_artifacts := db_artifacts d @ [\<lparr>ar_id = aid, ar_ticket = tk, ar_name = name, ar_current = None,
             ar_state = registered_state tk d, ar_by = sub, ar_created = now\<rparr>]\<rparr>))"

definition valid_intent :: "dprincipal \<Rightarrow> reg_args \<Rightarrow> dexn + int option" where
  "valid_intent p a =
     throw_if (\<not> drive_ticket (ri_ticket a)) (DErr DMalformed [(''ticket_id'', JStr (ri_ticket a))])
     (throw_if (ri_name a = [] \<or> 512 < length (ri_name a)) (derr DMalformed)
     (throw_if (\<not> nullish (ri_note a) \<and> \<not> plausible_note (the (ri_note a))) (derr DMalformed)
     (throw_if (ri_op a = [] \<or> 128 < length (ri_op a)) (derr DMalformed)
     (normalize_token (dp_kind p) (ri_fence a) (ri_ticket a)))))"

definition new_upload :: "int \<Rightarrow> dprincipal \<Rightarrow> reg_args \<Rightarrow> int option \<Rightarrow> string \<Rightarrow> string \<Rightarrow> dexn + upload_row" where
  "new_upload now p a fence aid u =
     and_then (bound_text (ri_hint a)) (\<lambda>hint.
     and_then (bound_text (ri_note a)) (\<lambda>nt.
     and_then (bound_text (ri_expected a)) (\<lambda>expected.
       Inr \<lparr>up_id = u, up_state = UPending, up_by = dp_sub p, up_op = ri_op a, up_ticket = ri_ticket a, up_name = ri_name a,
         up_note = nt, up_fence = fence, up_hint = hint, up_expected = expected, up_artifact = aid, up_result = None,
         up_active = now, up_bytes = 0\<rparr>)))"

text \<open>
  \<open>register\<close>. Nothing is awaited between the look for an earlier registration and the insert, so
  the branch that recovers from a lost race only sees a clash of the new identifier, and throws on.
\<close>

definition register :: "dconfig \<Rightarrow> int \<Rightarrow> dprincipal \<Rightarrow> reg_args \<Rightarrow> string \<Rightarrow> string \<Rightarrow> dstore \<Rightarrow> reg_result dres" where
  "register cfg now p a aid u s =
     (case valid_intent p a of
        Inl e \<Rightarrow> (Inl e, s)
      | Inr fence \<Rightarrow>
         (case upload_by_op (dp_sub p) (ri_op a) s of
            Some r \<Rightarrow> (Inr \<lparr>rg_artifact = up_artifact r, rg_upload = up_id r,
              rg_state = registered_state (ri_ticket a) (ds_db s), rg_policy = expires_policy cfg\<rparr>, s)
          | None \<Rightarrow>
             if dc_max_pending cfg \<le> pending_count (dp_sub p) (ds_db s)
             then (Inl (DErr DQuota [(''cap'', JNum (int (dc_max_pending cfg)))]),
               daudit now p ''quota_refused'' AuditDenied (Some (ri_ticket a)) None None
                 (Some (JObj [(''reason'', JStr ''max_pending_uploads'')])) s)
             else
               (case upsert_artifact now aid (ri_ticket a) (ri_name a) (dp_sub p) (ds_db s) of
                  Inl e \<Rightarrow> (Inl e, s)
                | Inr (a', d) \<Rightarrow>
                   (case new_upload now p a fence a' u of
                      Inl e \<Rightarrow> (Inl e, s\<lparr>ds_db := d\<rparr>)
                    | Inr r \<Rightarrow>
                       if get_upload u s \<noteq> None then (Inl DSqlite, s\<lparr>ds_db := d\<rparr>)
                       else (Inr \<lparr>rg_artifact = a', rg_upload = u, rg_state = registered_state (ri_ticket a) (ds_db s),
                           rg_policy = expires_policy cfg\<rparr>,
                         daudit now p ''put_registered'' AuditOk (Some (ri_ticket a)) (Some a') None
                           (Some (JObj [(''upload_id'', JStr u)])) (s\<lparr>ds_db := d\<lparr>db_uploads := db_uploads d @ [r]\<rparr>\<rparr>))))))"

section \<open>Quota and watermark\<close>

definition daily_bytes :: "int \<Rightarrow> string \<Rightarrow> ddb \<Rightarrow> int" where
  "daily_bytes now sub d = (case alist_get (sub, day_of now) (db_daily d) of None \<Rightarrow> 0 | Some n \<Rightarrow> n)"

definition charge_quota :: "dconfig \<Rightarrow> int \<Rightarrow> string \<Rightarrow> int \<Rightarrow> ddb \<Rightarrow> dexn + ddb" where
  "charge_quota cfg now sub k d =
     (let cur = daily_bytes now sub d in
      throw_if (dc_quota cfg < cur + k) (DErr DQuota [(''quota'', JNum (dc_quota cfg)), (''used'', JNum cur)])
      (Inr (d\<lparr>db_daily := alist_put (sub, day_of now) (cur + k) (db_daily d)\<rparr>)))"

definition release_quota :: "int \<Rightarrow> string \<Rightarrow> int \<Rightarrow> ddb \<Rightarrow> ddb" where
  "release_quota now sub k d =
     (if k \<le> 0 then d
      else case alist_get (sub, day_of now) (db_daily d) of
          None \<Rightarrow> d
        | Some n \<Rightarrow> d\<lparr>db_daily := alist_put (sub, day_of now) (max 0 (n - k)) (db_daily d)\<rparr>)"

text \<open>The blocks of the volume, in total and free; \<open>None\<close> when \<open>statfs\<close> fails.\<close>

type_synonym volume = "(int \<times> int) option"

definition under_watermark :: "dconfig \<Rightarrow> volume \<Rightarrow> bool" where
  "under_watermark cfg v =
     (case v of None \<Rightarrow> 0 < dc_watermark cfg
      | Some (blocks, free) \<Rightarrow> if blocks \<le> 0 then 0 < dc_watermark cfg else (blocks - free) * 100 < dc_watermark cfg * blocks)"

definition type_refused :: "dconfig \<Rightarrow> string \<Rightarrow> bool" where
  "type_refused cfg m = (executable_mime m \<and> \<not> dc_executables cfg)"

section \<open>Upload sessions\<close>

definition not_owner :: "dprincipal \<Rightarrow> upload_row \<Rightarrow> bool" where
  "not_owner p u = (up_by u \<noteq> dp_sub p)"

definition owner_denied :: "int \<Rightarrow> dprincipal \<Rightarrow> upload_row \<Rightarrow> dstore \<Rightarrow> 'a dres" where
  "owner_denied now p u s =
     (Inl (derr DNotOwner), daudit now p ''ref_denied'' AuditDenied None None None
       (Some (JObj [(''upload_id'', JStr (up_id u)), (''reason'', JStr ''not_owner'')])) s)"

definition touch_upload :: "int \<Rightarrow> string \<Rightarrow> int \<Rightarrow> dstore \<Rightarrow> dstore" where
  "touch_upload now u n s = on_db (upd_upload u (\<lambda>r. r\<lparr>up_active := now, up_bytes := n\<rparr>)) s"

definition abort_upload :: "int \<Rightarrow> dprincipal \<Rightarrow> string \<Rightarrow> dstore \<Rightarrow> unit dres" where
  "abort_upload now p uid s =
     (case get_upload uid s of
        None \<Rightarrow> (Inl (derr DNotFound), s)
      | Some u \<Rightarrow>
          if not_owner p u then owner_denied now p u s
          else if up_state u = UCommitted then (Inr (), s)
          else (Inr (),
            daudit now p ''upload_aborted'' AuditOk (Some (up_ticket u)) (Some (up_artifact u)) None None
              (on_files (discard_staging uid)
                (on_db (\<lambda>d. release_quota now (dp_sub p) (up_bytes u)
                   (upd_upload uid (\<lambda>r. r\<lparr>up_state := UAborted, up_active := now\<rparr>) d)) s))))"

section \<open>The commit\<close>

record upload_content =
  mt_sha :: string
  mt_size :: nat
  mt_mime :: string
  mt_name :: string

record commit_result =
  cr_artifact :: string
  cr_version :: string
  cr_seq :: nat
  cr_sha :: "string option"
  cr_mime :: string
  cr_size :: nat

definition result_of :: "version_row \<Rightarrow> commit_result" where
  "result_of v = \<lparr>cr_artifact = ve_artifact v, cr_version = ve_id v, cr_seq = ve_seq v, cr_sha = ve_sha v,
     cr_mime = ve_mime v, cr_size = ve_size v\<rparr>"

definition new_version :: "int \<Rightarrow> dprincipal \<Rightarrow> string \<Rightarrow> upload_row \<Rightarrow> upload_content \<Rightarrow> nat \<Rightarrow> version_row" where
  "new_version now p vid u m k =
     \<lparr>ve_id = vid, ve_artifact = up_artifact u, ve_seq = k, ve_sha = Some (mt_sha m), ve_ticket = up_ticket u,
      ve_note = up_note u, ve_by = dp_sub p, ve_fence = up_fence u, ve_op = up_op u, ve_mime = mt_mime m, ve_hint = up_hint u,
      ve_size = mt_size m, ve_name = mt_name m, ve_marker = False, ve_created = now\<rparr>"

text \<open>(c): one more reference to a known blob, or a new row.\<close>

definition count_blob :: "int \<Rightarrow> upload_content \<Rightarrow> ddb \<Rightarrow> ddb" where
  "count_blob now m d =
     (if find_blob (mt_sha m) d \<noteq> None then ref_up (mt_sha m) d
      else d\<lparr>db_blobs := db_blobs d @ [\<lparr>bl_sha = mt_sha m, bl_size = mt_size m, bl_refs = 1, bl_created = now\<rparr>]\<rparr>)"

text \<open>(a) to (f): the tables the transaction writes.\<close>

definition commit_tables :: "int \<Rightarrow> dprincipal \<Rightarrow> string \<Rightarrow> upload_row \<Rightarrow> upload_content \<Rightarrow> ddb \<Rightarrow> dexn + ddb" where
  "commit_tables now p vid u m d =
     and_then (enforce_fencing (up_ticket u) (up_fence u) d) (\<lambda>d1.
     and_then (insert_version (new_version now p vid u m (max_seq (up_artifact u) d + 1)) (count_blob now m d1)) (\<lambda>d2.
       Inr (upd_upload (up_id u) (\<lambda>r. r\<lparr>up_state := UCommitted, up_result := Some vid, up_active := now\<rparr>)
         (set_current (up_artifact u) (Some vid) d2))))"

text \<open>(g): the line of the version journal; the hint is not in it.\<close>

definition committed_event :: "version_row \<Rightarrow> upload_row \<Rightarrow> ddb \<Rightarrow> vevent" where
  "committed_event v u d = EvCommitted (v\<lparr>ve_hint := None\<rparr>) (up_name u) (registered_state (up_ticket u) d)"

text \<open>
  The transaction: an error before (g) leaves the store; an error of (h) rolls the tables back and leaves the
  journal line, which gets its compensating line in the handler.
\<close>

definition commit_txn :: "int \<Rightarrow> dprincipal \<Rightarrow> string \<Rightarrow> upload_row \<Rightarrow> upload_content \<Rightarrow> dstore \<Rightarrow> commit_result dres" where
  "commit_txn now p vid u m s =
     (case commit_tables now p vid u m (ds_db s) of
        Inl e \<Rightarrow> (Inl e, s)
      | Inr d \<Rightarrow>
         (let v = new_version now p vid u m (max_seq (up_artifact u) (ds_db s) + 1);
              s1 = journal (committed_event v u d) s;
              dedup = (find_blob (mt_sha m) (ds_db s) \<noteq> None) in
          case materialize (up_id u) (mt_sha m) (ds_files s1) of
            Inl e \<Rightarrow> (Inl e, s1)
          | Inr f \<Rightarrow> (Inr (result_of v),
              daudit now p ''version_committed'' AuditOk (Some (up_ticket u)) (Some (up_artifact u)) (Some vid)
                (Some (JObj [(''seq'', JNum (int (ve_seq v))), (''sha256'', JStr (mt_sha m)), (''dedup'', JBool dedup)]))
                \<lparr>ds_db = d, ds_files = f\<rparr>)))"

definition fencing_error :: "dexn \<Rightarrow> bool" where
  "fencing_error e = (case e of DErr c _ \<Rightarrow> c = DStaleFencing \<or> c = DFencingRequired | _ \<Rightarrow> False)"

definition error_detail :: "dexn \<Rightarrow> json option" where
  "error_detail e = (case e of DErr _ kvs \<Rightarrow> (if kvs = [] then None else Some (JObj kvs)) | _ \<Rightarrow> None)"

definition commit_upload ::
  "dconfig \<Rightarrow> int \<Rightarrow> dprincipal \<Rightarrow> string \<Rightarrow> string \<Rightarrow> upload_content \<Rightarrow> dstore \<Rightarrow> commit_result dres" where
  "commit_upload cfg now p vid uid m s =
     (case get_upload uid s of
        None \<Rightarrow> (Inl (derr DNotFound), s)
      | Some u \<Rightarrow>
          if not_owner p u then owner_denied now p u s
          else if up_state u = UCommitted \<and> truthy_str (up_result u)
          then (case find_version (the (up_result u)) (ds_db s) of
              None \<Rightarrow> (Inl DTypeError, s)
            | Some v \<Rightarrow> (Inr (result_of v), s))
          else if up_state u \<noteq> UPending then (Inl (derr DUploadState), s)
          else if type_refused cfg (mt_mime m)
          then (Inl (DErr DTypeRejected [(''mime'', JStr (mt_mime m))]),
            daudit now p ''type_rejected'' AuditRejected (Some (up_ticket u)) None None
              (Some (JObj [(''mime'', JStr (mt_mime m))])) s)
          else if truthy_str (up_expected u) \<and> up_expected u \<noteq> Some (mt_sha m)
          then (Inl (DErr DConflict [(''expected'', jstr (up_expected u)), (''got'', JStr (mt_sha m))]), s)
          else
            (case commit_txn now p vid u m s of
               (Inr r, s1) \<Rightarrow> (Inr r, on_files (discard_staging uid) s1)
             | (Inl e, s1) \<Rightarrow> (Inl e,
                 if fencing_error e
                 then daudit now p ''stale_fence_rejected'' AuditRejected (Some (up_ticket u)) (Some (up_artifact u)) None
                   (error_detail e) s1
                 else journal (EvAborted vid) s1)))"

section \<open>Pointer operations of the operator\<close>

definition marker_row :: "int \<Rightarrow> dprincipal \<Rightarrow> string \<Rightarrow> artifact_row \<Rightarrow> nat \<Rightarrow> version_row" where
  "marker_row now p vid a k =
     \<lparr>ve_id = vid, ve_artifact = ar_id a, ve_seq = k, ve_sha = None, ve_ticket = ar_ticket a, ve_note = None, ve_by = dp_sub p,
      ve_fence = None, ve_op = ''del-'' @ vid, ve_mime = ''application/x-delete-marker'', ve_hint = None, ve_size = 0,
      ve_name = [], ve_marker = True, ve_created = now\<rparr>"

definition delete_marker :: "int \<Rightarrow> dprincipal \<Rightarrow> string \<Rightarrow> string \<Rightarrow> dstore \<Rightarrow> (string \<times> nat) dres" where
  "delete_marker now p vid aid s =
     (case find_artifact aid (ds_db s) of
        None \<Rightarrow> (Inl (derr DNotFound), s)
      | Some a \<Rightarrow>
         (let k = max_seq aid (ds_db s) + 1 in
          case insert_version (marker_row now p vid a k) (ds_db s) of
            Inl e \<Rightarrow> (Inl e, s)
          | Inr d \<Rightarrow> (Inr (vid, k),
              daudit now p ''delete_marker'' AuditOk (Some (ar_ticket a)) (Some aid) (Some vid) (Some (JObj [(''seq'', JNum (int k))]))
                (journal (EvDelete vid aid) (s\<lparr>ds_db := set_current aid None d\<rparr>)))))"

definition restore_version :: "int \<Rightarrow> dprincipal \<Rightarrow> string \<Rightarrow> string \<Rightarrow> dstore \<Rightarrow> unit dres" where
  "restore_version now p aid vid s =
     (case find_artifact aid (ds_db s) of
        None \<Rightarrow> (Inl (derr DNotFound), s)
      | Some a \<Rightarrow>
         (case List.find (\<lambda>r. ve_id r = vid \<and> ve_artifact r = aid) (db_versions (ds_db s)) of
            None \<Rightarrow> (Inl (derr DNotFound), s)
          | Some v \<Rightarrow>
              if ve_marker v then (Inl (derr DNotFound), s)
              else (Inr (), daudit now p ''restore'' AuditOk (Some (ar_ticket a)) (Some aid) (Some vid) None
                (journal (EvMove aid vid) (on_db (set_current aid (Some vid)) s)))))"

section \<open>Content\<close>

record content =
  ct_sha :: string
  ct_mime :: string
  ct_size :: nat
  ct_name :: string
  ct_version :: string
  ct_immutable :: bool

definition content_of :: "bool \<Rightarrow> version_row \<Rightarrow> dexn + content" where
  "content_of imm v =
     (if ve_marker v \<or> \<not> truthy_str (ve_sha v) then Inl (derr DNotFound)
      else Inr \<lparr>ct_sha = the (ve_sha v), ct_mime = ve_mime v, ct_size = ve_size v, ct_name = ve_name v, ct_version = ve_id v,
        ct_immutable = imm\<rparr>)"

definition resolve_content :: "string \<Rightarrow> string option \<Rightarrow> dstore \<Rightarrow> dexn + content" where
  "resolve_content aid vid s =
     need (find_artifact aid (ds_db s)) (derr DNotFound) (\<lambda>a.
     if truthy_str vid
     then need (List.find (\<lambda>r. ve_id r = the vid \<and> ve_artifact r = aid) (db_versions (ds_db s))) (derr DNotFound) (content_of True)
     else if \<not> truthy_str (ar_current a) then Inl (derr DNotFound)
     else need (find_version (the (ar_current a)) (ds_db s)) DTypeError (content_of (vid \<noteq> None)))"

definition resolve_version :: "string \<Rightarrow> dstore \<Rightarrow> dexn + content" where
  "resolve_version vid s = need (find_version vid (ds_db s)) (derr DNotFound) (content_of True)"

end
