(* ===== verification/DriveReads.thy ===== *)
theory DriveReads
  imports DriveOps
begin

text \<open>
  The listings of Drive (\<open>storage/store.ts\<close>), the collection of dead uploads and blobs (\<open>storage/gc.ts\<close>), the
  check of the Board, the backup flag and the replay of the journal. The cursor of a page is the identifier itself; the token a
  client sees is its base64url text. The order of identifiers is that of their bytes.
\<close>

section \<open>Listings\<close>

fun byte_less :: "string \<Rightarrow> string \<Rightarrow> bool" where
  "byte_less _ [] = False"
| "byte_less [] (_ # _) = True"
| "byte_less (c # s) (d # t) =
     ((of_char c :: nat) < of_char d \<or> (c = d \<and> byte_less s t))"

fun insert_by :: "('r \<Rightarrow> string) \<Rightarrow> 'r \<Rightarrow> 'r list \<Rightarrow> 'r list" where
  "insert_by key r [] = [r]"
| "insert_by key r (x # xs) = (if byte_less (key x) (key r) then x # insert_by key r xs else r # x # xs)"

definition ordered_by :: "('r \<Rightarrow> string) \<Rightarrow> 'r list \<Rightarrow> 'r list" where
  "ordered_by key rows = foldr (insert_by key) rows []"

definition page_size :: nat where "page_size = 100"

definition tstate_str :: "tstate \<Rightarrow> string" where
  "tstate_str st = (case st of TVerified \<Rightarrow> ''verified'' | TUnverified \<Rightarrow> ''unverified_pending'' | TAbsent \<Rightarrow> ''verified_absent'')"

text \<open>The version of an artifact with the highest number.\<close>

fun latest :: "version_row list \<Rightarrow> version_row option" where
  "latest [] = None"
| "latest (v # vs) = (case latest vs of None \<Rightarrow> Some v | Some w \<Rightarrow> if ve_seq w < ve_seq v then Some v else Some w)"

definition version_view :: "artifact_row \<Rightarrow> version_row \<Rightarrow> bool \<Rightarrow> json" where
  "version_view a v deleted =
     JObj ([(''artifact_id'', JStr (ar_id a)), (''logical_name'', JStr (ar_name a)), (''version_id'', JStr (ve_id v)),
        (''seq'', JNum (int (ve_seq v))), (''sha256'', jstr (ve_sha v)), (''mime'', JStr (ve_mime v)),
        (''size_bytes'', JNum (int (ve_size v))), (''created_by'', JStr (ve_by v)),
        (''ticket_state'', JStr (tstate_str (ar_state a))), (''derived'', JBool False), (''deleted'', JBool deleted)] @
       (case ve_note v of None \<Rightarrow> [] | Some n \<Rightarrow> [(''note_id'', JStr n)]) @
       [(''created_at'', JStr (iso_string (ve_created v)))])"

definition listed :: "bool \<Rightarrow> ddb \<Rightarrow> artifact_row \<Rightarrow> json option" where
  "listed with_deleted d a =
     (case latest (versions_of (ar_id a) d) of
        None \<Rightarrow> None
      | Some v \<Rightarrow> if ar_current a = None \<and> \<not> with_deleted then None else Some (version_view a v (ar_current a = None)))"

text \<open>A page is the first hundred rows behind the cursor; there is a next one if there are more.\<close>

definition page_of :: "('r \<Rightarrow> string) \<Rightarrow> string \<Rightarrow> 'r list \<Rightarrow> 'r list \<times> string option" where
  "page_of key cursor rows =
     (let rs = ordered_by key (filter (\<lambda>r. byte_less cursor (key r)) rows); pg = take page_size rs in
      (pg, if page_size < length rs then Some (key (last pg)) else None))"

definition list_by_ticket :: "string \<Rightarrow> string \<Rightarrow> bool \<Rightarrow> dstore \<Rightarrow> dexn + json list \<times> string option" where
  "list_by_ticket tk cursor with_deleted s =
     throw_if (\<not> drive_ticket tk) (DErr DMalformed [(''ticket_id'', JStr tk)])
     (let (pg, nxt) = page_of ar_id cursor (filter (\<lambda>a. ar_ticket a = tk) (db_artifacts (ds_db s))) in
      Inr (List.map_filter (listed with_deleted (ds_db s)) pg, nxt))"

definition state_rank :: "tstate \<Rightarrow> nat" where
  "state_rank st = (case st of TVerified \<Rightarrow> 0 | TUnverified \<Rightarrow> 1 | TAbsent \<Rightarrow> 2)"

definition rank_state :: "nat \<Rightarrow> tstate" where
  "rank_state n = (if n = 2 then TAbsent else if n = 1 then TUnverified else TVerified)"

definition ticket_row :: "ddb \<Rightarrow> string \<Rightarrow> json" where
  "ticket_row d tk =
     (let as = filter (\<lambda>a. ar_current a \<noteq> None \<and> ar_ticket a = tk) (db_artifacts d) in
      JObj [(''ticket_id'', JStr tk), (''artifact_count'', JNum (int (length as))),
        (''total_bytes'', JNum (int (sum_list (map (\<lambda>a.
           case find_version (the (ar_current a)) d of None \<Rightarrow> 0 | Some v \<Rightarrow> ve_size v) as)))),
        (''last_write'', JStr (iso_string (Max (ar_created ` set as)))),
        (''ticket_state'', JStr (tstate_str (rank_state (Max ((state_rank \<circ> ar_state) ` set as)))))])"

definition list_tickets :: "string \<Rightarrow> dstore \<Rightarrow> json list \<times> string option" where
  "list_tickets cursor s =
     (let d = ds_db s;
          (pg, nxt) = page_of id cursor (remdups (map ar_ticket (filter (\<lambda>a. ar_current a \<noteq> None) (db_artifacts d))))
      in (map (ticket_row d) pg, nxt))"

definition version_entry :: "artifact_row \<Rightarrow> version_row \<Rightarrow> json" where
  "version_entry a v =
     JObj ([(''version_id'', JStr (ve_id v)), (''seq'', JNum (int (ve_seq v))), (''sha256'', jstr (ve_sha v)),
        (''mime'', JStr (ve_mime v)), (''size_bytes'', JNum (int (ve_size v))), (''created_by'', JStr (ve_by v)),
        (''fencing_token'', jint (ve_fence v))] @
       (case ve_note v of None \<Rightarrow> [] | Some n \<Rightarrow> [(''note_id'', JStr n)]) @
       [(''is_delete_marker'', JBool (ve_marker v)), (''current'', JBool (ar_current a = Some (ve_id v))),
        (''created_at'', JStr (iso_string (ve_created v)))])"

fun insert_seq :: "version_row \<Rightarrow> version_row list \<Rightarrow> version_row list" where
  "insert_seq v [] = [v]"
| "insert_seq v (x # xs) = (if ve_seq x < ve_seq v then x # insert_seq v xs else v # x # xs)"

text \<open>\<open>getArtifact\<close>: the row, its current version and its history.\<close>

definition get_artifact :: "string \<Rightarrow> dstore \<Rightarrow> json option" where
  "get_artifact aid s =
     map_option (\<lambda>a.
       let d = ds_db s; vs = foldr insert_seq (versions_of aid d) [];
           cur = (if truthy_str (ar_current a) then List.find (\<lambda>v. Some (ve_id v) = ar_current a) vs else None) in
       JObj [(''metadata'', JObj [(''artifact_id'', JStr (ar_id a)), (''ticket_id'', JStr (ar_ticket a)),
           (''logical_name'', JStr (ar_name a)), (''ticket_state'', JStr (tstate_str (ar_state a))),
           (''current_version_id'', jstr (ar_current a)), (''deleted'', JBool (ar_current a = None \<and> vs \<noteq> [])),
           (''created_by'', JStr (ar_by a)), (''created_at'', JStr (iso_string (ar_created a))),
           (''current'', case cur of None \<Rightarrow> JNull | Some v \<Rightarrow> version_view a v False)]),
         (''versions'', JArr (map (version_entry a) vs))])
       (find_artifact aid (ds_db s))"

text \<open>The percentage of the volume in use, rounded as \<open>Math.round\<close> does.\<close>

definition used_percent :: "volume \<Rightarrow> int" where
  "used_percent v = (case v of None \<Rightarrow> 0
     | Some (blocks, free) \<Rightarrow> if blocks \<le> 0 then 0 else (200 * (blocks - free) + blocks) div (2 * blocks))"

definition drive_health :: "dconfig \<Rightarrow> volume \<Rightarrow> dstore \<Rightarrow> json" where
  "drive_health cfg v s =
     JObj [(''status'', JStr ''ok''),
       (''disk'', JObj [(''used_pct'', JNum (used_percent v)), (''watermark_pct'', JNum (dc_watermark cfg)),
          (''over'', JBool (dc_watermark cfg \<le> used_percent v))]),
       (''backup'', JObj [(''last_at'', jstr (alist_get ''last_backup_at'' (db_meta (ds_db s))))]),
       (''verify'', JObj [(''last_at'', jstr (alist_get ''last_verify_at'' (db_meta (ds_db s))))]),
       (''board_check'', JStr (if dc_board cfg then ''live'' else ''degraded''))]"

section \<open>Collection\<close>

definition backup_in_progress :: "ddb \<Rightarrow> bool" where
  "backup_in_progress d = (alist_get ''backup_in_progress'' (db_meta d) = Some ''1'')"

definition set_meta :: "string \<Rightarrow> string \<Rightarrow> ddb \<Rightarrow> ddb" where
  "set_meta k v d = d\<lparr>db_meta := alist_put k v (db_meta d)\<rparr>"

text \<open>Phase 1: pending uploads past their inactivity expire, then the staging files of the dead ones go.\<close>

definition stale :: "dconfig \<Rightarrow> int \<Rightarrow> upload_row \<Rightarrow> bool" where
  "stale cfg now u = (up_state u = UPending \<and> dc_ttl cfg * 1000 < now - up_active u)"

definition expire_one :: "int \<Rightarrow> ddb \<Rightarrow> upload_row \<Rightarrow> ddb" where
  "expire_one now d u = release_quota now (up_by u) (up_bytes u) (upd_upload (up_id u) (\<lambda>r. r\<lparr>up_state := UExpired\<rparr>) d)"

definition dead_uploads :: "ddb \<Rightarrow> string list" where
  "dead_uploads d = map up_id (filter (\<lambda>u. up_state u = UAborted \<or> up_state u = UExpired) (db_uploads d))"

definition phase1_sweep :: "dconfig \<Rightarrow> int \<Rightarrow> dstore \<Rightarrow> dstore" where
  "phase1_sweep cfg now s =
     (let d = foldl (expire_one now) (ds_db s) (filter (stale cfg now) (db_uploads (ds_db s))) in
      \<lparr>ds_db = d, ds_files = (ds_files s)\<lparr>df_staging := (df_staging (ds_files s)) |` (- set (dead_uploads d))\<rparr>\<rparr>)"

definition deleted_chains :: "ddb \<Rightarrow> string list" where
  "deleted_chains d = map ar_id (filter (\<lambda>a. ar_current a = None \<and> versions_of (ar_id a) d \<noteq> []) (db_artifacts d))"

definition refless :: "ddb \<Rightarrow> blob_row list" where
  "refless d = filter (\<lambda>b. bl_refs b \<le> 0) (db_blobs d)"

definition gc_preview :: "ddb \<Rightarrow> nat \<times> nat \<times> nat" where
  "gc_preview d = (length (deleted_chains d), length (refless d), sum_list (map bl_size (refless d)))"

text \<open>Phase 2: the chains of the artifacts marked as deleted, each in its transaction.\<close>

definition drop_version :: "ddb \<Rightarrow> version_row \<Rightarrow> ddb" where
  "drop_version d v =
     (let d1 = (case ve_sha v of Some h \<Rightarrow> if h \<noteq> [] then ref_down h d else d | None \<Rightarrow> d) in
      d1\<lparr>db_versions := filter (\<lambda>r. ve_id r \<noteq> ve_id v) (db_versions d1)\<rparr>)"

definition purge_chain :: "ddb \<Rightarrow> string \<Rightarrow> ddb" where
  "purge_chain d a =
     (let d1 = foldl drop_version d (versions_of a d) in
      d1\<lparr>db_artifacts := filter (\<lambda>r. ar_id r \<noteq> a) (db_artifacts d1)\<rparr>)"

text \<open>A blob without references: its row, then its line in the journal, then its file. A row that is still
  referenced makes the transaction throw.\<close>

definition purge_blob :: "blob_row \<Rightarrow> dstore \<Rightarrow> dexn + dstore" where
  "purge_blob b s =
     (if list_ex (\<lambda>r. bl_sha r = bl_sha b \<and> bl_refs r \<le> 0) (db_blobs (ds_db s)) \<and>
         list_ex (\<lambda>v. ve_sha v = Some (bl_sha b)) (db_versions (ds_db s)) then Inl DSqlite
      else Inr (on_files (quarantine_blob (bl_sha b)) (journal (EvPurge (bl_sha b))
       (on_db (\<lambda>d. d\<lparr>db_blobs := filter (\<lambda>r. \<not> (bl_sha r = bl_sha b \<and> bl_refs r \<le> 0)) (db_blobs d)\<rparr>) s))))"

fun purge_blobs :: "blob_row list \<Rightarrow> dstore \<Rightarrow> dexn option \<times> dstore" where
  "purge_blobs [] s = (None, s)"
| "purge_blobs (b # bs) s = (case purge_blob b s of Inl e \<Rightarrow> (Some e, s) | Inr s' \<Rightarrow> purge_blobs bs s')"

text \<open>The quarantine is emptied of files that were last written more than a day ago.\<close>

definition purge_quarantine :: "int \<Rightarrow> dfiles \<Rightarrow> dfiles" where
  "purge_quarantine now f =
     f\<lparr>df_quarantine := (\<lambda>h. case df_quarantine f h of
         None \<Rightarrow> None
       | Some i \<Rightarrow> if 86400000 < now - fl_mtime (df_inodes f i) then None else Some i)\<rparr>"

definition gc_phase2 :: "int \<Rightarrow> dprincipal \<Rightarrow> dstore \<Rightarrow> (nat \<times> nat \<times> nat) dres" where
  "gc_phase2 now p s =
     (if backup_in_progress (ds_db s) then (Inr (0, 0, 0), s)
      else
        let chains = deleted_chains (ds_db s);
            s1 = on_db (\<lambda>d. foldl purge_chain d chains) s;
            blobs = refless (ds_db s1)
        in case purge_blobs blobs s1 of
            (Some e, s2) \<Rightarrow> (Inl e, s2)
          | (None, s2) \<Rightarrow> (Inr (length blobs, length chains, sum_list (map bl_size blobs)),
              daudit now p ''gc_purge'' AuditOk None None None
               (Some (JObj [(''purged_blobs'', JNum (int (length blobs))), (''purged_chains'', JNum (int (length chains))),
                 (''reclaimed_bytes'', JNum (int (sum_list (map bl_size blobs))))]))
               (on_files (purge_quarantine now) s2)))"

section \<open>The check of the Board\<close>

datatype check_result = ChVerified | ChAbsent | ChUnreachable | ChDegraded

text \<open>\<open>checkTicket\<close>: whether there is a service token, and the outcome of the fetch.\<close>

definition check_ticket :: "dconfig \<Rightarrow> bool \<Rightarrow> fetched \<Rightarrow> check_result" where
  "check_ticket cfg token reply =
     (if \<not> dc_board cfg \<or> \<not> token then ChDegraded
      else case reply of
          NetError \<Rightarrow> ChUnreachable
        | Resp st b \<Rightarrow>
            if st = 404 then ChAbsent
            else if \<not> resp_ok st then ChUnreachable
            else (case b of None \<Rightarrow> ChUnreachable | Some JNull \<Rightarrow> ChUnreachable
              | Some j \<Rightarrow> if js_truthy (jget ''exists'' j) then ChVerified else ChAbsent))"

definition check_state :: "check_result \<Rightarrow> tstate" where
  "check_state r = (case r of ChVerified \<Rightarrow> TVerified | ChAbsent \<Rightarrow> TAbsent | _ \<Rightarrow> TUnverified)"

definition record_check :: "dconfig \<Rightarrow> int \<Rightarrow> string \<Rightarrow> check_result \<Rightarrow> ddb \<Rightarrow> ddb" where
  "record_check cfg now tk r d =
     (let st = check_state r;
          n = (case row_of ck_ticket tk (db_checks d) of None \<Rightarrow> 0 | Some c \<Rightarrow> ck_attempts c) + 1;
          sched = dc_recheck cfg;
          delay = (if sched = [] then 86400 else sched ! min (n - 1) (length sched - 1));
          c = \<lparr>ck_ticket = tk, ck_state = st, ck_checked = now, ck_next = now + delay * 1000, ck_attempts = n\<rparr>;
          d1 = d\<lparr>db_checks := (if row_of ck_ticket tk (db_checks d) = None then db_checks d @ [c]
             else update_where (\<lambda>x. ck_ticket x = tk) (\<lambda>_. c) (db_checks d))\<rparr>
      in if st = TUnverified then d1
         else d1\<lparr>db_artifacts := update_where (\<lambda>a. ar_ticket a = tk) (\<lambda>a. a\<lparr>ar_state := st\<rparr>) (db_artifacts d1)\<rparr>)"

section \<open>The replay of the journal\<close>

text \<open>
  The replay of the version journal (\<open>storage/maintenance.ts\<close>) and the verification of rows against
  files. The replay runs in one transaction: if a line violates a constraint, the index stays as
  it was and the boot fails.
\<close>

section \<open>Replaying\<close>

text \<open>\<open>INSERT OR IGNORE\<close>: a row with a taken key is skipped, a reference to a missing row still throws.\<close>

definition replay_artifact :: "version_row \<Rightarrow> string \<Rightarrow> tstate \<Rightarrow> ddb \<Rightarrow> ddb" where
  "replay_artifact v name st d =
     (if list_ex (\<lambda>r. ar_id r = ve_artifact v \<or> (ar_ticket r = ve_ticket v \<and> ar_name r = name)) (db_artifacts d) then d
      else d\<lparr>db_artifacts := db_artifacts d @ [\<lparr>ar_id = ve_artifact v, ar_ticket = ve_ticket v, ar_name = name,
        ar_current = None, ar_state = st, ar_by = ve_by v, ar_created = ve_created v\<rparr>]\<rparr>)"

definition replay_blob :: "version_row \<Rightarrow> ddb \<Rightarrow> ddb" where
  "replay_blob v d =
     (if find_blob (the (ve_sha v)) d \<noteq> None then d
      else d\<lparr>db_blobs := db_blobs d @ [\<lparr>bl_sha = the (ve_sha v), bl_size = ve_size v, bl_refs = 0, bl_created = ve_created v\<rparr>]\<rparr>)"

definition replay_version :: "version_row \<Rightarrow> ddb \<Rightarrow> dexn + ddb" where
  "replay_version v d =
     (if list_ex (version_clash v) (db_versions d) then Inr d
      else if \<not> version_refs v d then Inl DSqlite
      else Inr (d\<lparr>db_versions := db_versions d @ [v]\<rparr>))"

definition current_seq :: "string \<Rightarrow> ddb \<Rightarrow> int" where
  "current_seq a d =
     (case find_artifact a d of
        None \<Rightarrow> - 1
      | Some r \<Rightarrow> if truthy_str (ar_current r)
          then (case find_version (the (ar_current r)) d of None \<Rightarrow> - 1 | Some v \<Rightarrow> int (ve_seq v)) else - 1)"

definition raise_fence :: "string \<Rightarrow> int option \<Rightarrow> ddb \<Rightarrow> ddb" where
  "raise_fence tk token d =
     (case token of
        None \<Rightarrow> d
      | Some n \<Rightarrow> d\<lparr>db_fences := alist_put tk (case alist_get tk (db_fences d) of None \<Rightarrow> n | Some m \<Rightarrow> max m n) (db_fences d)\<rparr>)"

fun apply_event :: "vevent \<Rightarrow> ddb \<Rightarrow> dexn + ddb" where
  "apply_event (EvCommitted v name st) d =
     and_then (replay_version v (replay_blob v (replay_artifact v name st d))) (\<lambda>d1.
       Inr (raise_fence (ve_ticket v) (ve_fence v)
         (if current_seq (ve_artifact v) d1 < int (ve_seq v) then set_current (ve_artifact v) (Some (ve_id v)) d1 else d1)))"
| "apply_event (EvDelete v a) d = Inr (set_current a None d)"
| "apply_event (EvMove a v) d = Inr (set_current a (Some v) d)"
| "apply_event (EvPurge h) d =
     (if list_ex (\<lambda>v. ve_sha v = Some h) (db_versions d) \<and> find_blob h d \<noteq> None then Inl DSqlite
      else Inr (d\<lparr>db_blobs := filter (\<lambda>b. bl_sha b \<noteq> h) (db_blobs d)\<rparr>))"
| "apply_event (EvAborted v) d = Inr (d\<lparr>db_versions := filter (\<lambda>r. ve_id r \<noteq> v) (db_versions d)\<rparr>)"

fun replay_journal :: "vevent list \<Rightarrow> ddb \<Rightarrow> dexn + ddb" where
  "replay_journal [] d = Inr d"
| "replay_journal (e # es) d = and_then (apply_event e d) (replay_journal es)"

definition recount :: "ddb \<Rightarrow> ddb" where
  "recount d = d\<lparr>db_blobs := map (\<lambda>b. b\<lparr>bl_refs := int (count_where (\<lambda>v. ve_sha v = Some (bl_sha b)) (db_versions d))\<rparr>)
     (db_blobs d)\<rparr>"

definition rebuild_index :: "vevent list \<Rightarrow> ddb \<Rightarrow> dexn + ddb" where
  "rebuild_index es d = and_then (replay_journal es d) (\<lambda>d1. Inr (recount d1))"

definition drive_boot :: "dstore \<Rightarrow> dexn + dstore" where
  "drive_boot s = and_then (rebuild_index (df_journal (ds_files s)) (ds_db s)) (\<lambda>d. Inr (s\<lparr>ds_db := d\<rparr>))"

section \<open>Reading a journal file\<close>

text \<open>\<open>readNdjson\<close> over the lines of a file: only the last one may be torn.\<close>

fun read_ndjson :: "(string \<Rightarrow> 'j option) \<Rightarrow> string list \<Rightarrow> ('j list \<times> bool) option" where
  "read_ndjson parse [] = Some ([], False)"
| "read_ndjson parse (l # ls) =
     (if l = [] then read_ndjson parse ls
      else case parse l of
          Some j \<Rightarrow> map_option (\<lambda>(js, torn). (j # js, torn)) (read_ndjson parse ls)
        | None \<Rightarrow> if ls = [] then Some ([], True) else None)"

section \<open>Verification\<close>

record verify_report =
  vr_checked :: nat
  vr_bad :: "string list"
  vr_missing :: "string list"
  vr_orphans :: "string list"
  vr_ok :: bool

definition verify_index :: "(string \<Rightarrow> string) \<Rightarrow> bool \<Rightarrow> int \<Rightarrow> dstore \<Rightarrow> verify_report \<times> dstore" where
  "verify_index sha full now s =
     (let d = ds_db s; f = ds_files s;
          shas = remdups (List.map_filter ve_sha (db_versions d));
          missing = filter (\<lambda>h. df_cas f h = None) shas;
          present = filter (\<lambda>h. df_cas f h \<noteq> None) shas;
          bad = (if full then filter (\<lambda>h. sha (fl_bytes (df_inodes f (the (df_cas f h)))) \<noteq> h) present else []);
          orphans = map bl_sha (filter (\<lambda>b. bl_refs b \<le> 0 \<or> bl_sha b \<notin> set shas) (db_blobs d))
      in (\<lparr>vr_checked = (if full then length present else 0), vr_bad = bad, vr_missing = missing, vr_orphans = orphans,
           vr_ok = (missing = [] \<and> bad = [])\<rparr>,
          on_db (set_meta ''last_verify_at'' (iso_string now)) s))"

end
