(* ===== verification/DriveSurface.thy ===== *)
theory DriveSurface
  imports DriveReads
begin

text \<open>
  The byte stream of an upload (\<open>PUT /api/uploads/:id\<close>

section \<open>The byte stream of an upload\<close> in \<open>http/server.ts\<close>): the checks before the stream is
  taken, one step per chunk, the end with the commit, and the cleanup when anything throws. Between two
  steps any other request may run.
\<close>

record dput =
  pt_who :: dprincipal
  pt_upload :: string
  pt_inode :: nat
  pt_bytes :: string
  pt_charged :: int
  pt_header :: "string option"

datatype put_answer = PutDone commit_result | PutFailed dexn | PutStream dput

definition flush_bytes :: nat where "flush_bytes = 8 * 1024 * 1024"

definition watermark_error :: "dconfig \<Rightarrow> dexn" where
  "watermark_error cfg = DErr DWatermark [(''watermark_pct'', JNum (dc_watermark cfg))]"

definition no_content :: upload_content where
  "no_content = \<lparr>mt_sha = [], mt_size = 0, mt_mime = [], mt_name = []\<rparr>"

text \<open>The staging file is opened, and truncated, when the stream is taken.\<close>

definition put_open ::
  "dconfig \<Rightarrow> int \<Rightarrow> volume \<Rightarrow> nat \<Rightarrow> dprincipal \<Rightarrow> string \<Rightarrow> string option \<Rightarrow> string \<Rightarrow> dstore \<Rightarrow> put_answer \<times> dstore" where
  "put_open cfg now vol inflight p uid hdr vid s =
     (case get_upload uid s of
        None \<Rightarrow> (PutFailed (derr DNotFound), s)
      | Some u \<Rightarrow>
          if not_owner p u then (PutFailed (derr DNotOwner), snd (owner_denied now p u s :: unit dres))
          else if up_state u = UCommitted \<and> truthy_str (up_result u)
          then (case commit_upload cfg now p vid uid no_content s of
              (Inl e, s1) \<Rightarrow> (PutFailed e, s1)
            | (Inr r, s1) \<Rightarrow> (PutDone r, s1))
          else if up_state u = UExpired then (PutFailed (derr DUploadExpired), s)
          else if up_state u \<noteq> UPending then (PutFailed (derr DUploadState), s)
          else if \<not> under_watermark cfg vol then (PutFailed (watermark_error cfg), s)
          else if dc_inflight cfg \<le> inflight then (PutFailed (derr DConflict), s)
          else (let (i, f) = open_staging now uid (ds_files s) in
            (PutStream \<lparr>pt_who = p, pt_upload = uid, pt_inode = i, pt_bytes = [], pt_charged = 0, pt_header = hdr\<rparr>,
             s\<lparr>ds_files := f\<rparr>)))"

text \<open>Charge what is not charged yet, and keep the session alive.\<close>

definition put_charge :: "dconfig \<Rightarrow> int \<Rightarrow> volume \<Rightarrow> dput \<Rightarrow> dstore \<Rightarrow> (dexn + dput) \<times> dstore" where
  "put_charge cfg now vol t s =
     (let n = int (length (pt_bytes t)) in
      if \<not> under_watermark cfg vol then (Inl (watermark_error cfg), s)
      else case charge_quota cfg now (dp_sub (pt_who t)) (n - pt_charged t) (ds_db s) of
          Inl e \<Rightarrow> (Inl e, s)
        | Inr d \<Rightarrow> (Inr (t\<lparr>pt_charged := n\<rparr>), touch_upload now (pt_upload t) n (s\<lparr>ds_db := d\<rparr>)))"

definition put_chunk :: "dconfig \<Rightarrow> int \<Rightarrow> volume \<Rightarrow> string \<Rightarrow> dput \<Rightarrow> dstore \<Rightarrow> (dexn + dput) \<times> dstore" where
  "put_chunk cfg now vol buf t s =
     (let total = length (pt_bytes t) + length buf;
          t1 = t\<lparr>pt_bytes := pt_bytes t @ buf\<rparr>;
          s1 = on_files (write_inode now (pt_inode t) (length (pt_bytes t)) buf) s in
      if dc_max_bytes cfg < total then (Inl (DErr DOverSize [(''cap'', JNum (int (dc_max_bytes cfg)))]), s)
      else if int flush_bytes \<le> int total - pt_charged t then put_charge cfg now vol t1 s1
      else (Inr t1, s1))"

text \<open>The cleanup: what was charged is recorded, then the session is aborted; errors of the cleanup are dropped.\<close>

definition put_fail :: "int \<Rightarrow> dput \<Rightarrow> dstore \<Rightarrow> dstore" where
  "put_fail now t s = snd (abort_upload now (pt_who t) (pt_upload t) (touch_upload now (pt_upload t) (pt_charged t) s))"

definition put_content :: "(string \<Rightarrow> string) \<Rightarrow> dput \<Rightarrow> dstore \<Rightarrow> upload_content" where
  "put_content sha t s =
     \<lparr>mt_sha = sha (pt_bytes t), mt_size = length (pt_bytes t), mt_mime = sniffed (pt_bytes t),
      mt_name = (if truthy_str (pt_header t) then the (pt_header t)
        else case get_upload (pt_upload t) s of None \<Rightarrow> [] | Some u \<Rightarrow> up_name u)\<rparr>"

text \<open>What the stream has not been charged for yet is charged at its end.\<close>

definition put_rest :: "dconfig \<Rightarrow> int \<Rightarrow> volume \<Rightarrow> dput \<Rightarrow> dstore \<Rightarrow> (dexn + dput) \<times> dstore" where
  "put_rest cfg now vol t s =
     (if 0 < int (length (pt_bytes t)) - pt_charged t then put_charge cfg now vol t s else (Inr t, s))"

definition put_end ::
  "dconfig \<Rightarrow> (string \<Rightarrow> string) \<Rightarrow> int \<Rightarrow> volume \<Rightarrow> string \<Rightarrow> dput \<Rightarrow> dstore \<Rightarrow> commit_result dres" where
  "put_end cfg sha now vol vid t s =
     (case put_rest cfg now vol t s of
        (Inl e, s1) \<Rightarrow> (Inl e, put_fail now t s1)
      | (Inr t1, s1) \<Rightarrow>
         (case commit_upload cfg now (pt_who t) vid (pt_upload t) (put_content sha t s1) s1 of
            (Inr r, s2) \<Rightarrow> (Inr r, s2)
          | (Inl e, s2) \<Rightarrow> (Inl e, put_fail now t1 s2)))"

section \<open>The surfaces\<close>

text \<open>
  The surfaces of Drive: the resource server (\<open>auth/rs.ts\<close>, \<open>auth/identity.ts\<close>), the budget and the step-up
  (\<open>auth/budget.ts\<close>), the header matrix of a download (\<open>http/download.ts\<close>), the routes (\<open>http/server.ts\<close>)
  and the MCP tools (\<open>mcp/server.ts\<close>). The validation of a token is a parameter, as is the outcome of every
  fetch. The cursor of a page stands decoded in a call; names of files are of ASCII.
\<close>

section \<open>Authentication\<close>

record dheaders =
  dh_authorization :: "string option"
  dh_identity :: "string option"
  dh_none_match :: "string option"
  dh_if_range :: "string option"
  dh_range :: "string option"
  dh_name :: "string option"

definition parse_scopes :: "json option \<Rightarrow> string list" where
  "parse_scopes raw = (case raw of Some (JStr s) \<Rightarrow> split_words s | _ \<Rightarrow> [])"

definition drive_audience_ok :: "dconfig \<Rightarrow> json \<Rightarrow> bool" where
  "drive_audience_ok cfg payload =
     (case jget ''aud'' payload of
        Some (JArr xs) \<Rightarrow> xs = [JStr (dc_audience cfg)]
      | a \<Rightarrow> a = Some (JStr (dc_audience cfg)))"

definition coalesced_string :: "json option \<Rightarrow> string" where
  "coalesced_string j = (if nullish j then [] else js_string (the j))"

definition verify_bearer :: "dconfig \<Rightarrow> (string \<Rightarrow> json option) \<Rightarrow> string option \<Rightarrow> dexn + dprincipal" where
  "verify_bearer cfg jwt auth =
     need auth (derr DUnauthenticated) (\<lambda>a.
     throw_if (\<not> starts_with ''Bearer '' a) (derr DUnauthenticated)
     (need (jwt (trim (drop 7 a))) (derr DUnauthenticated) (\<lambda>payload.
      throw_if (\<not> drive_audience_ok cfg payload) (derr DUnauthenticated)
      (let sub = coalesced_string (jget ''sub'' payload) in
       throw_if (sub = []) (derr DUnauthenticated)
       (Inr \<lparr>dp_sub = sub, dp_scopes = parse_scopes (jget ''scope'' payload), dp_identity = False\<rparr>)))))"

text \<open>\<open>makeIdentityVerifier\<close> with \<open>toClaims\<close>, then \<open>verifyHumanIdentity\<close>; no verifier is configured when \<open>ident\<close> is \<open>None\<close>.\<close>

definition identity_claims :: "(string \<Rightarrow> json option) \<Rightarrow> string \<Rightarrow> (string \<times> json option) option" where
  "identity_claims jwt v =
     (case jwt v of
        None \<Rightarrow> None
      | Some payload \<Rightarrow> (case jget ''sub'' payload of
          Some (JStr sub) \<Rightarrow> if sub = [] then None else Some (sub, jget ''scope'' payload)
        | _ \<Rightarrow> None))"

definition verify_human :: "(string \<Rightarrow> json option) option \<Rightarrow> string \<Rightarrow> dexn + dprincipal" where
  "verify_human ident v =
     throw_if (v = []) (derr DUnauthenticated)
     (need ident (derr DUnauthenticated) (\<lambda>jwt.
      need (identity_claims jwt v) (derr DUnauthenticated) (\<lambda>(sub, scope).
       Inr \<lparr>dp_sub = sub, dp_scopes = parse_scopes scope, dp_identity = True\<rparr>)))"

text \<open>What does not change while the service runs.\<close>

record denv =
  dn_cfg :: dconfig
  dn_jwt :: "string \<Rightarrow> json option"
  dn_ident :: "(string \<Rightarrow> json option) option"
  dn_sha :: "string \<Rightarrow> string"

definition dauthenticate :: "denv \<Rightarrow> dheaders \<Rightarrow> dexn + dprincipal" where
  "dauthenticate en h =
     (if truthy_str (dh_authorization h) then verify_bearer (dn_cfg en) (dn_jwt en) (dh_authorization h)
      else case dh_identity h of
          Some v \<Rightarrow> verify_human (dn_ident en) v
        | None \<Rightarrow> Inl (derr DUnauthenticated))"

definition drive_scope :: "dprincipal \<Rightarrow> string \<Rightarrow> dexn + unit" where
  "drive_scope p sc = throw_if (\<not> has_scope p sc) (DErr DInsufficientScope [(''required'', JStr sc)]) (Inr ())"

definition require_human :: "dprincipal \<Rightarrow> dexn + unit" where
  "require_human p = throw_if (dp_kind p \<noteq> DHuman) (derr DForbidden) (Inr ())"

section \<open>Budget\<close>

datatype aclass = ClsRead | ClsWrite | ClsDestroy

definition drive_budget :: "dconfig \<Rightarrow> aclass \<Rightarrow> fetched \<Rightarrow> dexn + unit" where
  "drive_budget cfg cls reply =
     (if \<not> dc_budget cfg then throw_if (cls = ClsDestroy) (derr DForbidden) (Inr ())
      else case reply of
          NetError \<Rightarrow> throw_if (cls = ClsDestroy) (derr DForbidden) (Inr ())
        | Resp st _ \<Rightarrow> throw_if (st = 429) (derr DQuota) (throw_if (\<not> resp_ok st \<and> cls = ClsDestroy) (derr DForbidden) (Inr ())))"

definition require_step_up :: "dconfig \<Rightarrow> dprincipal \<Rightarrow> fetched \<Rightarrow> dexn + unit" where
  "require_step_up cfg p reply =
     throw_if (dp_kind p \<noteq> DHuman) (derr DForbidden)
     (throw_if (\<not> dc_budget cfg) (derr DForbidden)
     (case reply of
        NetError \<Rightarrow> Inl (derr DForbidden)
      | Resp st body \<Rightarrow>
          throw_if (\<not> resp_ok st) (derr DForbidden)
          (need body (derr DForbidden) (\<lambda>b.
           throw_if (b = JNull) (derr DForbidden)
           (throw_if (jget ''active'' b = Some (JBool False) \<or> jget ''fresh'' b = Some (JBool False)) (derr DForbidden)
           (throw_if (case jget ''kill_level'' b of Some (JNum n) \<Rightarrow> 0 < n | _ \<Rightarrow> False) (derr DForbidden) (Inr ())))))))"

text \<open>\<open>ConcurrencyCeiling\<close>\<close>

definition ceiling_acquire :: "dconfig \<Rightarrow> nat \<Rightarrow> dexn + nat" where
  "ceiling_acquire cfg n = throw_if (dc_inflight cfg \<le> n) (derr DConflict) (Inr (n + 1))"

definition ceiling_release :: "nat \<Rightarrow> nat" where
  "ceiling_release n = n - 1"

section \<open>Downloads\<close>

definition safe_char :: "char \<Rightarrow> char" where
  "safe_char c = (if (of_char c :: nat) < 0x20 \<or> 0x7e < (of_char c :: nat) \<or> c = CHR 0x22 \<or> c = CHR 0x5C then CHR ''_'' else c)"

definition encode_name :: "string \<Rightarrow> string" where
  "encode_name s = concat (map (\<lambda>c. if c \<in> {CHR 0x27, CHR ''('', CHR '')'', CHR ''*''}
     then [CHR ''%'', upper_hex (of_char c div 16), upper_hex (of_char c mod 16)] else [c]) (encode_uri s))"

definition content_disposition :: "string \<Rightarrow> bool \<Rightarrow> string" where
  "content_disposition name inline =
     (let f = take 200 (map safe_char name) in
      (if inline then ''inline'' else ''attachment'') @ ''; filename='' @ [CHR 0x22] @ (if f = [] then ''download'' else f) @
      [CHR 0x22] @ ''; filename*=UTF-8'' @ [CHR 0x27, CHR 0x27] @ encode_name name)"

datatype drange = NoRange | BadRange | ByteRange int int

definition clip_range :: "int \<Rightarrow> int \<Rightarrow> int \<Rightarrow> drange" where
  "clip_range sz a b =
     (if b < a \<or> sz \<le> a then BadRange else ByteRange a (if sz \<le> b then sz - 1 else b))"

text \<open>The two numbers of \<open>/^(\d*)-(\d*)$/\<close>.\<close>

definition range_match :: "string \<Rightarrow> (string \<times> string) option" where
  "range_match t =
     (case dropWhile is_digit t of
        c # b \<Rightarrow> if c = CHR ''-'' \<and> list_all is_digit b then Some (takeWhile is_digit t, b) else None
      | [] \<Rightarrow> None)"

definition parse_range :: "string option \<Rightarrow> nat \<Rightarrow> drange" where
  "parse_range hdr sz =
     (if \<not> truthy_str hdr \<or> \<not> starts_with ''bytes='' (the hdr) then NoRange
      else let spec = drop 6 (the hdr) in
        if CHR '','' \<in> set spec then NoRange
        else case range_match (trim spec) of
            None \<Rightarrow> NoRange
          | Some (a, b) \<Rightarrow>
              if a = [] then
                (if digits_val b = 0 then BadRange
                 else clip_range (int sz) (max 0 (int sz - int (digits_val b))) (int sz - 1))
              else clip_range (int sz) (int (digits_val a)) (if b = [] then int sz - 1 else int (digits_val b)))"

datatype dbody = BNone | BJson json | BBytes string

record dresponse =
  rs_status :: nat
  rs_headers :: "(string \<times> string) list"
  rs_body :: dbody

definition etag_of :: "content \<Rightarrow> string" where
  "etag_of c = [CHR 0x22] @ ''sha256:'' @ ct_sha c @ [CHR 0x22]"

definition safety_headers :: "content \<Rightarrow> (string \<times> string) list" where
  "safety_headers c =
     [(''X-Content-Type-Options'', ''nosniff''),
      (''Content-Security-Policy'', ''default-src '' @ [CHR 0x27] @ ''none'' @ [CHR 0x27] @ ''; sandbox''),
      (''Content-Type'', ct_mime c),
      (''Content-Disposition'', content_disposition (ct_name c) (inline_allowed (ct_mime c))),
      (''Accept-Ranges'', ''bytes''), (''ETag'', etag_of c),
      (''Cache-Control'', if ct_immutable c then ''private, immutable, max-age=31536000'' else ''private, no-cache'')]"

text \<open>The stream of a file: a missing file fails it before anything is sent.\<close>

definition stream_file :: "dfiles \<Rightarrow> string \<Rightarrow> nat \<Rightarrow> (string \<times> string) list \<Rightarrow> (string \<Rightarrow> string) \<Rightarrow> dresponse" where
  "stream_file f sha st hs part =
     (case df_cas f sha of
        None \<Rightarrow> \<lparr>rs_status = 500, rs_headers = [], rs_body = BNone\<rparr>
      | Some i \<Rightarrow> \<lparr>rs_status = st, rs_headers = hs, rs_body = BBytes (part (fl_bytes (df_inodes f i)))\<rparr>)"

definition slice :: "int \<Rightarrow> int \<Rightarrow> string \<Rightarrow> string" where
  "slice a b s = take (nat (b - a + 1)) (drop (nat a) s)"

definition send_content :: "dheaders \<Rightarrow> bool \<Rightarrow> content \<Rightarrow> dfiles \<Rightarrow> dresponse" where
  "send_content h is_head c f =
     (let hs = safety_headers c; etag = etag_of c in
      if truthy_str (dh_none_match h) \<and> dh_none_match h = Some etag
      then \<lparr>rs_status = 304, rs_headers = hs, rs_body = BNone\<rparr>
      else case (if \<not> truthy_str (dh_if_range h) \<or> dh_if_range h = Some etag then parse_range (dh_range h) (ct_size c)
            else NoRange) of
          BadRange \<Rightarrow> \<lparr>rs_status = 416, rs_headers = hs @ [(''Content-Range'', ''bytes */'' @ nat_str (ct_size c))], rs_body = BNone\<rparr>
        | ByteRange a b \<Rightarrow>
            (let hs' = hs @ [(''Content-Range'', ''bytes '' @ int_str a @ ''-'' @ int_str b @ ''/'' @ nat_str (ct_size c)),
                  (''Content-Length'', int_str (b - a + 1))] in
             if is_head then \<lparr>rs_status = 206, rs_headers = hs', rs_body = BNone\<rparr>
             else stream_file f (ct_sha c) 206 hs' (slice a b))
        | NoRange \<Rightarrow>
            (let hs' = hs @ [(''Content-Length'', nat_str (ct_size c))] in
             if is_head then \<lparr>rs_status = 200, rs_headers = hs', rs_body = BNone\<rparr>
             else stream_file f (ct_sha c) 200 hs' (\<lambda>b. b)))"

end
