(* ===== verification/DriveRoutes.thy ===== *)
theory DriveRoutes
  imports DriveSurface
begin

text \<open>
  The routes of Drive (\<open>http/server.ts\<close>) and the MCP tools (\<open>mcp/server.ts\<close>). The calls that are awaited in a
  handler (the token, the budget, the step-up) come before the first access to the store, so a request is
  one step; the byte stream of an upload is apart (in \<open>DriveSurface\<close>).
\<close>

datatype dcall =
    DcHealth | DcRegister json | DcAbort string
  | DcList "string option" string bool | DcTickets string | DcArtifact string
  | DcContent string "string option" bool | DcVersion string bool
  | DcDelete string | DcRestore string json
  | DcPreview | DcAudit "string option" | DcPurge json

text \<open>What the world adds to a request: the clock, fresh identifiers, the answers of the budget and of the
  step-up, the volume.\<close>

record drive_world =
  dw_now :: int
  dw_aid :: string
  dw_uid :: string
  dw_vid :: string
  dw_budget :: fetched
  dw_step :: fetched
  dw_volume :: volume

definition json_ok :: "nat \<Rightarrow> json \<Rightarrow> dresponse" where
  "json_ok st j = \<lparr>rs_status = st, rs_headers = [], rs_body = BJson j\<rparr>"

text \<open>\<open>toStructured\<close>, without the message.\<close>

definition structured :: "dcode \<Rightarrow> (string \<times> json) list \<Rightarrow> json" where
  "structured c d = JObj ((''code'', JStr (dcode_str c)) # (if d = [] then [] else [(''detail'', JObj d)]))"

definition drive_error :: "dconfig \<Rightarrow> dexn \<Rightarrow> dresponse" where
  "drive_error cfg e =
     (case e of
        DErr c d \<Rightarrow> \<lparr>rs_status = dcode_http c,
          rs_headers = (if c = DUnauthenticated then [(''WWW-Authenticate'', ''Bearer resource_metadata='' @ [CHR 0x22] @
             dc_public cfg @ ''/.well-known/oauth-protected-resource'' @ [CHR 0x22])] else []),
          rs_body = BJson (JObj [(''error'', structured c d)])\<rparr>
      | _ \<Rightarrow> \<lparr>rs_status = 500, rs_headers = [],
          rs_body = BJson (JObj [(''error'', JObj [(''code'', JStr ''INTERNAL''), (''message'', JStr ''internal error'')])])\<rparr>)"

definition or_null :: "json option \<Rightarrow> json option" where
  "or_null j = (if nullish j then None else j)"

definition reg_of_body :: "json \<Rightarrow> reg_args" where
  "reg_of_body b =
     \<lparr>ri_ticket = coalesced_string (jget ''ticket_id'' b), ri_name = coalesced_string (jget ''logical_name'' b),
      ri_op = coalesced_string (jget ''op_id'' b), ri_fence = or_null (jget ''fencing_token'' b),
      ri_hint = or_null (jget ''mime_hint'' b), ri_note = or_null (jget ''note_id'' b),
      ri_expected = or_null (jget ''expected_sha256'' b)\<rparr>"

text \<open>The arguments of \<open>put_artifact\<close>.\<close>

definition reg_of_tool :: "json \<Rightarrow> reg_args" where
  "reg_of_tool b =
     \<lparr>ri_ticket = coalesced_string (jget ''ticket_id'' b), ri_name = coalesced_string (jget ''filename'' b),
      ri_op = coalesced_string (jget ''op_id'' b), ri_fence = or_null (jget ''fencing_token'' b),
      ri_hint = or_null (jget ''content_type_hint'' b), ri_note = or_null (jget ''note_id'' b), ri_expected = None\<rparr>"

definition paged :: "string \<Rightarrow> json list \<times> string option \<Rightarrow> json" where
  "paged key r = (case r of (rows, nxt) \<Rightarrow>
     JObj ((key, JArr rows) # (case nxt of None \<Rightarrow> [] | Some c \<Rightarrow> [(''next_page_token'', JStr c)])))"

definition register_answer :: "dconfig \<Rightarrow> dprincipal \<Rightarrow> reg_result \<Rightarrow> json" where
  "register_answer cfg p r =
     JObj [(''artifact_id'', JStr (rg_artifact r)), (''upload_id'', JStr (rg_upload r)),
       (''upload_url'', JStr ((if dp_identity p then dc_public cfg else dc_internal cfg) @ ''/api/uploads/'' @ rg_upload r)),
       (''ticket_state'', JStr (tstate_str (rg_state r))), (''expires_policy'', JStr (rg_policy r))]"

definition outcome_str :: "doutcome \<Rightarrow> string" where
  "outcome_str oc = (case oc of AuditOk \<Rightarrow> ''ok'' | AuditDenied \<Rightarrow> ''denied'' | AuditRejected \<Rightarrow> ''rejected'')"

definition kind_str :: "dkind \<Rightarrow> string" where
  "kind_str k = (case k of DAgent \<Rightarrow> ''agent'' | DService \<Rightarrow> ''service'' | DHuman \<Rightarrow> ''human'' | DAnonymous \<Rightarrow> ''anonymous'')"

definition audit_entry :: "drive_audit \<Rightarrow> json" where
  "audit_entry a =
     JObj [(''ts'', JStr (iso_string (da_ts a))), (''principal'', JStr (da_sub a)), (''principal_kind'', JStr (kind_str (da_kind a))),
       (''action'', JStr (da_action a)), (''ticket_id'', jstr (da_ticket a)), (''artifact_id'', jstr (da_artifact a)),
       (''version_id'', jstr (da_version a)), (''outcome'', JStr (outcome_str (da_outcome a)))]"

text \<open>The newest entries first; SQLite takes a negative limit as none, and no number that is not whole.\<close>

definition admin_audit_page :: "string option \<Rightarrow> ddb \<Rightarrow> dexn + json" where
  "admin_audit_page limit d =
     (case (case limit of None \<Rightarrow> Some 100 | Some t \<Rightarrow> number_of_text t) of
        None \<Rightarrow> Inl DSqlite
      | Some n \<Rightarrow> Inr (JObj [(''entries'', JArr (map audit_entry
          (if min n 500 < 0 then rev (db_audit d) else take (nat (min n 500)) (rev (db_audit d)))))]))"

section \<open>Routes\<close>

text \<open>The checks of a route before its store is touched.\<close>

definition admit :: "denv \<Rightarrow> drive_world \<Rightarrow> dprincipal \<Rightarrow> dcall \<Rightarrow> dexn + unit" where
  "admit en w p c =
     (let cfg = dn_cfg en; scope = drive_scope p; budget = (\<lambda>cls. drive_budget cfg cls (dw_budget w)) in
      case c of
        DcHealth \<Rightarrow> Inr ()
      | DcRegister _ \<Rightarrow> and_then (scope ''drive:write'') (\<lambda>_. budget ClsWrite)
      | DcAbort _ \<Rightarrow> scope ''drive:write''
      | DcDelete _ \<Rightarrow> and_then (require_human p) (\<lambda>_. scope ''drive:write'')
      | DcRestore _ _ \<Rightarrow> and_then (require_human p) (\<lambda>_. scope ''drive:write'')
      | DcPreview \<Rightarrow> require_human p
      | DcAudit _ \<Rightarrow> require_human p
      | DcPurge _ \<Rightarrow> and_then (require_human p) (\<lambda>_. and_then (scope ''drive:write'') (\<lambda>_.
          and_then (budget ClsDestroy) (\<lambda>_. require_step_up cfg p (dw_step w))))
      | _ \<Rightarrow> and_then (scope ''drive:read'') (\<lambda>_. budget ClsRead))"

definition map_res :: "('a \<Rightarrow> 'b) \<Rightarrow> 'a dres \<Rightarrow> 'b dres" where
  "map_res g r = (map_sum id g (fst r), snd r)"

text \<open>The content of a version: the read is recorded before the bytes are sent.\<close>

definition content_call ::
  "drive_world \<Rightarrow> dheaders \<Rightarrow> dprincipal \<Rightarrow> string option \<Rightarrow> bool \<Rightarrow> dexn + content \<Rightarrow> dstore \<Rightarrow> dresponse dres" where
  "content_call w h p aid is_head r s =
     (case r of
        Inl e \<Rightarrow> (Inl e, s)
      | Inr c \<Rightarrow> (let s1 = daudit (dw_now w) p ''read'' AuditOk None aid (Some (ct_version c)) None s in
          (Inr (send_content h is_head c (ds_files s1)), s1)))"

fun perform :: "denv \<Rightarrow> drive_world \<Rightarrow> dheaders \<Rightarrow> dprincipal \<Rightarrow> dcall \<Rightarrow> dstore \<Rightarrow> dresponse dres" where
  "perform en w h p DcHealth s = (Inr (json_ok 200 (drive_health (dn_cfg en) (dw_volume w) s)), s)"
| "perform en w h p (DcRegister b) s =
     map_res (\<lambda>r. json_ok 201 (register_answer (dn_cfg en) p r))
       (register (dn_cfg en) (dw_now w) p (reg_of_body b) (dw_aid w) (dw_uid w) s)"
| "perform en w h p (DcAbort u) s =
     map_res (\<lambda>_. \<lparr>rs_status = 204, rs_headers = [], rs_body = BNone\<rparr>) (abort_upload (dw_now w) p u s)"
| "perform en w h p (DcList tk cursor deleted) s =
     (throw_if (\<not> truthy_str tk) (derr DMalformed)
       (map_sum id (\<lambda>r. json_ok 200 (paged ''artifacts'' r)) (list_by_ticket (the tk) cursor deleted s)), s)"
| "perform en w h p (DcTickets cursor) s = (Inr (json_ok 200 (paged ''tickets'' (list_tickets cursor s))), s)"
| "perform en w h p (DcArtifact a) s = (need (get_artifact a s) (derr DNotFound) (\<lambda>j. Inr (json_ok 200 j)), s)"
| "perform en w h p (DcContent a v is_head) s = content_call w h p (Some a) is_head (resolve_content a v s) s"
| "perform en w h p (DcVersion v is_head) s = content_call w h p None is_head (resolve_version v s) s"
| "perform en w h p (DcDelete a) s =
     map_res (\<lambda>(v, k). json_ok 200 (JObj [(''version_id'', JStr v), (''seq'', JNum (int k))]))
       (delete_marker (dw_now w) p (dw_vid w) a s)"
| "perform en w h p (DcRestore a b) s =
     (let v = jget ''version_id'' b in
      if \<not> js_truthy v then (Inl (derr DMalformed), s)
      else if find_artifact a (ds_db s) = None then (Inl (derr DNotFound), s)
      else case bound_text v of
          Inl e \<Rightarrow> (Inl e, s)
        | Inr None \<Rightarrow> (Inl (derr DNotFound), s)
        | Inr (Some t) \<Rightarrow> map_res (\<lambda>_. json_ok 200 (JObj [(''ok'', JBool True)])) (restore_version (dw_now w) p a t s))"
| "perform en w h p DcPreview s =
     (let (ch, bl, n) = gc_preview (ds_db s) in
      (Inr (json_ok 200 (JObj [(''delete_marked_chains'', JNum (int ch)), (''refcount0_blobs'', JNum (int bl)),
        (''reclaimable_bytes'', JNum (int n))])), s))"
| "perform en w h p (DcAudit limit) s = (map_sum id (json_ok 200) (admin_audit_page limit (ds_db s)), s)"
| "perform en w h p (DcPurge b) s =
     (if jget ''confirm'' b \<noteq> Some (JStr ''PURGE'') then (Inl (derr DConflict), s)
      else map_res (\<lambda>(bl, ch, n). json_ok 200 (JObj [(''purged_blobs'', JNum (int bl)), (''purged_chains'', JNum (int ch)),
          (''reclaimed_bytes'', JNum (int n))])) (gc_phase2 (dw_now w) p s))"

text \<open>A request: who, may they, and what it does; every error is answered by the handler of errors.\<close>

definition drive_http :: "denv \<Rightarrow> drive_world \<Rightarrow> dheaders \<Rightarrow> dcall \<Rightarrow> dstore \<Rightarrow> dresponse \<times> dstore" where
  "drive_http en w h c s =
     (case (if c = DcHealth then Inr \<lparr>dp_sub = [], dp_scopes = [], dp_identity = False\<rparr> else dauthenticate en h) of
        Inl e \<Rightarrow> (drive_error (dn_cfg en) e, s)
      | Inr p \<Rightarrow>
         (case admit en w p c of
            Inl e \<Rightarrow> (drive_error (dn_cfg en) e, s)
          | Inr _ \<Rightarrow>
             (case perform en w h p c s of
                (Inl e, s1) \<Rightarrow> (drive_error (dn_cfg en) e, s1)
              | (Inr r, s1) \<Rightarrow> (r, s1))))"

text \<open>\<open>maybeCheckTicket\<close>: the ticket a registration over HTTP has checked at the Board, afterwards.\<close>

definition wants_check :: "dconfig \<Rightarrow> dcall \<Rightarrow> dresponse \<Rightarrow> string option" where
  "wants_check cfg c r =
     (case c of
        DcRegister b \<Rightarrow>
          (case rs_body r of
             BJson j \<Rightarrow> if rs_status r = 201 \<and> dc_board cfg \<and> coalesced_string (jget ''artifact_id'' j) \<noteq> [] \<and>
                 jget ''ticket_state'' j \<noteq> Some (JStr ''verified'')
               then Some (coalesced_string (jget ''ticket_id'' b)) else None
           | _ \<Rightarrow> None)
      | _ \<Rightarrow> None)"

section \<open>MCP\<close>

datatype drive_rpc = RpcInitialize | RpcList | RpcPing | RpcCall string json | RpcOther string

definition tool_ok :: "json \<Rightarrow> json" where
  "tool_ok data = JObj [(''structuredContent'', data),
     (''content'', JArr [JObj [(''type'', JStr ''text''), (''text'', JStr (json_str data))]])]"

definition tool_error :: "dcode \<Rightarrow> (string \<times> json) list \<Rightarrow> json" where
  "tool_error c d = JObj [(''isError'', JBool True), (''structuredContent'', structured c d),
     (''content'', JArr [JObj [(''type'', JStr ''text''), (''text'', JStr (json_str (structured c d)))]])]"

definition put_artifact :: "denv \<Rightarrow> drive_world \<Rightarrow> dprincipal \<Rightarrow> json \<Rightarrow> dstore \<Rightarrow> json dres" where
  "put_artifact en w p b s =
     (case and_then (drive_scope p ''drive:write'') (\<lambda>_. drive_budget (dn_cfg en) ClsWrite (dw_budget w)) of
        Inl e \<Rightarrow> (Inl e, s)
      | Inr _ \<Rightarrow> map_res (\<lambda>r. tool_ok (JObj [(''artifact_id'', JStr (rg_artifact r)),
            (''upload_url'', JStr (dc_internal (dn_cfg en) @ ''/api/uploads/'' @ rg_upload r)),
            (''expires_policy'', JStr (rg_policy r)), (''ticket_state'', JStr (tstate_str (rg_state r)))]))
          (register (dn_cfg en) (dw_now w) p (reg_of_tool b) (dw_aid w) (dw_uid w) s))"

definition tool_artifact :: "dconfig \<Rightarrow> json option \<Rightarrow> json \<Rightarrow> json" where
  "tool_artifact cfg vid j =
     (let m = the (jget ''metadata'' j); v = (if nullish vid then or_null (jget ''current_version_id'' m) else vid);
          keep = (\<lambda>k. (k, the (jget k m))) in
      tool_ok (JObj ([keep ''artifact_id'', keep ''ticket_id'', keep ''logical_name'', keep ''ticket_state''] @
        (case v of None \<Rightarrow> [] | Some x \<Rightarrow> [(''version_id'', x)]) @
        [keep ''current'', (''download_url'', if js_truthy v
           then JStr (dc_internal cfg @ ''/api/versions/'' @ js_string (the v) @ ''/content'') else JNull)])))"

definition mcp_read :: "denv \<Rightarrow> drive_world \<Rightarrow> dprincipal \<Rightarrow> dexn + json \<Rightarrow> dexn + json" where
  "mcp_read en w p r =
     and_then (drive_scope p ''drive:read'') (\<lambda>_. and_then (drive_budget (dn_cfg en) ClsRead (dw_budget w)) (\<lambda>_. r))"

definition call_tool :: "denv \<Rightarrow> drive_world \<Rightarrow> dprincipal \<Rightarrow> string \<Rightarrow> json \<Rightarrow> dstore \<Rightarrow> json dres" where
  "call_tool en w p name b s =
     (if name = ''put_artifact'' then put_artifact en w p b s
      else if name = ''get_artifact''
      then (mcp_read en w p (need (get_artifact (coalesced_string (jget ''artifact_id'' b)) s) (derr DNotFound)
        (\<lambda>j. Inr (tool_artifact (dn_cfg en) (jget ''version_id'' b) j))), s)
      else if name = ''list_artifacts''
      then (mcp_read en w p (map_sum id (\<lambda>r. tool_ok (paged ''artifacts'' r))
        (list_by_ticket (coalesced_string (jget ''ticket_id'' b))
          (case jget ''page_token'' b of Some (JStr c) \<Rightarrow> c | _ \<Rightarrow> [])
          (jget ''include_deleted'' b = Some (JBool True)) s)), s)
      else (Inl (derr DNotFound), s))"

datatype rpc_answer = RpcResult json | RpcError int

definition drive_mcp :: "denv \<Rightarrow> drive_world \<Rightarrow> dheaders \<Rightarrow> drive_rpc \<Rightarrow> dstore \<Rightarrow> rpc_answer \<times> dstore" where
  "drive_mcp en w h r s =
     (case r of
        RpcInitialize \<Rightarrow> (RpcResult (JObj [(''protocolVersion'', JStr ''2025-11-25''), (''capabilities'', JObj [(''tools'', JObj [])]),
          (''serverInfo'', JObj [(''name'', JStr ''drive''), (''version'', JStr ''0.1.0'')])]), s)
      | RpcList \<Rightarrow> (RpcResult (JObj [(''tools'', JArr (map JStr [''put_artifact'', ''get_artifact'', ''list_artifacts'']))]), s)
      | RpcPing \<Rightarrow> (RpcResult (JObj []), s)
      | RpcOther _ \<Rightarrow> (RpcError (- 32601), s)
      | RpcCall name b \<Rightarrow>
         (case verify_bearer (dn_cfg en) (dn_jwt en) (dh_authorization h) of
            Inl _ \<Rightarrow> (RpcError (- 32001), s)
          | Inr p \<Rightarrow>
             (case call_tool en w p name b s of
                (Inr j, s1) \<Rightarrow> (RpcResult j, s1)
              | (Inl (DErr c d), s1) \<Rightarrow> (RpcResult (tool_error c d), s1)
              | (Inl _, s1) \<Rightarrow> (RpcError (- 32603), s1))))"

end
