(* ===== verification/DriveSystem.thy ===== *)
theory DriveSystem
  imports DriveRoutes "HOL-Library.AList"
begin

text \<open>
  The service of Drive as it runs (\<open>index.ts\<close>, \<open>context.ts\<close>, \<open>cli.ts\<close>, \<open>backup/backup.ts\<close>): the store, the byte streams that are
  open, the checks of the Board under way. One action is one handler, one chunk of a stream, one run of the
  sweeper or of a command, a stop at any moment (also in the middle of a commit), or a boot.
\<close>

record dsys =
  dy_store :: dstore
  dy_puts :: "(nat \<times> dput) list"
  dy_next :: nat
  dy_inflight :: nat
  dy_checks :: "string list"
  dy_up :: bool

definition drive_init :: dsys where
  "drive_init = \<lparr>dy_store = empty_dstore, dy_puts = [], dy_next = 0, dy_inflight = 0, dy_checks = [], dy_up = False\<rparr>"

section \<open>The backup\<close>

definition backup_begin :: "dstore \<Rightarrow> dstore" where
  "backup_begin = on_db (set_meta ''backup_in_progress'' ''1'')"

text \<open>The end of a backup; the flag is cleared also when the snapshot failed.\<close>

definition backup_end :: "int \<Rightarrow> bool \<Rightarrow> dstore \<Rightarrow> dstore" where
  "backup_end now good = on_db (\<lambda>d. set_meta ''backup_in_progress'' ''0''
     (if good then set_meta ''last_backup_at'' (iso_string now) d else d))"

section \<open>Streams\<close>

definition put_request :: "denv \<Rightarrow> drive_world \<Rightarrow> dheaders \<Rightarrow> string \<Rightarrow> nat \<Rightarrow> dstore \<Rightarrow> put_answer \<times> dstore" where
  "put_request en w h u inflight s =
     (case and_then (dauthenticate en h) (\<lambda>p. and_then (drive_scope p ''drive:write'') (\<lambda>_. Inr p)) of
        Inl e \<Rightarrow> (PutFailed e, s)
      | Inr p \<Rightarrow> put_open (dn_cfg en) (dw_now w) (dw_volume w) inflight p u (dh_name h) (dw_vid w) s)"

definition take_stream :: "nat \<Rightarrow> dput \<Rightarrow> dsys \<Rightarrow> dsys" where
  "take_stream k t y = y\<lparr>dy_puts := AList.update k t (dy_puts y)\<rparr>"

definition end_stream :: "nat \<Rightarrow> dsys \<Rightarrow> dsys" where
  "end_stream k y = y\<lparr>dy_puts := AList.delete k (dy_puts y), dy_inflight := ceiling_release (dy_inflight y)\<rparr>"

definition stopped :: "dstore \<Rightarrow> dsys \<Rightarrow> dsys" where
  "stopped s y = y\<lparr>dy_store := s, dy_puts := [], dy_inflight := 0, dy_checks := [], dy_up := False\<rparr>"

text \<open>
  The process dies in a commit, after the line of the journal is on the disk: the transaction is lost, the
  rename may have happened or not.
\<close>

definition cut_commit :: "denv \<Rightarrow> drive_world \<Rightarrow> bool \<Rightarrow> dput \<Rightarrow> dstore \<Rightarrow> dstore" where
  "cut_commit en w renamed t s =
     (let m = put_content (dn_sha en) t s in
      case get_upload (pt_upload t) s of
        None \<Rightarrow> s
      | Some u \<Rightarrow>
          (case commit_tables (dw_now w) (pt_who t) (dw_vid w) u m (ds_db s) of
             Inl e \<Rightarrow> s
           | Inr d \<Rightarrow>
              (let s1 = journal (committed_event (new_version (dw_now w) (pt_who t) (dw_vid w) u m
                     (max_seq (up_artifact u) (ds_db s) + 1)) u d) s in
               case materialize (up_id u) (mt_sha m) (ds_files s1) of
                 Inr f \<Rightarrow> if renamed then s1\<lparr>ds_files := f\<rparr> else s1
               | Inl _ \<Rightarrow> s1)))"

text \<open>A commit can be cut where it would have got so far.\<close>

definition commits_now :: "denv \<Rightarrow> dput \<Rightarrow> dstore \<Rightarrow> bool" where
  "commits_now en t s =
     (case get_upload (pt_upload t) s of
        None \<Rightarrow> False
      | Some u \<Rightarrow> \<not> not_owner (pt_who t) u \<and> up_state u = UPending \<and>
          \<not> type_refused (dn_cfg en) (sniffed (pt_bytes t)) \<and>
          (truthy_str (up_expected u) \<longrightarrow> up_expected u = Some (dn_sha en (pt_bytes t))))"

section \<open>Actions\<close>

datatype dact =
    ActHttp drive_world dheaders dcall
  | ActMcp drive_world dheaders drive_rpc
  | ActOpen drive_world dheaders string
  | ActChunk drive_world nat string
  | ActEnd drive_world nat
  | ActDrop drive_world nat
  | ActChecked drive_world nat bool fetched
  | ActSweep drive_world
  | ActBackup
  | ActBackupEnd drive_world bool
  | ActVerify drive_world bool
  | ActRebuild
  | ActStop
  | ActCut drive_world nat bool
  | ActBoot

fun act :: "denv \<Rightarrow> dact \<Rightarrow> dsys \<Rightarrow> dsys" where
  "act en (ActHttp w h c) y =
     (if \<not> dy_up y then y
      else let (r, s) = drive_http en w h c (dy_store y) in
        y\<lparr>dy_store := s, dy_checks := dy_checks y @ (case wants_check (dn_cfg en) c r of None \<Rightarrow> [] | Some t \<Rightarrow> [t])\<rparr>)"
| "act en (ActMcp w h r) y =
     (if \<not> dy_up y then y else y\<lparr>dy_store := snd (drive_mcp en w h r (dy_store y))\<rparr>)"
| "act en (ActOpen w h u) y =
     (if \<not> dy_up y then y
      else let (r, s) = put_request en w h u (dy_inflight y) (dy_store y) in
        case r of
          PutStream t \<Rightarrow> y\<lparr>dy_store := s, dy_puts := (dy_next y, t) # dy_puts y, dy_next := dy_next y + 1,
             dy_inflight := dy_inflight y + 1\<rparr>
        | _ \<Rightarrow> y\<lparr>dy_store := s\<rparr>)"
| "act en (ActChunk w k buf) y =
     (case map_of (dy_puts y) k of
        None \<Rightarrow> y
      | Some t \<Rightarrow>
         (case put_chunk (dn_cfg en) (dw_now w) (dw_volume w) buf t (dy_store y) of
            (Inr t', s) \<Rightarrow> take_stream k t' (y\<lparr>dy_store := s\<rparr>)
          | (Inl e, s) \<Rightarrow> end_stream k (y\<lparr>dy_store := put_fail (dw_now w) t s\<rparr>)))"
| "act en (ActEnd w k) y =
     (case map_of (dy_puts y) k of
        None \<Rightarrow> y
      | Some t \<Rightarrow> end_stream k (y\<lparr>dy_store := snd (put_end (dn_cfg en) (dn_sha en) (dw_now w) (dw_volume w) (dw_vid w) t (dy_store y))\<rparr>))"
| "act en (ActDrop w k) y =
     (case map_of (dy_puts y) k of
        None \<Rightarrow> y
      | Some t \<Rightarrow> end_stream k (y\<lparr>dy_store := put_fail (dw_now w) t (dy_store y)\<rparr>))"
| "act en (ActChecked w n token reply) y =
     (if length (dy_checks y) \<le> n then y
      else y\<lparr>dy_checks := take n (dy_checks y) @ drop (n + 1) (dy_checks y),
        dy_store := on_db (record_check (dn_cfg en) (dw_now w) (dy_checks y ! n) (check_ticket (dn_cfg en) token reply)) (dy_store y)\<rparr>)"
| "act en (ActSweep w) y = y\<lparr>dy_store := phase1_sweep (dn_cfg en) (dw_now w) (dy_store y)\<rparr>"
| "act en ActBackup y = y\<lparr>dy_store := backup_begin (dy_store y)\<rparr>"
| "act en (ActBackupEnd w good) y = y\<lparr>dy_store := backup_end (dw_now w) good (dy_store y)\<rparr>"
| "act en (ActVerify w full) y = y\<lparr>dy_store := snd (verify_index (dn_sha en) full (dw_now w) (dy_store y))\<rparr>"
| "act en ActRebuild y = (case drive_boot (dy_store y) of Inl _ \<Rightarrow> y | Inr s \<Rightarrow> y\<lparr>dy_store := s\<rparr>)"
| "act en ActStop y = stopped (dy_store y) y"
| "act en (ActCut w k renamed) y =
     (case map_of (dy_puts y) k of
        None \<Rightarrow> y
      | Some t \<Rightarrow>
         (case put_rest (dn_cfg en) (dw_now w) (dw_volume w) t (dy_store y) of
            (Inl e, s) \<Rightarrow> y
          | (Inr t', s) \<Rightarrow> if commits_now en t' s then stopped (cut_commit en w renamed t' s) y else y))"
| "act en ActBoot y =
     (if dy_up y then y
      else case drive_boot (dy_store y) of Inl _ \<Rightarrow> y | Inr s \<Rightarrow> y\<lparr>dy_store := s, dy_up := True\<rparr>)"

section \<open>Runs\<close>

text \<open>Identifiers are fresh: they stand in no table, in no line of the journal and name no staging file.\<close>

fun event_version :: "vevent \<Rightarrow> string list" where
  "event_version (EvCommitted v _ _) = [ve_id v]"
| "event_version (EvDelete v _) = [v]"
| "event_version (EvMove _ v) = [v]"
| "event_version (EvAborted v) = [v]"
| "event_version (EvPurge _) = []"

fun event_artifact :: "vevent \<Rightarrow> string list" where
  "event_artifact (EvCommitted v _ _) = [ve_artifact v]"
| "event_artifact (EvDelete _ a) = [a]"
| "event_artifact (EvMove a _) = [a]"
| "event_artifact _ = []"

definition version_ids :: "dstore \<Rightarrow> string list" where
  "version_ids s = map ve_id (db_versions (ds_db s)) @ concat (map event_version (df_journal (ds_files s)))"

definition artifact_ids :: "dstore \<Rightarrow> string list" where
  "artifact_ids s = map ar_id (db_artifacts (ds_db s)) @ map up_artifact (db_uploads (ds_db s)) @
     concat (map event_artifact (df_journal (ds_files s)))"

definition fresh_ids :: "drive_world \<Rightarrow> dstore \<Rightarrow> bool" where
  "fresh_ids w s = (dw_vid w \<noteq> [] \<and> dw_vid w \<notin> set (version_ids s) \<and> dw_aid w \<notin> set (artifact_ids s) \<and>
     dw_uid w \<notin> up_id ` set (db_uploads (ds_db s)) \<and> df_staging (ds_files s) (dw_uid w) = None)"

fun act_world :: "dact \<Rightarrow> drive_world option" where
  "act_world (ActHttp w _ _) = Some w" | "act_world (ActMcp w _ _) = Some w" | "act_world (ActOpen w _ _) = Some w"
| "act_world (ActChunk w _ _) = Some w" | "act_world (ActEnd w _) = Some w" | "act_world (ActDrop w _) = Some w"
| "act_world (ActChecked w _ _ _) = Some w" | "act_world (ActSweep w) = Some w" | "act_world (ActBackupEnd w _) = Some w"
| "act_world (ActVerify w _) = Some w" | "act_world (ActCut w _ _) = Some w"
| "act_world _ = None"

definition act_fresh :: "dact \<Rightarrow> dsys \<Rightarrow> bool" where
  "act_fresh a y = (case act_world a of None \<Rightarrow> True | Some w \<Rightarrow> fresh_ids w (dy_store y))"

text \<open>The states a service reaches by actions of a given kind.\<close>

inductive drive_reach :: "denv \<Rightarrow> (dact \<Rightarrow> bool) \<Rightarrow> dsys \<Rightarrow> bool" for en ok where
  reach_init: "drive_reach en ok drive_init"
| reach_act: "drive_reach en ok y \<Longrightarrow> ok a \<Longrightarrow> act_fresh a y \<Longrightarrow> drive_reach en ok (act en a y)"

text \<open>A run of a list of actions, as far as their identifiers are fresh.\<close>

fun drive_run :: "denv \<Rightarrow> dact list \<Rightarrow> dsys \<Rightarrow> dsys option" where
  "drive_run en [] y = Some y"
| "drive_run en (a # as) y = (if act_fresh a y then drive_run en as (act en a y) else None)"

lemma run_reach: "drive_run en as y = Some z \<Longrightarrow> drive_reach en ok y \<Longrightarrow> list_all ok as \<Longrightarrow> drive_reach en ok z"
  by (induction as arbitrary: y) (auto intro: reach_act split: if_splits)

end
