(* ===== verification/DriveMoves.thy ===== *)
theory DriveMoves
  imports DriveSystem
begin

text \<open>
  The abstract machine behind Drive: every action of the service is a sequence of a few moves of the store
  (a quiet change, a new artifact, a commit, a torn commit, a pointer operation, a step of the collection,
  a replay). The invariants of the store are proved over the moves.
\<close>

section \<open>Moves\<close>

lemma store_both: "s\<lparr>ds_db := d, ds_files := f\<rparr> = \<lparr>ds_db = d, ds_files = f\<rparr>"
  by (cases s) simp


definition quiet :: "dstore \<Rightarrow> dstore \<Rightarrow> bool" where
  "quiet s s' =
     (db_blobs (ds_db s') = db_blobs (ds_db s) \<and> db_versions (ds_db s') = db_versions (ds_db s) \<and>
      db_fences (ds_db s') = db_fences (ds_db s) \<and>
      map (ar_state_update (\<lambda>_. TVerified)) (db_artifacts (ds_db s')) =
        map (ar_state_update (\<lambda>_. TVerified)) (db_artifacts (ds_db s)) \<and>
      df_journal (ds_files s') = df_journal (ds_files s) \<and> df_cas (ds_files s') = df_cas (ds_files s))"

text \<open>The upload sessions: their keys are distinct and those of agents carry a token; none is forgotten, none becomes pending again, and a pending one keeps its staging
  file.\<close>

definition token_ok :: "upload_row \<Rightarrow> bool" where
  "token_ok u = ((kind_of_sub (up_by u) = DAgent \<longrightarrow> up_fence u \<noteq> None) \<and> (\<forall>n. up_fence u = Some n \<longrightarrow> 0 \<le> n))"

definition upload_keys :: "dstore \<Rightarrow> bool" where
  "upload_keys s = (distinct (map up_id (db_uploads (ds_db s))) \<and>
     (\<forall>u \<in> set (db_uploads (ds_db s)). token_ok u))"

definition keeps :: "dstore \<Rightarrow> dstore \<Rightarrow> bool" where
  "keeps s s' =
     ((upload_keys s \<longrightarrow> upload_keys s') \<and> (\<forall>u r. get_upload u s = Some r \<longrightarrow>
        (\<exists>r'. get_upload u s' = Some r' \<and> up_artifact r' = up_artifact r \<and>
           (up_state r' = UPending \<longrightarrow> up_state r = UPending \<and>
              (df_staging (ds_files s) u \<noteq> None \<longrightarrow> df_staging (ds_files s') u \<noteq> None)))))"

datatype mv = MvQuiet | MvArtifact | MvCommit | MvTorn | MvAborted | MvMarker | MvRestore | MvChain | MvPurge | MvReplay

inductive dmove :: "mv \<Rightarrow> dstore \<Rightarrow> dstore \<Rightarrow> bool" where
  mv_quiet: "quiet s s' \<Longrightarrow> keeps s s' \<Longrightarrow> dmove MvQuiet s s'"
| mv_artifact: "ar_id a \<notin> set (artifact_ids s) \<Longrightarrow> ar_current a = None \<Longrightarrow>
    dmove MvArtifact s (on_db (\<lambda>d. d\<lparr>db_artifacts := db_artifacts d @ [a]\<rparr>) s)"
| mv_commit: "commit_tables now p vid u m (ds_db s) = Inr d \<Longrightarrow>
    materialize (up_id u) (mt_sha m) (ds_files (journal (committed_event (new_version now p vid u m
      (max_seq (up_artifact u) (ds_db s) + 1)) u (ds_db s)) s)) = Inr f \<Longrightarrow>
    get_upload (up_id u) s = Some u \<Longrightarrow> up_state u = UPending \<Longrightarrow> vid \<notin> set (version_ids s) \<Longrightarrow> vid \<noteq> [] \<Longrightarrow>
    mt_sha m \<noteq> [] \<Longrightarrow> dmove MvCommit s \<lparr>ds_db = d, ds_files = f\<rparr>"
| mv_torn: "commit_tables now p vid u m (ds_db s) = Inr d \<Longrightarrow> get_upload (up_id u) s = Some u \<Longrightarrow>
    mt_sha m \<noteq> [] \<Longrightarrow>
    s1 = journal (committed_event (new_version now p vid u m (max_seq (up_artifact u) (ds_db s) + 1)) u e) s \<Longrightarrow>
    f = ds_files s1 \<or> materialize (up_id u) (mt_sha m) (ds_files s1) = Inr f \<Longrightarrow>
    dmove MvTorn s (s1\<lparr>ds_files := f\<rparr>)"
| mv_aborted: "find_version vid (ds_db s) = None \<Longrightarrow> dmove MvAborted s (journal (EvAborted vid) s)"
| mv_marker: "find_artifact (ar_id a) (ds_db s) = Some a \<Longrightarrow> vid \<notin> set (version_ids s) \<Longrightarrow> vid \<noteq> [] \<Longrightarrow>
    insert_version (marker_row now p vid a (max_seq (ar_id a) (ds_db s) + 1)) (ds_db s) = Inr d \<Longrightarrow>
    dmove MvMarker s (journal (EvDelete vid (ar_id a)) (s\<lparr>ds_db := set_current (ar_id a) None d\<rparr>))"
| mv_restore: "find_artifact aid (ds_db s) = Some a \<Longrightarrow>
    List.find (\<lambda>r. ve_id r = vid \<and> ve_artifact r = aid) (db_versions (ds_db s)) = Some v \<Longrightarrow> \<not> ve_marker v \<Longrightarrow>
    dmove MvRestore s (journal (EvMove aid vid) (on_db (set_current aid (Some vid)) s))"
| mv_chain: "dmove MvChain s (on_db (\<lambda>d. purge_chain d a) s)"
| mv_purge: "purge_blob b s = Inr s' \<Longrightarrow> dmove MvPurge s s'"
| mv_replay: "drive_boot s = Inr s' \<Longrightarrow> dmove MvReplay s s'"

inductive_cases dmoveE: "dmove m s s'"

inductive store_moves :: "mv set \<Rightarrow> dstore \<Rightarrow> dstore \<Rightarrow> bool" for L where
  moves_refl [simp, intro]: "store_moves L s s"
| moves_step: "store_moves L s s1 \<Longrightarrow> dmove m s1 s2 \<Longrightarrow> m \<in> L \<Longrightarrow> store_moves L s s2"

lemma moves_one: "dmove m s s' \<Longrightarrow> m \<in> L \<Longrightarrow> store_moves L s s'"
  using moves_step [OF moves_refl] .

lemma moves_trans: "store_moves L s1 s2 \<Longrightarrow> store_moves L s0 s1 \<Longrightarrow> store_moves L s0 s2"
  by (induction rule: store_moves.induct) (auto intro: moves_step)

lemma moves_mono: "store_moves L s s' \<Longrightarrow> L \<subseteq> M \<Longrightarrow> store_moves M s s'"
  by (induction rule: store_moves.induct) (auto intro: moves_step)

lemma moves_quiet: "quiet s s' \<Longrightarrow> keeps s s' \<Longrightarrow> MvQuiet \<in> L \<Longrightarrow> store_moves L s s'"
  by (rule moves_one [OF mv_quiet])

lemma moves_then_quiet: "store_moves L s s1 \<Longrightarrow> quiet s1 s2 \<Longrightarrow> keeps s1 s2 \<Longrightarrow> MvQuiet \<in> L \<Longrightarrow> store_moves L s s2"
  by (rule moves_step [OF _ mv_quiet])

text \<open>A property every move of a kind preserves is preserved by a run.\<close>

lemma moves_invariant:
  assumes "store_moves L s s'" and "P s" and "\<And>m a b. dmove m a b \<Longrightarrow> m \<in> L \<Longrightarrow> P a \<Longrightarrow> P b"
  shows "P s'"
  using assms by (induction rule: store_moves.induct) auto

section \<open>Quiet changes\<close>

lemma quiet_refl [simp]: "quiet s s" and keeps_refl [simp]: "keeps s s"
  by (auto simp: quiet_def keeps_def)

lemma quiet_trans: "quiet s s1 \<Longrightarrow> quiet s1 s2 \<Longrightarrow> quiet s s2"
  by (simp add: quiet_def)

lemma dkeeps_trans: "keeps s s1 \<Longrightarrow> keeps s1 s2 \<Longrightarrow> keeps s s2"
  unfolding keeps_def by metis

lemma get_upload_upd:
  assumes "\<And>r. up_id (g r) = up_id r"
  shows "get_upload v (on_db (upd_upload u g) s) = (if v = u then map_option g (get_upload u s) else get_upload v s)"
  using assms by (auto simp: get_upload_def upd_upload_def row_of_update_key)

lemma get_upload_db [simp]:
  "get_upload u (on_db (\<lambda>d. d\<lparr>db_audit := x d\<rparr>) s) = get_upload u s" "get_upload u (on_files g s) = get_upload u s"
  by (simp_all add: get_upload_def)

lemma upload_keys_upd:
  assumes "\<And>r. up_id (g r) = up_id r \<and> up_by (g r) = up_by r \<and> up_fence (g r) = up_fence r"
  shows "upload_keys \<lparr>ds_db = upd_upload u g d, ds_files = f\<rparr> = upload_keys \<lparr>ds_db = d, ds_files = f'\<rparr>"
proof -
  have "token_ok (g r) = token_ok r" for r using assms by (simp add: token_ok_def)
  then have "(\<forall>u \<in> set (update_where (\<lambda>r. up_id r = u) g rows). token_ok u) = (\<forall>u \<in> set rows. token_ok u)" for rows
    by (induction rows) auto
  then show ?thesis using assms by (simp add: upd_upload_def map_key_update_where upload_keys_def)
qed

lemma audit_fields [simp]:
  "db_blobs (ds_db (daudit now p a oc t ar v j s)) = db_blobs (ds_db s)"
  "db_versions (ds_db (daudit now p a oc t ar v j s)) = db_versions (ds_db s)"
  "db_fences (ds_db (daudit now p a oc t ar v j s)) = db_fences (ds_db s)"
  "db_artifacts (ds_db (daudit now p a oc t ar v j s)) = db_artifacts (ds_db s)"
  "db_uploads (ds_db (daudit now p a oc t ar v j s)) = db_uploads (ds_db s)"
  "df_journal (ds_files (daudit now p a oc t ar v j s)) = df_journal (ds_files s)"
  "df_cas (ds_files (daudit now p a oc t ar v j s)) = df_cas (ds_files s)"
  "df_staging (ds_files (daudit now p a oc t ar v j s)) = df_staging (ds_files s)"
  "df_inodes (ds_files (daudit now p a oc t ar v j s)) = df_inodes (ds_files s)"
  "db_meta (ds_db (daudit now p a oc t ar v j s)) = db_meta (ds_db s)"
  by (simp_all add: daudit_def Let_def)

lemma get_upload_audit [simp]: "get_upload u (daudit now p a oc t ar v j s) = get_upload u s"
  by (simp add: get_upload_def)

lemma quiet_audit [simp]: "quiet s (daudit now p a oc t ar v j s)"
  and keeps_audit [simp]: "keeps s (daudit now p a oc t ar v j s)"
  by (simp_all add: quiet_def keeps_def upload_keys_def)

lemma moves_audit: "store_moves L s s1 \<Longrightarrow> MvQuiet \<in> L \<Longrightarrow> store_moves L s (daudit now p a oc t ar v j s1)"
  using moves_then_quiet [OF _ quiet_audit keeps_audit] by blast

text \<open>Changes of the other tables and of inodes.\<close>

lemma quiet_fields:
  "db_blobs d = db_blobs (ds_db s) \<Longrightarrow> db_versions d = db_versions (ds_db s) \<Longrightarrow> db_fences d = db_fences (ds_db s) \<Longrightarrow>
   db_artifacts d = db_artifacts (ds_db s) \<Longrightarrow> df_journal f = df_journal (ds_files s) \<Longrightarrow> df_cas f = df_cas (ds_files s) \<Longrightarrow>
   quiet s \<lparr>ds_db = d, ds_files = f\<rparr>"
  by (simp add: quiet_def)

lemma keeps_fields:
  "db_uploads d = db_uploads (ds_db s) \<Longrightarrow> (\<And>u. df_staging (ds_files s) u \<noteq> None \<Longrightarrow> df_staging f u \<noteq> None) \<Longrightarrow>
   keeps s \<lparr>ds_db = d, ds_files = f\<rparr>"
  unfolding keeps_def get_upload_def upload_keys_def by auto

lemma store_eta: "on_db g s = \<lparr>ds_db = g (ds_db s), ds_files = ds_files s\<rparr>" "on_files h s = \<lparr>ds_db = ds_db s, ds_files = h (ds_files s)\<rparr>"
  by simp_all

lemma release_fields [simp]:
  "db_blobs (release_quota now u n d) = db_blobs d" "db_versions (release_quota now u n d) = db_versions d"
  "db_fences (release_quota now u n d) = db_fences d" "db_artifacts (release_quota now u n d) = db_artifacts d"
  "db_uploads (release_quota now u n d) = db_uploads d" "db_meta (release_quota now u n d) = db_meta d"
  by (simp_all add: release_quota_def split: option.splits)

lemma upd_upload_fields [simp]:
  "db_blobs (upd_upload u g d) = db_blobs d" "db_versions (upd_upload u g d) = db_versions d"
  "db_fences (upd_upload u g d) = db_fences d" "db_artifacts (upd_upload u g d) = db_artifacts d"
  "db_meta (upd_upload u g d) = db_meta d"
  by (simp_all add: upd_upload_def)

lemma charge_fields:
  assumes "charge_quota cfg now u n d = Inr d'"
  shows "db_blobs d' = db_blobs d" "db_versions d' = db_versions d" "db_fences d' = db_fences d"
    "db_artifacts d' = db_artifacts d" "db_uploads d' = db_uploads d"
  using assms by (auto simp: charge_quota_def Let_def throw_if_def split: if_splits)

text \<open>A change of one session, which may lose its staging file if it stops being pending.\<close>

lemma keeps_session:
  assumes "\<And>r. up_id (g r) = up_id r \<and> up_by (g r) = up_by r \<and> up_fence (g r) = up_fence r \<and> up_artifact (g r) = up_artifact r" and "db_uploads d = db_uploads (upd_upload u g (ds_db s))"
    and "\<And>r. get_upload u s = Some r \<Longrightarrow> up_state (g r) = UPending \<Longrightarrow> up_state r = UPending \<and> df_staging f u = df_staging (ds_files s) u"
    and "\<And>v. v \<noteq> u \<Longrightarrow> df_staging f v = df_staging (ds_files s) v"
  shows "keeps s \<lparr>ds_db = d, ds_files = f\<rparr>"
proof -
  have k: "upload_keys \<lparr>ds_db = d, ds_files = f\<rparr> = upload_keys s"
    using upload_keys_upd [of g u "ds_db s" "ds_files s" "ds_files s"] assms(1,2) by (simp add: upload_keys_def)
  have "get_upload v \<lparr>ds_db = d, ds_files = f\<rparr> = (if v = u then map_option g (get_upload u s) else get_upload v s)" for v
    using get_upload_upd [of g v u s] assms(1,2) by (simp add: get_upload_def)
  then show ?thesis unfolding keeps_def using k assms(1,3,4) by fastforce
qed

lemma keeps_new_upload:
  "token_ok r \<Longrightarrow> get_upload (up_id r) s = None \<Longrightarrow> db_uploads d = db_uploads (ds_db s) @ [r] \<Longrightarrow> df_staging f = df_staging (ds_files s) \<Longrightarrow>
   keeps s \<lparr>ds_db = d, ds_files = f\<rparr>"
  by (auto simp: keeps_def get_upload_def row_of_append row_of_None upload_keys_def split: option.splits)

end
