(* ===== verification/DriveSteps.thy ===== *)
theory DriveSteps
  imports DriveMoves
begin

text \<open>
  Every operation of Drive as a sequence of moves: the operations of the store one by one, then the
  actions of the service.
\<close>

section \<open>Sessions\<close>

lemma quiet_touch: "quiet s (touch_upload now u n s)"
  by (simp add: touch_upload_def quiet_def)

lemma keeps_touch: "keeps s (touch_upload now u n s)"
  unfolding touch_upload_def store_eta by (rule keeps_session [where u = u and g = "\<lambda>r. r\<lparr>up_active := now, up_bytes := n\<rparr>"]) auto

lemma moves_touch: "store_moves L s s1 \<Longrightarrow> MvQuiet \<in> L \<Longrightarrow> store_moves L s (touch_upload now u n s1)"
  using moves_then_quiet [OF _ quiet_touch keeps_touch] by blast

lemma moves_charge:
  assumes "store_moves L s s1" and "charge_quota cfg now u n (ds_db s1) = Inr d" and "MvQuiet \<in> L"
  shows "store_moves L s (s1\<lparr>ds_db := d\<rparr>)"
proof -
  have e: "s1\<lparr>ds_db := d\<rparr> = \<lparr>ds_db = d, ds_files = ds_files s1\<rparr>" by simp
  have "quiet s1 (s1\<lparr>ds_db := d\<rparr>)" "keeps s1 (s1\<lparr>ds_db := d\<rparr>)"
    unfolding e using charge_fields [OF assms(2)] by (auto intro: quiet_fields keeps_fields)
  from moves_then_quiet [OF assms(1) this assms(3)] show ?thesis .
qed

lemma moves_denied: "MvQuiet \<in> L \<Longrightarrow> store_moves L s (snd (owner_denied now p u s))"
  by (simp add: owner_denied_def moves_audit)

lemma abort_moves:
  assumes "MvQuiet \<in> L" shows "store_moves L s (snd (abort_upload now p u s))"
proof -
  let ?f = "discard_staging u (ds_files s)"
  let ?d = "\<lambda>r. release_quota now (dp_sub p) (up_bytes r) (upd_upload u (\<lambda>r. r\<lparr>up_state := UAborted, up_active := now\<rparr>) (ds_db s))"
  have q: "quiet s \<lparr>ds_db = ?d r, ds_files = ?f\<rparr>" for r by (rule quiet_fields) (simp_all add: discard_staging_def)
  have k: "keeps s \<lparr>ds_db = ?d r, ds_files = ?f\<rparr>" for r
    by (rule keeps_session [where u = u and g = "\<lambda>r. r\<lparr>up_state := UAborted, up_active := now\<rparr>"])
      (simp_all add: discard_staging_def)
  show ?thesis
    using assms moves_denied [OF assms] moves_audit [OF moves_quiet [OF q k assms]]
    by (auto simp: abort_upload_def store_both split: option.split)
qed

lemma moves_fail: "store_moves L s s1 \<Longrightarrow> MvQuiet \<in> L \<Longrightarrow> store_moves L s (put_fail now t s1)"
  unfolding put_fail_def using moves_trans [OF abort_moves] moves_touch by blast

section \<open>Registration\<close>

lemma upsert_moves:
  assumes "upsert_artifact now aid tk name sub (ds_db s) = Inr (a, d)" and "aid \<notin> set (artifact_ids s)" and "MvArtifact \<in> L"
  shows "store_moves L s (s\<lparr>ds_db := d\<rparr>) \<and> db_uploads d = db_uploads (ds_db s)"
proof (cases "List.find (\<lambda>r. ar_ticket r = tk \<and> ar_name r = name) (db_artifacts (ds_db s))")
  case None
  let ?a = "\<lparr>ar_id = aid, ar_ticket = tk, ar_name = name, ar_current = None, ar_state = registered_state tk (ds_db s),
    ar_by = sub, ar_created = now\<rparr>"
  have d: "d = (ds_db s)\<lparr>db_artifacts := db_artifacts (ds_db s) @ [?a]\<rparr>"
    using None assms(1) by (auto simp: upsert_artifact_def split: if_splits)
  have "dmove MvArtifact s (on_db (\<lambda>d. d\<lparr>db_artifacts := db_artifacts d @ [?a]\<rparr>) s)"
    by (rule mv_artifact) (use assms(2) in simp_all)
  then show ?thesis using assms(3) by (simp add: d moves_one)
next
  case (Some r)
  then have "d = ds_db s" using assms(1) by (simp add: upsert_artifact_def)
  then show ?thesis by simp
qed

lemma new_upload_id: "new_upload now p a fence aid u = Inr r \<Longrightarrow> up_id r = u"
  by (auto simp: new_upload_def and_then_def split: sum.splits)

lemma normal_token:
  "normalize_token k raw tk = Inr fence \<Longrightarrow> (k = DAgent \<longrightarrow> fence \<noteq> None) \<and> (\<forall>n. fence = Some n \<longrightarrow> 0 \<le> n)"
  by (cases "number_of raw"; cases "nullish raw \<or> raw = Some (JStr [])"; cases "the (number_of raw) < 0"; cases "k = DAgent")
    (simp_all add: normalize_token_def, fastforce+)

lemma new_upload_token:
  assumes "valid_intent p a = Inr fence" and "new_upload now p a fence aid u = Inr r"
  shows "token_ok r"
proof -
  have "up_fence r = fence" "up_by r = dp_sub p" using assms(2) by (auto simp: new_upload_def and_then_def split: sum.splits)
  moreover have "normalize_token (dp_kind p) (ri_fence a) (ri_ticket a) = Inr fence"
    using assms(1) by (auto simp: valid_intent_def throw_if_def split: if_splits)
  ultimately show ?thesis using normal_token by (simp add: token_ok_def dp_kind_def)
qed

lemma register_moves:
  assumes "aid \<notin> set (artifact_ids s)" and "{MvQuiet, MvArtifact} \<subseteq> L"
  shows "store_moves L s (snd (register cfg now p a aid u s))"
proof (cases "valid_intent p a")
  case (Inr fence)
  show ?thesis
  proof (cases "upload_by_op (dp_sub p) (ri_op a) s = None \<and> pending_count (dp_sub p) (ds_db s) < dc_max_pending cfg")
    case True
    show ?thesis
    proof (cases "upsert_artifact now aid (ri_ticket a) (ri_name a) (dp_sub p) (ds_db s)")
      case (Inr x)
      then obtain a' d where x: "upsert_artifact now aid (ri_ticket a) (ri_name a) (dp_sub p) (ds_db s) = Inr (a', d)"
        by (cases x) auto
      have m: "store_moves L s (s\<lparr>ds_db := d\<rparr>)" and u: "db_uploads d = db_uploads (ds_db s)"
        using upsert_moves [OF x assms(1)] assms(2) by auto
      show ?thesis
      proof (cases "new_upload now p a fence a' u")
        case (Inl e)
        with True \<open>valid_intent p a = Inr fence\<close> x m show ?thesis by (simp add: register_def)
      next
        case (Inr r)
        let ?s = "s\<lparr>ds_db := d\<lparr>db_uploads := db_uploads d @ [r]\<rparr>\<rparr>"
        have e: "?s = \<lparr>ds_db = d\<lparr>db_uploads := db_uploads d @ [r]\<rparr>, ds_files = ds_files s\<rparr>" by simp
        have "keeps (s\<lparr>ds_db := d\<rparr>) ?s" if "get_upload u s = None"
          unfolding e by (rule keeps_new_upload [of r]) (use that u new_upload_id [OF Inr] new_upload_token [OF \<open>valid_intent p a = Inr fence\<close> Inr] in
              \<open>simp_all add: get_upload_def\<close>)
        moreover have "quiet (s\<lparr>ds_db := d\<rparr>) ?s" unfolding e by (rule quiet_fields) simp_all
        ultimately have "store_moves L s (daudit now p ''put_registered'' AuditOk (Some (ri_ticket a)) (Some a') None
            (Some (JObj [(''upload_id'', JStr u)])) ?s)" if "get_upload u s = None"
          using moves_audit [OF moves_then_quiet [OF m]] assms(2) that by simp
        with True \<open>valid_intent p a = Inr fence\<close> x Inr m show ?thesis by (auto simp: register_def)
      qed
    qed (use True Inr in \<open>simp add: register_def\<close>)
  next
    case False
    with Inr assms(2) show ?thesis by (auto simp: register_def moves_audit split: option.split)
  qed
qed (simp add: register_def)

section \<open>The commit\<close>

lemma enforce_fields:
  assumes "enforce_fencing tk token d = Inr d1"
  shows "db_blobs d1 = db_blobs d" "db_versions d1 = db_versions d" "db_artifacts d1 = db_artifacts d"
    "db_uploads d1 = db_uploads d" "db_checks d1 = db_checks d"
  using assms by (auto simp: enforce_fencing_def split: option.splits if_splits)

lemma insert_version_ok:
  "insert_version v d = Inr d' \<longleftrightarrow>
     \<not> list_ex (version_clash v) (db_versions d) \<and> version_refs v d \<and> d' = d\<lparr>db_versions := db_versions d @ [v]\<rparr>"
  by (auto simp: insert_version_def)

lemma count_blob_fields [simp]:
  "db_versions (count_blob now m d) = db_versions d" "db_artifacts (count_blob now m d) = db_artifacts d"
  "db_fences (count_blob now m d) = db_fences d" "db_uploads (count_blob now m d) = db_uploads d"
  by (simp_all add: count_blob_def ref_up_def)

lemma set_current_fields [simp]:
  "db_versions (set_current a v d) = db_versions d" "db_blobs (set_current a v d) = db_blobs d"
  "db_fences (set_current a v d) = db_fences d" "db_uploads (set_current a v d) = db_uploads d"
  by (simp_all add: set_current_def)

text \<open>What the transaction of a commit did, when it went through.\<close>

lemma commit_tables_ok:
  assumes "commit_tables now p vid u m d = Inr d'"
  obtains d1 v where "v = new_version now p vid u m (max_seq (up_artifact u) d + 1)"
    "enforce_fencing (up_ticket u) (up_fence u) d = Inr d1"
    "\<not> list_ex (version_clash v) (db_versions d)" "version_refs v (count_blob now m d1)"
    "d' = upd_upload (up_id u) (\<lambda>r. r\<lparr>up_state := UCommitted, up_result := Some vid, up_active := now\<rparr>)
       (set_current (up_artifact u) (Some vid) ((count_blob now m d1)\<lparr>db_versions := db_versions d @ [v]\<rparr>))"
  using assms
  by (auto simp: commit_tables_def and_then_def insert_version_ok enforce_fields split: sum.splits)

lemma commit_tables_uploads:
  assumes "commit_tables now p vid u m d = Inr d'"
  shows "db_uploads d' = db_uploads (upd_upload (up_id u) (\<lambda>r. r\<lparr>up_state := UCommitted, up_result := Some vid, up_active := now\<rparr>) d)"
proof -
  obtain d1 v where "enforce_fencing (up_ticket u) (up_fence u) d = Inr d1" and
    "d' = upd_upload (up_id u) (\<lambda>r. r\<lparr>up_state := UCommitted, up_result := Some vid, up_active := now\<rparr>)
       (set_current (up_artifact u) (Some vid) ((count_blob now m d1)\<lparr>db_versions := db_versions d @ [v]\<rparr>))"
    using commit_tables_ok [OF assms] by metis
  then show ?thesis by (simp add: upd_upload_def enforce_fields)
qed

lemma get_upload_id: "get_upload u s = Some r \<Longrightarrow> up_id r = u"
  unfolding get_upload_def by (rule row_of_key)

lemma fresh_version: "vid \<notin> set (version_ids s) \<Longrightarrow> find_version vid (ds_db s) = None"
  by (auto simp: version_ids_def find_version_def row_of_None)

lemma moves_discard:
  assumes "store_moves L s s1" and "MvQuiet \<in> L" and "\<And>r. get_upload u s1 = Some r \<Longrightarrow> up_state r \<noteq> UPending"
  shows "store_moves L s (on_files (discard_staging u) s1)"
proof -
  have "quiet s1 (on_files (discard_staging u) s1)" by (simp add: quiet_def discard_staging_def)
  moreover have "keeps s1 (on_files (discard_staging u) s1)"
    unfolding store_eta
    by (rule keeps_session [where u = u and g = id])
      (use assms(3) in \<open>auto simp: discard_staging_def upd_upload_def update_where_def id_def\<close>)
  ultimately show ?thesis by (rule moves_then_quiet [OF assms(1) _ _ assms(2)])
qed

lemma materialize_ok: "df_staging f u \<noteq> None \<Longrightarrow> \<exists>f'. materialize u sha f = Inr f'"
  by (auto simp: materialize_def)

lemma commit_moves:
  assumes st: "\<And>r. get_upload uid s = Some r \<Longrightarrow> up_state r = UPending \<Longrightarrow> df_staging (ds_files s) uid \<noteq> None \<and> mt_sha m \<noteq> []"
    and vid: "vid \<notin> set (version_ids s)" "vid \<noteq> []" and L: "{MvQuiet, MvCommit, MvAborted} \<subseteq> L"
  shows "store_moves L s (snd (commit_upload cfg now p vid uid m s))"
proof (cases "get_upload uid s")
  case (Some u)
  have i: "up_id u = uid" using Some by (rule get_upload_id)
  have q: "MvQuiet \<in> L" using L by simp
  have ab: "store_moves L s (journal (EvAborted vid) s)"
    using mv_aborted [OF fresh_version [OF vid(1)]] L by (auto intro: moves_one)
  have txn: "store_moves L s (snd (commit_upload cfg now p vid uid m s))"
    if go: "\<not> not_owner p u" "\<not> (up_state u = UCommitted \<and> truthy_str (up_result u))" "up_state u = UPending"
      "\<not> type_refused cfg (mt_mime m)" "\<not> (truthy_str (up_expected u) \<and> up_expected u \<noteq> Some (mt_sha m))"
  proof (cases "commit_tables now p vid u m (ds_db s)")
    case (Inl e)
    then show ?thesis using go Some ab q by (simp add: commit_upload_def commit_txn_def moves_audit)
  next
    case (Inr d)
    let ?j = "journal (committed_event (new_version now p vid u m (max_seq (up_artifact u) (ds_db s) + 1)) u (ds_db s)) s"
    have "df_staging (ds_files ?j) uid \<noteq> None" using st [OF Some go(3)] by (simp add: journal_def)
    then obtain f where f: "materialize uid (mt_sha m) (ds_files ?j) = Inr f" using materialize_ok by blast
    have mv: "dmove MvCommit s \<lparr>ds_db = d, ds_files = f\<rparr>"
      by (rule mv_commit [OF Inr _ _ go(3) vid]) (use st [OF Some go(3)] Some i f in simp_all)
    have ev: "committed_event v u d = committed_event v u (ds_db s)" for v
    proof -
      obtain d1 v' where "enforce_fencing (up_ticket u) (up_fence u) (ds_db s) = Inr d1" and
        "d = upd_upload (up_id u) (\<lambda>r. r\<lparr>up_state := UCommitted, up_result := Some vid, up_active := now\<rparr>)
          (set_current (up_artifact u) (Some vid) ((count_blob now m d1)\<lparr>db_versions := db_versions (ds_db s) @ [v']\<rparr>))"
        using commit_tables_ok [OF Inr] by metis
      then show ?thesis
        by (simp add: committed_event_def registered_state_def upd_upload_def set_current_def count_blob_def ref_up_def enforce_fields)
    qed
    have c: "up_state r \<noteq> UPending" if "get_upload uid \<lparr>ds_db = d, ds_files = f\<rparr> = Some r" for r
      using that commit_tables_uploads [OF Inr] i Some
        get_upload_upd [of "\<lambda>r. r\<lparr>up_state := UCommitted, up_result := Some vid, up_active := now\<rparr>" uid uid s]
      by (simp add: get_upload_def)
    show ?thesis
      using go Some i f Inr ev moves_discard [OF moves_audit [OF moves_one [OF mv]] q] q L c
      by (simp add: commit_upload_def commit_txn_def Let_def)
  qed
  show ?thesis
    using txn Some q moves_denied [OF q]
    by (cases "not_owner p u"; cases "up_state u = UCommitted \<and> truthy_str (up_result u)"; cases "up_state u = UPending";
        cases "type_refused cfg (mt_mime m)"; cases "truthy_str (up_expected u) \<and> up_expected u \<noteq> Some (mt_sha m)")
      (auto simp: commit_upload_def moves_audit split: option.split)
qed (simp add: commit_upload_def)

section \<open>Streams\<close>

text \<open>The upload of an open stream keeps its staging file as long as it is pending.\<close>

definition stream_ok :: "dstore \<Rightarrow> dput \<Rightarrow> bool" where
  "stream_ok s t =
     (case get_upload (pt_upload t) s of
        None \<Rightarrow> False
      | Some r \<Rightarrow> up_state r = UPending \<longrightarrow> df_staging (ds_files s) (pt_upload t) \<noteq> None)"

lemma stream_keeps: "keeps s s' \<Longrightarrow> stream_ok s t \<Longrightarrow> stream_ok s' t"
  unfolding keeps_def stream_ok_def by (force split: option.splits)

lemma quiet_ids: "quiet s s' \<Longrightarrow> set (version_ids s') = set (version_ids s)"
  by (simp add: quiet_def version_ids_def)

lemma quiet_write: "quiet s (on_files (write_inode now i off b) s)"
  by (simp add: quiet_def write_inode_def)

lemma keeps_write: "keeps s (on_files (write_inode now i off b) s)"
  unfolding store_eta by (rule keeps_fields) (simp_all add: write_inode_def)

lemma charge_quiet:
  assumes "charge_quota cfg now u n (ds_db s) = Inr d"
  shows "quiet s (s\<lparr>ds_db := d\<rparr>) \<and> keeps s (s\<lparr>ds_db := d\<rparr>)"
proof -
  have e: "s\<lparr>ds_db := d\<rparr> = \<lparr>ds_db = d, ds_files = ds_files s\<rparr>" by simp
  show ?thesis unfolding e using charge_fields [OF assms] by (auto intro: quiet_fields keeps_fields)
qed

lemma put_charge_quiet: "quiet s (snd (put_charge cfg now vol t s)) \<and> keeps s (snd (put_charge cfg now vol t s))"
  using charge_quiet quiet_trans [OF _ quiet_touch] dkeeps_trans [OF _ keeps_touch]
  by (fastforce simp: put_charge_def Let_def split: sum.split)

lemma put_rest_quiet: "quiet s (snd (put_rest cfg now vol t s)) \<and> keeps s (snd (put_rest cfg now vol t s))"
  using put_charge_quiet by (simp add: put_rest_def)

lemma put_charge_stream: "put_charge cfg now vol t s = (Inr t', s1) \<Longrightarrow> pt_upload t' = pt_upload t \<and> pt_who t' = pt_who t \<and> pt_bytes t' = pt_bytes t \<and> pt_header t' = pt_header t"
  by (auto simp: put_charge_def Let_def split: if_splits sum.splits)

lemma put_chunk_quiet: "quiet s (snd (put_chunk cfg now vol b t s)) \<and> keeps s (snd (put_chunk cfg now vol b t s))"
  using quiet_trans [OF quiet_write conjunct1 [OF put_charge_quiet]] dkeeps_trans [OF keeps_write conjunct2 [OF put_charge_quiet]]
    quiet_write keeps_write
  by (simp add: put_chunk_def Let_def)

lemma put_chunk_stream: "put_chunk cfg now vol b t s = (Inr t', s1) \<Longrightarrow> pt_upload t' = pt_upload t"
  using put_charge_stream by (fastforce simp: put_chunk_def Let_def split: if_splits)

lemma open_quiet:
  assumes "open_staging now u (ds_files s) = (i, f)"
  shows "quiet s (s\<lparr>ds_files := f\<rparr>) \<and> keeps s (s\<lparr>ds_files := f\<rparr>) \<and> df_staging f u \<noteq> None"
proof -
  have e: "s\<lparr>ds_files := f\<rparr> = \<lparr>ds_db = ds_db s, ds_files = f\<rparr>" by simp
  have "df_journal f = df_journal (ds_files s)" "df_cas f = df_cas (ds_files s)" "df_staging f u \<noteq> None"
    "\<And>v. df_staging (ds_files s) v \<noteq> None \<Longrightarrow> df_staging f v \<noteq> None"
    using assms by (auto simp: open_staging_def split: option.splits)
  then show ?thesis unfolding e by (auto intro: quiet_fields keeps_fields)
qed

lemma commit_again:
  "get_upload uid s = Some u \<Longrightarrow> \<not> not_owner p u \<Longrightarrow> up_state u = UCommitted \<and> truthy_str (up_result u) \<Longrightarrow>
   snd (commit_upload cfg now p vid uid m s) = s"
  by (simp add: commit_upload_def split: option.split)

lemma put_open_quiet:
  "quiet s (snd (put_open cfg now vol n p u h vid s)) \<and> keeps s (snd (put_open cfg now vol n p u h vid s)) \<and>
   (\<forall>t. fst (put_open cfg now vol n p u h vid s) = PutStream t \<longrightarrow> stream_ok (snd (put_open cfg now vol n p u h vid s)) t)"
proof (cases "get_upload u s")
  case (Some r)
  obtain i f where o: "open_staging now u (ds_files s) = (i, f)" by fastforce
  have d: "quiet s (snd (owner_denied now p r s)) \<and> keeps s (snd (owner_denied now p r s))" by (simp add: owner_denied_def)
  obtain x s' where c: "commit_upload cfg now p vid u no_content s = (x, s')" by fastforce
  have cs: "s' = s" if "\<not> not_owner p r" "up_state r = UCommitted \<and> truthy_str (up_result r)"
    using commit_again [OF Some that, of cfg now vid no_content] c by simp
  have st: "stream_ok (s\<lparr>ds_files := f\<rparr>) t" if "pt_upload t = u" for t
    using that Some open_quiet [OF o] by (simp add: stream_ok_def get_upload_def)
  show ?thesis
    using Some d open_quiet [OF o] o c cs st by (auto simp: put_open_def split: sum.split)
qed (simp add: put_open_def)

lemma fail_quiet: "MvQuiet \<in> L \<Longrightarrow> store_moves L s (put_fail now t s)"
  by (rule moves_fail) auto

lemma end_moves:
  assumes st: "stream_ok s t" and sha: "\<And>b. sha b \<noteq> []" and vid: "vid \<notin> set (version_ids s)" "vid \<noteq> []"
    and L: "{MvQuiet, MvCommit, MvAborted} \<subseteq> L"
  shows "store_moves L s (snd (put_end cfg sha now vol vid t s))"
proof -
  have q: "MvQuiet \<in> L" using L by simp
  obtain x s1 where c: "put_rest cfg now vol t s = (x, s1)" by fastforce
  have s1: "quiet s s1 \<and> keeps s s1" using c put_rest_quiet [of s cfg now vol t] by simp
  then have m1: "store_moves L s s1" using q by (auto intro: moves_quiet)
  show ?thesis
  proof (cases x)
    case (Inl e)
    then show ?thesis using c m1 moves_fail q by (simp add: put_end_def)
  next
    case (Inr t1)
    obtain y s2 where y: "commit_upload cfg now (pt_who t) vid (pt_upload t) (put_content sha t s1) s1 = (y, s2)" by fastforce
    have "store_moves L s1 (snd (commit_upload cfg now (pt_who t) vid (pt_upload t) (put_content sha t s1) s1))"
    proof (rule commit_moves [OF _ _ vid(2) L])
      show "vid \<notin> set (version_ids s1)" using vid(1) quiet_ids s1 by blast
      show "df_staging (ds_files s1) (pt_upload t) \<noteq> None \<and> mt_sha (put_content sha t s1) \<noteq> []"
        if "get_upload (pt_upload t) s1 = Some r" "up_state r = UPending" for r
        using stream_keeps [OF conjunct2 [OF s1] st] that sha by (simp add: stream_ok_def put_content_def)
    qed
    then have "store_moves L s s2" using moves_trans m1 y by fastforce
    with Inr c y q show ?thesis by (cases y) (auto simp: put_end_def moves_fail)
  qed
qed

section \<open>Maintenance\<close>

lemma expire_fields [simp]:
  "db_blobs (expire_one now d u) = db_blobs d" "db_versions (expire_one now d u) = db_versions d"
  "db_fences (expire_one now d u) = db_fences d" "db_artifacts (expire_one now d u) = db_artifacts d"
  by (simp_all add: expire_one_def)

lemma expire_all_fields:
  "db_blobs (foldl (expire_one now) d us) = db_blobs d \<and> db_versions (foldl (expire_one now) d us) = db_versions d \<and>
   db_fences (foldl (expire_one now) d us) = db_fences d \<and> db_artifacts (foldl (expire_one now) d us) = db_artifacts d"
  by (induction us arbitrary: d) simp_all

lemma keeps_expire: "keeps \<lparr>ds_db = d, ds_files = f\<rparr> \<lparr>ds_db = foldl (expire_one now) d us, ds_files = f\<rparr>"
proof (induction us arbitrary: d)
  case (Cons u us)
  have "keeps \<lparr>ds_db = d, ds_files = f\<rparr> \<lparr>ds_db = expire_one now d u, ds_files = f\<rparr>"
    by (rule keeps_session [where u = "up_id u" and g = "\<lambda>r. r\<lparr>up_state := UExpired\<rparr>"]) (simp_all add: expire_one_def)
  then show ?case using dkeeps_trans Cons by (metis foldl_Cons)
qed simp

lemma pending_not_dead:
  assumes "upload_keys s" and "get_upload u s = Some r" and "up_state r = UPending"
  shows "u \<notin> set (dead_uploads (ds_db s))"
proof
  assume "u \<in> set (dead_uploads (ds_db s))"
  then obtain x where x: "x \<in> set (db_uploads (ds_db s))" "up_id x = u" "up_state x \<noteq> UPending" by (auto simp: dead_uploads_def)
  then have "get_upload u s = Some x" using row_of_distinct assms(1) by (fastforce simp: get_upload_def upload_keys_def)
  with assms x show False by simp
qed

lemma sweep_moves:
  assumes "upload_keys s" and "MvQuiet \<in> L" shows "store_moves L s (phase1_sweep cfg now s)"
proof -
  let ?d = "foldl (expire_one now) (ds_db s) (filter (stale cfg now) (db_uploads (ds_db s)))"
  let ?s1 = "\<lparr>ds_db = ?d, ds_files = ds_files s\<rparr>" and ?f = "(ds_files s)\<lparr>df_staging := (df_staging (ds_files s)) |` (- set (dead_uploads ?d))\<rparr>"
  have e: "\<lparr>ds_db = ds_db s, ds_files = ds_files s\<rparr> = s" by simp
  have k: "keeps s ?s1" using keeps_expire [of "ds_db s" "ds_files s"] unfolding e .
  have q: "quiet s ?s1" by (rule quiet_fields) (simp_all add: expire_all_fields)
  have keys: "upload_keys ?s1" using assms(1) k by (simp add: keeps_def)
  have "keeps ?s1 \<lparr>ds_db = ?d, ds_files = ?f\<rparr>"
    using pending_not_dead [OF keys] keys
    by (fastforce simp: keeps_def upload_keys_def get_upload_def restrict_map_def)
  moreover have "quiet ?s1 \<lparr>ds_db = ?d, ds_files = ?f\<rparr>" by (rule quiet_fields) simp_all
  ultimately show ?thesis
    using moves_then_quiet [OF moves_quiet [OF q k assms(2)] _ _ assms(2)] by (simp add: phase1_sweep_def Let_def)
qed

lemma check_moves:
  assumes "MvQuiet \<in> L" shows "store_moves L s (on_db (record_check cfg now tk r) s)"
proof -
  have "map (ar_state_update (\<lambda>_. TVerified)) (update_where q (\<lambda>a. a\<lparr>ar_state := x\<rparr>) as) = map (ar_state_update (\<lambda>_. TVerified)) as"
    for q x and as :: "artifact_row list" by (simp add: update_where_def)
  then have "quiet s (on_db (record_check cfg now tk r) s)"
    by (simp add: quiet_def record_check_def Let_def)
  moreover have "keeps s (on_db (record_check cfg now tk r) s)"
    unfolding store_eta by (rule keeps_fields) (simp_all add: record_check_def Let_def)
  ultimately show ?thesis using assms by (rule moves_quiet)
qed

lemma meta_moves:
  assumes "MvQuiet \<in> L" shows "store_moves L s (on_db (set_meta k v) s)"
proof -
  have "quiet s (on_db (set_meta k v) s)" by (simp add: quiet_def set_meta_def)
  moreover have "keeps s (on_db (set_meta k v) s)"
    unfolding store_eta by (rule keeps_fields) (simp_all add: set_meta_def)
  ultimately show ?thesis using assms by (rule moves_quiet)
qed

lemma backup_moves:
  assumes "MvQuiet \<in> L" shows "store_moves L s (backup_begin s)" and "store_moves L s (backup_end now good s)"
proof -
  show "store_moves L s (backup_begin s)" using meta_moves [OF assms] by (simp add: backup_begin_def)
  have "store_moves L s (on_db (set_meta k v) (on_db (set_meta k' v') s))" for k v k' v'
    using moves_trans [OF meta_moves [OF assms] meta_moves [OF assms]] .
  then show "store_moves L s (backup_end now good s)"
    using meta_moves [OF assms, of s] by (cases good) (simp_all add: backup_end_def)
qed

lemma verify_moves: "MvQuiet \<in> L \<Longrightarrow> store_moves L s (snd (verify_index sha full now s))"
  using meta_moves by (simp add: verify_index_def Let_def)

section \<open>The operator\<close>

lemma find_artifact_id: "find_artifact a d = Some r \<Longrightarrow> ar_id r = a"
  unfolding find_artifact_def by (rule row_of_key)

lemma delete_moves:
  assumes "vid \<notin> set (version_ids s)" "vid \<noteq> []" "{MvQuiet, MvMarker} \<subseteq> L"
  shows "store_moves L s (snd (delete_marker now p vid a s))"
proof (cases "find_artifact a (ds_db s)")
  case (Some r)
  note i = find_artifact_id [OF Some]
  show ?thesis
  proof (cases "insert_version (marker_row now p vid r (max_seq a (ds_db s) + 1)) (ds_db s)")
    case (Inr d)
    have "dmove MvMarker s (journal (EvDelete vid (ar_id r)) (s\<lparr>ds_db := set_current (ar_id r) None d\<rparr>))"
      by (rule mv_marker [OF _ assms(1,2)]) (use Some Inr i in simp_all)
    then show ?thesis using Some Inr i assms(3) moves_audit [OF moves_one] by (simp add: delete_marker_def Let_def)
  qed (use Some in \<open>simp add: delete_marker_def Let_def\<close>)
qed (simp add: delete_marker_def)

lemma restore_moves:
  assumes "{MvQuiet, MvRestore} \<subseteq> L" shows "store_moves L s (snd (restore_version now p a vid s))"
proof -
  have "dmove MvRestore s (journal (EvMove a vid) (on_db (set_current a (Some vid)) s))"
    if "find_artifact a (ds_db s) = Some r" "List.find (\<lambda>r. ve_id r = vid \<and> ve_artifact r = a) (db_versions (ds_db s)) = Some v" "\<not> ve_marker v"
    for r v using that by (rule mv_restore)
  then show ?thesis using assms moves_audit [OF moves_one [of MvRestore]]
    by (cases "find_artifact a (ds_db s)"; cases "List.find (\<lambda>r. ve_id r = vid \<and> ve_artifact r = a) (db_versions (ds_db s))")
      (auto simp: restore_version_def)
qed

lemma chains_moves: "MvChain \<in> L \<Longrightarrow> store_moves L s (on_db (\<lambda>d. foldl purge_chain d as) s)"
proof (induction as arbitrary: s)
  case (Cons a as)
  have "store_moves L s (on_db (\<lambda>d. purge_chain d a) s)" using mv_chain Cons.prems by (auto intro: moves_one)
  from moves_trans [OF Cons.IH this] Cons.prems show ?case by simp
qed simp

lemma blobs_moves: "MvPurge \<in> L \<Longrightarrow> store_moves L s (snd (purge_blobs bs s))"
proof (induction bs arbitrary: s)
  case (Cons b bs)
  show ?case
  proof (cases "purge_blob b s")
    case (Inr s')
    have "store_moves L s s'" using mv_purge [OF Inr] Cons.prems by (auto intro: moves_one)
    from moves_trans [OF Cons.IH this] Cons.prems Inr show ?thesis by simp
  qed simp
qed simp

lemma quarantine_quiet: "quiet s (on_files (purge_quarantine now) s) \<and> keeps s (on_files (purge_quarantine now) s)"
  unfolding store_eta by (auto intro!: quiet_fields keeps_fields simp: purge_quarantine_def)

lemma gc_moves:
  assumes "{MvQuiet, MvChain, MvPurge} \<subseteq> L" shows "store_moves L s (snd (gc_phase2 now p s))"
proof -
  let ?s1 = "on_db (\<lambda>d. foldl purge_chain d (deleted_chains (ds_db s))) s"
  have c: "store_moves L s ?s1" using chains_moves assms by simp
  obtain x s2 where b: "purge_blobs (refless (ds_db ?s1)) ?s1 = (x, s2)" by fastforce
  have "store_moves L ?s1 (snd (purge_blobs (refless (ds_db ?s1)) ?s1))" by (rule blobs_moves) (use assms in simp)
  then have m: "store_moves L s s2" unfolding b using moves_trans c by simp
  have "store_moves L s (on_files (purge_quarantine now) s2)"
    using moves_then_quiet [OF m] quarantine_quiet assms by blast
  then show ?thesis using m b assms by (auto simp: gc_phase2_def Let_def moves_audit split: option.split)
qed

section \<open>Requests\<close>

fun call_moves :: "dcall \<Rightarrow> mv set" where
  "call_moves (DcRegister _) = {MvQuiet, MvArtifact}"
| "call_moves (DcDelete _) = {MvQuiet, MvMarker}"
| "call_moves (DcRestore _ _) = {MvQuiet, MvRestore}"
| "call_moves (DcPurge _) = {MvQuiet, MvChain, MvPurge}"
| "call_moves _ = {MvQuiet}"

lemma snd_map_res [simp]: "snd (map_res g r) = snd r"
  by (simp add: map_res_def)

lemma content_moves: "MvQuiet \<in> L \<Longrightarrow> store_moves L s (snd (content_call w h p a x r s))"
  by (auto simp: content_call_def Let_def moves_audit split: sum.split)

lemma perform_moves:
  assumes "fresh_ids w s" and "call_moves c \<subseteq> L"
  shows "store_moves L s (snd (perform en w h p c s))"
proof -
  have f: "dw_vid w \<notin> set (version_ids s)" "dw_vid w \<noteq> []" "dw_aid w \<notin> set (artifact_ids s)"
    using assms(1) by (simp_all add: fresh_ids_def)
  show ?thesis
    using assms(2) f register_moves [of "dw_aid w" s L] abort_moves [of L] delete_moves [of "dw_vid w" s L] restore_moves [of L]
      gc_moves [of L] content_moves [of L]
    by (cases c) (auto simp: Let_def split: sum.split option.split prod.split)
qed

lemma http_moves:
  assumes "fresh_ids w s" and "call_moves c \<subseteq> L" shows "store_moves L s (snd (drive_http en w h c s))"
proof -
  have m: "store_moves L s (snd (perform en w h p c s))" for p using perform_moves [OF assms] .
  have "store_moves L s s1" if "perform en w h p c s = (r, s1)" for p r s1 using m [of p] that by simp
  then show ?thesis by (auto simp: drive_http_def split: sum.split prod.split)
qed

lemma tool_moves:
  assumes "fresh_ids w s" and "{MvQuiet, MvArtifact} \<subseteq> L"
  shows "store_moves L s (snd (call_tool en w p name b s))"
proof -
  have "store_moves L s (snd (register cfg now p a (dw_aid w) u s))" for cfg now a u
    by (rule register_moves [OF _ assms(2)]) (use assms(1) in \<open>simp add: fresh_ids_def\<close>)
  then show ?thesis by (auto simp: call_tool_def put_artifact_def split: sum.split)
qed

lemma mcp_moves:
  assumes "fresh_ids w s" and "{MvQuiet, MvArtifact} \<subseteq> L" shows "store_moves L s (snd (drive_mcp en w h r s))"
proof -
  have "store_moves L s s1" if "call_tool en w p name b s = (x, s1)" for p name b x s1
    using tool_moves [OF assms] that by (metis snd_conv)
  then show ?thesis by (auto simp: drive_mcp_def split: drive_rpc.split sum.split prod.split dexn.split)
qed

section \<open>Actions\<close>

fun act_moves :: "dact \<Rightarrow> mv set" where
  "act_moves (ActHttp _ _ c) = call_moves c"
| "act_moves (ActMcp _ _ _) = {MvQuiet, MvArtifact}"
| "act_moves (ActEnd _ _) = {MvQuiet, MvCommit, MvAborted}"
| "act_moves (ActCut _ _ _) = {MvQuiet, MvTorn}"
| "act_moves ActRebuild = {MvReplay}"
| "act_moves ActBoot = {MvReplay}"
| "act_moves _ = {MvQuiet}"

definition sys_ok :: "dsys \<Rightarrow> bool" where
  "sys_ok y = (upload_keys (dy_store y) \<and> (\<forall>(k, t) \<in> set (dy_puts y). stream_ok (dy_store y) t))"

lemma sys_ok_stream: "sys_ok y \<Longrightarrow> map_of (dy_puts y) k = Some t \<Longrightarrow> stream_ok (dy_store y) t"
  unfolding sys_ok_def using map_of_SomeD by fastforce

lemma cut_moves:
  assumes "MvTorn \<in> L" and "\<And>b. dn_sha en b \<noteq> []" shows "store_moves L s (cut_commit en w ren t s)"
proof (cases "get_upload (pt_upload t) s")
  case (Some u)
  have i: "get_upload (up_id u) s = Some u" using Some get_upload_id by metis
  let ?m = "put_content (dn_sha en) t s"
  have sha: "mt_sha ?m \<noteq> []" using assms(2) by (simp add: put_content_def)
  show ?thesis
  proof (cases "commit_tables (dw_now w) (pt_who t) (dw_vid w) u ?m (ds_db s)")
    case (Inr d)
    let ?s1 = "journal (committed_event (new_version (dw_now w) (pt_who t) (dw_vid w) u ?m (max_seq (up_artifact u) (ds_db s) + 1)) u d) s"
    have "dmove MvTorn s (?s1\<lparr>ds_files := f\<rparr>)" if "f = ds_files ?s1 \<or> materialize (up_id u) (mt_sha ?m) (ds_files ?s1) = Inr f" for f
      using mv_torn [OF Inr i sha refl that] .
    from moves_one [OF this assms(1)] have "store_moves L s (?s1\<lparr>ds_files := f\<rparr>)"
      if "f = ds_files ?s1 \<or> materialize (up_id u) (mt_sha ?m) (ds_files ?s1) = Inr f" for f using that by blast
    from this [of "ds_files ?s1"] this show ?thesis
      using Some Inr by (auto simp: cut_commit_def Let_def split: sum.split)
  qed (use Some in \<open>simp add: cut_commit_def Let_def\<close>)
qed (simp add: cut_commit_def Let_def)

lemma request_quiet:
  "quiet s (snd (put_request en w h u n s)) \<and> keeps s (snd (put_request en w h u n s)) \<and>
   (\<forall>t. fst (put_request en w h u n s) = PutStream t \<longrightarrow> stream_ok (snd (put_request en w h u n s)) t)"
  using put_open_quiet by (simp add: put_request_def split: sum.split)

lemma act_steps:
  assumes "sys_ok y" and "act_fresh a y" and sha: "\<And>b. dn_sha en b \<noteq> []"
  shows "store_moves (act_moves a) (dy_store y) (dy_store (act en a y))"
proof (cases a)
  case (ActHttp w h c)
  then show ?thesis using http_moves [of w "dy_store y" c "act_moves a" en h] assms(2)
    by (simp add: act_fresh_def split: prod.split) (metis snd_conv)
next
  case (ActMcp w h r)
  then show ?thesis using mcp_moves [of w "dy_store y" "act_moves a"] assms(2) by (simp add: act_fresh_def)
next
  case (ActOpen w h u)
  have "store_moves {MvQuiet} (dy_store y) s" if "put_request en w h u (dy_inflight y) (dy_store y) = (r, s)" for r s
    using request_quiet [of "dy_store y" en w h u "dy_inflight y"] that by (auto intro: moves_quiet)
  then show ?thesis using ActOpen by (auto split: prod.split put_answer.split)
next
  case (ActChunk w k b)
  have "store_moves {MvQuiet} (dy_store y) s" if "put_chunk (dn_cfg en) (dw_now w) (dw_volume w) b t (dy_store y) = (r, s)" for t r s
    using put_chunk_quiet [of "dy_store y" "dn_cfg en" "dw_now w" "dw_volume w" b t] that by (auto intro: moves_quiet)
  then show ?thesis using ActChunk moves_fail [of "{MvQuiet}"]
    by (auto simp: take_stream_def end_stream_def split: option.split prod.split sum.split)
next
  case (ActEnd w k)
  have f: "dw_vid w \<notin> set (version_ids (dy_store y))" "dw_vid w \<noteq> []"
    using assms(2) ActEnd by (simp_all add: act_fresh_def fresh_ids_def)
  have "store_moves (act_moves a) (dy_store y) (snd (put_end (dn_cfg en) (dn_sha en) (dw_now w) (dw_volume w) (dw_vid w) t (dy_store y)))"
    if "map_of (dy_puts y) k = Some t" for t
    by (rule end_moves [OF sys_ok_stream [OF assms(1) that] sha f]) (simp add: ActEnd)
  then show ?thesis using ActEnd by (auto simp: end_stream_def split: option.split)
next
  case (ActDrop w k)
  then show ?thesis using fail_quiet by (auto simp: end_stream_def split: option.split)
next
  case (ActSweep w)
  then show ?thesis using sweep_moves assms(1) by (simp add: sys_ok_def)
next
  case (ActCut w k ren)
  have "store_moves {MvQuiet, MvTorn} (dy_store y) (cut_commit en w ren t' s)"
    if "put_rest (dn_cfg en) (dw_now w) (dw_volume w) t (dy_store y) = (x, s)" for t t' x s
    using moves_trans [OF cut_moves [OF _ sha] moves_quiet] put_rest_quiet [of "dy_store y" "dn_cfg en" "dw_now w" "dw_volume w" t] that
    by simp
  then show ?thesis using ActCut by (auto simp: stopped_def split: option.split prod.split sum.split)
next
  case ActRebuild
  then show ?thesis using mv_replay by (auto intro: moves_one split: sum.split)
next
  case ActBoot
  then show ?thesis using mv_replay by (auto intro: moves_one split: sum.split)
qed (auto simp: check_moves backup_moves verify_moves stopped_def)

end
