(* ===== verification/DriveLaws.thy ===== *)
theory DriveLaws
  imports DriveSteps
begin

text \<open>
  The laws of Drive's store: a law is a property of the store that every move of some kinds preserves, so
  that it holds in every state the service reaches by actions made of those moves (a locale, with one
  interpretation per law in the theories that follow). First, what a run keeps of the upload sessions.
\<close>

section \<open>Sessions along a run\<close>

lemma replay_uploads:
  assumes "apply_event e d = Inr d'" shows "db_uploads d' = db_uploads d"
  using assms
  by (cases e) (auto simp: and_then_def replay_version_def replay_blob_def replay_artifact_def raise_fence_def
      split: sum.splits if_splits option.splits)

lemma replay_all_uploads: "replay_journal es d = Inr d' \<Longrightarrow> db_uploads d' = db_uploads d"
proof (induction es arbitrary: d)
  case (Cons e es)
  then obtain d1 where "apply_event e d = Inr d1" "replay_journal es d1 = Inr d'"
    by (auto simp: and_then_def split: sum.splits)
  with Cons.IH replay_uploads show ?case by metis
qed simp

lemma boot_fields:
  assumes "drive_boot s = Inr s'"
  obtains d where "replay_journal (df_journal (ds_files s)) (ds_db s) = Inr d" "s' = s\<lparr>ds_db := recount d\<rparr>"
  using assms by (auto simp: drive_boot_def rebuild_index_def and_then_def split: sum.splits)

lemma drop_fields [simp]:
  "db_uploads (drop_version d v) = db_uploads d" "db_artifacts (drop_version d v) = db_artifacts d"
  "db_fences (drop_version d v) = db_fences d"
  by (simp_all add: drop_version_def Let_def ref_down_def split: option.split)

lemma drop_all_fields:
  "db_uploads (foldl drop_version d vs) = db_uploads d \<and> db_artifacts (foldl drop_version d vs) = db_artifacts d \<and>
   db_fences (foldl drop_version d vs) = db_fences d"
  by (induction vs arbitrary: d) simp_all

lemma dkeeps_same:
  assumes "db_uploads (ds_db s') = db_uploads (ds_db s)" and "df_staging (ds_files s') = df_staging (ds_files s)"
  shows "keeps s s'"
  using assms by (auto simp: keeps_def upload_keys_def get_upload_def)

lemma purge_blob_ok:
  assumes "purge_blob b s = Inr s'"
  shows "\<not> (list_ex (\<lambda>r. bl_sha r = bl_sha b \<and> bl_refs r \<le> 0) (db_blobs (ds_db s)) \<and>
      list_ex (\<lambda>v. ve_sha v = Some (bl_sha b)) (db_versions (ds_db s)))"
    and "ds_db s' = (ds_db s)\<lparr>db_blobs := filter (\<lambda>r. \<not> (bl_sha r = bl_sha b \<and> bl_refs r \<le> 0)) (db_blobs (ds_db s))\<rparr>"
    and "df_journal (ds_files s') = df_journal (ds_files s) @ [EvPurge (bl_sha b)]"
    and "df_staging (ds_files s') = df_staging (ds_files s)"
  using assms by (auto simp: purge_blob_def journal_def quarantine_blob_def split: if_splits option.splits)

lemma materialize_fields:
  assumes "materialize u h f = Inr f'"
  shows "df_journal f' = df_journal f" "v \<noteq> u \<Longrightarrow> df_staging f' v = df_staging f v"
  using assms by (auto simp: materialize_def split: if_splits option.splits)

lemma dmove_keeps: "dmove m s s' \<Longrightarrow> m \<noteq> MvTorn \<Longrightarrow> keeps s s'"
proof (induction rule: dmove.induct)
  case (mv_commit now p vid u m s d f)
  note c = commit_tables_uploads [OF mv_commit(1)] and mt = materialize_fields [OF mv_commit(2)]
  show ?case
    by (rule keeps_session [where u = "up_id u" and g = "\<lambda>r. r\<lparr>up_state := UCommitted, up_result := Some vid, up_active := now\<rparr>"])
      (use c mt in \<open>simp_all add: journal_def\<close>)
next
  case (mv_chain s a)
  show ?case by (rule dkeeps_same) (simp_all add: purge_chain_def Let_def drop_all_fields)
next
  case (mv_purge b s s')
  show ?case by (rule dkeeps_same) (simp_all add: purge_blob_ok [OF mv_purge(1)])
next
  case (mv_replay s s')
  obtain d where "replay_journal (df_journal (ds_files s)) (ds_db s) = Inr d" "s' = s\<lparr>ds_db := recount d\<rparr>"
    using boot_fields [OF mv_replay(1)] .
  then show ?case by (intro dkeeps_same) (simp_all add: recount_def replay_all_uploads)
qed (auto intro: dkeeps_same simp: journal_def insert_version_ok)

lemma moves_keeps: "store_moves L s s' \<Longrightarrow> MvTorn \<notin> L \<Longrightarrow> keeps s s'"
proof (induction rule: store_moves.induct)
  case (moves_step s s1 m s2)
  then have "keeps s1 s2" by (intro dmove_keeps) auto
  with moves_step show ?case using dkeeps_trans by blast
qed simp

lemma cut_uploads: "db_uploads (ds_db (cut_commit en w ren t s)) = db_uploads (ds_db s)"
  by (auto simp: cut_commit_def Let_def journal_def split: option.split sum.split)

lemma act_torn: "MvTorn \<in> act_moves a \<Longrightarrow> \<exists>w k ren. a = ActCut w k ren"
proof (cases a)
  case (ActHttp w h c)
  then show "MvTorn \<in> act_moves a \<Longrightarrow> ?thesis" by (cases c) auto
qed auto

lemma delete_subset: "set (AList.delete k xs) \<subseteq> set xs"
  by (auto simp: AList.delete_eq)

lemma update_subset: "set (AList.update k t xs) \<subseteq> insert (k, t) (set xs)"
  by (induction xs) auto

lemma sys_ok_puts:
  assumes "sys_ok y" and "keeps (dy_store y) s" and "set (dy_puts y') \<subseteq> set (dy_puts y) \<union> N" and "dy_store y' = s"
    and "\<And>k t. (k, t) \<in> N \<Longrightarrow> stream_ok s t"
  shows "sys_ok y'"
proof -
  have "stream_ok s t" if "(k, t) \<in> set (dy_puts y')" for k t
    using that assms(1,3,5) stream_keeps [OF assms(2)] by (fastforce simp: sys_ok_def)
  then show ?thesis using assms(1,2,4) by (auto simp: sys_ok_def keeps_def)
qed

lemma sys_ok_act:
  assumes "sys_ok y" and "act_fresh a y" and sha: "\<And>b. dn_sha en b \<noteq> []"
  shows "sys_ok (act en a y)"
proof (cases "MvTorn \<in> act_moves a")
  case True
  then obtain w k ren where a: "a = ActCut w k ren" using act_torn by blast
  have "upload_keys (cut_commit en w ren t' s)"
    if "put_rest (dn_cfg en) (dw_now w) (dw_volume w) t (dy_store y) = (x, s)" for t t' x s
  proof -
    have "upload_keys s"
      using put_rest_quiet [of "dy_store y" "dn_cfg en" "dw_now w" "dw_volume w" t] that assms(1) by (simp add: keeps_def sys_ok_def)
    then show ?thesis by (simp add: upload_keys_def cut_uploads)
  qed
  then show ?thesis using a assms(1)
    by (auto simp: sys_ok_def stopped_def split: option.split prod.split sum.split)
next
  case False
  have k: "keeps (dy_store y) (dy_store (act en a y))" using moves_keeps [OF act_steps [OF assms] False] .
  note std = sys_ok_puts [OF assms(1) k, of _ "{}"]
  show ?thesis
  proof (cases a)
    case (ActHttp w h c)
    then show ?thesis by (intro std) (simp_all split: prod.split)
  next
    case (ActOpen w h u)
    obtain r s where r: "put_request en w h u (dy_inflight y) (dy_store y) = (r, s)" by fastforce
    have st: "stream_ok s t" if "r = PutStream t" for t
      using request_quiet [of "dy_store y" en w h u "dy_inflight y"] r that by simp
    show ?thesis
    proof (cases "dy_up y \<and> (\<exists>t. r = PutStream t)")
      case True
      then obtain t where t: "r = PutStream t" by blast
      with True ActOpen r k have "keeps (dy_store y) s" by simp
      then show ?thesis
        by (rule sys_ok_puts [OF assms(1), of _ _ "{(dy_next y, t)}"]) (use True ActOpen r t st in simp_all)
    next
      case False
      then show ?thesis using ActOpen r by (intro std) (auto split: put_answer.split)
    qed
  next
    case (ActChunk w i b)
    show ?thesis
    proof (cases "map_of (dy_puts y) i")
      case (Some t)
      obtain r s where r: "put_chunk (dn_cfg en) (dw_now w) (dw_volume w) b t (dy_store y) = (r, s)" by fastforce
      show ?thesis
      proof (cases r)
        case (Inl e)
        show ?thesis
          by (rule std) (use ActChunk Some r Inl delete_subset [of i "dy_puts y"] in \<open>auto simp: end_stream_def\<close>)
      next
        case (Inr t')
        have ks: "keeps (dy_store y) s" using k ActChunk Some r Inr by (simp add: take_stream_def)
        have "stream_ok s t'"
          using stream_keeps [OF ks sys_ok_stream [OF assms(1) Some]] put_chunk_stream [OF r [unfolded Inr]]
          by (simp add: stream_ok_def cong: option.case_cong)
        then show ?thesis using ActChunk Some r Inr update_subset [of i t' "dy_puts y"]
          by (intro sys_ok_puts [OF assms(1) ks, of _ "{(i, t')}"]) (auto simp: take_stream_def)
      qed
    qed (use ActChunk assms(1) in simp)
  next
    case (ActEnd w i)
    show ?thesis by (rule std) (use ActEnd delete_subset [of i "dy_puts y"] in \<open>auto simp: end_stream_def split: option.split\<close>)
  next
    case (ActDrop w i)
    show ?thesis by (rule std) (use ActDrop delete_subset [of i "dy_puts y"] in \<open>auto simp: end_stream_def split: option.split\<close>)
  next
    case (ActCut w i ren)
    then show ?thesis by (intro std) (auto simp: stopped_def split: option.split prod.split sum.split)
  qed (rule std; simp add: stopped_def split: sum.split)+
qed

section \<open>Laws\<close>

locale drive_law =
  fixes law :: "dstore \<Rightarrow> bool" and kinds :: "mv set"
  assumes law_init: "law empty_dstore"
    and law_move: "dmove m s s' \<Longrightarrow> m \<in> kinds \<Longrightarrow> law s \<Longrightarrow> law s'"
begin

lemma law_moves: "store_moves L s s' \<Longrightarrow> L \<subseteq> kinds \<Longrightarrow> law s \<Longrightarrow> law s'"
  by (induction rule: store_moves.induct) (use law_move in blast)+

lemma law_act:
  "sys_ok y \<Longrightarrow> act_fresh a y \<Longrightarrow> (\<And>b. dn_sha en b \<noteq> []) \<Longrightarrow> act_moves a \<subseteq> kinds \<Longrightarrow> law (dy_store y) \<Longrightarrow>
   law (dy_store (act en a y))"
  by (rule law_moves [OF act_steps])

text \<open>The law holds in every state a run of admitted actions reaches.\<close>

lemma law_reach:
  assumes "drive_reach en ok y" and "\<And>b. dn_sha en b \<noteq> []" and "\<And>a. ok a \<Longrightarrow> act_moves a \<subseteq> kinds"
  shows "law (dy_store y) \<and> sys_ok y"
  using assms(1)
proof (induction rule: drive_reach.induct)
  case reach_init
  have "upload_keys empty_dstore" by (simp add: upload_keys_def empty_dstore_def empty_ddb_def)
  then show ?case by (simp add: drive_init_def law_init sys_ok_def)
next
  case (reach_act y a)
  then show ?case using law_act sys_ok_act assms(2,3) by blast
qed

end

end
