(* ===== verification/DriveTables.thy ===== *)
theory DriveTables
  imports DriveLaws
begin

text \<open>
  Laws that hold of Drive's store in every run, through collections, crashes in a commit and replays: the
  tables are consistent (keys, references, exact reference counts), and the fence of a ticket is never below
  the token of one of its versions.
\<close>

section \<open>Consistent tables\<close>

definition keys_ok :: "ddb \<Rightarrow> bool" where
  "keys_ok d =
     (distinct (map ve_id (db_versions d)) \<and> distinct (map bl_sha (db_blobs d)) \<and>
      (\<forall>v \<in> set (db_versions d). ve_sha v \<noteq> Some [] \<and> (\<forall>h. ve_sha v = Some h \<longrightarrow> h \<in> bl_sha ` set (db_blobs d))))"

definition refs_ok :: "ddb \<Rightarrow> bool" where
  "refs_ok d =
     (keys_ok d \<and> (\<forall>b \<in> set (db_blobs d). bl_refs b = int (count_where (\<lambda>v. ve_sha v = Some (bl_sha b)) (db_versions d))))"

definition homes_ok :: "ddb \<Rightarrow> bool" where
  "homes_ok d = (\<forall>v \<in> set (db_versions d). find_artifact (ve_artifact v) d \<noteq> None)"

definition lines_ok :: "vevent list \<Rightarrow> bool" where
  "lines_ok es = (\<forall>v name st. EvCommitted v name st \<in> set es \<longrightarrow> (\<exists>h. ve_sha v = Some h \<and> h \<noteq> []))"

definition tables_ok :: "dstore \<Rightarrow> bool" where
  "tables_ok s = (refs_ok (ds_db s) \<and> homes_ok (ds_db s) \<and> lines_ok (df_journal (ds_files s)))"

lemma find_blob_None: "find_blob h d = None \<longleftrightarrow> h \<notin> bl_sha ` set (db_blobs d)"
  by (simp add: find_blob_def row_of_None)

lemma find_artifact_None: "find_artifact a d = None \<longleftrightarrow> a \<notin> ar_id ` set (db_artifacts d)"
  by (simp add: find_artifact_def row_of_None)

lemma find_version_None: "find_version v d = None \<longleftrightarrow> v \<notin> ve_id ` set (db_versions d)"
  by (simp add: find_version_def row_of_None)

text \<open>Only the blobs and the versions matter to the counts, only the identifiers of artifacts to the homes.\<close>

lemma refs_same: "db_blobs d' = db_blobs d \<Longrightarrow> db_versions d' = db_versions d \<Longrightarrow> refs_ok d \<Longrightarrow> refs_ok d'"
  by (simp add: refs_ok_def keys_ok_def)

lemma homes_mono:
  "set (db_versions d') \<subseteq> set (db_versions d) \<Longrightarrow> ar_id ` set (db_artifacts d) \<subseteq> ar_id ` set (db_artifacts d') \<Longrightarrow>
   homes_ok d \<Longrightarrow> homes_ok d'"
  unfolding homes_ok_def find_artifact_None by blast

lemma map_state_ids:
  assumes "map (ar_state_update (\<lambda>_. TVerified)) as = map (ar_state_update (\<lambda>_. TVerified)) bs"
  shows "map ar_id as = map ar_id bs"
  using arg_cong [OF assms, of "map ar_id"] by (simp add: o_def)

lemma tables_quiet: "quiet s s' \<Longrightarrow> tables_ok s \<Longrightarrow> tables_ok s'"
  unfolding tables_ok_def quiet_def using refs_same homes_mono map_state_ids by (metis list.set_map order_refl)

lemma set_current_ids [simp]: "map ar_id (db_artifacts (set_current a v d)) = map ar_id (db_artifacts d)"
  by (simp add: set_current_def map_key_update_where)

lemma set_current_image [simp]: "ar_id ` set (db_artifacts (set_current a v d)) = ar_id ` set (db_artifacts d)"
  using set_current_ids [of a v d] by (metis list.set_map)

text \<open>A version added with its blob counted.\<close>

lemma refs_add:
  assumes "refs_ok d" and "list_all (\<lambda>r. ve_id r \<noteq> ve_id v) (db_versions d)" and "ve_sha v = Some (mt_sha m)" and "mt_sha m \<noteq> []"
    and "db_blobs d' = db_blobs (count_blob now m d)" and "db_versions d' = db_versions d @ [v]"
  shows "refs_ok d'"
proof (cases "find_blob (mt_sha m) d = None")
  case True
  then have b: "db_blobs d' = db_blobs d @ [\<lparr>bl_sha = mt_sha m, bl_size = mt_size m, bl_refs = 1, bl_created = now\<rparr>]"
    using assms(5) by (simp add: count_blob_def)
  have n: "count_where (\<lambda>v. ve_sha v = Some (mt_sha m)) (db_versions d) = 0"
    using assms(1) True by (auto simp: refs_ok_def keys_ok_def count_where_0 find_blob_None)
  show ?thesis
    using assms(1,2,3,4,6) b n True
    by (auto simp: refs_ok_def keys_ok_def find_blob_None list_all_iff image_iff)
next
  case False
  then have b: "db_blobs d' = update_where (\<lambda>r. bl_sha r = mt_sha m) (\<lambda>r. r\<lparr>bl_refs := bl_refs r + 1\<rparr>) (db_blobs d)"
    using assms(5) by (simp add: count_blob_def ref_up_def)
  have k: "map bl_sha (db_blobs d') = map bl_sha (db_blobs d)" by (simp add: b map_key_update_where)
  then have i: "bl_sha ` set (db_blobs d') = bl_sha ` set (db_blobs d)" by (metis list.set_map)
  show ?thesis
    using assms(1,2,3,4,6) False k i unfolding refs_ok_def keys_ok_def find_blob_None
    by (auto simp: b in_update_where list_all_iff image_iff)
qed

text \<open>A version dropped with its blob counted down.\<close>

lemma count_drop:
  "distinct (map ve_id vs) \<Longrightarrow> v \<in> set vs \<Longrightarrow>
   count_where p (filter (\<lambda>r. ve_id r \<noteq> ve_id v) vs) + (if p v then 1 else 0) = count_where p vs"
proof (induction vs)
  case (Cons x vs)
  show ?case
  proof (cases "x = v")
    case True
    then have "filter (\<lambda>r. ve_id r \<noteq> ve_id v) vs = vs" using Cons.prems by (intro filter_True) (auto simp: image_iff)
    with True show ?thesis by simp
  next
    case False
    with Cons have "ve_id x \<noteq> ve_id v" by auto
    with False Cons show ?thesis by auto
  qed
qed simp

lemma distinct_map_filter: "distinct (map f xs) \<Longrightarrow> distinct (map f (filter p xs))"
  by (induction xs) auto

lemma refs_drop:
  assumes "refs_ok d" and "v \<in> set (db_versions d)"
  shows "refs_ok (drop_version d v)"
proof -
  let ?vs = "filter (\<lambda>r. ve_id r \<noteq> ve_id v) (db_versions d)"
  have v: "db_versions (drop_version d v) = ?vs" by (simp add: drop_version_def Let_def ref_down_def split: option.split)
  have ids: "distinct (map ve_id (db_versions d))" using assms(1) by (simp add: refs_ok_def keys_ok_def)
  note cnt = count_drop [OF ids assms(2)]
  have exact: "bl_refs b = int (count_where (\<lambda>v. ve_sha v = Some (bl_sha b)) (db_versions d))" if "b \<in> set (db_blobs d)" for b
    using assms(1) that by (simp add: refs_ok_def)
  have b: "db_blobs (drop_version d v) =
      update_where (\<lambda>r. ve_sha v = Some (bl_sha r)) (\<lambda>r. r\<lparr>bl_refs := max 0 (bl_refs r - 1)\<rparr>) (db_blobs d)"
    using assms by (cases "ve_sha v") (auto simp: drop_version_def Let_def ref_down_def update_where_def refs_ok_def keys_ok_def eq_commute)
  then have k: "map bl_sha (db_blobs (drop_version d v)) = map bl_sha (db_blobs d)" by (simp add: map_key_update_where)
  then have i: "bl_sha ` set (db_blobs (drop_version d v)) = bl_sha ` set (db_blobs d)" by (metis list.set_map)
  have "keys_ok (drop_version d v)"
    using assms(1) ids unfolding refs_ok_def keys_ok_def v k i by (auto intro: distinct_map_filter)
  moreover have "bl_refs b' = int (count_where (\<lambda>v. ve_sha v = Some (bl_sha b')) ?vs)" if b': "b' \<in> set (db_blobs (drop_version d v))" for b'
  proof -
    obtain b where "b \<in> set (db_blobs d)" "b' = (if ve_sha v = Some (bl_sha b) then b\<lparr>bl_refs := max 0 (bl_refs b - 1)\<rparr> else b)"
      using b' b by (auto simp: in_update_where)
    then show ?thesis using exact [of b] cnt [of "\<lambda>v. ve_sha v = Some (bl_sha b)"] by (auto split: if_splits)
  qed
  ultimately show ?thesis by (simp add: refs_ok_def v)
qed

lemma refs_drop_all:
  "distinct (map ve_id vs) \<Longrightarrow> set vs \<subseteq> set (db_versions d) \<Longrightarrow> refs_ok d \<Longrightarrow>
   refs_ok (foldl drop_version d vs) \<and>
   db_versions (foldl drop_version d vs) = filter (\<lambda>r. ve_id r \<notin> ve_id ` set vs) (db_versions d)"
proof (induction vs arbitrary: d)
  case (Cons v vs)
  have v: "db_versions (drop_version d v) = filter (\<lambda>r. ve_id r \<noteq> ve_id v) (db_versions d)"
    by (simp add: drop_version_def Let_def ref_down_def split: option.split)
  have "set vs \<subseteq> set (db_versions (drop_version d v))" using Cons.prems by (auto simp: v image_iff)
  then have "refs_ok (foldl drop_version (drop_version d v) vs) \<and> db_versions (foldl drop_version (drop_version d v) vs) =
      filter (\<lambda>r. ve_id r \<notin> ve_id ` set vs) (db_versions (drop_version d v))"
    using Cons refs_drop by simp
  then show ?case by (auto simp: v intro: filter_cong)
qed simp

lemma purge_chain_versions:
  assumes "refs_ok d"
  shows "refs_ok (purge_chain d a)" and "db_versions (purge_chain d a) = filter (\<lambda>r. ve_artifact r \<noteq> a) (db_versions d)"
    and "db_artifacts (purge_chain d a) = filter (\<lambda>r. ar_id r \<noteq> a) (db_artifacts d)"
proof -
  have ids: "distinct (map ve_id (db_versions d))" using assms by (simp add: refs_ok_def keys_ok_def)
  have all: "refs_ok (foldl drop_version d (versions_of a d)) \<and> db_versions (foldl drop_version d (versions_of a d)) =
      filter (\<lambda>r. ve_id r \<notin> ve_id ` set (versions_of a d)) (db_versions d)"
    by (rule refs_drop_all [OF _ _ assms]) (auto simp: versions_of_def intro: distinct_map_filter [OF ids])
  then show "refs_ok (purge_chain d a)" by (auto simp: purge_chain_def Let_def intro: refs_same)
  have home: "(ve_id r \<notin> ve_id ` set (versions_of a d)) = (ve_artifact r \<noteq> a)" if "r \<in> set (db_versions d)" for r
    using that ids by (auto simp: versions_of_def distinct_map inj_on_def image_iff)
  then show "db_versions (purge_chain d a) = filter (\<lambda>r. ve_artifact r \<noteq> a) (db_versions d)"
    using all filter_cong [OF refl home] by (simp add: purge_chain_def Let_def)
  show "db_artifacts (purge_chain d a) = filter (\<lambda>r. ar_id r \<noteq> a) (db_artifacts d)"
    by (simp add: purge_chain_def Let_def drop_all_fields)
qed

section \<open>The replay\<close>

lemma replay_artifact_fields [simp]:
  "db_versions (replay_artifact v name st d) = db_versions d" "db_blobs (replay_artifact v name st d) = db_blobs d"
  "db_fences (replay_artifact v name st d) = db_fences d"
  "ar_id ` set (db_artifacts d) \<subseteq> ar_id ` set (db_artifacts (replay_artifact v name st d))"
  by (auto simp: replay_artifact_def)

lemma replay_blob_fields [simp]:
  "db_versions (replay_blob v d) = db_versions d" "db_artifacts (replay_blob v d) = db_artifacts d"
  "db_fences (replay_blob v d) = db_fences d"
  by (simp_all add: replay_blob_def)

lemma raise_fence_fields [simp]:
  "db_versions (raise_fence tk n d) = db_versions d" "db_blobs (raise_fence tk n d) = db_blobs d"
  "db_artifacts (raise_fence tk n d) = db_artifacts d"
  by (simp_all add: raise_fence_def split: option.split)

lemma replay_version_ok:
  "replay_version v d = Inr d' \<Longrightarrow>
   d' = d \<or> (d' = d\<lparr>db_versions := db_versions d @ [v]\<rparr> \<and> version_refs v d \<and> \<not> list_ex (version_clash v) (db_versions d))"
  by (auto simp: replay_version_def split: if_splits)

lemma keys_same: "db_versions d' = db_versions d \<Longrightarrow> db_blobs d' = db_blobs d \<Longrightarrow> keys_ok d' = keys_ok d"
  by (simp add: keys_ok_def)

lemma homes_same: "db_versions d' = db_versions d \<Longrightarrow> db_artifacts d' = db_artifacts d \<Longrightarrow> homes_ok d' = homes_ok d"
  by (simp add: homes_ok_def find_artifact_def)

text \<open>What a committed line does to the tables, the pointer and the fence aside.\<close>

lemma apply_committed:
  assumes "apply_event (EvCommitted v name st) d = Inr d'"
  obtains d1 where "replay_version v (replay_blob v (replay_artifact v name st d)) = Inr d1"
    "db_versions d' = db_versions d1" "db_blobs d' = db_blobs d1" "ar_id ` set (db_artifacts d') = ar_id ` set (db_artifacts d1)"
    "db_fences d' = db_fences (raise_fence (ve_ticket v) (ve_fence v) d1)"
proof -
  obtain d1 where d1: "replay_version v (replay_blob v (replay_artifact v name st d)) = Inr d1"
    and d': "d' = raise_fence (ve_ticket v) (ve_fence v)
      (if current_seq (ve_artifact v) d1 < int (ve_seq v) then set_current (ve_artifact v) (Some (ve_id v)) d1 else d1)"
    using assms by (auto simp: and_then_def split: sum.splits)
  have "db_fences (raise_fence tk n (set_current a x d1)) = db_fences (raise_fence tk n d1)" for tk n a x
    by (simp add: raise_fence_def split: option.split)
  then show ?thesis using that [OF d1] by (simp add: d')
qed

lemma image_filter_key: "x \<in> f ` {y \<in> A. f y \<noteq> h} \<longleftrightarrow> x \<in> f ` A \<and> x \<noteq> h"
  by auto

lemma keys_current: "keys_ok (set_current a x d) = keys_ok d" and homes_current: "homes_ok (set_current a x d) = homes_ok d"
  by (simp_all add: keys_ok_def homes_ok_def find_artifact_None)

lemma keys_apply:
  assumes "apply_event e d = Inr d'" and "keys_ok d" and "homes_ok d" and "lines_ok [e]"
  shows "keys_ok d' \<and> homes_ok d'"
proof (cases e)
  case (EvCommitted v name st)
  obtain h where h: "ve_sha v = Some h" "h \<noteq> []" using assms(4) EvCommitted by (auto simp: lines_ok_def)
  let ?d0 = "replay_blob v (replay_artifact v name st d)"
  obtain d1 where d1: "replay_version v ?d0 = Inr d1" and f: "db_versions d' = db_versions d1" "db_blobs d' = db_blobs d1"
      "ar_id ` set (db_artifacts d') = ar_id ` set (db_artifacts d1)"
    using apply_committed [OF assms(1) [unfolded EvCommitted]] by metis
  have k0: "keys_ok ?d0" using assms(2) h by (auto simp: keys_ok_def replay_blob_def find_blob_None)
  have h0: "homes_ok ?d0" by (rule homes_mono [OF _ _ assms(3)]) simp_all
  have "keys_ok d1 \<and> homes_ok d1"
  proof (rule disjE [OF replay_version_ok [OF d1]])
    assume "d1 = ?d0" then show ?thesis using k0 h0 by simp
  next
    assume n: "d1 = ?d0\<lparr>db_versions := db_versions ?d0 @ [v]\<rparr> \<and> version_refs v ?d0 \<and> \<not> list_ex (version_clash v) (db_versions ?d0)"
    then have "ve_id r \<noteq> ve_id v" if "r \<in> set (db_versions d)" for r
      using that by (auto simp: list_ex_iff version_clash_def)
    then have "ve_id v \<notin> ve_id ` set (db_versions d)" by fastforce
    then show ?thesis using n k0 h0 h
      by (auto simp: keys_ok_def homes_ok_def version_refs_def find_blob_None find_artifact_def)
  qed
  then show ?thesis using homes_mono [of d' d1] f by (simp add: keys_same [OF f(1,2)])
next
  case (EvPurge h)
  then show ?thesis using assms
    by (auto simp: keys_ok_def list_ex_iff find_blob_None homes_ok_def find_artifact_def image_filter_key
        intro: distinct_map_filter split: if_splits)
next
  case (EvAborted v)
  then show ?thesis using assms by (auto simp: keys_ok_def homes_ok_def find_artifact_def intro: distinct_map_filter)
next
  case (EvDelete v a)
  then show ?thesis using assms keys_current homes_current by auto
next
  case (EvMove a v)
  then show ?thesis using assms keys_current homes_current by auto
qed

lemma keys_replay:
  "replay_journal es d = Inr d' \<Longrightarrow> keys_ok d \<Longrightarrow> homes_ok d \<Longrightarrow> lines_ok es \<Longrightarrow> keys_ok d' \<and> homes_ok d'"
proof (induction es arbitrary: d)
  case (Cons e es)
  then obtain d1 where "apply_event e d = Inr d1" "replay_journal es d1 = Inr d'" by (auto simp: and_then_def split: sum.splits)
  moreover have "lines_ok [e]" "lines_ok es" using Cons.prems(4) by (auto simp: lines_ok_def)
  ultimately show ?case using Cons.IH keys_apply Cons.prems(2,3) by blast
qed simp

lemma refs_recount: "keys_ok d \<Longrightarrow> refs_ok (recount d)"
  by (auto simp: refs_ok_def keys_ok_def recount_def o_def image_iff)

section \<open>The law of the tables\<close>

lemma lines_append: "lines_ok (es @ fs) = (lines_ok es \<and> lines_ok fs)"
  unfolding lines_ok_def set_append Un_iff by blast

lemma lines_other [simp]: "lines_ok [EvPurge h]" "lines_ok [EvAborted v]" "lines_ok [EvDelete v a]" "lines_ok [EvMove a v]"
  by (simp_all add: lines_ok_def)

lemma lines_committed: "mt_sha m \<noteq> [] \<Longrightarrow> lines_ok [committed_event (new_version now p vid u m k) u d]"
  by (simp add: lines_ok_def committed_event_def new_version_def)

lemma homes_new: "homes_ok d \<Longrightarrow> version_refs v d \<Longrightarrow> db_versions d' = db_versions d @ [v] \<Longrightarrow>
  ar_id ` set (db_artifacts d') = ar_id ` set (db_artifacts d) \<Longrightarrow> homes_ok d'"
  by (auto simp: homes_ok_def version_refs_def find_artifact_None)

lemma tables_move: "dmove m s s' \<Longrightarrow> tables_ok s \<Longrightarrow> tables_ok s'"
proof (induction rule: dmove.induct)
  case (mv_quiet s s') then show ?case using tables_quiet by blast
next
  case (mv_artifact a s)
  then show ?case using homes_mono refs_same by (auto simp: tables_ok_def homes_ok_def find_artifact_None refs_ok_def keys_ok_def)
next
  case (mv_commit now p vid u m s d f)
  obtain d1 v where v: "v = new_version now p vid u m (max_seq (up_artifact u) (ds_db s) + 1)"
    and e: "enforce_fencing (up_ticket u) (up_fence u) (ds_db s) = Inr d1"
    and c: "\<not> list_ex (version_clash v) (db_versions (ds_db s))" "version_refs v (count_blob now m d1)"
    and d: "d = upd_upload (up_id u) (\<lambda>r. r\<lparr>up_state := UCommitted, up_result := Some vid, up_active := now\<rparr>)
       (set_current (up_artifact u) (Some vid) ((count_blob now m d1)\<lparr>db_versions := db_versions (ds_db s) @ [v]\<rparr>))"
    using commit_tables_ok [OF mv_commit(1)] .
  have r1: "refs_ok d1" "homes_ok d1"
    using mv_commit.prems refs_same [of d1 "ds_db s"] homes_same [of d1 "ds_db s"] enforce_fields [OF e] by (simp_all add: tables_ok_def)
  have "refs_ok d"
    by (rule refs_add [OF r1(1), of v m _ now])
      (use c(1) mv_commit(7) enforce_fields [OF e] in \<open>auto simp: d v new_version_def list_ex_iff list_all_iff version_clash_def\<close>)
  moreover have "homes_ok d"
    by (rule homes_new [OF _ c(2)]) (use r1(2) enforce_fields [OF e] in \<open>simp_all add: d homes_ok_def find_artifact_def\<close>)
  moreover have "df_journal f = df_journal (ds_files s) @ [committed_event v u (ds_db s)]"
    using materialize_fields(1) [OF mv_commit(2)] by (simp add: journal_def v)
  ultimately show ?case
    using mv_commit.prems lines_committed [OF mv_commit(7)] by (simp add: tables_ok_def lines_append v)
next
  case (mv_torn now p vid u m s d s1 e f)
  have "df_journal f = df_journal (ds_files s) @ [committed_event (new_version now p vid u m (max_seq (up_artifact u) (ds_db s) + 1)) u e]"
    using mv_torn(4,5) materialize_fields(1) by (auto simp: journal_def)
  then show ?case using mv_torn lines_committed [OF mv_torn(3)] by (simp add: tables_ok_def lines_append journal_def)
next
  case (mv_aborted vid s)
  then show ?case by (simp add: tables_ok_def journal_def lines_append)
next
  case (mv_marker a s vid now p d)
  note i = mv_marker(4) [unfolded insert_version_ok]
  let ?v = "marker_row now p vid a (max_seq (ar_id a) (ds_db s) + 1)"
  have "refs_ok (set_current (ar_id a) None d)"
    using i mv_marker.prems by (auto simp: tables_ok_def refs_ok_def keys_ok_def marker_row_def list_ex_iff version_clash_def)
  moreover have "homes_ok (set_current (ar_id a) None d)"
    by (rule homes_new [of "ds_db s" ?v]) (use i mv_marker.prems in \<open>simp_all add: tables_ok_def\<close>)
  ultimately show ?case using mv_marker.prems by (simp add: tables_ok_def journal_def lines_append)
next
  case (mv_restore aid s a vid v)
  have "homes_ok (set_current aid (Some vid) (ds_db s))"
    using homes_mono [of "set_current aid (Some vid) (ds_db s)" "ds_db s"] mv_restore.prems by (simp add: tables_ok_def)
  then show ?case using mv_restore refs_same [of "set_current aid (Some vid) (ds_db s)" "ds_db s"]
    by (simp add: tables_ok_def journal_def lines_append)
next
  case (mv_chain s a)
  then have r: "refs_ok (ds_db s)" by (simp add: tables_ok_def)
  show ?case using mv_chain purge_chain_versions [OF r, of a]
    by (auto simp: tables_ok_def homes_ok_def find_artifact_None)
next
  case (mv_purge b s s')
  note p = purge_blob_ok [OF mv_purge(1)]
  have "refs_ok (ds_db s')" using p(1) mv_purge.prems
    by (fastforce simp: p(2) tables_ok_def refs_ok_def keys_ok_def list_ex_iff intro: distinct_map_filter)
  then show ?case using mv_purge.prems p(3) homes_same [of "ds_db s'" "ds_db s"] p(2)
    by (simp add: tables_ok_def lines_append)
next
  case (mv_replay s s')
  obtain d where d: "replay_journal (df_journal (ds_files s)) (ds_db s) = Inr d" "s' = s\<lparr>ds_db := recount d\<rparr>"
    using boot_fields [OF mv_replay(1)] .
  have "keys_ok d \<and> homes_ok d" using keys_replay [OF d(1)] mv_replay.prems by (simp add: tables_ok_def refs_ok_def)
  then show ?case using mv_replay.prems refs_recount d(2)
    by (simp add: tables_ok_def homes_ok_def find_artifact_def recount_def)
qed

lemma tables_init: "tables_ok empty_dstore"
  by (simp add: tables_ok_def empty_dstore_def empty_ddb_def empty_dfiles_def refs_ok_def keys_ok_def homes_ok_def lines_ok_def)

interpretation tables: drive_law tables_ok UNIV
  by unfold_locales (blast intro: tables_init tables_move)+

section \<open>The law of the fences\<close>

text \<open>
  The law of the fences: no version of a ticket carries a token above the ticket's fence, in any run.
\<close>

definition fences_up :: "ddb \<Rightarrow> ddb \<Rightarrow> bool" where
  "fences_up d d' = (\<forall>tk m. alist_get tk (db_fences d) = Some m \<longrightarrow> (\<exists>m'. alist_get tk (db_fences d') = Some m' \<and> m \<le> m'))"

lemma fences_up_same: "db_fences d' = db_fences d \<Longrightarrow> fences_up d d'"
  by (simp add: fences_up_def)

lemma fences_up_trans: "fences_up d d1 \<Longrightarrow> fences_up d1 d2 \<Longrightarrow> fences_up d d2"
  unfolding fences_up_def by (meson order_trans)

text \<open>A token that is no negative number is recorded, or a higher one is.\<close>

definition token_below :: "string \<Rightarrow> int option \<Rightarrow> ddb \<Rightarrow> bool" where
  "token_below tk token d = (\<forall>n. token = Some n \<and> 0 \<le> n \<longrightarrow> (\<exists>m. alist_get tk (db_fences d) = Some m \<and> n \<le> m))"

lemma token_up: "fences_up d d' \<Longrightarrow> token_below tk n d \<Longrightarrow> token_below tk n d'"
  unfolding fences_up_def token_below_def by (metis order_trans)

lemma enforce_up:
  assumes "enforce_fencing tk token d = Inr d1"
  shows "fences_up d d1" and "token_below tk token d1" and "\<And>n. token = Some n \<Longrightarrow> fence_high tk d \<le> n"
  using assms
  by (auto simp: enforce_fencing_def fences_up_def token_below_def fence_high_def alist_get_put split: option.splits if_splits)

lemma raise_up: "fences_up d (raise_fence tk token d)" and raise_high: "token_below tk token (raise_fence tk token d)"
  by (auto simp: raise_fence_def fences_up_def token_below_def alist_get_put split: option.splits)

definition tokens_below :: "ddb \<Rightarrow> bool" where
  "tokens_below d = (\<forall>v \<in> set (db_versions d). token_below (ve_ticket v) (ve_fence v) d)"

lemma fenced_up: "tokens_below d \<Longrightarrow> fences_up d d' \<Longrightarrow> set (db_versions d') \<subseteq> set (db_versions d) \<Longrightarrow> tokens_below d'"
  unfolding tokens_below_def using token_up by blast

lemma fenced_add:
  "tokens_below d \<Longrightarrow> fences_up d d' \<Longrightarrow> set (db_versions d') \<subseteq> insert v (set (db_versions d)) \<Longrightarrow>
   token_below (ve_ticket v) (ve_fence v) d' \<Longrightarrow> tokens_below d'"
  unfolding tokens_below_def using token_up by blast

lemma token_same: "db_fences d' = db_fences d \<Longrightarrow> token_below tk n d' = token_below tk n d"
  by (simp add: token_below_def)

lemma fenced_apply: "apply_event e d = Inr d' \<Longrightarrow> tokens_below d \<Longrightarrow> tokens_below d'"
proof (cases e)
  case (EvCommitted v name st)
  assume a: "apply_event e d = Inr d'" and f: "tokens_below d"
  obtain d1 where d1: "replay_version v (replay_blob v (replay_artifact v name st d)) = Inr d1"
    and g: "db_versions d' = db_versions d1" "db_fences d' = db_fences (raise_fence (ve_ticket v) (ve_fence v) d1)"
    using apply_committed [OF a [unfolded EvCommitted]] by metis
  have v: "set (db_versions d1) \<subseteq> insert v (set (db_versions d))" and e: "db_fences d1 = db_fences d"
    using replay_version_ok [OF d1] by auto
  have "fences_up d d'"
    using fences_up_trans [OF fences_up_same [OF e] raise_up] by (simp add: fences_up_def g)
  then show ?thesis using fenced_add [OF f, of d' v] v g(1) raise_high token_same [OF g(2)] by metis
next
  case (EvAborted v)
  assume "apply_event e d = Inr d'" and "tokens_below d"
  with EvAborted show ?thesis using fenced_up [of d d'] by (auto simp: fences_up_same)
next
  case (EvPurge h)
  assume "apply_event e d = Inr d'" and "tokens_below d"
  with EvPurge show ?thesis using fenced_up [of d d'] by (auto simp: fences_up_same split: if_splits)
next
  case (EvDelete v a)
  assume "apply_event e d = Inr d'" and "tokens_below d"
  with EvDelete show ?thesis using fenced_up [of d d'] by (auto simp: fences_up_same)
next
  case (EvMove a v)
  assume "apply_event e d = Inr d'" and "tokens_below d"
  with EvMove show ?thesis using fenced_up [of d d'] by (auto simp: fences_up_same)
qed

lemma fenced_replay: "replay_journal es d = Inr d' \<Longrightarrow> tokens_below d \<Longrightarrow> tokens_below d'"
proof (induction es arbitrary: d)
  case (Cons e es)
  then obtain d1 where "apply_event e d = Inr d1" "replay_journal es d1 = Inr d'" by (auto simp: and_then_def split: sum.splits)
  with Cons fenced_apply show ?case by blast
qed simp

lemma drop_versions: "set (db_versions (drop_version d v)) \<subseteq> set (db_versions d)"
  by (auto simp: drop_version_def Let_def ref_down_def split: option.splits)

lemma drop_all_versions: "set (db_versions (foldl drop_version d vs)) \<subseteq> set (db_versions d)"
  by (induction vs arbitrary: d) (use drop_versions in fastforce)+

lemma fences_move: "dmove m s s' \<Longrightarrow> tokens_below (ds_db s) \<Longrightarrow> tokens_below (ds_db s')"
proof (induction rule: dmove.induct)
  case (mv_commit now p vid u m s d f)
  obtain d1 v where v: "v = new_version now p vid u m (max_seq (up_artifact u) (ds_db s) + 1)"
    and e: "enforce_fencing (up_ticket u) (up_fence u) (ds_db s) = Inr d1"
    and d: "d = upd_upload (up_id u) (\<lambda>r. r\<lparr>up_state := UCommitted, up_result := Some vid, up_active := now\<rparr>)
       (set_current (up_artifact u) (Some vid) ((count_blob now m d1)\<lparr>db_versions := db_versions (ds_db s) @ [v]\<rparr>))"
    using commit_tables_ok [OF mv_commit(1)] by metis
  have h: "db_fences d = db_fences d1" by (simp add: d)
  have "fences_up (ds_db s) d" using enforce_up(1) [OF e] by (simp add: fences_up_def h)
  then have "tokens_below d"
    by (rule fenced_add [OF mv_commit.prems, of _ v])
      (use enforce_up(2) [OF e] in \<open>auto simp: d v new_version_def token_below_def\<close>)
  then show ?case by simp
next
  case (mv_chain s a)
  then show ?case
    by (intro fenced_up [OF mv_chain]) (simp_all add: purge_chain_def Let_def drop_all_fields drop_all_versions fences_up_same)
next
  case (mv_purge b s s')
  show ?case by (rule fenced_up [OF mv_purge.prems]) (simp_all add: purge_blob_ok(2) [OF mv_purge(1)] fences_up_same)
next
  case (mv_marker a s vid now p d)
  let ?v = "marker_row now p vid a (max_seq (ar_id a) (ds_db s) + 1)"
  show ?case
    by (rule fenced_add [OF mv_marker.prems, of _ ?v])
      (use mv_marker(4) [unfolded insert_version_ok] in \<open>auto simp: journal_def marker_row_def fences_up_def token_below_def\<close>)
next
  case (mv_replay s s')
  obtain d where d: "replay_journal (df_journal (ds_files s)) (ds_db s) = Inr d" "s' = s\<lparr>ds_db := recount d\<rparr>"
    using boot_fields [OF mv_replay(1)] .
  have "tokens_below d" using fenced_replay [OF d(1) mv_replay.prems] .
  then show ?case by (simp add: d(2) recount_def tokens_below_def token_below_def)
next
  case (mv_quiet s s')
  then show ?case by (simp add: quiet_def tokens_below_def token_below_def)
qed (auto simp: journal_def tokens_below_def token_below_def)

interpretation fences: drive_law "\<lambda>s. tokens_below (ds_db s)" UNIV
proof
  show "tokens_below (ds_db empty_dstore)" by (simp add: tokens_below_def empty_dstore_def empty_ddb_def)
  show "dmove m s s' \<Longrightarrow> m \<in> UNIV \<Longrightarrow> tokens_below (ds_db s) \<Longrightarrow> tokens_below (ds_db s')" for m s s' by (rule fences_move)
qed

section \<open>What a commit answers\<close>

text \<open>A commit that is answered with a new version went through the transaction.\<close>

lemma commit_answer:
  assumes "commit_upload cfg now p vid uid m s = (Inr r, s')" and "get_upload uid s = Some u" and "up_state u = UPending"
  obtains d f where "commit_tables now p vid u m (ds_db s) = Inr d" "ds_db s' = ds_db (daudit now p ''version_committed'' AuditOk (Some (up_ticket u)) (Some (up_artifact u)) (Some vid)
                (Some (JObj [(''seq'', JNum (int (max_seq (up_artifact u) (ds_db s) + 1))), (''sha256'', JStr (mt_sha m)),
                  (''dedup'', JBool (find_blob (mt_sha m) (ds_db s) \<noteq> None))])) \<lparr>ds_db = d, ds_files = f\<rparr>)"
    "r = result_of (new_version now p vid u m (max_seq (up_artifact u) (ds_db s) + 1))" "\<not> not_owner p u"
    "materialize uid (mt_sha m) (ds_files (journal (committed_event (new_version now p vid u m (max_seq (up_artifact u) (ds_db s) + 1)) u d) s)) = Inr f"
    "df_cas (ds_files s') = df_cas f" "df_inodes (ds_files s') = df_inodes f"
  using assms get_upload_id [OF assms(2)]
  by (auto simp: commit_upload_def commit_txn_def Let_def owner_denied_def discard_staging_def new_version_def
      split: if_splits sum.splits)

end
