(* ===== verification/DriveReplay.thy ===== *)
theory DriveReplay
  imports DriveTables
begin

text \<open>
  The law of the journal: as long as nothing is collected and no commit is cut, the version journal and the
  tables say the same, and replaying the journal over the tables changes nothing.
\<close>

section \<open>Pointers\<close>

fun points :: "string \<Rightarrow> vevent \<Rightarrow> bool" where
  "points a (EvCommitted v _ _) = (ve_artifact v = a)"
| "points a (EvDelete _ b) = (b = a)"
| "points a (EvMove b _) = (b = a)"
| "points a (EvPurge _) = False"
| "points a (EvAborted _) = False"

fun event_target :: "vevent \<Rightarrow> string option" where
  "event_target (EvCommitted v _ _) = Some (ve_id v)"
| "event_target (EvMove _ x) = Some x"
| "event_target _ = None"

text \<open>The last line that moves the pointer of an artifact.\<close>

definition last_point :: "string \<Rightarrow> vevent list \<Rightarrow> vevent option" where
  "last_point a es = List.find (points a) (rev es)"

lemma last_point_snoc [simp]: "last_point a (es @ [e]) = (if points a e then Some e else last_point a es)"
  by (simp add: last_point_def)

lemma last_point_Nil [simp]: "last_point a [] = None"
  by (simp add: last_point_def)

lemma last_point_in: "last_point a es = Some e \<Longrightarrow> e \<in> set es \<and> points a e"
  by (induction es rule: rev_induct) (auto split: if_splits)

section \<open>The law\<close>

definition versions_calm :: "ddb \<Rightarrow> bool" where
  "versions_calm d =
     (distinct (map ar_id (db_artifacts d)) \<and> (\<forall>w \<in> set (db_versions d). ve_id w \<noteq> []) \<and>
      (\<forall>w \<in> set (db_versions d). \<forall>x \<in> set (db_versions d). version_clash w x \<longrightarrow> ve_id w = ve_id x))"

definition lines_calm :: "ddb \<Rightarrow> vevent list \<Rightarrow> bool" where
  "lines_calm d es =
     ((\<forall>v n st. EvCommitted v n st \<in> set es \<longrightarrow>
         (\<exists>w \<in> set (db_versions d). v = w\<lparr>ve_hint := None\<rparr>) \<and> (\<forall>k. ve_fence v = Some k \<longrightarrow> 0 \<le> k)) \<and>
      (\<forall>a x. EvMove a x \<in> set es \<longrightarrow> (\<exists>w \<in> set (db_versions d). ve_id w = x \<and> ve_artifact w = a)) \<and>
      (\<forall>x. EvAborted x \<in> set es \<longrightarrow> x \<notin> ve_id ` set (db_versions d)) \<and> (\<forall>h. EvPurge h \<notin> set es))"

definition pointers_calm :: "ddb \<Rightarrow> vevent list \<Rightarrow> bool" where
  "pointers_calm d es =
     ((\<forall>r \<in> set (db_artifacts d). ar_current r = (case last_point (ar_id r) es of None \<Rightarrow> None | Some e \<Rightarrow> event_target e)) \<and>
      (\<forall>a v n st. last_point a es = Some (EvCommitted v n st) \<longrightarrow>
         (\<forall>w \<in> set (db_versions d). ve_artifact w = a \<longrightarrow> ve_seq w \<le> ve_seq v)))"

definition written_calm :: "ddb \<Rightarrow> vevent list \<Rightarrow> bool" where
  "written_calm d es =
     ((\<forall>w \<in> set (db_versions d). ve_sha w \<noteq> None \<longrightarrow> (\<exists>n st. EvCommitted (w\<lparr>ve_hint := None\<rparr>) n st \<in> set es)) \<and>
      (\<forall>b \<in> set (db_blobs d). \<exists>w \<in> set (db_versions d). ve_sha w = Some (bl_sha b)))"

definition calm_ok :: "dstore \<Rightarrow> bool" where
  "calm_ok s =
     (tables_ok s \<and> tokens_below (ds_db s) \<and> upload_keys s \<and> versions_calm (ds_db s) \<and>
      lines_calm (ds_db s) (df_journal (ds_files s)) \<and> pointers_calm (ds_db s) (df_journal (ds_files s)) \<and>
      written_calm (ds_db s) (df_journal (ds_files s)))"

section \<open>Replaying changes nothing\<close>

text \<open>Where the pointer of an artifact stands after a part of the journal is replayed.\<close>

definition pointer_at :: "ddb \<Rightarrow> vevent list \<Rightarrow> string \<Rightarrow> string option \<Rightarrow> string option \<Rightarrow> bool" where
  "pointer_at d es a c0 c =
     (case last_point a es of
        None \<Rightarrow> c = c0
      | Some (EvCommitted v n st) \<Rightarrow>
          (\<exists>w \<in> set (db_versions d). ve_artifact w = a \<and> c = Some (ve_id w) \<and> ve_seq v \<le> ve_seq w)
      | Some e \<Rightarrow> c = event_target e)"

definition pointer_valid :: "ddb \<Rightarrow> string \<Rightarrow> string option \<Rightarrow> bool" where
  "pointer_valid d a c = (c = None \<or> (\<exists>w \<in> set (db_versions d). ve_artifact w = a \<and> c = Some (ve_id w)))"

definition drow_at :: "ddb \<Rightarrow> vevent list \<Rightarrow> artifact_row \<Rightarrow> artifact_row \<Rightarrow> bool" where
  "drow_at d es r r' =
     (r' = r\<lparr>ar_current := ar_current r'\<rparr> \<and> pointer_at d es (ar_id r) (ar_current r) (ar_current r') \<and>
      pointer_valid d (ar_id r) (ar_current r'))"

definition replayed :: "ddb \<Rightarrow> vevent list \<Rightarrow> ddb \<Rightarrow> bool" where
  "replayed d es d' = (d' = d\<lparr>db_artifacts := db_artifacts d'\<rparr> \<and> list_all2 (drow_at d es) (db_artifacts d) (db_artifacts d'))"

lemma row_at_id:
  assumes "drow_at d es r r'" shows "ar_id r' = ar_id r"
proof -
  obtain z where "r' = r\<lparr>ar_current := z\<rparr>" using assms unfolding drow_at_def by blast
  then show ?thesis by simp
qed

lemma list_all2_ids: "list_all2 (drow_at d es) rs rs' \<Longrightarrow> map ar_id rs' = map ar_id rs"
  by (induction rule: list_all2_induct) (simp_all add: row_at_id)

lemma list_all2_update:
  assumes "list_all2 R xs ys" and "\<And>x y. R x y \<Longrightarrow> x \<in> set xs \<Longrightarrow> y \<in> set ys \<Longrightarrow> R' x (if p y then f y else y)"
  shows "list_all2 R' xs (update_where p f ys)"
  using assms by (auto simp: update_where_def list_all2_conv_all_nth)

lemma find_version_in:
  assumes "keys_ok d" and "w \<in> set (db_versions d)" shows "find_version (ve_id w) d = Some w"
  using assms row_of_distinct unfolding find_version_def keys_ok_def by fast

lemma find_artifact_in:
  assumes "distinct (map ar_id (db_artifacts d))" and "r \<in> set (db_artifacts d)" shows "find_artifact (ar_id r) d = Some r"
  using assms row_of_distinct unfolding find_artifact_def by fast

lemma alist_put_same: "alist_get k kvs = Some v \<Longrightarrow> alist_put k v kvs = kvs"
  unfolding alist_get_def by (induction kvs) (auto split: if_splits)

lemma raise_same:
  assumes "tokens_below d" and "w \<in> set (db_versions d)" and "\<And>k. ve_fence w = Some k \<Longrightarrow> 0 \<le> k"
  shows "raise_fence (ve_ticket w) (ve_fence w) d = d"
proof (cases "ve_fence w")
  case (Some n)
  then obtain m where "alist_get (ve_ticket w) (db_fences d) = Some m" "n \<le> m"
    using assms by (auto simp: tokens_below_def token_below_def)
  with Some show ?thesis by (simp add: raise_fence_def alist_put_same max_def)
qed (simp add: raise_fence_def)

lemma recount_same: "refs_ok d \<Longrightarrow> recount d = d"
proof -
  assume "refs_ok d"
  then have "map (\<lambda>b. b\<lparr>bl_refs := int (count_where (\<lambda>v. ve_sha v = Some (bl_sha b)) (db_versions d))\<rparr>) (db_blobs d) = db_blobs d"
    by (intro map_idI) (simp add: refs_ok_def)
  then show ?thesis by (simp add: recount_def)
qed

text \<open>A line that does not move a pointer leaves the rows as they are.\<close>

lemma replayed_skip:
  assumes "replayed d es d'" and "\<And>a. \<not> points a e" shows "replayed d (es @ [e]) d'"
proof -
  have "drow_at d (es @ [e]) = drow_at d es" by (intro ext) (simp add: drow_at_def pointer_at_def assms(2))
  with assms(1) show ?thesis by (simp add: replayed_def)
qed

text \<open>A line that sets the pointer of an artifact.\<close>

lemma replayed_set:
  assumes r: "replayed d es d'" and p: "\<And>b. points b e \<longleftrightarrow> b = a" and v: "pointer_valid d a c"
    and at: "\<And>c0. pointer_at d (es @ [e]) a c0 c"
  shows "replayed d (es @ [e]) (set_current a c d')"
proof -
  have e: "set_current a c d' = d\<lparr>db_artifacts := db_artifacts (set_current a c d')\<rparr>"
  proof -
    obtain z where "d' = d\<lparr>db_artifacts := z\<rparr>" using r unfolding replayed_def by blast
    then show ?thesis by (simp add: set_current_def)
  qed
  have "list_all2 (drow_at d (es @ [e])) (db_artifacts d) (update_where (\<lambda>r. ar_id r = a) (\<lambda>r. r\<lparr>ar_current := c\<rparr>) (db_artifacts d'))"
  proof (rule list_all2_update)
    show "list_all2 (drow_at d es) (db_artifacts d) (db_artifacts d')" using r by (simp add: replayed_def)
    fix x y assume xy: "drow_at d es x y"
    then have i: "ar_id y = ar_id x" by (rule row_at_id)
    show "drow_at d (es @ [e]) x (if ar_id y = a then y\<lparr>ar_current := c\<rparr> else y)"
    proof (cases "ar_id x = a")
      case True
      obtain z where "y = x\<lparr>ar_current := z\<rparr>" using xy unfolding drow_at_def by blast
      then have "y\<lparr>ar_current := c\<rparr> = x\<lparr>ar_current := c\<rparr>" by simp
      then show ?thesis using True i v at by (simp add: drow_at_def)
    next
      case False
      then show ?thesis using xy i p by (auto simp: drow_at_def pointer_at_def)
    qed
  qed
  then show ?thesis using e by (simp add: replayed_def set_current_def)
qed

lemma list_all2_in:
  "list_all2 R xs ys \<Longrightarrow> (\<And>x y. R x y \<Longrightarrow> y \<in> set ys \<Longrightarrow> R' x y) \<Longrightarrow> list_all2 R' xs ys"
  by (induction rule: list_all2_induct) auto

lemma replayed_fields:
  assumes "replayed d es d'"
  shows "db_versions d' = db_versions d" "db_blobs d' = db_blobs d" "db_fences d' = db_fences d"
    "map ar_id (db_artifacts d') = map ar_id (db_artifacts d)"
proof -
  obtain z where "d' = d\<lparr>db_artifacts := z\<rparr>" using assms unfolding replayed_def by blast
  then show "db_versions d' = db_versions d" "db_blobs d' = db_blobs d" "db_fences d' = db_fences d" by simp_all
  show "map ar_id (db_artifacts d') = map ar_id (db_artifacts d)" using assms list_all2_ids unfolding replayed_def by blast
qed

text \<open>A committed line under a pointer that has gone further.\<close>

lemma replayed_keep:
  assumes r: "replayed d es d'" and k: "keys_ok d" and c: "versions_calm d" and s: "\<not> current_seq (ve_artifact v) d' < int (ve_seq v)"
  shows "replayed d (es @ [EvCommitted v n st]) d'"
proof -
  note f = replayed_fields [OF r]
  have "list_all2 (drow_at d (es @ [EvCommitted v n st])) (db_artifacts d) (db_artifacts d')"
  proof (rule list_all2_in)
    show "list_all2 (drow_at d es) (db_artifacts d) (db_artifacts d')" using r by (simp add: replayed_def)
    fix x y assume xy: "drow_at d es x y" and y: "y \<in> set (db_artifacts d')"
    then have i: "ar_id y = ar_id x" by (simp add: row_at_id)
    show "drow_at d (es @ [EvCommitted v n st]) x y"
    proof (cases "ar_id x = ve_artifact v")
      case True
      have "find_artifact (ar_id y) d' = Some y" using find_artifact_in [OF _ y] c f(4) by (simp add: versions_calm_def)
      moreover have "pointer_valid d (ar_id x) (ar_current y)" using xy by (simp add: drow_at_def)
      ultimately obtain w where w: "w \<in> set (db_versions d)" "ve_artifact w = ar_id x" "ar_current y = Some (ve_id w)"
        using s True i by (auto simp: current_seq_def pointer_valid_def)
      moreover have "find_version (ve_id w) d' = Some w" using find_version_in [OF k w(1)] f(1) by (simp add: find_version_def)
      ultimately have "ve_seq v \<le> ve_seq w"
        using s True i \<open>find_artifact (ar_id y) d' = Some y\<close> c by (auto simp: current_seq_def versions_calm_def)
      then show ?thesis using xy w True by (auto simp: drow_at_def pointer_at_def)
    qed (use xy in \<open>simp add: drow_at_def pointer_at_def\<close>)
  qed
  then show ?thesis using r by (simp add: replayed_def)
qed

lemma replayed_apply:
  assumes r: "replayed d es d'" and k: "keys_ok d" "homes_ok d" and f: "tokens_below d" and c: "versions_calm d"
    and e: "lines_calm d [e]" "lines_ok [e]"
  shows "\<exists>d''. apply_event e d' = Inr d'' \<and> replayed d (es @ [e]) d''"
proof (cases e)
  case (EvCommitted v n st)
  obtain w where w: "w \<in> set (db_versions d)" "v = w\<lparr>ve_hint := None\<rparr>" and t: "\<And>k. ve_fence v = Some k \<Longrightarrow> 0 \<le> k"
    using e(1) EvCommitted by (auto simp: lines_calm_def)
  obtain h where h: "ve_sha v = Some h" using e(2) EvCommitted by (auto simp: lines_ok_def)
  note g = replayed_fields [OF r]
  have ids: "ar_id ` set (db_artifacts d') = ar_id ` set (db_artifacts d)" using g(4) by (metis list.set_map)
  have "ve_artifact v \<in> ar_id ` set (db_artifacts d)" using k(2) w by (auto simp: homes_ok_def find_artifact_None)
  then have "ve_artifact v \<in> ar_id ` set (db_artifacts d')" using ids by blast
  then obtain r where "r \<in> set (db_artifacts d')" "ar_id r = ve_artifact v" by force
  then have "list_ex (\<lambda>r. ar_id r = ve_artifact v \<or> (ar_ticket r = ve_ticket v \<and> ar_name r = n)) (db_artifacts d')"
    by (auto simp: list_ex_iff)
  then have a: "replay_artifact v n st d' = d'" by (simp add: replay_artifact_def)
  have "h \<in> bl_sha ` set (db_blobs d)" using k(1) w h by (auto simp: keys_ok_def)
  then have b: "replay_blob v d' = d'" using h g(2) by (simp add: replay_blob_def find_blob_None)
  have "list_ex (version_clash v) (db_versions d')" using w g(1) by (auto simp: list_ex_iff version_clash_def)
  then have vr: "replay_version v d' = Inr d'" by (simp add: replay_version_def)
  have rs: "raise_fence (ve_ticket v) (ve_fence v) x = x" if "db_versions x = db_versions d" "db_fences x = db_fences d" for x
  proof -
    have "tokens_below x" using f that by (simp add: tokens_below_def token_below_def)
    then have "raise_fence (ve_ticket w) (ve_fence w) x = x" using raise_same [of x w] that w t by simp
    then show ?thesis by (simp add: w(2))
  qed
  show ?thesis
  proof (cases "current_seq (ve_artifact v) d' < int (ve_seq v)")
    case True
    have "replayed d (es @ [e]) (set_current (ve_artifact v) (Some (ve_id v)) d')"
      by (rule replayed_set [OF r]) (use EvCommitted w in \<open>auto simp: pointer_valid_def pointer_at_def\<close>)
    then show ?thesis using True EvCommitted a b vr rs g by (simp add: and_then_def)
  next
    case False
    then show ?thesis using replayed_keep [OF r k(1) c False] EvCommitted a b vr rs g by (simp add: and_then_def)
  qed
next
  case (EvDelete x a)
  have "replayed d (es @ [e]) (set_current a None d')"
    by (rule replayed_set [OF r]) (auto simp: EvDelete pointer_valid_def pointer_at_def)
  then show ?thesis by (simp add: EvDelete)
next
  case (EvMove a x)
  have "\<exists>w \<in> set (db_versions d). ve_id w = x \<and> ve_artifact w = a" using e(1) by (auto simp: lines_calm_def EvMove)
  then have "replayed d (es @ [e]) (set_current a (Some x) d')"
    by (intro replayed_set [OF r]) (auto simp: EvMove pointer_valid_def pointer_at_def)
  then show ?thesis by (simp add: EvMove)
next
  case (EvPurge h)
  then show ?thesis using e(1) by (simp add: lines_calm_def)
next
  case (EvAborted x)
  have "filter (\<lambda>r. ve_id r \<noteq> x) (db_versions d') = db_versions d'"
    using e(1) replayed_fields(1) [OF r] by (intro filter_True) (auto simp: lines_calm_def EvAborted)
  then show ?thesis using replayed_skip [OF r, of e] by (simp add: EvAborted)
qed

lemma replayed_all:
  "replayed d es d' \<Longrightarrow> keys_ok d \<Longrightarrow> homes_ok d \<Longrightarrow> tokens_below d \<Longrightarrow> versions_calm d \<Longrightarrow> lines_calm d fs \<Longrightarrow> lines_ok fs \<Longrightarrow>
   \<exists>d''. replay_journal fs d' = Inr d'' \<and> replayed d (es @ fs) d''"
proof (induction fs arbitrary: es d')
  case (Cons e fs)
  have "lines_calm d [e]" "lines_ok [e]" "lines_calm d fs" "lines_ok fs" using Cons.prems(6,7) by (auto simp: lines_calm_def lines_ok_def)
  moreover then obtain d1 where "apply_event e d' = Inr d1" "replayed d (es @ [e]) d1"
    using replayed_apply [OF Cons.prems(1-5)] by blast
  ultimately show ?case using Cons.IH [of "es @ [e]" d1] Cons.prems(2-5) by (simp add: and_then_def)
qed simp

lemma pointers_valid:
  assumes "pointers_calm d es" and "lines_calm d es" and "r \<in> set (db_artifacts d)"
  shows "pointer_valid d (ar_id r) (ar_current r)"
proof (cases "last_point (ar_id r) es")
  case (Some e)
  have e: "e \<in> set es" "points (ar_id r) e" using last_point_in [OF Some] by simp_all
  have c: "ar_current r = event_target e" using assms(1,3) Some by (simp add: pointers_calm_def)
  show ?thesis
  proof (cases e)
    case (EvCommitted v n st)
    then obtain w where "w \<in> set (db_versions d)" "v = w\<lparr>ve_hint := None\<rparr>" using assms(2) e(1) by (auto simp: lines_calm_def)
    then show ?thesis using EvCommitted e(2) c by (auto simp: pointer_valid_def)
  next
    case (EvMove a x)
    then have "\<exists>w \<in> set (db_versions d). ve_id w = x \<and> ve_artifact w = a" using assms(2) e(1) unfolding lines_calm_def by blast
    then show ?thesis using EvMove e(2) c by (auto simp: pointer_valid_def)
  qed (use c in \<open>simp_all add: pointer_valid_def\<close>)
qed (use assms in \<open>simp add: pointers_calm_def pointer_valid_def\<close>)

lemma pointer_final:
  assumes "pointers_calm d es" and "lines_calm d es" and "versions_calm d" and "keys_ok d" and "r \<in> set (db_artifacts d)"
    and "pointer_at d es (ar_id r) (ar_current r) c"
  shows "c = ar_current r"
proof (cases "last_point (ar_id r) es")
  case None
  then show ?thesis using assms(6) by (simp add: pointer_at_def)
next
  case (Some e)
  have e: "e \<in> set es" "points (ar_id r) e" using last_point_in [OF Some] by simp_all
  have c: "ar_current r = event_target e" using assms(1,5) Some by (simp add: pointers_calm_def)
  show ?thesis
  proof (cases e)
    case (EvCommitted v n st)
    obtain w where w: "w \<in> set (db_versions d)" "ve_artifact w = ar_id r" "c = Some (ve_id w)" "ve_seq v \<le> ve_seq w"
      using assms(6) Some EvCommitted by (auto simp: pointer_at_def)
    obtain x where x: "x \<in> set (db_versions d)" "v = x\<lparr>ve_hint := None\<rparr>" using assms(2) e(1) EvCommitted by (auto simp: lines_calm_def)
    have "ve_seq w \<le> ve_seq v" using assms(1) Some w(1,2) unfolding pointers_calm_def EvCommitted by blast
    then have "version_clash w x" using w x e(2) EvCommitted by (simp add: version_clash_def)
    then have "ve_id w = ve_id x" using assms(3) w(1) x(1) by (simp add: versions_calm_def)
    then show ?thesis using w(3) x(2) c EvCommitted by simp
  qed (use assms(6) Some c in \<open>simp_all add: pointer_at_def\<close>)
qed

text \<open>Replaying over a calm store, and so booting, leaves it as it is.\<close>

lemma replay_idem:
  assumes "calm_ok s" shows "replay_journal (df_journal (ds_files s)) (ds_db s) = Inr (ds_db s)"
proof -
  let ?d = "ds_db s" and ?es = "df_journal (ds_files s)"
  note c = assms [unfolded calm_ok_def tables_ok_def refs_ok_def]
  have "list_all2 (drow_at ?d []) (db_artifacts ?d) (db_artifacts ?d)"
    using pointers_valid c by (auto simp: list_all2_same drow_at_def pointer_at_def)
  then have "replayed ?d [] ?d" by (simp add: replayed_def)
  then obtain d' where d': "replay_journal ?es ?d = Inr d'" "replayed ?d ?es d'"
    using replayed_all [of ?d "[]" ?d ?es] c by auto
  have "list_all2 (=) (db_artifacts ?d) (db_artifacts d')"
  proof (rule list_all2_in)
    show "list_all2 (\<lambda>x y. drow_at ?d ?es x y \<and> x \<in> set (db_artifacts ?d)) (db_artifacts ?d) (db_artifacts d')"
      using d'(2) by (simp add: replayed_def list_all2_conv_all_nth)
    fix x y assume xy: "drow_at ?d ?es x y \<and> x \<in> set (db_artifacts ?d)"
    then have "ar_current y = ar_current x" using pointer_final [of ?d ?es x "ar_current y"] c by (simp add: drow_at_def)
    then show "x = y" using xy by (simp add: drow_at_def)
  qed
  then have "db_artifacts d' = db_artifacts ?d" by (metis list_all2_eq)
  moreover have "d' = ?d\<lparr>db_artifacts := db_artifacts d'\<rparr>" using d'(2) unfolding replayed_def by blast
  ultimately have "d' = ?d" by simp
  then show ?thesis using d'(1) by simp
qed

lemma boot_same: "calm_ok s \<Longrightarrow> drive_boot s = Inr s"
  using replay_idem [of s] recount_same [of "ds_db s"]
  by (simp add: drive_boot_def rebuild_index_def and_then_def calm_ok_def tables_ok_def)

end
