(* ===== verification/DriveCalm.thy ===== *)
theory DriveCalm
  imports DriveReplay
begin

text \<open>
  The law of the journal is kept by every move but a collection and a cut commit, so a service that has
  only seen those boots into the very store it had.
\<close>

section \<open>Lines and pointers\<close>

lemma clash_sym: "version_clash v w = version_clash w v"
  by (auto simp: version_clash_def)

lemma max_seq_ge: "w \<in> set (db_versions d) \<Longrightarrow> ve_artifact w = a \<Longrightarrow> ve_seq w \<le> max_seq a d"
  by (auto simp: max_seq_def versions_of_def intro!: Max_ge)

lemma versions_add:
  assumes "versions_calm d" and "db_versions d' = db_versions d @ [v]" and "map ar_id (db_artifacts d') = map ar_id (db_artifacts d)"
    and "ve_id v \<noteq> []" and "\<not> list_ex (version_clash v) (db_versions d)"
  shows "versions_calm d'"
proof -
  have "\<not> version_clash v w" "\<not> version_clash w v" if "w \<in> set (db_versions d)" for w
    using assms(5) that clash_sym [of v w] by (auto simp: list_ex_iff)
  moreover have "version_clash w x \<longrightarrow> ve_id w = ve_id x" if "w \<in> set (db_versions d)" "x \<in> set (db_versions d)" for w x
    using that assms(1) unfolding versions_calm_def by blast
  ultimately have "\<forall>w \<in> set (db_versions d'). \<forall>x \<in> set (db_versions d'). version_clash w x \<longrightarrow> ve_id w = ve_id x"
    unfolding assms(2) by simp
  moreover have "distinct (map ar_id (db_artifacts d'))" unfolding assms(3) using assms(1) by (simp add: versions_calm_def)
  moreover have "\<forall>w \<in> set (db_versions d'). ve_id w \<noteq> []" using assms(1,4) unfolding assms(2) by (simp add: versions_calm_def)
  ultimately show ?thesis unfolding versions_calm_def by blast
qed

lemma lines_add:
  assumes "lines_calm d es" and "set (db_versions d) \<subseteq> set (db_versions d')"
    and "\<And>x. EvAborted x \<in> set es \<Longrightarrow> x \<notin> ve_id ` set (db_versions d')" and "lines_calm d' [e]"
  shows "lines_calm d' (es @ [e])"
proof -
  have "(\<exists>w \<in> set (db_versions d'). v = w\<lparr>ve_hint := None\<rparr>) \<and> (\<forall>k. ve_fence v = Some k \<longrightarrow> 0 \<le> k)"
    if "EvCommitted v n st \<in> set (es @ [e])" for v n st
    using that assms(1,2,4) unfolding lines_calm_def set_append by (metis Un_iff subsetD)
  moreover have "\<exists>w \<in> set (db_versions d'). ve_id w = x \<and> ve_artifact w = a" if "EvMove a x \<in> set (es @ [e])" for a x
    using that assms(1,2,4) unfolding lines_calm_def set_append by (metis Un_iff subsetD)
  moreover have "x \<notin> ve_id ` set (db_versions d')" if "EvAborted x \<in> set (es @ [e])" for x
    using that assms(3,4) unfolding lines_calm_def by auto
  moreover have "EvPurge h \<notin> set (es @ [e])" for h using assms(1,4) unfolding lines_calm_def by simp
  ultimately show ?thesis unfolding lines_calm_def by blast
qed

lemma pointers_point:
  assumes p: "pointers_calm d es" and a: "db_artifacts d' = db_artifacts (set_current a c d)"
    and e: "\<And>b. points b e \<longleftrightarrow> b = a" "event_target e = c"
    and v: "\<And>w. w \<in> set (db_versions d') \<Longrightarrow> w \<in> set (db_versions d) \<or> ve_artifact w = a"
    and s: "\<And>v n st w. e = EvCommitted v n st \<Longrightarrow> w \<in> set (db_versions d') \<Longrightarrow> ve_artifact w = a \<Longrightarrow> ve_seq w \<le> ve_seq v"
  shows "pointers_calm d' (es @ [e])"
proof -
  have "ar_current r = (case last_point (ar_id r) (es @ [e]) of None \<Rightarrow> None | Some e \<Rightarrow> event_target e)"
    if r: "r \<in> set (db_artifacts d')" for r
  proof -
    obtain r0 where r0: "r0 \<in> set (db_artifacts d)" "r = (if ar_id r0 = a then r0\<lparr>ar_current := c\<rparr> else r0)"
      using r a by (auto simp: set_current_def in_update_where)
    show ?thesis
    proof (cases "ar_id r0 = a")
      case True
      then show ?thesis using r0 e by simp
    next
      case False
      then show ?thesis using r0 e p by (simp add: pointers_calm_def)
    qed
  qed
  moreover have "ve_seq w \<le> ve_seq x" if "last_point b (es @ [e]) = Some (EvCommitted x n st)" "w \<in> set (db_versions d')" "ve_artifact w = b"
    for b x n st w
  proof (cases "b = a")
    case True
    then show ?thesis using that s e by auto
  next
    case False
    then have "last_point b es = Some (EvCommitted x n st)" "w \<in> set (db_versions d)" using that e v by auto
    then show ?thesis using p that(3) unfolding pointers_calm_def by blast
  qed
  ultimately show ?thesis unfolding pointers_calm_def by blast
qed

lemma pointers_same:
  "pointers_calm d es \<Longrightarrow> db_artifacts d' = db_artifacts d \<Longrightarrow> db_versions d' = db_versions d \<Longrightarrow> (\<And>a. \<not> points a e) \<Longrightarrow>
   pointers_calm d' (es @ [e])"
  by (simp add: pointers_calm_def)

lemma written_add:
  assumes "written_calm d es" and "db_versions d' = db_versions d @ vs" and "set es \<subseteq> set es'"
    and "\<And>v. v \<in> set vs \<Longrightarrow> ve_sha v \<noteq> None \<Longrightarrow> \<exists>n st. EvCommitted (v\<lparr>ve_hint := None\<rparr>) n st \<in> set es'"
    and "\<And>b. b \<in> set (db_blobs d') \<Longrightarrow> bl_sha b \<in> bl_sha ` set (db_blobs d) \<or> (\<exists>v \<in> set vs. ve_sha v = Some (bl_sha b))"
  shows "written_calm d' es'"
proof -
  have "\<exists>n st. EvCommitted (w\<lparr>ve_hint := None\<rparr>) n st \<in> set es'" if "w \<in> set (db_versions d')" "ve_sha w \<noteq> None" for w
    using that assms(1-4) unfolding written_calm_def by (metis Un_iff set_append subsetD)
  moreover have "\<exists>w \<in> set (db_versions d'). ve_sha w = Some (bl_sha b)" if b: "b \<in> set (db_blobs d')" for b
  proof (rule disjE [OF assms(5) [OF b]])
    assume "bl_sha b \<in> bl_sha ` set (db_blobs d)"
    then obtain c where "c \<in> set (db_blobs d)" "bl_sha c = bl_sha b" by force
    then show ?thesis using assms(1,2) unfolding written_calm_def by (metis Un_iff set_append)
  qed (use assms(2) in auto)
  ultimately show ?thesis unfolding written_calm_def by blast
qed

lemma count_blob_shas: "b \<in> set (db_blobs (count_blob now m d)) \<Longrightarrow> bl_sha b \<in> bl_sha ` set (db_blobs d) \<or> bl_sha b = mt_sha m"
  by (auto simp: count_blob_def ref_up_def in_update_where split: if_splits)

section \<open>The moves\<close>

lemma map_state_current:
  assumes "map (ar_state_update (\<lambda>_. TVerified)) as = map (ar_state_update (\<lambda>_. TVerified)) bs" and "r \<in> set as"
  shows "\<exists>q \<in> set bs. ar_id q = ar_id r \<and> ar_current q = ar_current r"
proof -
  have "ar_state_update (\<lambda>_. TVerified) r \<in> ar_state_update (\<lambda>_. TVerified) ` set bs"
    using assms by (metis image_eqI list.set_map)
  then obtain q where q: "q \<in> set bs" "ar_state_update (\<lambda>_. TVerified) r = ar_state_update (\<lambda>_. TVerified) q" by blast
  have "ar_id q = ar_id r \<and> ar_current q = ar_current r"
    using arg_cong [OF q(2), of ar_id] arg_cong [OF q(2), of ar_current] by simp
  with q(1) show ?thesis by blast
qed

lemma calm_quiet:
  assumes q: "quiet s s'" and k: "keeps s s'" and c: "calm_ok s"
  shows "calm_ok s'"
proof -
  note f = q [unfolded quiet_def]
  have ids: "map ar_id (db_artifacts (ds_db s')) = map ar_id (db_artifacts (ds_db s))" using map_state_ids f by blast
  have "tables_ok s'" using tables_quiet [OF q] c by (simp add: calm_ok_def)
  moreover have "upload_keys s'" using k c by (simp add: keeps_def calm_ok_def)
  moreover have "pointers_calm (ds_db s') (df_journal (ds_files s'))"
    using c f map_state_current [of "db_artifacts (ds_db s')" "db_artifacts (ds_db s)"]
    unfolding calm_ok_def pointers_calm_def by metis
  ultimately show ?thesis using c f ids
    by (simp add: calm_ok_def tokens_below_def token_below_def versions_calm_def lines_calm_def written_calm_def)
qed

lemma fresh_events:
  assumes "vid \<notin> set (version_ids s)"
  shows "vid \<notin> ve_id ` set (db_versions (ds_db s))" and "EvAborted vid \<notin> set (df_journal (ds_files s))"
  using assms by (auto simp: version_ids_def)

lemma fresh_point: "a \<notin> set (artifact_ids s) \<Longrightarrow> last_point a (df_journal (ds_files s)) = None"
proof (rule ccontr)
  assume a: "a \<notin> set (artifact_ids s)" and n: "last_point a (df_journal (ds_files s)) \<noteq> None"
  then obtain e where e: "e \<in> set (df_journal (ds_files s))" "points a e" using last_point_in by blast
  have "a \<in> set (event_artifact e)" using e(2) by (cases e) simp_all
  then have "a \<in> set (concat (map event_artifact (df_journal (ds_files s))))" using e(1) by auto
  then show False using a by (simp add: artifact_ids_def)
qed

lemma calm_artifact:
  assumes "ar_id a \<notin> set (artifact_ids s)" and "ar_current a = None" and c: "calm_ok s"
  shows "calm_ok (on_db (\<lambda>d. d\<lparr>db_artifacts := db_artifacts d @ [a]\<rparr>) s)"
proof -
  have t: "tables_ok (on_db (\<lambda>d. d\<lparr>db_artifacts := db_artifacts d @ [a]\<rparr>) s)"
    using tables_move [OF mv_artifact [OF assms(1,2)]] c by (simp add: calm_ok_def)
  have "ar_id a \<notin> ar_id ` set (db_artifacts (ds_db s))" using assms(1) by (simp add: artifact_ids_def)
  then show ?thesis using t c fresh_point [OF assms(1)] assms(2)
    by (auto simp: calm_ok_def tokens_below_def token_below_def versions_calm_def lines_calm_def pointers_calm_def written_calm_def upload_keys_def)
qed

lemma calm_parts:
  assumes "calm_ok s"
  shows "tables_ok s" "tokens_below (ds_db s)" "upload_keys s" "versions_calm (ds_db s)" "lines_calm (ds_db s) (df_journal (ds_files s))"
    "pointers_calm (ds_db s) (df_journal (ds_files s))" "written_calm (ds_db s) (df_journal (ds_files s))"
  using assms by (simp_all add: calm_ok_def)

lemma calm_aborted:
  assumes "find_version vid (ds_db s) = None" and c: "calm_ok s"
  shows "calm_ok (journal (EvAborted vid) s)"
proof -
  let ?s = "journal (EvAborted vid) s"
  note p = calm_parts [OF c]
  have j: "df_journal (ds_files ?s) = df_journal (ds_files s) @ [EvAborted vid]" "ds_db ?s = ds_db s" by (simp_all add: journal_def)
  have t: "tables_ok ?s" using tables_move [OF mv_aborted [OF assms(1)]] p(1) by simp
  have l: "lines_calm (ds_db s) (df_journal (ds_files s) @ [EvAborted vid])"
    by (rule lines_add [OF p(5)]) (use p(5) assms(1) in \<open>auto simp: lines_calm_def find_version_None\<close>)
  have q: "pointers_calm (ds_db s) (df_journal (ds_files s) @ [EvAborted vid])" by (rule pointers_same [OF p(6)]) simp_all
  have w: "written_calm (ds_db s) (df_journal (ds_files s) @ [EvAborted vid])"
    by (rule written_add [OF p(7), of _ "[]"]) auto
  have u: "upload_keys ?s" using p(3) by (simp add: upload_keys_def j)
  show ?thesis unfolding calm_ok_def j using t u p(2,4) l q w by blast
qed

lemma calm_restore:
  assumes a: "find_artifact aid (ds_db s) = Some a"
    and v: "List.find (\<lambda>r. ve_id r = vid \<and> ve_artifact r = aid) (db_versions (ds_db s)) = Some v" "\<not> ve_marker v" and c: "calm_ok s"
  shows "calm_ok (journal (EvMove aid vid) (on_db (set_current aid (Some vid)) s))"
proof -
  let ?s = "journal (EvMove aid vid) (on_db (set_current aid (Some vid)) s)" and ?d = "set_current aid (Some vid) (ds_db s)"
  note p = calm_parts [OF c]
  have j: "df_journal (ds_files ?s) = df_journal (ds_files s) @ [EvMove aid vid]" "ds_db ?s = ?d" by (simp_all add: journal_def)
  have v': "v \<in> set (db_versions (ds_db s))" "ve_id v = vid" "ve_artifact v = aid"
    using v(1) by (auto simp: find_Some_iff)
  have t: "tables_ok ?s" using tables_move [OF mv_restore [OF a v]] p(1) .
  have l: "lines_calm ?d (df_journal (ds_files s) @ [EvMove aid vid])"
    by (rule lines_add [OF p(5)]) (use p(5) v' in \<open>auto simp: lines_calm_def\<close>)
  have q: "pointers_calm ?d (df_journal (ds_files s) @ [EvMove aid vid])"
    by (rule pointers_point [OF p(6), of _ aid "Some vid"]) auto
  have w: "written_calm ?d (df_journal (ds_files s) @ [EvMove aid vid])"
    by (rule written_add [OF p(7), of _ "[]"]) auto
  have u: "upload_keys ?s" using p(3) by (simp add: upload_keys_def j)
  have f: "tokens_below ?d" using p(2) by (simp add: tokens_below_def token_below_def)
  have vc: "versions_calm ?d" using p(4) by (simp add: versions_calm_def)
  show ?thesis unfolding calm_ok_def j using t u f vc l q w by blast
qed

text \<open>The moves that add a version.\<close>

lemma calm_new_version:
  assumes c: "calm_ok s" and t: "tables_ok s'" "tokens_below (ds_db s')" "upload_keys s'"
    and j: "df_journal (ds_files s') = df_journal (ds_files s) @ [e]"
    and vs: "db_versions (ds_db s') = db_versions (ds_db s) @ [v]" "\<not> list_ex (version_clash v) (db_versions (ds_db s))"
    and ar: "db_artifacts (ds_db s') = db_artifacts (set_current a (event_target e) (ds_db s))"
    and v: "ve_id v \<notin> set (version_ids s)" "ve_id v \<noteq> []" "ve_artifact v = a" "ve_seq v = max_seq a (ds_db s) + 1"
    and e: "\<And>b. points b e \<longleftrightarrow> b = a" "lines_calm (ds_db s') [e]" "\<And>x n st. e = EvCommitted x n st \<Longrightarrow> ve_seq x = ve_seq v"
    and wr: "ve_sha v \<noteq> None \<Longrightarrow> \<exists>n st. e = EvCommitted (v\<lparr>ve_hint := None\<rparr>) n st"
    and bl: "\<And>b. b \<in> set (db_blobs (ds_db s')) \<Longrightarrow> bl_sha b \<in> bl_sha ` set (db_blobs (ds_db s)) \<or> ve_sha v = Some (bl_sha b)"
  shows "calm_ok s'"
proof -
  let ?es = "df_journal (ds_files s)"
  note p = calm_parts [OF c]
  have ids: "map ar_id (db_artifacts (ds_db s')) = map ar_id (db_artifacts (ds_db s))" by (simp add: ar)
  have "versions_calm (ds_db s')" by (rule versions_add [OF p(4) vs(1) ids v(2) vs(2)])
  moreover have "lines_calm (ds_db s') (?es @ [e])"
  proof (rule lines_add [OF p(5) _ _ e(2)])
    show "x \<notin> ve_id ` set (db_versions (ds_db s'))" if "EvAborted x \<in> set ?es" for x
    proof -
      have "x \<in> set (version_ids s)" using that by (force simp: version_ids_def)
      then have "x \<noteq> ve_id v" using v(1) by blast
      moreover have "x \<notin> ve_id ` set (db_versions (ds_db s))" using p(5) that by (simp add: lines_calm_def)
      ultimately show ?thesis by (simp add: vs(1))
    qed
  qed (simp add: vs(1) subset_iff)
  moreover have "pointers_calm (ds_db s') (?es @ [e])"
  proof (rule pointers_point [OF p(6) ar e(1) refl])
    show "w \<in> set (db_versions (ds_db s)) \<or> ve_artifact w = a" if "w \<in> set (db_versions (ds_db s'))" for w
      using that v(3) by (auto simp: vs(1))
    show "ve_seq w \<le> ve_seq x" if "e = EvCommitted x n st" "w \<in> set (db_versions (ds_db s'))" "ve_artifact w = a" for x n st w
      using that e(3) v(4) max_seq_ge [of w "ds_db s" a] by (fastforce simp: vs(1))
  qed
  moreover have "written_calm (ds_db s') (?es @ [e])"
  proof (rule written_add [OF p(7) vs(1)])
    show "\<exists>n st. EvCommitted (x\<lparr>ve_hint := None\<rparr>) n st \<in> set (?es @ [e])" if "x \<in> set [v]" "ve_sha x \<noteq> None" for x
      using that wr by auto
  qed (use bl in auto)
  ultimately show ?thesis unfolding calm_ok_def j using t by blast
qed

lemma calm_marker:
  assumes m: "find_artifact (ar_id a) (ds_db s) = Some a" "vid \<notin> set (version_ids s)" "vid \<noteq> []"
    "insert_version (marker_row now p vid a (max_seq (ar_id a) (ds_db s) + 1)) (ds_db s) = Inr d" and c: "calm_ok s"
  shows "calm_ok (journal (EvDelete vid (ar_id a)) (s\<lparr>ds_db := set_current (ar_id a) None d\<rparr>))"
proof -
  let ?s = "journal (EvDelete vid (ar_id a)) (s\<lparr>ds_db := set_current (ar_id a) None d\<rparr>)"
  let ?v = "marker_row now p vid a (max_seq (ar_id a) (ds_db s) + 1)"
  note mv = mv_marker [OF m] and i = m(4) [unfolded insert_version_ok]
  have t: "tables_ok ?s" "tokens_below (ds_db ?s)" using tables_move [OF mv] fences_move [OF mv] calm_parts(1,2) [OF c] by simp_all
  have u: "upload_keys ?s" using calm_parts(3) [OF c] i by (simp add: upload_keys_def journal_def)
  show ?thesis
    by (rule calm_new_version [OF c t u, where v = ?v and a = "ar_id a" and e = "EvDelete vid (ar_id a)"])
      (use i m in \<open>auto simp: journal_def marker_row_def lines_calm_def set_current_def\<close>)
qed

lemma calm_commit:
  assumes m: "commit_tables now p vid u m (ds_db s) = Inr d"
    "materialize (up_id u) (mt_sha m) (ds_files (journal (committed_event (new_version now p vid u m
      (max_seq (up_artifact u) (ds_db s) + 1)) u (ds_db s)) s)) = Inr f"
    "get_upload (up_id u) s = Some u" "up_state u = UPending" "vid \<notin> set (version_ids s)" "vid \<noteq> []" "mt_sha m \<noteq> []"
    and c: "calm_ok s"
  shows "calm_ok \<lparr>ds_db = d, ds_files = f\<rparr>"
proof -
  let ?s = "\<lparr>ds_db = d, ds_files = f\<rparr>" and ?v = "new_version now p vid u m (max_seq (up_artifact u) (ds_db s) + 1)"
  note mv = mv_commit [OF m]
  obtain d1 where e: "enforce_fencing (up_ticket u) (up_fence u) (ds_db s) = Inr d1"
    and cl: "\<not> list_ex (version_clash ?v) (db_versions (ds_db s))" "version_refs ?v (count_blob now m d1)"
    and d: "d = upd_upload (up_id u) (\<lambda>r. r\<lparr>up_state := UCommitted, up_result := Some vid, up_active := now\<rparr>)
       (set_current (up_artifact u) (Some vid) ((count_blob now m d1)\<lparr>db_versions := db_versions (ds_db s) @ [?v]\<rparr>))"
    using commit_tables_ok [OF m(1)] by metis
  have t: "tables_ok ?s" "tokens_below (ds_db ?s)" using tables_move [OF mv] fences_move [OF mv] calm_parts(1,2) [OF c] by simp_all
  have u: "upload_keys ?s" using dmove_keeps [OF mv] calm_parts(3) [OF c] by (simp add: keeps_def)
  have "u \<in> set (db_uploads (ds_db s))" using m(3) row_of_in by (simp add: get_upload_def)
  then have tk: "\<forall>n. up_fence u = Some n \<longrightarrow> 0 \<le> n" using calm_parts(3) [OF c] by (simp add: upload_keys_def token_ok_def)
  have j: "df_journal f = df_journal (ds_files s) @ [committed_event ?v u (ds_db s)]"
    using materialize_fields(1) [OF m(2)] by (simp add: journal_def)
  have ar: "db_artifacts d = db_artifacts (set_current (up_artifact u) (Some vid) (ds_db s))"
    by (simp add: d set_current_def enforce_fields [OF e])
  have bl: "bl_sha b \<in> bl_sha ` set (db_blobs (ds_db s)) \<or> ve_sha ?v = Some (bl_sha b)" if "b \<in> set (db_blobs d)" for b
    using that count_blob_shas [of b now m d1] enforce_fields(1) [OF e] by (auto simp: d new_version_def)
  show ?thesis
  proof (rule calm_new_version [OF c t u, where v = ?v and a = "up_artifact u" and e = "committed_event ?v u (ds_db s)"])
    show "lines_calm (ds_db ?s) [committed_event ?v u (ds_db s)]"
      using tk by (auto simp: lines_calm_def committed_event_def new_version_def d)
  qed (use cl(1) j ar bl m(5,6) in \<open>auto simp: d committed_event_def new_version_def\<close>)
qed

definition calm_kinds :: "mv set" where
  "calm_kinds = UNIV - {MvTorn, MvChain, MvPurge}"

lemma calm_move: "dmove m s s' \<Longrightarrow> m \<in> calm_kinds \<Longrightarrow> calm_ok s \<Longrightarrow> calm_ok s'"
proof (induction rule: dmove.induct)
  case (mv_replay s s')
  then show ?case using boot_same [OF mv_replay.prems(2)] by simp
qed (use calm_quiet calm_artifact calm_commit calm_aborted calm_marker calm_restore in \<open>(blast | simp add: calm_kinds_def)+\<close>)

lemma calm_init: "calm_ok empty_dstore"
  using tables_init
  by (simp add: calm_ok_def tokens_below_def upload_keys_def versions_calm_def lines_calm_def pointers_calm_def written_calm_def
      empty_dstore_def empty_ddb_def empty_dfiles_def)

interpretation calm: drive_law calm_ok calm_kinds
  by unfold_locales (blast intro: calm_init calm_move)+

text \<open>Actions that neither collect nor cut a commit.\<close>

fun calm_act :: "dact \<Rightarrow> bool" where
  "calm_act (ActHttp _ _ (DcPurge _)) = False"
| "calm_act (ActCut _ _ _) = False"
| "calm_act _ = True"

lemma calm_act_moves: "calm_act a \<Longrightarrow> act_moves a \<subseteq> calm_kinds"
  by (induction a rule: calm_act.induct) (auto simp: calm_kinds_def)

section \<open>Broken calm\<close>

text \<open>
  What the law of the journal costs when it is broken: after a collection that purged a blob the service does
  not boot, and a commit that is cut before the rename leaves, after the boot, a version without its bytes
  and an upload that can never be committed.
\<close>

section \<open>Replaying over an older store\<close>

definition alike :: "version_row \<Rightarrow> version_row \<Rightarrow> bool" where
  "alike x w = (x\<lparr>ve_hint := None\<rparr> = w\<lparr>ve_hint := None\<rparr>)"

lemma alike_fields: "alike x w \<Longrightarrow> ve_id x = ve_id w \<and> ve_sha x = ve_sha w \<and> version_clash v x = version_clash v w"
proof -
  assume a: "alike x w"
  have "ve_id x = ve_id w" "ve_sha x = ve_sha w" "ve_artifact x = ve_artifact w" "ve_seq x = ve_seq w" "ve_by x = ve_by w" "ve_op x = ve_op w"
    using arg_cong [OF a [unfolded alike_def], of ve_id] arg_cong [OF a [unfolded alike_def], of ve_sha]
      arg_cong [OF a [unfolded alike_def], of ve_artifact] arg_cong [OF a [unfolded alike_def], of ve_seq]
      arg_cong [OF a [unfolded alike_def], of ve_by] arg_cong [OF a [unfolded alike_def], of ve_op] by simp_all
  then show ?thesis by (simp add: version_clash_def)
qed

definition drawn :: "ddb \<Rightarrow> ddb \<Rightarrow> bool" where
  "drawn d0 d = (\<forall>x \<in> set (db_versions d). \<exists>w \<in> set (db_versions d0). alike x w)"

lemma same_id: "keys_ok d \<Longrightarrow> v \<in> set (db_versions d) \<Longrightarrow> w \<in> set (db_versions d) \<Longrightarrow> ve_id v = ve_id w \<Longrightarrow> v = w"
  unfolding keys_ok_def by (metis distinct_map inj_onD)

text \<open>A line of the calm journal over tables drawn from the calm ones: nothing is lost, and a committed line
  leaves its version in the table.\<close>

lemma drawn_apply:
  assumes a: "apply_event e d = Inr d'" and dr: "drawn d0 d" and k: "keys_ok d0" and c: "versions_calm d0" and l: "lines_calm d0 [e]"
  shows "drawn d0 d' \<and> set (db_versions d) \<subseteq> set (db_versions d') \<and>
    (\<forall>v n st. e = EvCommitted v n st \<longrightarrow> (\<exists>x \<in> set (db_versions d'). alike x v))"
proof (cases e)
  case (EvCommitted v n st)
  obtain w where w: "w \<in> set (db_versions d0)" "v = w\<lparr>ve_hint := None\<rparr>" using l EvCommitted by (auto simp: lines_calm_def)
  obtain d1 where d1: "replay_version v (replay_blob v (replay_artifact v n st d)) = Inr d1" "db_versions d' = db_versions d1"
    using apply_committed [OF a [unfolded EvCommitted]] by metis
  show ?thesis
  proof (cases "list_ex (version_clash v) (db_versions d)")
    case True
    then obtain x where x: "x \<in> set (db_versions d)" "version_clash v x" by (auto simp: list_ex_iff)
    then obtain w0 where w0: "w0 \<in> set (db_versions d0)" "alike x w0" using dr by (auto simp: drawn_def)
    have "version_clash v w0" using alike_fields [OF w0(2)] x(2) by simp
    then have "version_clash w w0" using w(2) by (simp add: version_clash_def)
    then have "w = w0" using c w(1) w0(1) same_id [OF k] unfolding versions_calm_def by blast
    then have "alike x v" using w0 w(2) by (simp add: alike_def)
    moreover have "db_versions d' = db_versions d" using True d1(2) replay_version_ok [OF d1(1)] by auto
    ultimately show ?thesis using dr x(1) EvCommitted by (auto simp: drawn_def)
  next
    case False
    then have "db_versions d' = db_versions d @ [v]" using d1 by (auto simp: replay_version_def split: if_splits)
    moreover have "alike v w" using w(2) by (simp add: alike_def)
    ultimately show ?thesis using dr w(1) EvCommitted by (auto simp: drawn_def alike_def)
  qed
next
  case (EvAborted x)
  have "ve_id y \<noteq> x" if "y \<in> set (db_versions d)" for y
    using that dr l EvAborted alike_fields by (fastforce simp: drawn_def lines_calm_def)
  then have "filter (\<lambda>r. ve_id r \<noteq> x) (db_versions d) = db_versions d" by (intro filter_True) blast
  then show ?thesis using a dr EvAborted by (auto simp: drawn_def)
next
  case (EvPurge h)
  then show ?thesis using l by (simp add: lines_calm_def)
qed (use a dr in \<open>auto simp: drawn_def\<close>)

lemma drawn_replay:
  "replay_journal es d = Inr d' \<Longrightarrow> drawn d0 d \<Longrightarrow> keys_ok d0 \<Longrightarrow> versions_calm d0 \<Longrightarrow> lines_calm d0 es \<Longrightarrow>
   set (db_versions d) \<subseteq> set (db_versions d') \<and>
   (\<forall>v n st. EvCommitted v n st \<in> set es \<longrightarrow> (\<exists>x \<in> set (db_versions d'). alike x v))"
proof (induction es arbitrary: d)
  case (Cons e es)
  then obtain d1 where d1: "apply_event e d = Inr d1" "replay_journal es d1 = Inr d'" by (auto simp: and_then_def split: sum.splits)
  have "lines_calm d0 [e]" "lines_calm d0 es" using Cons.prems(5) by (auto simp: lines_calm_def)
  then show ?case
    using drawn_apply [OF d1(1) Cons.prems(2-4)] Cons.IH [OF d1(2)] Cons.prems(3,4) by fastforce
qed simp

lemma apply_error: "apply_event e d = Inl x \<Longrightarrow> x = DSqlite"
  by (cases e) (auto simp: and_then_def replay_version_def split: sum.splits if_splits)

lemma replay_error: "replay_journal es d = Inl x \<Longrightarrow> x = DSqlite"
  by (induction es arbitrary: d) (auto simp: and_then_def apply_error split: sum.splits)

lemma replay_append:
  "replay_journal (es @ fs) d = and_then (replay_journal es d) (replay_journal fs)"
  by (induction es arbitrary: d) (auto simp: and_then_def split: sum.split)

section \<open>A collection\<close>

lemma chains_versions:
  "refs_ok d \<Longrightarrow> refs_ok (foldl purge_chain d as) \<and> set (db_versions (foldl purge_chain d as)) \<subseteq> set (db_versions d) \<and>
   bl_sha ` set (db_blobs (foldl purge_chain d as)) \<subseteq> bl_sha ` set (db_blobs d)"
proof (induction as arbitrary: d)
  case (Cons a as)
  have b: "bl_sha ` set (db_blobs (foldl drop_version d vs)) = bl_sha ` set (db_blobs d)" for vs d
  proof (induction vs arbitrary: d)
    case (Cons v vs)
    have "map bl_sha (db_blobs (drop_version d v)) = map bl_sha (db_blobs d)"
      by (simp add: drop_version_def Let_def ref_down_def map_key_update_where split: option.split)
    then have "bl_sha ` set (db_blobs (drop_version d v)) = bl_sha ` set (db_blobs d)" by (metis list.set_map)
    then show ?case using Cons by simp
  qed simp
  have "bl_sha ` set (db_blobs (purge_chain d a)) = bl_sha ` set (db_blobs d)" by (simp add: purge_chain_def Let_def b)
  then show ?case using Cons.IH [of "purge_chain d a"] purge_chain_versions [OF Cons.prems, of a] by auto
qed simp

lemma purge_blobs_ok:
  "purge_blobs bs s = (None, s') \<Longrightarrow>
   df_journal (ds_files s') = df_journal (ds_files s) @ map (\<lambda>b. EvPurge (bl_sha b)) bs \<and> db_versions (ds_db s') = db_versions (ds_db s)"
proof (induction bs arbitrary: s)
  case (Cons b bs)
  then obtain s1 where "purge_blob b s = Inr s1" "purge_blobs bs s1 = (None, s')" by (auto split: sum.splits)
  then show ?case using Cons.IH [of s1] purge_blob_ok by fastforce
qed simp

lemma gc_phase2_ok:
  assumes "gc_phase2 now p s = (Inr (n, ch, by), s')" and "0 < n"
  obtains bs where "bs \<noteq> []" "set bs \<subseteq> set (db_blobs (foldl purge_chain (ds_db s) (deleted_chains (ds_db s))))"
    "df_journal (ds_files s') = df_journal (ds_files s) @ map (\<lambda>b. EvPurge (bl_sha b)) bs"
    "db_versions (ds_db s') = db_versions (foldl purge_chain (ds_db s) (deleted_chains (ds_db s)))"
proof -
  let ?s1 = "on_db (\<lambda>d. foldl purge_chain d (deleted_chains (ds_db s))) s"
  let ?bs = "refless (ds_db ?s1)"
  obtain x s2 where x: "purge_blobs ?bs ?s1 = (x, s2)" by fastforce
  have g: "\<not> backup_in_progress (ds_db s)" using assms by (auto simp: gc_phase2_def)
  have x0: "x = None" "n = length ?bs" using assms(1) g x by (auto simp: gc_phase2_def Let_def split: option.splits)
  have s': "db_versions (ds_db s') = db_versions (ds_db s2)" "df_journal (ds_files s') = df_journal (ds_files s2)"
    using assms(1) g x x0 by (auto simp: gc_phase2_def Let_def purge_quarantine_def)
  show ?thesis
    by (rule that [of ?bs])
      (use assms(2) x0 s' purge_blobs_ok [OF x [unfolded x0(1)]] in \<open>auto simp: refless_def\<close>)
qed

lemma purged_boot:
  assumes c: "calm_ok s" and g: "gc_phase2 now p s = (Inr (n, ch, by), s')" and n: "0 < n"
  shows "drive_boot s' = Inl DSqlite"
proof -
  let ?a = "ds_db s" and ?d = "ds_db s'" and ?es = "df_journal (ds_files s)"
  note q = calm_parts [OF c]
  have k0: "refs_ok ?a" using q(1) by (simp add: tables_ok_def)
  obtain bs where bs: "bs \<noteq> []" "set bs \<subseteq> set (db_blobs (foldl purge_chain ?a (deleted_chains ?a)))"
    "df_journal (ds_files s') = ?es @ map (\<lambda>b. EvPurge (bl_sha b)) bs"
    "db_versions ?d = db_versions (foldl purge_chain ?a (deleted_chains ?a))"
    using gc_phase2_ok [OF g n] .
  have "store_moves UNIV s s'" using gc_moves [of UNIV s now p] g by simp
  then have "tables_ok s'" by (rule tables.law_moves) (simp_all add: q(1))
  then have k: "keys_ok ?d" "homes_ok ?d" "lines_ok ?es" by (auto simp: tables_ok_def refs_ok_def bs(3) lines_append)
  have dr: "drawn ?a ?d" using chains_versions [OF k0] bs(4) by (auto simp: drawn_def alike_def)
  let ?h = "bl_sha (hd bs)"
  have "?h \<in> bl_sha ` set (db_blobs ?a)" using chains_versions [OF k0] bs(1,2) by (meson hd_in_set imageI subsetD)
  then obtain w n st where w: "ve_sha w = Some ?h" "EvCommitted (w\<lparr>ve_hint := None\<rparr>) n st \<in> set ?es"
    using q(7) unfolding written_calm_def by fastforce
  have step: "apply_event (EvPurge ?h) d2 = Inl DSqlite" if d2: "replay_journal ?es ?d = Inr d2" for d2
  proof -
    have k0': "keys_ok ?a" using k0 by (simp add: refs_ok_def)
    obtain x where x: "x \<in> set (db_versions d2)" "alike x (w\<lparr>ve_hint := None\<rparr>)"
      using drawn_replay [OF d2 dr k0' q(4,5)] w(2) by blast
    have sx: "ve_sha x = Some ?h" using alike_fields [OF x(2)] w(1) by simp
    moreover have "keys_ok d2" using keys_replay [OF d2 k] by simp
    ultimately have "find_blob ?h d2 \<noteq> None" using x(1) by (auto simp: keys_ok_def find_blob_None)
    then show ?thesis using x(1) sx by (auto simp: list_ex_iff)
  qed
  have "replay_journal (df_journal (ds_files s')) ?d = Inl DSqlite"
  proof (cases "replay_journal ?es ?d")
    case (Inl e)
    then show ?thesis using replay_error [OF Inl] by (simp add: bs(3) replay_append and_then_def)
  next
    case (Inr d2)
    obtain b bs' where "bs = b # bs'" using bs(1) by (cases bs) auto
    then show ?thesis using Inr step [OF Inr] by (simp add: bs(3) replay_append and_then_def)
  qed
  then show ?thesis by (simp add: drive_boot_def rebuild_index_def and_then_def)
qed

section \<open>A cut commit\<close>

lemma find_version_snoc: "v \<notin> ve_id ` set vs \<Longrightarrow> row_of ve_id v (vs @ [x]) = (if ve_id x = v then Some x else None)"
  using row_of_None [of ve_id v vs] by (simp add: row_of_append)

lemma current_below:
  assumes c: "calm_ok s" and v: "db_versions d = db_versions (ds_db s) @ [v]" "db_artifacts d = db_artifacts (ds_db s)"
  shows "current_seq a d < int (max_seq a (ds_db s) + 1)"
proof (cases "find_artifact a (ds_db s)")
  case None
  then show ?thesis using v(2) by (simp add: current_seq_def find_artifact_def)
next
  case (Some r)
  note q = calm_parts [OF c]
  have r: "r \<in> set (db_artifacts (ds_db s))" "ar_id r = a" using Some row_of_SomeD unfolding find_artifact_def by fast+
  have f: "find_artifact a d = Some r" using Some v(2) by (simp add: find_artifact_def)
  show ?thesis
  proof (cases "ar_current r")
    case (Some x)
    then obtain w where w: "w \<in> set (db_versions (ds_db s))" "ve_artifact w = a" "ve_id w = x"
      using pointers_valid [OF q(6,5) r(1)] r(2) by (auto simp: pointer_valid_def)
    have "find_version x (ds_db s) = Some w" using find_version_in [OF _ w(1)] q(1) w(3) by (simp add: tables_ok_def refs_ok_def)
    then have "find_version x d = Some w" using v(1) by (simp add: find_version_def row_of_append)
    then show ?thesis using f Some max_seq_ge [OF w(1,2)] by (simp add: current_seq_def)
  qed (use f in \<open>simp add: current_seq_def\<close>)
qed

lemma replay_torn:
  assumes c: "calm_ok s" and cl: "\<not> list_ex (version_clash v) (db_versions (ds_db s))" and h: "ve_sha v = Some h" "find_blob h (ds_db s) = None"
    and a: "find_artifact (ve_artifact v) (ds_db s) = Some a" and k: "ve_seq v = max_seq (ve_artifact v) (ds_db s) + 1"
  shows "\<exists>d. drive_boot (journal (EvCommitted v n st) s) = Inr (s\<lparr>ds_db := d, ds_files := ds_files (journal (EvCommitted v n st) s)\<rparr>) \<and>
    db_versions d = db_versions (ds_db s) @ [v] \<and> find_artifact (ve_artifact v) d = Some (a\<lparr>ar_current := Some (ve_id v)\<rparr>) \<and>
    db_uploads d = db_uploads (ds_db s)"
proof -
  let ?d = "ds_db s"
  have ra: "replay_artifact v n st ?d = ?d"
  proof -
    have "a \<in> set (db_artifacts ?d)" "ar_id a = ve_artifact v" using a row_of_SomeD unfolding find_artifact_def by fast+
    then have "list_ex (\<lambda>r. ar_id r = ve_artifact v \<or> (ar_ticket r = ve_ticket v \<and> ar_name r = n)) (db_artifacts ?d)"
      by (auto simp: list_ex_iff)
    then show ?thesis by (simp add: replay_artifact_def)
  qed
  let ?b = "?d\<lparr>db_blobs := db_blobs ?d @ [\<lparr>bl_sha = h, bl_size = ve_size v, bl_refs = 0, bl_created = ve_created v\<rparr>]\<rparr>"
  have rb: "replay_blob v ?d = ?b" using h by (simp add: replay_blob_def)
  have "find_blob h ?b = Some \<lparr>bl_sha = h, bl_size = ve_size v, bl_refs = 0, bl_created = ve_created v\<rparr>"
    using h(2) by (simp add: find_blob_def row_of_append)
  moreover have "find_artifact (ve_artifact v) ?b = Some a" using a by (simp add: find_artifact_def)
  ultimately have "version_refs v ?b" using h(1) by (simp add: version_refs_def)
  then have rv: "replay_version v ?b = Inr (?b\<lparr>db_versions := db_versions ?d @ [v]\<rparr>)" using cl by (simp add: replay_version_def)
  let ?v = "?b\<lparr>db_versions := db_versions ?d @ [v]\<rparr>"
  have cs: "current_seq (ve_artifact v) ?v < int (ve_seq v)"
    using current_below [OF c, of ?v v "ve_artifact v"] k by simp
  let ?e = "raise_fence (ve_ticket v) (ve_fence v) (set_current (ve_artifact v) (Some (ve_id v)) ?v)"
  have ap: "apply_event (EvCommitted v n st) ?d = Inr ?e" using ra rb rv cs by (simp add: and_then_def)
  have fa: "find_artifact (ve_artifact v) (recount ?e) = Some (a\<lparr>ar_current := Some (ve_id v)\<rparr>)"
    using a by (simp add: find_artifact_def recount_def set_current_def row_of_update_key)
  have "replay_journal (df_journal (ds_files s) @ [EvCommitted v n st]) ?d = Inr ?e"
    unfolding replay_append using replay_idem [OF c] ap by (simp add: and_then_def)
  then have "drive_boot (journal (EvCommitted v n st) s) =
      Inr (s\<lparr>ds_db := recount ?e, ds_files := ds_files (journal (EvCommitted v n st) s)\<rparr>)"
    by (simp add: drive_boot_def rebuild_index_def and_then_def journal_def)
  moreover have "db_versions (recount ?e) = db_versions ?d @ [v]" by (simp add: recount_def)
  moreover have "db_uploads (recount ?e) = db_uploads ?d"
    by (simp add: recount_def raise_fence_def split: option.split)
  ultimately show ?thesis using fa by blast
qed

lemma cut_loses:
  assumes c: "calm_ok s" and cn: "commits_now en t s" and u: "get_upload (pt_upload t) s = Some u"
    and co: "commit_upload (dn_cfg en) (dw_now w) (pt_who t) (dw_vid w) (pt_upload t) (put_content (dn_sha en) t s) s = (Inr r, s')"
    and fr: "fresh_ids w s" and sha: "dn_sha en (pt_bytes t) \<noteq> []"
    and new: "find_blob (dn_sha en (pt_bytes t)) (ds_db s) = None" "df_cas (ds_files s) (dn_sha en (pt_bytes t)) = None"
  shows "\<exists>s2 x. drive_boot (cut_commit en w False t s) = Inr s2 \<and> resolve_content (cr_artifact r) None s2 = Inr x \<and>
    ct_version x = cr_version r \<and> df_cas (ds_files s2) (ct_sha x) = None \<and>
    (\<forall>cfg now p vid m. \<exists>e. fst (commit_upload cfg now p vid (pt_upload t) m s2) = Inl e)"
proof -
  let ?m = "put_content (dn_sha en) t s" and ?a = "up_artifact u"
  let ?v = "new_version (dw_now w) (pt_who t) (dw_vid w) u ?m (max_seq ?a (ds_db s) + 1)"
  have st: "up_state u = UPending" "up_by u = dp_sub (pt_who t)" using cn u by (simp_all add: commits_now_def not_owner_def)
  have vid: "dw_vid w \<noteq> []" "dw_vid w \<notin> ve_id ` set (db_versions (ds_db s))" using fr by (auto simp: fresh_ids_def version_ids_def)
  have hm: "mt_sha ?m = dn_sha en (pt_bytes t)" by (simp add: put_content_def)
  obtain d f where d: "commit_tables (dw_now w) (pt_who t) (dw_vid w) u ?m (ds_db s) = Inr d" and r: "r = result_of ?v"
    and mt: "materialize (pt_upload t) (mt_sha ?m) (ds_files (journal (committed_event ?v u d) s)) = Inr f"
    using commit_answer [OF co u st(1)] by metis
  obtain d1 where e: "enforce_fencing (up_ticket u) (up_fence u) (ds_db s) = Inr d1"
    and cl: "\<not> list_ex (version_clash ?v) (db_versions (ds_db s))" "version_refs ?v (count_blob (dw_now w) ?m d1)"
    using commit_tables_ok [OF d] by metis
  have "find_artifact ?a (ds_db s) \<noteq> None"
    using cl(2) enforce_fields(3) [OF e] by (simp add: version_refs_def new_version_def find_artifact_def)
  then obtain a where a: "find_artifact ?a (ds_db s) = Some a" by blast
  let ?x = "?v\<lparr>ve_hint := None\<rparr>" and ?n = "up_name u" and ?st = "registered_state (up_ticket u) d"
  have cut: "cut_commit en w False t s = journal (EvCommitted ?x ?n ?st) s"
    using u d mt get_upload_id [OF u] by (simp add: cut_commit_def Let_def committed_event_def)
  have x: "ve_artifact ?x = ?a" "ve_seq ?x = max_seq ?a (ds_db s) + 1" "ve_sha ?x = Some (dn_sha en (pt_bytes t))" "ve_id ?x = dw_vid w"
    "ve_by ?x = dp_sub (pt_who t)" "ve_op ?x = up_op u" "\<not> ve_marker ?x"
    by (simp_all add: new_version_def hm)
  have "version_clash ?x = version_clash ?v" by (intro ext) (simp add: version_clash_def)
  then have cx: "\<not> list_ex (version_clash ?x) (db_versions (ds_db s))" using cl(1) by simp
  obtain d2 where d2: "drive_boot (journal (EvCommitted ?x ?n ?st) s) = Inr (s\<lparr>ds_db := d2, ds_files := ds_files (journal (EvCommitted ?x ?n ?st) s)\<rparr>)"
    "db_versions d2 = db_versions (ds_db s) @ [?x]" "find_artifact ?a d2 = Some (a\<lparr>ar_current := Some (dw_vid w)\<rparr>)"
    "db_uploads d2 = db_uploads (ds_db s)"
    using replay_torn [OF c cx x(3) new(1), of a ?n ?st] a x by auto
  let ?s2 = "s\<lparr>ds_db := d2, ds_files := ds_files (journal (EvCommitted ?x ?n ?st) s)\<rparr>"
  have fv: "find_version (dw_vid w) d2 = Some ?x" using d2(2) vid x(4) by (simp add: find_version_def find_version_snoc)
  have "cr_artifact r = ?a" "cr_version r = dw_vid w" by (simp_all add: r result_of_def new_version_def)
  moreover have "resolve_content ?a None ?s2 = content_of False ?x"
    using d2(3) fv vid(1) by (simp add: resolve_content_def need_def throw_if_def)
  moreover have "content_of False ?x = Inr \<lparr>ct_sha = dn_sha en (pt_bytes t), ct_mime = ve_mime ?x, ct_size = ve_size ?x,
      ct_name = ve_name ?x, ct_version = dw_vid w, ct_immutable = False\<rparr>"
    using x sha by (simp add: content_of_def)
  moreover have "df_cas (ds_files ?s2) = df_cas (ds_files s)" by (simp add: journal_def)
  moreover have "\<exists>e. fst (commit_upload cfg now p vid (pt_upload t) m ?s2) = Inl e" for cfg now p vid m
  proof -
    have g: "get_upload (pt_upload t) ?s2 = Some u" using u d2(4) by (simp add: get_upload_def)
    have "\<exists>e. commit_tables now p vid u m d2 = Inl e" if "up_by u = dp_sub p"
    proof -
      have "?x \<in> set (db_versions d2)" by (simp add: d2(2))
      moreover have "version_clash (new_version now p vid u m k) ?x" for k
        using that st(2) by (simp add: version_clash_def new_version_def)
      ultimately have "list_ex (version_clash (new_version now p vid u m k)) (db_versions d2)" for k
        by (auto simp: list_ex_iff)
      then show ?thesis
        using enforce_fields(2) [of "up_ticket u" "up_fence u" d2]
        by (cases "enforce_fencing (up_ticket u) (up_fence u) d2") (simp_all add: commit_tables_def and_then_def insert_version_def)
    qed
    then show ?thesis using g st(1)
      by (cases "up_by u = dp_sub p")
        (auto simp: commit_upload_def commit_txn_def owner_denied_def not_owner_def)
  qed
  ultimately show ?thesis using cut d2(1) new(2) by simp
qed

end
