(* ===== verification/DriveDemo.thy ===== *)
theory DriveDemo
  imports DriveCalm
begin

text \<open>
  A small run of Drive, for the witnesses: an agent registers an artifact and uploads two bytes, the operator marks
  it as deleted. The hash of the run puts a letter before the bytes.
\<close>

definition dd_config :: dconfig where
  "dd_config = \<lparr>dc_max_bytes = 1000, dc_ttl = 900, dc_quota = 1000, dc_max_pending = 4, dc_watermark = 90, dc_executables = False,
     dc_inflight = 4, dc_recheck = [300], dc_board = False, dc_budget = True, dc_audience = ''drive'', dc_internal = [], dc_public = []\<rparr>"

definition dd_jwt :: "string \<Rightarrow> json option" where
  "dd_jwt tok = (if tok = ''a'' then Some (JObj [(''aud'', JStr ''drive''), (''sub'', JStr ''agent:a''), (''scope'', JStr ''drive:read drive:write'')])
     else if tok = ''o'' then Some (JObj [(''aud'', JStr ''drive''), (''sub'', JStr ''op:o''), (''scope'', JStr ''drive:read drive:write'')])
     else None)"

definition dd_env :: denv where
  "dd_env = \<lparr>dn_cfg = dd_config, dn_jwt = dd_jwt, dn_ident = None, dn_sha = (\<lambda>b. CHR ''h'' # b)\<rparr>"

definition dd_head :: "string \<Rightarrow> dheaders" where
  "dd_head tok = \<lparr>dh_authorization = Some (''Bearer '' @ tok), dh_identity = None, dh_none_match = None, dh_if_range = None,
     dh_range = None, dh_name = None\<rparr>"

definition dd_world :: "string \<Rightarrow> drive_world" where
  "dd_world k = \<lparr>dw_now = 0, dw_aid = ''a'' @ k, dw_uid = ''u'' @ k, dw_vid = ''v'' @ k, dw_budget = Resp 200 (Some JNull),
     dw_step = Resp 200 (Some (JObj [])), dw_volume = Some (100, 50)\<rparr>"

definition dd_body :: "string \<Rightarrow> json" where
  "dd_body op = JObj [(''ticket_id'', JStr ''T-000001''), (''logical_name'', JStr ''f''), (''op_id'', JStr op), (''fencing_token'', JNum 3)]"

lemma dd_env_simps [simp]: "dn_cfg dd_env = dd_config" "dn_sha dd_env b = CHR ''h'' # b" "dc_budget dd_config" "\<not> dc_board dd_config"
    "dc_max_pending dd_config = 4" "dc_max_bytes dd_config = 1000" "dc_quota dd_config = 1000" "dc_watermark dd_config = 90"
    "dc_inflight dd_config = 4" "\<not> dc_executables dd_config" "dc_ttl dd_config = 900"
  by (simp_all add: dd_env_def dd_config_def)

lemma dd_world_simps [simp]: "dw_now (dd_world k) = 0" "dw_aid (dd_world k) = CHR ''a'' # k" "dw_uid (dd_world k) = CHR ''u'' # k"
    "dw_vid (dd_world k) = CHR ''v'' # k" "dw_budget (dd_world k) = Resp 200 (Some JNull)" "dw_step (dd_world k) = Resp 200 (Some (JObj []))"
    "dw_volume (dd_world k) = Some (100, 50)" "dh_name (dd_head tok) = None"
  by (simp_all add: dd_world_def dd_head_def)

text \<open>A registration under an older lease.\<close>

definition dd_late :: json where
  "dd_late = JObj [(''ticket_id'', JStr ''T-000001''), (''logical_name'', JStr ''f''), (''op_id'', JStr ''y''), (''fencing_token'', JNum 2)]"

section \<open>Who asks\<close>

definition dd_agent :: dprincipal where
  "dd_agent = \<lparr>dp_sub = ''agent:a'', dp_scopes = [''drive:read'', ''drive:write''], dp_identity = False\<rparr>"

definition dd_operator :: dprincipal where
  "dd_operator = \<lparr>dp_sub = ''op:o'', dp_scopes = [''drive:read'', ''drive:write''], dp_identity = False\<rparr>"

lemmas dd_auth_defs = dauthenticate_def dd_env_def dd_head_def dd_config_def verify_bearer_def starts_with_def trim_def is_ws_def
  dd_jwt_def drive_audience_ok_def coalesced_string_def parse_scopes_def split_words_def need_def throw_if_def

lemma dd_auth: "dauthenticate dd_env (dd_head ''a'') = Inr dd_agent" "dauthenticate dd_env (dd_head ''o'') = Inr dd_operator"
  by (simp_all add: dd_auth_defs dd_agent_def dd_operator_def)

lemma dd_kind [simp]: "dp_kind dd_agent = DAgent" "dp_kind dd_operator = DHuman" "dp_sub dd_agent = ''agent:a''" "dp_sub dd_operator = ''op:o''"
  by (simp_all add: dd_agent_def dd_operator_def dp_kind_def kind_of_sub_def starts_with_def)

lemma dd_scope [simp]: "drive_scope dd_agent ''drive:write'' = Inr ()" "drive_scope dd_operator ''drive:write'' = Inr ()"
  by (simp_all add: drive_scope_def has_scope_def dd_agent_def dd_operator_def throw_if_def)

lemma dd_intent: "valid_intent dd_agent (reg_of_body (dd_body op)) =
    (if op = [] \<or> 128 < length op then Inl (derr DMalformed) else Inr (Some 3))"
  by (simp add: valid_intent_def reg_of_body_def dd_body_def coalesced_string_def or_null_def throw_if_def drive_ticket_def starts_with_def
    is_digit_def normalize_token_def)

lemma dd_sniff: "sniffed ''hi'' = ''text/plain''"
  by (simp add: sniffed_def sniff_def sig_at_def codes_def starts_with_def probably_text_def printable_def is_ws_def wide_spaces_def lower_char_def)

lemma dd_day: "day_of 0 = ''1970-01-01''"
  by code_simp

lemma dd_policy: "expires_policy dd_config = ''inactivity:900s''"
  by code_simp

section \<open>The run\<close>

definition dd1 :: dsys where "dd1 = act dd_env ActBoot drive_init"
definition dd2 :: dsys where "dd2 = act dd_env (ActHttp (dd_world ''1'') (dd_head ''a'') (DcRegister (dd_body ''x''))) dd1"
definition dd3 :: dsys where "dd3 = act dd_env (ActOpen (dd_world ''2'') (dd_head ''a'') ''u1'') dd2"
definition dd4 :: dsys where "dd4 = act dd_env (ActChunk (dd_world ''2'') 0 ''hi'') dd3"
definition dd5 :: dsys where "dd5 = act dd_env (ActEnd (dd_world ''2'') 0) dd4"
definition dd6 :: dsys where "dd6 = act dd_env (ActHttp (dd_world ''3'') (dd_head ''a'') (DcRegister dd_late)) dd5"
definition dd7 :: dsys where "dd7 = act dd_env (ActHttp (dd_world ''4'') (dd_head ''o'') (DcDelete ''a1'')) dd5"

definition dd_upload :: "string \<Rightarrow> string \<Rightarrow> ustate \<Rightarrow> string option \<Rightarrow> int \<Rightarrow> upload_row" where
  "dd_upload u op st res n = \<lparr>up_id = u, up_state = st, up_by = ''agent:a'', up_op = op, up_ticket = ''T-000001'', up_name = ''f'',
     up_note = None, up_fence = Some 3, up_hint = None, up_expected = None, up_artifact = ''a1'', up_result = res, up_active = 0, up_bytes = n\<rparr>"

definition dd_artifact :: "string option \<Rightarrow> artifact_row" where
  "dd_artifact c = \<lparr>ar_id = ''a1'', ar_ticket = ''T-000001'', ar_name = ''f'', ar_current = c, ar_state = TUnverified, ar_by = ''agent:a'', ar_created = 0\<rparr>"

definition dd_version :: version_row where
  "dd_version = \<lparr>ve_id = ''v2'', ve_artifact = ''a1'', ve_seq = 1, ve_sha = Some ''hhi'', ve_ticket = ''T-000001'', ve_note = None,
     ve_by = ''agent:a'', ve_fence = Some 3, ve_op = ''x'', ve_mime = ''text/plain'', ve_hint = None, ve_size = 2, ve_name = ''f'',
     ve_marker = False, ve_created = 0\<rparr>"

lemma dd1_eq: "dd1 = drive_init\<lparr>dy_up := True\<rparr>"
  by (simp add: dd1_def drive_init_def drive_boot_def rebuild_index_def and_then_def recount_def empty_dstore_def empty_ddb_def empty_dfiles_def)

text \<open>The stores of the run, with the audit left as calls.\<close>

definition dd_s2 :: dstore where
  "dd_s2 = daudit 0 dd_agent ''put_registered'' AuditOk (Some ''T-000001'') (Some ''a1'') None (Some (JObj [(''upload_id'', JStr ''u1'')]))
     \<lparr>ds_db = empty_ddb\<lparr>db_artifacts := [dd_artifact None], db_uploads := [dd_upload ''u1'' ''x'' UPending None 0]\<rparr>, ds_files = empty_dfiles\<rparr>"

definition dd_stream :: "string \<Rightarrow> dput" where
  "dd_stream b = \<lparr>pt_who = dd_agent, pt_upload = ''u1'', pt_inode = 0, pt_bytes = b, pt_charged = 0, pt_header = None\<rparr>"

definition dd_files :: "string \<Rightarrow> dfiles \<Rightarrow> dfiles" where
  "dd_files b f = f\<lparr>df_inodes := (\<lambda>_. \<lparr>fl_bytes = [], fl_mtime = 0\<rparr>)(0 := \<lparr>fl_bytes = b, fl_mtime = 0\<rparr>), df_next := 1,
     df_staging := [''u1'' \<mapsto> 0]\<rparr>"

lemmas dd_reg_defs = register_def upload_by_op_def pending_count_def upsert_artifact_def new_upload_def
  get_upload_def registered_state_def find_artifact_def and_then_def

lemma dd_body_args: "ri_ticket (reg_of_body (dd_body op)) = ''T-000001''" "ri_name (reg_of_body (dd_body op)) = ''f''"
    "ri_op (reg_of_body (dd_body op)) = op" "ri_hint (reg_of_body (dd_body op)) = None" "ri_note (reg_of_body (dd_body op)) = None"
    "ri_expected (reg_of_body (dd_body op)) = None"
  by (simp_all add: reg_of_body_def dd_body_def coalesced_string_def or_null_def)

lemma dd2_eq: "dd2 = \<lparr>dy_store = dd_s2, dy_puts = [], dy_next = 0, dy_inflight = 0, dy_checks = [], dy_up = True\<rparr>"
proof -
  have "snd (register dd_config 0 dd_agent (reg_of_body (dd_body ''x'')) ''a1'' ''u1'' empty_dstore) = dd_s2"
    by (simp add: dd_reg_defs dd_intent dd_body_args dd_s2_def empty_dstore_def empty_ddb_def empty_dfiles_def dd_artifact_def dd_upload_def)
  then have h: "snd (drive_http dd_env (dd_world ''1'') (dd_head ''a'') (DcRegister (dd_body ''x'')) empty_dstore) = dd_s2"
    by (simp add: drive_http_def dd_auth admit_def and_then_def drive_budget_def throw_if_def map_res_def split: sum.split)
  show ?thesis
    using h by (simp add: dd2_def dd1_eq drive_init_def wants_check_def case_prod_beta split: dbody.split)
qed

lemma dd_fields2: "db_uploads (ds_db dd_s2) = [dd_upload ''u1'' ''x'' UPending None 0]" "db_artifacts (ds_db dd_s2) = [dd_artifact None]"
    "db_versions (ds_db dd_s2) = []" "db_blobs (ds_db dd_s2) = []" "db_fences (ds_db dd_s2) = []" "df_journal (ds_files dd_s2) = []"
    "df_staging (ds_files dd_s2) = Map.empty" "df_cas (ds_files dd_s2) = Map.empty" "db_daily (ds_db dd_s2) = []" "db_checks (ds_db dd_s2) = []"
    "df_inodes (ds_files dd_s2) = (\<lambda>_. \<lparr>fl_bytes = [], fl_mtime = 0\<rparr>)" "df_next (ds_files dd_s2) = 0"
  by (simp_all add: dd_s2_def daudit_def empty_ddb_def empty_dfiles_def Let_def)

lemma dd_upload2: "get_upload ''u1'' dd_s2 = Some (dd_upload ''u1'' ''x'' UPending None 0)"
  by (simp add: get_upload_def dd_fields2 dd_upload_def)

lemma dd_owner: "\<not> not_owner dd_agent (dd_upload u op st r n)"
  by (simp add: not_owner_def dd_upload_def)

lemma dd_volume: "under_watermark dd_config (Some (100, 50))"
  by (simp add: under_watermark_def)

lemma dd3_eq: "dd3 = \<lparr>dy_store = dd_s2\<lparr>ds_files := dd_files [] (ds_files dd_s2)\<rparr>, dy_puts = [(0, dd_stream [])], dy_next = 1, dy_inflight = 1,
    dy_checks = [], dy_up = True\<rparr>"
proof -
  have o: "open_staging 0 ''u1'' (ds_files dd_s2) = (0, dd_files [] (ds_files dd_s2))"
    by (simp add: open_staging_def dd_fields2 dd_files_def)
  have "put_request dd_env (dd_world ''2'') (dd_head ''a'') ''u1'' 0 dd_s2 = (PutStream (dd_stream []), dd_s2\<lparr>ds_files := dd_files [] (ds_files dd_s2)\<rparr>)"
    by (simp add: put_request_def dd_auth and_then_def put_open_def dd_upload2 dd_owner dd_volume o dd_stream_def)
      (simp add: dd_upload_def)
  then show ?thesis by (simp add: dd3_def dd2_eq)
qed

lemma dd4_eq: "dd4 = \<lparr>dy_store = dd_s2\<lparr>ds_files := dd_files ''hi'' (ds_files dd_s2)\<rparr>, dy_puts = [(0, dd_stream ''hi'')], dy_next = 1, dy_inflight = 1,
    dy_checks = [], dy_up = True\<rparr>"
  by (simp add: dd4_def dd3_eq put_chunk_def dd_stream_def flush_bytes_def write_inode_def write_at_def dd_files_def take_stream_def Let_def)

definition dd_s4 :: "string \<Rightarrow> dstore" where
  "dd_s4 b = \<lparr>ds_db = (ds_db dd_s2)\<lparr>db_daily := [((''agent:a'', ''1970-01-01''), 2)], db_uploads := [dd_upload ''u1'' ''x'' UPending None 2]\<rparr>,
     ds_files = dd_files b (ds_files dd_s2)\<rparr>"

lemma dd_rest: "put_rest dd_config 0 (Some (100, 50)) (dd_stream ''hi'') (dd_s2\<lparr>ds_files := dd_files b (ds_files dd_s2)\<rparr>) =
    (Inr (dd_stream ''hi''\<lparr>pt_charged := 2\<rparr>), (dd_s4 b))"
  by (simp add: put_rest_def put_charge_def dd_stream_def dd_volume charge_quota_def daily_bytes_def alist_get_def dd_fields2 throw_if_def
      touch_upload_def upd_upload_def dd_upload_def dd_s4_def dd_day Let_def)

definition dd_d5 :: ddb where
  "dd_d5 = (ds_db (dd_s4 []))\<lparr>db_blobs := [\<lparr>bl_sha = ''hhi'', bl_size = 2, bl_refs = 1, bl_created = 0\<rparr>], db_versions := [dd_version],
     db_fences := [(''T-000001'', 3)], db_artifacts := [dd_artifact (Some ''v2'')], db_uploads := [dd_upload ''u1'' ''x'' UCommitted (Some ''v2'') 2]\<rparr>"

definition dd_f5 :: "string \<Rightarrow> dfiles" where
  "dd_f5 b = (dd_files b (ds_files dd_s2))\<lparr>df_journal := [EvCommitted dd_version ''f'' TUnverified], df_staging := Map.empty,
     df_cas := [''hhi'' \<mapsto> 0]\<rparr>"

definition dd_s5_at :: "string \<Rightarrow> dstore" where
  "dd_s5_at b = on_files (discard_staging ''u1'') (daudit 0 dd_agent ''version_committed'' AuditOk (Some ''T-000001'') (Some ''a1'') (Some ''v2'')
     (Some (JObj [(''seq'', JNum 1), (''sha256'', JStr ''hhi''), (''dedup'', JBool False)])) \<lparr>ds_db = dd_d5, ds_files = (dd_f5 b)\<rparr>)"

lemma dd_fields4: "db_uploads (ds_db (dd_s4 b)) = [dd_upload ''u1'' ''x'' UPending None 2]" "db_artifacts (ds_db (dd_s4 b)) = [dd_artifact None]"
    "db_versions (ds_db (dd_s4 b)) = []" "db_blobs (ds_db (dd_s4 b)) = []" "db_fences (ds_db (dd_s4 b)) = []" "df_journal (ds_files (dd_s4 b)) = []"
    "df_staging (ds_files (dd_s4 b)) = [''u1'' \<mapsto> 0]" "df_cas (ds_files (dd_s4 b)) = Map.empty" "db_checks (ds_db (dd_s4 b)) = []"
    "get_upload ''u1'' (dd_s4 b) = Some (dd_upload ''u1'' ''x'' UPending None 2)"
  by (simp_all add: dd_s4_def dd_fields2 dd_files_def get_upload_def dd_upload_def)

definition dd_content :: upload_content where
  "dd_content = \<lparr>mt_sha = ''hhi'', mt_size = 2, mt_mime = ''text/plain'', mt_name = ''f''\<rparr>"

lemma dd_content: "put_content (dn_sha dd_env) (dd_stream ''hi'') (dd_s4 b) = dd_content"
  by (simp add: put_content_def dd_stream_def dd_sniff dd_fields4 dd_upload_def dd_content_def)

lemma dd_new: "new_version 0 dd_agent ''v2'' (dd_upload ''u1'' ''x'' UPending None 2) dd_content (Suc (max_seq ''a1'' (ds_db (dd_s4 b)))) = dd_version"
  by (simp add: new_version_def dd_upload_def dd_content_def dd_version_def max_seq_def versions_of_def dd_fields4)

lemma dd_s4_db: "ds_db (dd_s4 b) = ds_db (dd_s4 [])"
  by (simp add: dd_s4_def)

lemma dd_tables: "commit_tables 0 dd_agent ''v2'' (dd_upload ''u1'' ''x'' UPending None 2) dd_content (ds_db (dd_s4 b)) = Inr dd_d5"
proof -
  have u: "up_ticket (dd_upload u op st r n) = ''T-000001''" "up_fence (dd_upload u op st r n) = Some 3" "up_artifact (dd_upload u op st r n) = ''a1''"
      "up_id (dd_upload u op st r n) = u" for u op st r n by (simp_all add: dd_upload_def)
  have e: "enforce_fencing ''T-000001'' (Some 3) (ds_db (dd_s4 [])) = Inr ((ds_db (dd_s4 []))\<lparr>db_fences := [(''T-000001'', 3)]\<rparr>)"
    by (simp add: enforce_fencing_def fence_high_def alist_get_def dd_fields4)
  have c: "mt_size dd_content = 2" "mt_sha dd_content = ''hhi''" "ve_sha dd_version = Some ''hhi''" "ve_artifact dd_version = ''a1''"
    "ar_id (dd_artifact x) = ''a1''" for x by (simp_all add: dd_content_def dd_version_def dd_artifact_def)
  have w: "(dd_upload u op st r n)\<lparr>up_state := UCommitted, up_result := Some x, up_active := 0\<rparr> = dd_upload u op UCommitted (Some x) n"
    "(dd_artifact None)\<lparr>ar_current := y\<rparr> = dd_artifact y" for u op st r n x y by (simp_all add: dd_upload_def dd_artifact_def)
  show ?thesis unfolding dd_s4_db [of b]
    by (simp add: commit_tables_def u e and_then_def dd_new insert_version_def count_blob_def find_blob_def dd_fields4 c w
        version_refs_def find_artifact_def set_current_def upd_upload_def dd_d5_def)
qed

lemma dd_commit: "commit_upload dd_config 0 dd_agent ''v2'' ''u1'' dd_content (dd_s4 b) = (Inr (result_of dd_version), dd_s5_at b)"
proof -
  have u: "up_ticket (dd_upload u op st r n) = ''T-000001''" "up_artifact (dd_upload u op st r n) = ''a1''" "up_id (dd_upload u op st r n) = u"
      "up_state (dd_upload u op st r n) = st" "up_expected (dd_upload u op st r n) = None" "up_name (dd_upload u op st r n) = ''f''"
    for u op st r n by (simp_all add: dd_upload_def)
  have ev: "committed_event dd_version (dd_upload ''u1'' ''x'' UPending None 2) dd_d5 = EvCommitted dd_version ''f'' TUnverified"
    by (simp add: committed_event_def dd_version_def dd_upload_def registered_state_def dd_d5_def dd_fields4)
  have mt: "materialize ''u1'' ''hhi'' (ds_files (journal (EvCommitted dd_version ''f'' TUnverified) (dd_s4 b))) = Inr (dd_f5 b)"
    by (simp add: materialize_def journal_def dd_fields4 dd_f5_def) (simp add: dd_s4_def dd_files_def)
  have c: "mt_mime dd_content = ''text/plain''" "mt_sha dd_content = ''hhi''" "ve_seq dd_version = 1" "\<not> executable_mime ''text/plain''"
    by (simp_all add: dd_content_def dd_version_def executable_mime_def)
  show ?thesis
    by (simp add: commit_upload_def dd_fields4 dd_owner u type_refused_def c)
      (simp add: commit_txn_def dd_tables u dd_new ev mt find_blob_def dd_fields4 dd_s5_at_def Let_def c)
qed

lemma dd_put_end:
  "put_end dd_config (dn_sha dd_env) 0 (Some (100, 50)) ''v2'' (dd_stream ''hi'') (dd_s2\<lparr>ds_files := dd_files b (ds_files dd_s2)\<rparr>) =
     (Inr (result_of dd_version), dd_s5_at b)"
  using dd_rest dd_content dd_commit by (simp add: put_end_def) (simp add: dd_stream_def)

abbreviation dd_s5 :: dstore where "dd_s5 \<equiv> dd_s5_at ''hi''"

lemma dd5_eq: "dd5 = \<lparr>dy_store = dd_s5, dy_puts = [], dy_next = 1, dy_inflight = 0, dy_checks = [], dy_up = True\<rparr>"
  by (simp add: dd5_def dd4_eq dd_put_end end_stream_def ceiling_release_def)

section \<open>The run is fresh\<close>

lemma dd_fields5: "db_uploads (ds_db dd_s5) = [dd_upload ''u1'' ''x'' UCommitted (Some ''v2'') 2]" "db_artifacts (ds_db dd_s5) = [dd_artifact (Some ''v2'')]"
    "db_versions (ds_db dd_s5) = [dd_version]" "db_blobs (ds_db dd_s5) = [\<lparr>bl_sha = ''hhi'', bl_size = 2, bl_refs = 1, bl_created = 0\<rparr>]"
    "db_fences (ds_db dd_s5) = [(''T-000001'', 3)]" "df_journal (ds_files dd_s5) = [EvCommitted dd_version ''f'' TUnverified]"
    "df_staging (ds_files dd_s5) = Map.empty" "df_cas (ds_files dd_s5) = [''hhi'' \<mapsto> 0]" "db_meta (ds_db dd_s5) = []"
    "fl_bytes (df_inodes (ds_files dd_s5) 0) = ''hi''"
proof -
  have "db_meta (ds_db (dd_s4 [])) = []" by (simp add: dd_s4_def dd_s2_def empty_ddb_def)
  then show "db_meta (ds_db dd_s5) = []" by (simp add: dd_s5_at_def dd_d5_def)
qed (simp_all add: dd_s5_at_def discard_staging_def dd_d5_def dd_f5_def dd_fields4 dd_files_def)

lemmas dd_fresh_defs = act_fresh_def fresh_ids_def version_ids_def artifact_ids_def drive_init_def empty_dstore_def empty_ddb_def empty_dfiles_def

lemma dd_reach4: "drive_reach dd_env calm_act dd4"
proof -
  have "drive_reach dd_env calm_act dd1" unfolding dd1_def by (rule reach_act [OF reach_init]) (simp_all add: act_fresh_def)
  then have "drive_reach dd_env calm_act dd2" unfolding dd2_def by (rule reach_act) (simp_all add: dd_fresh_defs dd1_eq)
  then have "drive_reach dd_env calm_act dd3" unfolding dd3_def
    by (rule reach_act) (simp_all add: act_fresh_def fresh_ids_def version_ids_def artifact_ids_def dd2_eq dd_fields2 dd_artifact_def dd_upload_def)
  then show ?thesis unfolding dd4_def
    by (rule reach_act) (simp_all add: act_fresh_def fresh_ids_def version_ids_def artifact_ids_def dd3_eq dd_fields2 dd_artifact_def
        dd_upload_def dd_files_def)
qed

lemma dd_fresh4: "act_fresh (ActEnd (dd_world ''2'') 0) dd4"
  by (simp add: act_fresh_def fresh_ids_def version_ids_def artifact_ids_def dd4_eq dd_fields2 dd_artifact_def dd_upload_def dd_files_def)

lemma dd_reach5: "drive_reach dd_env calm_act dd5"
  unfolding dd5_def by (rule reach_act [OF dd_reach4]) (simp_all add: dd_fresh4)

lemma dd_fresh5: "k \<in> {''3'', ''4''} \<Longrightarrow> fresh_ids (dd_world k) dd_s5"
  by (auto simp: fresh_ids_def version_ids_def artifact_ids_def dd_fields5 dd_artifact_def dd_upload_def dd_version_def)

lemma dd_reach6: "drive_reach dd_env calm_act dd6"
  unfolding dd6_def by (rule reach_act [OF dd_reach5]) (simp_all add: act_fresh_def dd5_eq dd_fresh5)

lemma dd_reach7: "drive_reach dd_env calm_act dd7"
  unfolding dd7_def by (rule reach_act [OF dd_reach5]) (simp_all add: act_fresh_def dd5_eq dd_fresh5)

lemma dd_sha: "dn_sha dd_env b \<noteq> []"
  by simp

section \<open>The late registration and the deletion\<close>

definition dd_late_row :: upload_row where
  "dd_late_row = (dd_upload ''u3'' ''y'' UPending None 0)\<lparr>up_fence := Some 2\<rparr>"

lemma dd_late_intent: "valid_intent dd_agent (reg_of_body dd_late) = Inr (Some 2)"
  by (simp add: valid_intent_def reg_of_body_def dd_late_def coalesced_string_def or_null_def throw_if_def drive_ticket_def starts_with_def
    is_digit_def normalize_token_def)

lemma dd_late_args: "ri_ticket (reg_of_body dd_late) = ''T-000001''" "ri_name (reg_of_body dd_late) = ''f''"
    "ri_op (reg_of_body dd_late) = ''y''" "ri_hint (reg_of_body dd_late) = None" "ri_note (reg_of_body dd_late) = None"
    "ri_expected (reg_of_body dd_late) = None"
  by (simp_all add: reg_of_body_def dd_late_def coalesced_string_def or_null_def)

lemma dd6_store: "get_upload ''u3'' (dy_store dd6) = Some dd_late_row" "db_versions (ds_db (dy_store dd6)) = [dd_version]"
proof -
  have a: "List.find (\<lambda>r. ar_ticket r = ''T-000001'' \<and> ar_name r = ''f'') (db_artifacts (ds_db dd_s5)) = Some (dd_artifact (Some ''v2''))"
    by (simp add: dd_fields5 dd_artifact_def)
  have o: "upload_by_op ''agent:a'' ''y'' dd_s5 = None" "pending_count ''agent:a'' (ds_db dd_s5) = 0" "get_upload ''u3'' dd_s5 = None"
    by (simp_all add: upload_by_op_def pending_count_def get_upload_def dd_fields5 dd_upload_def)
  have "snd (register dd_config 0 dd_agent (reg_of_body dd_late) ''a3'' ''u3'' dd_s5) =
      daudit 0 dd_agent ''put_registered'' AuditOk (Some ''T-000001'') (Some ''a1'') None (Some (JObj [(''upload_id'', JStr ''u3'')]))
        (dd_s5\<lparr>ds_db := (ds_db dd_s5)\<lparr>db_uploads := db_uploads (ds_db dd_s5) @ [dd_late_row]\<rparr>\<rparr>)"
    by (simp add: register_def dd_late_intent dd_late_args o upsert_artifact_def a new_upload_def and_then_def dd_late_row_def dd_upload_def)
      (simp add: dd_artifact_def)
  then have "snd (drive_http dd_env (dd_world ''3'') (dd_head ''a'') (DcRegister dd_late) dd_s5) =
      daudit 0 dd_agent ''put_registered'' AuditOk (Some ''T-000001'') (Some ''a1'') None (Some (JObj [(''upload_id'', JStr ''u3'')]))
        (dd_s5\<lparr>ds_db := (ds_db dd_s5)\<lparr>db_uploads := db_uploads (ds_db dd_s5) @ [dd_late_row]\<rparr>\<rparr>)"
    by (simp add: drive_http_def dd_auth admit_def and_then_def drive_budget_def throw_if_def map_res_def split: sum.split)
  then show "get_upload ''u3'' (dy_store dd6) = Some dd_late_row" "db_versions (ds_db (dy_store dd6)) = [dd_version]"
    by (simp_all add: dd6_def dd5_eq case_prod_beta get_upload_def dd_fields5 dd_late_row_def) (simp add: dd_upload_def)
qed

definition dd_marker :: version_row where
  "dd_marker = marker_row 0 dd_operator ''v4'' (dd_artifact (Some ''v2'')) (max_seq ''a1'' (ds_db dd_s5) + 1)"

lemma dd7_store: "db_versions (ds_db (dy_store dd7)) = [dd_version, dd_marker]" "db_artifacts (ds_db (dy_store dd7)) = [dd_artifact None]"
    "db_blobs (ds_db (dy_store dd7)) = db_blobs (ds_db dd_s5)" "db_meta (ds_db (dy_store dd7)) = []"
proof -
  have m: "max_seq ''a1'' (ds_db dd_s5) = 1" by (simp add: max_seq_def versions_of_def dd_fields5 dd_version_def)
  have f: "find_artifact ''a1'' (ds_db dd_s5) = Some (dd_artifact (Some ''v2''))" by (simp add: find_artifact_def dd_fields5 dd_artifact_def)
  have i: "insert_version dd_marker (ds_db dd_s5) = Inr ((ds_db dd_s5)\<lparr>db_versions := [dd_version, dd_marker]\<rparr>)"
    by (simp add: insert_version_def version_clash_def dd_fields5 dd_version_def dd_marker_def marker_row_def version_refs_def
        find_artifact_def dd_artifact_def m)
  have "snd (delete_marker 0 dd_operator ''v4'' ''a1'' dd_s5) =
      daudit 0 dd_operator ''delete_marker'' AuditOk (Some ''T-000001'') (Some ''a1'') (Some ''v4'') (Some (JObj [(''seq'', JNum (int (max_seq ''a1'' (ds_db dd_s5) + 1)))]))
        (journal (EvDelete ''v4'' ''a1'') (dd_s5\<lparr>ds_db := set_current ''a1'' None ((ds_db dd_s5)\<lparr>db_versions := [dd_version, dd_marker]\<rparr>)\<rparr>))"
    using i by (simp add: delete_marker_def f Let_def dd_marker_def) (simp add: dd_artifact_def)
  then have "snd (drive_http dd_env (dd_world ''4'') (dd_head ''o'') (DcDelete ''a1'') dd_s5) =
      daudit 0 dd_operator ''delete_marker'' AuditOk (Some ''T-000001'') (Some ''a1'') (Some ''v4'') (Some (JObj [(''seq'', JNum (int (max_seq ''a1'' (ds_db dd_s5) + 1)))]))
        (journal (EvDelete ''v4'' ''a1'') (dd_s5\<lparr>ds_db := set_current ''a1'' None ((ds_db dd_s5)\<lparr>db_versions := [dd_version, dd_marker]\<rparr>)\<rparr>))"
    by (simp add: drive_http_def dd_auth admit_def require_human_def and_then_def throw_if_def map_res_def split: sum.split)
  then show "db_versions (ds_db (dy_store dd7)) = [dd_version, dd_marker]" "db_artifacts (ds_db (dy_store dd7)) = [dd_artifact None]"
    "db_blobs (ds_db (dy_store dd7)) = db_blobs (ds_db dd_s5)" "db_meta (ds_db (dy_store dd7)) = []"
    by (simp_all add: dd7_def dd5_eq case_prod_beta journal_def dd_fields5 set_current_def daudit_def Let_def) (simp add: dd_artifact_def)
qed

text \<open>A collection purges the blob.\<close>

lemma dd7_purge: "\<exists>s. gc_phase2 0 dd_operator (dy_store dd7) = (Inr (1, 1, 2), s)"
proof -
  let ?d = "ds_db (dy_store dd7)"
  have b: "\<not> backup_in_progress ?d" by (simp add: backup_in_progress_def alist_get_def dd7_store)
  have v: "ve_artifact dd_version = ''a1''" "ve_artifact dd_marker = ''a1''" "ve_sha dd_version = Some ''hhi''" "ve_sha dd_marker = None"
    "ve_id dd_version = ''v2''" "ve_id dd_marker = ''v4''" "ar_id (dd_artifact c) = ''a1''" "ar_current (dd_artifact None) = None" for c
    by (simp_all add: dd_version_def dd_marker_def marker_row_def dd_artifact_def)
  have c: "deleted_chains ?d = [''a1'']" by (simp add: deleted_chains_def versions_of_def dd7_store v)
  have p: "db_blobs (purge_chain ?d ''a1'') = [\<lparr>bl_sha = ''hhi'', bl_size = 2, bl_refs = 0, bl_created = 0\<rparr>]"
      "db_versions (purge_chain ?d ''a1'') = []"
    by (simp_all add: purge_chain_def versions_of_def dd7_store v drop_version_def ref_down_def dd_fields5 Let_def)
  show ?thesis
    by (simp add: gc_phase2_def b c p refless_def purge_blob_def Let_def)
qed

end
