(* ===== verification/DriveResults.thy ===== *)
theory DriveResults
  imports DriveDemo
begin

text \<open>
  What the laws give for Drive: the fencing of agents, the reference counts, the boot, the collection, the cut
  commit; and the way of bytes from an upload to a download.
\<close>

section \<open>What an upload's bytes become\<close>

text \<open>An open stream of a pending upload, and what its file in the staging area holds.\<close>

definition holding :: "dstore \<Rightarrow> dput \<Rightarrow> string \<Rightarrow> bool" where
  "holding s t c =
     (df_staging (ds_files s) (pt_upload t) = Some (pt_inode t) \<and> fl_bytes (df_inodes (ds_files s) (pt_inode t)) = c \<and>
      (case get_upload (pt_upload t) s of None \<Rightarrow> False | Some u \<Rightarrow> up_state u = UPending \<and> up_by u = dp_sub (pt_who t)))"

text \<open>Chunks, one after the other, with the clock and the volume at each.\<close>

fun put_chunks :: "dconfig \<Rightarrow> (int \<times> volume \<times> string) list \<Rightarrow> dput \<Rightarrow> dstore \<Rightarrow> (dexn + dput) \<times> dstore" where
  "put_chunks cfg [] t s = (Inr t, s)"
| "put_chunks cfg ((now, vol, b) # cs) t s =
     (case put_chunk cfg now vol b t s of (Inl e, s1) \<Rightarrow> (Inl e, s1) | (Inr t1, s1) \<Rightarrow> put_chunks cfg cs t1 s1)"

lemma write_end: "write_at (length old) new old = old @ new"
  by (simp add: write_at_def)

lemma get_upload_touch:
  "get_upload v (touch_upload now u n s) =
     (if v = u then map_option (\<lambda>r. r\<lparr>up_active := now, up_bytes := n\<rparr>) (get_upload u s) else get_upload v s)"
  unfolding touch_upload_def by (rule get_upload_upd) simp

lemma touch_files [simp]: "ds_files (touch_upload now u n s) = ds_files s"
  by (simp add: touch_upload_def)

lemma holding_charge:
  assumes r: "holding s t c" and c: "put_charge cfg now vol t s = (Inr t1, s1)"
  shows "holding s1 t1 c \<and> pt_bytes t1 = pt_bytes t \<and> pt_upload t1 = pt_upload t \<and> pt_inode t1 = pt_inode t \<and>
    ds_files s1 = ds_files s"
proof -
  obtain d where d: "charge_quota cfg now (dp_sub (pt_who t)) (int (length (pt_bytes t)) - pt_charged t) (ds_db s) = Inr d"
    and t1: "t1 = t\<lparr>pt_charged := int (length (pt_bytes t))\<rparr>"
    and s1: "s1 = touch_upload now (pt_upload t) (int (length (pt_bytes t))) (s\<lparr>ds_db := d\<rparr>)"
    using c by (auto simp: put_charge_def Let_def split: if_splits sum.splits)
  have g: "get_upload u (s\<lparr>ds_db := d\<rparr>) = get_upload u s" for u using charge_fields(5) [OF d] by (simp add: get_upload_def)
  show ?thesis using r by (auto simp: holding_def t1 s1 get_upload_touch g split: option.splits)
qed

lemma receiving_chunk:
  assumes r: "holding s t (pt_bytes t)" and c: "put_chunk cfg now vol b t s = (Inr t1, s1)"
  shows "holding s1 t1 (pt_bytes t1) \<and> pt_bytes t1 = pt_bytes t @ b \<and> pt_upload t1 = pt_upload t \<and> df_cas (ds_files s1) = df_cas (ds_files s)"
proof -
  let ?t = "t\<lparr>pt_bytes := pt_bytes t @ b\<rparr>" and ?s = "on_files (write_inode now (pt_inode t) (length (pt_bytes t)) b) s"
  have r1: "holding ?s ?t (pt_bytes ?t)" using r write_end [of "pt_bytes t" b]
    by (auto simp: holding_def write_inode_def get_upload_def split: option.splits)
  have f: "df_cas (ds_files ?s) = df_cas (ds_files s)" by (simp add: write_inode_def)
  show ?thesis
    using c r1 f holding_charge [OF r1, of cfg now vol t1 s1] by (auto simp: put_chunk_def Let_def split: if_splits)
qed

lemma receiving_chunks:
  "holding s t (pt_bytes t) \<Longrightarrow> put_chunks cfg cs t s = (Inr t1, s1) \<Longrightarrow>
   holding s1 t1 (pt_bytes t1) \<and> pt_bytes t1 = pt_bytes t @ concat (map (snd \<circ> snd) cs) \<and> pt_upload t1 = pt_upload t \<and>
   df_cas (ds_files s1) = df_cas (ds_files s)"
proof (induction cs arbitrary: t s)
  case (Cons c cs)
  obtain now vol b where c: "c = (now, vol, b)" by (cases c) auto
  obtain t2 s2 where 2: "put_chunk cfg now vol b t s = (Inr t2, s2)" "put_chunks cfg cs t2 s2 = (Inr t1, s1)"
    using Cons.prems(2) c by (auto split: prod.splits sum.splits)
  have r: "holding s2 t2 (pt_bytes t2)" "pt_bytes t2 = pt_bytes t @ b" "pt_upload t2 = pt_upload t"
      "df_cas (ds_files s2) = df_cas (ds_files s)" using receiving_chunk [OF Cons.prems(1) 2(1)] by blast+
  note i = Cons.IH [OF r(1) 2(2)]
  show ?case by (intro conjI, rule conjunct1 [OF i]) (simp_all add: conjunct2 [OF i] r(2-) c)
qed simp

lemma receiving_open:
  assumes "put_open cfg now vol n p u hdr vid s = (PutStream t, s1)"
  shows "holding s1 t (pt_bytes t) \<and> pt_bytes t = [] \<and> pt_upload t = u \<and> df_cas (ds_files s1) = df_cas (ds_files s)"
proof -
  obtain r where r: "get_upload u s = Some r" using assms by (auto simp: put_open_def split: option.splits)
  obtain i f where f: "open_staging now u (ds_files s) = (i, f)" by fastforce
  have "up_state r = UPending" "\<not> not_owner p r"
      "t = \<lparr>pt_who = p, pt_upload = u, pt_inode = i, pt_bytes = [], pt_charged = 0, pt_header = hdr\<rparr>" "s1 = s\<lparr>ds_files := f\<rparr>"
    using assms r f by (auto simp: put_open_def split: if_splits sum.splits prod.splits)
  moreover have "df_staging f u = Some i" "fl_bytes (df_inodes f i) = []" "df_cas f = df_cas (ds_files s)"
    using f by (auto simp: open_staging_def split: option.splits)
  ultimately show ?thesis using r by (simp add: holding_def get_upload_def not_owner_def)
qed

text \<open>The end of a stream whose hash names no file yet puts its file under the hash, whatever the file holds.\<close>

lemma received_end:
  assumes r: "holding s t c" and e: "put_end cfg sha now vol vid t s = (Inr x, s2)"
    and new: "df_cas (ds_files s) (sha (pt_bytes t)) = None" and vid: "find_version vid (ds_db s) = None"
  shows "\<exists>v. x = result_of v \<and> ve_id v = vid \<and> find_version vid (ds_db s2) = Some v \<and> ve_sha v = Some (sha (pt_bytes t)) \<and>
    ve_size v = length (pt_bytes t) \<and> ve_mime v = sniffed (pt_bytes t) \<and> \<not> ve_marker v \<and>
    (\<exists>i. df_cas (ds_files s2) (sha (pt_bytes t)) = Some i \<and> fl_bytes (df_inodes (ds_files s2) i) = c)"
proof -
  obtain y s1 where y: "put_rest cfg now vol t s = (y, s1)" by fastforce
  have q: "quiet s s1" using put_rest_quiet [of s cfg now vol t] y by simp
  obtain t1 where t1: "y = Inr t1" using e y by (cases y) (auto simp: put_end_def)
  have r1: "holding s1 t c" and fs: "ds_files s1 = ds_files s"
  proof -
    have "holding s1 t1 c \<and> pt_upload t1 = pt_upload t \<and> pt_inode t1 = pt_inode t \<and> ds_files s1 = ds_files s"
      using y t1 r holding_charge [OF r, of cfg now vol t1 s1] by (auto simp: put_rest_def split: if_splits)
    moreover have "pt_who t1 = pt_who t"
      using y t1 by (auto simp: put_rest_def put_charge_def Let_def split: if_splits sum.splits)
    ultimately show "holding s1 t c" "ds_files s1 = ds_files s" by (auto simp: holding_def split: option.splits)
  qed
  let ?m = "put_content sha t s1"
  obtain u where u: "get_upload (pt_upload t) s1 = Some u" "up_state u = UPending"
    using r1 by (auto simp: holding_def split: option.splits)
  let ?v = "new_version now (pt_who t) vid u ?m (max_seq (up_artifact u) (ds_db s1) + 1)"
  have co: "commit_upload cfg now (pt_who t) vid (pt_upload t) ?m s1 = (Inr x, s2)"
    using e y t1 by (auto simp: put_end_def split: sum.splits prod.splits)
  obtain d f where d: "commit_tables now (pt_who t) vid u ?m (ds_db s1) = Inr d"
    and s2: "ds_db s2 = ds_db (daudit now (pt_who t) ''version_committed'' AuditOk (Some (up_ticket u)) (Some (up_artifact u)) (Some vid)
                (Some (JObj [(''seq'', JNum (int (max_seq (up_artifact u) (ds_db s1) + 1))), (''sha256'', JStr (mt_sha ?m)),
                  (''dedup'', JBool (find_blob (mt_sha ?m) (ds_db s1) \<noteq> None))])) \<lparr>ds_db = d, ds_files = f\<rparr>)"
    and x: "x = result_of ?v"
    and mt: "materialize (pt_upload t) (mt_sha ?m) (ds_files (journal (committed_event ?v u d) s1)) = Inr f"
    and cas: "df_cas (ds_files s2) = df_cas f" "df_inodes (ds_files s2) = df_inodes f"
    using commit_answer [OF co u] by metis
  have sh: "mt_sha ?m = sha (pt_bytes t)" by (simp add: put_content_def)
  have "f = (ds_files (journal (committed_event ?v u d) s1))\<lparr>df_staging := (df_staging (ds_files s1))(pt_upload t := None),
      df_cas := (df_cas (ds_files s1))(sha (pt_bytes t) \<mapsto> pt_inode t)\<rparr>"
    using mt r1 new fs by (auto simp: materialize_def journal_def holding_def sh)
  then have fc: "df_cas f (sha (pt_bytes t)) = Some (pt_inode t)" "fl_bytes (df_inodes f (pt_inode t)) = c"
    using r1 by (simp_all add: journal_def holding_def)
  obtain d1 where "d = upd_upload (up_id u) (\<lambda>r. r\<lparr>up_state := UCommitted, up_result := Some vid, up_active := now\<rparr>)
       (set_current (up_artifact u) (Some vid) ((count_blob now ?m d1)\<lparr>db_versions := db_versions (ds_db s1) @ [?v]\<rparr>))"
    using commit_tables_ok [OF d] by metis
  then have "db_versions (ds_db s2) = db_versions (ds_db s1) @ [?v]" by (simp add: s2)
  moreover have "vid \<notin> ve_id ` set (db_versions (ds_db s1))" using vid q by (simp add: find_version_None quiet_def)
  moreover have "ve_id ?v = vid" by (simp add: new_version_def)
  ultimately have "find_version vid (ds_db s2) = Some ?v" by (simp add: find_version_def find_version_snoc)
  then show ?thesis using x fc cas \<open>ve_id ?v = vid\<close>
    by (intro exI [of _ ?v]) (simp add: new_version_def put_content_def)
qed

text \<open>C12. What is uploaded is what is downloaded: bytes that arrive in any chunks and are stored under a hash no
  file has yet are the bytes a download of the answered version sends, with the size, the type sniffed from them and
  the hash in the answer.\<close>

theorem upload_roundtrip:
  assumes "put_open cfg now0 vol0 n p u hdr vid0 s = (PutStream t0, s0)"
    and "put_chunks cfg cs t0 s0 = (Inr t, s1)"
    and "put_end cfg (dn_sha en) now vol vid t s1 = (Inr r, s2)"
    and "content = concat (map (snd \<circ> snd) cs)" and "dn_sha en content \<noteq> []"
    and "df_cas (ds_files s) (dn_sha en content) = None" and "find_version vid (ds_db s1) = None"
    and "dh_none_match h = None" and "dh_range h = None"
  shows "cr_sha r = Some (dn_sha en content) \<and> cr_size r = length content \<and> cr_mime r = sniffed content \<and>
    (\<exists>hs. fst (perform en w h q (DcVersion (cr_version r) False) s2) = Inr \<lparr>rs_status = 200, rs_headers = hs, rs_body = BBytes content\<rparr>)"
proof -
  note o = receiving_open [OF assms(1)]
  note c = receiving_chunks [OF conjunct1 [OF o] assms(2)]
  have b: "pt_bytes t = content" using o c assms(4) by simp
  have cas: "df_cas (ds_files s1) = df_cas (ds_files s)" using o c by simp
  obtain v i where v: "r = result_of v" "ve_id v = vid" "find_version vid (ds_db s2) = Some v" "ve_sha v = Some (dn_sha en content)"
      "ve_size v = length content" "ve_mime v = sniffed content" "\<not> ve_marker v"
    and f: "df_cas (ds_files s2) (dn_sha en content) = Some i" "fl_bytes (df_inodes (ds_files s2) i) = content"
    using received_end [OF conjunct1 [OF c] assms(3)] assms(6,7) by (auto simp: b cas)
  have "resolve_version vid s2 = Inr \<lparr>ct_sha = dn_sha en content, ct_mime = sniffed content, ct_size = length content,
      ct_name = ve_name v, ct_version = vid, ct_immutable = True\<rparr>"
    using v assms(5) by (simp add: resolve_version_def need_def content_of_def)
  then show ?thesis
    using v f assms(8,9)
    by (simp add: result_of_def content_call_def Let_def send_content_def parse_range_def stream_file_def)
qed

theorem upload_roundtrip_witness:
  "\<exists>r s2. put_end dd_config (dn_sha dd_env) 0 (Some (100, 50)) ''v2'' (dd_stream ''hi'') (dd_s2\<lparr>ds_files := dd_files ''hi'' (ds_files dd_s2)\<rparr>) = (Inr r, s2) \<and>
    (\<exists>hs. fst (perform dd_env (dd_world ''5'') (dd_head ''a'') dd_agent (DcVersion (cr_version r) False) s2) =
       Inr \<lparr>rs_status = 200, rs_headers = hs, rs_body = BBytes ''hi''\<rparr>)"
proof -
  have o: "open_staging 0 ''u1'' (ds_files dd_s2) = (0, dd_files [] (ds_files dd_s2))"
    by (simp add: open_staging_def dd_fields2 dd_files_def)
  have op: "put_open dd_config 0 (Some (100, 50)) 0 dd_agent ''u1'' None ''v1'' dd_s2 =
      (PutStream (dd_stream []), dd_s2\<lparr>ds_files := dd_files [] (ds_files dd_s2)\<rparr>)"
    by (simp add: put_open_def dd_upload2 dd_owner dd_volume o dd_stream_def) (simp add: dd_upload_def)
  have ch: "put_chunks dd_config [(0, Some (100, 50), ''hi'')] (dd_stream []) (dd_s2\<lparr>ds_files := dd_files [] (ds_files dd_s2)\<rparr>) =
      (Inr (dd_stream ''hi''), dd_s2\<lparr>ds_files := dd_files ''hi'' (ds_files dd_s2)\<rparr>)"
    by (simp add: put_chunk_def dd_stream_def flush_bytes_def write_inode_def write_at_def dd_files_def Let_def)
  show ?thesis
    using upload_roundtrip [OF op ch, of dd_env 0 "Some (100, 50)" "''v2''" "result_of dd_version" dd_s5 "''hi''" "dd_head ''a''"
        "dd_world ''5''" dd_agent] dd_put_end
    by (simp add: dd_fields2 find_version_def dd_head_def)
qed

text \<open>C24. Two streams of one upload share its staging file: when the upload is opened again while a stream that has
  received bytes is open, and the first stream then ends and is answered, its version announces the hash and the
  size of what was received, and the file stored under that hash is empty.\<close>

theorem second_put_corrupts:
  assumes "holding s t (pt_bytes t)" and "put_open cfg0 now0 vol0 n p (pt_upload t) hdr vid0 s = (PutStream t2, s1)"
    and "put_end cfg (dn_sha en) now vol vid t s1 = (Inr r, s2)"
    and "df_cas (ds_files s) (dn_sha en (pt_bytes t)) = None" and "find_version vid (ds_db s1) = None"
  shows "cr_sha r = Some (dn_sha en (pt_bytes t)) \<and> cr_size r = length (pt_bytes t) \<and>
    (\<exists>i. df_cas (ds_files s2) (dn_sha en (pt_bytes t)) = Some i \<and> fl_bytes (df_inodes (ds_files s2) i) = [])"
proof -
  note o = receiving_open [OF assms(2)]
  have s1: "s1 = s\<lparr>ds_files := snd (open_staging now0 (pt_upload t) (ds_files s))\<rparr>"
    using assms(2) by (auto simp: put_open_def split: option.splits if_splits sum.splits prod.splits)
  have h: "holding s1 t []"
    using assms(1) by (auto simp: holding_def s1 open_staging_def get_upload_def split: option.splits)
  obtain v where "r = result_of v" "ve_sha v = Some (dn_sha en (pt_bytes t))" "ve_size v = length (pt_bytes t)"
      "\<exists>i. df_cas (ds_files s2) (dn_sha en (pt_bytes t)) = Some i \<and> fl_bytes (df_inodes (ds_files s2) i) = []"
    using received_end [OF h assms(3) _ assms(5)] assms(4) o by auto
  then show ?thesis by (simp add: result_of_def)
qed

lemma dd_open:
  fixes b defines "s \<equiv> dd_s2\<lparr>ds_files := dd_files b (ds_files dd_s2)\<rparr>"
  shows "get_upload ''u1'' s = Some (dd_upload ''u1'' ''x'' UPending None 0)"
    and "put_open dd_config 0 (Some (100, 50)) 1 dd_agent ''u1'' None ''v1'' s =
      (PutStream (dd_stream []), dd_s2\<lparr>ds_files := dd_files [] (ds_files dd_s2)\<rparr>)"
proof -
  have f: "ds_files s = dd_files b (ds_files dd_s2)" "s\<lparr>ds_files := f\<rparr> = dd_s2\<lparr>ds_files := f\<rparr>" for f by (simp_all add: s_def)
  have o: "open_staging 0 ''u1'' (ds_files s) = (0, dd_files [] (ds_files dd_s2))"
    by (simp add: open_staging_def f) (simp add: dd_files_def)
  show u: "get_upload ''u1'' s = Some (dd_upload ''u1'' ''x'' UPending None 0)" using dd_upload2 by (simp add: get_upload_def s_def)
  have k: "up_state (dd_upload ''u1'' ''x'' UPending None 0) = UPending" "up_result (dd_upload ''u1'' ''x'' UPending None 0) = None"
    by (simp_all add: dd_upload_def)
  show "put_open dd_config 0 (Some (100, 50)) 1 dd_agent ''u1'' None ''v1'' s =
      (PutStream (dd_stream []), dd_s2\<lparr>ds_files := dd_files [] (ds_files dd_s2)\<rparr>)"
    by (simp add: put_open_def u dd_owner dd_volume o k f(2) dd_stream_def)
qed

theorem second_put_corrupts_witness:
  "\<exists>r s2. put_end dd_config (dn_sha dd_env) 0 (Some (100, 50)) ''v2'' (dd_stream ''hi'') (dd_s2\<lparr>ds_files := dd_files [] (ds_files dd_s2)\<rparr>) = (Inr r, s2) \<and>
    cr_size r = 2 \<and> (\<exists>i. df_cas (ds_files s2) ''hhi'' = Some i \<and> fl_bytes (df_inodes (ds_files s2) i) = [])"
proof -
  let ?s = "dd_s2\<lparr>ds_files := dd_files ''hi'' (ds_files dd_s2)\<rparr>" and ?t = "dd_s2\<lparr>ds_files := dd_files [] (ds_files dd_s2)\<rparr>"
  have f: "pt_bytes (dd_stream b) = b" "pt_upload (dd_stream b) = ''u1''" for b by (simp_all add: dd_stream_def)
  have h: "holding ?s (dd_stream ''hi'') (pt_bytes (dd_stream ''hi''))"
    unfolding holding_def f dd_open(1) by (simp add: dd_files_def dd_stream_def dd_upload_def)
  obtain r s2 where e: "put_end dd_config (dn_sha dd_env) 0 (Some (100, 50)) ''v2'' (dd_stream ''hi'') ?t = (Inr r, s2)"
    using dd_put_end [of "[]"] by blast
  have "cr_sha r = Some (dn_sha dd_env ''hi'') \<and> cr_size r = length ''hi'' \<and>
    (\<exists>i. df_cas (ds_files s2) (dn_sha dd_env ''hi'') = Some i \<and> fl_bytes (df_inodes (ds_files s2) i) = [])"
    using second_put_corrupts [OF h _ e, of dd_config 0 "Some (100, 50)" 1 dd_agent None "''v1''" "dd_stream []"] dd_open(2) [of "''hi''"]
    by (simp add: f dd_files_def dd_fields2 find_version_def)
  with e show ?thesis by auto
qed

section \<open>Ranges\<close>

text \<open>A range that is answered lies within the content: the first byte is not behind the last one, the last one is
  in the content, and the slice that is sent has the length that is announced.\<close>

theorem range_exact:
  assumes "parse_range hdr (length content) = ByteRange a b"
  shows "0 \<le> a \<and> a \<le> b \<and> b < int (length content) \<and> int (length (slice a b content)) = b - a + 1"
proof -
  have "0 \<le> a \<and> a \<le> b \<and> b < int (length content)"
    using assms by (auto simp: parse_range_def clip_range_def Let_def split: if_splits option.splits)
  then show ?thesis by (auto simp: slice_def)
qed

theorem range_exact_witness:
  "parse_range (Some ''bytes=-3'') (length ''abcde'') = ByteRange 2 4 \<and> int (length (slice 2 4 ''abcde'')) = 3"
proof -
  have p: "parse_range (Some ''bytes=-3'') (length ''abcde'') = ByteRange 2 4"
    by (simp add: parse_range_def starts_with_def range_match_def trim_def is_ws_def is_digit_def digits_val_def digit_val_def clip_range_def)
  show ?thesis using p range_exact [OF p] by simp
qed

section \<open>Fencing\<close>

text \<open>C7. Drive fences its agents, in every run (crashes in a commit, replays and collections included): an upload of
  an agent carries a token, and once a version of the ticket with a higher token is stored, committing
  the upload fails and adds no version.\<close>

theorem drive_fence:
  assumes "drive_reach en ok y" and "\<forall>b. dn_sha en b \<noteq> []"
    and "get_upload uid (dy_store y) = Some u" and "kind_of_sub (up_by u) = DAgent"
  shows "\<exists>n \<ge> 0. up_fence u = Some n \<and>
    (\<forall>w k cfg now p vid m. w \<in> set (db_versions (ds_db (dy_store y))) \<and> ve_ticket w = up_ticket u \<and> ve_fence w = Some k \<and> n < k \<and>
       up_state u = UPending \<longrightarrow>
       (\<exists>e s'. commit_upload cfg now p vid uid m (dy_store y) = (Inl e, s') \<and> db_versions (ds_db s') = db_versions (ds_db (dy_store y))))"
proof -
  let ?s = "dy_store y"
  have law: "tokens_below (ds_db ?s)" "sys_ok y" using fences.law_reach [OF assms(1)] assms(2) by auto
  have "u \<in> set (db_uploads (ds_db ?s))" using assms(3) row_of_in by (simp add: get_upload_def)
  then have "token_ok u" using law(2) by (simp add: sys_ok_def upload_keys_def)
  then obtain n where n: "up_fence u = Some n" "0 \<le> n" using assms(4) by (auto simp: token_ok_def)
  have "\<exists>e s'. commit_upload cfg now p vid uid m ?s = (Inl e, s') \<and> db_versions (ds_db s') = db_versions (ds_db ?s)"
    if w: "w \<in> set (db_versions (ds_db ?s))" "ve_ticket w = up_ticket u" "ve_fence w = Some k" "n < k" and u: "up_state u = UPending"
    for w k cfg now p vid m
  proof -
    obtain h where "alist_get (up_ticket u) (db_fences (ds_db ?s)) = Some h" "k \<le> h"
      using law(1) w n by (fastforce simp: tokens_below_def token_below_def)
    then have "enforce_fencing (up_ticket u) (up_fence u) (ds_db ?s) =
        Inl (DErr DStaleFencing [(''ticket_id'', JStr (up_ticket u)), (''presented'', JNum n), (''high_water'', JNum h)])"
      using n w(4) by (simp add: enforce_fencing_def fence_high_def)
    then show ?thesis using assms(3) u
      by (auto simp: commit_upload_def commit_txn_def commit_tables_def and_then_def owner_denied_def fencing_error_def)
  qed
  then show ?thesis using n by blast
qed

theorem drive_fence_witness:
  "drive_reach dd_env calm_act dd6 \<and> up_fence dd_late_row = Some 2 \<and>
   (\<exists>e s'. commit_upload dd_config 0 dd_agent ''v9'' ''u3'' dd_content (dy_store dd6) = (Inl e, s') \<and>
      db_versions (ds_db s') = [dd_version])"
proof -
  have k: "kind_of_sub (up_by dd_late_row) = DAgent" "up_fence dd_late_row = Some 2" "up_ticket dd_late_row = ''T-000001''"
      "up_state dd_late_row = UPending" "ve_ticket dd_version = ''T-000001''" "ve_fence dd_version = Some 3"
    by (simp_all add: dd_late_row_def dd_upload_def kind_of_sub_def starts_with_def dd_version_def)
  have "\<forall>b. dn_sha dd_env b \<noteq> []" by simp
  from drive_fence [OF dd_reach6 this dd6_store(1) k(1)] show ?thesis
    using dd_reach6 k dd6_store(2) by auto
qed

section \<open>Reference counts\<close>

text \<open>C14. In every run, crashes, replays and collections included, the count of a blob is the number of versions that
  refer to it, and every version that has a hash has the row of its blob and of its artifact.\<close>

theorem drive_counts:
  assumes "drive_reach en ok y" and "\<forall>b. dn_sha en b \<noteq> []"
  shows "(\<forall>b \<in> set (db_blobs (ds_db (dy_store y))).
      bl_refs b = int (count_where (\<lambda>v. ve_sha v = Some (bl_sha b)) (db_versions (ds_db (dy_store y))))) \<and>
    (\<forall>v \<in> set (db_versions (ds_db (dy_store y))). version_refs v (ds_db (dy_store y)))"
proof -
  have "tables_ok (dy_store y)" using tables.law_reach [OF assms(1)] assms(2) by auto
  then show ?thesis
    by (auto simp: tables_ok_def refs_ok_def keys_ok_def homes_ok_def version_refs_def find_blob_None find_artifact_None split: option.split)
qed

theorem drive_counts_witness: "\<exists>b \<in> set (db_blobs (ds_db (dy_store dd5))). bl_refs b = 1"
  using drive_counts [OF dd_reach5] by (simp add: dd5_eq dd_fields5)

section \<open>The journal\<close>



text \<open>C23. A collection that purged a blob is the last thing the service did: the journal then holds the purge behind the
  commit of a version that the replay puts back, the purge violates the version's reference, and the boot fails.\<close>

theorem purge_breaks_boot:
  assumes "drive_reach en calm_act y" and "\<forall>b. dn_sha en b \<noteq> []"
    and "gc_phase2 now p (dy_store y) = (Inr (n, ch, sz), s)" and "0 < n"
  shows "drive_boot s = Inl DSqlite"
proof -
  have "calm_ok (dy_store y)" using calm.law_reach [OF assms(1)] assms(2) calm_act_moves by blast
  then show ?thesis using purged_boot [OF _ assms(3,4)] by blast
qed

theorem purge_breaks_boot_witness:
  "\<exists>s. gc_phase2 0 dd_operator (dy_store dd7) = (Inr (1, 1, 2), s) \<and> drive_boot s = Inl DSqlite"
proof -
  obtain s where s: "gc_phase2 0 dd_operator (dy_store dd7) = (Inr (1, 1, 2), s)" using dd7_purge by blast
  have "drive_boot s = Inl DSqlite" by (rule purge_breaks_boot [OF dd_reach7 _ s]) simp_all
  with s show ?thesis by blast
qed

section \<open>A cut commit\<close>

text \<open>C22. The process dies in a commit between the line of the journal and the rename, where the commit would have
  been answered: the next boot makes that version current although no file has its bytes, and every later
  attempt to commit the upload, by anyone and with any content, fails.\<close>

theorem cut_commit_loses_bytes:
  assumes "drive_reach en calm_act y" and "\<forall>b. dn_sha en b \<noteq> []"
    and "put_rest (dn_cfg en) (dw_now w) (dw_volume w) t (dy_store y) = (Inr t', s)" and "commits_now en t' s" and "fresh_ids w s"
    and "commit_upload (dn_cfg en) (dw_now w) (pt_who t') (dw_vid w) (pt_upload t') (put_content (dn_sha en) t' s) s = (Inr r, s')"
    and "find_blob (dn_sha en (pt_bytes t')) (ds_db s) = None" and "df_cas (ds_files s) (dn_sha en (pt_bytes t')) = None"
  shows "\<exists>s2 x. drive_boot (cut_commit en w False t' s) = Inr s2 \<and> resolve_content (cr_artifact r) None s2 = Inr x \<and>
    ct_version x = cr_version r \<and> df_cas (ds_files s2) (ct_sha x) = None \<and>
    (\<forall>cfg now p vid m. \<exists>e. fst (commit_upload cfg now p vid (pt_upload t') m s2) = Inl e)"
proof -
  have c0: "calm_ok (dy_store y)" using calm.law_reach [OF assms(1)] assms(2) calm_act_moves by blast
  have "quiet (dy_store y) s \<and> keeps (dy_store y) s"
    using put_rest_quiet [of "dy_store y" "dn_cfg en" "dw_now w" "dw_volume w" t] assms(3) by simp
  then have c: "calm_ok s" using calm_quiet c0 by blast
  obtain u where "get_upload (pt_upload t') s = Some u" using assms(4) by (auto simp: commits_now_def split: option.splits)
  then show ?thesis using cut_loses [OF c assms(4) _ assms(6,5) _ assms(7,8)] assms(2) by blast
qed

theorem cut_commit_loses_bytes_witness:
  "\<exists>s2 x. drive_boot (cut_commit dd_env (dd_world ''2'') False (dd_stream ''hi''\<lparr>pt_charged := 2\<rparr>) (dd_s4 ''hi'')) = Inr s2 \<and>
    resolve_content ''a1'' None s2 = Inr x \<and> ct_version x = ''v2'' \<and> df_cas (ds_files s2) (ct_sha x) = None"
proof -
  let ?t = "dd_stream ''hi''\<lparr>pt_charged := 2\<rparr>"
  have pc: "put_content (dn_sha dd_env) ?t (dd_s4 ''hi'') = dd_content"
    by (simp add: put_content_def dd_stream_def dd_sniff dd_fields4 dd_upload_def dd_content_def)
  have f: "pt_bytes ?t = ''hi''" "pt_who ?t = dd_agent" "pt_upload ?t = ''u1''" by (simp_all add: dd_stream_def)
  have r: "put_rest (dn_cfg dd_env) (dw_now (dd_world ''2'')) (dw_volume (dd_world ''2'')) (dd_stream ''hi'') (dy_store dd4) = (Inr ?t, dd_s4 ''hi'')"
    using dd_rest by (simp add: dd4_eq)
  have cn: "commits_now dd_env ?t (dd_s4 ''hi'')"
    unfolding commits_now_def f dd_fields4 by (simp add: dd_owner dd_sniff type_refused_def executable_mime_def) (simp add: dd_upload_def)
  have fr: "fresh_ids (dd_world ''2'') (dd_s4 ''hi'')"
    by (simp add: fresh_ids_def version_ids_def artifact_ids_def dd_fields4 dd_artifact_def dd_upload_def)
  have co: "commit_upload (dn_cfg dd_env) (dw_now (dd_world ''2'')) (pt_who ?t) (dw_vid (dd_world ''2'')) (pt_upload ?t)
      (put_content (dn_sha dd_env) ?t (dd_s4 ''hi'')) (dd_s4 ''hi'') = (Inr (result_of dd_version), dd_s5)"
    unfolding pc f using dd_commit by simp
  have "find_blob (dn_sha dd_env (pt_bytes ?t)) (ds_db (dd_s4 ''hi'')) = None" "df_cas (ds_files (dd_s4 ''hi'')) (dn_sha dd_env (pt_bytes ?t)) = None"
    by (simp_all add: find_blob_def dd_fields4)
  then show ?thesis
    using cut_commit_loses_bytes [OF dd_reach4 _ r cn fr co] by (auto simp: result_of_def dd_version_def)
qed

section \<open>Append-only\<close>

definition appended :: "dstore \<Rightarrow> dstore \<Rightarrow> bool" where
  "appended s s' =
     (\<exists>vs. db_versions (ds_db s') = db_versions (ds_db s) @ vs \<and>
       (\<forall>r \<in> set (db_artifacts (ds_db s)). \<exists>r' \<in> set (db_artifacts (ds_db s')). ar_id r' = ar_id r \<and>
          (ar_current r' = ar_current r \<or> (\<exists>v \<in> set vs. ve_artifact v = ar_id r \<and> ar_current r' = Some (ve_id v)))) \<and>
       (\<forall>h i. df_cas (ds_files s) h = Some i \<longrightarrow> df_cas (ds_files s') h = Some i))"

lemma appended_trans: "appended s s1 \<Longrightarrow> appended s1 s2 \<Longrightarrow> appended s s2"
proof -
  assume "appended s s1" and "appended s1 s2"
  then obtain vs ws where v: "db_versions (ds_db s1) = db_versions (ds_db s) @ vs" "db_versions (ds_db s2) = db_versions (ds_db s1) @ ws"
    and a: "\<And>r. r \<in> set (db_artifacts (ds_db s)) \<Longrightarrow> \<exists>r' \<in> set (db_artifacts (ds_db s1)). ar_id r' = ar_id r \<and>
          (ar_current r' = ar_current r \<or> (\<exists>v \<in> set vs. ve_artifact v = ar_id r \<and> ar_current r' = Some (ve_id v)))"
    and b: "\<And>r. r \<in> set (db_artifacts (ds_db s1)) \<Longrightarrow> \<exists>r' \<in> set (db_artifacts (ds_db s2)). ar_id r' = ar_id r \<and>
          (ar_current r' = ar_current r \<or> (\<exists>v \<in> set ws. ve_artifact v = ar_id r \<and> ar_current r' = Some (ve_id v)))"
    and f: "\<And>h i. df_cas (ds_files s) h = Some i \<Longrightarrow> df_cas (ds_files s2) h = Some i"
    unfolding appended_def by blast
  have "\<exists>r' \<in> set (db_artifacts (ds_db s2)). ar_id r' = ar_id r \<and>
      (ar_current r' = ar_current r \<or> (\<exists>v \<in> set (vs @ ws). ve_artifact v = ar_id r \<and> ar_current r' = Some (ve_id v)))"
    if "r \<in> set (db_artifacts (ds_db s))" for r
  proof -
    obtain q where q: "q \<in> set (db_artifacts (ds_db s1))" "ar_id q = ar_id r"
      "ar_current q = ar_current r \<or> (\<exists>v \<in> set vs. ve_artifact v = ar_id r \<and> ar_current q = Some (ve_id v))" using a [OF \<open>r \<in> _\<close>] by blast
    obtain r' where "r' \<in> set (db_artifacts (ds_db s2))" "ar_id r' = ar_id q"
      "ar_current r' = ar_current q \<or> (\<exists>v \<in> set ws. ve_artifact v = ar_id q \<and> ar_current r' = Some (ve_id v))" using b [OF q(1)] by blast
    then show ?thesis using q(2,3) by (intro bexI [of _ r']) auto
  qed
  then show ?thesis unfolding appended_def using v f by (intro exI [of _ "vs @ ws"]) simp
qed

lemma appended_same:
  "db_versions (ds_db s') = db_versions (ds_db s) \<Longrightarrow> df_cas (ds_files s') = df_cas (ds_files s) \<Longrightarrow>
   (\<And>r. r \<in> set (db_artifacts (ds_db s)) \<Longrightarrow> \<exists>r' \<in> set (db_artifacts (ds_db s')). ar_id r' = ar_id r \<and> ar_current r' = ar_current r) \<Longrightarrow>
   appended s s'"
  unfolding appended_def by (intro exI [of _ "[]"]) auto

definition agent_kinds :: "mv set" where
  "agent_kinds = {MvQuiet, MvArtifact, MvCommit, MvAborted}"

lemma appended_move: "dmove m s s' \<Longrightarrow> m \<in> agent_kinds \<Longrightarrow> appended s s'"
proof (induction rule: dmove.induct)
  case (mv_quiet s s')
  then show ?case
    using map_state_current [of "db_artifacts (ds_db s)" "db_artifacts (ds_db s')"]
    by (intro appended_same) (simp_all add: quiet_def)
next
  case (mv_artifact a s)
  show ?case by (rule appended_same) auto
next
  case (mv_commit now p vid u m s d f)
  obtain d1 v where e: "enforce_fencing (up_ticket u) (up_fence u) (ds_db s) = Inr d1"
    and v: "v = new_version now p vid u m (max_seq (up_artifact u) (ds_db s) + 1)"
    and d: "d = upd_upload (up_id u) (\<lambda>r. r\<lparr>up_state := UCommitted, up_result := Some vid, up_active := now\<rparr>)
       (set_current (up_artifact u) (Some vid) ((count_blob now m d1)\<lparr>db_versions := db_versions (ds_db s) @ [v]\<rparr>))"
    using commit_tables_ok [OF mv_commit(1)] by metis
  have ar: "db_artifacts d = update_where (\<lambda>r. ar_id r = up_artifact u) (\<lambda>r. r\<lparr>ar_current := Some vid\<rparr>) (db_artifacts (ds_db s))"
    by (simp add: d set_current_def enforce_fields [OF e])
  have "df_cas f h = Some i" if "df_cas (ds_files s) h = Some i" for h i
    using mv_commit(2) that by (auto simp: materialize_def journal_def split: if_splits option.splits)
  moreover have "\<exists>r' \<in> set (db_artifacts d). ar_id r' = ar_id r \<and>
      (ar_current r' = ar_current r \<or> (ve_artifact v = ar_id r \<and> ar_current r' = Some (ve_id v)))" if "r \<in> set (db_artifacts (ds_db s))" for r
    using that by (intro bexI [of _ "if ar_id r = up_artifact u then r\<lparr>ar_current := Some vid\<rparr> else r"])
      (auto simp: ar in_update_where v new_version_def)
  ultimately show ?case unfolding appended_def by (intro exI [of _ "[v]"]) (simp add: d)
next
  case (mv_aborted vid s)
  show ?case by (rule appended_same) (auto simp: journal_def)
qed (simp_all add: agent_kinds_def)

lemma appended_moves: "store_moves L s s' \<Longrightarrow> L \<subseteq> agent_kinds \<Longrightarrow> appended s s'"
proof (induction rule: store_moves.induct)
  case (moves_step s s1 m s2)
  then show ?case using appended_trans appended_move by blast
qed (auto intro: appended_same)

text \<open>What agents and services can make the service do: any request over HTTP that is not the operator's, any MCP call,
  the whole life of a byte stream; with it, what the service does by itself.\<close>

fun agent_act :: "denv \<Rightarrow> dact \<Rightarrow> bool" where
  "agent_act en (ActHttp w h c) = (case dauthenticate en h of Inl _ \<Rightarrow> True | Inr p \<Rightarrow> dp_kind p \<noteq> DHuman)"
| "agent_act en (ActCut _ _ _) = False"
| "agent_act en ActRebuild = False"
| "agent_act en ActBoot = False"
| "agent_act en _ = True"

lemma agent_http:
  assumes "agent_act en (ActHttp w h c)" and "fresh_ids w s"
  shows "store_moves {MvQuiet, MvArtifact} s (snd (drive_http en w h c s))"
proof (cases "call_moves c \<subseteq> {MvQuiet, MvArtifact}")
  case True
  show ?thesis by (rule http_moves [OF assms(2) True])
next
  case False
  then have "(\<exists>a. c = DcDelete a) \<or> (\<exists>a b. c = DcRestore a b) \<or> (\<exists>b. c = DcPurge b)" by (cases c) auto
  then have "snd (drive_http en w h c s) = s"
    using assms(1) by (auto simp: drive_http_def admit_def require_human_def and_then_def throw_if_def Let_def split: sum.splits)
  then show ?thesis by simp
qed

text \<open>C13. Drive is append-only for everyone but the operator: in every reachable state, whatever an agent or a service
  asks over HTTP or MCP or streams, and whatever the sweeper and the checks do, the versions stay and new ones come
  behind them, no artifact goes and none changes its current version but to a version just stored for it, and no
  stored file is replaced or lost its name.\<close>

theorem drive_append_only:
  assumes "drive_reach en ok y" and "\<forall>b. dn_sha en b \<noteq> []" and "agent_act en a" and "act_fresh a y"
  shows "appended (dy_store y) (dy_store (act en a y))"
proof -
  have y: "sys_ok y" using tables.law_reach [OF assms(1)] assms(2) by auto
  show ?thesis
  proof (cases "\<exists>w h c. a = ActHttp w h c")
    case True
    then obtain w h c where a: "a = ActHttp w h c" by blast
    then have "store_moves {MvQuiet, MvArtifact} (dy_store y) (snd (drive_http en w h c (dy_store y)))"
      using agent_http assms(3,4) by (simp add: act_fresh_def)
    then have "appended (dy_store y) (snd (drive_http en w h c (dy_store y)))"
      by (rule appended_moves) (simp add: agent_kinds_def)
    then show ?thesis using a by (auto simp: case_prod_beta intro: appended_same)
  next
    case False
    then have "act_moves a \<subseteq> agent_kinds" using assms(3) by (cases a) (auto simp: agent_kinds_def)
    then show ?thesis using appended_moves [OF act_steps [OF y assms(4)]] assms(2) by blast
  qed
qed

theorem drive_append_only_witness:
  "appended (dy_store dd4) (dy_store dd5) \<and> db_versions (ds_db (dy_store dd5)) = [dd_version]"
proof -
  have "appended (dy_store dd4) (dy_store dd5)"
    unfolding dd5_def by (rule drive_append_only [OF dd_reach4 _ _ dd_fresh4]) simp_all
  then show ?thesis by (simp add: dd5_eq dd_fields5)
qed

end
