(* ===== verification/BoardIds.thy ===== *)
theory BoardIds
  imports BoardTypes "HOL-Library.Multiset"
begin

text \<open>
  The identifiers of the Board (\<open>ids.js\<close>) and the parser of the plan note's allowlist block
  (\<open>core/plan-parse.js\<close>). SHA-256 and HMAC are arguments of the definitions that use them, as
  is \<open>JSON.parse\<close>; row ids are natural numbers (a reference longer than 2^53 is out of scope).
\<close>

section \<open>References\<close>

definition pad :: nat where "pad = 6"

definition ticket_ref :: "nat \<Rightarrow> string" where
  "ticket_ref n = ''T-'' @ pad_start pad (CHR ''0'') (nat_str n)"

definition approval_ref :: "nat \<Rightarrow> string" where
  "approval_ref n = ''A-'' @ pad_start pad (CHR ''0'') (nat_str n)"

definition all_digits :: "string \<Rightarrow> bool" where
  "all_digits s = (s \<noteq> [] \<and> list_all is_digit s)"

definition parse_ref :: "string \<Rightarrow> string \<Rightarrow> nat option" where
  "parse_ref prefix ref =
     (let s = trim ref in
      if starts_with prefix s \<and> all_digits (drop (length prefix) s)
      then Some (digits_val (drop (length prefix) s))
      else if all_digits s then Some (digits_val s)
      else None)"

definition parse_ticket_id :: "string \<Rightarrow> nat option" where
  "parse_ticket_id = parse_ref ''T-''"

definition parse_approval_id :: "string \<Rightarrow> nat option" where
  "parse_approval_id = parse_ref ''A-''"

lemma all_digits_nat_str [simp]: "all_digits (nat_str n)"
  by (simp add: all_digits_def)

lemma pad_start_digits: "list_all is_digit (pad_start k (CHR ''0'') (nat_str n))"
  by (simp add: pad_start_def list_all_iff is_digit_def)
    (use nat_str_digits in \<open>auto simp: list_all_iff is_digit_def\<close>)

lemma pad_start_nonempty: "pad_start k c (nat_str n) \<noteq> []"
  by (simp add: pad_start_def)

lemma digits_val_pad: "digits_val (pad_start k (CHR ''0'') (nat_str n)) = n"
  by (simp add: pad_start_def)

lemma trim_digits_suffix:
  assumes "s \<noteq> []" and "list_all is_digit s" and "p = [] \<or> \<not> is_ws (hd p)"
  shows "trim (p @ s) = p @ s"
proof (rule trim_id)
  from assms(1,2) have d: "is_digit (hd s)" "is_digit (last s)"
    by (auto simp: list_all_iff)
  show "p @ s \<noteq> []" using assms(1) by simp
  show "\<not> is_ws (hd (p @ s))"
    using assms(3) digit_not_ws [OF d(1)] by (cases p) auto
  show "\<not> is_ws (last (p @ s))" using digit_not_ws [OF d(2)] assms(1) by simp
qed

lemma parse_ref_of_ref:
  assumes "p \<noteq> []" and "\<not> is_ws (hd p)"
  shows "parse_ref p (p @ pad_start k (CHR ''0'') (nat_str n)) = Some n"
proof -
  let ?d = "pad_start k (CHR ''0'') (nat_str n)"
  have "trim (p @ ?d) = p @ ?d"
    by (rule trim_digits_suffix) (simp_all add: pad_start_nonempty pad_start_digits assms)
  then show ?thesis
    by (simp add: parse_ref_def Let_def starts_with_def all_digits_def pad_start_nonempty
        pad_start_digits digits_val_pad)
qed

lemma parse_ref_bare: "parse_ref (c # cs) (nat_str n) = Some n" if "\<not> is_digit c"
proof -
  have "trim (nat_str n) = nat_str n"
    using trim_digits_suffix [of "nat_str n" "[]"] by simp
  moreover have "\<not> starts_with (c # cs) (nat_str n)"
    using nat_str_digits [of n] that
    by (cases "nat_str n") (auto simp: starts_with_def)
  ultimately show ?thesis by (simp add: parse_ref_def Let_def)
qed

section \<open>Canonical JSON\<close>

fun canonical_json :: "json \<Rightarrow> string" where
  "canonical_json (JArr xs) = ''['' @ join '','' (map canonical_json xs) @ '']''"
| "canonical_json (JObj kvs) =
     ''{'' @ join '','' (map (\<lambda>(k, s). js_quote k @ '':'' @ s)
       (sort_key fst (map (\<lambda>(k, v). (k, canonical_json v)) kvs))) @ ''}''"
| "canonical_json v = json_str v"

definition params_hash :: "(string \<Rightarrow> string) \<Rightarrow> json \<Rightarrow> string" where
  "params_hash sha v = ''sha256:'' @ sha (canonical_json v)"

definition plan_hash :: "(string \<Rightarrow> string) \<Rightarrow> string \<Rightarrow> string" where
  "plan_hash sha bytes = ''sha256:'' @ sha bytes"

definition wazuh_spawn_key :: "(string \<Rightarrow> string) \<Rightarrow> string \<Rightarrow> string \<Rightarrow> string \<Rightarrow> string" where
  "wazuh_spawn_key sha agent cve st = sha (agent @ '' '' @ cve @ '' '' @ st)"

lemma filter_eq_single: "distinct zs \<Longrightarrow> k \<in> set zs \<Longrightarrow> filter (\<lambda>x. x = k) zs = [k]"
proof (induction zs)
  case Nil
  then show ?case by simp
next
  case (Cons z zs)
  show ?case
  proof (cases "z = k")
    case True
    with Cons.prems have "filter (\<lambda>x. x = k) zs = []" by (auto simp: filter_empty_conv)
    with True show ?thesis by simp
  next
    case False
    with Cons show ?thesis by simp
  qed
qed

lemma sort_key_fst_mset:
  assumes "mset xs = mset ys" and "distinct (map fst xs)"
  shows "sort_key fst xs = sort_key fst (ys :: ('a::linorder \<times> 'b) list)"
proof (rule sym, rule properties_for_sort_key)
  show "mset (sort_key fst xs) = mset ys" using assms(1) by simp
  show "sorted (map fst (sort_key fst xs))" by simp
  have d: "inj_on fst (set xs)" using assms(2) by (simp add: distinct_map)
  fix k assume "k \<in> set (sort_key fst xs)"
  then have k: "k \<in> set xs" by simp
  have *: "filter (\<lambda>x. fst k = fst x) zs = [k]" if "mset zs = mset xs" for zs
  proof -
    have "distinct xs" using assms(2) by (simp add: distinct_map)
    with that have z: "distinct zs" "set zs = set xs"
      by (metis mset_eq_imp_distinct_iff, metis mset_eq_setD)
    have "filter (\<lambda>x. fst k = fst x) zs = filter (\<lambda>x. x = k) zs"
      by (rule filter_cong) (use d k z(2) in \<open>auto dest: inj_onD\<close>)
    with filter_eq_single [OF z(1)] k z(2) show ?thesis by simp
  qed
  show "filter (\<lambda>x. fst k = fst x) (sort_key fst xs) = filter (\<lambda>x. fst k = fst x) ys"
    using * [of "sort_key fst xs"] * [of ys] assms(1) by simp
qed

section \<open>The allowlist block of a plan note\<close>

record invocation =
  i_seq :: nat
  i_key :: string
  i_params :: json
  i_host :: "json option"

text \<open>
  The pattern is a fence line \<open>```board-allowlist\<close>, white space, a newline, the shortest text
  that is followed by a newline and a closing fence. \<open>after_newlines\<close> lists what may follow the
  newline the pattern asks for, in the order the greedy \<open>\\s*\<close> tries them.
\<close>

fun before :: "string \<Rightarrow> string \<Rightarrow> string option" where
  "before pat [] = (if pat = [] then Some [] else None)"
| "before pat (c # s) =
     (if starts_with pat (c # s) then Some [] else map_option ((#) c) (before pat s))"

fun after_newlines :: "string \<Rightarrow> string list" where
  "after_newlines [] = []"
| "after_newlines (c # s) =
     (if is_ws c then after_newlines s @ (if c = CHR 0x0A then [s] else []) else [])"

definition fence_open :: string where "fence_open = ''```board-allowlist''"

definition fence_close :: string where "fence_close = CHR 0x0A # ''```''"

fun first_some :: "('a \<Rightarrow> 'b option) \<Rightarrow> 'a list \<Rightarrow> 'b option" where
  "first_some f [] = None"
| "first_some f (x # xs) = (case f x of None \<Rightarrow> first_some f xs | Some y \<Rightarrow> Some y)"

fun fence_block :: "string \<Rightarrow> string option" where
  "fence_block [] = None"
| "fence_block (c # s) =
     (case (if starts_with fence_open (c # s)
            then first_some (before fence_close)
                   (after_newlines (drop (length fence_open) (c # s)))
            else None) of
        Some b \<Rightarrow> Some b
      | None \<Rightarrow> fence_block s)"

fun parse_invocation :: "nat \<Rightarrow> json \<Rightarrow> exn + invocation" where
  "parse_invocation i e =
     (case jget ''playbook_key'' e of
        Some (JStr k) \<Rightarrow>
          if k = [] then Inl (err PLAN_UNPARSEABLE)
          else Inr \<lparr>i_seq = i + 1, i_key = k,
                 i_params = the (coalesce (jget ''params'' e) (Some (JObj []))),
                 i_host = coalesce (jget ''host_id'' e) None\<rparr>
      | _ \<Rightarrow> Inl (err PLAN_UNPARSEABLE))"

fun parse_list :: "nat \<Rightarrow> json list \<Rightarrow> exn + invocation list" where
  "parse_list i [] = Inr []"
| "parse_list i (x # xs) =
     and_then (parse_invocation i x) (\<lambda>v. and_then (parse_list (i + 1) xs) (\<lambda>vs. Inr (v # vs)))"

definition parse_playbook_invocations ::
  "(string \<Rightarrow> json option) \<Rightarrow> string \<Rightarrow> exn + invocation list" where
  "parse_playbook_invocations jparse txt =
     (case fence_block txt of
        None \<Rightarrow> Inl (err PLAN_UNPARSEABLE)
      | Some b \<Rightarrow>
         (case jparse b of
            Some (JArr arr) \<Rightarrow>
              if arr = [] then Inl (err PLAN_UNPARSEABLE) else parse_list 0 arr
          | _ \<Rightarrow> Inl (err PLAN_UNPARSEABLE)))"

lemma parse_invocation_ok:
  "parse_invocation i x = Inr v \<Longrightarrow> i_seq v = i + 1 \<and> i_key v \<noteq> []"
  by (auto split: option.splits json.splits if_splits)

lemma parse_list_seqs: "parse_list i xs = Inr vs \<Longrightarrow> map i_seq vs = [i + 1 ..< i + 1 + length vs]"
proof (induction xs arbitrary: i vs)
  case Nil
  then show ?case by simp
next
  case (Cons x xs)
  then obtain v ws where p: "parse_invocation i x = Inr v" "parse_list (i + 1) xs = Inr ws"
    and vs: "vs = v # ws"
    by auto
  from Cons.IH [OF p(2)] have "map i_seq ws = [i + 2 ..< i + 2 + length ws]" by (simp del: upt_Suc)
  with parse_invocation_ok [OF p(1)] vs show ?case
    by (subst upt_conv_Cons) (simp_all del: upt_Suc)
qed

lemma parse_list_Nil: "parse_list i xs = Inr [] \<Longrightarrow> xs = []"
  by (cases xs) auto

lemma parse_list_keys: "parse_list i xs = Inr vs \<Longrightarrow> v \<in> set vs \<Longrightarrow> i_key v \<noteq> []"
proof (induction xs arbitrary: i vs)
  case Nil
  then show ?case by simp
next
  case (Cons x xs)
  then show ?case using parse_invocation_ok by auto
qed

lemma parse_playbook_ok:
  assumes "parse_playbook_invocations jp txt = Inr vs"
  shows "vs \<noteq> []" and "map i_seq vs = [1 ..< 1 + length vs]" and "\<forall>v \<in> set vs. i_key v \<noteq> []"
proof -
  from assms obtain arr where a: "arr \<noteq> []" "parse_list 0 arr = Inr vs"
    by (auto simp: parse_playbook_invocations_def split: option.splits json.splits if_splits)
  show "vs \<noteq> []" using a parse_list_Nil by blast
  show "map i_seq vs = [1 ..< 1 + length vs]"
    using parse_list_seqs [OF a(2)] by (simp del: upt_Suc)
  from parse_list_keys [OF a(2)] show "\<forall>v \<in> set vs. i_key v \<noteq> []" by blast
qed

end
