(* ===== verification/BoardDb.thy ===== *)
theory BoardDb
  imports BoardIds
begin

text \<open>
  The Board's store (\<open>db/schema.js\<close>): one record per table row, one \<open>board\<close> record of all
  tables, in the columns and order of the schema; the append-only audit log and the op_id
  table (\<open>service/audit.js\<close>). A table is the list of its rows in rowid order. An AUTOINCREMENT
  key is drawn from the counter beside its table. Timestamps are epoch milliseconds
  throughout: the ISO strings of the source name the same instants in the same order.

  A handler that runs in \<open>tx.immediate\<close> (\<open>db/tx.js\<close>) is a function from the store to
  \<open>exn + (response \<times> store)\<close>: \<open>Inl\<close> is the rolled-back transaction, and the server-sent events a
  handler queues are appended to \<open>b_events\<close>, so a rollback discards them too. Posting to the
  Chat service is best effort and outside the model.
\<close>

section \<open>Values of a numeric column\<close>

text \<open>\<open>priority\<close> and \<open>severity\<close> have integer affinity: a text that is not a numeral is stored as is.\<close>

datatype sqlval = SInt int | SText string

fun sqlval_le :: "sqlval \<Rightarrow> sqlval \<Rightarrow> bool" where
  "sqlval_le (SInt m) (SInt n) = (m \<le> n)"
| "sqlval_le (SInt _) (SText _) = True"
| "sqlval_le (SText _) (SInt _) = False"
| "sqlval_le (SText s) (SText t) = (s \<le> t)"

instantiation sqlval :: linorder
begin

definition less_eq_sqlval :: "sqlval \<Rightarrow> sqlval \<Rightarrow> bool" where
  "less_eq_sqlval = sqlval_le"

definition less_sqlval :: "sqlval \<Rightarrow> sqlval \<Rightarrow> bool" where
  "less_sqlval x y = (sqlval_le x y \<and> \<not> sqlval_le y x)"

instance
proof
  fix x y z :: sqlval
  show "(x < y) = (x \<le> y \<and> \<not> y \<le> x)" by (simp add: less_eq_sqlval_def less_sqlval_def)
  show "x \<le> x" by (cases x) (simp_all add: less_eq_sqlval_def)
  show "x \<le> y \<Longrightarrow> y \<le> z \<Longrightarrow> x \<le> z"
    by (cases x; cases y; cases z) (auto simp: less_eq_sqlval_def)
  show "x \<le> y \<Longrightarrow> y \<le> x \<Longrightarrow> x = y" by (cases x; cases y) (auto simp: less_eq_sqlval_def)
  show "x \<le> y \<or> y \<le> x" by (cases x; cases y) (auto simp: less_eq_sqlval_def)
qed

end

definition int_literal :: "string \<Rightarrow> int option" where
  "int_literal s =
     (if all_digits s then Some (int (digits_val s))
      else if starts_with ''-'' s \<and> all_digits (drop 1 s) then Some (- int (digits_val (drop 1 s)))
      else None)"

fun int_affinity :: "json \<Rightarrow> exn + sqlval" where
  "int_affinity (JNum n) = Inr (SInt n)"
| "int_affinity (JStr s) = Inr (case int_literal s of Some n \<Rightarrow> SInt n | None \<Rightarrow> SText s)"
| "int_affinity JNull = Inl SqliteConstraint"
| "int_affinity _ = Inl BindError"

text \<open>A JavaScript number bound to a text column arrives as a real: 5 is stored as \<open>5.0\<close>.\<close>

fun text_affinity :: "json \<Rightarrow> exn + string option" where
  "text_affinity (JStr s) = Inr (Some s)"
| "text_affinity (JNum n) = Inr (Some (int_str n @ ''.0''))"
| "text_affinity JNull = Inr None"
| "text_affinity _ = Inl BindError"

section \<open>Rows\<close>

record ticket =
  t_id :: nat
  t_kind :: tkind
  t_parent :: "nat option"
  t_class :: cclass
  t_spawned :: "string option"
  t_depth :: nat
  t_type :: "string option"
  t_title :: "string option"
  t_body :: "string option"
  t_status :: status
  t_quar :: bool
  t_phase :: "phase option"
  t_lane :: "lane option"
  t_signals :: "json option"
  t_host :: "string option"
  t_team :: "string option"
  t_prio :: sqlval
  t_sev :: sqlval
  t_claimed_by :: "string option"
  t_claimed_at :: "int option"
  t_lease :: "int option"
  t_renewals :: nat
  t_fence :: "int option"
  t_proposer :: "string option"
  t_origin :: origin
  t_taint :: bool
  t_sources :: "string list option"
  t_note :: "string option"
  t_rev :: "string option"
  t_version :: nat
  t_spawn_key :: "string option"
  t_wall :: "int option"
  t_reason :: "string option"
  t_held :: bool
  t_held_reason :: "string option"
  t_approval :: "nat option"
  t_created :: int
  t_updated :: int
  t_done :: "int option"

record lock =
  l_rid :: string
  l_kind :: string
  l_ticket :: "nat option"
  l_agent :: "string option"
  l_hold :: "hold option"
  l_lease :: "int option"
  l_gen :: int

record approval =
  a_id :: nat
  a_ticket :: nat
  a_host :: string
  a_hash :: string
  a_note :: string
  a_rev :: string
  a_class :: string
  a_proposer :: string
  a_approver :: string
  a_akind :: akind
  a_decision :: "string option"
  a_status :: astatus
  a_granted_at :: int
  a_consumed_at :: "int option"
  a_consumed_by :: "string option"
  a_run :: "string option"
  a_op :: "string option"

record allow =
  al_approval :: nat
  al_seq :: nat
  al_key :: string
  al_params :: string
  al_host :: string
  al_class :: "string option"

record cevent =
  ce_id :: nat
  ce_ticket :: nat
  ce_kind :: string
  ce_from :: "phase option"
  ce_to :: "phase option"
  ce_actor :: "string option"
  ce_role :: "string option"
  ce_guard :: "string option"
  ce_round :: "nat option"
  ce_note :: "string option"
  ce_rev :: "string option"
  ce_params :: "json option"
  ce_reason :: "string option"
  ce_created :: int
  ce_op :: "string option"

record tnote =
  n_ticket :: nat
  n_note :: string
  n_role :: "string option"
  n_at :: int
  n_by :: "string option"

datatype veto = VNone | VRaised | VClearedAR | VClearedOp

datatype hstatus = HOpen | HConverged | HEscalated

record huddle =
  h_ticket :: nat
  h_lane :: "lane option"
  h_round :: nat
  h_cap :: "int option"
  h_deadline :: "int option"
  h_paused :: "int option"
  h_pause_total :: int
  h_positions :: "string list"
  h_dissents :: nat
  h_veto :: veto
  h_veto_by :: "string option"
  h_po :: "nat option"
  h_status :: hstatus

record wip =
  w_scope :: string
  w_subject :: "string option"
  w_cap :: int

record trigger =
  tr_ticket :: nat
  tr_kind :: string
  tr_cron :: "string option"
  tr_template :: "json option"
  tr_suppress :: bool

record oprow =
  o_sub :: string
  o_op :: string
  o_hash :: "string option"
  o_response :: "json option"
  o_created :: int

record auth_state =
  k_epoch :: int
  k_level :: string
  k_drain :: "int option"
  k_updated :: "int option"

record audit =
  au_id :: nat
  au_ts :: int
  au_actor :: "string option"
  au_surface :: "string option"
  au_action :: string
  au_ticket :: "nat option"
  au_approval :: "nat option"
  au_from :: "string option"
  au_to :: "string option"
  au_fields :: "json option"
  au_op :: "string option"
  au_fence :: "int option"
  au_outcome :: string

record board =
  b_tickets :: "ticket list"
  b_next_ticket :: nat
  b_locks :: "lock list"
  b_deps :: "(nat \<times> nat) list"
  b_approvals :: "approval list"
  b_next_approval :: nat
  b_allows :: "allow list"
  b_cevents :: "cevent list"
  b_next_cevent :: nat
  b_notes :: "tnote list"
  b_huddles :: "huddle list"
  b_wips :: "wip list"
  b_max_depth :: int
  b_triggers :: "trigger list"
  b_ops :: "oprow list"
  b_auth :: auth_state
  b_audits :: "audit list"
  b_next_audit :: nat
  b_meta :: "(string \<times> string) list"
  b_events :: "(string \<times> json) list"

text \<open>The configuration values the services read (\<open>config.js\<close>).\<close>

record config =
  c_lease_ttl :: int
  c_wall_cap :: int
  c_fleet :: int
  c_gate_min :: nat
  c_gate_threshold :: rat
  c_gate_window :: int
  c_wip_global :: int
  c_wip_agent :: int
  c_round_cap :: int
  c_light_round_cap :: int
  c_timebox :: int
  c_min_roster :: nat
  c_curation :: string
  c_wazuh_secret :: "string option"
  c_tier_enabled :: bool
  c_revocations_url :: "string option"
  c_dev_noauth :: bool
  c_kill_staleness :: int
  c_ceiling :: nat

section \<open>Statements on the store\<close>

definition get_ticket :: "board \<Rightarrow> nat \<Rightarrow> ticket option" where
  "get_ticket b k = row_of t_id k (b_tickets b)"

definition get_lock :: "board \<Rightarrow> string \<Rightarrow> lock option" where
  "get_lock b rid = row_of l_rid rid (b_locks b)"

definition get_approval :: "board \<Rightarrow> nat \<Rightarrow> approval option" where
  "get_approval b k = row_of a_id k (b_approvals b)"

definition get_huddle :: "board \<Rightarrow> nat \<Rightarrow> huddle option" where
  "get_huddle b k = row_of h_ticket k (b_huddles b)"

definition upd_tickets :: "(ticket \<Rightarrow> bool) \<Rightarrow> (ticket \<Rightarrow> ticket) \<Rightarrow> board \<Rightarrow> board" where
  "upd_tickets p f b = b\<lparr>b_tickets := update_where p f (b_tickets b)\<rparr>"

definition upd_locks :: "(lock \<Rightarrow> bool) \<Rightarrow> (lock \<Rightarrow> lock) \<Rightarrow> board \<Rightarrow> board" where
  "upd_locks p f b = b\<lparr>b_locks := update_where p f (b_locks b)\<rparr>"

definition upd_approvals :: "(approval \<Rightarrow> bool) \<Rightarrow> (approval \<Rightarrow> approval) \<Rightarrow> board \<Rightarrow> board" where
  "upd_approvals p f b = b\<lparr>b_approvals := update_where p f (b_approvals b)\<rparr>"

definition upd_huddle :: "nat \<Rightarrow> (huddle \<Rightarrow> huddle) \<Rightarrow> board \<Rightarrow> board" where
  "upd_huddle k f b = b\<lparr>b_huddles := update_where (\<lambda>h. h_ticket h = k) f (b_huddles b)\<rparr>"

definition meta_get :: "board \<Rightarrow> string \<Rightarrow> string option" where
  "meta_get b k = map_of (b_meta b) k"

text \<open>\<open>INSERT OR REPLACE\<close> deletes the row with the same key and appends the new one.\<close>

definition meta_put :: "string \<Rightarrow> string \<Rightarrow> board \<Rightarrow> board" where
  "meta_put k v b = b\<lparr>b_meta := filter (\<lambda>(k', _). k' \<noteq> k) (b_meta b) @ [(k, v)]\<rparr>"

definition emit :: "string \<Rightarrow> (string \<times> json) list \<Rightarrow> board \<Rightarrow> board" where
  "emit typ data b = b\<lparr>b_events := b_events b @ [(typ, JObj data)]\<rparr>"

text \<open>\<open>JSON.stringify\<close> of an object literal leaves out the members that are undefined.\<close>

definition jfields :: "(string \<times> json option) list \<Rightarrow> json" where
  "jfields kvs = JObj (map (\<lambda>(k, v). (k, the v)) (filter (\<lambda>(_, v). v \<noteq> None) kvs))"

abbreviation jnat :: "nat \<Rightarrow> json" where "jnat n \<equiv> JNum (int n)"

section \<open>The audit log and op_id replay\<close>

definition audit_row :: "string \<Rightarrow> audit" where
  "audit_row action = \<lparr>au_id = 0, au_ts = 0, au_actor = None, au_surface = None,
     au_action = action, au_ticket = None, au_approval = None, au_from = None, au_to = None,
     au_fields = None, au_op = None, au_fence = None, au_outcome = ''ok''\<rparr>"

definition add_audit :: "int \<Rightarrow> audit \<Rightarrow> board \<Rightarrow> board" where
  "add_audit now r b = b\<lparr>
     b_audits := b_audits b @ [r\<lparr>au_id := b_next_audit b, au_ts := now,
       au_surface := (case au_surface r of None \<Rightarrow> Some ''internal'' | s \<Rightarrow> s)\<rparr>],
     b_next_audit := b_next_audit b + 1\<rparr>"

definition add_violation :: "int \<Rightarrow> audit \<Rightarrow> string \<Rightarrow> board \<Rightarrow> board" where
  "add_violation now r reason b = b\<lparr>
     b_audits := b_audits b @ [r\<lparr>au_id := b_next_audit b, au_ts := now, au_outcome := ''violation'',
       au_fields := (if reason = [] then None else Some (JObj [(''reason'', JStr reason)]))\<rparr>],
     b_next_audit := b_next_audit b + 1\<rparr>"

definition find_op :: "string \<Rightarrow> string \<Rightarrow> board \<Rightarrow> oprow option" where
  "find_op sub op b = row_of (\<lambda>r. (o_sub r, o_op r)) (sub, op) (b_ops b)"

definition check_op ::
  "string \<Rightarrow> string option \<Rightarrow> string option \<Rightarrow> board \<Rightarrow> exn + json option" where
  "check_op sub op hash b =
     (if \<not> truthy_str op then Inr None
      else case find_op sub (the op) b of
        None \<Rightarrow> Inr None
      | Some r \<Rightarrow>
          throw_if (o_hash r \<noteq> None \<and> hash \<noteq> None \<and> o_hash r \<noteq> hash) (err OP_MISMATCH)
          (throw_if (o_response r = None) (err OP_IN_PROGRESS)
          (Inr (o_response r))))"

definition record_op ::
  "int \<Rightarrow> string \<Rightarrow> string option \<Rightarrow> string option \<Rightarrow> json \<Rightarrow> board \<Rightarrow> board" where
  "record_op now sub op hash resp b =
     (if \<not> truthy_str op then b
      else b\<lparr>b_ops := b_ops b @ [\<lparr>o_sub = sub, o_op = the op, o_hash = hash,
        o_response = Some resp, o_created = now\<rparr>]\<rparr>)"

text \<open>\<open>const dedup = checkOp(\<dots>); if (dedup.replay) return dedup.response;\<close>\<close>

definition once ::
  "string \<Rightarrow> string option \<Rightarrow> string \<Rightarrow> board \<Rightarrow> exn + (json \<times> board) \<Rightarrow> exn + (json \<times> board)" where
  "once sub op hash b k =
     and_then (check_op sub op (Some hash) b)
       (\<lambda>d. case d of Some resp \<Rightarrow> Inr (resp, b) | None \<Rightarrow> k)"

lemma once_ok [tx_ok]:
  "once sub op hash b k = Inr x \<longleftrightarrow>
     (\<exists>resp. check_op sub op (Some hash) b = Inr (Some resp) \<and> x = (resp, b)) \<or>
     (check_op sub op (Some hash) b = Inr None \<and> k = Inr x)"
  by (auto simp: once_def split: option.splits)

lemma once_first [simp]: "check_op sub op (Some hash) b = Inr None \<Longrightarrow> once sub op hash b k = k"
  by (simp add: once_def)

lemma once_replay: "check_op sub op (Some hash) b = Inr (Some r) \<Longrightarrow> once sub op hash b k = Inr (r, b)"
  by (simp add: once_def)

lemma check_op_none [simp]: "\<not> truthy_str op \<Longrightarrow> check_op sub op hash b = Inr None"
  by (simp add: check_op_def)

lemma check_op_None [simp]: "check_op sub None hash b = Inr None"
  by (simp add: check_op_def)

lemma find_op_record_op:
  "find_op sub op b = None \<Longrightarrow> op \<noteq> [] \<Longrightarrow>
     find_op sub op (record_op now sub (Some op) hash resp b) =
       Some \<lparr>o_sub = sub, o_op = op, o_hash = hash, o_response = Some resp, o_created = now\<rparr>"
  by (simp add: find_op_def record_op_def row_of_append)

lemma check_op_first: "op \<noteq> [] \<Longrightarrow> check_op sub (Some op) hash b = Inr None \<Longrightarrow> find_op sub op b = None"
  by (auto simp: check_op_def split: option.splits)

text \<open>What a committed first call leaves behind is what a later call with the same key replays.\<close>

lemma check_op_replays:
  assumes "find_op sub op b = Some r" and "o_hash r = Some hash" and "o_response r = Some resp"
    and "op \<noteq> []"
  shows "check_op sub (Some op) (Some hash) b = Inr (Some resp)"
  using assms by (simp add: check_op_def)

end
