(* ===== verification/BoardGuardrails.thy ===== *)
theory BoardGuardrails
  imports BoardDb
begin

text \<open>
  The resource locks that mint fencing generations (the \<open>host_locks\<close> statements shared by
  \<open>service/claim.js\<close>, \<open>approval.js\<close>, \<open>transitions.js\<close> and \<open>ceremony.js\<close>) and the guardrails
  (\<open>service/guardrails.js\<close>): WIP caps, the lineage cap and the kill epoch.
\<close>

section \<open>Resource locks\<close>

definition resource_id_for :: "ticket \<Rightarrow> string" where
  "resource_id_for t = (if truthy_str (t_host t) then the (t_host t) else ''ticket:'' @ nat_str (t_id t))"

definition resource_kind_for :: "ticket \<Rightarrow> string" where
  "resource_kind_for t = (if truthy_str (t_host t) then ''host'' else ''ticket'')"

definition current_generation :: "board \<Rightarrow> string \<Rightarrow> int" where
  "current_generation b rid = (case get_lock b rid of None \<Rightarrow> 0 | Some l \<Rightarrow> l_gen l)"

text \<open>
  \<open>INSERT \<dots> ON CONFLICT DO UPDATE \<dots> WHERE claimed_by_ticket IS NULL RETURNING lock_generation\<close>:
  \<open>None\<close> when the statement changed no row.
\<close>

definition lock_acquire ::
  "string \<Rightarrow> string \<Rightarrow> hold \<Rightarrow> nat \<Rightarrow> string \<Rightarrow> int option \<Rightarrow> board \<Rightarrow> (int \<times> board) option" where
  "lock_acquire rid kind hk tid sub lease b =
     (case get_lock b rid of
        None \<Rightarrow> Some (1, b\<lparr>b_locks := b_locks b @
          [\<lparr>l_rid = rid, l_kind = kind, l_ticket = Some tid, l_agent = Some sub, l_hold = Some hk,
            l_lease = lease, l_gen = 1\<rparr>]\<rparr>)
      | Some l \<Rightarrow>
          if l_ticket l \<noteq> None then None
          else Some (l_gen l + 1, upd_locks (\<lambda>r. l_rid r = rid)
            (\<lambda>r. r\<lparr>l_ticket := Some tid, l_agent := Some sub, l_hold := Some hk,
                   l_lease := lease, l_gen := l_gen r + 1\<rparr>) b))"

definition freed :: "lock \<Rightarrow> lock" where
  "freed l = l\<lparr>l_ticket := None, l_agent := None, l_hold := None, l_lease := None,
     l_gen := l_gen l + 1\<rparr>"

definition freed_keep_lease :: "lock \<Rightarrow> lock" where
  "freed_keep_lease l = l\<lparr>l_ticket := None, l_agent := None, l_hold := None,
     l_gen := l_gen l + 1\<rparr>"

definition lock_release :: "string \<Rightarrow> nat \<Rightarrow> board \<Rightarrow> board" where
  "lock_release rid tid = upd_locks (\<lambda>l. l_rid l = rid \<and> l_ticket l = Some tid) freed"

definition lock_release_keep_lease :: "string \<Rightarrow> nat \<Rightarrow> board \<Rightarrow> board" where
  "lock_release_keep_lease rid tid =
     upd_locks (\<lambda>l. l_rid l = rid \<and> l_ticket l = Some tid) freed_keep_lease"

lemma freed_simps [simp]:
  "l_rid (freed l) = l_rid l" "l_ticket (freed l) = None" "l_gen (freed l) = l_gen l + 1"
  "l_hold (freed l) = None" "l_agent (freed l) = None"
  "l_rid (freed_keep_lease l) = l_rid l" "l_ticket (freed_keep_lease l) = None"
  "l_gen (freed_keep_lease l) = l_gen l + 1" "l_hold (freed_keep_lease l) = None"
  "l_agent (freed_keep_lease l) = None"
  by (simp_all add: freed_def freed_keep_lease_def)

text \<open>
  The holder and fence check every fenced write repeats: the lock's agent is the caller, and
  the token is present and equals the generation (\<open>Number(token)\<close>, so a token that is no
  integer is a token that differs).
\<close>

definition check_fence :: "string \<Rightarrow> string \<Rightarrow> int option \<Rightarrow> board \<Rightarrow> exn + 'a \<Rightarrow> exn + 'a" where
  "check_fence sub rid token b k =
     (case get_lock b rid of
        None \<Rightarrow> Inl (err NOT_HOLDER)
      | Some l \<Rightarrow>
          throw_if (l_agent l \<noteq> Some sub) (err NOT_HOLDER)
          (throw_if (token \<noteq> Some (l_gen l)) (Biz STALE_FENCING [(''current'', JNum (l_gen l))]) k))"

lemma check_fence_ok [simp, tx_ok]:
  "check_fence sub rid token b k = Inr x \<longleftrightarrow>
     (\<exists>l. get_lock b rid = Some l \<and> l_agent l = Some sub \<and> token = Some (l_gen l)) \<and> k = Inr x"
  by (auto simp: check_fence_def split: option.splits)

section \<open>WIP caps and the lineage cap\<close>

definition wip_cap :: "string \<Rightarrow> string option \<Rightarrow> board \<Rightarrow> int option" where
  "wip_cap scope subject b =
     (let dflt = map_option w_cap (row_of (\<lambda>w. (w_scope w, w_subject w)) (scope, None) (b_wips b))
      in if subject = None then dflt
         else case row_of (\<lambda>w. (w_scope w, w_subject w)) (scope, subject) (b_wips b) of
             Some w \<Rightarrow> Some (w_cap w)
           | None \<Rightarrow> dflt)"

definition wip_count_global :: "board \<Rightarrow> nat" where
  "wip_count_global b = count_where (\<lambda>t. t_status t = InProgress) (b_tickets b)"

definition wip_count_agent :: "string \<Rightarrow> board \<Rightarrow> nat" where
  "wip_count_agent sub b =
     count_where (\<lambda>t. t_claimed_by t = Some sub \<and> t_status t = InProgress) (b_tickets b)"

definition wip_count_team :: "string \<Rightarrow> board \<Rightarrow> nat" where
  "wip_count_team team b =
     count_where (\<lambda>t. t_team t = Some team \<and> t_status t = InProgress) (b_tickets b)"

definition cap_reached :: "int option \<Rightarrow> nat \<Rightarrow> bool" where
  "cap_reached cap n = (case cap of None \<Rightarrow> False | Some c \<Rightarrow> int n \<ge> c)"

text \<open>\<open>wipOk\<close>: \<open>None\<close> when every cap has room, else the scope and the cap that has not.\<close>

definition wip_block :: "string \<Rightarrow> string option \<Rightarrow> board \<Rightarrow> (string \<times> int) option" where
  "wip_block sub team b =
     (let g = wip_cap ''global'' None b; a = wip_cap ''per_agent'' (Some sub) b in
      if cap_reached g (wip_count_global b) then Some (''global'', the g)
      else if cap_reached a (wip_count_agent sub b) then Some (''per_agent'', the a)
      else if truthy_str team
        then let c = wip_cap ''per_team'' team b in
             if cap_reached c (wip_count_team (the team) b) then Some (''per_team'', the c) else None
      else None)"

definition wip_upsert :: "string \<Rightarrow> string option \<Rightarrow> int \<Rightarrow> board \<Rightarrow> board" where
  "wip_upsert scope subject cap b =
     (if subject \<noteq> None \<and> row_of (\<lambda>w. (w_scope w, w_subject w)) (scope, subject) (b_wips b) \<noteq> None
      then b\<lparr>b_wips := update_where (\<lambda>w. w_scope w = scope \<and> w_subject w = subject)
             (\<lambda>w. w\<lparr>w_cap := cap\<rparr>) (b_wips b)\<rparr>
      else b\<lparr>b_wips := b_wips b @ [\<lparr>w_scope = scope, w_subject = subject, w_cap = cap\<rparr>]\<rparr>)"

definition seed_defaults :: "config \<Rightarrow> board \<Rightarrow> board" where
  "seed_defaults cfg b =
     (if b_wips b = []
      then wip_upsert ''per_agent'' None (c_wip_agent cfg)
             (wip_upsert ''global'' None (c_wip_global cfg) b)
      else b)"

definition set_wip_cap :: "string \<Rightarrow> string option \<Rightarrow> int \<Rightarrow> board \<Rightarrow> board" where
  "set_wip_cap scope subject cap = wip_upsert scope subject cap"

definition set_lineage_depth :: "int \<Rightarrow> board \<Rightarrow> board" where
  "set_lineage_depth d b = b\<lparr>b_max_depth := d\<rparr>"

section \<open>The kill epoch\<close>

definition destructive_frozen :: "board \<Rightarrow> bool" where
  "destructive_frozen b = (k_level (b_auth b) = ''G1'' \<or> k_level (b_auth b) = ''G2'')"

definition claims_quiesced :: "board \<Rightarrow> bool" where
  "claims_quiesced b = (k_level (b_auth b) = ''G2'')"

definition in_drain_window :: "board \<Rightarrow> bool" where
  "in_drain_window b = (k_level (b_auth b) \<noteq> ''G0'' \<and> k_drain (b_auth b) \<noteq> None)"

definition kill_mirror_stale :: "config \<Rightarrow> int \<Rightarrow> board \<Rightarrow> bool" where
  "kill_mirror_stale cfg now b =
     (if \<not> truthy_str (c_revocations_url cfg) \<or> c_dev_noauth cfg then False
      else case k_updated (b_auth b) of
          None \<Rightarrow> True
        | Some u \<Rightarrow> now - u > c_kill_staleness cfg)"

definition mark_kill_synced :: "int \<Rightarrow> board \<Rightarrow> board" where
  "mark_kill_synced now b = b\<lparr>b_auth := (b_auth b)\<lparr>k_updated := Some now\<rparr>\<rparr>"

definition apply_kill :: "int \<Rightarrow> int option \<Rightarrow> string option \<Rightarrow> board \<Rightarrow> bool \<times> board" where
  "apply_kill now epoch level b =
     (let cur = b_auth b in
      if epoch \<noteq> None \<and> the epoch < k_epoch cur then (False, b)
      else
        let drain = (if level \<noteq> Some ''G0'' \<and> k_level cur = ''G0'' then Some now else k_drain cur)
        in (True, b\<lparr>b_auth :=
             \<lparr>k_epoch = (case epoch of Some e \<Rightarrow> e | None \<Rightarrow> k_epoch cur),
              k_level = (case level of Some l \<Rightarrow> l | None \<Rightarrow> k_level cur),
              k_drain = (if level = Some ''G0'' then None else drain),
              k_updated = Some now\<rparr>\<rparr>))"

text \<open>
  \<open>PUT /api/policy/wip\<close> and \<open>PUT /api/policy/lineage\<close> (\<open>api/http.js\<close>): the policy write and its
  audit row in one transaction. A cap that is no number is \<open>NaN\<close>, which SQLite stores as NULL,
  so the NOT NULL column refuses it: \<open>None\<close>.
\<close>

definition put_wip ::
  "int \<Rightarrow> principal \<Rightarrow> string \<Rightarrow> string option \<Rightarrow> int option \<Rightarrow> json \<Rightarrow> board \<Rightarrow> exn + (json \<times> board)" where
  "put_wip now p scope subject cap body b =
     need cap SqliteConstraint (\<lambda>c.
       Inr (JObj [(''ok'', JBool True)],
         add_audit now ((audit_row ''set_wip'')\<lparr>au_actor := Some (p_sub p),
             au_surface := Some ''http'', au_fields := Some body\<rparr>)
           (set_wip_cap scope subject c b)))"

definition put_lineage ::
  "int \<Rightarrow> principal \<Rightarrow> int option \<Rightarrow> json \<Rightarrow> board \<Rightarrow> exn + (json \<times> board)" where
  "put_lineage now p depth body b =
     need depth SqliteConstraint (\<lambda>d.
       Inr (JObj [(''ok'', JBool True)],
         add_audit now ((audit_row ''set_lineage'')\<lparr>au_actor := Some (p_sub p),
             au_surface := Some ''http'', au_fields := Some body\<rparr>)
           (set_lineage_depth d b)))"

section \<open>Facts\<close>

lemma wip_block_NoneD:
  assumes "wip_block sub team b = None"
  shows "\<not> cap_reached (wip_cap ''global'' None b) (wip_count_global b)"
    and "\<not> cap_reached (wip_cap ''per_agent'' (Some sub) b) (wip_count_agent sub b)"
    and "truthy_str team \<Longrightarrow> \<not> cap_reached (wip_cap ''per_team'' team b) (wip_count_team (the team) b)"
  using assms by (auto simp: wip_block_def Let_def split: if_splits)

lemma apply_kill_epoch: "k_epoch (b_auth b) \<le> k_epoch (b_auth (snd (apply_kill now e l b)))"
  by (auto simp: apply_kill_def Let_def split: option.splits)

lemma lock_acquire_gen:
  "lock_acquire rid kind hk tid sub lease b = Some (g, b') \<Longrightarrow> g = current_generation b rid + 1"
  by (auto simp: lock_acquire_def current_generation_def split: option.splits if_splits)

lemma lock_acquire_free:
  "lock_acquire rid kind hk tid sub lease b = Some (g, b') \<Longrightarrow>
     case get_lock b rid of None \<Rightarrow> True | Some l \<Rightarrow> l_ticket l = None"
  by (auto simp: lock_acquire_def split: option.splits if_splits)

lemma lock_acquire_frame:
  "lock_acquire rid kind hk tid sub lease b = Some (g, b') \<Longrightarrow>
     b' = b\<lparr>b_locks := b_locks b'\<rparr>"
  by (auto simp: lock_acquire_def upd_locks_def split: option.splits if_splits)

lemma lock_acquire_lookup:
  assumes "lock_acquire rid kind hk tid sub lease b = Some (g, b')"
  shows "\<exists>l. get_lock b' rid = Some l \<and> l_rid l = rid \<and> l_ticket l = Some tid
      \<and> l_agent l = Some sub \<and> l_hold l = Some hk \<and> l_gen l = g"
    and "r \<noteq> rid \<Longrightarrow> get_lock b' r = get_lock b r"
  using assms
  by (auto simp: lock_acquire_def get_lock_def upd_locks_def row_of_append row_of_update_key
      split: option.splits if_splits dest: row_of_key)

end
