(* ===== verification/BoardClaim.thy ===== *)
theory BoardClaim
  imports BoardGuardrails "HOL-Library.Product_Lexorder"
begin

text \<open>
  The claim engine (\<open>service/claim.js\<close>): claim, heartbeat, voluntary release, the reaper with
  its outage gate, the wall-clock escalation and the clearing of an outage hold. Each takes one
  reading of the clock. A ticket id that names no row behaves like a null id, so ids are
  natural numbers; only \<open>claim\<close> treats a null id specially (\<open>claim_next\<close>).
\<close>

section \<open>Eligibility\<close>

definition deps_ready :: "board \<Rightarrow> nat \<Rightarrow> bool" where
  "deps_ready b tid = list_all (\<lambda>(x, d). x = tid \<longrightarrow>
     (case get_ticket b d of None \<Rightarrow> True
      | Some s \<Rightarrow> t_status s = Done \<or> t_status s = Cancelled)) (b_deps b)"

definition parent_phase :: "board \<Rightarrow> ticket \<Rightarrow> phase option" where
  "parent_phase b t = (case t_parent t of None \<Rightarrow> None
     | Some p \<Rightarrow> (case get_ticket b p of None \<Rightarrow> None | Some q \<Rightarrow> t_phase q))"

definition ceremony_gate :: "board \<Rightarrow> ticket \<Rightarrow> bool" where
  "ceremony_gate b t = (case t_class t of
       General \<Rightarrow> True
     | Recon \<Rightarrow> rank_of (parent_phase b t) \<ge> 1
     | Execution \<Rightarrow> rank_of (parent_phase b t) \<ge> 4)"

definition host_free :: "board \<Rightarrow> ticket \<Rightarrow> bool" where
  "host_free b t = (case t_host t of None \<Rightarrow> True
     | Some h \<Rightarrow> (case get_lock b h of None \<Rightarrow> True | Some l \<Rightarrow> l_ticket l = None))"

definition eligible :: "string option \<Rightarrow> string option \<Rightarrow> board \<Rightarrow> ticket \<Rightarrow> bool" where
  "eligible team typ b t =
     (t_status t = Todo \<and> \<not> t_quar t \<and> \<not> t_held t \<and> deps_ready b (t_id t) \<and>
      ceremony_gate b t \<and> host_free b t \<and> int (t_depth t) \<le> b_max_depth b \<and>
      (team = None \<or> t_team t = team) \<and> (typ = None \<or> t_type t = typ))"

text \<open>\<open>ORDER BY priority, created_at LIMIT 1\<close>; rows that tie are taken in rowid order.\<close>

fun first_min :: "('r \<Rightarrow> 'k::linorder) \<Rightarrow> 'r list \<Rightarrow> 'r option" where
  "first_min key [] = None"
| "first_min key (x # xs) =
     (case first_min key xs of
        None \<Rightarrow> Some x
      | Some y \<Rightarrow> if key x \<le> key y then Some x else Some y)"

definition candidate :: "string option \<Rightarrow> string option \<Rightarrow> board \<Rightarrow> ticket option" where
  "candidate team typ b =
     first_min (\<lambda>t. (t_prio t, t_created t)) (filter (eligible team typ b) (b_tickets b))"

section \<open>Claim\<close>

definition claim_hash :: "nat option \<Rightarrow> string option \<Rightarrow> string option \<Rightarrow> string" where
  "claim_hash tid team typ = json_str (JObj [(''op'', JStr ''claim''),
     (''ticketId'', case tid of None \<Rightarrow> JNull | Some n \<Rightarrow> jnat n),
     (''team'', jstr team), (''type'', jstr typ)])"

definition wip_error :: "string \<times> int \<Rightarrow> exn" where
  "wip_error = (\<lambda>(scope, cap). Biz WIP_CAP [(''scope'', JStr scope), (''cap'', JNum cap)])"

definition select_targeted ::
  "nat \<Rightarrow> string \<Rightarrow> string option \<Rightarrow> board \<Rightarrow> exn + ticket" where
  "select_targeted tid sub team b =
     need (get_ticket b tid) (Biz NOT_FOUND [(''ticket_id'', jnat tid)]) (\<lambda>t.
     throw_if (t_status t \<noteq> Todo \<or> t_quar t \<or> t_held t)
       (Biz CLAIM_CONFLICT [(''current_owner'', jstr (t_claimed_by t)),
          (''ticket_version'', jnat (t_version t)), (''status'', JStr (status_str (t_status t)))])
     (throw_if (\<not> deps_ready b tid) (err DEP_UNMET)
     (throw_if (t_parent t \<noteq> None \<and> (t_class t = Execution \<or> t_class t = Recon) \<and>
          rank_of (parent_phase b t) < (if t_class t = Execution then 4 else 1))
       (Biz CLAIM_CONFLICT [(''child_class'', JStr (cclass_str (t_class t))),
          (''parent_phase'', jstr (map_option phase_str (parent_phase b t)))])
     (throw_if (int (t_depth t) > b_max_depth b)
       (Biz LINEAGE_CAP [(''lineage_depth'', jnat (t_depth t)), (''cap'', JNum (b_max_depth b))])
     (case wip_block sub (if t_team t = None then team else t_team t) b of
        Some w \<Rightarrow> Inl (wip_error w)
      | None \<Rightarrow> Inr t)))))"

definition ticket_claimed :: "string \<Rightarrow> int \<Rightarrow> int \<Rightarrow> int \<Rightarrow> ticket \<Rightarrow> ticket" where
  "ticket_claimed sub now lease gen t =
     t\<lparr>t_status := InProgress, t_claimed_by := Some sub, t_claimed_at := Some now,
       t_lease := Some lease, t_renewals := 0, t_fence := Some gen,
       t_version := t_version t + 1, t_updated := now\<rparr>"

definition do_claim ::
  "config \<Rightarrow> int \<Rightarrow> ticket \<Rightarrow> principal \<Rightarrow> string option \<Rightarrow> string \<Rightarrow> string \<Rightarrow> board
     \<Rightarrow> exn + (json \<times> board)" where
  "do_claim cfg now t p op hash surface b =
     (let sub = p_sub p; lease = now + c_lease_ttl cfg; rid = resource_id_for t in
      need (lock_acquire rid (resource_kind_for t) ClaimHold (t_id t) sub (Some lease) b)
        (Biz HOST_LOCKED [(''host_id'', jstr (t_host t)), (''resource_id'', JStr rid)]) (\<lambda>(gen, b1).
      throw_if (count_where (\<lambda>r. t_id r = t_id t \<and> t_status r = Todo \<and> \<not> t_quar r \<and> \<not> t_held r)
          (b_tickets b1) = 0)
        (Biz CLAIM_CONFLICT [(''ticket_id'', jnat (t_id t))])
      (let b2 = upd_tickets (\<lambda>r. t_id r = t_id t \<and> t_status r = Todo \<and> \<not> t_quar r \<and> \<not> t_held r)
             (ticket_claimed sub now lease gen) b1;
           b3 = (if truthy_num (t_wall t) then b2
                 else upd_tickets (\<lambda>r. t_id r = t_id t)
                        (\<lambda>r. r\<lparr>t_wall := Some (now + c_wall_cap cfg)\<rparr>) b2);
           resp = JObj [(''ticket_id'', jnat (t_id t)), (''host_id'', jstr (t_host t)),
             (''fencing_token'', JNum gen), (''lease_expires_at'', JNum lease),
             (''ticket_version'', jnat (t_version t + 1))];
           b4 = add_audit now ((audit_row ''claim'')\<lparr>au_actor := Some sub, au_surface := Some surface,
             au_ticket := Some (t_id t), au_from := Some ''todo'', au_to := Some ''in_progress'',
             au_op := op, au_fence := Some gen\<rparr>) b3;
           b5 = record_op now sub op (Some hash) resp b4
       in Inr (resp, emit ''ticket'' [(''ticket_id'', jnat (t_id t)), (''action'', JStr ''claim''),
             (''status'', JStr ''in_progress'')] b5))))"

text \<open>A replayed claim must still own the ticket under the token it was answered with.\<close>

definition replay_claim :: "json \<Rightarrow> string \<Rightarrow> board \<Rightarrow> exn + (json \<times> board)" where
  "replay_claim stored sub b =
     (case jget ''ticket_id'' stored of
        Some (JNum n) \<Rightarrow>
          (case get_ticket b (nat n) of
             Some t \<Rightarrow>
               throw_if (t_claimed_by t \<noteq> Some sub \<or>
                   Some (jint (t_fence t)) \<noteq> jget ''fencing_token'' stored)
                 (Biz STALE_FENCING [(''ticket_id'', JNum n)]) (Inr (stored, b))
           | None \<Rightarrow> Inl (Biz STALE_FENCING [(''ticket_id'', JNum n)]))
      | _ \<Rightarrow> Inl (err STALE_FENCING))"

definition no_work :: json where
  "no_work = JObj [(''code'', JStr ''NO_ELIGIBLE_WORK'')]"

definition claim ::
  "config \<Rightarrow> int \<Rightarrow> principal \<Rightarrow> nat option \<Rightarrow> string option \<Rightarrow> string option \<Rightarrow> string option
     \<Rightarrow> string \<Rightarrow> board \<Rightarrow> exn + (json \<times> board)" where
  "claim cfg now p tid team typ op surface b =
     (let sub = p_sub p; hash = claim_hash tid team typ in
      and_then (check_op sub op (Some hash) b) (\<lambda>d. case d of
        Some stored \<Rightarrow> replay_claim stored sub b
      | None \<Rightarrow>
          throw_if (claims_quiesced b) (err QUIESCED)
          (case tid of
             Some k \<Rightarrow> and_then (select_targeted k sub team b)
               (\<lambda>t. do_claim cfg now t p op hash surface b)
           | None \<Rightarrow>
               (case wip_block sub team b of
                  Some w \<Rightarrow> Inl (wip_error w)
                | None \<Rightarrow>
                    (case candidate team typ b of
                       None \<Rightarrow> Inr (no_work, b)
                     | Some t \<Rightarrow>
                         (case wip_block sub (t_team t) b of
                            Some w \<Rightarrow> Inl (wip_error w)
                          | None \<Rightarrow> do_claim cfg now t p op hash surface b))))))"

section \<open>Heartbeat and release\<close>

definition lease_hash :: "string \<Rightarrow> nat \<Rightarrow> int option \<Rightarrow> string" where
  "lease_hash oper tid token = json_str (jfields [(''op'', Some (JStr oper)),
     (''ticketId'', Some (jnat tid)), (''fencingToken'', map_option JNum token)])"

definition heartbeat ::
  "config \<Rightarrow> int \<Rightarrow> principal \<Rightarrow> nat \<Rightarrow> int option \<Rightarrow> string option \<Rightarrow> string option \<Rightarrow> board
     \<Rightarrow> exn + (json \<times> board)" where
  "heartbeat cfg now p tid token note op b =
     (let sub = p_sub p; hash = lease_hash ''heartbeat'' tid token in
      and_then (check_op sub op (Some hash) b) (\<lambda>d.
      need (get_ticket b tid) (Biz NOT_FOUND [(''ticket_id'', jnat tid)]) (\<lambda>t.
      need (get_lock b (resource_id_for t)) (Biz STALE_FENCING [(''ticket_id'', jnat tid)]) (\<lambda>l.
      throw_if (l_ticket l \<noteq> Some tid \<or> l_agent l \<noteq> Some sub)
        (Biz STALE_FENCING [(''ticket_id'', jnat tid)])
      (throw_if (token \<noteq> None \<and> token \<noteq> Some (l_gen l))
        (Biz STALE_FENCING [(''ticket_id'', jnat tid), (''current'', JNum (l_gen l))])
      (case d of Some stored \<Rightarrow> Inr (stored, b)
       | None \<Rightarrow>
          let lease = now + c_lease_ttl cfg;
              b1 = upd_locks (\<lambda>r. l_rid r = resource_id_for t \<and> l_ticket r = Some tid)
                     (\<lambda>r. r\<lparr>l_lease := Some lease\<rparr>) b;
              b2 = upd_tickets (\<lambda>r. t_id r = tid)
                     (\<lambda>r. r\<lparr>t_lease := Some lease, t_renewals := t_renewals r + 1, t_updated := now\<rparr>) b1;
              b3 = (if truthy_str note
                    then b2\<lparr>b_meta := map (\<lambda>(k, v). if k = ''progress:'' @ nat_str tid
                            then (k, take 2000 (the note)) else (k, v)) (b_meta b2)\<rparr>
                    else b2);
              resp = JObj [(''ticket_id'', jnat tid), (''fencing_token'', JNum (l_gen l)),
                (''lease_expires_at'', JNum lease)]
          in Inr (resp, record_op now sub op (Some hash) resp b3)))))))"

definition ticket_requeued :: "int \<Rightarrow> ticket \<Rightarrow> ticket" where
  "ticket_requeued now t = t\<lparr>t_status := Todo, t_claimed_by := None, t_claimed_at := None,
     t_lease := None, t_fence := None, t_updated := now\<rparr>"

definition release_ticket :: "int \<Rightarrow> nat \<Rightarrow> board \<Rightarrow> board" where
  "release_ticket now tid =
     upd_tickets (\<lambda>r. t_id r = tid \<and> t_status r = InProgress) (ticket_requeued now)"

definition bump_version :: "int \<Rightarrow> nat \<Rightarrow> board \<Rightarrow> board" where
  "bump_version now tid =
     upd_tickets (\<lambda>r. t_id r = tid) (\<lambda>r. r\<lparr>t_version := t_version r + 1, t_updated := now\<rparr>)"

definition release ::
  "int \<Rightarrow> principal \<Rightarrow> nat \<Rightarrow> int option \<Rightarrow> string option \<Rightarrow> string option \<Rightarrow> string \<Rightarrow> board
     \<Rightarrow> exn + (json \<times> board)" where
  "release now p tid token reason op surface b =
     (let sub = p_sub p; hash = lease_hash ''release'' tid token in
      once sub op hash b
      (need (get_ticket b tid) (Biz NOT_FOUND [(''ticket_id'', jnat tid)]) (\<lambda>t.
       need (get_lock b (resource_id_for t)) (err NOT_HOLDER) (\<lambda>l.
       throw_if (l_ticket l \<noteq> Some tid \<or> l_agent l \<noteq> Some sub) (err NOT_HOLDER)
       (throw_if (token \<noteq> None \<and> token \<noteq> Some (l_gen l))
         (Biz STALE_FENCING [(''current'', JNum (l_gen l))])
       (let b1 = release_ticket now tid b;
            b2 = lock_release (resource_id_for t) tid b1;
            b3 = bump_version now tid b2;
            resp = JObj [(''ticket_id'', jnat tid), (''status'', JStr ''todo''), (''released'', JBool True)];
            b4 = add_audit now ((audit_row ''release'')\<lparr>au_actor := Some sub, au_surface := Some surface,
              au_ticket := Some tid, au_from := Some ''in_progress'', au_to := Some ''todo'',
              au_op := op, au_fields := Some (jfields [(''reason'', map_option JStr reason)])\<rparr>) b3;
            b5 = record_op now sub op (Some hash) resp b4
        in Inr (resp, emit ''ticket'' [(''ticket_id'', jnat tid), (''action'', JStr ''release''),
              (''status'', JStr ''todo'')] b5)))))))"

section \<open>The reaper\<close>

text \<open>A1 board escalation: an in-progress ticket goes to review and its lock is freed.\<close>

definition ticket_escalated :: "string \<Rightarrow> int \<Rightarrow> ticket \<Rightarrow> ticket" where
  "ticket_escalated reason now t =
     t\<lparr>t_status := NeedsReview, t_reason := Some reason, t_claimed_by := None, t_lease := None,
       t_fence := None, t_version := t_version t + 1, t_updated := now\<rparr>"

definition escalation_audit :: "int \<Rightarrow> nat \<Rightarrow> string \<Rightarrow> board \<Rightarrow> board" where
  "escalation_audit now tid reason b =
     emit ''escalation'' [(''kind'', JStr ''board_escalation''), (''ticket_id'', jnat tid),
         (''machine_reason'', JStr reason)]
       (add_audit now ((audit_row ''board_escalation'')\<lparr>au_surface := Some ''internal'',
          au_ticket := Some tid, au_from := Some ''in_progress'', au_to := Some ''needs_review'',
          au_fields := Some (JObj [(''machine_reason'', JStr reason)])\<rparr>) b)"

definition claim_escalate :: "int \<Rightarrow> nat \<Rightarrow> string \<Rightarrow> string \<Rightarrow> board \<Rightarrow> board" where
  "claim_escalate now tid reason rid b =
     (case get_ticket b tid of
        None \<Rightarrow> b
      | Some t \<Rightarrow>
          if t_status t \<noteq> InProgress then b
          else
            let b1 = upd_tickets (\<lambda>r. t_id r = tid) (ticket_escalated reason now) b;
                b2 = (if rid \<noteq> [] then lock_release rid tid b1 else b1)
            in escalation_audit now tid reason b2)"

definition claim_holds :: "board \<Rightarrow> (lock \<times> ticket) list" where
  "claim_holds b =
     concat (map (\<lambda>l. case l_ticket l of None \<Rightarrow> []
        | Some k \<Rightarrow> (case get_ticket b k of None \<Rightarrow> [] | Some t \<Rightarrow> [(l, t)]))
       (filter (\<lambda>l. l_hold l = Some ClaimHold \<and> l_lease l \<noteq> None) (b_locks b)))"

definition lease_expired :: "int \<Rightarrow> lock \<times> ticket \<Rightarrow> bool" where
  "lease_expired now = (\<lambda>(l, t). \<not> t_held t \<and> the (l_lease l) < now \<and> t_status t = InProgress)"

definition live_wall_capped :: "int \<Rightarrow> lock \<times> ticket \<Rightarrow> bool" where
  "live_wall_capped now = (\<lambda>(l, t). \<not> t_held t \<and> the (l_lease l) \<ge> now \<and> truthy_num (t_wall t)
     \<and> the (t_wall t) < now \<and> t_status t = InProgress)"

definition agents_of :: "(lock \<times> ticket) list \<Rightarrow> string list" where
  "agents_of rows = remdups (concat (map (\<lambda>(l, t). if truthy_str (l_agent l) then [the (l_agent l)] else []) rows))"

definition outage :: "config \<Rightarrow> int \<Rightarrow> (lock \<times> ticket) list \<Rightarrow> bool" where
  "outage cfg now rows =
     (let live = agents_of (filter (\<lambda>(l, t). the (l_lease l) \<ge> now - c_gate_window cfg) rows);
          gone = agents_of (filter (lease_expired now) rows)
      in length live \<ge> c_gate_min cfg \<and>
         of_nat (length gone) / of_int (max 1 (c_fleet cfg)) > c_gate_threshold cfg)"

definition hold_ticket :: "int \<Rightarrow> nat \<Rightarrow> board \<Rightarrow> board" where
  "hold_ticket now tid = upd_tickets (\<lambda>r. t_id r = tid)
     (\<lambda>r. r\<lparr>t_held := True, t_held_reason := Some ''fleet_outage_hold'', t_updated := now\<rparr>)"

definition reap_one :: "int \<Rightarrow> lock \<times> ticket \<Rightarrow> nat list \<times> board \<Rightarrow> nat list \<times> board" where
  "reap_one now = (\<lambda>(l, t) (ids, b).
     let tid = t_id t in
     if count_where (\<lambda>r. l_rid r = l_rid l \<and> l_ticket r = Some tid) (b_locks b) = 0 then (ids, b)
     else
       let b1 = lock_release (l_rid l) tid b;
           b2 = release_ticket now tid b1;
           b3 = bump_version now tid b2;
           b4 = add_audit now ((audit_row ''reap'')\<lparr>au_surface := Some ''internal'',
             au_ticket := Some tid, au_from := Some ''in_progress'', au_to := Some ''todo'',
             au_fence := Some (l_gen l + 1)\<rparr>) b3
       in (ids @ [tid], emit ''ticket'' [(''ticket_id'', jnat tid), (''action'', JStr ''reap''),
             (''status'', JStr ''todo'')] b4))"

text \<open>The audit row of an outage hold also records the fraction, a float, which is left out.\<close>

definition reaper_sweep :: "config \<Rightarrow> int \<Rightarrow> board \<Rightarrow> (json \<times> nat list) \<times> board" where
  "reaper_sweep cfg now b =
     (let rows = claim_holds b;
          expired = filter (lease_expired now) rows;
          capped = filter (live_wall_capped now) rows;
          b1 = fold (\<lambda>(l, t). claim_escalate now (t_id t) ''max_renewal_cap'' (l_rid l)) capped b;
          caps = (''wall_capped'', jnat (length capped))
      in if expired = [] then
           ((JObj [(''reaped'', JNum 0), caps, (''held'', JNum 0)], []), b1)
         else if \<not> in_drain_window b1 \<and> outage cfg now rows then
           let b2 = fold (\<lambda>(l, t). hold_ticket now (t_id t)) expired b1;
               n = jnat (length expired);
               b3 = add_audit now ((audit_row ''fleet_outage_hold'')\<lparr>au_surface := Some ''internal'',
                 au_fields := Some (JObj [(''held_count'', n), (''fleet_size'', JNum (c_fleet cfg))])\<rparr>) b2
           in ((JObj [(''reaped'', JNum 0), caps, (''held'', n), (''outage_hold'', JBool True)], []),
               emit ''escalation'' [(''kind'', JStr ''fleet_anomaly''), (''held_count'', n)] b3)
         else
           let (ids, b2) = fold (reap_one now) expired ([], b1)
           in ((JObj [(''reaped'', jnat (length ids)), (''reaped_ids'', JArr (map jnat ids)), caps,
                  (''held'', JNum 0)], ids), b2))"

section \<open>Clearing an outage hold\<close>

definition ticket_unheld :: "int \<Rightarrow> ticket \<Rightarrow> ticket" where
  "ticket_unheld now t = t\<lparr>t_held := False, t_held_reason := None, t_status := Todo,
     t_claimed_by := None, t_lease := None, t_fence := None, t_version := t_version t + 1,
     t_updated := now\<rparr>"

definition clear_outage_hold :: "int \<Rightarrow> nat \<Rightarrow> board \<Rightarrow> json \<times> board" where
  "clear_outage_hold now tid b =
     (case get_ticket b tid of
        None \<Rightarrow> (JObj [(''cleared'', JBool False)], b)
      | Some t \<Rightarrow>
          if \<not> t_held t then (JObj [(''cleared'', JBool False)], b)
          else
            let b1 = lock_release (resource_id_for t) tid b;
                b2 = upd_tickets (\<lambda>r. t_id r = tid) (ticket_unheld now) b1;
                b3 = add_audit now ((audit_row ''clear_outage_hold'')\<lparr>au_surface := Some ''internal'',
                  au_ticket := Some tid, au_to := Some ''todo''\<rparr>) b2
            in (JObj [(''cleared'', JBool True)],
                emit ''ticket'' [(''ticket_id'', jnat tid), (''action'', JStr ''clear_hold''),
                  (''status'', JStr ''todo'')] b3))"

end
