(* ===== verification/BoardTickets.thy ===== *)
theory BoardTickets
  imports BoardClaim
begin

text \<open>
  Ticket creation and the server-derived columns, field updates, note links, dependencies,
  queries and the quarantine clear (\<open>service/tickets.js\<close>), and the API shape of a row
  (\<open>service/render.js\<close>).
\<close>

section \<open>Rendering\<close>

definition jref :: "(nat \<Rightarrow> string) \<Rightarrow> nat option \<Rightarrow> json" where
  "jref f x = (case x of None \<Rightarrow> JNull | Some n \<Rightarrow> JStr (f n))"

fun json_sqlval :: "sqlval \<Rightarrow> json" where
  "json_sqlval (SInt n) = JNum n"
| "json_sqlval (SText s) = JStr s"

definition render_ticket :: "ticket \<Rightarrow> json" where
  "render_ticket t = JObj [
     (''ticket_id'', JStr (ticket_ref (t_id t))),
     (''kind'', JStr (tkind_str (t_kind t))),
     (''parent_id'', jref ticket_ref (t_parent t)),
     (''child_class'', JStr (cclass_str (t_class t))),
     (''spawned_by'', jstr (t_spawned t)),
     (''lineage_depth'', jnat (t_depth t)),
     (''type'', jstr (t_type t)),
     (''title'', jstr (t_title t)),
     (''body'', jstr (t_body t)),
     (''status'', JStr (status_str (t_status t))),
     (''quarantine'', JBool (t_quar t)),
     (''ceremony_phase'', jstr (map_option phase_str (t_phase t))),
     (''lane'', jstr (map_option lane_str (t_lane t))),
     (''lane_signals'', case t_signals t of None \<Rightarrow> JNull | Some j \<Rightarrow> j),
     (''host_id'', jstr (t_host t)),
     (''team'', jstr (t_team t)),
     (''priority'', json_sqlval (t_prio t)),
     (''severity'', json_sqlval (t_sev t)),
     (''claimed_by'', jstr (t_claimed_by t)),
     (''claimed_at'', jint (t_claimed_at t)),
     (''lease_expires_at'', jint (t_lease t)),
     (''lease_renewals'', jnat (t_renewals t)),
     (''fencing_token'', jint (t_fence t)),
     (''proposer_id'', jstr (t_proposer t)),
     (''origin_kind'', JStr (origin_str (t_origin t))),
     (''taint_host_originated'', JBool (t_taint t)),
     (''taint_sources'', JArr (case t_sources t of None \<Rightarrow> [] | Some ss \<Rightarrow> map JStr ss)),
     (''version'', jnat (t_version t)),
     (''machine_reason'', jstr (t_reason t)),
     (''approval_id'', jref approval_ref (t_approval t)),
     (''wall_clock_cap_at'', jint (t_wall t)),
     (''created_at'', JNum (t_created t)),
     (''updated_at'', JNum (t_updated t)),
     (''done_at'', jint (t_done t))]"

definition render_allow :: "allow \<Rightarrow> json" where
  "render_allow a = JObj [(''seq'', jnat (al_seq a)), (''playbook_key'', JStr (al_key a)),
     (''params_hash'', JStr (al_params a)), (''host_id'', JStr (al_host a)),
     (''class_binding'', jstr (al_class a))]"

definition render_approval :: "approval \<Rightarrow> allow list \<Rightarrow> json" where
  "render_approval a allows = JObj [
     (''approval_id'', JStr (approval_ref (a_id a))),
     (''ticket_id'', JStr (ticket_ref (a_ticket a))),
     (''host_id'', JStr (a_host a)),
     (''plan_hash'', JStr (a_hash a)),
     (''plan_note_id'', JStr (a_note a)),
     (''plan_note_rev'', JStr (a_rev a)),
     (''action_class'', JStr (a_class a)),
     (''proposer_id'', JStr (a_proposer a)),
     (''approver_sub'', JStr (a_approver a)),
     (''approver_kind'', JStr (akind_str (a_akind a))),
     (''cmdb_decision_id'', jstr (a_decision a)),
     (''status'', JStr (astatus_str (a_status a))),
     (''granted_at'', JNum (a_granted_at a)),
     (''consumed_at'', jint (a_consumed_at a)),
     (''consumed_by'', jstr (a_consumed_by a)),
     (''run_id'', jstr (a_run a)),
     (''allowlist'', JArr (map render_allow allows))]"

text \<open>\<open>parseTicketId(t.ticket_id)\<close> of a rendered ticket.\<close>

definition rendered_id :: "json \<Rightarrow> nat option" where
  "rendered_id r = (case jget ''ticket_id'' r of Some (JStr s) \<Rightarrow> parse_ticket_id s | _ \<Rightarrow> None)"

lemma parse_ticket_ref [simp]: "parse_ticket_id (ticket_ref n) = Some n"
  unfolding parse_ticket_id_def ticket_ref_def by (rule parse_ref_of_ref) (simp_all add: is_ws_def)

lemma parse_approval_ref [simp]: "parse_approval_id (approval_ref n) = Some n"
  unfolding parse_approval_id_def approval_ref_def by (rule parse_ref_of_ref) (simp_all add: is_ws_def)

lemma parse_ticket_nat [simp]: "parse_ticket_id (nat_str n) = Some n"
  unfolding parse_ticket_id_def by (rule parse_ref_bare) (simp add: is_digit_def)

lemma parse_approval_nat [simp]: "parse_approval_id (nat_str n) = Some n"
  unfolding parse_approval_id_def by (rule parse_ref_bare) (simp add: is_digit_def)

lemma rendered_id_render [simp]: "rendered_id (render_ticket t) = Some (t_id t)"
  by (simp add: rendered_id_def render_ticket_def)

section \<open>Creation\<close>

record create_args =
  cr_title :: "string option"
  cr_type :: "string option"
  cr_body :: "string option"
  cr_host :: "string option"
  cr_parent :: "string option"
  cr_team :: "string option"
  cr_class :: cclass
  cr_kind :: tkind
  cr_origin :: "origin option"
  cr_born :: status
  cr_quar :: bool
  cr_reason :: "string option"
  cr_spawn :: "string option"
  cr_taint :: "string list"

text \<open>The defaults of the parameter object of \<open>create\<close>.\<close>

definition create_defaults :: create_args where
  "create_defaults = \<lparr>cr_title = None, cr_type = None, cr_body = None, cr_host = None,
     cr_parent = None, cr_team = None, cr_class = General, cr_kind = KTicket, cr_origin = None,
     cr_born = Todo, cr_quar = False, cr_reason = None, cr_spawn = None, cr_taint = []\<rparr>"

definition active_claim :: "string \<Rightarrow> board \<Rightarrow> ticket option" where
  "active_claim sub b =
     first_min (\<lambda>t. case t_claimed_at t of Some n \<Rightarrow> (0::nat, - n) | None \<Rightarrow> (1, 0))
       (filter (\<lambda>t. t_claimed_by t = Some sub \<and> t_status t = InProgress) (b_tickets b))"

definition add_source :: "string \<Rightarrow> string list \<Rightarrow> string list" where
  "add_source s xs = (if s \<in> set xs then xs else xs @ [s])"

definition create_hash :: "create_args \<Rightarrow> string" where
  "create_hash a = ''create:'' @ (if truthy_str (cr_spawn a) then the (cr_spawn a)
     else case cr_title a of Some s \<Rightarrow> s | None \<Rightarrow> ''undefined'')"

text \<open>
  The derived columns: parent, depth and team. The parent of an agent's ticket defaults to the
  ticket the agent holds, and its depth is one more than the deeper of parent and active claim.
\<close>

definition create_parent :: "create_args \<Rightarrow> bool \<Rightarrow> ticket option \<Rightarrow> nat option" where
  "create_parent a agent active =
     (case Option.bind (cr_parent a) parse_ticket_id of
        Some k \<Rightarrow> Some k
      | None \<Rightarrow> if agent then map_option t_id active else None)"

definition create_depth :: "bool \<Rightarrow> ticket option \<Rightarrow> ticket option \<Rightarrow> nat" where
  "create_depth agent prow active =
     (if agent then
        max (case prow of Some q \<Rightarrow> t_depth q + 1 | None \<Rightarrow> 1)
            (case active of Some q \<Rightarrow> t_depth q + 1 | None \<Rightarrow> 1)
      else 0)"

definition create_team :: "create_args \<Rightarrow> bool \<Rightarrow> ticket option \<Rightarrow> ticket option \<Rightarrow> string option" where
  "create_team a agent prow active =
     (let t1 = (if cr_team a = None then Option.bind prow t_team else cr_team a)
      in if t1 = None \<and> agent then Option.bind active t_team else t1)"

definition create_taint ::
  "config \<Rightarrow> create_args \<Rightarrow> origin \<Rightarrow> ticket option \<Rightarrow> string option \<Rightarrow> bool \<times> string list" where
  "create_taint cfg a org prow team =
     (let s0 = fold add_source (cr_taint a) [];
          hook = (org = OWebhook);
          s1 = (if hook then add_source ''webhook_host_originated'' s0 else s0);
          par = (case prow of Some q \<Rightarrow> t_taint q | None \<Rightarrow> False);
          s2 = (if par then add_source ''parent_inherited'' s1 else s1);
          cur = (truthy_str team \<and> team = Some (c_curation cfg));
          s3 = (if cur then add_source ''library_curation_origin'' s2 else s2)
      in (hook \<or> par \<or> cur \<or> cr_taint a \<noteq> [], s3))"

definition new_ticket ::
  "int \<Rightarrow> nat \<Rightarrow> create_args \<Rightarrow> origin \<Rightarrow> string option \<Rightarrow> nat option \<Rightarrow> nat \<Rightarrow> string option
     \<Rightarrow> bool \<times> string list \<Rightarrow> ticket" where
  "new_ticket now k a org spawned parent depth team taint =
     \<lparr>t_id = k, t_kind = cr_kind a, t_parent = parent, t_class = cr_class a, t_spawned = spawned,
      t_depth = depth, t_type = cr_type a, t_title = cr_title a, t_body = cr_body a,
      t_status = cr_born a, t_quar = cr_quar a, t_phase = None, t_lane = None, t_signals = None,
      t_host = cr_host a, t_team = team, t_prio = SInt 3, t_sev = SInt 3, t_claimed_by = None,
      t_claimed_at = None, t_lease = None, t_renewals = 0, t_fence = None, t_proposer = None,
      t_origin = org, t_taint = fst taint,
      t_sources = (if snd taint = [] then None else Some (snd taint)), t_note = None,
      t_rev = None, t_version = 0, t_spawn_key = cr_spawn a, t_wall = None, t_reason = cr_reason a,
      t_held = False, t_held_reason = None, t_approval = None, t_created = now, t_updated = now,
      t_done = None\<rparr>"

definition create_origin :: "principal \<Rightarrow> create_args \<Rightarrow> origin" where
  "create_origin p a = (case cr_origin a of
     Some g \<Rightarrow> g | None \<Rightarrow> if p_kind p = Agent then OAgent else OOperator)"

definition created_row :: "config \<Rightarrow> int \<Rightarrow> principal \<Rightarrow> create_args \<Rightarrow> board \<Rightarrow> ticket" where
  "created_row cfg now p a b =
     (let org = create_origin p a;
          agent = (org = OAgent);
          active = (if agent then active_claim (p_sub p) b else None);
          parent = create_parent a agent active;
          prow = Option.bind parent (get_ticket b);
          depth = create_depth agent prow active;
          team = create_team a agent prow active;
          taint = create_taint cfg a org prow team
      in new_ticket now (b_next_ticket b) a org (if agent then Some (p_sub p) else None)
           parent depth team taint)"

definition insert_ticket :: "ticket \<Rightarrow> board \<Rightarrow> board" where
  "insert_ticket row b = b\<lparr>b_tickets := b_tickets b @ [row], b_next_ticket := b_next_ticket b + 1\<rparr>"

text \<open>
  \<open>INSERT INTO tickets\<close>: the parent must exist (foreign key) and the spawn key be new (unique
  index), or the statement fails and the transaction rolls back.
\<close>

definition create ::
  "config \<Rightarrow> int \<Rightarrow> principal \<Rightarrow> create_args \<Rightarrow> string option \<Rightarrow> string \<Rightarrow> board
     \<Rightarrow> exn + (json \<times> board)" where
  "create cfg now p a op surface b =
     once (p_sub p) op (create_hash a) b
     (let row = created_row cfg now p a b in
      throw_if (t_parent row \<noteq> None \<and> get_ticket b (the (t_parent row)) = None) SqliteConstraint
     (throw_if (cr_spawn a \<noteq> None \<and> count_where (\<lambda>t. t_spawn_key t = cr_spawn a) (b_tickets b) \<noteq> 0)
        SqliteConstraint
     (let resp = render_ticket row;
          b1 = insert_ticket row b;
          b2 = add_audit now ((audit_row ''create'')\<lparr>au_actor := Some (p_sub p),
            au_surface := Some surface, au_ticket := Some (t_id row),
            au_to := Some (status_str (t_status row)), au_op := op,
            au_fields := Some (JObj [(''origin'', JStr (origin_str (t_origin row))),
              (''lineage_depth'', jnat (t_depth row)), (''quarantine'', JBool (t_quar row)),
              (''machine_reason'', jstr (t_reason row))])\<rparr>) b1;
          b3 = record_op now (p_sub p) op (Some (create_hash a)) resp b2
      in Inr (resp, emit ''ticket'' [(''ticket_id'', jnat (t_id row)), (''action'', JStr ''create''),
            (''status'', JStr (status_str (t_status row)))] b3))))"

lemma created_row_simps [simp]:
  "t_id (created_row cfg now p a b) = b_next_ticket b"
  "t_status (created_row cfg now p a b) = cr_born a"
  "t_quar (created_row cfg now p a b) = cr_quar a"
  "t_approval (created_row cfg now p a b) = None"
  "t_class (created_row cfg now p a b) = cr_class a"
  "t_origin (created_row cfg now p a b) = create_origin p a"
  "t_spawn_key (created_row cfg now p a b) = cr_spawn a"
  by (simp_all add: created_row_def new_ticket_def Let_def)

section \<open>Updates, note links\<close>

definition apply_field :: "string \<Rightarrow> json \<Rightarrow> exn + (ticket \<Rightarrow> ticket)" where
  "apply_field field v =
     (if field = ''priority'' then and_then (int_affinity v) (\<lambda>x. Inr (\<lambda>t. t\<lparr>t_prio := x\<rparr>))
      else if field = ''severity'' then and_then (int_affinity v) (\<lambda>x. Inr (\<lambda>t. t\<lparr>t_sev := x\<rparr>))
      else and_then (text_affinity v) (\<lambda>x. Inr (\<lambda>t. t\<lparr>t_body := x\<rparr>)))"

definition fence_if_claimed :: "ticket \<Rightarrow> string \<Rightarrow> int option \<Rightarrow> board \<Rightarrow> exn + 'a \<Rightarrow> exn + 'a" where
  "fence_if_claimed t sub token b k =
     (if t_status t = InProgress then check_fence sub (resource_id_for t) token b k else k)"

definition update_ticket ::
  "int \<Rightarrow> principal \<Rightarrow> nat \<Rightarrow> string \<Rightarrow> json \<Rightarrow> int option \<Rightarrow> nat option \<Rightarrow> string option \<Rightarrow> string
     \<Rightarrow> board \<Rightarrow> exn + (json \<times> board)" where
  "update_ticket now p tid field v token expected op surface b =
     throw_if (field \<notin> {''priority'', ''severity'', ''body_section''}) (err VALIDATION)
     (need (get_ticket b tid) (err NOT_FOUND) (\<lambda>t.
      throw_if (expected \<noteq> None \<and> expected \<noteq> Some (t_version t))
        (Biz VERSION_CONFLICT [(''current_version'', jnat (t_version t))])
      (fence_if_claimed t (p_sub p) token b
      (and_then (apply_field field v) (\<lambda>f.
       let b1 = upd_tickets (\<lambda>r. t_id r = tid)
             (\<lambda>r. (f r)\<lparr>t_version := t_version r + 1, t_updated := now\<rparr>) b;
           b2 = add_audit now ((audit_row ''update'')\<lparr>au_actor := Some (p_sub p),
             au_surface := Some surface, au_ticket := Some tid, au_op := op,
             au_fields := Some (JObj [(field, v)])\<rparr>) b1
       in Inr (JObj [(''ticket_id'', jnat tid), (''field'', JStr field), (''value'', v),
               (''version'', jnat (t_version t + 1))],
            emit ''ticket'' [(''ticket_id'', jnat tid), (''action'', JStr ''update'')] b2))))))"

definition upsert_note ::
  "nat \<Rightarrow> string \<Rightarrow> string option \<Rightarrow> int \<Rightarrow> string option \<Rightarrow> board \<Rightarrow> board" where
  "upsert_note tid note role now by b =
     (let same = (\<lambda>n. n_ticket n = tid \<and> n_note n = note) in
      if count_where same (b_notes b) \<noteq> 0
      then b\<lparr>b_notes := update_where same (\<lambda>n. n\<lparr>n_role := role, n_at := now\<rparr>) (b_notes b)\<rparr>
      else b\<lparr>b_notes := b_notes b @ [\<lparr>n_ticket = tid, n_note = note, n_role = role, n_at = now,
             n_by = by\<rparr>]\<rparr>)"

definition link_note ::
  "int \<Rightarrow> principal \<Rightarrow> nat \<Rightarrow> string option \<Rightarrow> int option \<Rightarrow> string option \<Rightarrow> string option \<Rightarrow> string
     \<Rightarrow> board \<Rightarrow> exn + (json \<times> board)" where
  "link_note now p tid note token role op surface b =
     need (get_ticket b tid) (err NOT_FOUND) (\<lambda>t.
     fence_if_claimed t (p_sub p) token b
     (need note SqliteConstraint (\<lambda>nid.
      let b1 = upsert_note tid nid role now (Some (p_sub p)) b;
          b2 = add_audit now ((audit_row ''link_note'')\<lparr>au_actor := Some (p_sub p),
            au_surface := Some surface, au_ticket := Some tid, au_op := op,
            au_fields := Some (JObj [(''note_id'', JStr nid), (''role'', jstr role)])\<rparr>) b1
      in Inr (JObj [(''ticket_id'', jnat tid), (''note_id'', JStr nid)], b2))))"

section \<open>Dependencies\<close>

text \<open>
  The recursive query: the successors of \<open>dep\<close>, then theirs, until no new ticket appears. One
  round per edge is enough, since every round but the last reaches a new edge target.
\<close>

definition succs :: "(nat \<times> nat) list \<Rightarrow> nat list \<Rightarrow> nat list" where
  "succs es xs = remdups (map snd (filter (\<lambda>(x, _). x \<in> set xs) es))"

fun grow :: "nat \<Rightarrow> (nat \<times> nat) list \<Rightarrow> nat list \<Rightarrow> nat list" where
  "grow 0 es xs = xs"
| "grow (Suc n) es xs =
     (let new = filter (\<lambda>y. y \<notin> set xs) (succs es xs)
      in if new = [] then xs else grow n es (xs @ new))"

definition dep_reach :: "(nat \<times> nat) list \<Rightarrow> nat \<Rightarrow> nat list" where
  "dep_reach es dep = grow (length es) es (succs es [dep])"

definition add_dependency ::
  "int \<Rightarrow> principal \<Rightarrow> nat option \<Rightarrow> nat option \<Rightarrow> string option \<Rightarrow> string \<Rightarrow> board
     \<Rightarrow> exn + (json \<times> board)" where
  "add_dependency now p tid dep op surface b =
     need tid (err VALIDATION) (\<lambda>k.
     need dep (err VALIDATION) (\<lambda>d.
     throw_if (k = d) (err DEP_CYCLE)
     (throw_if (get_ticket b k = None \<or> get_ticket b d = None) (err NOT_FOUND)
     (throw_if (k \<in> set (dep_reach (b_deps b) d)) (err DEP_CYCLE)
     (let b1 = (if (k, d) \<in> set (b_deps b) then b else b\<lparr>b_deps := b_deps b @ [(k, d)]\<rparr>);
          b2 = add_audit now ((audit_row ''add_dependency'')\<lparr>au_actor := Some (p_sub p),
            au_surface := Some surface, au_ticket := Some k,
            au_fields := Some (JObj [(''depends_on'', jnat d)]), au_op := op\<rparr>) b1
      in Inr (JObj [(''ticket_id'', jnat k), (''depends_on'', jnat d)], b2))))))"

section \<open>Queries\<close>

record query_args =
  q_status :: "string option"
  q_team :: "string option"
  q_host :: "string option"
  q_parent :: "string option"
  q_phase :: "string option"
  q_limit :: "int option"
  q_cursor :: int

definition q_matches :: "query_args \<Rightarrow> ticket \<Rightarrow> bool" where
  "q_matches q t =
     (int (t_id t) > q_cursor q \<and>
      (truthy_str (q_status q) \<longrightarrow> status_str (t_status t) = the (q_status q)) \<and>
      (truthy_str (q_team q) \<longrightarrow> t_team t = q_team q) \<and>
      (truthy_str (q_host q) \<longrightarrow> t_host t = q_host q) \<and>
      (q_parent q \<noteq> None \<longrightarrow> t_parent t \<noteq> None \<and> t_parent t = parse_ticket_id (the (q_parent q))) \<and>
      (truthy_str (q_phase q) \<longrightarrow> map_option phase_str (t_phase t) = q_phase q))"

text \<open>\<open>Math.min(Number(limit) || 50, 200)\<close>; SQLite reads a negative LIMIT as no limit.\<close>

definition q_effective_limit :: "query_args \<Rightarrow> int" where
  "q_effective_limit q = min (if truthy_num (q_limit q) then the (q_limit q) else 50) 200"

definition sql_limit :: "int \<Rightarrow> 'a list \<Rightarrow> 'a list" where
  "sql_limit n xs = (if n < 0 then xs else take (nat n) xs)"

definition query_rows :: "query_args \<Rightarrow> board \<Rightarrow> ticket list" where
  "query_rows q b =
     sql_limit (q_effective_limit q) (filter (q_matches q) (sort_key t_id (b_tickets b)))"

definition query :: "query_args \<Rightarrow> board \<Rightarrow> json" where
  "query q b =
     (let rows = query_rows q b in
      JObj [(''cursor'', if rows = [] then JNum (q_cursor q) else jnat (t_id (last rows))),
            (''items'', JArr (map render_ticket rows))])"

definition tickets_get :: "string \<Rightarrow> board \<Rightarrow> json option" where
  "tickets_get ref b = map_option render_ticket (Option.bind (parse_ticket_id ref) (get_ticket b))"

section \<open>Quarantine\<close>

definition ticket_unquarantined :: "string option \<Rightarrow> int \<Rightarrow> ticket \<Rightarrow> ticket" where
  "ticket_unquarantined host now t =
     t\<lparr>t_quar := False, t_host := host, t_reason := None, t_version := t_version t + 1,
       t_updated := now\<rparr>"

definition clear_quarantine ::
  "int \<Rightarrow> principal \<Rightarrow> nat \<Rightarrow> string option \<Rightarrow> string option \<Rightarrow> string \<Rightarrow> board
     \<Rightarrow> exn + (json \<times> board)" where
  "clear_quarantine now p tid host op surface b =
     need (get_ticket b tid) (err NOT_FOUND) (\<lambda>t.
     throw_if (\<not> t_quar t) (err VALIDATION)
     (let h = (if host = None then t_host t else host);
          b1 = upd_tickets (\<lambda>r. t_id r = tid) (ticket_unquarantined h now) b;
          b2 = add_audit now ((audit_row ''clear_quarantine'')\<lparr>au_actor := Some (p_sub p),
            au_surface := Some surface, au_ticket := Some tid, au_op := op,
            au_fields := Some (jfields [(''host_id'', map_option JStr host)])\<rparr>) b1
      in Inr (JObj [(''ticket_id'', jnat tid), (''quarantine'', JBool False), (''host_id'', jstr h)],
           emit ''ticket'' [(''ticket_id'', jnat tid), (''action'', JStr ''clear_quarantine'')] b2)))"

end
