(* ===== verification/BoardApproval.thy ===== *)
theory BoardApproval
  imports BoardTickets
begin

text \<open>
  The Board as a client of Notes and CMDB (\<open>clients/index.js\<close>

section \<open>The clients of Notes and CMDB\<close>). The network is the argument
  \<open>w_fetch\<close> of the record \<open>world\<close>: the JSON document a GET of an URL answers, \<open>None\<close> for an
  error status, a timeout or an unreachable service. The cryptographic primitives and
  \<open>JSON.parse\<close> are its other fields.
\<close>

record world =
  w_fetch :: "string \<Rightarrow> json option"
  w_notes_url :: string
  w_cmdb_url :: string
  w_sha :: "string \<Rightarrow> string"
  w_hmac :: "string \<Rightarrow> string \<Rightarrow> string"
  w_jparse :: "string \<Rightarrow> json option"

section \<open>Notes\<close>

definition notes_revision_bytes ::
  "world \<Rightarrow> string \<Rightarrow> string option \<Rightarrow> exn + (string \<times> string option)" where
  "notes_revision_bytes w note rv =
     (let q = (case rv of None \<Rightarrow> [] | Some r \<Rightarrow> ''?rev='' @ encode_uri r) in
      case w_fetch w (w_notes_url w @ ''/api/notes/'' @ encode_uri note @ q) of
        None \<Rightarrow> Inl (Biz DEP_UNAVAILABLE [(''dep'', JStr ''notes'')])
      | Some j \<Rightarrow>
          Inr (case coalesce (jget ''raw'' j) (coalesce (jget ''body'' j) (jget ''content'' j)) of
                 None \<Rightarrow> [] | Some JNull \<Rightarrow> [] | Some v \<Rightarrow> js_string v,
               if nullish (jget ''rev'' j) then rv else Some (js_string (the (jget ''rev'' j)))))"

definition notes_effective_taint :: "world \<Rightarrow> string \<Rightarrow> string option \<Rightarrow> exn + bool" where
  "notes_effective_taint w note rv =
     (case w_fetch w (w_notes_url w @ ''/api/notes/'' @ encode_uri note @ ''/taint?rev='' @
             encode_uri (case rv of None \<Rightarrow> ''null'' | Some r \<Rightarrow> r)) of
        None \<Rightarrow> Inl (Biz DEP_UNAVAILABLE [(''dep'', JStr ''notes'')])
      | Some j \<Rightarrow> Inr (js_truthy (coalesce (jget ''effective'' j) (jget ''effective_taint'' j))))"

section \<open>CMDB\<close>

definition cmdb_get :: "world \<Rightarrow> string \<Rightarrow> exn + json" where
  "cmdb_get w path = (case w_fetch w (w_cmdb_url w @ path) of None \<Rightarrow> Inl Upstream | Some j \<Rightarrow> Inr j)"

definition cmdb_task_type :: "world \<Rightarrow> string \<Rightarrow> exn + json" where
  "cmdb_task_type w typ = cmdb_get w (''/v1/task-types/'' @ encode_uri typ)"

definition cmdb_host_tier :: "world \<Rightarrow> string \<Rightarrow> exn + json" where
  "cmdb_host_tier w host = cmdb_get w (''/v1/hosts/'' @ encode_uri host @ ''/policy'')"

definition cmdb_playbook_class :: "world \<Rightarrow> string \<Rightarrow> exn + json" where
  "cmdb_playbook_class w key = cmdb_get w (''/v1/playbooks/'' @ encode_uri key)"

definition cmdb_verdict :: "world \<Rightarrow> string \<Rightarrow> string \<Rightarrow> exn + json" where
  "cmdb_verdict w host cls = cmdb_get w (''/v1/verdict?host_id='' @ encode_uri host @
     ''&action_class='' @ encode_uri cls @ ''&aud=board'')"

text \<open>An unmapped or unreachable agent has no host: the ticket will be quarantined.\<close>

definition cmdb_agent_to_host :: "world \<Rightarrow> string \<Rightarrow> json option" where
  "cmdb_agent_to_host w agent =
     (case cmdb_get w (''/v1/wazuh-agents/'' @ encode_uri agent) of
        Inl _ \<Rightarrow> None
      | Inr j \<Rightarrow> if nullish (jget ''host_id'' j) then None else jget ''host_id'' j)"

section \<open>The approval record\<close>

text \<open>
  The approval record (\<open>service/approval.js\<close>): propose, grant, consume, revoke. \<open>propose\<close> and
  \<open>grant\<close> are asynchronous: they read the store and fetch from Notes and CMDB before their
  transaction, which may find a store that has moved on. Each is two definitions, the
  preparation in the earlier store and the commit in the later one; the system model lets any
  other operation run between the two.
\<close>

section \<open>Action classes\<close>

definition class_rank :: "string \<Rightarrow> nat option" where
  "class_rank c = map_of [(''benign'', 0), (''standard'', 1), (''destructive'', 2), (''irreversible'', 3)] c"

definition rank_or :: "nat \<Rightarrow> string \<Rightarrow> nat" where
  "rank_or d c = (case class_rank c of Some n \<Rightarrow> n | None \<Rightarrow> d)"

definition worst_class :: "string list \<Rightarrow> string" where
  "worst_class cs = fold (\<lambda>c worst. if rank_or 1 c > rank_or 0 worst then c else worst) cs ''benign''"

definition non_auto_classes :: "string list" where
  "non_auto_classes = [''destructive'', ''irreversible'']"

section \<open>Proposal\<close>

definition ticket_proposed :: "string \<Rightarrow> string \<Rightarrow> string option \<Rightarrow> int \<Rightarrow> ticket \<Rightarrow> ticket" where
  "ticket_proposed sub note rv now t =
     t\<lparr>t_status := AwaitingApproval, t_proposer := Some sub, t_note := Some note, t_rev := rv,
       t_claimed_by := None, t_lease := None, t_fence := None, t_version := t_version t + 1,
       t_updated := now\<rparr>"

definition replace_note ::
  "nat \<Rightarrow> string \<Rightarrow> string option \<Rightarrow> int \<Rightarrow> string option \<Rightarrow> board \<Rightarrow> board" where
  "replace_note tid note role now by b =
     b\<lparr>b_notes := filter (\<lambda>n. \<not> (n_ticket n = tid \<and> n_note n = note)) (b_notes b) @
        [\<lparr>n_ticket = tid, n_note = note, n_role = role, n_at = now, n_by = by\<rparr>]\<rparr>"

text \<open>The gate outside the transaction: the plan slice must parse.\<close>

definition propose_prepare :: "world \<Rightarrow> string \<Rightarrow> string option \<Rightarrow> exn + unit" where
  "propose_prepare w note rv =
     and_then (notes_revision_bytes w note rv) (\<lambda>(bytes, _).
     and_then (parse_playbook_invocations (w_jparse w) bytes) (\<lambda>_. Inr ()))"

definition propose_commit ::
  "int \<Rightarrow> principal \<Rightarrow> nat \<Rightarrow> string \<Rightarrow> string option \<Rightarrow> int option \<Rightarrow> string option \<Rightarrow> string
     \<Rightarrow> board \<Rightarrow> exn + (json \<times> board)" where
  "propose_commit now p tid note rv token op surface b =
     need (get_ticket b tid) (err NOT_FOUND) (\<lambda>t.
     throw_if (t_status t \<noteq> InProgress) (err ILLEGAL_TRANSITION)
     (check_fence (p_sub p) (resource_id_for t) token b
     (let b1 = upd_tickets (\<lambda>r. t_id r = tid) (ticket_proposed (p_sub p) note rv now) b;
          b2 = lock_release (resource_id_for t) tid b1;
          b3 = replace_note tid note (Some ''plan'') now (Some (p_sub p)) b2;
          b4 = add_audit now ((audit_row ''propose'')\<lparr>au_actor := Some (p_sub p),
            au_surface := Some surface, au_ticket := Some tid, au_from := Some ''in_progress'',
            au_to := Some ''awaiting_approval'', au_op := op,
            au_fields := Some (jfields [(''plan_note_id'', Some (JStr note)),
              (''plan_note_rev'', map_option JStr rv)])\<rparr>) b3
      in Inr (JObj [(''ticket_id'', jnat tid), (''status'', JStr ''awaiting_approval''),
              (''proposer_id'', JStr (p_sub p))],
           emit ''ticket'' [(''ticket_id'', jnat tid), (''action'', JStr ''propose''),
             (''status'', JStr ''awaiting_approval'')] b4))))"

section \<open>Grant\<close>

record grant_prep =
  gp_note :: string
  gp_rev :: "string option"
  gp_hash :: string
  gp_bindings :: "(invocation \<times> string) list"
  gp_class :: string
  gp_tainted :: bool
  gp_verdict :: "json option"

fun bind_classes :: "world \<Rightarrow> invocation list \<Rightarrow> exn + (invocation \<times> string) list" where
  "bind_classes w [] = Inr []"
| "bind_classes w (i # js) =
     and_then (cmdb_playbook_class w (i_key i)) (\<lambda>pb.
     and_then (bind_classes w js) (\<lambda>tl1.
       Inr ((i, case coalesce (jget ''action_class'' pb) (jget ''class'' pb) of
                  None \<Rightarrow> ''standard'' | Some JNull \<Rightarrow> ''standard'' | Some v \<Rightarrow> js_string v) # tl1)))"

definition grant_prepare ::
  "config \<Rightarrow> world \<Rightarrow> int \<Rightarrow> akind \<Rightarrow> nat \<Rightarrow> board \<Rightarrow> exn + grant_prep" where
  "grant_prepare cfg w now ak tid b =
     throw_if (destructive_frozen b) (err AUTO_APPROVE_FORBIDDEN)
     (throw_if (kill_mirror_stale cfg now b) (err DEP_UNAVAILABLE)
     (need (get_ticket b tid) (err NOT_FOUND) (\<lambda>t.
      throw_if (t_status t \<noteq> AwaitingApproval) (err ILLEGAL_TRANSITION)
     (throw_if (\<not> truthy_str (t_host t)) (err VALIDATION)
     (throw_if (\<not> truthy_str (t_note t)) (err PLAN_UNPARSEABLE)
     (and_then (notes_revision_bytes w (the (t_note t)) (t_rev t)) (\<lambda>(bytes, _).
      and_then (parse_playbook_invocations (w_jparse w) bytes) (\<lambda>invs.
      and_then (bind_classes w invs) (\<lambda>bindings.
      and_then (notes_effective_taint w (the (t_note t)) (t_rev t)) (\<lambda>taint.
      let cls = worst_class (map snd bindings) in
      and_then (if ak = TierPolicy
                then and_then (cmdb_verdict w (the (t_host t)) cls) (\<lambda>v. Inr (Some v))
                else Inr None) (\<lambda>verdict.
      Inr \<lparr>gp_note = the (t_note t), gp_rev = t_rev t, gp_hash = plan_hash (w_sha w) bytes,
           gp_bindings = bindings, gp_class = cls, gp_tainted = (t_taint t \<or> taint),
           gp_verdict = verdict\<rparr>)))))))))))"

text \<open>The auto-approve floor: the reasons for which the tier policy may not approve.\<close>

definition floor_reasons :: "grant_prep \<Rightarrow> string list" where
  "floor_reasons g =
     (if gp_class g \<in> set non_auto_classes then [''destructive_or_irreversible''] else []) @
     (if gp_tainted g then [''tainted_inputs''] else []) @
     (if (case gp_verdict g of None \<Rightarrow> True
          | Some v \<Rightarrow> jget ''approval_mode'' v \<noteq> Some (JStr ''auto''))
      then [''no_auto_verdict''] else []) @
     (if (case gp_verdict g of None \<Rightarrow> False
          | Some v \<Rightarrow> jget ''in_window'' v = Some (JBool False))
      then [''out_of_window''] else [])"

definition allow_host :: "invocation \<Rightarrow> string \<Rightarrow> exn + string" where
  "allow_host i host =
     (if js_truthy (i_host i)
      then and_then (text_affinity (the (i_host i))) (\<lambda>s. need s SqliteConstraint Inr)
      else Inr host)"

fun allow_rows ::
  "(string \<Rightarrow> string) \<Rightarrow> nat \<Rightarrow> string \<Rightarrow> (invocation \<times> string) list \<Rightarrow> exn + allow list" where
  "allow_rows sha aid host [] = Inr []"
| "allow_rows sha aid host ((i, cls) # rest) =
     and_then (allow_host i host) (\<lambda>h.
     and_then (allow_rows sha aid host rest) (\<lambda>rows.
       Inr (\<lparr>al_approval = aid, al_seq = i_seq i, al_key = i_key i,
             al_params = params_hash sha (i_params i), al_host = h, al_class = Some cls\<rparr> # rows)))"

definition allowlist :: "board \<Rightarrow> nat \<Rightarrow> allow list" where
  "allowlist b aid = sort_key al_seq (filter (\<lambda>a. al_approval a = aid) (b_allows b))"

definition grant_hash :: "nat \<Rightarrow> string" where
  "grant_hash tid = ''grant:'' @ nat_str tid"

definition ticket_approved :: "nat \<Rightarrow> int \<Rightarrow> ticket \<Rightarrow> ticket" where
  "ticket_approved aid now t = t\<lparr>t_status := Approved, t_approval := Some aid,
     t_version := t_version t + 1, t_updated := now\<rparr>"

definition decision_of :: "json option \<Rightarrow> exn + string option" where
  "decision_of v =
     (case Option.bind v (jget ''decision_id'') of None \<Rightarrow> Inr None | Some d \<Rightarrow> text_affinity d)"

text \<open>The checks inside the transaction, and the rows they lead to.\<close>

definition grant_rows ::
  "world \<Rightarrow> int \<Rightarrow> principal \<Rightarrow> nat \<Rightarrow> akind \<Rightarrow> string option \<Rightarrow> grant_prep \<Rightarrow> board
     \<Rightarrow> exn + (approval \<times> allow list)" where
  "grant_rows w now p tid ak op g b =
     need (get_ticket b tid) TypeErr (\<lambda>t.
     throw_if (t_status t \<noteq> AwaitingApproval) (err ILLEGAL_TRANSITION)
     (throw_if (t_note t \<noteq> Some (gp_note g) \<or> t_rev t \<noteq> gp_rev g) (err PLAN_PIN_MOVED)
     (throw_if (Some (p_sub p) = t_proposer t \<or> Some (p_sub p) = t_claimed_by t) (err FOUR_EYES)
     (throw_if (ak = TierPolicy \<and> floor_reasons g \<noteq> [])
        (Biz AUTO_APPROVE_FORBIDDEN [(''reasons'', JArr (map JStr (floor_reasons g)))])
     (need (t_host t) SqliteConstraint (\<lambda>host.
      need (gp_rev g) SqliteConstraint (\<lambda>rv.
      need (t_proposer t) SqliteConstraint (\<lambda>proposer.
      and_then (decision_of (gp_verdict g)) (\<lambda>decision.
      and_then (allow_rows (w_sha w) (b_next_approval b) host (gp_bindings g)) (\<lambda>allows.
      Inr (\<lparr>a_id = b_next_approval b, a_ticket = tid, a_host = host, a_hash = gp_hash g,
            a_note = gp_note g, a_rev = rv, a_class = gp_class g, a_proposer = proposer,
            a_approver = p_sub p, a_akind = ak, a_decision = decision, a_status = Granted,
            a_granted_at = now, a_consumed_at = None, a_consumed_by = None, a_run = None,
            a_op = op\<rparr>, allows)))))))))))"

definition insert_approval :: "approval \<Rightarrow> allow list \<Rightarrow> board \<Rightarrow> board" where
  "insert_approval row allows b = b\<lparr>b_approvals := b_approvals b @ [row],
     b_next_approval := b_next_approval b + 1, b_allows := b_allows b @ allows\<rparr>"

definition grant_commit ::
  "world \<Rightarrow> int \<Rightarrow> principal \<Rightarrow> nat \<Rightarrow> akind \<Rightarrow> string option \<Rightarrow> string \<Rightarrow> grant_prep \<Rightarrow> board
     \<Rightarrow> exn + (json \<times> board)" where
  "grant_commit w now p tid ak op surface g b =
     once (p_sub p) op (grant_hash tid) b
     (and_then (grant_rows w now p tid ak op g b) (\<lambda>(row, allows).
      let aid = a_id row;
          b1 = insert_approval row allows b;
          b2 = upd_tickets (\<lambda>r. t_id r = tid) (ticket_approved aid now) b1;
          resp = render_approval row (allowlist b2 aid);
          b3 = add_audit now ((audit_row ''grant'')\<lparr>au_actor := Some (p_sub p),
            au_surface := Some surface, au_ticket := Some tid, au_approval := Some aid,
            au_from := Some ''awaiting_approval'', au_to := Some ''approved'', au_op := op,
            au_fields := Some (JObj [(''action_class'', JStr (gp_class g)),
              (''approver_kind'', JStr (akind_str ak))])\<rparr>) b2;
          b4 = record_op now (p_sub p) op (Some (grant_hash tid)) resp b3
      in Inr (resp, emit ''ticket'' [(''ticket_id'', jnat tid), (''action'', JStr ''grant''),
            (''status'', JStr ''approved''), (''approval_id'', JStr (approval_ref aid))] b4)))"

text \<open>A refused grant leaves a violation row, written by a transaction of its own.\<close>

definition refusal_reasons :: "exn \<Rightarrow> string" where
  "refusal_reasons e = (case e of
     Biz _ ds \<Rightarrow> (case map_of ds ''reasons'' of Some (JArr rs) \<Rightarrow> join '','' (map js_string rs) | _ \<Rightarrow> [])
   | _ \<Rightarrow> [])"

definition grant_finish ::
  "world \<Rightarrow> int \<Rightarrow> principal \<Rightarrow> nat \<Rightarrow> akind \<Rightarrow> string option \<Rightarrow> string \<Rightarrow> grant_prep \<Rightarrow> board
     \<Rightarrow> (exn + json) \<times> board" where
  "grant_finish w now p tid ak op surface g b =
     (case grant_commit w now p tid ak op surface g b of
        Inr (resp, b') \<Rightarrow> (Inr resp, b')
      | Inl e \<Rightarrow>
          (Inl e,
           let v = (\<lambda>action. (audit_row action)\<lparr>au_actor := Some (p_sub p),
                 au_surface := Some surface, au_ticket := Some tid\<rparr>)
           in if exn_code e = Some FOUR_EYES
              then add_violation now (v ''four_eyes_violation'') ''approver == proposer/claimant'' b
              else if exn_code e = Some AUTO_APPROVE_FORBIDDEN
              then add_violation now (v ''auto_approve_forbidden'') (refusal_reasons e) b
              else b))"

section \<open>Consume\<close>

definition consume_hash :: "nat \<Rightarrow> string" where
  "consume_hash aid = ''consume:'' @ nat_str aid"

definition approval_consumed :: "string \<Rightarrow> int \<Rightarrow> approval \<Rightarrow> approval" where
  "approval_consumed sub now a = a\<lparr>a_status := Consumed, a_consumed_at := Some now,
     a_consumed_by := Some sub\<rparr>"

definition ticket_executing :: "int \<Rightarrow> int \<Rightarrow> ticket \<Rightarrow> ticket" where
  "ticket_executing gen now t = t\<lparr>t_status := Executing, t_fence := Some gen,
     t_version := t_version t + 1, t_updated := now\<rparr>"

fun spent_error :: "astatus \<Rightarrow> exn" where
  "spent_error Consumed = err APPROVAL_CONSUMED"
| "spent_error Revoked = err APPROVAL_REVOKED"
| "spent_error Expired = err APPROVAL_EXPIRED"
| "spent_error Granted = err APPROVAL_CONSUMED"

definition consume_response :: "approval \<Rightarrow> allow list \<Rightarrow> int \<Rightarrow> json" where
  "consume_response a allows gen = JObj [
     (''approval_id'', JStr (approval_ref (a_id a))), (''ticket_id'', JStr (ticket_ref (a_ticket a))),
     (''host_id'', JStr (a_host a)), (''plan_hash'', JStr (a_hash a)),
     (''plan_note_id'', JStr (a_note a)), (''plan_note_rev'', JStr (a_rev a)),
     (''action_class'', JStr (a_class a)),
     (''allowlist'', JArr (map (\<lambda>x. JObj [(''seq'', jnat (al_seq x)),
        (''playbook_key'', JStr (al_key x)), (''params_hash'', JStr (al_params x))]) allows)),
     (''fencing_token'', JNum gen)]"

definition consume ::
  "config \<Rightarrow> int \<Rightarrow> principal \<Rightarrow> string \<Rightarrow> string option \<Rightarrow> string option \<Rightarrow> string option \<Rightarrow> string
     \<Rightarrow> board \<Rightarrow> exn + (json \<times> board)" where
  "consume cfg now p ref ticket host op surface b =
     need (parse_approval_id ref) (err NOT_FOUND) (\<lambda>aid.
     once (p_sub p) op (consume_hash aid) b
     (need (get_approval b aid) (err NOT_FOUND) (\<lambda>a.
      throw_if (destructive_frozen b) (err AUTO_APPROVE_FORBIDDEN)
     (throw_if (kill_mirror_stale cfg now b) (err DEP_UNAVAILABLE)
     (need (lock_acquire (a_host a) ''host'' ExecHold (a_ticket a) (p_sub p) None b)
        (Biz HOST_LOCKED [(''host_id'', JStr (a_host a))]) (\<lambda>(gen, b1).
      throw_if (a_status a \<noteq> Granted) (spent_error (a_status a))
     (let b2 = upd_approvals (\<lambda>r. a_id r = aid \<and> a_status r = Granted)
                 (approval_consumed (p_sub p) now) b1 in
      throw_if (host \<noteq> None \<and> host \<noteq> Some (a_host a)) (err VALIDATION)
     (throw_if ((case ticket of Some s \<Rightarrow> parse_ticket_id s | None \<Rightarrow> Some (a_ticket a)) \<noteq> Some (a_ticket a))
        (err VALIDATION)
     (throw_if (case get_ticket b2 (a_ticket a) of None \<Rightarrow> True | Some t \<Rightarrow> t_status t \<noteq> Approved)
        (err ILLEGAL_TRANSITION)
     (let b3 = upd_tickets (\<lambda>r. t_id r = a_ticket a \<and> t_status r = Approved)
                 (ticket_executing gen now) b2;
          resp = consume_response a (allowlist b3 aid) gen;
          b4 = add_audit now ((audit_row ''consume_approval'')\<lparr>au_actor := Some (p_sub p),
            au_surface := Some surface, au_ticket := Some (a_ticket a), au_approval := Some aid,
            au_from := Some ''approved'', au_to := Some ''executing'', au_op := op,
            au_fence := Some gen\<rparr>) b3;
          b5 = record_op now (p_sub p) op (Some (consume_hash aid)) resp b4
      in Inr (resp, emit ''ticket'' [(''ticket_id'', jnat (a_ticket a)), (''action'', JStr ''consume''),
            (''status'', JStr ''executing''), (''fencing_token'', JNum gen)] b5)))))))))))"

section \<open>Revoke and read\<close>

definition ticket_closed :: "status \<Rightarrow> int \<Rightarrow> ticket \<Rightarrow> ticket" where
  "ticket_closed s now t = t\<lparr>t_status := s, t_done := Some now, t_version := t_version t + 1,
     t_updated := now\<rparr>"

definition revoke_granted :: "nat option \<Rightarrow> board \<Rightarrow> board" where
  "revoke_granted aid b = (case aid of None \<Rightarrow> b
     | Some k \<Rightarrow> upd_approvals (\<lambda>r. a_id r = k \<and> a_status r = Granted) (\<lambda>r. r\<lparr>a_status := Revoked\<rparr>) b)"

definition release_host :: "ticket \<Rightarrow> board \<Rightarrow> board" where
  "release_host t b =
     (if truthy_str (t_host t) then lock_release_keep_lease (the (t_host t)) (t_id t) b else b)"

definition revoke ::
  "int \<Rightarrow> principal \<Rightarrow> nat \<Rightarrow> string option \<Rightarrow> string \<Rightarrow> board \<Rightarrow> exn + (json \<times> board)" where
  "revoke now p tid op surface b =
     need (get_ticket b tid) (err NOT_FOUND) (\<lambda>t.
     throw_if (t_status t \<noteq> Approved) (err ILLEGAL_TRANSITION)
     (let b1 = revoke_granted (t_approval t) b;
          b2 = upd_tickets (\<lambda>r. t_id r = tid) (ticket_closed Cancelled now) b1;
          b3 = release_host t b2;
          b4 = add_audit now ((audit_row ''revoke'')\<lparr>au_actor := Some (p_sub p),
            au_surface := Some surface, au_ticket := Some tid, au_approval := t_approval t,
            au_from := Some ''approved'', au_to := Some ''cancelled'', au_op := op\<rparr>) b3
      in Inr (JObj [(''ticket_id'', jnat tid), (''status'', JStr ''cancelled'')],
           emit ''ticket'' [(''ticket_id'', jnat tid), (''action'', JStr ''revoke''),
             (''status'', JStr ''cancelled'')] b4)))"

definition read_approval :: "string \<Rightarrow> board \<Rightarrow> json option" where
  "read_approval ref b =
     (case parse_approval_id ref of
        None \<Rightarrow> None
      | Some k \<Rightarrow> map_option (\<lambda>a. render_approval a (allowlist b k)) (get_approval b k))"

end
