(* ===== verification/BoardTransitions.thy ===== *)
theory BoardTransitions
  imports BoardApproval
begin

text \<open>
  The generic transitions (\<open>service/transitions.js\<close>): what an agent, an operator and the
  Gateway may cause. A refused agent transition leaves a violation row, so \<open>agent_check\<close>
  returns a store in either case.
\<close>

section \<open>Agents\<close>

definition log_violation ::
  "int \<Rightarrow> principal \<Rightarrow> ticket \<Rightarrow> string \<Rightarrow> string \<Rightarrow> string \<Rightarrow> board \<Rightarrow> board" where
  "log_violation now p t to surface reason =
     add_violation now ((audit_row ''illegal_transition'')\<lparr>au_actor := Some (p_sub p),
       au_surface := Some surface, au_ticket := Some (t_id t),
       au_from := Some (status_str (t_status t)), au_to := Some to\<rparr>) reason"

definition agent_check ::
  "int \<Rightarrow> principal \<Rightarrow> nat \<Rightarrow> string \<Rightarrow> string \<Rightarrow> board \<Rightarrow> (exn + ticket) \<times> board" where
  "agent_check now p tid to surface b =
     (case get_ticket b tid of
        None \<Rightarrow> (Inl (err NOT_FOUND), b)
      | Some t \<Rightarrow>
          if is_agent_forbidden_target to
          then (Inl (err ILLEGAL_TRANSITION), log_violation now p t to surface ''agent_forbidden_target'' b)
          else if \<not> agent_may_transition (t_status t) to
          then (Inl (err ILLEGAL_TRANSITION), log_violation now p t to surface ''illegal_agent_transition'' b)
          else (Inr t, b))"

definition transition_hash :: "nat \<Rightarrow> string \<Rightarrow> string" where
  "transition_hash tid to = ''transition:'' @ nat_str tid @ '':'' @ to"

definition ticket_moved :: "status \<Rightarrow> string option \<Rightarrow> int \<Rightarrow> ticket \<Rightarrow> ticket" where
  "ticket_moved s reason now t =
     t\<lparr>t_status := s, t_claimed_by := (if s = Blocked then t_claimed_by t else None),
       t_lease := None, t_fence := None, t_version := t_version t + 1, t_updated := now,
       t_reason := reason\<rparr>"

definition agent_move ::
  "int \<Rightarrow> principal \<Rightarrow> nat \<Rightarrow> status \<Rightarrow> int option \<Rightarrow> string option \<Rightarrow> string option \<Rightarrow> string
     \<Rightarrow> board \<Rightarrow> exn + (json \<times> board)" where
  "agent_move now p tid s token reason op surface b =
     once (p_sub p) op (transition_hash tid (status_str s)) b
     (need (get_ticket b tid) TypeErr (\<lambda>t.
      throw_if (t_status t \<noteq> InProgress) (err ILLEGAL_TRANSITION)
     (check_fence (p_sub p) (resource_id_for t) token b
     (let b1 = upd_tickets (\<lambda>r. t_id r = tid) (ticket_moved s reason now) b;
          b2 = lock_release (resource_id_for t) tid b1;
          resp = JObj [(''ticket_id'', jnat tid), (''status'', JStr (status_str s))];
          b3 = add_audit now ((audit_row ''transition'')\<lparr>au_actor := Some (p_sub p),
            au_surface := Some surface, au_ticket := Some tid,
            au_from := Some (status_str (t_status t)), au_to := Some (status_str s), au_op := op,
            au_fields := Some (jfields [(''reason'', map_option JStr reason)])\<rparr>) b2;
          b4 = record_op now (p_sub p) op (Some (transition_hash tid (status_str s))) resp b3
      in Inr (resp, emit ''ticket'' [(''ticket_id'', jnat tid), (''action'', JStr ''transition''),
            (''status'', JStr (status_str s))] b4)))))"

text \<open>
  The proposal by way of \<open>board.transition\<close>: the most recently linked note is the plan, its
  current revision is fetched and pinned, and the plan must parse; \<open>propose_commit\<close> follows.
\<close>

definition latest_note :: "nat \<Rightarrow> board \<Rightarrow> tnote option" where
  "latest_note tid b = first_min (\<lambda>n. - n_at n) (filter (\<lambda>n. n_ticket n = tid) (b_notes b))"

definition plan_pin :: "world \<Rightarrow> nat \<Rightarrow> board \<Rightarrow> exn + (string \<times> string option)" where
  "plan_pin w tid b =
     need (latest_note tid b) (err PLAN_UNPARSEABLE) (\<lambda>n.
     and_then (notes_revision_bytes w (n_note n) None) (\<lambda>(_, rv).
     and_then (propose_prepare w (n_note n) rv) (\<lambda>_. Inr (n_note n, rv))))"

definition settle :: "board \<Rightarrow> exn + (json \<times> board) \<Rightarrow> (exn + json) \<times> board" where
  "settle b r = (case r of Inl e \<Rightarrow> (Inl e, b) | Inr (resp, b') \<Rightarrow> (Inr resp, b'))"

definition agent_transition ::
  "world \<Rightarrow> int \<Rightarrow> principal \<Rightarrow> nat \<Rightarrow> string \<Rightarrow> int option \<Rightarrow> string option \<Rightarrow> string option \<Rightarrow> string
     \<Rightarrow> board \<Rightarrow> (exn + json) \<times> board" where
  "agent_transition w now p tid to token reason op surface b =
     (case agent_check now p tid to surface b of
        (Inl e, b1) \<Rightarrow> (Inl e, b1)
      | (Inr t, b1) \<Rightarrow>
          settle b1
            (if to = status_str AwaitingApproval
             then and_then (plan_pin w tid b1) (\<lambda>(note, rv). propose_commit now p tid note rv token op surface b1)
             else need (state_of to) TypeErr (\<lambda>s. agent_move now p tid s token reason op surface b1)))"

section \<open>Operators\<close>

definition ticket_operator_moved :: "status \<Rightarrow> int \<Rightarrow> ticket \<Rightarrow> ticket" where
  "ticket_operator_moved s now t = t\<lparr>t_status := s,
     t_done := (if is_terminal s then Some now else None), t_reason := None,
     t_version := t_version t + 1, t_updated := now\<rparr>"

definition granted_row :: "board \<Rightarrow> nat option \<Rightarrow> bool" where
  "granted_row b aid = (case aid of None \<Rightarrow> False
     | Some k \<Rightarrow> count_where (\<lambda>r. a_id r = k \<and> a_status r = Granted) (b_approvals b) \<noteq> 0)"

definition operator_transition ::
  "int \<Rightarrow> principal \<Rightarrow> nat \<Rightarrow> string \<Rightarrow> string option \<Rightarrow> string option \<Rightarrow> nat option \<Rightarrow> string
     \<Rightarrow> board \<Rightarrow> exn + (json \<times> board)" where
  "operator_transition now p tid to op reason expected surface b =
     need (get_ticket b tid) (err NOT_FOUND) (\<lambda>t.
     throw_if (expected \<noteq> None \<and> expected \<noteq> Some (t_version t))
       (Biz VERSION_CONFLICT [(''current_version'', jnat (t_version t))])
     (throw_if (\<not> operator_may_transition (t_status t) to) (err ILLEGAL_TRANSITION)
     (need (state_of to) TypeErr (\<lambda>s.
      let b1 = upd_tickets (\<lambda>r. t_id r = tid) (ticket_operator_moved s now) b;
          b2 = (if is_terminal s \<and> granted_row b1 (t_approval t) then
                  add_audit now ((audit_row ''revoke'')\<lparr>au_actor := Some (p_sub p),
                    au_surface := Some surface, au_ticket := Some tid, au_approval := t_approval t,
                    au_from := Some ''granted'', au_to := Some ''revoked'', au_op := op,
                    au_fields := Some (JObj [(''reason'', JStr (''ticket_'' @ to))])\<rparr>)
                    (release_host t (revoke_granted (t_approval t) b1))
                else b1);
          b3 = add_audit now ((audit_row ''operator_transition'')\<lparr>au_actor := Some (p_sub p),
            au_surface := Some surface, au_ticket := Some tid,
            au_from := Some (status_str (t_status t)), au_to := Some to, au_op := op,
            au_fields := Some (jfields [(''reason'', map_option JStr reason)])\<rparr>) b2
      in Inr (JObj [(''ticket_id'', jnat tid), (''status'', JStr to)],
           emit ''ticket'' [(''ticket_id'', jnat tid), (''action'', JStr ''operator_transition''),
             (''status'', JStr to)] b3)))))"

section \<open>The Gateway\<close>

definition outcome_hash :: "nat \<Rightarrow> string \<Rightarrow> string" where
  "outcome_hash tid to = ''outcome:'' @ nat_str tid @ '':'' @ to"

definition outcome_targets :: "status list" where
  "outcome_targets = [Verifying, NeedsReview, Failed]"

definition ticket_outcome :: "status \<Rightarrow> int \<Rightarrow> ticket \<Rightarrow> ticket" where
  "ticket_outcome s now t = t\<lparr>t_status := s, t_done := (if s = Failed then Some now else None),
     t_version := t_version t + 1, t_updated := now\<rparr>"

definition release_exec_hold :: "ticket \<Rightarrow> board \<Rightarrow> board" where
  "release_exec_hold t b =
     (if truthy_str (t_host t)
      then upd_locks (\<lambda>l. l_rid l = the (t_host t) \<and> l_ticket l = Some (t_id t)
             \<and> l_hold l = Some ExecHold) freed_keep_lease b
      else b)"

definition run_outcome ::
  "int \<Rightarrow> principal \<Rightarrow> nat \<Rightarrow> string \<Rightarrow> string option \<Rightarrow> string option \<Rightarrow> string
     \<Rightarrow> board \<Rightarrow> exn + (json \<times> board)" where
  "run_outcome now p tid to run op surface b =
     need (List.find (\<lambda>s. status_str s = to) outcome_targets) (err ILLEGAL_TRANSITION) (\<lambda>s.
     once (p_sub p) op (outcome_hash tid to) b
     (need (get_ticket b tid) (err NOT_FOUND) (\<lambda>t.
      throw_if (t_status t \<noteq> Executing) (err ILLEGAL_TRANSITION)
     (let b1 = upd_tickets (\<lambda>r. t_id r = tid) (ticket_outcome s now) b;
          b2 = release_exec_hold t b1;
          b3 = (if truthy_str run \<and> t_approval t \<noteq> None
                then upd_approvals (\<lambda>r. a_id r = the (t_approval t)) (\<lambda>r. r\<lparr>a_run := run\<rparr>) b2
                else b2);
          resp = JObj [(''ticket_id'', jnat tid), (''status'', JStr to), (''run_id'', jstr run)];
          b4 = add_audit now ((audit_row ''run_outcome'')\<lparr>au_actor := Some (p_sub p),
            au_surface := Some surface, au_ticket := Some tid, au_approval := t_approval t,
            au_from := Some ''executing'', au_to := Some to, au_op := op,
            au_fields := Some (jfields [(''run_id'', map_option JStr run)])\<rparr>) b3;
          b5 = record_op now (p_sub p) op (Some (outcome_hash tid to)) resp b4
      in Inr (resp, emit ''ticket'' [(''ticket_id'', jnat tid), (''action'', JStr ''run_outcome''),
            (''status'', JStr to)] b5)))))"

end
