(* ===== verification/BoardKickoffs.thy ===== *)
theory BoardKickoffs
  imports BoardTransitions
begin

text \<open>
  The kickoffs (\<open>service/kickoffs.js\<close>): the signed Wazuh webhook, the verification evidence,
  the scheduled spawn and the break-glass review ticket. The webhook resolves the host over the
  network between a read of the store and its transaction, so it is a preparation and a commit.
\<close>

section \<open>The webhook's signature\<close>

definition hex_val :: "char \<Rightarrow> nat option" where
  "hex_val c =
     (let n = (of_char c :: nat) in
      if 48 \<le> n \<and> n \<le> 57 then Some (n - 48)
      else if 97 \<le> n \<and> n \<le> 102 then Some (n - 87)
      else if 65 \<le> n \<and> n \<le> 70 then Some (n - 55)
      else None)"

text \<open>\<open>Buffer.from(s, 'hex')\<close> decodes pairs of digits and stops at the first that is not one.\<close>

fun hex_decode :: "string \<Rightarrow> nat list" where
  "hex_decode (a # b # s) =
     (case (hex_val a, hex_val b) of
        (Some x, Some y) \<Rightarrow> (16 * x + y) # hex_decode s
      | _ \<Rightarrow> [])"
| "hex_decode _ = []"

definition timing_safe_equal_hex :: "string \<Rightarrow> string \<Rightarrow> bool" where
  "timing_safe_equal_hex a b = (hex_decode a = hex_decode b)"

definition strip_prefix :: "string \<Rightarrow> string \<Rightarrow> string" where
  "strip_prefix pre s = (if starts_with pre s then drop (length pre) s else s)"

section \<open>The webhook\<close>

fun jpath :: "string list \<Rightarrow> json option \<Rightarrow> json option" where
  "jpath [] j = j"
| "jpath (k # ks) j = (case j of None \<Rightarrow> None | Some v \<Rightarrow> jpath ks (jget k v))"

record wazuh_prep =
  wz_key :: string
  wz_title :: string
  wz_body :: string
  wz_agent :: json
  wz_host :: "json option"

definition by_spawn_key :: "board \<Rightarrow> string \<Rightarrow> ticket option" where
  "by_spawn_key b k = List.find (\<lambda>t. t_spawn_key t = Some k) (b_tickets b)"

text \<open>\<open>Inr (Inl response)\<close> is a redelivery, answered at once.\<close>

definition wazuh_prepare ::
  "config \<Rightarrow> world \<Rightarrow> string \<Rightarrow> string option \<Rightarrow> board \<Rightarrow> exn + (json + wazuh_prep)" where
  "wazuh_prepare cfg w body sig b =
     throw_if (\<not> truthy_str (c_wazuh_secret cfg)) (err DEP_UNAVAILABLE)
     (throw_if (\<not> truthy_str sig \<or>
         \<not> timing_safe_equal_hex (strip_prefix ''sha256='' (the sig)) (w_hmac w (the (c_wazuh_secret cfg)) body))
        (err VALIDATION)
     (need (w_jparse w body) (err VALIDATION) (\<lambda>alert.
      let a = Some alert;
          agent = coalesce (jpath [''agent'', ''id''] a) (jpath [''agent_id''] a);
          cve = coalesce (jpath [''data'', ''vulnerability'', ''cve''] a)
                  (coalesce (jpath [''cve'', ''id''] a)
                  (coalesce (jpath [''vulnerability'', ''id''] a) (Some (JStr ''unknown''))));
          st = coalesce (jpath [''data'', ''vulnerability'', ''status''] a)
                  (coalesce (jpath [''status''] a) (Some (JStr ''active'')))
      in throw_if (\<not> js_truthy agent) (err VALIDATION)
         (let ag = js_string (the agent); cv = js_string (the cve); ss = js_string (the st);
              key = wazuh_spawn_key (w_sha w) ag cv ss
          in case by_spawn_key b key of
               Some t \<Rightarrow> Inr (Inl (JObj [(''status'', JStr ''duplicate''), (''ticket_id'', JStr (ticket_ref (t_id t)))]))
             | None \<Rightarrow> Inr (Inr \<lparr>wz_key = key,
                 wz_title = ''Wazuh: '' @ cv @ '' on agent '' @ ag @ '' ('' @ ss @ '')'',
                 wz_body = json_str (JObj [(''cve'', the cve), (''wazuh_agent'', the agent),
                    (''status'', the st)]),
                 wz_agent = the agent, wz_host = cmdb_agent_to_host w ag\<rparr>)))))"

definition connector :: principal where
  "connector = \<lparr>p_sub = ''svc:wazuh-connector'', p_kind = Service, p_scopes = []\<rparr>"

definition wazuh_args :: "wazuh_prep \<Rightarrow> create_args" where
  "wazuh_args z = create_defaults\<lparr>cr_title := Some (wz_title z), cr_type := Some ''vuln_remediation'',
     cr_body := Some (wz_body z), cr_origin := Some OWebhook, cr_spawn := Some (wz_key z),
     cr_taint := [''wazuh_alert'']\<rparr>"

definition wazuh_commit :: "config \<Rightarrow> int \<Rightarrow> wazuh_prep \<Rightarrow> board \<Rightarrow> exn + (json \<times> board)" where
  "wazuh_commit cfg now z b =
     (if by_spawn_key b (wz_key z) \<noteq> None
      then Inr (JObj [(''status'', JStr ''duplicate'')], b)
      else if \<not> js_truthy (wz_host z) then
        and_then (create cfg now connector
            ((wazuh_args z)\<lparr>cr_quar := True, cr_reason := Some ''unmapped_wazuh_agent''\<rparr>) None ''http'' b)
          (\<lambda>(r, b1).
           let tid = coalesce (jget ''ticket_id'' r) (Some JNull);
               b2 = add_audit now ((audit_row ''quarantine'')\<lparr>au_surface := Some ''http'',
                 au_ticket := rendered_id r,
                 au_fields := Some (JObj [(''reason'', JStr ''unmapped_wazuh_agent''),
                   (''wazuh_agent'', wz_agent z)])\<rparr>) b1;
               b3 = emit ''escalation'' [(''kind'', JStr ''quarantine''), (''ticket_id'', the tid),
                 (''machine_reason'', JStr ''unmapped_wazuh_agent'')] b2
           in Inr (JObj [(''status'', JStr ''quarantined''), (''ticket_id'', the tid)], b3))
      else
        and_then (text_affinity (the (wz_host z))) (\<lambda>h.
        and_then (create cfg now connector ((wazuh_args z)\<lparr>cr_host := h\<rparr>) None ''http'' b) (\<lambda>(r, b1).
          Inr (JObj [(''status'', JStr ''created''),
            (''ticket_id'', the (coalesce (jget ''ticket_id'' r) (Some JNull)))], b1))))"

section \<open>Verification evidence\<close>

definition verify_hash :: "nat \<Rightarrow> string" where
  "verify_hash tid = ''verify:'' @ nat_str tid"

definition submit_verification ::
  "int \<Rightarrow> principal \<Rightarrow> nat \<Rightarrow> string \<Rightarrow> json option \<Rightarrow> string option \<Rightarrow> string \<Rightarrow> board
     \<Rightarrow> exn + (json \<times> board)" where
  "submit_verification now p tid result evidence op surface b =
     throw_if (result \<notin> {''confirmed'', ''refuted'', ''timeout''}) (err VALIDATION)
     (once (p_sub p) op (verify_hash tid) b
     (need (get_ticket b tid) (err NOT_FOUND) (\<lambda>t.
      throw_if (t_status t \<noteq> Verifying) (err ILLEGAL_TRANSITION)
     (let s = (if result = ''confirmed'' then Done else Failed);
          b1 = upd_tickets (\<lambda>r. t_id r = tid) (ticket_closed s now) b;
          b2 = meta_put (''verification:'' @ nat_str tid)
                 (json_str (jfields [(''result'', Some (JStr result)), (''evidence'', evidence),
                    (''at'', Some (JNum now))])) b1;
          resp = JObj [(''ticket_id'', jnat tid), (''status'', JStr (status_str s)), (''result'', JStr result)];
          b3 = add_audit now ((audit_row ''verification'')\<lparr>au_actor := Some (p_sub p),
            au_surface := Some surface, au_ticket := Some tid, au_from := Some ''verifying'',
            au_to := Some (status_str s), au_op := op,
            au_fields := Some (jfields [(''result'', Some (JStr result)),
              (''run_id'', jpath [''run_id''] evidence)])\<rparr>) b2;
          b4 = record_op now (p_sub p) op (Some (verify_hash tid)) resp b3
      in Inr (resp, emit ''ticket'' [(''ticket_id'', jnat tid), (''action'', JStr ''verification''),
            (''status'', JStr (status_str s))] b4)))))"

section \<open>Scheduled spawn and break-glass\<close>

definition status_only :: "string \<Rightarrow> json" where
  "status_only s = JObj [(''status'', JStr s)]"

text \<open>\<open>tmpl.k || dflt\<close>, bound to a text column.\<close>

definition tmpl_text :: "json \<Rightarrow> string \<Rightarrow> string option \<Rightarrow> exn + string option" where
  "tmpl_text tmpl k dflt =
     (if js_truthy (jget k tmpl) then text_affinity (the (jget k tmpl)) else Inr dflt)"

definition em_dash :: string where "em_dash = [CHR 0xE2, CHR 0x80, CHR 0x94]"

definition scheduler :: principal where
  "scheduler = \<lparr>p_sub = ''svc:board-scheduler'', p_kind = Service, p_scopes = []\<rparr>"

definition open_children :: "board \<Rightarrow> nat \<Rightarrow> nat" where
  "open_children b k = count_where (\<lambda>t. t_parent t = Some k \<and> \<not> is_terminal (t_status t)) (b_tickets b)"

definition fire_scheduled ::
  "config \<Rightarrow> int \<Rightarrow> nat \<Rightarrow> string \<Rightarrow> board \<Rightarrow> exn + (json \<times> board)" where
  "fire_scheduled cfg now sid period b =
     (case get_ticket b sid of
        None \<Rightarrow> Inr (status_only ''no_standing'', b)
      | Some st \<Rightarrow>
     (case row_of tr_ticket sid (b_triggers b) of
        None \<Rightarrow> Inr (status_only ''no_trigger'', b)
      | Some trig \<Rightarrow>
          let key = nat_str sid @ '':'' @ period in
          if by_spawn_key b key \<noteq> None then Inr (status_only ''duplicate'', b)
          else if tr_suppress trig \<and> open_children b sid > 0
          then Inr (status_only ''suppressed_while_open'', b)
          else
            let tmpl = (case tr_template trig of Some j \<Rightarrow> j | None \<Rightarrow> JObj []);
                dflt = (case t_title st of Some s \<Rightarrow> s | None \<Rightarrow> ''null'') @ '' '' @ em_dash @ '' '' @ period
            in and_then (tmpl_text tmpl ''title'' (Some dflt)) (\<lambda>title.
               and_then (tmpl_text tmpl ''type'' (t_type st)) (\<lambda>typ.
               and_then (tmpl_text tmpl ''body'' None) (\<lambda>body.
               and_then (tmpl_text tmpl ''host_id'' None) (\<lambda>host.
               and_then (create cfg now scheduler (create_defaults\<lparr>cr_title := title, cr_type := typ,
                   cr_body := body, cr_host := host, cr_parent := Some (nat_str sid),
                   cr_team := t_team st, cr_origin := Some OScheduled, cr_spawn := Some key\<rparr>)
                   None ''internal'' b) (\<lambda>(r, b1).
                 Inr (JObj [(''status'', JStr ''created''),
                   (''ticket_id'', the (coalesce (jget ''ticket_id'' r) (Some JNull)))], b1))))))))"

definition breakglass_review_ticket ::
  "config \<Rightarrow> int \<Rightarrow> principal \<Rightarrow> string option \<Rightarrow> string option \<Rightarrow> string option \<Rightarrow> string \<Rightarrow> board
     \<Rightarrow> exn + (json \<times> board)" where
  "breakglass_review_ticket cfg now p title body op surface b =
     and_then (create cfg now p (create_defaults\<lparr>
         cr_title := (if truthy_str title then title else Some ''Break-glass review''),
         cr_body := (if truthy_str body then body else None), cr_born := NeedsReview,
         cr_reason := Some ''breakglass_review_ticket'', cr_origin := Some OOperator\<rparr>) op surface b)
       (\<lambda>(r, b1).
        let b2 = add_audit now ((audit_row ''breakglass_review_ticket'')\<lparr>au_actor := Some (p_sub p),
              au_surface := Some surface, au_ticket := rendered_id r, au_to := Some ''needs_review''\<rparr>) b1;
            b3 = emit ''escalation'' [(''kind'', JStr ''breakglass_review_ticket''),
              (''ticket_id'', the (coalesce (jget ''ticket_id'' r) (Some JNull)))] b2
        in Inr (r, b3))"

end
