(* ===== verification/BoardCeremony.thy ===== *)
theory BoardCeremony
  imports BoardKickoffs
begin

text \<open>
  The deliberation layer (\<open>service/ceremony.js\<close>): triage over signals the Board fetches itself,
  the phase ladder and its guards, huddle statements, pause and resume, the watchdog and the
  backlog decomposition. \<open>triage\<close> is asynchronous: a preparation and a commit.
\<close>

section \<open>Events and projections\<close>

definition cevent_row :: "nat \<Rightarrow> string \<Rightarrow> cevent" where
  "cevent_row tid kind = \<lparr>ce_id = 0, ce_ticket = tid, ce_kind = kind, ce_from = None, ce_to = None,
     ce_actor = None, ce_role = None, ce_guard = None, ce_round = None, ce_note = None,
     ce_rev = None, ce_params = None, ce_reason = None, ce_created = 0, ce_op = None\<rparr>"

definition emit_event :: "int \<Rightarrow> cevent \<Rightarrow> board \<Rightarrow> board" where
  "emit_event now e b = b\<lparr>b_cevents := b_cevents b @ [e\<lparr>ce_id := b_next_cevent b, ce_created := now\<rparr>],
     b_next_cevent := b_next_cevent b + 1\<rparr>"

definition set_phase :: "int \<Rightarrow> nat \<Rightarrow> phase \<Rightarrow> board \<Rightarrow> board" where
  "set_phase now tid ph = upd_tickets (\<lambda>r. t_id r = tid) (\<lambda>r. r\<lparr>t_phase := Some ph, t_updated := now\<rparr>)"

definition ceremony_escalate :: "int \<Rightarrow> nat \<Rightarrow> string \<Rightarrow> board \<Rightarrow> board" where
  "ceremony_escalate now tid reason b =
     (case get_ticket b tid of
        None \<Rightarrow> b
      | Some t \<Rightarrow>
          if t_status t \<noteq> InProgress then b
          else
            let b1 = upd_tickets (\<lambda>r. t_id r = tid) (ticket_escalated reason now) b;
                b2 = lock_release_keep_lease (resource_id_for t) tid b1;
                b3 = emit_event now ((cevent_row tid ''watchdog_trip'')\<lparr>ce_reason := Some reason\<rparr>) b2
            in escalation_audit now tid reason b3)"

section \<open>Triage\<close>

record signals =
  sg_radius :: "nat option"
  sg_reversible :: "bool option"
  sg_verifier :: "bool option"
  sg_tier :: "string option"
  sg_runbook :: "bool option"

definition no_signals :: signals where
  "no_signals = \<lparr>sg_radius = None, sg_reversible = None, sg_verifier = None, sg_tier = None,
     sg_runbook = None\<rparr>"

definition scope_hosts :: "ticket \<Rightarrow> board \<Rightarrow> string list" where
  "scope_hosts t b =
     (let kids = remdups (concat (map (\<lambda>c. if t_parent c = Some (t_id t)
              then (case t_host c of None \<Rightarrow> [] | Some h \<Rightarrow> [h]) else []) (b_tickets b)))
      in if truthy_str (t_host t) then remdups (the (t_host t) # kids) else kids)"

fun worst_tier :: "world \<Rightarrow> string \<Rightarrow> string list \<Rightarrow> string option" where
  "worst_tier w acc [] = Some acc"
| "worst_tier w acc (h # hs) =
     (case cmdb_host_tier w h of
        Inl _ \<Rightarrow> None
      | Inr p \<Rightarrow>
          if p = JNull then None
          else if jget ''tier'' p = Some (JStr ''critical'') then worst_tier w ''critical'' hs
          else if jget ''tier'' p = Some (JStr ''medium'') \<and> acc \<noteq> ''critical''
          then worst_tier w ''medium'' hs
          else worst_tier w acc hs)"

text \<open>
  The fetch sequence of the source's \<open>try\<close> block: the signals collected when it ended, and
  whether it ended by an exception or without a type.
\<close>

definition fetch_signals :: "world \<Rightarrow> ticket \<Rightarrow> string list \<Rightarrow> signals \<times> bool" where
  "fetch_signals w t hosts =
     (let radius = (if hosts \<noteq> [] then length hosts else if truthy_str (t_host t) then 1 else 0);
          s0 = no_signals\<lparr>sg_radius := Some radius\<rparr>;
          tiers = (\<lambda>s reg4 unavailable.
            case worst_tier w ''low'' hosts of
              None \<Rightarrow> (s, True)
            | Some tier \<Rightarrow>
                let s' = s\<lparr>sg_tier := Some (if hosts \<noteq> [] then tier else ''low'')\<rparr> in
                (case reg4 of
                   None \<Rightarrow> (s', True)
                 | Some r \<Rightarrow> (s'\<lparr>sg_runbook := Some (js_truthy (jget ''known_runbook'' r))\<rparr>, unavailable)))
      in if \<not> truthy_str (t_type t) then tiers s0 (Some (JObj [])) True
         else case cmdb_task_type w (the (t_type t)) of
             Inl _ \<Rightarrow> (s0, True)
           | Inr reg \<Rightarrow>
               if reg = JNull then (s0, True)
               else tiers (s0\<lparr>sg_reversible := Some (js_truthy (jget ''reversible'' reg) \<and>
                        jget ''rollback_path'' reg \<noteq> Some (JBool False)),
                      sg_verifier := Some (js_truthy (jget ''verifier_present'' reg))\<rparr>) (Some reg) False)"

text \<open>The lane table, evaluated in order.\<close>

definition lane_table :: "signals \<Rightarrow> bool \<Rightarrow> lane" where
  "lane_table s unavailable =
     (if unavailable \<or> sg_reversible s = None \<or> sg_verifier s = None then LFull
      else if (case sg_radius s of Some n \<Rightarrow> n > 1 | None \<Rightarrow> False) \<or> sg_tier s = Some ''critical'' then LFull
      else if sg_reversible s = Some True \<and> sg_runbook s = Some True \<and> sg_tier s = Some ''low'' \<and>
              sg_verifier s = Some True then LStraight
      else if length (filter id [sg_reversible s \<noteq> Some True, sg_tier s \<noteq> Some ''low'',
              sg_runbook s \<noteq> Some True]) = 1 then LLight
      else LFull)"

definition signals_json :: "signals \<Rightarrow> (string \<times> json option) list" where
  "signals_json s = [(''S2_blast_radius'', map_option jnat (sg_radius s)),
     (''S1_reversible'', map_option JBool (sg_reversible s)),
     (''S5_verifier'', map_option JBool (sg_verifier s)),
     (''S3_tier'', map_option JStr (sg_tier s)),
     (''S4_known_runbook'', map_option JBool (sg_runbook s))]"

definition triage_prepare :: "world \<Rightarrow> nat \<Rightarrow> board \<Rightarrow> exn + (signals \<times> bool)" where
  "triage_prepare w tid b =
     need (get_ticket b tid) (err NOT_FOUND) (\<lambda>t. Inr (fetch_signals w t (scope_hosts t b)))"

definition triage_hash :: "nat \<Rightarrow> string" where
  "triage_hash tid = ''triage:'' @ nat_str tid"

definition triage_commit ::
  "int \<Rightarrow> principal \<Rightarrow> nat \<Rightarrow> signals \<times> bool \<Rightarrow> string option \<Rightarrow> string \<Rightarrow> board
     \<Rightarrow> exn + (json \<times> board)" where
  "triage_commit now p tid su op surface b =
     once (p_sub p) op (triage_hash tid) b
     (let (s, unavailable) = su;
          la = lane_table s unavailable;
          b1 = upd_tickets (\<lambda>r. t_id r = tid) (\<lambda>r. r\<lparr>t_lane := Some la,
                 t_signals := Some (jfields (signals_json s @ [(''evaluated_at'', Some (JNum now)),
                   (''unavailable'', Some (JBool unavailable))])),
                 t_phase := Some PTriage, t_updated := now\<rparr>) b;
          b2 = emit_event now ((cevent_row tid ''triage_decision'')\<lparr>ce_to := Some PTriage,
                 ce_actor := Some (p_sub p), ce_guard := Some ''deterministic_lane_table'',
                 ce_params := Some (JObj [(''lane'', JStr (lane_str la)),
                   (''signals'', jfields (signals_json s))])\<rparr>) b1;
          resp = JObj [(''ticket_id'', jnat tid), (''lane'', JStr (lane_str la)),
                 (''signals'', jfields (signals_json s))];
          b3 = add_audit now ((audit_row ''triage'')\<lparr>au_actor := Some (p_sub p),
                 au_surface := Some surface, au_ticket := Some tid,
                 au_fields := Some (JObj [(''lane'', JStr (lane_str la))]), au_op := op\<rparr>) b2;
          b4 = record_op now (p_sub p) op (Some (triage_hash tid)) resp b3
      in Inr (resp, emit ''ceremony'' [(''ticket_id'', jnat tid), (''phase'', JStr ''triage''),
            (''lane'', JStr (lane_str la))] b4))"

section \<open>Phases\<close>

definition phase_hash :: "nat \<Rightarrow> string \<Rightarrow> string" where
  "phase_hash tid to = ''phase:'' @ nat_str tid @ '':'' @ to"

definition new_huddle :: "nat \<Rightarrow> lane option \<Rightarrow> int \<Rightarrow> int \<Rightarrow> huddle" where
  "new_huddle tid la cap deadline = \<lparr>h_ticket = tid, h_lane = la, h_round = 0, h_cap = Some cap,
     h_deadline = Some deadline, h_paused = None, h_pause_total = 0, h_positions = [],
     h_dissents = 0, h_veto = VNone, h_veto_by = None, h_po = None, h_status = HOpen\<rparr>"

definition open_huddle ::
  "config \<Rightarrow> int \<Rightarrow> ticket \<Rightarrow> principal \<Rightarrow> string option \<Rightarrow> board \<Rightarrow> json \<times> board" where
  "open_huddle cfg now t p op b =
     (let tid = t_id t;
          cap = (if t_lane t = Some LLight then c_light_round_cap cfg else c_round_cap cfg);
          deadline = now + c_timebox cfg;
          b1 = emit_event now ((cevent_row tid ''huddle_opened'')\<lparr>ce_from := Some PTriage,
                 ce_to := Some PPlanning, ce_actor := Some (p_sub p),
                 ce_params := Some (JObj [(''round_cap'', JNum cap), (''timebox_deadline'', JNum deadline),
                   (''roster'', JObj [])])\<rparr>) b;
          b2 = (case get_huddle b1 tid of
                  None \<Rightarrow> b1\<lparr>b_huddles := b_huddles b1 @ [new_huddle tid (t_lane t) cap deadline]\<rparr>
                | Some _ \<Rightarrow> upd_huddle tid (\<lambda>h. h\<lparr>h_cap := Some cap, h_deadline := Some deadline,
                    h_status := HOpen\<rparr>) b1);
          b3 = set_phase now tid PPlanning b2;
          resp = JObj [(''ticket_id'', jnat tid), (''phase'', JStr ''planning''),
                 (''round_cap'', JNum cap), (''timebox_deadline'', JNum deadline)];
          b4 = record_op now (p_sub p) op (Some (phase_hash tid ''planning'')) resp b3
      in (resp, emit ''ceremony'' [(''ticket_id'', jnat tid), (''phase'', JStr ''planning''),
            (''round_cap'', JNum cap), (''timebox_deadline'', JNum deadline)] b4))"

text \<open>
  \<open>_guardBacklog\<close>. On a missing dissent the source escalates and then throws: the transaction
  rolls back, so the escalation (\<open>invalidate\<close>) leaves no trace and only the error remains.
\<close>

definition invalidate :: "int \<Rightarrow> nat \<Rightarrow> string \<Rightarrow> board \<Rightarrow> board" where
  "invalidate now tid reason b =
     ceremony_escalate now tid reason
       (emit_event now ((cevent_row tid ''invalidation'')\<lparr>ce_reason := Some reason\<rparr>)
         (upd_huddle tid (\<lambda>h. h\<lparr>h_status := HEscalated\<rparr>) b))"

definition guard_backlog :: "int \<Rightarrow> nat \<Rightarrow> board \<Rightarrow> exn + board" where
  "guard_backlog now tid b =
     need (get_huddle b tid) (err ILLEGAL_TRANSITION) (\<lambda>h.
     throw_if (h_veto h = VRaised) (err VETO_UNRESOLVED)
     (let b1 = (if h_dissents h < 1 then invalidate now tid ''huddle_invalid'' b else b) in
      throw_if (h_dissents h < 1) (err DISSENT_REQUIRED)
     (throw_if (h_po h = None) (err DISSENT_REQUIRED)
     (Inr (upd_huddle tid (\<lambda>r. r\<lparr>h_status := HConverged\<rparr>) b1)))))"

definition transition_phase ::
  "config \<Rightarrow> int \<Rightarrow> principal \<Rightarrow> nat \<Rightarrow> string \<Rightarrow> string option \<Rightarrow> board \<Rightarrow> exn + (json \<times> board)" where
  "transition_phase cfg now p tid to op b =
     once (p_sub p) op (phase_hash tid to) b
     (need (get_ticket b tid) (err NOT_FOUND) (\<lambda>t.
      let frm = (case t_phase t of Some q \<Rightarrow> q | None \<Rightarrow> PTriage) in
      need (phase_of to) (err ILLEGAL_TRANSITION) (\<lambda>ph.
      throw_if (phase_rank ph \<noteq> phase_rank frm + 1) (err ILLEGAL_TRANSITION)
     (if ph = PPlanning then Inr (open_huddle cfg now t p op b)
      else
        and_then (if ph = PBacklog then guard_backlog now tid b else Inr b) (\<lambda>b1.
        let b2 = set_phase now tid ph b1;
            b3 = emit_event now ((cevent_row tid ''phase_transition'')\<lparr>ce_from := Some frm,
                   ce_to := Some ph, ce_actor := Some (p_sub p)\<rparr>) b2;
            resp = JObj [(''ticket_id'', jnat tid), (''phase'', JStr to)];
            b4 = record_op now (p_sub p) op (Some (phase_hash tid to)) resp b3
        in Inr (resp, emit ''ceremony'' [(''ticket_id'', jnat tid), (''phase'', JStr to)] b4))))))"

section \<open>Statements\<close>

definition role_key :: "nat \<Rightarrow> string \<Rightarrow> string" where
  "role_key tid role = ''roster:'' @ nat_str tid @ '':'' @ role"

definition bound_role :: "nat \<Rightarrow> string \<Rightarrow> board \<Rightarrow> string option" where
  "bound_role tid role b =
     (case meta_get b (role_key tid role) of
        Some v \<Rightarrow> Some v
      | None \<Rightarrow> Option.bind (List.find (\<lambda>e. ce_ticket e = tid \<and> ce_role e = Some role \<and>
            ce_kind e \<in> {''veto'', ''decision_record'', ''statement''}) (b_cevents b)) ce_actor)"

definition role_of :: "string \<Rightarrow> string" where
  "role_of kind = (if kind = ''decision'' then ''PO''
     else if kind \<in> {''dissent'', ''veto'', ''veto_clear''} then ''AR'' else ''SPECIALIST'')"

text \<open>A role belongs to the first who acts in it: bound here, and closed to everyone else.\<close>

definition claim_role :: "nat \<Rightarrow> string \<Rightarrow> string \<Rightarrow> board \<Rightarrow> exn + board" where
  "claim_role tid role sub b =
     (let cur = bound_role tid role b in
      if truthy_str cur then throw_if (cur \<noteq> Some sub) (err NOT_ROSTER) (Inr b)
      else Inr (meta_put (role_key tid role) sub b))"

definition grounded :: "nat \<Rightarrow> string option \<Rightarrow> board \<Rightarrow> bool" where
  "grounded tid note b =
     (\<exists>n \<in> set (b_notes b). Some (n_note n) = note \<and>
        (case get_ticket b (n_ticket n) of None \<Rightarrow> False
         | Some c \<Rightarrow> t_parent c = Some tid \<and> t_class c = Recon))"

definition boundary_key :: "nat \<Rightarrow> string" where
  "boundary_key tid = ''round_boundary:'' @ nat_str tid"

definition statement_kinds :: "string list" where
  "statement_kinds = [''statement'', ''decision_record'', ''veto'', ''veto_clear'']"

text \<open>
  The round advances when every member of the roster has filed since the last boundary.
\<close>

definition round_covered :: "nat \<Rightarrow> huddle \<Rightarrow> board \<Rightarrow> bool" where
  "round_covered tid h b =
     (let since = (case meta_get b (boundary_key tid) of Some v \<Rightarrow> digits_val v | None \<Rightarrow> 0);
          subs = map ce_actor (filter (\<lambda>e. ce_ticket e = tid \<and> ce_id e > since \<and>
                   ce_kind e \<in> set statement_kinds) (b_cevents b))
      in list_all (\<lambda>s. Some s \<in> set subs) (h_positions h))"

definition advance_round :: "nat \<Rightarrow> huddle \<Rightarrow> board \<Rightarrow> nat \<times> board" where
  "advance_round tid h b =
     (if h_positions h = [] \<or> \<not> round_covered tid h b then (h_round h, b)
      else
        let mx = fold max (map ce_id (filter (\<lambda>e. ce_ticket e = tid) (b_cevents b))) 0;
            r = h_round h + 1
        in (r, upd_huddle tid (\<lambda>x. x\<lparr>h_round := r\<rparr>) (meta_put (boundary_key tid) (nat_str mx) b)))"

definition statement_hash :: "nat \<Rightarrow> string \<Rightarrow> string option \<Rightarrow> string" where
  "statement_hash tid kind note = ''stmt:'' @ nat_str tid @ '':'' @ kind @ '':'' @
     (case note of Some n \<Rightarrow> n | None \<Rightarrow> ''undefined'')"

definition statement_event :: "string \<Rightarrow> string" where
  "statement_event kind = (if kind = ''decision'' then ''decision_record''
     else if kind = ''veto'' then ''veto'' else if kind = ''veto_clear'' then ''veto_clear''
     else ''statement'')"

text \<open>Who may file: a position joins the roster; anything else needs the roster and the role.\<close>

definition statement_admit ::
  "config \<Rightarrow> nat \<Rightarrow> string \<Rightarrow> string \<Rightarrow> huddle \<Rightarrow> board \<Rightarrow> exn + board" where
  "statement_admit cfg tid kind sub h b =
     (if kind = ''position''
      then Inr (upd_huddle tid (\<lambda>x. x\<lparr>h_positions :=
             (if sub \<in> set (h_positions h) then h_positions h else h_positions h @ [sub])\<rparr>) b)
      else
        throw_if (length (h_positions h) < c_min_roster cfg) (err OUT_OF_ORDER_STATEMENT)
        (throw_if (sub \<notin> set (h_positions h)) (err NOT_ROSTER)
        (and_then (if kind \<in> {''dissent'', ''veto'', ''veto_clear''} then claim_role tid ''AR'' sub b else Inr b)
          (\<lambda>b1. if kind = ''decision'' then claim_role tid ''PO'' sub b1 else Inr b1))))"

definition statement_effect ::
  "nat \<Rightarrow> string \<Rightarrow> string \<Rightarrow> string option \<Rightarrow> board \<Rightarrow> exn + board" where
  "statement_effect tid kind sub note b =
     (if kind = ''dissent'' then
        throw_if (\<not> grounded tid note b) (err DISSENT_UNGROUNDED)
          (Inr (upd_huddle tid (\<lambda>x. x\<lparr>h_dissents := h_dissents x + 1\<rparr>) b))
      else if kind = ''veto'' then
        Inr (upd_huddle tid (\<lambda>x. x\<lparr>h_veto := VRaised, h_veto_by := Some sub\<rparr>) b)
      else if kind = ''veto_clear'' then
        need (get_huddle b tid) TypeErr (\<lambda>cur.
        throw_if (h_veto cur \<noteq> VRaised) (err VALIDATION)
        (throw_if (h_veto_by cur \<noteq> Some sub) (err NOT_ROSTER)
        (Inr (upd_huddle tid (\<lambda>x. x\<lparr>h_veto := VClearedAR\<rparr>) b))))
      else Inr b)"

definition statement ::
  "config \<Rightarrow> int \<Rightarrow> principal \<Rightarrow> nat \<Rightarrow> string \<Rightarrow> string option \<Rightarrow> string option \<Rightarrow> string option
     \<Rightarrow> string \<Rightarrow> board \<Rightarrow> exn + (json \<times> board)" where
  "statement cfg now p tid kind note rv op surface b =
     (let sub = p_sub p; hash = statement_hash tid kind note in
      once sub op hash b
      (need (get_ticket b tid) (err NOT_FOUND) (\<lambda>t.
       throw_if (t_phase t \<noteq> Some PPlanning \<and> t_phase t \<noteq> Some PReview) (err OUT_OF_ORDER_STATEMENT)
       (need (get_huddle b tid) (err OUT_OF_ORDER_STATEMENT) (\<lambda>h.
        throw_if (truthy_num (h_paused h)) (err OUT_OF_ORDER_STATEMENT)
       (and_then (statement_admit cfg tid kind sub h b) (\<lambda>b1.
        and_then (statement_effect tid kind sub note b1) (\<lambda>b2.
        need (get_huddle b2 tid) TypeErr (\<lambda>h2.
        let (round, b3) = advance_round tid h2 b2;
            ev = b_next_cevent b3;
            b4 = emit_event now ((cevent_row tid (statement_event kind))\<lparr>ce_actor := Some sub,
                   ce_role := Some (role_of kind), ce_round := Some round, ce_note := note,
                   ce_rev := rv\<rparr>) b3;
            b5 = (if kind = ''decision'' then upd_huddle tid (\<lambda>x. x\<lparr>h_po := Some ev\<rparr>) b4 else b4);
            resp = JObj [(''ticket_id'', jnat tid), (''kind'', JStr kind), (''round'', jnat round)];
            b6 = add_audit now ((audit_row (''ceremony_'' @ kind))\<lparr>au_actor := Some sub,
                   au_surface := Some surface, au_ticket := Some tid, au_op := op,
                   au_fields := Some (JObj [(''kind'', JStr kind), (''round'', jnat round)])\<rparr>) b5;
            b7 = record_op now sub op (Some hash) resp b6
        in Inr (resp, emit ''ceremony'' [(''ticket_id'', jnat tid), (''statement'', JStr kind),
              (''round'', jnat round)] b7))))))))))"

section \<open>Pause, resume, watchdog\<close>

definition pause :: "int \<Rightarrow> nat \<Rightarrow> string \<Rightarrow> board \<Rightarrow> bool \<times> board" where
  "pause now tid reason b =
     (case get_huddle b tid of
        None \<Rightarrow> (False, b)
      | Some h \<Rightarrow>
          if truthy_num (h_paused h) then (False, b)
          else (True, emit ''ceremony'' [(''ticket_id'', jnat tid), (''paused'', JBool True)]
            (emit_event now ((cevent_row tid ''pause'')\<lparr>ce_reason := Some reason\<rparr>)
              (upd_huddle tid (\<lambda>x. x\<lparr>h_paused := Some now\<rparr>) b))))"

definition resume :: "int \<Rightarrow> nat \<Rightarrow> board \<Rightarrow> bool \<times> board" where
  "resume now tid b =
     (case get_huddle b tid of
        None \<Rightarrow> (False, b)
      | Some h \<Rightarrow>
          if \<not> truthy_num (h_paused h) then (False, b)
          else
            let ms = now - the (h_paused h) in
            (True, emit ''ceremony'' [(''ticket_id'', jnat tid), (''paused'', JBool False)]
              (emit_event now (cevent_row tid ''resume'')
                (upd_huddle tid (\<lambda>x. x\<lparr>h_paused := None, h_pause_total := h_pause_total x + ms,
                   h_deadline := map_option (\<lambda>d. d + ms) (h_deadline x)\<rparr>) b))))"

definition trip_reason :: "int \<Rightarrow> huddle \<Rightarrow> string option" where
  "trip_reason now h =
     (let late = (truthy_num (h_deadline h) \<and> now > the (h_deadline h)) in
      if late then Some ''timebox_expired''
      else if (case h_cap h of None \<Rightarrow> False | Some c \<Rightarrow> int (h_round h) > c) then Some ''round_cap_exceeded''
      else if h_veto h = VRaised \<and> late then Some ''unresolved_veto''
      else None)"

definition watchdog_one :: "int \<Rightarrow> huddle \<times> ticket \<Rightarrow> nat \<times> board \<Rightarrow> nat \<times> board" where
  "watchdog_one now = (\<lambda>(h, t) (n, b).
     if t_held t \<or> t_status t \<noteq> InProgress then (n, b)
     else case trip_reason now h of
         None \<Rightarrow> (n, b)
       | Some reason \<Rightarrow>
           (n + 1, upd_huddle (h_ticket h) (\<lambda>x. x\<lparr>h_status := HEscalated\<rparr>)
             (ceremony_escalate now (h_ticket h) reason b)))"

definition open_huddles :: "board \<Rightarrow> (huddle \<times> ticket) list" where
  "open_huddles b = concat (map (\<lambda>h. case get_ticket b (h_ticket h) of None \<Rightarrow> [] | Some t \<Rightarrow> [(h, t)])
     (filter (\<lambda>h. h_status h = HOpen \<and> h_paused h = None) (b_huddles b)))"

definition watchdog_sweep :: "int \<Rightarrow> board \<Rightarrow> nat \<times> board" where
  "watchdog_sweep now b = fold (watchdog_one now) (open_huddles b) (0, b)"

section \<open>Decomposition\<close>

record child_spec =
  cs_title :: "string option"
  cs_type :: "string option"
  cs_body :: "string option"
  cs_host :: "string option"

definition child_args :: "ticket \<Rightarrow> child_spec \<Rightarrow> create_args" where
  "child_args parent c = create_defaults\<lparr>cr_title := cs_title c,
     cr_type := (if cs_type c = None then t_type parent else cs_type c), cr_body := cs_body c,
     cr_host := cs_host c, cr_parent := Some (nat_str (t_id parent)), cr_team := t_team parent,
     cr_class := Execution, cr_origin := Some OAgent\<rparr>"

fun decompose_children ::
  "config \<Rightarrow> int \<Rightarrow> principal \<Rightarrow> ticket \<Rightarrow> string \<Rightarrow> child_spec list \<Rightarrow> board
     \<Rightarrow> exn + (json list \<times> board)" where
  "decompose_children cfg now p parent surface [] b = Inr ([], b)"
| "decompose_children cfg now p parent surface (c # cs) b =
     and_then (create cfg now p (child_args parent c) None surface b) (\<lambda>(r, b1).
     let b2 = (case rendered_id r of None \<Rightarrow> b1
         | Some k \<Rightarrow> upd_tickets (\<lambda>x. t_id x = k) (\<lambda>x. x\<lparr>t_lane := t_lane parent\<rparr>) b1)
     in and_then (decompose_children cfg now p parent surface cs b2) (\<lambda>(rs, b3).
          Inr (the (coalesce (jget ''ticket_id'' r) (Some JNull)) # rs, b3)))"

definition decompose ::
  "config \<Rightarrow> int \<Rightarrow> principal \<Rightarrow> nat \<Rightarrow> child_spec list \<Rightarrow> string option \<Rightarrow> string \<Rightarrow> board
     \<Rightarrow> exn + (json \<times> board)" where
  "decompose cfg now p tid children op surface b =
     need (get_ticket b tid) (err NOT_FOUND) (\<lambda>parent.
     throw_if (\<not> phase_at_least (t_phase parent) PBacklog) (err ILLEGAL_TRANSITION)
     (and_then (decompose_children cfg now p parent surface children b) (\<lambda>(created, b1).
      let b2 = add_audit now ((audit_row ''decompose'')\<lparr>au_actor := Some (p_sub p),
            au_surface := Some surface, au_ticket := Some tid,
            au_fields := Some (JObj [(''children'', jnat (length created))]), au_op := op\<rparr>) b1
      in Inr (JObj [(''ticket_id'', jnat tid), (''children'', JArr created)], b2))))"

fun veto_str :: "veto \<Rightarrow> string" where
  "veto_str VNone = ''none''" | "veto_str VRaised = ''raised''"
| "veto_str VClearedAR = ''cleared_by_ar''" | "veto_str VClearedOp = ''cleared_by_operator''"

fun hstatus_str :: "hstatus \<Rightarrow> string" where
  "hstatus_str HOpen = ''open''" | "hstatus_str HConverged = ''converged''"
| "hstatus_str HEscalated = ''escalated''"

definition huddle_state :: "string \<Rightarrow> board \<Rightarrow> json option" where
  "huddle_state ref b =
     (case parse_ticket_id ref of None \<Rightarrow> None | Some tid \<Rightarrow>
        map_option (\<lambda>h. JObj [(''ticket_id'', JStr ref), (''lane'', jstr (map_option lane_str (h_lane h))),
          (''round'', jnat (h_round h)), (''round_cap'', jint (h_cap h)),
          (''timebox_deadline'', jint (h_deadline h)), (''paused'', JBool (truthy_num (h_paused h))),
          (''pause_total'', JNum (h_pause_total h)), (''ar_dissent_count'', jnat (h_dissents h)),
          (''veto_state'', JStr (veto_str (h_veto h))), (''veto_by'', jstr (h_veto_by h)),
          (''po_decision'', JBool (h_po h \<noteq> None)), (''status'', JStr (hstatus_str (h_status h))),
          (''roster'', JObj [(''AR'', jstr (bound_role tid ''AR'' b)), (''PO'', jstr (bound_role tid ''PO'' b))])])
        (get_huddle b tid))"

end
