(* ===== verification/BoardOps.thy ===== *)
theory BoardOps
  imports BoardCeremony
begin

text \<open>
  The processes around the core: the service's coupling of \<open>blocked\<close> with the huddle pause
  (\<open>board-service.js\<close>), the sweeps (\<open>service/sweeps.js\<close>), the tier approver
  (\<open>service/tier-approver.js\<close>), the restore reconciliation (\<open>service/backup.js\<close>), and the facts
  other services read (\<open>service/facts.js\<close>).
\<close>

section \<open>Couplings and sweeps\<close>

definition board_agent_transition ::
  "world \<Rightarrow> int \<Rightarrow> principal \<Rightarrow> nat \<Rightarrow> string \<Rightarrow> int option \<Rightarrow> string option \<Rightarrow> string option \<Rightarrow> string
     \<Rightarrow> board \<Rightarrow> (exn + json) \<times> board" where
  "board_agent_transition w now p tid to token reason op surface b =
     (case agent_transition w now p tid to token reason op surface b of
        (Inl e, b1) \<Rightarrow> (Inl e, b1)
      | (Inr r, b1) \<Rightarrow> (Inr r, if to = ''blocked'' then snd (pause now tid ''blocked'' b1) else b1))"

definition reaper_tick :: "config \<Rightarrow> int \<Rightarrow> board \<Rightarrow> json \<times> board" where
  "reaper_tick cfg now b =
     (let ((resp, ids), b1) = reaper_sweep cfg now b
      in (resp, fold (\<lambda>tid c. snd (pause now tid ''reaped'' c)) ids b1))"

definition watchdog_tick :: "int \<Rightarrow> board \<Rightarrow> nat \<times> board" where
  "watchdog_tick = watchdog_sweep"

text \<open>The poll of the revocations mirror: \<open>None\<close> is an unreachable or failing upstream.\<close>

definition kill_poll :: "config \<Rightarrow> int \<Rightarrow> json option \<Rightarrow> board \<Rightarrow> board" where
  "kill_poll cfg now reply b =
     (if \<not> truthy_str (c_revocations_url cfg) \<or> c_dev_noauth cfg then b
      else case reply of
        None \<Rightarrow> b
      | Some JNull \<Rightarrow> b
      | Some j \<Rightarrow>
          let level = (if js_truthy (jget ''level'' j) then js_string (the (jget ''level'' j))
                else if js_truthy (jget ''killed'' j) then ''G2'' else ''G0'');
              epoch = (case jget ''epoch'' j of Some (JNum n) \<Rightarrow> Some n | _ \<Rightarrow> None)
          in mark_kill_synced now (snd (apply_kill now epoch (Some level) b)))"

section \<open>The tier approver\<close>

definition tier_approver :: principal where
  "tier_approver = \<lparr>p_sub = ''svc:tier-approver'', p_kind = Service, p_scopes = []\<rparr>"

text \<open>One pass with no other operation in between; any refusal leaves the ticket to an operator.\<close>

definition tier_one :: "config \<Rightarrow> world \<Rightarrow> int \<Rightarrow> ticket \<Rightarrow> nat \<times> board \<Rightarrow> nat \<times> board" where
  "tier_one cfg w now t = (\<lambda>(n, b).
     if t_taint t then (n, b)
     else case grant_prepare cfg w now TierPolicy (t_id t) b of
         Inl _ \<Rightarrow> (n, b)
       | Inr g \<Rightarrow>
           (case grant_finish w now tier_approver (t_id t) TierPolicy None ''internal'' g b of
              (Inl _, b1) \<Rightarrow> (n, b1)
            | (Inr _, b1) \<Rightarrow> (n + 1, b1)))"

definition tier_sweep :: "config \<Rightarrow> world \<Rightarrow> int \<Rightarrow> board \<Rightarrow> nat \<times> board" where
  "tier_sweep cfg w now b =
     (if \<not> c_tier_enabled cfg \<or> destructive_frozen b then (0, b)
      else fold (tier_one cfg w now)
        (filter (\<lambda>t. t_status t = AwaitingApproval) (b_tickets b)) (0, b))"

section \<open>Restore reconciliation\<close>

definition floor_generations :: "int \<Rightarrow> board \<Rightarrow> board" where
  "floor_generations now = upd_locks (\<lambda>_. True) (\<lambda>l. l\<lparr>l_gen := max (l_gen l) now\<rparr>)"

definition requeue_claim :: "int \<Rightarrow> lock \<Rightarrow> board \<Rightarrow> board" where
  "requeue_claim now l b =
     upd_tickets (\<lambda>t. Some (t_id t) = l_ticket l)
       (\<lambda>t. t\<lparr>t_status := (if t_status t = InProgress then Todo else t_status t),
              t_claimed_by := None, t_lease := None, t_fence := None, t_updated := now\<rparr>)
       (upd_locks (\<lambda>r. l_rid r = l_rid l) freed b)"

definition requeue_grant :: "int \<Rightarrow> approval \<Rightarrow> board \<Rightarrow> board" where
  "requeue_grant now a b =
     upd_tickets (\<lambda>t. t_id t = a_ticket a)
       (\<lambda>t. t\<lparr>t_status := (if t_status t = Approved then AwaitingApproval else t_status t),
              t_updated := now\<rparr>)
       (upd_approvals (\<lambda>r. a_id r = a_id a) (\<lambda>r. r\<lparr>a_status := Revoked\<rparr>) b)"

definition restore_escalate :: "int \<Rightarrow> huddle \<Rightarrow> board \<Rightarrow> board" where
  "restore_escalate now h b =
     upd_huddle (h_ticket h) (\<lambda>x. x\<lparr>h_status := HEscalated\<rparr>)
       (upd_tickets (\<lambda>t. t_id t = h_ticket h)
         (\<lambda>t. t\<lparr>t_status := NeedsReview, t_reason := Some ''restore_reconcile'',
                t_claimed_by := None, t_fence := None, t_updated := now\<rparr>) b)"

definition stale_claims :: "board \<Rightarrow> lock list" where
  "stale_claims b = filter (\<lambda>l. l_hold l = Some ClaimHold \<and> l_ticket l \<noteq> None) (b_locks b)"

definition live_grants :: "board \<Rightarrow> approval list" where
  "live_grants b = filter (\<lambda>a. a_status a = Granted) (b_approvals b)"

definition restored_huddles :: "board \<Rightarrow> huddle list" where
  "restored_huddles b = filter (\<lambda>h. h_status h = HOpen \<and>
     (case get_ticket b (h_ticket h) of None \<Rightarrow> False | Some t \<Rightarrow> t_status t = InProgress)) (b_huddles b)"

definition reconcile_on_boot :: "int \<Rightarrow> board \<Rightarrow> board" where
  "reconcile_on_boot now b =
     (let b1 = floor_generations now b;
          claims = stale_claims b1;
          b2 = fold (requeue_claim now) claims b1;
          grants = live_grants b2;
          b3 = fold (requeue_grant now) grants b2;
          hs = restored_huddles b3;
          b4 = fold (restore_escalate now) hs b3;
          b5 = add_audit now ((audit_row ''restore_reconcile'')\<lparr>au_surface := Some ''internal'',
                 au_fields := Some (JObj [(''fencing_floor'', JNum now),
                   (''revoked_grants'', jnat (length grants)),
                   (''requeued_claims'', jnat (length claims)),
                   (''escalated_huddles'', jnat (length hs))])\<rparr>) b4
      in meta_put ''last_boot_reconcile'' (int_str now) b5)"

text \<open>The snapshot retention: the names removed from the backup directory.\<close>

definition is_snapshot :: "string \<Rightarrow> bool" where
  "is_snapshot f =
     (let pre = ''board-''; n = length f in
      starts_with pre f \<and> n \<ge> 10 \<and> drop (n - 3) f = ''.db'' \<and>
      all_digits (take (n - 9) (drop 6 f)))"

definition prune_removed :: "nat \<Rightarrow> string list \<Rightarrow> string list" where
  "prune_removed retention files =
     (let snaps = sort (filter is_snapshot files) in take (length snaps - retention) snaps)"

section \<open>Facts\<close>

definition exists_false :: json where
  "exists_false = JObj [(''exists'', JBool False)]"

definition ticket_facts :: "string \<Rightarrow> board \<Rightarrow> json" where
  "ticket_facts ref b =
     (case Option.bind (parse_ticket_id ref) (get_ticket b) of
        None \<Rightarrow> exists_false
      | Some t \<Rightarrow> JObj [
          (''exists'', JBool True),
          (''ticket_id'', JStr (ticket_ref (t_id t))),
          (''status'', JStr (status_str (t_status t))),
          (''proposer_id'', jstr (t_proposer t)),
          (''claimed_by'', jstr (t_claimed_by t)),
          (''host_id'', jstr (t_host t)),
          (''team'', jstr (t_team t)),
          (''lane'', jstr (map_option lane_str (t_lane t))),
          (''taint_host_originated'', JBool (t_taint t)),
          (''approval_id'', jref approval_ref (t_approval t)),
          (''approval_status'', jstr (map_option (\<lambda>a. astatus_str (a_status a))
             (Option.bind (t_approval t) (get_approval b)))),
          (''fencing_token'', jint (t_fence t)),
          (''lease_expires_at'', jint (t_lease t)),
          (''version'', jnat (t_version t)),
          (''updated_at'', JNum (t_updated t))])"

definition approval_facts :: "string \<Rightarrow> board \<Rightarrow> json" where
  "approval_facts ref b =
     (case Option.bind (parse_approval_id ref) (get_approval b) of
        None \<Rightarrow> exists_false
      | Some a \<Rightarrow> JObj [
          (''exists'', JBool True),
          (''approval_id'', JStr (approval_ref (a_id a))),
          (''status'', JStr (astatus_str (a_status a))),
          (''ticket_id'', JStr (ticket_ref (a_ticket a))),
          (''ticket_status'', jstr (map_option (\<lambda>t. status_str (t_status t)) (get_ticket b (a_ticket a)))),
          (''host_id'', JStr (a_host a)),
          (''plan_hash'', JStr (a_hash a)),
          (''plan_note_id'', JStr (a_note a)),
          (''plan_note_rev'', JStr (a_rev a)),
          (''action_class'', JStr (a_class a)),
          (''approver_kind'', JStr (akind_str (a_akind a))),
          (''approver_sub'', JStr (a_approver a)),
          (''granted_at'', JNum (a_granted_at a)),
          (''consumed_at'', jint (a_consumed_at a)),
          (''consumed_by'', jstr (a_consumed_by a)),
          (''run_id'', jstr (a_run a))])"

definition kill_posture :: "board \<Rightarrow> json" where
  "kill_posture b = JObj [(''level'', JStr (k_level (b_auth b))), (''epoch'', JNum (k_epoch (b_auth b))),
     (''updated_at'', jint (k_updated (b_auth b)))]"

definition host_lock_facts :: "string \<Rightarrow> board \<Rightarrow> json" where
  "host_lock_facts host b =
     (case get_lock b host of
        None \<Rightarrow> JObj [(''exists'', JBool False), (''lock_generation'', JNum 0)]
      | Some l \<Rightarrow> JObj [
          (''exists'', JBool True),
          (''resource_id'', JStr (l_rid l)),
          (''lock_generation'', JNum (l_gen l)),
          (''claimed_by_ticket'', jref ticket_ref (l_ticket l)),
          (''claimed_by_agent'', jstr (l_agent l)),
          (''hold_kind'', jstr (map_option hold_str (l_hold l))),
          (''lease_expires_at'', jint (l_lease l))])"

definition render_audit :: "audit \<Rightarrow> json" where
  "render_audit r = JObj [
     (''id'', jnat (au_id r)), (''ts'', JNum (au_ts r)), (''actor_sub'', jstr (au_actor r)),
     (''action'', JStr (au_action r)), (''ticket_id'', jref ticket_ref (au_ticket r)),
     (''approval_id'', jref approval_ref (au_approval r)),
     (''from_state'', jstr (au_from r)), (''to_state'', jstr (au_to r)),
     (''fields'', case au_fields r of None \<Rightarrow> JNull | Some j \<Rightarrow> j),
     (''outcome'', JStr (au_outcome r)),
     (''machine_reason'', case au_fields r of None \<Rightarrow> JNull
        | Some j \<Rightarrow> the (coalesce (jget ''machine_reason'' j) (coalesce (jget ''reason'' j) (Some JNull))))]"

definition audit_page :: "(audit \<Rightarrow> bool) \<Rightarrow> nat \<Rightarrow> int \<Rightarrow> board \<Rightarrow> json" where
  "audit_page p since limit b =
     (let rows = sql_limit limit (filter (\<lambda>r. au_id r > since \<and> p r) (sort_key au_id (b_audits b)))
      in JObj [(''cursor'', jnat (if rows = [] then since else au_id (last rows))),
               (''items'', JArr (map render_audit rows))])"

definition escalations :: "nat \<Rightarrow> int \<Rightarrow> board \<Rightarrow> json" where
  "escalations = audit_page (\<lambda>r. au_action r \<in> {''board_escalation'', ''fleet_outage_hold'',
     ''breakglass_review_ticket'', ''quarantine''})"

definition violations :: "nat \<Rightarrow> int \<Rightarrow> board \<Rightarrow> json" where
  "violations = audit_page (\<lambda>r. au_outcome r = ''violation'')"

text \<open>The walk expands nodes down to depth 32 and lists those at depth 33: fuel 33.\<close>

definition lineage_node :: "ticket \<Rightarrow> json" where
  "lineage_node t = JObj [(''ticket_id'', JStr (ticket_ref (t_id t))),
     (''status'', JStr (status_str (t_status t))), (''lineage_depth'', jnat (t_depth t)),
     (''spawned_by'', jstr (t_spawned t)), (''parent_id'', jref ticket_ref (t_parent t))]"

fun lineage_walk :: "nat \<Rightarrow> board \<Rightarrow> nat \<Rightarrow> json list" where
  "lineage_walk fuel b k =
     (case get_ticket b k of
        None \<Rightarrow> []
      | Some t \<Rightarrow> lineage_node t #
          (case fuel of
             0 \<Rightarrow> []
           | Suc n \<Rightarrow> concat (map (\<lambda>c. lineage_walk n b (t_id c))
               (filter (\<lambda>c. t_parent c = Some k) (b_tickets b)))))"

definition lineage :: "string \<Rightarrow> board \<Rightarrow> json" where
  "lineage ref b =
     (case parse_ticket_id ref of
        None \<Rightarrow> JObj [(''root'', JNull), (''nodes'', JArr [])]
      | Some k \<Rightarrow> JObj [(''root'', JStr (ticket_ref k)), (''nodes'', JArr (lineage_walk 33 b k)),
          (''max_depth_cap'', JNum (b_max_depth b))])"

definition holds_facts :: "board \<Rightarrow> json" where
  "holds_facts b = JObj [(''items'', JArr (map (\<lambda>t. JObj [(''ticket_id'', JStr (ticket_ref (t_id t))),
     (''reason'', jstr (t_held_reason t)), (''since'', JNum (t_updated t))])
     (filter t_held (b_tickets b))))]"

definition wip_facts :: "board \<Rightarrow> json" where
  "wip_facts b = JObj [
     (''policy'', JArr (map (\<lambda>w. JObj [(''scope'', JStr (w_scope w)), (''subject'', jstr (w_subject w)),
        (''cap'', JNum (w_cap w))]) (b_wips b))),
     (''in_progress_global'', jnat (wip_count_global b)),
     (''lineage_max_depth'', JNum (b_max_depth b))]"

end
