(* ===== verification/BoardSpec.thy ===== *)
theory BoardSpec
  imports BoardOps
begin

text \<open>
  The abstract board: what the segregation of duties rests on, without JSON, audit rows or
  ceremony. Its state is three lookup functions, tickets by id, locks by resource and approvals
  by id; its transitions are the dozen moves a board may make. The detailed operations are
  shown to be sequences of these moves in \<open>BoardRefine\<close>; the invariants are proved here.
\<close>

type_synonym core = "(nat \<Rightarrow> ticket option) \<times> (string \<Rightarrow> lock option) \<times> (nat \<Rightarrow> approval option)"

definition core_of :: "board \<Rightarrow> core" where
  "core_of b = (get_ticket b, get_lock b, get_approval b)"

section \<open>What a move may change of a row\<close>

definition fixed_cols where
  "fixed_cols t = ((t_id t, t_kind t, t_parent t, t_class t, t_spawned t, t_depth t),
     (t_type t, t_title t, t_origin t, t_taint t, t_sources t, t_spawn_key t, t_created t))"

definition ext :: "ticket \<Rightarrow> ticket \<Rightarrow> bool" where
  "ext t t' \<longleftrightarrow> fixed_cols t' = fixed_cols t \<and> t_version t \<le> t_version t'"

definition same_host :: "ticket \<Rightarrow> ticket \<Rightarrow> bool" where
  "same_host t t' \<longleftrightarrow> t_host t' = t_host t \<and> t_quar t' = t_quar t"

definition quiet_t :: "ticket \<Rightarrow> ticket \<Rightarrow> bool" where
  "quiet_t t t' \<longleftrightarrow> ext t t' \<and> same_host t t' \<and> t_status t' = t_status t \<and>
     t_approval t' = t_approval t \<and> t_proposer t' = t_proposer t \<and>
     t_claimed_by t' = t_claimed_by t \<and> t_fence t' = t_fence t"

definition quiet_l :: "lock \<Rightarrow> lock \<Rightarrow> bool" where
  "quiet_l l l' \<longleftrightarrow> l_rid l' = l_rid l \<and> l_ticket l' = l_ticket l \<and> l_agent l' = l_agent l \<and>
     l_hold l' = l_hold l \<and> l_gen l' = l_gen l"

definition is_freed :: "lock \<Rightarrow> lock \<Rightarrow> bool" where
  "is_freed l l' \<longleftrightarrow> l_rid l' = l_rid l \<and> l_ticket l' = None \<and> l_hold l' = None \<and>
     l_agent l' = None \<and> l_gen l' = l_gen l + 1"

definition quiet_a :: "approval \<Rightarrow> approval \<Rightarrow> bool" where
  "quiet_a x x' \<longleftrightarrow> (\<exists>r. x' = x\<lparr>a_run := r\<rparr>)"

definition rowwise :: "('r \<Rightarrow> 'r \<Rightarrow> bool) \<Rightarrow> ('k \<Rightarrow> 'r option) \<Rightarrow> ('k \<Rightarrow> 'r option) \<Rightarrow> bool" where
  "rowwise R m m' \<longleftrightarrow> (\<forall>k. rel_option R (m k) (m' k))"

definition unlocks :: "nat \<Rightarrow> (string \<Rightarrow> lock option) \<Rightarrow> (string \<Rightarrow> lock option) \<Rightarrow> bool" where
  "unlocks k = rowwise (\<lambda>l l'. quiet_l l l' \<or> (l_ticket l = Some k \<and> is_freed l l'))"

definition revokes :: "nat option \<Rightarrow> (nat \<Rightarrow> approval option) \<Rightarrow> (nat \<Rightarrow> approval option) \<Rightarrow> bool" where
  "revokes aid = rowwise (\<lambda>x x'. quiet_a x x' \<or>
     (aid = Some (a_id x) \<and> a_status x = Granted \<and> x' = x\<lparr>a_status := Revoked\<rparr>))"

definition free_lock :: "(string \<Rightarrow> lock option) \<Rightarrow> string \<Rightarrow> bool" where
  "free_lock L r \<longleftrightarrow> (case L r of None \<Rightarrow> True | Some l \<Rightarrow> l_ticket l = None)"

definition gen_of :: "(string \<Rightarrow> lock option) \<Rightarrow> string \<Rightarrow> int" where
  "gen_of L r = (case L r of None \<Rightarrow> 0 | Some l \<Rightarrow> l_gen l)"

definition acquires ::
  "string \<Rightarrow> nat \<Rightarrow> string \<Rightarrow> hold \<Rightarrow> int \<Rightarrow> (string \<Rightarrow> lock option) \<Rightarrow> (string \<Rightarrow> lock option) \<Rightarrow> bool" where
  "acquires r k sub h g L L' \<longleftrightarrow> free_lock L r \<and> g = gen_of L r + 1 \<and>
     (\<exists>l. L' = L(r \<mapsto> l) \<and> l_rid l = r \<and> l_ticket l = Some k \<and> l_agent l = Some sub \<and>
          l_hold l = Some h \<and> l_gen l = g)"

text \<open>The three effects of a restore: work is requeued, claims are freed, grants are revoked.\<close>

definition restored_t :: "ticket \<Rightarrow> ticket \<Rightarrow> bool" where
  "restored_t t t' \<longleftrightarrow> ext t t' \<and> same_host t t' \<and> t_approval t' = t_approval t \<and>
     t_proposer t' = t_proposer t \<and> t_status t' \<noteq> InProgress \<and>
     (t_status t' = t_status t \<or> t_status t = InProgress \<and> t_status t' = Todo \<or>
      t_status t = Approved \<and> t_status t' = AwaitingApproval)"

definition restored_l :: "lock \<Rightarrow> lock \<Rightarrow> bool" where
  "restored_l l l' \<longleftrightarrow> l_gen l \<le> l_gen l' \<and> l_rid l' = l_rid l \<and> l_hold l' \<noteq> Some ClaimHold"

definition restored_a :: "approval \<Rightarrow> approval \<Rightarrow> bool" where
  "restored_a x x' \<longleftrightarrow> x' = (if a_status x = Granted then x\<lparr>a_status := Revoked\<rparr> else x)"

section \<open>The moves\<close>

inductive astep :: "core \<Rightarrow> core \<Rightarrow> bool" where
  a_quiet: "rowwise quiet_t T T' \<Longrightarrow> rowwise quiet_l L L' \<Longrightarrow> astep (T, L, A) (T', L', A)"
| a_birth: "T k = None \<Longrightarrow> t_id t = k \<Longrightarrow> t_status t = Todo \<or> t_status t = NeedsReview \<and> \<not> t_quar t \<Longrightarrow>
     t_approval t = None \<Longrightarrow> astep (T, L, A) (T(k \<mapsto> t), L, A)"
| a_claim: "T k = Some t \<Longrightarrow> t_status t = Todo \<Longrightarrow> \<not> t_quar t \<Longrightarrow>
     ext t t' \<Longrightarrow> same_host t t' \<Longrightarrow> t_approval t' = t_approval t \<Longrightarrow> t_proposer t' = t_proposer t \<Longrightarrow>
     t_status t' = InProgress \<Longrightarrow> t_claimed_by t' = Some sub \<Longrightarrow> t_fence t' = Some g \<Longrightarrow>
     acquires (resource_id_for t) k sub ClaimHold g L L' \<Longrightarrow>
     astep (T, L, A) (T(k \<mapsto> t'), L', A)"
| a_leave: "T k = Some t \<Longrightarrow> t_status t = InProgress \<Longrightarrow>
     ext t t' \<Longrightarrow> same_host t t' \<Longrightarrow> t_approval t' = t_approval t \<Longrightarrow>
     t_status t' \<in> {Todo, AwaitingApproval, NeedsReview, Blocked} \<Longrightarrow>
     (t_status t' = AwaitingApproval \<longrightarrow> t_proposer t' \<noteq> None) \<Longrightarrow>
     unlocks k L L' \<Longrightarrow> (\<forall>l. L' (resource_id_for t) = Some l \<longrightarrow> l_ticket l \<noteq> Some k) \<Longrightarrow>
     astep (T, L, A) (T(k \<mapsto> t'), L', A)"
| a_unlock: "T k = Some t \<Longrightarrow> t_status t \<noteq> InProgress \<Longrightarrow> unlocks k L L' \<Longrightarrow> astep (T, L, A) (T, L', A)"
| a_unquarantine: "T k = Some t \<Longrightarrow> t_quar t \<Longrightarrow> ext t t' \<Longrightarrow> \<not> t_quar t' \<Longrightarrow>
     t_status t' = t_status t \<Longrightarrow> t_approval t' = t_approval t \<Longrightarrow> t_proposer t' = t_proposer t \<Longrightarrow>
     astep (T, L, A) (T(k \<mapsto> t'), L, A)"
| a_grant: "T k = Some t \<Longrightarrow> t_status t = AwaitingApproval \<Longrightarrow> A a = None \<Longrightarrow>
     ext t t' \<Longrightarrow> same_host t t' \<Longrightarrow> t_proposer t' = t_proposer t \<Longrightarrow>
     t_status t' = Approved \<Longrightarrow> t_approval t' = Some a \<Longrightarrow>
     a_id x = a \<Longrightarrow> a_ticket x = k \<Longrightarrow> a_status x = Granted \<Longrightarrow> a_consumed_by x = None \<Longrightarrow>
     t_proposer t = Some (a_proposer x) \<Longrightarrow> a_approver x \<noteq> a_proposer x \<Longrightarrow>
     t_host t = Some (a_host x) \<Longrightarrow>
     astep (T, L, A) (T(k \<mapsto> t'), L, A(a \<mapsto> x))"
| a_consume: "A a = Some x \<Longrightarrow> a_status x = Granted \<Longrightarrow> T (a_ticket x) = Some t \<Longrightarrow>
     t_status t = Approved \<Longrightarrow> ext t t' \<Longrightarrow> same_host t t' \<Longrightarrow> t_approval t' = t_approval t \<Longrightarrow>
     t_proposer t' = t_proposer t \<Longrightarrow> t_status t' = Executing \<Longrightarrow>
     acquires (a_host x) (a_ticket x) sub ExecHold g L L' \<Longrightarrow>
     astep (T, L, A) (T(a_ticket x \<mapsto> t'), L', A(a \<mapsto> approval_consumed sub now x))"
| a_move: "T k = Some t \<Longrightarrow> is_legal (t_status t) (t_status t') \<Longrightarrow> t_status t \<noteq> InProgress \<Longrightarrow>
     t_status t' \<in> {Todo, Cancelled, Done, Failed, Verifying, NeedsReview} \<Longrightarrow>
     ext t t' \<Longrightarrow> same_host t t' \<Longrightarrow> t_approval t' = t_approval t \<Longrightarrow> t_proposer t' = t_proposer t \<Longrightarrow>
     unlocks k L L' \<Longrightarrow> revokes (t_approval t) A A' \<Longrightarrow>
     (t_status t = Approved \<Longrightarrow> \<forall>a x. t_approval t = Some a \<longrightarrow> A' a = Some x \<longrightarrow> a_status x \<noteq> Granted) \<Longrightarrow>
     astep (T, L, A) (T(k \<mapsto> t'), L', A')"
| a_restore: "rowwise restored_t T T' \<Longrightarrow> rowwise restored_l L L' \<Longrightarrow> rowwise restored_a A A' \<Longrightarrow>
     astep (T, L, A) (T', L', A')"

text \<open>
  The one move that is not lawful: clearing an outage hold puts a held ticket back to \<open>todo\<close>
  from whatever state it is in.
\<close>

inductive hold_cleared :: "core \<Rightarrow> core \<Rightarrow> bool" where
  "T k = Some t \<Longrightarrow> t_held t \<Longrightarrow> ext t t' \<Longrightarrow> same_host t t' \<Longrightarrow> t_approval t' = t_approval t \<Longrightarrow>
     t_proposer t' = t_proposer t \<Longrightarrow> t_status t' = Todo \<Longrightarrow> unlocks k L L' \<Longrightarrow>
     (\<forall>l. L' (resource_id_for t) = Some l \<longrightarrow> l_ticket l \<noteq> Some k) \<Longrightarrow>
     hold_cleared (T, L, A) (T(k \<mapsto> t'), L', A)"

section \<open>Row-wise relations\<close>

lemma rowwiseD: "rowwise R m m' \<Longrightarrow> m k = Some x \<Longrightarrow> \<exists>y. m' k = Some y \<and> R x y"
  unfolding rowwise_def by (metis option.rel_sel option.collapse option.sel option.discI option_rel_Some1)

lemma rowwiseD2: "rowwise R m m' \<Longrightarrow> m' k = Some y \<Longrightarrow> \<exists>x. m k = Some x \<and> R x y"
  unfolding rowwise_def by (metis option_rel_Some2)

lemma rowwise_None: "rowwise R m m' \<Longrightarrow> m' k = None \<longleftrightarrow> m k = None"
  unfolding rowwise_def by (metis rel_option_None1 rel_option_None2)

lemma rowwise_refl: "(\<And>x. R x x) \<Longrightarrow> rowwise R m m"
  by (simp add: rowwise_def option.rel_refl)

lemma rowwise_trans:
  assumes "rowwise R m m'" and "rowwise S m' m''" and "\<And>x y z. R x y \<Longrightarrow> S y z \<Longrightarrow> Q x z"
  shows "rowwise Q m m''"
  unfolding rowwise_def
proof
  fix k
  from assms(1,2) have "rel_option R (m k) (m' k)" "rel_option S (m' k) (m'' k)"
    by (simp_all add: rowwise_def)
  then show "rel_option Q (m k) (m'' k)"
    by (cases "m k"; cases "m' k"; cases "m'' k") (auto intro: assms(3))
qed

lemma rowwise_mono: "rowwise R m m' \<Longrightarrow> (\<And>x y. R x y \<Longrightarrow> S x y) \<Longrightarrow> rowwise S m m'"
  unfolding rowwise_def by (metis (mono_tags, lifting) option.rel_mono_strong)


section \<open>Invariants\<close>

definition inv_ids :: "core \<Rightarrow> bool" where
  "inv_ids = (\<lambda>(T, L, A). (\<forall>k t. T k = Some t \<longrightarrow> t_id t = k) \<and> (\<forall>a x. A a = Some x \<longrightarrow> a_id x = a))"

text \<open>Every in-progress ticket holds the lock of its resource, and the ticket's copy is exact.\<close>

definition claimed_lock :: "(string \<Rightarrow> lock option) \<Rightarrow> nat \<Rightarrow> ticket \<Rightarrow> bool" where
  "claimed_lock L k t \<longleftrightarrow> (\<exists>l. L (resource_id_for t) = Some l \<and> l_ticket l = Some k \<and>
     l_hold l = Some ClaimHold \<and> l_agent l = t_claimed_by t \<and> Some (l_gen l) = t_fence t)"

definition inv_claims :: "core \<Rightarrow> bool" where
  "inv_claims = (\<lambda>(T, L, A). \<forall>k t. T k = Some t \<longrightarrow> t_status t = InProgress \<longrightarrow> claimed_lock L k t)"

definition inv_holds :: "core \<Rightarrow> bool" where
  "inv_holds = (\<lambda>(T, L, A). \<forall>r l. L r = Some l \<longrightarrow> l_hold l = Some ClaimHold \<longrightarrow>
     (\<exists>k t. l_ticket l = Some k \<and> T k = Some t \<and> t_status t = InProgress \<and> resource_id_for t = r))"

definition inv_quar :: "core \<Rightarrow> bool" where
  "inv_quar = (\<lambda>(T, L, A). \<forall>k t. T k = Some t \<longrightarrow> t_quar t \<longrightarrow> t_status t \<in> {Todo, Cancelled})"

definition inv_eyes :: "core \<Rightarrow> bool" where
  "inv_eyes = (\<lambda>(T, L, A). \<forall>a x. A a = Some x \<longrightarrow> a_approver x \<noteq> a_proposer x \<and>
     (a_status x = Consumed \<longrightarrow> a_consumed_by x \<noteq> None))"

text \<open>A ticket that executes has spent an approval, and one up for approval has a proposer.\<close>

definition inv_exec :: "core \<Rightarrow> bool" where
  "inv_exec = (\<lambda>(T, L, A). \<forall>k t. T k = Some t \<longrightarrow>
     (t_status t \<in> {Executing, Verifying} \<longrightarrow>
        (\<exists>a x. A a = Some x \<and> a_ticket x = k \<and> a_status x = Consumed)) \<and>
     (t_status t \<in> {AwaitingApproval, Approved} \<longrightarrow> t_proposer t \<noteq> None))"

definition inv_grant :: "core \<Rightarrow> bool" where
  "inv_grant = (\<lambda>(T, L, A). \<forall>a x. A a = Some x \<longrightarrow> a_status x = Granted \<longrightarrow>
     (\<exists>t. T (a_ticket x) = Some t \<and> t_status t = Approved \<and> t_approval t = Some a))"

definition core_inv :: "core \<Rightarrow> bool" where
  "core_inv s = (inv_ids s \<and> inv_claims s \<and> inv_holds s \<and> inv_quar s \<and> inv_eyes s \<and> inv_exec s)"

lemma ext_id: "ext t t' \<Longrightarrow> t_id t' = t_id t"
  by (simp add: ext_def fixed_cols_def)

lemma same_resource: "ext t t' \<Longrightarrow> same_host t t' \<Longrightarrow> resource_id_for t' = resource_id_for t"
  by (simp add: ext_def fixed_cols_def same_host_def resource_id_for_def)

lemma quiet_resource: "quiet_t t t' \<Longrightarrow> resource_id_for t' = resource_id_for t"
  by (simp add: quiet_t_def same_resource)

lemmas row_simps = quiet_t_def quiet_l_def is_freed_def quiet_a_def ext_def fixed_cols_def same_host_def

inductive_cases astepE: "astep s s'"

inductive_cases clearedE: "hold_cleared s s'"

definition same_a :: "approval \<Rightarrow> approval \<Rightarrow> bool" where
  "same_a x x' \<longleftrightarrow> a_id x' = a_id x \<and> a_ticket x' = a_ticket x \<and> a_host x' = a_host x \<and>
     a_hash x' = a_hash x \<and> a_note x' = a_note x \<and> a_rev x' = a_rev x \<and> a_class x' = a_class x \<and>
     a_proposer x' = a_proposer x \<and> a_approver x' = a_approver x \<and> a_akind x' = a_akind x \<and>
     a_decision x' = a_decision x \<and> a_granted_at x' = a_granted_at x \<and> a_op x' = a_op x"

lemma revokesD2:
  assumes "revokes aid A A'" and "A' a = Some x'"
  shows "\<exists>x. A a = Some x \<and> same_a x x' \<and> a_consumed_by x' = a_consumed_by x \<and>
     (a_status x' = a_status x \<or> a_status x = Granted \<and> a_status x' = Revoked)"
proof -
  obtain x where "A a = Some x" "quiet_a x x' \<or>
      (aid = Some (a_id x) \<and> a_status x = Granted \<and> x' = x\<lparr>a_status := Revoked\<rparr>)"
    using rowwiseD2 [OF assms(1) [unfolded revokes_def] assms(2)] by blast
  then show ?thesis by (auto simp: quiet_a_def same_a_def)
qed

lemma restoreD2:
  assumes "rowwise restored_a A A'" and "A' a = Some x'"
  shows "\<exists>x. A a = Some x \<and> same_a x x' \<and> a_consumed_by x' = a_consumed_by x \<and>
     a_status x' \<noteq> Granted \<and> (a_status x' = a_status x \<or> a_status x = Granted \<and> a_status x' = Revoked)"
proof -
  obtain x where "A a = Some x" "restored_a x x'"
    using rowwiseD2 [OF assms] by blast
  then show ?thesis by (auto simp: same_a_def restored_a_def)
qed

text \<open>A property of every row survives a row-wise step that each row survives.\<close>

lemma rowwise_all:
  assumes "rowwise R m m'" and "\<forall>k x. m k = Some x \<longrightarrow> P k x"
    and "\<And>k x y. m k = Some x \<Longrightarrow> P k x \<Longrightarrow> R x y \<Longrightarrow> P k y"
  shows "\<forall>k y. m' k = Some y \<longrightarrow> P k y"
  using assms rowwiseD2 by metis

lemma revokes_all:
  assumes "revokes aid A A'" and "\<forall>a x. A a = Some x \<longrightarrow> P a x"
    and "\<And>a x x'. A a = Some x \<Longrightarrow> P a x \<Longrightarrow> same_a x x' \<Longrightarrow> a_consumed_by x' = a_consumed_by x \<Longrightarrow>
      a_status x' = a_status x \<or> a_status x = Granted \<and> a_status x' = Revoked \<Longrightarrow> P a x'"
  shows "\<forall>a x. A' a = Some x \<longrightarrow> P a x"
  using assms revokesD2 by metis

lemma restored_all:
  assumes "rowwise restored_a A A'" and "\<forall>a x. A a = Some x \<longrightarrow> P a x"
    and "\<And>a x x'. A a = Some x \<Longrightarrow> P a x \<Longrightarrow> same_a x x' \<Longrightarrow> a_consumed_by x' = a_consumed_by x \<Longrightarrow>
      a_status x' = a_status x \<or> a_status x = Granted \<and> a_status x' = Revoked \<Longrightarrow> P a x'"
  shows "\<forall>a x. A' a = Some x \<longrightarrow> P a x"
  using assms restoreD2 by metis

lemma inv_ids_step: "astep s s' \<Longrightarrow> inv_ids s \<Longrightarrow> inv_ids s'"
proof (induction rule: astep.induct)
  case (a_quiet T T' L L' A)
  have "\<forall>k t. T' k = Some t \<longrightarrow> t_id t = k"
    by (rule rowwise_all [OF a_quiet(1)]) (use a_quiet(3) in \<open>auto simp: inv_ids_def quiet_t_def ext_id\<close>)
  with a_quiet show ?case by (simp add: inv_ids_def)
next
  case (a_move T k t t' L L' A A')
  have "\<forall>a x. A' a = Some x \<longrightarrow> a_id x = a"
    by (rule revokes_all [OF a_move(10)]) (use a_move(12) in \<open>auto simp: inv_ids_def same_a_def\<close>)
  with a_move show ?case by (simp add: inv_ids_def ext_id)
next
  case (a_restore T T' L L' A A')
  have "\<forall>k t. T' k = Some t \<longrightarrow> t_id t = k"
    by (rule rowwise_all [OF a_restore(1)]) (use a_restore(4) in \<open>auto simp: inv_ids_def restored_t_def ext_id\<close>)
  moreover have "\<forall>a x. A' a = Some x \<longrightarrow> a_id x = a"
    by (rule restored_all [OF a_restore(3)]) (use a_restore(4) in \<open>auto simp: inv_ids_def same_a_def\<close>)
  ultimately show ?case by (simp add: inv_ids_def)
qed (auto simp: inv_ids_def row_simps approval_consumed_def split: if_splits)

lemma quar_legal: "is_legal s s' \<Longrightarrow> s \<in> {Todo, Cancelled} \<Longrightarrow> s' \<in> {InProgress, Cancelled}"
  by (auto simp: is_legal_def)

lemma inv_quar_step: "astep s s' \<Longrightarrow> inv_quar s \<Longrightarrow> inv_quar s'"
proof (induction rule: astep.induct)
  case (a_quiet T T' L L' A)
  have "\<forall>k t. T' k = Some t \<longrightarrow> t_quar t \<longrightarrow> t_status t \<in> {Todo, Cancelled}"
    by (rule rowwise_all [OF a_quiet(1)]) (use a_quiet(3) in \<open>auto simp: inv_quar_def quiet_t_def same_host_def\<close>)
  then show ?case by (simp add: inv_quar_def)
next
  case (a_move T k t t' L L' A A')
  have "t_quar t' \<Longrightarrow> t_status t' \<in> {Todo, Cancelled}"
  proof -
    assume "t_quar t'"
    with a_move have "t_status t \<in> {Todo, Cancelled}" by (auto simp: inv_quar_def same_host_def)
    from quar_legal [OF a_move(2) this] a_move(4) show ?thesis by auto
  qed
  with a_move show ?case by (auto simp: inv_quar_def)
next
  case (a_restore T T' L L' A A')
  have "\<forall>k t. T' k = Some t \<longrightarrow> t_quar t \<longrightarrow> t_status t \<in> {Todo, Cancelled}"
    by (rule rowwise_all [OF a_restore(1) a_restore(4) [unfolded inv_quar_def prod.case]])
      (auto simp: restored_t_def same_host_def)
  then show ?case by (simp add: inv_quar_def)
qed (fastforce simp: inv_quar_def same_host_def split: if_splits)+

lemma inv_eyes_step: "astep s s' \<Longrightarrow> inv_eyes s \<Longrightarrow> inv_eyes s'"
proof (induction rule: astep.induct)
  case (a_move T k t t' L L' A A')
  show ?case unfolding inv_eyes_def prod.case
    by (rule revokes_all [OF a_move(10)]) (use a_move(12) in \<open>auto simp: inv_eyes_def same_a_def\<close>)
next
  case (a_restore T T' L L' A A')
  show ?case unfolding inv_eyes_def prod.case
    by (rule restored_all [OF a_restore(3)]) (use a_restore(4) in \<open>auto simp: inv_eyes_def same_a_def\<close>)
qed (auto simp: inv_eyes_def approval_consumed_def split: if_splits)

lemma unlocks_keep:
  "unlocks k L L' \<Longrightarrow> L r = Some l \<Longrightarrow> l_ticket l \<noteq> Some k \<Longrightarrow> \<exists>l'. L' r = Some l' \<and> quiet_l l l'"
  unfolding unlocks_def by (drule rowwiseD) auto

lemma unlocksD2:
  "unlocks k L L' \<Longrightarrow> L' r = Some l' \<Longrightarrow>
     \<exists>l. L r = Some l \<and> (quiet_l l l' \<or> l_ticket l = Some k \<and> is_freed l l')"
  unfolding unlocks_def by (drule rowwiseD2) auto

lemma acquires_other:
  "acquires r k sub h g L L' \<Longrightarrow> L r2 = Some l \<Longrightarrow> l_ticket l \<noteq> None \<Longrightarrow> L' r2 = Some l"
  by (auto simp: acquires_def free_lock_def)

lemma acquires_at:
  "acquires r k sub h g L L' \<Longrightarrow> \<exists>l. L' r = Some l \<and> l_rid l = r \<and> l_ticket l = Some k \<and>
     l_agent l = Some sub \<and> l_hold l = Some h \<and> l_gen l = g"
  by (auto simp: acquires_def)

lemma claimed_lock_quiet:
  assumes "claimed_lock L k t" and "rowwise quiet_l L L'" and "quiet_t t t'"
  shows "claimed_lock L' k t'"
proof -
  from assms(1) obtain l where "L (resource_id_for t) = Some l" "l_ticket l = Some k"
    "l_hold l = Some ClaimHold" "l_agent l = t_claimed_by t" "Some (l_gen l) = t_fence t"
    by (auto simp: claimed_lock_def)
  moreover from rowwiseD [OF assms(2) this(1)] obtain l' where
    "L' (resource_id_for t) = Some l'" "quiet_l l l'" by blast
  ultimately show ?thesis using assms(3) quiet_resource [OF assms(3)]
    by (auto simp: claimed_lock_def quiet_l_def quiet_t_def)
qed

lemma claimed_lock_unlocks:
  assumes "claimed_lock L k2 t" and "unlocks k L L'" and "k2 \<noteq> k"
  shows "claimed_lock L' k2 t"
proof -
  from assms(1) obtain l where l: "L (resource_id_for t) = Some l" "l_ticket l = Some k2"
    "l_hold l = Some ClaimHold" "l_agent l = t_claimed_by t" "Some (l_gen l) = t_fence t"
    by (auto simp: claimed_lock_def)
  with assms(3) unlocks_keep [OF assms(2) l(1)] obtain l' where
    "L' (resource_id_for t) = Some l'" "quiet_l l l'" by auto
  with l show ?thesis by (auto simp: claimed_lock_def quiet_l_def)
qed

lemma claimed_lock_acquires:
  "claimed_lock L k2 t \<Longrightarrow> acquires r k sub h g L L' \<Longrightarrow> claimed_lock L' k2 t"
  by (auto simp: claimed_lock_def dest: acquires_other)

lemma inv_claims_step: "astep s s' \<Longrightarrow> inv_claims s \<Longrightarrow> inv_quar s \<Longrightarrow> inv_claims s'"
proof (induction rule: astep.induct)
  case (a_quiet T T' L L' A)
  have "\<forall>k t. T' k = Some t \<longrightarrow> t_status t = InProgress \<longrightarrow> claimed_lock L' k t"
  proof (rule rowwise_all [OF a_quiet(1)])
    show "\<forall>k t. T k = Some t \<longrightarrow> t_status t = InProgress \<longrightarrow> claimed_lock L' k t"
      using a_quiet(2,3) claimed_lock_quiet by (fastforce simp: inv_claims_def quiet_t_def ext_def same_host_def)
    fix k t t'
    assume "t_status t = InProgress \<longrightarrow> claimed_lock L' k t" "quiet_t t t'"
    moreover have "rowwise quiet_l L' L'" by (rule rowwise_refl) (simp add: quiet_l_def)
    ultimately show "t_status t' = InProgress \<longrightarrow> claimed_lock L' k t'"
      using claimed_lock_quiet by (auto simp: quiet_t_def)
  qed
  then show ?case by (simp add: inv_claims_def)
next
  case (a_claim T k t t' sub g L L' A)
  have "claimed_lock L' k t'"
    using acquires_at [OF a_claim(11)] a_claim(9,10) same_resource [OF a_claim(4,5)]
    by (auto simp: claimed_lock_def)
  with a_claim claimed_lock_acquires [OF _ a_claim(11)] show ?case by (auto simp: inv_claims_def)
next
  case (a_leave T k t t' L L' A)
  with claimed_lock_unlocks [OF _ a_leave(8)] show ?case by (auto simp: inv_claims_def)
next
  case (a_unlock T k t L L' A)
  then have "T k2 = Some t2 \<Longrightarrow> t_status t2 = InProgress \<Longrightarrow> claimed_lock L' k2 t2" for k2 t2
    using claimed_lock_unlocks [OF _ a_unlock(3)] by (cases "k2 = k") (auto simp: inv_claims_def)
  then show ?case by (simp add: inv_claims_def)
next
  case (a_unquarantine T k t t' L A)
  then have "t_status t \<noteq> InProgress" by (fastforce simp: inv_quar_def)
  with a_unquarantine show ?case by (auto simp: inv_claims_def)
next
  case (a_consume A a x T t t' sub g L L' now)
  with claimed_lock_acquires [OF _ a_consume(10)] show ?case by (auto simp: inv_claims_def)
next
  case (a_move T k t t' L L' A A')
  with claimed_lock_unlocks [OF _ a_move(9)] show ?case by (auto simp: inv_claims_def)
next
  case (a_restore T T' L L' A A')
  then show ?case by (auto simp: inv_claims_def restored_t_def dest!: rowwiseD2)
qed (auto simp: inv_claims_def)

definition hold_ok :: "(nat \<Rightarrow> ticket option) \<Rightarrow> string \<Rightarrow> lock \<Rightarrow> bool" where
  "hold_ok T r l \<longleftrightarrow> (l_hold l = Some ClaimHold \<longrightarrow>
     (\<exists>k t. l_ticket l = Some k \<and> T k = Some t \<and> t_status t = InProgress \<and> resource_id_for t = r))"

lemma inv_holds_alt: "inv_holds (T, L, A) \<longleftrightarrow> (\<forall>r l. L r = Some l \<longrightarrow> hold_ok T r l)"
  by (simp add: inv_holds_def hold_ok_def)

lemma hold_ok_upd:
  assumes "hold_ok T r l" and "T k = Some t" and "t_status t \<noteq> InProgress"
  shows "hold_ok (T(k \<mapsto> t')) r l"
  using assms by (auto simp: hold_ok_def)

lemma unlocks_all:
  assumes "unlocks k L L'" and "\<forall>r l. L r = Some l \<longrightarrow> hold_ok T r l"
    and "\<And>r l l'. L r = Some l \<Longrightarrow> hold_ok T r l \<Longrightarrow> L' r = Some l' \<Longrightarrow> quiet_l l l' \<Longrightarrow> hold_ok T' r l'"
  shows "\<forall>r l. L' r = Some l \<longrightarrow> hold_ok T' r l"
proof (intro allI impI)
  fix r l' assume l': "L' r = Some l'"
  from unlocksD2 [OF assms(1) l'] obtain l where l: "L r = Some l"
    "quiet_l l l' \<or> l_ticket l = Some k \<and> is_freed l l'" by blast
  from l(2) show "hold_ok T' r l'"
  proof
    assume "quiet_l l l'"
    with assms(2,3) l(1) l' show ?thesis by blast
  next
    assume "l_ticket l = Some k \<and> is_freed l l'"
    then show ?thesis by (auto simp: hold_ok_def is_freed_def)
  qed
qed

lemma hold_ok_quiet_l: "hold_ok T r l \<Longrightarrow> quiet_l l l' \<Longrightarrow> hold_ok T r l'"
  by (auto simp: hold_ok_def quiet_l_def)

lemma hold_ok_quiet_t:
  assumes "hold_ok T r l" and "rowwise quiet_t T T'"
  shows "hold_ok T' r l"
  unfolding hold_ok_def
proof
  assume "l_hold l = Some ClaimHold"
  with assms(1) obtain k t where "l_ticket l = Some k" "T k = Some t" "t_status t = InProgress"
    "resource_id_for t = r" by (auto simp: hold_ok_def)
  moreover from rowwiseD [OF assms(2) this(2)] obtain t' where "T' k = Some t'" "quiet_t t t'" by blast
  ultimately show "\<exists>k t. l_ticket l = Some k \<and> T' k = Some t \<and> t_status t = InProgress \<and> resource_id_for t = r"
    using quiet_resource [of t t'] by (auto simp: quiet_t_def)
qed

lemma inv_holds_step: "astep s s' \<Longrightarrow> inv_holds s \<Longrightarrow> inv_quar s \<Longrightarrow> inv_ids s \<Longrightarrow> inv_holds s'"
proof (induction rule: astep.induct)
  case (a_quiet T T' L L' A)
  have "\<forall>r l. L' r = Some l \<longrightarrow> hold_ok T r l"
    by (rule rowwise_all [OF a_quiet(2) a_quiet(3) [unfolded inv_holds_alt]]) (rule hold_ok_quiet_l)
  with a_quiet(1) show ?case by (auto simp: inv_holds_alt intro: hold_ok_quiet_t)
next
  case (a_birth T k t L A)
  then have "hold_ok T r l \<Longrightarrow> hold_ok (T(k \<mapsto> t)) r l" for r l by (auto simp: hold_ok_def)
  with a_birth show ?case by (simp add: inv_holds_alt)
next
  case (a_claim T k t t' sub g L L' A)
  obtain l where l: "L' = L(resource_id_for t \<mapsto> l)" "l_ticket l = Some k" "l_hold l = Some ClaimHold"
    using a_claim(11) by (auto simp: acquires_def)
  have "hold_ok (T(k \<mapsto> t')) (resource_id_for t) l"
    using l a_claim(8) same_resource [OF a_claim(4,5)] by (auto simp: hold_ok_def)
  moreover have "hold_ok T r m \<Longrightarrow> hold_ok (T(k \<mapsto> t')) r m" for r m
    using a_claim(1,2) by (auto intro: hold_ok_upd)
  ultimately show ?case using a_claim(12) l(1) by (simp add: inv_holds_alt)
next
  case (a_leave T k t t' L L' A)
  show ?case unfolding inv_holds_alt
  proof (rule unlocks_all [OF a_leave(8) a_leave(10) [unfolded inv_holds_alt]])
    fix r l l' assume h: "L r = Some l" "hold_ok T r l" "L' r = Some l'" "quiet_l l l'"
    then have "l_hold l' = Some ClaimHold \<Longrightarrow> l_ticket l' \<noteq> Some k"
      using a_leave(1,9) by (auto simp: hold_ok_def quiet_l_def)
    with h show "hold_ok (T(k \<mapsto> t')) r l'" by (auto simp: hold_ok_def quiet_l_def)
  qed
next
  case (a_unlock T k t L L' A)
  show ?case unfolding inv_holds_alt
    by (rule unlocks_all [OF a_unlock(3) a_unlock(4) [unfolded inv_holds_alt]]) (rule hold_ok_quiet_l)
next
  case (a_unquarantine T k t t' L A)
  then have "t_status t \<noteq> InProgress" by (fastforce simp: inv_quar_def)
  with a_unquarantine show ?case by (auto simp: inv_holds_alt intro: hold_ok_upd)
next
  case (a_grant T k t A a t' x L)
  then show ?case by (auto simp: inv_holds_alt intro: hold_ok_upd)
next
  case (a_consume A a x T t t' sub g L L' now)
  obtain l where l: "L' = L(a_host x \<mapsto> l)" "l_hold l = Some ExecHold"
    using a_consume(10) by (auto simp: acquires_def)
  have "hold_ok T r m \<Longrightarrow> hold_ok (T(a_ticket x \<mapsto> t')) r m" for r m
    using a_consume(3,4) by (auto intro: hold_ok_upd)
  with a_consume(11) l show ?case by (auto simp: inv_holds_alt) (simp add: hold_ok_def)
next
  case (a_move T k t t' L L' A A')
  show ?case unfolding inv_holds_alt
    by (rule unlocks_all [OF a_move(9) a_move(12) [unfolded inv_holds_alt]])
      (use a_move(1,3) in \<open>auto intro: hold_ok_upd hold_ok_quiet_l\<close>)
next
  case (a_restore T T' L L' A A')
  then show ?case by (auto simp: inv_holds_alt restored_l_def hold_ok_def dest!: rowwiseD2)
qed

definition exec_ok :: "(nat \<Rightarrow> approval option) \<Rightarrow> nat \<Rightarrow> ticket \<Rightarrow> bool" where
  "exec_ok A k t \<longleftrightarrow>
     (t_status t \<in> {Executing, Verifying} \<longrightarrow>
        (\<exists>a x. A a = Some x \<and> a_ticket x = k \<and> a_status x = Consumed)) \<and>
     (t_status t \<in> {AwaitingApproval, Approved} \<longrightarrow> t_proposer t \<noteq> None)"

lemma inv_exec_alt: "inv_exec (T, L, A) \<longleftrightarrow> (\<forall>k t. T k = Some t \<longrightarrow> exec_ok A k t)"
  by (simp add: inv_exec_def exec_ok_def)

lemma exec_ok_mono:
  assumes "exec_ok A k t"
    and "\<And>a x. A a = Some x \<Longrightarrow> a_status x = Consumed \<Longrightarrow>
      \<exists>x'. A' a = Some x' \<and> a_ticket x' = a_ticket x \<and> a_status x' = Consumed"
  shows "exec_ok A' k t"
  using assms unfolding exec_ok_def by blast

lemma revokesD:
  assumes "revokes aid A A'" and "A a = Some x" and "a_status x = Consumed"
  shows "\<exists>x'. A' a = Some x' \<and> a_ticket x' = a_ticket x \<and> a_status x' = Consumed"
proof -
  obtain x' where "A' a = Some x'" "quiet_a x x' \<or>
      (aid = Some (a_id x) \<and> a_status x = Granted \<and> x' = x\<lparr>a_status := Revoked\<rparr>)"
    using rowwiseD [OF assms(1) [unfolded revokes_def] assms(2)] by blast
  with assms(3) show ?thesis by (auto simp: quiet_a_def)
qed

lemma restored_consumed:
  assumes "rowwise restored_a A A'" and "A a = Some x" and "a_status x = Consumed"
  shows "\<exists>x'. A' a = Some x' \<and> a_ticket x' = a_ticket x \<and> a_status x' = Consumed"
  using rowwiseD [OF assms(1,2)] assms(3) by (auto simp: restored_a_def)

lemma legal_verifying: "is_legal s Verifying \<Longrightarrow> s = Executing"
  by (cases s) (auto simp: is_legal_def)

lemma inv_exec_step: "astep s s' \<Longrightarrow> inv_exec s \<Longrightarrow> inv_exec s'"
proof (induction rule: astep.induct)
  case (a_quiet T T' L L' A)
  show ?case unfolding inv_exec_alt
    by (rule rowwise_all [OF a_quiet(1) a_quiet(3) [unfolded inv_exec_alt]])
      (auto simp: exec_ok_def quiet_t_def)
next
  case (a_grant T k t A a t' x L)
  have "exec_ok (A(a \<mapsto> x)) k2 t2" if "T k2 = Some t2" for k2 t2
    by (rule exec_ok_mono [of A]) (use a_grant(3,16) that in \<open>auto simp: inv_exec_alt\<close>)
  moreover have "exec_ok (A(a \<mapsto> x)) k t'" using a_grant(6,7,13) by (simp add: exec_ok_def)
  ultimately show ?case by (simp add: inv_exec_alt)
next
  case (a_consume A a x T t t' sub g L L' now)
  let ?A = "A(a \<mapsto> approval_consumed sub now x)"
  have "exec_ok ?A k2 t2" if "T k2 = Some t2" for k2 t2
    by (rule exec_ok_mono [of A]) (use a_consume(2,11) a_consume(1) that in \<open>auto simp: inv_exec_alt\<close>)
  moreover have "exec_ok ?A (a_ticket x) t'"
    using a_consume(9) by (auto simp: exec_ok_def approval_consumed_def)
  ultimately show ?case by (simp add: inv_exec_alt)
next
  case (a_move T k t t' L L' A A')
  have keep: "exec_ok A' k2 t2" if "T k2 = Some t2" for k2 t2
    by (rule exec_ok_mono [of A]) (use revokesD [OF a_move(10)] a_move(12) that in \<open>auto simp: inv_exec_alt\<close>)
  have "t_status t' = Verifying \<Longrightarrow> t_status t = Executing" using a_move(2) legal_verifying by simp
  with keep [OF a_move(1)] a_move(4) have "exec_ok A' k t'" by (auto simp: exec_ok_def)
  with keep show ?case by (simp add: inv_exec_alt)
next
  case (a_restore T T' L L' A A')
  have "exec_ok A' k t" if "T k = Some t" for k t
    by (rule exec_ok_mono [of A])
      (use restored_consumed [OF a_restore(3)] a_restore(4) that in \<open>auto simp: inv_exec_alt\<close>)
  then have "\<forall>k t. T k = Some t \<longrightarrow> exec_ok A' k t" by blast
  then show ?case unfolding inv_exec_alt
    by (rule rowwise_all [OF a_restore(1)]) (auto simp: exec_ok_def restored_t_def)
next
  case (a_claim T k t t' sub g L L' A)
  then show ?case by (auto simp: inv_exec_alt exec_ok_def)
next
  case (a_leave T k t t' L L' A)
  then show ?case by (auto simp: inv_exec_alt exec_ok_def)
qed (auto simp: inv_exec_alt exec_ok_def)

lemma core_inv_step: "astep s s' \<Longrightarrow> core_inv s \<Longrightarrow> core_inv s'"
  by (simp add: core_inv_def inv_ids_step inv_claims_step inv_holds_step inv_quar_step
      inv_eyes_step inv_exec_step)

lemma core_inv_steps: "astep\<^sup>*\<^sup>* s s' \<Longrightarrow> core_inv s \<Longrightarrow> core_inv s'"
  by (induction rule: rtranclp_induct) (auto intro: core_inv_step)

lemma inv_holds_cleared:
  assumes "T k = Some t" and "unlocks k L L'"
    and "\<forall>l. L' (resource_id_for t) = Some l \<longrightarrow> l_ticket l \<noteq> Some k" and "inv_holds (T, L, A)"
  shows "inv_holds (T(k \<mapsto> t'), L', A)"
  unfolding inv_holds_alt
proof (rule unlocks_all [OF assms(2) assms(4) [unfolded inv_holds_alt]])
  fix r l l' assume h: "L r = Some l" "hold_ok T r l" "L' r = Some l'" "quiet_l l l'"
  then have "l_hold l' = Some ClaimHold \<Longrightarrow> l_ticket l' \<noteq> Some k"
    using assms(1,3) by (auto simp: hold_ok_def quiet_l_def)
  with h show "hold_ok (T(k \<mapsto> t')) r l'" by (auto simp: hold_ok_def quiet_l_def)
qed

lemma core_inv_cleared: "hold_cleared s s' \<Longrightarrow> core_inv s \<Longrightarrow> core_inv s'"
proof (induction rule: hold_cleared.induct)
  case (1 T k t t' L L' A)
  have "inv_ids (T(k \<mapsto> t'), L', A)" using 1 ext_id by (auto simp: core_inv_def inv_ids_def)
  moreover have "inv_claims (T(k \<mapsto> t'), L', A)"
    using 1 claimed_lock_unlocks [OF _ 1(8)] by (auto simp: core_inv_def inv_claims_def)
  moreover have "inv_holds (T(k \<mapsto> t'), L', A)"
    using 1 inv_holds_cleared [of T k t L L' A t'] by (simp add: core_inv_def)
  moreover have "inv_quar (T(k \<mapsto> t'), L', A)" using 1 by (auto simp: core_inv_def inv_quar_def)
  moreover have "inv_eyes (T(k \<mapsto> t'), L', A)" using 1 by (auto simp: core_inv_def inv_eyes_def)
  moreover have "inv_exec (T(k \<mapsto> t'), L', A)" using 1 by (auto simp: core_inv_def inv_exec_alt exec_ok_def)
  ultimately show ?case by (simp add: core_inv_def)
qed

definition grant_ok :: "(nat \<Rightarrow> ticket option) \<Rightarrow> nat \<Rightarrow> approval \<Rightarrow> bool" where
  "grant_ok T a x \<longleftrightarrow> (a_status x = Granted \<longrightarrow>
     (\<exists>t. T (a_ticket x) = Some t \<and> t_status t = Approved \<and> t_approval t = Some a))"

lemma inv_grant_alt: "inv_grant (T, L, A) \<longleftrightarrow> (\<forall>a x. A a = Some x \<longrightarrow> grant_ok T a x)"
  by (simp add: inv_grant_def grant_ok_def)

lemma grant_ok_upd:
  "grant_ok T a x \<Longrightarrow> T k = Some t \<Longrightarrow> t_status t \<noteq> Approved \<Longrightarrow> grant_ok (T(k \<mapsto> t')) a x"
  by (auto simp: grant_ok_def)

lemma inv_grant_step: "astep s s' \<Longrightarrow> inv_grant s \<Longrightarrow> inv_quar s \<Longrightarrow> inv_grant s'"
proof (induction rule: astep.induct)
  case (a_quiet T T' L L' A)
  have "grant_ok T' a x" if "grant_ok T a x" for a x
    unfolding grant_ok_def
  proof
    assume "a_status x = Granted"
    with that obtain t where t: "T (a_ticket x) = Some t" "t_status t = Approved" "t_approval t = Some a"
      by (auto simp: grant_ok_def)
    with rowwiseD [OF a_quiet(1) t(1)]
    show "\<exists>t. T' (a_ticket x) = Some t \<and> t_status t = Approved \<and> t_approval t = Some a"
      by (auto simp: quiet_t_def)
  qed
  with a_quiet(3) show ?case by (simp add: inv_grant_alt)
next
  case (a_birth T k t L A)
  then have "grant_ok T a x \<Longrightarrow> grant_ok (T(k \<mapsto> t)) a x" for a x by (auto simp: grant_ok_def)
  with a_birth show ?case by (simp add: inv_grant_alt)
next
  case (a_claim T k t t' sub g L L' A)
  then show ?case by (auto simp: inv_grant_alt intro: grant_ok_upd)
next
  case (a_leave T k t t' L L' A)
  then show ?case by (auto simp: inv_grant_alt intro: grant_ok_upd)
next
  case (a_unlock T k t L L' A)
  then show ?case by (simp add: inv_grant_def)
next
  case (a_unquarantine T k t t' L A)
  then have "t_status t \<noteq> Approved" by (fastforce simp: inv_quar_def)
  with a_unquarantine show ?case by (auto simp: inv_grant_alt intro: grant_ok_upd)
next
  case (a_grant T k t A a t' x L)
  have "grant_ok (T(k \<mapsto> t')) a x" using a_grant(7-11) by (simp add: grant_ok_def)
  moreover have "grant_ok T b y \<Longrightarrow> grant_ok (T(k \<mapsto> t')) b y" for b y
    using a_grant(1,2) by (auto intro: grant_ok_upd)
  ultimately show ?case using a_grant(16) by (simp add: inv_grant_alt)
next
  case (a_consume A a x T t t' sub g L L' now)
  have own: "t_approval t = Some a"
    using a_consume(1,2,3,11) unfolding inv_grant_def prod.case by fastforce
  have "grant_ok (T(a_ticket x \<mapsto> t')) b y" if "A b = Some y" "b \<noteq> a" for b y
  proof -
    have "grant_ok T b y" using that a_consume(11) by (simp add: inv_grant_alt)
    then show ?thesis using own a_consume(3) that(2) by (auto simp: grant_ok_def)
  qed
  then show ?case by (auto simp: inv_grant_alt) (simp add: grant_ok_def approval_consumed_def)
next
  case (a_move T k t t' L L' A A')
  have "grant_ok (T(k \<mapsto> t')) b y" if y: "A' b = Some y" for b y
  proof -
    from revokesD2 [OF a_move(10) y] obtain x where x: "A b = Some x" "same_a x y"
      "a_status y = a_status x \<or> a_status x = Granted \<and> a_status y = Revoked" by blast
    have "grant_ok T b x" using x(1) a_move(12) by (simp add: inv_grant_alt)
    with x have gy: "grant_ok T b y" by (auto simp: grant_ok_def same_a_def)
    show ?thesis
    proof (cases "t_status t = Approved")
      case True
      with a_move(11) y gy a_move(1) show ?thesis by (auto simp: grant_ok_def)
    next
      case False
      with gy a_move(1) show ?thesis by (auto intro: grant_ok_upd)
    qed
  qed
  then show ?case by (simp add: inv_grant_alt)
next
  case (a_restore T T' L L' A A')
  then show ?case by (auto simp: inv_grant_alt grant_ok_def dest!: restoreD2)
qed

section \<open>Two-state properties\<close>

definition gens_rise :: "core \<Rightarrow> core \<Rightarrow> bool" where
  "gens_rise = (\<lambda>(T, L, A) (T', L', A'). \<forall>r. gen_of L r \<le> gen_of L' r)"

definition approvals_stay :: "core \<Rightarrow> core \<Rightarrow> bool" where
  "approvals_stay = (\<lambda>(T, L, A) (T', L', A'). \<forall>a x. A a = Some x \<longrightarrow>
     (\<exists>x'. A' a = Some x' \<and> same_a x x' \<and>
        (a_status x \<noteq> Granted \<longrightarrow> a_status x' = a_status x \<and> a_consumed_by x' = a_consumed_by x)))"

definition tickets_evolve :: "core \<Rightarrow> core \<Rightarrow> bool" where
  "tickets_evolve = (\<lambda>(T, L, A) (T', L', A'). \<forall>k t. T k = Some t \<longrightarrow>
     (\<exists>t'. T' k = Some t' \<and> ext t t' \<and> is_legal\<^sup>*\<^sup>* (t_status t) (t_status t')))"

lemma ext_refl [simp]: "ext t t"
  by (simp add: ext_def)

lemma ext_trans: "ext t u \<Longrightarrow> ext u v \<Longrightarrow> ext t v"
  by (simp add: ext_def)

lemma same_a_refl [simp]: "same_a x x"
  by (simp add: same_a_def)

lemma same_a_trans: "same_a x y \<Longrightarrow> same_a y z \<Longrightarrow> same_a x z"
  by (simp add: same_a_def)

lemma gens_rise_refl: "gens_rise s s"
  by (simp add: gens_rise_def split: prod.splits)

lemma gens_rise_trans: "gens_rise s t \<Longrightarrow> gens_rise t u \<Longrightarrow> gens_rise s u"
  by (fastforce simp: gens_rise_def split: prod.splits intro: order_trans)

lemma approvals_stay_refl: "approvals_stay s s"
  by (simp add: approvals_stay_def split: prod.splits)

lemma approvals_stay_trans:
  assumes "approvals_stay s t" and "approvals_stay t u"
  shows "approvals_stay s u"
proof -
  obtain T L A where s: "s = (T, L, A)" by (cases s)
  obtain T1 L1 A1 where t: "t = (T1, L1, A1)" by (cases t)
  obtain T2 L2 A2 where u: "u = (T2, L2, A2)" by (cases u)
  show ?thesis unfolding approvals_stay_def s u prod.case
  proof (intro allI impI)
    fix a x assume "A a = Some x"
    with assms(1) obtain y where y: "A1 a = Some y" "same_a x y"
      "a_status x \<noteq> Granted \<longrightarrow> a_status y = a_status x \<and> a_consumed_by y = a_consumed_by x"
      unfolding approvals_stay_def s t prod.case by blast
    from assms(2) y(1) obtain z where z: "A2 a = Some z" "same_a y z"
      "a_status y \<noteq> Granted \<longrightarrow> a_status z = a_status y \<and> a_consumed_by z = a_consumed_by y"
      unfolding approvals_stay_def t u prod.case by blast
    show "\<exists>x'. A2 a = Some x' \<and> same_a x x' \<and>
        (a_status x \<noteq> Granted \<longrightarrow> a_status x' = a_status x \<and> a_consumed_by x' = a_consumed_by x)"
      using y z same_a_trans [OF y(2) z(2)] by auto
  qed
qed

lemma tickets_evolve_refl: "tickets_evolve s s"
  by (simp add: tickets_evolve_def split: prod.splits)

lemma tickets_evolve_trans:
  assumes "tickets_evolve s t" and "tickets_evolve t u"
  shows "tickets_evolve s u"
proof -
  obtain T L A where s: "s = (T, L, A)" by (cases s)
  obtain T1 L1 A1 where t: "t = (T1, L1, A1)" by (cases t)
  obtain T2 L2 A2 where u: "u = (T2, L2, A2)" by (cases u)
  show ?thesis unfolding tickets_evolve_def s u prod.case
  proof (intro allI impI)
    fix k x assume "T k = Some x"
    with assms(1) obtain y where y: "T1 k = Some y" "ext x y" "is_legal\<^sup>*\<^sup>* (t_status x) (t_status y)"
      unfolding tickets_evolve_def s t prod.case by blast
    from assms(2) y(1) obtain z where z: "T2 k = Some z" "ext y z" "is_legal\<^sup>*\<^sup>* (t_status y) (t_status z)"
      unfolding tickets_evolve_def t u prod.case by blast
    show "\<exists>t'. T2 k = Some t' \<and> ext x t' \<and> is_legal\<^sup>*\<^sup>* (t_status x) (t_status t')"
      using y z ext_trans [OF y(2) z(2)] rtranclp_trans [OF y(3) z(3)] by blast
  qed
qed

lemma unlocks_gen: "unlocks k L L' \<Longrightarrow> gen_of L r \<le> gen_of L' r"
  unfolding gen_of_def using rowwise_None [of _ L L' r] rowwiseD [of _ L L' r]
  by (auto simp: unlocks_def quiet_l_def is_freed_def split: option.splits) fastforce+

lemma acquires_gen:
  assumes "acquires r k sub h g L L'"
  shows "gen_of L r2 \<le> gen_of L' r2" and "gen_of L r < g" and "gen_of L' r = g"
  using assms by (auto simp: acquires_def gen_of_def)

lemma gens_rise_step: "astep s s' \<Longrightarrow> gens_rise s s'"
proof (induction rule: astep.induct)
  case (a_quiet T T' L L' A)
  have "unlocks 0 L L'" unfolding unlocks_def by (rule rowwise_mono [OF a_quiet(2)]) simp
  then show ?case by (simp add: gens_rise_def unlocks_gen)
next
  case (a_restore T T' L L' A A')
  have "gen_of L r \<le> gen_of L' r" for r
    using rowwise_None [OF a_restore(2), of r] rowwiseD [OF a_restore(2), of r]
    by (cases "L r") (auto simp: gen_of_def restored_l_def split: option.splits)
  then show ?case by (simp add: gens_rise_def)
qed (auto simp: gens_rise_def unlocks_gen acquires_gen(1))

lemma gens_rise_cleared: "hold_cleared s s' \<Longrightarrow> gens_rise s s'"
  by (erule hold_cleared.cases) (simp add: gens_rise_def unlocks_gen)

lemma approvals_stay_same: "A = A' \<Longrightarrow> approvals_stay (T, L, A) (T', L', A')"
  by (simp add: approvals_stay_def)

lemma approvals_stay_step: "astep s s' \<Longrightarrow> approvals_stay s s'"
proof (induction rule: astep.induct)
  case (a_grant T k t A a t' x L)
  then show ?case by (auto simp: approvals_stay_def)
next
  case (a_consume A a x T t t' sub g L L' now)
  then show ?case by (auto simp: approvals_stay_def same_a_def approval_consumed_def)
next
  case (a_move T k t t' L L' A A')
  show ?case unfolding approvals_stay_def prod.case
  proof (intro allI impI)
    fix a x assume "A a = Some x"
    from rowwiseD [OF a_move(10) [unfolded revokes_def] this]
    show "\<exists>x'. A' a = Some x' \<and> same_a x x' \<and>
        (a_status x \<noteq> Granted \<longrightarrow> a_status x' = a_status x \<and> a_consumed_by x' = a_consumed_by x)"
      by (auto simp: quiet_a_def same_a_def)
  qed
next
  case (a_restore T T' L L' A A')
  show ?case unfolding approvals_stay_def prod.case
  proof (intro allI impI)
    fix a x assume "A a = Some x"
    from rowwiseD [OF a_restore(3) this]
    show "\<exists>x'. A' a = Some x' \<and> same_a x x' \<and>
        (a_status x \<noteq> Granted \<longrightarrow> a_status x' = a_status x \<and> a_consumed_by x' = a_consumed_by x)"
      by (auto simp: restored_a_def same_a_def)
  qed
qed (auto intro: approvals_stay_same)

lemma approvals_stay_cleared: "hold_cleared s s' \<Longrightarrow> approvals_stay s s'"
  by (erule hold_cleared.cases) (simp add: approvals_stay_same)

lemma tickets_evolve_upd:
  "T k = Some t \<Longrightarrow> ext t t' \<Longrightarrow> t_status t' = t_status t \<or> is_legal (t_status t) (t_status t') \<Longrightarrow>
     tickets_evolve (T, L, A) (T(k \<mapsto> t'), L', A')"
  by (auto simp: tickets_evolve_def)

lemma tickets_evolve_rowwise:
  assumes "rowwise R T T'"
    and "\<And>t t'. R t t' \<Longrightarrow> ext t t' \<and> (t_status t' = t_status t \<or> is_legal (t_status t) (t_status t'))"
  shows "tickets_evolve (T, L, A) (T', L', A')"
  unfolding tickets_evolve_def prod.case
proof (intro allI impI)
  fix k t assume "T k = Some t"
  from rowwiseD [OF assms(1) this] obtain t' where "T' k = Some t'" "R t t'" by blast
  with assms(2) [OF this(2)]
  show "\<exists>t'. T' k = Some t' \<and> ext t t' \<and> is_legal\<^sup>*\<^sup>* (t_status t) (t_status t')" by auto
qed

lemma tickets_evolve_step: "astep s s' \<Longrightarrow> tickets_evolve s s'"
proof (induction rule: astep.induct)
  case (a_quiet T T' L L' A)
  show ?case by (rule tickets_evolve_rowwise [OF a_quiet(1)]) (simp add: quiet_t_def)
next
  case (a_birth T k t L A)
  then show ?case by (auto simp: tickets_evolve_def)
next
  case (a_restore T T' L L' A A')
  show ?case by (rule tickets_evolve_rowwise [OF a_restore(1)]) (auto simp: restored_t_def is_legal_def)
next
  case (a_unlock T k t L L' A)
  then show ?case by (simp add: tickets_evolve_def)
qed (auto intro!: tickets_evolve_upd simp: is_legal_def)

end
