(* ===== verification/BoardRefine.thy ===== *)
theory BoardRefine
  imports BoardSpec
begin

text \<open>
  The detailed operations refine the abstract moves: from a well-formed store, every committed
  operation is a sequence of moves of \<open>BoardSpec\<close> between the abstractions of the two stores.
\<close>

section \<open>What the statements change\<close>

definition wf_ids :: "nat list \<Rightarrow> nat \<Rightarrow> nat list \<Rightarrow> nat \<Rightarrow> bool" where
  "wf_ids ks n as m \<longleftrightarrow> distinct ks \<and> distinct as \<and> (\<forall>k \<in> set ks. k < n) \<and> (\<forall>a \<in> set as. a < m)"

definition wf_board :: "board \<Rightarrow> bool" where
  "wf_board b \<longleftrightarrow> wf_ids (map t_id (b_tickets b)) (b_next_ticket b)
     (map a_id (b_approvals b)) (b_next_approval b) \<and> distinct (map l_rid (b_locks b))"

definition sim :: "board \<Rightarrow> board \<Rightarrow> bool" where
  "sim b b' \<longleftrightarrow> (wf_board b \<longrightarrow> core_inv (core_of b) \<longrightarrow> wf_board b' \<and> astep\<^sup>*\<^sup>* (core_of b) (core_of b'))"

lemma sim_refl [simp]: "sim b b"
  by (simp add: sim_def)

lemma sim_trans: "sim b c \<Longrightarrow> sim c d \<Longrightarrow> sim b d"
  unfolding sim_def using core_inv_steps rtranclp_trans by (metis (full_types))

lemma sim_fold:
  assumes "\<And>x c. sim c (f x c)"
  shows "sim b (fold f xs b)"
proof (induction xs arbitrary: b)
  case Nil
  then show ?case by simp
next
  case (Cons x xs)
  from sim_trans [OF assms Cons.IH] show ?case by simp
qed

definition same_core :: "board \<Rightarrow> board \<Rightarrow> bool" where
  "same_core b b' \<longleftrightarrow> b_tickets b' = b_tickets b \<and> b_next_ticket b' = b_next_ticket b \<and>
     b_locks b' = b_locks b \<and> b_approvals b' = b_approvals b \<and> b_next_approval b' = b_next_approval b"

lemma same_core_frame [simp]:
  "same_core b (add_audit n r b)" "same_core b (add_violation n r s b)" "same_core b (emit e d b)"
  "same_core b (record_op n u op h resp b)" "same_core b (meta_put k v b)"
  "same_core b (upd_huddle hk g b)" "same_core b (emit_event n ev b)"
  "same_core b (upsert_note tid nid role n by b)" "same_core b (replace_note tid nid role n by b)"
  "same_core b (b\<lparr>b_deps := x1\<rparr>)" "same_core b (b\<lparr>b_meta := x2\<rparr>)" "same_core b (b\<lparr>b_huddles := x3\<rparr>)"
  "same_core b (b\<lparr>b_wips := x4\<rparr>)" "same_core b (b\<lparr>b_auth := x5\<rparr>)" "same_core b (b\<lparr>b_max_depth := x6\<rparr>)"
  by (simp_all add: same_core_def add_audit_def add_violation_def emit_def record_op_def meta_put_def
      upd_huddle_def emit_event_def upsert_note_def replace_note_def Let_def)

lemma same_core_gets:
  assumes "same_core b b'"
  shows "get_ticket b' = get_ticket b" "get_lock b' = get_lock b" "get_approval b' = get_approval b"
    "core_of b' = core_of b" "wf_board b' = wf_board b"
  using assms
  by (simp_all add: same_core_def get_ticket_def [abs_def] get_lock_def [abs_def]
      get_approval_def [abs_def] core_of_def wf_board_def)

lemmas frame_gets [simp] = same_core_frame [THEN same_core_gets(1)] same_core_frame [THEN same_core_gets(2)]
  same_core_frame [THEN same_core_gets(3)] same_core_frame [THEN same_core_gets(4)]
  same_core_frame [THEN same_core_gets(5)]

lemma sim_same_core: "same_core b b' \<Longrightarrow> sim b b'"
  using same_core_gets [of b b'] by (simp add: sim_def)

lemma sim_frame: "sim b c \<Longrightarrow> same_core c d \<Longrightarrow> sim b d"
  using sim_trans sim_same_core by blast

lemma upd_gets [simp]:
  "get_ticket (upd_locks p f b) = get_ticket b" "get_ticket (upd_approvals q g b) = get_ticket b"
  "get_lock (upd_tickets r h b) = get_lock b" "get_lock (upd_approvals q g b) = get_lock b"
  "get_approval (upd_tickets r h b) = get_approval b" "get_approval (upd_locks p f b) = get_approval b"
  by (simp_all add: get_ticket_def [abs_def] get_lock_def [abs_def] get_approval_def [abs_def]
      upd_tickets_def upd_locks_def upd_approvals_def)

lemma wf_upds [simp]:
  "(\<And>l. l_rid (f l) = l_rid l) \<Longrightarrow> wf_board (upd_locks p f b) = wf_board b"
  "(\<And>t. t_id (h t) = t_id t) \<Longrightarrow> wf_board (upd_tickets r h b) = wf_board b"
  "(\<And>x. a_id (g x) = a_id x) \<Longrightarrow> wf_board (upd_approvals q g b) = wf_board b"
  by (simp_all add: wf_board_def upd_locks_def upd_tickets_def upd_approvals_def map_key_update_where)

lemma get_ticket_upd [simp]:
  "(\<And>t. t_id (f t) = t_id t) \<Longrightarrow>
     get_ticket (upd_tickets (\<lambda>r. t_id r = k) f b) = (get_ticket b)(k := map_option f (get_ticket b k))"
  by (rule ext) (simp add: get_ticket_def upd_tickets_def row_of_update_key)

lemma get_ticket_upd_at [simp]:
  "(\<And>t. t_id (f t) = t_id t) \<Longrightarrow>
     get_ticket (upd_tickets (\<lambda>r. t_id r = k \<and> q r) f b) =
       (get_ticket b)(k := map_option (\<lambda>t. if q t then f t else t) (get_ticket b k))"
  by (rule ext) (simp add: get_ticket_def upd_tickets_def row_of_update_at)

lemma get_lock_upd_at [simp]:
  "(\<And>l. l_rid (f l) = l_rid l) \<Longrightarrow>
     get_lock (upd_locks (\<lambda>r. l_rid r = k \<and> q r) f b) =
       (get_lock b)(k := map_option (\<lambda>l. if q l then f l else l) (get_lock b k))"
  by (rule ext) (simp add: get_lock_def upd_locks_def row_of_update_at)

lemma get_approval_upd [simp]:
  "(\<And>x. a_id (f x) = a_id x) \<Longrightarrow>
     get_approval (upd_approvals (\<lambda>r. a_id r = k) f b) = (get_approval b)(k := map_option f (get_approval b k))"
  by (rule ext) (simp add: get_approval_def upd_approvals_def row_of_update_key)

lemma get_approval_upd_at [simp]:
  "(\<And>x. a_id (f x) = a_id x) \<Longrightarrow>
     get_approval (upd_approvals (\<lambda>r. a_id r = k \<and> q r) f b) =
       (get_approval b)(k := map_option (\<lambda>x. if q x then f x else x) (get_approval b k))"
  by (rule ext) (simp add: get_approval_def upd_approvals_def row_of_update_at)

lemma core_upds:
  "core_of (upd_tickets r h b) = (get_ticket (upd_tickets r h b), get_lock b, get_approval b)"
  "core_of (upd_locks p f b) = (get_ticket b, get_lock (upd_locks p f b), get_approval b)"
  "core_of (upd_approvals q g b) = (get_ticket b, get_lock b, get_approval (upd_approvals q g b))"
  by (simp_all add: core_of_def)

section \<open>The operations that move claims\<close>

text \<open>
  The operations that move claims: claim, heartbeat, release, escalation, the outage hold and the
  reaper's sweep are sequences of the abstract moves (\<open>sim\<close>).
\<close>

section \<open>Building moves\<close>

lemma astep_sim: "(wf_board b \<Longrightarrow> wf_board b') \<Longrightarrow> astep (core_of b) (core_of b') \<Longrightarrow> sim b b'"
  by (auto simp: sim_def)

text \<open>Writes outside the core are invisible.\<close>

lemma sim_same: "same_core c d \<Longrightarrow> sim b d = sim b c"
  using same_core_gets [of c d] by (simp add: sim_def)

lemmas sim_frames [simp] = same_core_frame [THEN sim_same]

lemma get_ticket_id: "get_ticket b k = Some t \<Longrightarrow> t_id t = k"
  by (auto simp: get_ticket_def dest: row_of_key)

lemma get_lock_id: "get_lock b r = Some l \<Longrightarrow> l_rid l = r"
  by (auto simp: get_lock_def dest: row_of_key)

lemma get_approval_id: "get_approval b a = Some x \<Longrightarrow> a_id x = a"
  by (auto simp: get_approval_def dest: row_of_key)

lemma quiet_t_refl [simp]: "quiet_t t t"
  by (simp add: quiet_t_def same_host_def)

lemma quiet_l_refl [simp]: "quiet_l l l"
  by (simp add: quiet_l_def)

lemma quiet_a_refl [simp]: "quiet_a x x"
  unfolding quiet_a_def by (rule exI [of _ "a_run x"]) simp

lemma rowwise_upd:
  assumes "rowwise R m m'" and "\<And>x y. m k = Some x \<Longrightarrow> m' k = Some y \<Longrightarrow> R x y \<Longrightarrow> R x (f y)"
  shows "rowwise R m (m'(k := map_option f (m' k)))"
  unfolding rowwise_def
proof
  fix j
  from assms(1) have "rel_option R (m j) (m' j)" by (simp add: rowwise_def)
  with assms(2) show "rel_option R (m j) ((m'(k := map_option f (m' k))) j)"
    by (cases "m j"; cases "m' j") auto
qed

lemma rowwise_at:
  assumes "\<And>x. R x x" and "\<And>x. m k = Some x \<Longrightarrow> R x (f x)"
  shows "rowwise R m (m(k := map_option f (m k)))"
  by (rule rowwise_upd [OF rowwise_refl]) (auto intro: assms)

text \<open>A write that leaves the columns of the model's core alone.\<close>

lemma sim_quiet:
  assumes "\<And>t. t_id (f t) = t_id t" and "\<And>t. get_ticket b k = Some t \<Longrightarrow> quiet_t t (f t)"
  shows "sim b (upd_tickets (\<lambda>r. t_id r = k) f b)"
proof (rule astep_sim)
  show "wf_board b \<Longrightarrow> wf_board (upd_tickets (\<lambda>r. t_id r = k) f b)" using assms(1) by simp
  have "rowwise quiet_t (get_ticket b) ((get_ticket b)(k := map_option f (get_ticket b k)))"
    by (rule rowwise_at) (auto intro: assms)
  moreover have "rowwise quiet_l (get_lock b) (get_lock b)" by (rule rowwise_refl) simp
  ultimately show "astep (core_of b) (core_of (upd_tickets (\<lambda>r. t_id r = k) f b))"
    using assms(1) by (simp add: core_of_def a_quiet)
qed

definition free_if :: "nat \<Rightarrow> (lock \<Rightarrow> lock) \<Rightarrow> lock \<Rightarrow> lock" where
  "free_if k f l = (if l_ticket l = Some k then f l else l)"

lemma is_freed_freed [simp]: "is_freed l (freed l)" "is_freed l (freed_keep_lease l)"
  by (simp_all add: is_freed_def)

lemma free_if_unlocks:
  assumes "\<And>l. is_freed l (f l)"
  shows "unlocks k L (L(r := map_option (free_if k f) (L r)))"
  unfolding unlocks_def by (rule rowwise_at) (auto simp: free_if_def assms)

lemma unlocks_refl: "unlocks k L L"
  unfolding unlocks_def by (rule rowwise_refl) simp

lemma free_if_not_held:
  assumes "\<And>l. is_freed l (f l)"
  shows "\<forall>l. (L(r := map_option (free_if k f) (L r))) r = Some l \<longrightarrow> l_ticket l \<noteq> Some k"
proof -
  have n: "l_ticket (f l) = None" for l using assms by (simp add: is_freed_def)
  have "l_ticket (free_if k f l) \<noteq> Some k" for l
    by (cases "l_ticket l = Some k") (simp_all add: free_if_def n)
  then show ?thesis by auto
qed

lemma get_lock_release [simp]:
  "get_lock (lock_release r k b) = (get_lock b)(r := map_option (free_if k freed) (get_lock b r))"
  "get_lock (lock_release_keep_lease r k b) =
     (get_lock b)(r := map_option (free_if k freed_keep_lease) (get_lock b r))"
  by (simp_all add: lock_release_def lock_release_keep_lease_def free_if_def [abs_def])

lemma release_frame [simp]:
  "get_ticket (lock_release r k b) = get_ticket b" "get_approval (lock_release r k b) = get_approval b"
  "get_ticket (lock_release_keep_lease r k b) = get_ticket b"
  "get_approval (lock_release_keep_lease r k b) = get_approval b"
  "wf_board (lock_release r k b) = wf_board b" "wf_board (lock_release_keep_lease r k b) = wf_board b"
  by (simp_all add: lock_release_def lock_release_keep_lease_def)

lemma acquire_core:
  assumes "lock_acquire r kind hk k sub lease b = Some (g, b1)"
  shows "acquires r k sub hk g (get_lock b) (get_lock b1)"
    and "get_ticket b1 = get_ticket b" and "get_approval b1 = get_approval b"
    and "wf_board b \<Longrightarrow> wf_board b1" and "b_tickets b1 = b_tickets b"
proof -
  from lock_acquire_frame [OF assms] have f: "b1 = b\<lparr>b_locks := b_locks b1\<rparr>" .
  have t: "b_tickets b1 = b_tickets b" "b_approvals b1 = b_approvals b"
    "b_next_ticket b1 = b_next_ticket b" "b_next_approval b1 = b_next_approval b"
    by (subst f, simp)+
  show "get_ticket b1 = get_ticket b" "get_approval b1 = get_approval b" "b_tickets b1 = b_tickets b"
    using t by (simp_all add: get_ticket_def [abs_def] get_approval_def [abs_def])
  have "distinct (map l_rid (b_locks b)) \<Longrightarrow> distinct (map l_rid (b_locks b1))"
    using assms row_of_None [of l_rid r "b_locks b"]
    by (auto simp: lock_acquire_def get_lock_def upd_locks_def map_key_update_where
        split: option.splits if_splits)
  with t show "wf_board b \<Longrightarrow> wf_board b1" by (simp add: wf_board_def)
  from lock_acquire_lookup(1) [OF assms] obtain l where l: "get_lock b1 r = Some l" "l_rid l = r"
    "l_ticket l = Some k" "l_agent l = Some sub" "l_hold l = Some hk" "l_gen l = g" by blast
  have "get_lock b1 = (get_lock b)(r \<mapsto> l)"
    using l(1) lock_acquire_lookup(2) [OF assms] by (auto simp: fun_eq_iff)
  moreover have "free_lock (get_lock b) r"
    using lock_acquire_free [OF assms] by (simp add: free_lock_def)
  moreover have "g = gen_of (get_lock b) r + 1"
    using lock_acquire_gen [OF assms] by (simp add: gen_of_def current_generation_def)
  ultimately show "acquires r k sub hk g (get_lock b) (get_lock b1)"
    using l by (auto simp: acquires_def)
qed

section \<open>Claim, heartbeat, release\<close>

lemma count_where_ex: "count_where p xs \<noteq> 0 \<Longrightarrow> \<exists>x \<in> set xs. p x"
  by (auto simp: count_where_0)

lemma get_ticket_in: "wf_board b \<Longrightarrow> t \<in> set (b_tickets b) \<Longrightarrow> get_ticket b (t_id t) = Some t"
  by (simp add: wf_board_def wf_ids_def get_ticket_def row_of_distinct)

lemma do_claim_sim:
  assumes "do_claim cfg now t p op h s b = Inr (r, b')" and "wf_board b \<Longrightarrow> get_ticket b (t_id t) = Some t"
  shows "sim b b'"
  unfolding sim_def
proof (intro impI)
  assume wf: "wf_board b" and "core_inv (core_of b)"
  let ?k = "t_id t" and ?sub = "p_sub p" and ?lease = "now + c_lease_ttl cfg"
  from assms(1) obtain g b1 where
    acq: "lock_acquire (resource_id_for t) (resource_kind_for t) ClaimHold ?k ?sub (Some ?lease) b = Some (g, b1)"
    and cnt: "count_where (\<lambda>r. t_id r = ?k \<and> t_status r = Todo \<and> \<not> t_quar r \<and> \<not> t_held r) (b_tickets b1) \<noteq> 0"
    by (auto simp: do_claim_def Let_def)
  note ac = acquire_core [OF acq]
  have t: "get_ticket b ?k = Some t" by (rule assms(2) [OF wf])
  have open1: "t_status t = Todo" "\<not> t_quar t" "\<not> t_held t"
  proof -
    obtain x where x: "x \<in> set (b_tickets b)" "t_id x = ?k"
      "t_status x = Todo" "\<not> t_quar x" "\<not> t_held x"
      using count_where_ex [OF cnt, unfolded ac(5)] by blast
    from get_ticket_in [OF wf x(1)] x(2) t have "x = t" by simp
    with x show "t_status t = Todo" "\<not> t_quar t" "\<not> t_held t" by auto
  qed
  define b2 where "b2 = upd_tickets (\<lambda>r. t_id r = ?k \<and> t_status r = Todo \<and> \<not> t_quar r \<and> \<not> t_held r)
      (ticket_claimed ?sub now ?lease g) b1"
  define b3 where "b3 = (if truthy_num (t_wall t) then b2
      else upd_tickets (\<lambda>r. t_id r = ?k) (\<lambda>r. r\<lparr>t_wall := Some (now + c_wall_cap cfg)\<rparr>) b2)"
  have id1: "\<And>r. t_id (ticket_claimed ?sub now ?lease g r) = t_id r" by (simp add: ticket_claimed_def)
  have core2: "core_of b2 = ((get_ticket b)(?k \<mapsto> ticket_claimed ?sub now ?lease g t), get_lock b1, get_approval b)"
    using t open1 ac(2,3) id1 by (simp add: b2_def core_of_def)
  have "astep (core_of b) (core_of b2)"
    unfolding core2 unfolding core_of_def
    by (rule a_claim [where T = "get_ticket b" and k = ?k, OF t open1(1,2) _ _ _ _ _ _ _ ac(1)])
      (simp_all add: ticket_claimed_def ext_def fixed_cols_def same_host_def)
  moreover have "wf_board b \<Longrightarrow> wf_board b2" using ac(4) id1 by (simp add: b2_def)
  ultimately have "sim b b2" by (intro astep_sim) auto
  moreover have "sim b2 b3"
    unfolding b3_def by (auto intro!: sim_quiet simp: quiet_t_def ext_def fixed_cols_def same_host_def)
  moreover have "same_core b3 b' \<or> core_of b' = core_of b3 \<and> wf_board b' = wf_board b3"
    using assms(1) acq cnt unfolding do_claim_def Let_def b3_def b2_def by auto
  ultimately show "wf_board b' \<and> astep\<^sup>*\<^sup>* (core_of b) (core_of b')"
    using sim_trans [of b b2 b3] wf \<open>core_inv (core_of b)\<close> same_core_gets [of b3 b']
    by (auto simp: sim_def)
qed

lemma first_min_in: "first_min key xs = Some x \<Longrightarrow> x \<in> set xs"
  by (induction xs arbitrary: x) (auto split: option.splits if_splits)

lemma candidate_in: "candidate team typ b = Some t \<Longrightarrow> t \<in> set (b_tickets b) \<and> eligible team typ b t"
  unfolding candidate_def by (drule first_min_in) auto

lemma select_targeted_in: "select_targeted k sub team b = Inr t \<Longrightarrow> get_ticket b k = Some t"
  by (auto simp: select_targeted_def split: option.splits)

lemma replay_same: "replay_claim stored sub b = Inr (r, b') \<Longrightarrow> b' = b"
  by (auto simp: replay_claim_def split: option.splits json.splits)

lemma claim_sim:
  assumes "claim cfg now p tid team typ op s b = Inr (r, b')"
  shows "sim b b'"
proof -
  let ?h = "claim_hash tid team typ"
  consider (same) "b' = b"
    | (target) k t where "select_targeted k (p_sub p) team b = Inr t" "do_claim cfg now t p op ?h s b = Inr (r, b')"
    | (any) t where "candidate team typ b = Some t" "do_claim cfg now t p op ?h s b = Inr (r, b')"
    using assms unfolding claim_def Let_def
    by (auto split: option.splits dest!: replay_same)
  then show ?thesis
  proof cases
    case same
    then show ?thesis by simp
  next
    case (target k t)
    from select_targeted_in [OF target(1)] have "get_ticket b (t_id t) = Some t"
      using get_ticket_id by blast
    then show ?thesis by (rule do_claim_sim [OF target(2)])
  next
    case (any t)
    show ?thesis
      by (rule do_claim_sim [OF any(2)]) (use candidate_in [OF any(1)] in \<open>auto intro: get_ticket_in\<close>)
  qed
qed

lemma once_sim:
  assumes "once sub op h b k = Inr (r, b')" and "k = Inr (r, b') \<Longrightarrow> sim b b'"
  shows "sim b b'"
  using assms by (auto simp: once_ok)

text \<open>An in-progress ticket leaves, with its resource freed.\<close>

lemma sim_leave:
  assumes "get_ticket b k = Some t" and "t_status t = InProgress"
    and "core_of b' = ((get_ticket b)(k \<mapsto> t'),
      (get_lock b)(resource_id_for t := map_option (free_if k f) (get_lock b (resource_id_for t))), get_approval b)"
    and "wf_board b' = wf_board b" and "\<And>l. is_freed l (f l)"
    and "ext t t'" and "same_host t t'" and "t_approval t' = t_approval t"
    and "t_status t' \<in> {Todo, AwaitingApproval, NeedsReview, Blocked}"
    and "t_status t' = AwaitingApproval \<longrightarrow> t_proposer t' \<noteq> None"
  shows "sim b b'"
proof (rule astep_sim, simp add: assms(4))
  show "astep (core_of b) (core_of b')"
    unfolding assms(3) unfolding core_of_def
    by (rule a_leave [where T = "get_ticket b" and k = k, OF assms(1,2,6,7,8,9,10)
          free_if_unlocks [OF assms(5)] free_if_not_held [OF assms(5)]])
qed

lemma sim_unlock:
  assumes "get_ticket b k = Some t" and "t_status t \<noteq> InProgress"
    and "core_of b' = (get_ticket b, L', get_approval b)" and "unlocks k (get_lock b) L'"
    and "wf_board b' = wf_board b"
  shows "sim b b'"
proof (rule astep_sim, simp add: assms(5))
  show "astep (core_of b) (core_of b')"
    unfolding assms(3) unfolding core_of_def
    by (rule a_unlock [where T = "get_ticket b" and k = k, OF assms(1,2,4)])
qed

lemma sim_move:
  assumes "get_ticket b k = Some t" and "is_legal (t_status t) (t_status t')"
    and "t_status t \<noteq> InProgress"
    and "t_status t' \<in> {Todo, Cancelled, Done, Failed, Verifying, NeedsReview}"
    and "ext t t'" and "same_host t t'" and "t_approval t' = t_approval t" and "t_proposer t' = t_proposer t"
    and "core_of b' = ((get_ticket b)(k \<mapsto> t'), L', A')" and "unlocks k (get_lock b) L'"
    and "revokes (t_approval t) (get_approval b) A'"
    and "t_status t = Approved \<Longrightarrow> \<forall>a x. t_approval t = Some a \<longrightarrow> A' a = Some x \<longrightarrow> a_status x \<noteq> Granted"
    and "wf_board b' = wf_board b"
  shows "sim b b'"
proof (rule astep_sim, simp add: assms(13))
  show "astep (core_of b) (core_of b')"
    unfolding assms(9) unfolding core_of_def
    by (rule a_move [where T = "get_ticket b" and k = k, OF assms(1-8,10,11,12)])
qed

lemma sim_heartbeat_lock: "sim b (upd_locks (\<lambda>r. l_rid r = rid \<and> l_ticket r = x) (\<lambda>r. r\<lparr>l_lease := e\<rparr>) b)"
proof (rule astep_sim)
  let ?b = "upd_locks (\<lambda>r. l_rid r = rid \<and> l_ticket r = x) (\<lambda>r. r\<lparr>l_lease := e\<rparr>) b"
  have "rowwise quiet_l (get_lock b) (get_lock ?b)"
    by (subst get_lock_upd_at) (auto intro!: rowwise_at simp: quiet_l_def)
  moreover have "rowwise quiet_t (get_ticket b) (get_ticket b)" by (rule rowwise_refl) simp
  ultimately show "astep (core_of b) (core_of ?b)" unfolding core_upds unfolding core_of_def by (rule a_quiet [rotated])
qed simp

lemmas quiet_simps = quiet_t_def ext_def fixed_cols_def same_host_def

lemma heartbeat_sim:
  assumes "heartbeat cfg now p tid tok note op b = Inr (r, b')"
  shows "sim b b'"
proof -
  have "sim b (upd_tickets (\<lambda>r. t_id r = tid) (\<lambda>r. r\<lparr>t_lease := e, t_renewals := t_renewals r + 1, t_updated := now\<rparr>)
      (upd_locks (\<lambda>r. l_rid r = rid \<and> l_ticket r = x) (\<lambda>r. r\<lparr>l_lease := e\<rparr>) b))" for e rid x
    by (rule sim_trans [OF sim_heartbeat_lock]) (rule sim_quiet; simp add: quiet_simps)
  then show ?thesis using assms
    by (auto simp: heartbeat_def Let_def split: option.splits if_splits)
qed

lemma bump_sim: "sim b (bump_version now k b)"
  unfolding bump_version_def by (rule sim_quiet) (simp_all add: quiet_simps)

lemma requeue_release_sim:
  assumes "get_ticket b k = Some t" and "r = resource_id_for t"
  shows "sim b (lock_release r k (release_ticket now k b))"
proof (cases "t_status t = InProgress")
  case True
  show ?thesis
    by (rule sim_leave [OF assms(1) True, where f = freed and t' = "ticket_requeued now t"])
      (use assms True in \<open>simp_all add: core_of_def release_ticket_def ticket_requeued_def ext_def fixed_cols_def same_host_def\<close>)
next
  case False
  show ?thesis
    by (rule sim_unlock [OF assms(1) False, OF _ free_if_unlocks [where r = r and f = freed]])
      (use assms False in \<open>simp_all add: core_of_def release_ticket_def ticket_requeued_def fun_upd_idem\<close>)
qed

lemma release_sim: "release now p tid tok reason op s b = Inr (r, b') \<Longrightarrow> sim b b'"
  unfolding release_def Let_def
  by (erule once_sim)
    (auto intro!: sim_trans [OF requeue_release_sim bump_sim])

section \<open>The reaper\<close>

lemma escalate_leave:
  assumes "get_ticket b k = Some t" and "t_status t = InProgress" and "\<And>l. is_freed l (f l)"
    and "core_of c = ((get_ticket b)(k \<mapsto> ticket_escalated reason now t),
      (get_lock b)(resource_id_for t := map_option (free_if k f) (get_lock b (resource_id_for t))), get_approval b)"
    and "wf_board c = wf_board b"
  shows "sim b c"
  by (rule sim_leave [OF assms(1,2,4,5,3)])
    (simp_all add: ticket_escalated_def ext_def fixed_cols_def same_host_def)

lemma escalated_id [simp]: "t_id (ticket_escalated reason now t) = t_id t"
  by (simp add: ticket_escalated_def)

text \<open>The wall-clock escalation frees the lock it was found by, which is the ticket's own.\<close>

lemma claim_escalate_sim:
  assumes "\<And>t. get_ticket b k = Some t \<Longrightarrow> t_status t = InProgress \<Longrightarrow> rid = resource_id_for t"
    and "rid \<noteq> []"
  shows "sim b (claim_escalate now k reason rid b)"
proof (cases "get_ticket b k")
  case None
  then show ?thesis by (simp add: claim_escalate_def)
next
  case (Some t)
  show ?thesis
  proof (cases "t_status t = InProgress")
    case True
    have "sim b (lock_release rid k (upd_tickets (\<lambda>r. t_id r = k) (ticket_escalated reason now) b))"
      by (rule escalate_leave [OF Some True, where f = freed])
        (simp_all add: core_of_def Some assms(1) [OF Some True])
    then show ?thesis using Some True assms(2)
      by (simp add: claim_escalate_def escalation_audit_def Let_def)
  next
    case False
    with Some show ?thesis by (simp add: claim_escalate_def)
  qed
qed

lemma ceremony_escalate_sim: "sim b (ceremony_escalate now k reason b)"
proof (cases "get_ticket b k")
  case None
  then show ?thesis by (simp add: ceremony_escalate_def)
next
  case (Some t)
  show ?thesis
  proof (cases "t_status t = InProgress")
    case True
    have "sim b (lock_release_keep_lease (resource_id_for t) k
        (upd_tickets (\<lambda>r. t_id r = k) (ticket_escalated reason now) b))"
      by (rule escalate_leave [OF Some True, where f = freed_keep_lease]) (simp_all add: core_of_def Some)
    then show ?thesis using Some True
      by (simp add: ceremony_escalate_def escalation_audit_def Let_def)
  next
    case False
    with Some show ?thesis by (simp add: ceremony_escalate_def)
  qed
qed

lemma hold_ticket_sim: "sim b (hold_ticket now k b)"
  unfolding hold_ticket_def by (rule sim_quiet) (simp_all add: quiet_simps)

lemma sim_cong: "sim b d \<Longrightarrow> core_of c = core_of d \<Longrightarrow> wf_board c = wf_board d \<Longrightarrow> sim b c"
  by (simp add: sim_def)

definition keeps_resources :: "board \<Rightarrow> board \<Rightarrow> bool" where
  "keeps_resources c d \<longleftrightarrow> (\<forall>k t. get_ticket c k = Some t \<longrightarrow>
     (\<exists>t'. get_ticket d k = Some t' \<and> resource_id_for t' = resource_id_for t))"

definition own_locks :: "(lock \<times> ticket) list \<Rightarrow> board \<Rightarrow> bool" where
  "own_locks rows c \<longleftrightarrow> (\<forall>(l, t) \<in> set rows.
     \<exists>t'. get_ticket c (t_id t) = Some t' \<and> resource_id_for t' = l_rid l)"

lemma own_locks_keep: "own_locks rows c \<Longrightarrow> keeps_resources c d \<Longrightarrow> own_locks rows d"
  by (fastforce simp: own_locks_def keeps_resources_def)

lemma keeps_refl [simp]: "keeps_resources c c"
  by (simp add: keeps_resources_def)

lemma keeps_trans: "keeps_resources b c \<Longrightarrow> keeps_resources c d \<Longrightarrow> keeps_resources b d"
  by (fastforce simp: keeps_resources_def)

lemma keeps_same: "get_ticket d = get_ticket c \<Longrightarrow> keeps_resources b d = keeps_resources b c"
  by (simp add: keeps_resources_def)

lemmas keeps_frames [simp] = same_core_frame [THEN same_core_gets(1), THEN keeps_same]
  release_frame(1) [THEN keeps_same] release_frame(3) [THEN keeps_same]

lemma keeps_upd:
  "(\<And>t. t_id (f t) = t_id t \<and> t_host (f t) = t_host t) \<Longrightarrow>
     keeps_resources c (upd_tickets (\<lambda>r. t_id r = k \<and> q r) f c)"
  "(\<And>t. t_id (f t) = t_id t \<and> t_host (f t) = t_host t) \<Longrightarrow>
     keeps_resources c (upd_tickets (\<lambda>r. t_id r = k) f c)"
  by (auto simp: keeps_resources_def resource_id_for_def)

lemma resource_nonempty [simp]: "resource_id_for t \<noteq> []"
  by (auto simp: resource_id_for_def truthy_str_def split: option.splits)

lemma keeps_claim_escalate: "keeps_resources c (claim_escalate now k reason rid c)"
  by (simp add: claim_escalate_def escalation_audit_def Let_def keeps_upd ticket_escalated_def
      split: option.splits)

lemma keeps_release_ticket: "keeps_resources c (release_ticket now k c)"
  unfolding release_ticket_def by (rule keeps_upd) (simp add: ticket_requeued_def)

lemma keeps_bump: "keeps_resources c (bump_version now k c)"
  unfolding bump_version_def by (rule keeps_upd) simp

lemma keeps_hold: "keeps_resources c (hold_ticket now k c)"
  unfolding hold_ticket_def by (rule keeps_upd) simp

definition reap_core :: "int \<Rightarrow> lock \<times> ticket \<Rightarrow> board \<Rightarrow> board" where
  "reap_core now = (\<lambda>(l, t) b. snd (reap_one now (l, t) ([], b)))"

lemma snd_reap_one: "snd (reap_one now x s) = reap_core now x (snd s)"
  by (cases x; cases s) (simp add: reap_core_def reap_one_def Let_def)

lemma snd_fold_reap: "snd (fold (reap_one now) xs s) = fold (reap_core now) xs (snd s)"
  by (induction xs arbitrary: s) (simp_all add: snd_reap_one)

lemma fold_reap: "fold (reap_one now) xs (ids, b) = (ids', b') \<Longrightarrow> b' = fold (reap_core now) xs b"
  using snd_fold_reap [of now xs "(ids, b)"] by simp

lemma reap_core_sim:
  assumes "get_ticket c (t_id t) = Some t'" and "resource_id_for t' = l_rid l"
  shows "sim c (reap_core now (l, t) c)" and "keeps_resources c (reap_core now (l, t) c)"
proof -
  let ?k = "t_id t"
  have "sim c (release_ticket now ?k (lock_release (l_rid l) ?k c))"
    by (rule sim_cong [OF requeue_release_sim [OF assms(1)], of "l_rid l"])
      (simp_all add: assms(2) core_of_def release_ticket_def ticket_requeued_def)
  from sim_trans [OF this bump_sim]
  show "sim c (reap_core now (l, t) c)" by (simp add: reap_core_def reap_one_def Let_def)
  have "keeps_resources c (bump_version now ?k (release_ticket now ?k (lock_release (l_rid l) ?k c)))"
    by (rule keeps_trans [OF keeps_trans [OF _ keeps_release_ticket] keeps_bump]) simp
  then show "keeps_resources c (reap_core now (l, t) c)"
    by (simp add: reap_core_def reap_one_def Let_def)
qed

lemma sim_fold_rows:
  assumes "\<And>l t c t'. (l, t) \<in> set xs \<Longrightarrow> get_ticket c (t_id t) = Some t' \<Longrightarrow> resource_id_for t' = l_rid l \<Longrightarrow>
      sim c (f (l, t) c) \<and> keeps_resources c (f (l, t) c)"
    and "own_locks xs b"
  shows "sim b (fold f xs b)" and "keeps_resources b (fold f xs b)"
proof -
  have "ys = [] \<or> set ys \<subseteq> set xs \<Longrightarrow> own_locks xs c \<Longrightarrow> sim c (fold f ys c) \<and> keeps_resources c (fold f ys c)" for ys c
  proof (induction ys arbitrary: c)
    case Nil
    then show ?case by simp
  next
    case (Cons y ys)
    obtain l t where y: "y = (l, t)" by (cases y)
    with Cons.prems obtain t' where "(l, t) \<in> set xs" "get_ticket c (t_id t) = Some t'" "resource_id_for t' = l_rid l"
      by (auto simp: own_locks_def)
    from assms(1) [OF this] y have s: "sim c (f y c)" "keeps_resources c (f y c)" by auto
    from Cons.IH [of "f y c"] Cons.prems own_locks_keep [OF Cons.prems(2) s(2)]
    have "sim (f y c) (fold f ys (f y c)) \<and> keeps_resources (f y c) (fold f ys (f y c))" by auto
    with s show ?case by (auto intro: sim_trans keeps_trans)
  qed
  from this [of xs b] assms(2) show "sim b (fold f xs b)" "keeps_resources b (fold f xs b)" by auto
qed

lemma claim_holds_own:
  assumes "wf_board b" and "core_inv (core_of b)" and "(l, t) \<in> set (claim_holds b)"
  shows "get_ticket b (t_id t) = Some t \<and> resource_id_for t = l_rid l"
proof -
  from assms(3) obtain k where l: "l \<in> set (b_locks b)" "l_hold l = Some ClaimHold" "l_ticket l = Some k"
    "get_ticket b k = Some t"
    by (fastforce simp: claim_holds_def split: option.splits dest: sym)
  have "get_lock b (l_rid l) = Some l"
    using assms(1) l(1) by (simp add: wf_board_def get_lock_def row_of_distinct)
  moreover have "inv_holds (get_ticket b, get_lock b, get_approval b)"
    using assms(2) by (simp add: core_inv_def core_of_def)
  ultimately obtain t2 where "get_ticket b k = Some t2" "resource_id_for t2 = l_rid l"
    using l(2,3) unfolding inv_holds_def prod.case by fastforce
  with l get_ticket_id [OF l(4)] show ?thesis by simp
qed

lemma reaper_sim: "sim b (snd (reaper_sweep cfg now b))"
  unfolding sim_def
proof (intro impI)
  assume wf: "wf_board b" and ci: "core_inv (core_of b)"
  define rows where "rows = claim_holds b"
  define b1 where "b1 = fold (\<lambda>(l, t). claim_escalate now (t_id t) ''max_renewal_cap'' (l_rid l))
      (filter (live_wall_capped now) rows) b"
  have own: "own_locks (filter P rows) b" for P
    using claim_holds_own [OF wf ci] by (fastforce simp: own_locks_def rows_def)
  have s1: "sim b b1" "keeps_resources b b1"
    unfolding b1_def
    by (rule sim_fold_rows; use own in \<open>auto intro!: claim_escalate_sim keeps_claim_escalate\<close>)+
  have own1: "own_locks (filter P rows) b1" for P
    by (rule own_locks_keep [OF own s1(2)])
  have s2: "sim b1 (fold (\<lambda>(l, t). hold_ticket now (t_id t)) (filter (lease_expired now) rows) b1)"
    by (rule sim_fold_rows(1); use own1 in \<open>auto intro!: hold_ticket_sim keeps_hold\<close>)
  have s3: "sim b1 (fold (reap_core now) (filter (lease_expired now) rows) b1)"
    by (rule sim_fold_rows(1); use own1 in \<open>auto intro!: reap_core_sim\<close>)
  have "sim b (snd (reaper_sweep cfg now b))"
    using s1(1) sim_trans [OF s1(1) s2] sim_trans [OF s1(1) s3]
    by (auto dest!: fold_reap simp: reaper_sweep_def Let_def rows_def [symmetric] b1_def [symmetric] split: prod.splits)
  with wf ci show "wf_board (snd (reaper_sweep cfg now b)) \<and> astep\<^sup>*\<^sup>* (core_of b) (core_of (snd (reaper_sweep cfg now b)))"
    by (simp add: sim_def)
qed

end
