(* ===== verification/BoardRefineTickets.thy ===== *)
theory BoardRefineTickets
  imports BoardRefine
begin

text \<open>
  Creation, updates, proposal, grant and consume as sequences of the abstract moves.
\<close>

section \<open>Tickets\<close>

lemma create_sim_birth:
  assumes "wf_board b" and "t_id row = b_next_ticket b" and "t_approval row = None"
    and "t_status row = Todo \<or> t_status row = NeedsReview \<and> \<not> t_quar row"
  shows "wf_board (insert_ticket row b)" and "astep (core_of b) (core_of (insert_ticket row b))"
proof -
  let ?b = "insert_ticket row b"
  have fresh: "\<forall>k \<in> set (map t_id (b_tickets b)). k < b_next_ticket b"
    using assms(1) by (simp add: wf_board_def wf_ids_def)
  then show "wf_board ?b" using assms(1,2) by (auto simp: insert_ticket_def wf_board_def wf_ids_def less_Suc_eq)
  have none: "get_ticket b (b_next_ticket b) = None"
    using fresh by (auto simp: get_ticket_def row_of_None)
  have "get_ticket ?b = (get_ticket b)(b_next_ticket b \<mapsto> row)"
    using none assms(2)
    by (auto simp: insert_ticket_def fun_eq_iff get_ticket_def row_of_append split: option.splits)
  moreover have "get_lock ?b = get_lock b" "get_approval ?b = get_approval b"
    by (simp_all add: insert_ticket_def get_lock_def [abs_def] get_approval_def [abs_def])
  ultimately show "astep (core_of b) (core_of ?b)"
    using a_birth [of "get_ticket b", OF none assms(2,4,3)] by (simp add: core_of_def)
qed

lemma insert_ticket_sim:
  "cr_born a = Todo \<or> cr_born a = NeedsReview \<and> \<not> cr_quar a \<Longrightarrow>
     sim b (insert_ticket (created_row cfg now p a b) b)"
  unfolding sim_def using create_sim_birth [of b "created_row cfg now p a b"] by auto

lemma create_sim:
  assumes "create cfg now p a op s b = Inr (r, b')"
    and "cr_born a = Todo \<or> cr_born a = NeedsReview \<and> \<not> cr_quar a"
  shows "sim b b'"
  by (rule once_sim [OF assms(1) [unfolded create_def]])
    (use insert_ticket_sim [OF assms(2)] in \<open>auto simp: Let_def\<close>)

lemma apply_field_quiet:
  assumes "apply_field field v = Inr f"
  shows "t_id (f t) = t_id t" and "quiet_t t ((f t)\<lparr>t_version := t_version t + 1, t_updated := now\<rparr>)"
  using assms by (auto simp: apply_field_def quiet_simps split: if_splits)

lemma update_sim:
  assumes "update_ticket now p tid field v tok ex op s b = Inr (r, b')"
  shows "sim b b'"
proof -
  have q: "sim b (upd_tickets (\<lambda>r. t_id r = tid)
      (\<lambda>r. (f r)\<lparr>t_version := Suc (t_version r), t_updated := now\<rparr>) b)"
    if "apply_field field v = Inr f" for f
    by (rule sim_quiet) (use apply_field_quiet [OF that] in simp_all)
  from assms show ?thesis
    by (auto simp: update_ticket_def fence_if_claimed_def Let_def q split: if_splits)
qed

lemma clear_quarantine_sim:
  assumes "clear_quarantine now p tid host op s b = Inr (r, b')"
  shows "sim b b'"
proof -
  from assms obtain t where t: "get_ticket b tid = Some t" "t_quar t"
    by (auto simp: clear_quarantine_def)
  let ?h = "if host = None then t_host t else host"
  let ?b = "upd_tickets (\<lambda>r. t_id r = tid) (ticket_unquarantined ?h now) b"
  have "sim b ?b"
  proof (rule astep_sim)
    have "core_of ?b = ((get_ticket b)(tid \<mapsto> ticket_unquarantined ?h now t), get_lock b, get_approval b)"
      using t by (simp add: core_of_def ticket_unquarantined_def)
    moreover have "astep (get_ticket b, get_lock b, get_approval b)
        ((get_ticket b)(tid \<mapsto> ticket_unquarantined ?h now t), get_lock b, get_approval b)"
      by (rule a_unquarantine [where T = "get_ticket b" and k = tid, OF t])
        (simp_all add: ticket_unquarantined_def ext_def fixed_cols_def)
    ultimately show "astep (core_of b) (core_of ?b)" by (simp add: core_of_def)
  qed (simp add: ticket_unquarantined_def)
  with assms t show ?thesis by (auto simp: clear_quarantine_def Let_def split: if_splits)
qed

lemma link_note_sim: "link_note now p tid note tok role op s b = Inr (r, b') \<Longrightarrow> sim b b'"
  unfolding link_note_def fence_if_claimed_def Let_def by (auto split: if_splits)

lemma add_dependency_sim: "add_dependency now p k d op s b = Inr (r, b') \<Longrightarrow> sim b b'"
  unfolding add_dependency_def Let_def by (auto split: if_splits)

section \<open>Approvals\<close>

lemma propose_sim:
  assumes "propose_commit now p tid note rv tok op s b = Inr (r, b')"
  shows "sim b b'"
proof -
  from assms obtain t where t: "get_ticket b tid = Some t" "t_status t = InProgress"
    by (auto simp: propose_commit_def)
  have "sim b (lock_release (resource_id_for t) tid
      (upd_tickets (\<lambda>r. t_id r = tid) (ticket_proposed (p_sub p) note rv now) b))"
    by (rule sim_leave [OF t, where f = freed and t' = "ticket_proposed (p_sub p) note rv now t"])
      (use t in \<open>simp_all add: core_of_def ticket_proposed_def ext_def fixed_cols_def same_host_def\<close>)
  with assms t show ?thesis by (auto simp: propose_commit_def Let_def)
qed

lemma get_approval_insert:
  assumes "get_approval b (a_id row) = None"
  shows "get_approval (insert_approval row allows b) = (get_approval b)(a_id row \<mapsto> row)"
  using assms
  by (auto simp: fun_eq_iff get_approval_def insert_approval_def row_of_append split: option.splits)

lemma insert_approval_gets [simp]:
  "get_ticket (insert_approval row allows b) = get_ticket b"
  "get_lock (insert_approval row allows b) = get_lock b"
  by (simp_all add: insert_approval_def get_ticket_def [abs_def] get_lock_def [abs_def])

lemma wf_insert_approval:
  "wf_board b \<Longrightarrow> a_id row = b_next_approval b \<Longrightarrow> wf_board (insert_approval row allows b)"
  by (auto simp: insert_approval_def wf_board_def wf_ids_def less_Suc_eq)

text \<open>What the checks of a grant establish.\<close>

lemma grant_rows_ok:
  assumes "grant_rows w now p tid ak op g b = Inr (row, allows)"
  obtains t where "get_ticket b tid = Some t" "t_status t = AwaitingApproval"
    "t_proposer t = Some (a_proposer row)" "t_host t = Some (a_host row)"
    "a_id row = b_next_approval b" "a_ticket row = tid" "a_status row = Granted" "a_consumed_by row = None"
    "a_approver row = p_sub p" "a_approver row \<noteq> a_proposer row" "t_claimed_by t \<noteq> Some (p_sub p)"
    "t_note t = Some (a_note row)" "t_rev t = Some (a_rev row)" "a_hash row = gp_hash g"
    "a_class row = gp_class g" "a_akind row = ak" "ak = TierPolicy \<longrightarrow> floor_reasons g = []"
  using assms unfolding grant_rows_def by auto

lemma grant_sim_main:
  assumes ok: "grant_rows w now p tid ak op g b = Inr (row, allows)"
  shows "sim b (upd_tickets (\<lambda>r. t_id r = tid) (ticket_approved (a_id row) now) (insert_approval row allows b))"
    (is "sim b ?b")
  unfolding sim_def
proof (intro impI conjI)
  obtain t where t: "get_ticket b tid = Some t" "t_status t = AwaitingApproval"
      "t_proposer t = Some (a_proposer row)" "t_host t = Some (a_host row)"
    and row: "a_id row = b_next_approval b" "a_ticket row = tid" "a_status row = Granted"
      "a_consumed_by row = None" "a_approver row \<noteq> a_proposer row"
    using grant_rows_ok [OF ok] by metis
  assume wf: "wf_board b"
  then have "\<forall>a \<in> set (map a_id (b_approvals b)). a < b_next_approval b"
    by (simp add: wf_board_def wf_ids_def)
  then have none: "get_approval b (a_id row) = None"
    using row(1) by (auto simp: get_approval_def row_of_None)
  show "wf_board ?b"
    using wf_insert_approval [OF wf row(1), of allows] by (simp add: ticket_approved_def)
  have "core_of ?b = ((get_ticket b)(tid \<mapsto> ticket_approved (a_id row) now t), get_lock b,
      (get_approval b)(a_id row \<mapsto> row))"
    using t(1) by (simp add: core_of_def get_approval_insert [OF none] ticket_approved_def)
  moreover have "astep (get_ticket b, get_lock b, get_approval b)
      ((get_ticket b)(tid \<mapsto> ticket_approved (a_id row) now t), get_lock b, (get_approval b)(a_id row \<mapsto> row))"
    by (rule a_grant [where T = "get_ticket b" and k = tid and A = "get_approval b", OF t(1,2) none])
      (use t row in \<open>simp_all add: ticket_approved_def ext_def fixed_cols_def same_host_def\<close>)
  ultimately show "astep\<^sup>*\<^sup>* (core_of b) (core_of ?b)" by (simp add: core_of_def)
qed

lemma grant_sim:
  assumes "grant_commit w now p tid ak op s g b = Inr (r, b')"
  shows "sim b b'"
  by (rule once_sim [OF assms [unfolded grant_commit_def]])
    (auto simp: Let_def grant_sim_main)

lemma grant_finish_sim: "sim b (snd (grant_finish w now p tid ak op s g b))"
  by (auto simp: grant_finish_def Let_def grant_sim split: sum.splits)

text \<open>What a committed consume has checked, and the store it leaves.\<close>

lemma consume_ok:
  assumes "consume cfg now p ref tk host op s b = Inr (r, b')"
  obtains (replay) aid where "parse_approval_id ref = Some aid" "b' = b"
      "check_op (p_sub p) op (Some (consume_hash aid)) b = Inr (Some r)"
  | (spent) aid a g b1 t c where "parse_approval_id ref = Some aid" "get_approval b aid = Some a"
      "a_status a = Granted" "\<not> destructive_frozen b"
      "lock_acquire (a_host a) ''host'' ExecHold (a_ticket a) (p_sub p) None b = Some (g, b1)"
      "get_ticket b (a_ticket a) = Some t" "t_status t = Approved"
      "c = upd_tickets (\<lambda>r. t_id r = a_ticket a \<and> t_status r = Approved) (ticket_executing g now)
        (upd_approvals (\<lambda>r. a_id r = aid \<and> a_status r = Granted) (approval_consumed (p_sub p) now) b1)"
      "r = consume_response a (allowlist c aid) g" "core_of b' = core_of c" "wf_board b' = wf_board c"
proof -
  obtain aid where aid: "parse_approval_id ref = Some aid"
    using assms by (auto simp: consume_def)
  show thesis
  proof (cases "check_op (p_sub p) op (Some (consume_hash aid)) b = Inr (Some r) \<and> b' = b")
    case True
    with aid replay show thesis by blast
  next
    case False
    with assms aid obtain a g b1 where a: "get_approval b aid = Some a" "a_status a = Granted"
        "\<not> destructive_frozen b"
        "lock_acquire (a_host a) ''host'' ExecHold (a_ticket a) (p_sub p) None b = Some (g, b1)"
      by (fastforce simp: consume_def once_ok Let_def)
    from assms aid a False obtain t where t: "get_ticket b1 (a_ticket a) = Some t" "t_status t = Approved"
      by (fastforce simp: consume_def once_ok Let_def split: option.splits)
    from t(1) acquire_core(2) [OF a(4)] have t': "get_ticket b (a_ticket a) = Some t" by simp
    from assms aid a False show thesis
      by (intro spent [OF aid a t' t(2) refl]) (auto simp: consume_def once_ok Let_def)
  qed
qed

lemma consume_sim:
  assumes "consume cfg now p ref tk host op s b = Inr (r, b')"
  shows "sim b b'"
  using assms
proof (cases rule: consume_ok)
  case (replay aid)
  then show ?thesis by simp
next
  case (spent aid a g b1 t c)
  note ac = acquire_core [OF spent(5)]
  have "a_id a = aid" using get_approval_id [OF spent(2)] .
  have "core_of c = ((get_ticket b)(a_ticket a \<mapsto> ticket_executing g now t), get_lock b1,
      (get_approval b)(aid \<mapsto> approval_consumed (p_sub p) now a))"
    using spent ac(2,3) by (simp add: core_of_def ticket_executing_def approval_consumed_def)
  moreover have "astep (get_ticket b, get_lock b, get_approval b)
      ((get_ticket b)(a_ticket a \<mapsto> ticket_executing g now t), get_lock b1,
      (get_approval b)(aid \<mapsto> approval_consumed (p_sub p) now a))"
    by (rule a_consume [where T = "get_ticket b" and A = "get_approval b", OF spent(2,3,6,7) _ _ _ _ _ ac(1)])
      (simp_all add: ticket_executing_def ext_def fixed_cols_def same_host_def)
  ultimately have "astep (core_of b) (core_of c)" by (simp add: core_of_def)
  moreover have "wf_board b \<Longrightarrow> wf_board c"
    using ac(4) by (simp add: spent(8) ticket_executing_def approval_consumed_def)
  ultimately have "sim b c" by (intro astep_sim)
  with spent(10,11) show ?thesis by (simp add: sim_def)
qed

end
