(* ===== verification/BoardRefineMoves.thy ===== *)
theory BoardRefineMoves
  imports BoardRefineTickets
begin

text \<open>
  Revocation, the generic transitions, the kickoffs and the ceremony as sequences of the
  abstract moves.
\<close>

section \<open>Revocation and the operator\<close>

lemma moved_ids [simp]:
  "t_id (ticket_closed s now t) = t_id t" "t_id (ticket_moved s re now t) = t_id t"
  "t_id (ticket_operator_moved s now t) = t_id t" "t_id (ticket_outcome s now t) = t_id t"
  by (simp_all add: ticket_closed_def ticket_moved_def ticket_operator_moved_def ticket_outcome_def)

lemma moved_quiet [simp]:
  "ext t (ticket_closed s now t)" "same_host t (ticket_closed s now t)"
  "ext t (ticket_operator_moved s now t)" "same_host t (ticket_operator_moved s now t)"
  "ext t (ticket_outcome s now t)" "same_host t (ticket_outcome s now t)"
  "ext t (ticket_moved s re now t)" "same_host t (ticket_moved s re now t)"
  by (simp_all add: ticket_closed_def ticket_moved_def ticket_operator_moved_def ticket_outcome_def quiet_simps)

lemma moved_cols [simp]:
  "t_status (ticket_closed s now t) = s" "t_status (ticket_operator_moved s now t) = s"
  "t_status (ticket_outcome s now t) = s" "t_status (ticket_moved s re now t) = s"
  "t_approval (ticket_closed s now t) = t_approval t" "t_approval (ticket_operator_moved s now t) = t_approval t"
  "t_approval (ticket_outcome s now t) = t_approval t" "t_approval (ticket_moved s re now t) = t_approval t"
  "t_proposer (ticket_closed s now t) = t_proposer t" "t_proposer (ticket_operator_moved s now t) = t_proposer t"
  "t_proposer (ticket_outcome s now t) = t_proposer t" "t_proposer (ticket_moved s re now t) = t_proposer t"
  by (simp_all add: ticket_closed_def ticket_moved_def ticket_operator_moved_def ticket_outcome_def)

lemma revokes_refl [simp]: "revokes aid A A"
  unfolding revokes_def by (rule rowwise_refl) simp

lemma revoke_granted_frame [simp]:
  "get_ticket (revoke_granted aid b) = get_ticket b" "get_lock (revoke_granted aid b) = get_lock b"
  "wf_board (revoke_granted aid b) = wf_board b"
  by (simp_all add: revoke_granted_def split: option.splits)

lemma revoke_granted_revokes [simp]: "revokes aid (get_approval b) (get_approval (revoke_granted aid b))"
  by (auto simp: revoke_granted_def revokes_def split: option.splits if_splits
      intro!: rowwise_at rowwise_refl dest: get_approval_id)

lemma revoke_granted_none:
  assumes "get_approval (revoke_granted (Some k) b) k = Some x"
  shows "a_status x \<noteq> Granted"
proof -
  from assms obtain z where "x = (if a_status z = Granted then z\<lparr>a_status := Revoked\<rparr> else z)"
    by (auto simp: revoke_granted_def)
  then show ?thesis by (simp split: if_splits)
qed

lemma release_host_frame [simp]:
  "get_ticket (release_host t b) = get_ticket b" "get_approval (release_host t b) = get_approval b"
  "wf_board (release_host t b) = wf_board b" "unlocks (t_id t) (get_lock b) (get_lock (release_host t b))"
  by (simp_all add: release_host_def unlocks_refl free_if_unlocks)

lemma revoke_sim:
  assumes "revoke now p tid op s b = Inr (r, b')"
  shows "sim b b'"
proof -
  from assms obtain t where t: "get_ticket b tid = Some t" "t_status t = Approved"
    by (auto simp: revoke_def)
  let ?b1 = "revoke_granted (t_approval t) b"
  let ?b2 = "upd_tickets (\<lambda>r. t_id r = tid) (ticket_closed Cancelled now) ?b1"
  let ?b = "release_host t ?b2"
  have id: "t_id t = tid" using get_ticket_id [OF t(1)] .
  have "sim b ?b"
  proof (rule sim_move [OF t(1), where t' = "ticket_closed Cancelled now t"])
    show "core_of ?b = ((get_ticket b)(tid \<mapsto> ticket_closed Cancelled now t), get_lock ?b, get_approval ?b)"
      using t by (simp add: core_of_def)
    show "unlocks tid (get_lock b) (get_lock ?b)"
      using release_host_frame(4) [of t ?b2] by (simp add: id)
    show "\<forall>a x. t_approval t = Some a \<longrightarrow> get_approval ?b a = Some x \<longrightarrow> a_status x \<noteq> Granted"
      using revoke_granted_none by auto
  qed (simp_all add: t is_legal_def)
  with assms t show ?thesis by (auto simp: revoke_def Let_def)
qed

lemma not_granted: "\<not> granted_row b (Some k) \<Longrightarrow> get_approval b k = Some x \<Longrightarrow> a_status x \<noteq> Granted"
  by (auto simp: granted_row_def count_where_0 get_approval_def dest: row_of_SomeD)

lemma granted_row_upd [simp]: "granted_row (upd_tickets q f b) = granted_row b"
  by (simp add: granted_row_def [abs_def] upd_tickets_def cong: option.case_cong)

lemma operator_status:
  assumes "operator_may_transition frm to" and "state_of to = Some u"
  shows "is_legal frm u \<and> frm \<noteq> InProgress \<and> u \<in> {Todo, Cancelled, Done, Failed} \<and> (frm = Approved \<longrightarrow> is_terminal u)"
proof -
  from assms(1) obtain v where "to = status_str v" "v \<in> set (operator_targets frm)"
    by (auto simp: operator_may_transition_def)
  with assms(2) have "u \<in> set (operator_targets frm)" by simp
  then show ?thesis by (cases frm) (auto simp: is_legal_def)
qed

lemma operator_transition_sim:
  assumes "operator_transition now p tid to op re ex s b = Inr (r, b')"
  shows "sim b b'"
proof -
  from assms obtain t u where t: "get_ticket b tid = Some t" "operator_may_transition (t_status t) to"
      "state_of to = Some u" by (auto simp: operator_transition_def)
  note st = operator_status [OF t(2,3)]
  have id: "t_id t = tid" using get_ticket_id [OF t(1)] .
  let ?b1 = "upd_tickets (\<lambda>r. t_id r = tid) (ticket_operator_moved u now) b"
  let ?b2 = "release_host t (revoke_granted (t_approval t) ?b1)"
  have move: "sim b c"
    if c: "get_ticket c = (get_ticket b)(tid \<mapsto> ticket_operator_moved u now t)"
      "unlocks tid (get_lock b) (get_lock c)" "wf_board c = wf_board b"
      "revokes (t_approval t) (get_approval b) (get_approval c)"
      "t_status t = Approved \<Longrightarrow> \<forall>a x. t_approval t = Some a \<longrightarrow> get_approval c a = Some x \<longrightarrow> a_status x \<noteq> Granted"
    for c
    by (rule sim_move [OF t(1), where t' = "ticket_operator_moved u now t" and L' = "get_lock c" and A' = "get_approval c"])
      (use st c in \<open>auto simp: core_of_def\<close>)
  have "sim b ?b2"
  proof (rule move)
    show "unlocks tid (get_lock b) (get_lock ?b2)"
      using release_host_frame(4) [of t "revoke_granted (t_approval t) ?b1"] by (simp add: id)
    show "revokes (t_approval t) (get_approval b) (get_approval ?b2)"
      using revoke_granted_revokes [of "t_approval t" ?b1] by simp
    show "\<forall>a x. t_approval t = Some a \<longrightarrow> get_approval ?b2 a = Some x \<longrightarrow> a_status x \<noteq> Granted"
      using revoke_granted_none by auto
  qed (simp_all add: t)
  moreover have "sim b ?b1" if "\<not> (is_terminal u \<and> granted_row b (t_approval t))"
  proof (rule move)
    show "\<forall>a x. t_approval t = Some a \<longrightarrow> get_approval ?b1 a = Some x \<longrightarrow> a_status x \<noteq> Granted"
      if "t_status t = Approved"
      using st that \<open>\<not> (is_terminal u \<and> granted_row b (t_approval t))\<close> not_granted by auto
  qed (simp_all add: t unlocks_refl)
  ultimately show ?thesis using assms t
    by (auto simp: operator_transition_def Let_def split: if_splits)
qed

section \<open>Agents and the Gateway\<close>

lemma agent_check_sim: "sim b (snd (agent_check now p tid to s b))"
  by (simp add: agent_check_def log_violation_def split: option.splits)

lemma agent_check_ok:
  "agent_check now p tid to s b = (Inr t, c) \<Longrightarrow> c = b \<and> get_ticket b tid = Some t \<and> t_status t = InProgress \<and>
     (to = status_str AwaitingApproval \<or> to = status_str NeedsReview \<or> to = status_str Blocked)"
  by (auto simp: agent_check_def split: option.splits if_splits dest: agent_may_cases)

lemma agent_move_sim:
  assumes "agent_move now p tid u tok re op s b = Inr (r, b')" and "u \<in> {Todo, NeedsReview, Blocked}"
  shows "sim b b'"
proof (rule once_sim [OF assms(1) [unfolded agent_move_def]], goal_cases)
  case 1
  have main: "sim b (lock_release (resource_id_for t) tid (upd_tickets (\<lambda>r. t_id r = tid) (ticket_moved u re now) b))"
    if t: "get_ticket b tid = Some t" "t_status t = InProgress" for t
    by (rule sim_leave [OF t, where f = freed and t' = "ticket_moved u re now t"])
      (use t assms(2) in \<open>auto simp: core_of_def\<close>)
  from 1 show ?case by (auto simp: Let_def main)
qed

lemma settle_sim: "(\<And>r b'. x = Inr (r, b') \<Longrightarrow> sim b b') \<Longrightarrow> sim b (snd (settle b x))"
  by (auto simp: settle_def split: sum.splits)

lemma agent_transition_sim: "sim b (snd (agent_transition w now p tid to tok re op s b))"
proof (cases "agent_check now p tid to s b")
  case (Pair x c)
  have bc: "sim b c" using agent_check_sim [of b now p tid to s] Pair by simp
  show ?thesis
  proof (cases x)
    case (Inl e)
    with Pair bc show ?thesis by (simp add: agent_transition_def)
  next
    case (Inr t)
    note ok = agent_check_ok [OF Pair [unfolded Inr]]
    have st: "u \<in> {Todo, NeedsReview, Blocked}" if "state_of to = Some u" "to \<noteq> status_str AwaitingApproval" for u
      using ok that state_of_str by (metis insert_iff option.inject)
    have "sim b (snd (settle b (if to = status_str AwaitingApproval
             then and_then (plan_pin w tid b) (\<lambda>(note, rv). propose_commit now p tid note rv tok op s b)
             else need (state_of to) TypeErr (\<lambda>u. agent_move now p tid u tok re op s b))))"
      by (rule settle_sim)
        (use st in \<open>auto simp del: status_str.simps split: if_splits dest: propose_sim agent_move_sim\<close>)
    with Pair Inr ok show ?thesis by (simp add: agent_transition_def)
  qed
qed

lemma pause_sim [simp]: "sim c (snd (pause now tid re b)) = sim c b"
  by (simp add: pause_def split: option.splits)

lemma resume_sim [simp]: "sim c (snd (resume now tid b)) = sim c b"
  by (simp add: resume_def Let_def split: option.splits)

lemma board_agent_transition_sim: "sim b (snd (board_agent_transition w now p tid to tok re op s b))"
  using agent_transition_sim [of b w now p tid to tok re op s]
  by (auto simp: board_agent_transition_def split: prod.splits sum.splits)

lemma quiet_a_run [simp]: "quiet_a x (x\<lparr>a_run := run\<rparr>)"
  by (auto simp: quiet_a_def)

lemma release_exec_frame [simp]:
  "get_ticket (release_exec_hold t b) = get_ticket b" "get_approval (release_exec_hold t b) = get_approval b"
  "wf_board (release_exec_hold t b) = wf_board b" "unlocks (t_id t) (get_lock b) (get_lock (release_exec_hold t b))"
  by (auto simp: release_exec_hold_def unlocks_refl)
    (auto simp: unlocks_def intro!: rowwise_at split: if_splits)

lemma run_outcome_sim:
  assumes "run_outcome now p tid to run op s b = Inr (r, b')"
  shows "sim b b'"
proof -
  obtain u where u: "List.find (\<lambda>x. status_str x = to) outcome_targets = Some u"
    using assms by (auto simp: run_outcome_def)
  then have u': "u \<in> {Verifying, NeedsReview, Failed}"
    by (auto simp: outcome_targets_def split: if_splits)
  let ?c = "\<lambda>t. release_exec_hold t (upd_tickets (\<lambda>r. t_id r = tid) (ticket_outcome u now) b)"
  have main: "sim b (?c t)" "sim b (upd_approvals (\<lambda>r. a_id r = the (t_approval t)) (\<lambda>r. r\<lparr>a_run := run\<rparr>) (?c t))"
    if t: "get_ticket b tid = Some t" "t_status t = Executing" for t
  proof -
    have id: "t_id t = tid" using get_ticket_id [OF t(1)] .
    have un: "unlocks tid (get_lock b) (get_lock (?c t))"
      using release_exec_frame(4) [of t "upd_tickets (\<lambda>r. t_id r = tid) (ticket_outcome u now) b"] by (simp add: id)
    have any: "sim b c"
      if "get_ticket c = get_ticket (?c t)" "get_lock c = get_lock (?c t)" "wf_board c = wf_board b"
        "revokes (t_approval t) (get_approval b) (get_approval c)" for c
      by (rule sim_move [OF t(1), where t' = "ticket_outcome u now t" and L' = "get_lock c" and A' = "get_approval c"])
        (use that t u' un in \<open>auto simp: core_of_def is_legal_def\<close>)
    show "sim b (?c t)" by (rule any) simp_all
    show "sim b (upd_approvals (\<lambda>r. a_id r = the (t_approval t)) (\<lambda>r. r\<lparr>a_run := run\<rparr>) (?c t))"
      by (rule any) (auto simp: revokes_def intro!: rowwise_at)
  qed
  show ?thesis
    by (rule once_sim [OF assms [unfolded run_outcome_def u need_simps]]) (auto simp: Let_def main)
qed

section \<open>Kickoffs\<close>

lemma wazuh_sim: "wazuh_commit cfg now z b = Inr (r, b') \<Longrightarrow> sim b b'"
  by (auto simp: wazuh_commit_def Let_def wazuh_args_def create_defaults_def split: if_splits dest: create_sim)

lemma submit_verification_sim:
  assumes "submit_verification now p tid result ev op s b = Inr (r, b')"
  shows "sim b b'"
proof (rule once_sim [OF conjunct2 [OF assms [unfolded submit_verification_def throw_if_ok]]], goal_cases)
  case 1
  have "sim b (upd_tickets (\<lambda>r. t_id r = tid) (ticket_closed u now) b)"
    if t: "get_ticket b tid = Some t" "t_status t = Verifying" and u: "u = Done \<or> u = Failed" for t u
    by (rule sim_move [OF t(1), where t' = "ticket_closed u now t" and L' = "get_lock b" and A' = "get_approval b"])
      (use t u in \<open>auto simp: core_of_def is_legal_def unlocks_refl\<close>)
  with 1 show ?case by (auto simp: Let_def)
qed

lemma fire_scheduled_sim: "fire_scheduled cfg now sid period b = Inr (r, b') \<Longrightarrow> sim b b'"
  by (auto simp: fire_scheduled_def Let_def create_defaults_def split: option.splits if_splits dest: create_sim)

lemma breakglass_sim: "breakglass_review_ticket cfg now p title body op s b = Inr (r, b') \<Longrightarrow> sim b b'"
  by (auto simp: breakglass_review_ticket_def Let_def create_defaults_def dest: create_sim)

end
