(* ===== verification/BoardRefineSweeps.thy ===== *)
theory BoardRefineSweeps
  imports BoardRefineMoves
begin

text \<open>
  The ceremony, the sweeps, the tier approver and the restore reconciliation as sequences of the
  abstract moves, and the outage-hold clear as its one unlawful move.
\<close>

section \<open>The ceremony\<close>

lemma sim_quiet_fields [simp]: "sim b (set_phase now k ph b)"
  unfolding set_phase_def by (rule sim_quiet) (simp_all add: quiet_simps)

lemma triage_sim:
  assumes "triage_commit now p tid su op s b = Inr (r, b')"
  shows "sim b b'"
proof -
  have "sim b (upd_tickets (\<lambda>r. t_id r = tid) (\<lambda>r. r\<lparr>t_lane := la, t_signals := sg, t_phase := ph, t_updated := now\<rparr>) b)"
    for la sg ph
    by (rule sim_quiet) (simp_all add: quiet_simps)
  with assms show ?thesis
    by (auto simp: triage_commit_def once_ok Let_def split: prod.splits)
qed

lemma set_phase_sim: "sim b c \<Longrightarrow> sim b (set_phase now k ph c)"
  by (erule sim_trans) simp

lemma open_huddle_sim: "sim b (snd (open_huddle cfg now t p op b))"
  unfolding open_huddle_def Let_def
  by (auto split: option.splits intro!: set_phase_sim)

lemma guard_backlog_sim: "guard_backlog now tid b = Inr b' \<Longrightarrow> sim b b'"
  by (auto simp: guard_backlog_def Let_def)

lemma transition_phase_sim:
  assumes "transition_phase cfg now p tid to op b = Inr (r, b')"
  shows "sim b b'"
proof (rule once_sim [OF assms [unfolded transition_phase_def]], goal_cases)
  case 1
  then obtain t ph where ph: "(if ph = PPlanning then Inr (open_huddle cfg now t p op b) else
      and_then (if ph = PBacklog then guard_backlog now tid b else Inr b) (\<lambda>b1.
        Inr (JObj [(''ticket_id'', jnat tid), (''phase'', JStr to)],
          emit ''ceremony'' [(''ticket_id'', jnat tid), (''phase'', JStr to)]
            (record_op now (p_sub p) op (Some (phase_hash tid to))
              (JObj [(''ticket_id'', jnat tid), (''phase'', JStr to)])
              (emit_event now ((cevent_row tid ''phase_transition'')\<lparr>ce_from :=
                  Some (case t_phase t of Some q \<Rightarrow> q | None \<Rightarrow> PTriage),
                ce_to := Some ph, ce_actor := Some (p_sub p)\<rparr>) (set_phase now tid ph b1)))))) = Inr (r, b')"
    unfolding need_ok Let_def throw_if_ok by blast
  show ?case
  proof (cases "ph = PPlanning")
    case True
    with ph open_huddle_sim [of b cfg now t p op] show ?thesis by simp
  next
    case False
    with ph show ?thesis
      by (auto split: if_splits intro!: set_phase_sim dest: guard_backlog_sim)
  qed
qed

lemma claim_role_sim: "claim_role tid role sub b = Inr b' \<Longrightarrow> sim b b'"
  by (auto simp: claim_role_def Let_def split: if_splits)

lemma statement_admit_sim: "statement_admit cfg tid kind sub h b = Inr b' \<Longrightarrow> sim b b'"
  by (auto simp: statement_admit_def split: if_splits dest!: claim_role_sim intro: sim_trans)

lemma statement_effect_sim: "statement_effect tid kind sub note b = Inr b' \<Longrightarrow> sim b b'"
  by (auto simp: statement_effect_def split: if_splits)

lemma advance_round_sim [simp]: "sim c (snd (advance_round tid h b)) = sim c b"
  by (simp add: advance_round_def Let_def)

lemma statement_sim:
  assumes "statement cfg now p tid kind note rv op s b = Inr (r, b')"
  shows "sim b b'"
proof (rule once_sim [OF assms [unfolded statement_def Let_def]], goal_cases)
  case 1
  then obtain h b1 b2 where st: "statement_admit cfg tid kind (p_sub p) h b = Inr b1"
      "statement_effect tid kind (p_sub p) note b1 = Inr b2" "sim b b' = sim b b2"
    by (auto simp: Let_def case_prod_beta)
  have "sim b b2" by (rule sim_trans [OF statement_admit_sim [OF st(1)] statement_effect_sim [OF st(2)]])
  with st show ?case by simp
qed

section \<open>Sweeps\<close>

lemma watchdog_one_sim: "sim (snd x) (snd (watchdog_one now y x))"
  by (cases x; cases y) (auto simp: watchdog_one_def ceremony_escalate_sim split: option.splits)

lemma sim_fold_snd:
  assumes "\<And>x s. sim (snd s) (snd (f x s))"
  shows "sim (snd s) (snd (fold f xs s))"
proof (induction xs arbitrary: s)
  case Nil
  then show ?case by simp
next
  case (Cons x xs)
  from sim_trans [OF assms Cons.IH] show ?case by simp
qed

lemma watchdog_sim: "sim b (snd (watchdog_sweep now b))"
  using sim_fold_snd [of "watchdog_one now" "(0, b)", OF watchdog_one_sim] by (simp add: watchdog_sweep_def)

lemma reaper_tick_sim: "sim b (snd (reaper_tick cfg now b))"
proof -
  have "sim c (fold (\<lambda>tid c. snd (pause now tid ''reaped'' c)) ids c)" for ids c
    by (rule sim_fold) simp
  from sim_trans [OF reaper_sim this] show ?thesis
    by (simp add: reaper_tick_def Let_def split: prod.splits) (metis snd_conv)
qed

lemma decompose_children_sim:
  "decompose_children cfg now p parent s cs b = Inr (rs, b') \<Longrightarrow> sim b b'"
proof (induction cs arbitrary: b rs)
  case Nil
  then show ?case by simp
next
  case (Cons c cs)
  have lane: "sim b1 (upd_tickets (\<lambda>x. t_id x = k) (\<lambda>x. x\<lparr>t_lane := la\<rparr>) b1)" for b1 k la
    by (rule sim_quiet) (simp_all add: quiet_simps)
  from Cons.prems obtain r b1 rs' where st: "create cfg now p (child_args parent c) None s b = Inr (r, b1)"
      "decompose_children cfg now p parent s cs (case rendered_id r of None \<Rightarrow> b1
         | Some k \<Rightarrow> upd_tickets (\<lambda>x. t_id x = k) (\<lambda>x. x\<lparr>t_lane := t_lane parent\<rparr>) b1) = Inr (rs', b')"
    by auto
  have s2: "sim b1 (case rendered_id r of None \<Rightarrow> b1
         | Some k \<Rightarrow> upd_tickets (\<lambda>x. t_id x = k) (\<lambda>x. x\<lparr>t_lane := t_lane parent\<rparr>) b1)"
    by (simp add: lane split: option.split)
  have "sim b b1" by (rule create_sim [OF st(1)]) (simp add: child_args_def create_defaults_def)
  from sim_trans [OF sim_trans [OF this s2] Cons.IH [OF st(2)]] show ?case .
qed

lemma decompose_sim: "decompose cfg now p tid cs op s b = Inr (r, b') \<Longrightarrow> sim b b'"
  by (auto simp: decompose_def Let_def dest: decompose_children_sim)

lemma kill_poll_sim: "sim b (kill_poll cfg now reply b)"
  by (auto simp: kill_poll_def mark_kill_synced_def apply_kill_def Let_def split: option.splits json.splits)

lemma put_wip_sim: "put_wip now p sc su cap body b = Inr (r, b') \<Longrightarrow> sim b b'"
  by (auto simp: put_wip_def set_wip_cap_def wip_upsert_def)

lemma put_lineage_sim: "put_lineage now p d body b = Inr (r, b') \<Longrightarrow> sim b b'"
  by (auto simp: put_lineage_def set_lineage_depth_def)

lemma seed_defaults_sim: "sim b (seed_defaults cfg b)"
  by (auto simp: seed_defaults_def wip_upsert_def)

lemma tier_one_sim: "sim (snd x) (snd (tier_one cfg w now t x))"
proof (cases x)
  case (Pair n b)
  show ?thesis
    using grant_finish_sim [of b w now tier_approver "t_id t" TierPolicy None "''internal''"]
    by (auto simp: Pair tier_one_def split: sum.splits prod.splits) (metis snd_conv)+
qed

lemma tier_sweep_sim: "sim b (snd (tier_sweep cfg w now b))"
  using sim_fold_snd [of "tier_one cfg w now" "(0, b)", OF tier_one_sim]
  by (simp add: tier_sweep_def)

section \<open>Restore reconciliation\<close>

lemma rowwise_comp:
  assumes "rowwise R m m'" and "rowwise S m' m''"
    and "\<And>k x y z. m k = Some x \<Longrightarrow> m' k = Some y \<Longrightarrow> R x y \<Longrightarrow> S y z \<Longrightarrow> Q x z"
  shows "rowwise Q m m''"
  unfolding rowwise_def
proof
  fix k
  have "rel_option R (m k) (m' k)" "rel_option S (m' k) (m'' k)"
    using assms(1,2) by (simp_all add: rowwise_def)
  with assms(3) [of k] show "rel_option Q (m k) (m'' k)"
    by (cases "m k"; cases "m' k"; cases "m'' k") auto
qed

lemma get_ticket_where:
  "(\<And>t. t_id (f t) = t_id t) \<Longrightarrow>
     get_ticket (upd_tickets q f b) k = map_option (\<lambda>t. if q t then f t else t) (get_ticket b k)"
  by (simp add: get_ticket_def upd_tickets_def row_of_update_where)

lemma get_lock_where:
  "(\<And>l. l_rid (f l) = l_rid l) \<Longrightarrow>
     get_lock (upd_locks q f b) r = map_option (\<lambda>l. if q l then f l else l) (get_lock b r)"
  by (simp add: get_lock_def upd_locks_def row_of_update_where)

lemma get_approval_where:
  "(\<And>x. a_id (f x) = a_id x) \<Longrightarrow>
     get_approval (upd_approvals q f b) a = map_option (\<lambda>x. if q x then f x else x) (get_approval b a)"
  by (simp add: get_approval_def upd_approvals_def row_of_update_where)

lemma rowwise_map: "(\<And>k. m' k = map_option f (m k)) \<Longrightarrow> (\<And>x. R x (f x)) \<Longrightarrow> rowwise R m m'"
  by (auto simp: rowwise_def option.rel_map intro: option.rel_refl_strong)

text \<open>Requeueing claims: the rows named by \<open>S\<close> lose their claim, every other column stays.\<close>

definition kept_t :: "ticket \<Rightarrow> ticket \<Rightarrow> bool" where
  "kept_t t t' \<longleftrightarrow> ext t t' \<and> same_host t t' \<and> t_approval t' = t_approval t \<and> t_proposer t' = t_proposer t"

definition claim_t :: "nat option set \<Rightarrow> ticket \<Rightarrow> ticket \<Rightarrow> bool" where
  "claim_t S t t' \<longleftrightarrow> kept_t t t' \<and> (t_status t' = t_status t \<or> t_status t = InProgress \<and> t_status t' = Todo) \<and>
     (Some (t_id t) \<in> S \<longrightarrow> t_status t' \<noteq> InProgress)"

definition claim_l :: "string set \<Rightarrow> lock \<Rightarrow> lock \<Rightarrow> bool" where
  "claim_l S l l' \<longleftrightarrow> l_rid l' = l_rid l \<and> l_gen l \<le> l_gen l' \<and> (l_hold l' = l_hold l \<or> l_hold l' = None) \<and>
     (l_rid l \<in> S \<longrightarrow> l_hold l' = None)"

lemma kept_refl [simp]: "kept_t t t"
  by (simp add: kept_t_def same_host_def)

lemma kept_trans: "kept_t t u \<Longrightarrow> kept_t u v \<Longrightarrow> kept_t t v"
  by (auto simp: kept_t_def same_host_def intro: ext_trans)

lemma kept_id: "kept_t t u \<Longrightarrow> t_id u = t_id t"
  by (simp add: kept_t_def ext_id)

lemma requeue_claim_step:
  "rowwise (claim_t {l_ticket l}) (get_ticket b) (get_ticket (requeue_claim now l b))"
  "rowwise (claim_l {l_rid l}) (get_lock b) (get_lock (requeue_claim now l b))"
  "get_approval (requeue_claim now l b) = get_approval b" "wf_board (requeue_claim now l b) = wf_board b"
proof -
  show "rowwise (claim_t {l_ticket l}) (get_ticket b) (get_ticket (requeue_claim now l b))"
    unfolding requeue_claim_def by (rule rowwise_map, subst get_ticket_where)
      (auto simp: claim_t_def kept_t_def quiet_simps split: if_splits)
  show "rowwise (claim_l {l_rid l}) (get_lock b) (get_lock (requeue_claim now l b))"
    unfolding requeue_claim_def upd_gets by (rule rowwise_map, rule get_lock_where)
      (auto simp: claim_l_def)
qed (simp_all add: requeue_claim_def)

lemma requeue_claims:
  "rowwise (claim_t (l_ticket ` set ls)) (get_ticket b) (get_ticket (fold (requeue_claim now) ls b)) \<and>
   rowwise (claim_l (l_rid ` set ls)) (get_lock b) (get_lock (fold (requeue_claim now) ls b)) \<and>
   get_approval (fold (requeue_claim now) ls b) = get_approval b \<and>
   wf_board (fold (requeue_claim now) ls b) = wf_board b"
proof (induction ls arbitrary: b)
  case Nil
  then show ?case by (auto intro!: rowwise_refl simp: claim_t_def claim_l_def)
next
  case (Cons l ls)
  note st = requeue_claim_step [where l = l and b = b and now = now]
  note ih = Cons.IH [of "requeue_claim now l b"]
  have "rowwise (claim_t (l_ticket ` set (l # ls))) (get_ticket b)
      (get_ticket (fold (requeue_claim now) ls (requeue_claim now l b)))"
    by (rule rowwise_trans [OF st(1) conjunct1 [OF ih]]) (auto simp: claim_t_def kept_id intro: kept_trans)
  moreover have "rowwise (claim_l (l_rid ` set (l # ls))) (get_lock b)
      (get_lock (fold (requeue_claim now) ls (requeue_claim now l b)))"
    by (rule rowwise_trans [OF st(2) conjunct1 [OF conjunct2 [OF ih]]]) (auto simp: claim_l_def)
  ultimately show ?case using ih st(3,4) by simp
qed

text \<open>Requeueing grants: the approvals named by \<open>S\<close> are revoked.\<close>

definition grant_t :: "ticket \<Rightarrow> ticket \<Rightarrow> bool" where
  "grant_t t t' \<longleftrightarrow> kept_t t t' \<and>
     (t_status t' = t_status t \<or> t_status t = Approved \<and> t_status t' = AwaitingApproval)"

definition grant_a :: "nat set \<Rightarrow> approval \<Rightarrow> approval \<Rightarrow> bool" where
  "grant_a S x x' \<longleftrightarrow> x' = (if a_id x \<in> S then x\<lparr>a_status := Revoked\<rparr> else x)"

lemma requeue_grants:
  "rowwise grant_t (get_ticket b) (get_ticket (fold (requeue_grant now) xs b)) \<and>
   rowwise (grant_a (a_id ` set xs)) (get_approval b) (get_approval (fold (requeue_grant now) xs b)) \<and>
   get_lock (fold (requeue_grant now) xs b) = get_lock b \<and>
   wf_board (fold (requeue_grant now) xs b) = wf_board b"
proof (induction xs arbitrary: b)
  case Nil
  then show ?case by (auto intro!: rowwise_refl simp: grant_t_def grant_a_def)
next
  case (Cons x xs)
  let ?c = "requeue_grant now x b"
  have st: "rowwise grant_t (get_ticket b) (get_ticket ?c)"
    "rowwise (grant_a {a_id x}) (get_approval b) (get_approval ?c)"
    "get_lock ?c = get_lock b" "wf_board ?c = wf_board b"
  proof -
    show "rowwise grant_t (get_ticket b) (get_ticket ?c)"
      unfolding requeue_grant_def by (rule rowwise_map, subst get_ticket_where)
        (auto simp: grant_t_def kept_t_def quiet_simps split: if_splits)
    show "rowwise (grant_a {a_id x}) (get_approval b) (get_approval ?c)"
      unfolding requeue_grant_def upd_gets by (rule rowwise_map, rule get_approval_where)
        (auto simp: grant_a_def)
  qed (simp_all add: requeue_grant_def)
  note ih = Cons.IH [of ?c]
  have "rowwise grant_t (get_ticket b) (get_ticket (fold (requeue_grant now) xs ?c))"
    by (rule rowwise_trans [OF st(1) conjunct1 [OF ih]]) (auto simp: grant_t_def intro: kept_trans)
  moreover have "rowwise (grant_a (a_id ` set (x # xs))) (get_approval b) (get_approval (fold (requeue_grant now) xs ?c))"
    by (rule rowwise_trans [OF st(2) conjunct1 [OF conjunct2 [OF ih]]]) (auto simp: grant_a_def split: if_splits)
  ultimately show ?case using ih st(3,4) by simp
qed

lemma live_grants_ids:
  assumes "wf_board b" and "get_approval b a = Some x"
  shows "a_id x \<in> a_id ` set (live_grants b) \<longleftrightarrow> a_status x = Granted"
proof -
  have d: "distinct (map a_id (b_approvals b))" using assms(1) by (simp add: wf_board_def wf_ids_def)
  have x: "x \<in> set (b_approvals b)" using assms(2) by (simp add: get_approval_def row_of_in)
  show ?thesis
  proof
    assume "a_id x \<in> a_id ` set (live_grants b)"
    then obtain y where y: "a_id x = a_id y" "y \<in> set (live_grants b)" by (rule imageE)
    have yb: "y \<in> set (b_approvals b)" "a_status y = Granted" using y(2) by (simp_all add: live_grants_def)
    have "y = x" using row_of_distinct [OF d yb(1)] row_of_distinct [OF d x] y(1) by simp
    with yb(2) show "a_status x = Granted" by simp
  next
    assume "a_status x = Granted"
    with x have "x \<in> set (live_grants b)" by (simp add: live_grants_def)
    then show "a_id x \<in> a_id ` set (live_grants b)" by (rule imageI)
  qed
qed

lemma floor_frame:
  "get_ticket (floor_generations now b) = get_ticket b" "get_approval (floor_generations now b) = get_approval b"
  "wf_board (floor_generations now b) = wf_board b"
  "get_lock (floor_generations now b) r = map_option (\<lambda>l. l\<lparr>l_gen := max (l_gen l) now\<rparr>) (get_lock b r)"
  by (simp_all add: floor_generations_def get_lock_where)

text \<open>After the claims are requeued no ticket is in progress, so the huddle pass finds nothing.\<close>

definition floored_l :: "int \<Rightarrow> lock \<Rightarrow> lock \<Rightarrow> bool" where
  "floored_l now l l' \<longleftrightarrow> restored_l l l' \<and> now \<le> l_gen l'"

lemma reconcile_rows:
  assumes wf: "wf_board b" and ci: "core_inv (core_of b)"
  shows "rowwise restored_t (get_ticket b) (get_ticket (reconcile_on_boot now b))"
    and "rowwise (floored_l now) (get_lock b) (get_lock (reconcile_on_boot now b))"
    and "rowwise restored_a (get_approval b) (get_approval (reconcile_on_boot now b))"
    and "wf_board (reconcile_on_boot now b)"
proof -
  define b1 where "b1 = floor_generations now b"
  define b2 where "b2 = fold (requeue_claim now) (stale_claims b1) b1"
  define b3 where "b3 = fold (requeue_grant now) (live_grants b2) b2"
  note f = floor_frame [where now = now and b = b, folded b1_def]
  note c = requeue_claims [where ls = "stale_claims b1" and b = b1 and now = now, folded b2_def]
  note g = requeue_grants [where xs = "live_grants b2" and b = b2 and now = now, folded b3_def]
  have wf2: "wf_board b2" "wf_board b3" using c f(3) wf g by auto
  have inv: "inv_claims (get_ticket b, get_lock b, get_approval b)" "inv_holds (get_ticket b, get_lock b, get_approval b)"
    using ci by (simp_all add: core_inv_def core_of_def)
  have stale: "l \<in> set (stale_claims b1)" if "get_lock b1 r = Some l" "l_hold l = Some ClaimHold" "l_ticket l \<noteq> None" for r l
    using that by (auto simp: stale_claims_def get_lock_def dest: row_of_in)
  have run: "Some k \<in> l_ticket ` set (stale_claims b1)" if run: "get_ticket b k = Some t" "t_status t = InProgress" for k t
  proof -
    obtain l where "get_lock b (resource_id_for t) = Some l" "l_ticket l = Some k" "l_hold l = Some ClaimHold"
      using inv(1) run unfolding inv_claims_def claimed_lock_def prod.case by blast
    with f(4) [of "resource_id_for t"] stale [of "resource_id_for t" "l\<lparr>l_gen := max (l_gen l) now\<rparr>"]
    show ?thesis by (auto simp: image_iff intro: bexI [rotated])
  qed
  have T: "rowwise restored_t (get_ticket b) (get_ticket b3)"
  proof (rule rowwise_comp [of "claim_t (l_ticket ` set (stale_claims b1))" _ "get_ticket b2" grant_t])
    show "rowwise (claim_t (l_ticket ` set (stale_claims b1))) (get_ticket b) (get_ticket b2)" using c f(1) by simp
    show "rowwise grant_t (get_ticket b2) (get_ticket b3)" using g by simp
    fix k x y z
    assume m: "get_ticket b k = Some x" and r: "claim_t (l_ticket ` set (stale_claims b1)) x y" "grant_t y z"
    have "t_status y \<noteq> InProgress" using run [OF m] r(1) get_ticket_id [OF m] by (auto simp: claim_t_def)
    with r kept_trans [of x y z] show "restored_t x z"
      by (auto simp: claim_t_def grant_t_def restored_t_def kept_t_def)
  qed
  have L: "rowwise (floored_l now) (get_lock b) (get_lock b3)"
  proof -
    have "rowwise (floored_l now) (get_lock b) (get_lock b2)"
    proof (rule rowwise_comp [of "\<lambda>l l'. l' = l\<lparr>l_gen := max (l_gen l) now\<rparr>" _ "get_lock b1" "claim_l (l_rid ` set (stale_claims b1))"])
      show "rowwise (\<lambda>l l'. l' = l\<lparr>l_gen := max (l_gen l) now\<rparr>) (get_lock b) (get_lock b1)"
        by (rule rowwise_map [OF f(4)]) simp
      show "rowwise (claim_l (l_rid ` set (stale_claims b1))) (get_lock b1) (get_lock b2)" using c by simp
      fix r x y z
      assume m: "get_lock b r = Some x" "get_lock b1 r = Some y" "y = x\<lparr>l_gen := max (l_gen x) now\<rparr>"
        "claim_l (l_rid ` set (stale_claims b1)) y z"
      have "l_ticket x \<noteq> None" if "l_hold x = Some ClaimHold"
        using inv(2) m(1) that by (fastforce simp: inv_holds_def)
      then have "y \<in> set (stale_claims b1)" if "l_hold x = Some ClaimHold"
        using that m(3) stale [OF m(2)] by simp
      then have "l_rid y \<in> l_rid ` set (stale_claims b1)" if "l_hold x = Some ClaimHold"
        using that by (intro imageI)
      with m show "floored_l now x z" by (auto simp: claim_l_def restored_l_def floored_l_def)
    qed
    then show ?thesis using g by simp
  qed
  have A: "rowwise restored_a (get_approval b) (get_approval b3)"
  proof -
    have "rowwise restored_a (get_approval b2) (get_approval b3)"
    proof (rule rowwise_comp [of "(=)" _ "get_approval b2" "grant_a (a_id ` set (live_grants b2))"])
      show "rowwise (=) (get_approval b2) (get_approval b2)" by (rule rowwise_refl) simp
      show "rowwise (grant_a (a_id ` set (live_grants b2))) (get_approval b2) (get_approval b3)" using g by simp
      show "restored_a x z" if "get_approval b2 k = Some x" "x = y" "grant_a (a_id ` set (live_grants b2)) y z" for k x y z
        using that live_grants_ids [OF wf2(1), of k] by (simp add: grant_a_def restored_a_def)
    qed
    then show ?thesis using c f(2) by simp
  qed
  have "restored_huddles b3 = []"
    using T by (fastforce simp: restored_huddles_def restored_t_def filter_empty_conv split: option.splits dest: rowwiseD2)
  then have fin: "core_of (reconcile_on_boot now b) = core_of b3" "wf_board (reconcile_on_boot now b) = wf_board b3"
    by (simp_all add: reconcile_on_boot_def Let_def b1_def [symmetric] b2_def [symmetric] b3_def [symmetric])
  with T L A wf2(2) show "rowwise restored_t (get_ticket b) (get_ticket (reconcile_on_boot now b))"
    "rowwise (floored_l now) (get_lock b) (get_lock (reconcile_on_boot now b))"
    "rowwise restored_a (get_approval b) (get_approval (reconcile_on_boot now b))" "wf_board (reconcile_on_boot now b)"
    by (simp_all add: core_of_def)
qed

lemma reconcile_sim: "sim b (reconcile_on_boot now b)"
  unfolding sim_def
proof (intro impI)
  assume b: "wf_board b" "core_inv (core_of b)"
  note rows = reconcile_rows [OF b, of now]
  have "astep (core_of b) (core_of (reconcile_on_boot now b))"
    unfolding core_of_def
    by (rule a_restore [OF rows(1) rowwise_mono [OF rows(2)] rows(3)]) (simp add: floored_l_def)
  with rows(4) show "wf_board (reconcile_on_boot now b) \<and> astep\<^sup>*\<^sup>* (core_of b) (core_of (reconcile_on_boot now b))"
    by auto
qed

section \<open>The outage hold\<close>

lemma clear_hold_step:
  assumes "get_ticket b tid = Some t" and "t_held t"
  shows "hold_cleared (core_of b) (core_of (snd (clear_outage_hold now tid b)))"
    and "wf_board (snd (clear_outage_hold now tid b)) = wf_board b"
proof -
  let ?c = "upd_tickets (\<lambda>r. t_id r = tid) (ticket_unheld now) (lock_release (resource_id_for t) tid b)"
  have id: "t_id (ticket_unheld now u) = t_id u" for u by (simp add: ticket_unheld_def)
  have c: "core_of (snd (clear_outage_hold now tid b)) = core_of ?c" "wf_board (snd (clear_outage_hold now tid b)) = wf_board ?c"
    using assms by (simp_all add: clear_outage_hold_def Let_def)
  show "wf_board (snd (clear_outage_hold now tid b)) = wf_board b" using c(2) id by simp
  have "core_of ?c = ((get_ticket b)(tid \<mapsto> ticket_unheld now t),
      (get_lock b)(resource_id_for t := map_option (free_if tid freed) (get_lock b (resource_id_for t))), get_approval b)"
    using assms(1) id by (simp add: core_of_def)
  moreover have "hold_cleared (get_ticket b, get_lock b, get_approval b)
     ((get_ticket b)(tid \<mapsto> ticket_unheld now t),
      (get_lock b)(resource_id_for t := map_option (free_if tid freed) (get_lock b (resource_id_for t))), get_approval b)"
    by (rule hold_cleared.intros [where T = "get_ticket b" and k = tid,
          OF assms _ _ _ _ _ free_if_unlocks [where r = "resource_id_for t" and f = freed]
            free_if_not_held [OF is_freed_freed(1)]])
      (simp_all add: ticket_unheld_def quiet_simps)
  ultimately show "hold_cleared (core_of b) (core_of (snd (clear_outage_hold now tid b)))"
    using c(1) by (simp add: core_of_def)
qed

end
