(* ===== verification/BoardSystem.thy ===== *)
theory BoardSystem
  imports BoardRefineSweeps
begin

text \<open>
  The Board as a system: a fresh store, one step per operation of the service, and what every
  run keeps. \<open>bstep\<close> lists the operations with arbitrary callers, arguments and clock readings; an
  operation that fetches over the network appears as its commit with arbitrary prepared data, so
  any other operation may run between the fetch and the commit. A call that throws leaves the
  store as it was, and is no step. \<open>board_step\<close> adds the operator's clear of an outage hold, the
  one operation that is not lawful.
\<close>

section \<open>Stores and steps\<close>

definition init_board :: "int \<Rightarrow> int \<Rightarrow> trigger list \<Rightarrow> board" where
  "init_board now depth trigs = \<lparr>b_tickets = [], b_next_ticket = 1, b_locks = [], b_deps = [],
     b_approvals = [], b_next_approval = 1, b_allows = [], b_cevents = [], b_next_cevent = 1,
     b_notes = [], b_huddles = [], b_wips = [], b_max_depth = depth, b_triggers = trigs, b_ops = [],
     b_auth = \<lparr>k_epoch = 0, k_level = ''G0'', k_drain = None, k_updated = Some now\<rparr>,
     b_audits = [], b_next_audit = 1, b_meta = [], b_events = []\<rparr>"

definition board_start :: "config \<Rightarrow> board \<Rightarrow> bool" where
  "board_start cfg b \<longleftrightarrow> (\<exists>now depth trigs. b = seed_defaults cfg (init_board now depth trigs))"

inductive bstep :: "config \<Rightarrow> board \<Rightarrow> board \<Rightarrow> bool" for cfg :: config where
  b_create: "create cfg now p (create_defaults\<lparr>cr_title := title, cr_type := typ, cr_body := body,
      cr_host := host, cr_parent := par, cr_team := team\<rparr>) op s b = Inr (r, b') \<Longrightarrow> bstep cfg b b'"
| b_update: "update_ticket now p tid field v tok ex op s b = Inr (r, b') \<Longrightarrow> bstep cfg b b'"
| b_link: "link_note now p tid note tok role op s b = Inr (r, b') \<Longrightarrow> bstep cfg b b'"
| b_depend: "add_dependency now p k d op s b = Inr (r, b') \<Longrightarrow> bstep cfg b b'"
| b_unquarantine: "clear_quarantine now p tid host op s b = Inr (r, b') \<Longrightarrow> bstep cfg b b'"
| b_claim: "claim cfg now p tid' team typ op s b = Inr (r, b') \<Longrightarrow> bstep cfg b b'"
| b_heartbeat: "heartbeat cfg now p tid tok note op b = Inr (r, b') \<Longrightarrow> bstep cfg b b'"
| b_release: "release now p tid tok reason op s b = Inr (r, b') \<Longrightarrow> bstep cfg b b'"
| b_reap: "bstep cfg b (snd (reaper_tick cfg now b))"
| b_propose: "propose_commit now p tid nid rv tok op s b = Inr (r, b') \<Longrightarrow> bstep cfg b b'"
| b_grant: "bstep cfg b (snd (grant_finish w now p tid ak op s g b))"
| b_consume: "consume cfg now p ref tk host op s b = Inr (r, b') \<Longrightarrow> bstep cfg b b'"
| b_revoke: "revoke now p tid op s b = Inr (r, b') \<Longrightarrow> bstep cfg b b'"
| b_agent: "bstep cfg b (snd (board_agent_transition w now p tid to tok reason op s b))"
| b_operator: "operator_transition now p tid to op reason ex s b = Inr (r, b') \<Longrightarrow> bstep cfg b b'"
| b_outcome: "run_outcome now p tid to run op s b = Inr (r, b') \<Longrightarrow> bstep cfg b b'"
| b_wazuh: "wazuh_commit cfg now z b = Inr (r, b') \<Longrightarrow> bstep cfg b b'"
| b_verify: "submit_verification now p tid res ev op s b = Inr (r, b') \<Longrightarrow> bstep cfg b b'"
| b_fire: "fire_scheduled cfg now tid period b = Inr (r, b') \<Longrightarrow> bstep cfg b b'"
| b_breakglass: "breakglass_review_ticket cfg now p title body op s b = Inr (r, b') \<Longrightarrow> bstep cfg b b'"
| b_triage: "triage_commit now p tid su op s b = Inr (r, b') \<Longrightarrow> bstep cfg b b'"
| b_phase: "transition_phase cfg now p tid to op b = Inr (r, b') \<Longrightarrow> bstep cfg b b'"
| b_statement: "statement cfg now p tid kind note rv op s b = Inr (r, b') \<Longrightarrow> bstep cfg b b'"
| b_pause: "bstep cfg b (snd (pause now tid reason b))"
| b_resume: "bstep cfg b (snd (resume now tid b))"
| b_watchdog: "bstep cfg b (snd (watchdog_tick now b))"
| b_decompose: "decompose cfg now p tid cs op s b = Inr (r, b') \<Longrightarrow> bstep cfg b b'"
| b_kill: "bstep cfg b (kill_poll cfg now reply b)"
| b_wip: "put_wip now p sc su cap jbody b = Inr (r, b') \<Longrightarrow> bstep cfg b b'"
| b_lineage: "put_lineage now p depth jbody b = Inr (r, b') \<Longrightarrow> bstep cfg b b'"
| b_tier: "bstep cfg b (snd (tier_sweep cfg w now b))"
| b_restore: "bstep cfg b (reconcile_on_boot now b)"

inductive board_step :: "config \<Rightarrow> board \<Rightarrow> board \<Rightarrow> bool" for cfg :: config where
  lawful_step: "bstep cfg b b' \<Longrightarrow> board_step cfg b b'"
| clear_step: "board_step cfg b (snd (clear_outage_hold now tid b))"

abbreviation board_reach :: "config \<Rightarrow> board \<Rightarrow> bool" where
  "board_reach cfg \<equiv> reach (board_start cfg) (board_step cfg)"

abbreviation lawful_reach :: "config \<Rightarrow> board \<Rightarrow> bool" where
  "lawful_reach cfg \<equiv> reach (board_start cfg) (bstep cfg)"

section \<open>Every step refines the abstract moves\<close>

lemma bstep_sim: "bstep cfg b b' \<Longrightarrow> sim b b'"
proof (induction rule: bstep.induct)
  case b_create
  then show ?case by (rule create_sim) (simp add: create_defaults_def)
qed (auto simp: watchdog_tick_def kill_poll_sim reconcile_sim reaper_tick_sim grant_finish_sim
    board_agent_transition_sim watchdog_sim tier_sweep_sim
    intro: update_sim link_note_sim add_dependency_sim clear_quarantine_sim claim_sim heartbeat_sim
      release_sim propose_sim consume_sim revoke_sim operator_transition_sim run_outcome_sim wazuh_sim
      submit_verification_sim fire_scheduled_sim breakglass_sim triage_sim transition_phase_sim
      statement_sim decompose_sim put_wip_sim put_lineage_sim)

definition board_ok :: "board \<Rightarrow> bool" where
  "board_ok b \<longleftrightarrow> wf_board b \<and> core_inv (core_of b)"

text \<open>What a step of the system is for the abstract board.\<close>

lemma bstep_core:
  assumes "bstep cfg b b'" and "board_ok b"
  shows "board_ok b'" and "astep\<^sup>*\<^sup>* (core_of b) (core_of b')"
proof -
  show st: "astep\<^sup>*\<^sup>* (core_of b) (core_of b')"
    using bstep_sim [OF assms(1)] assms(2) by (simp add: sim_def board_ok_def)
  show "board_ok b'"
    using bstep_sim [OF assms(1)] assms(2) core_inv_steps [OF st] by (simp add: sim_def board_ok_def)
qed

lemma clear_cases:
  assumes "board_ok b"
  shows "board_ok (snd (clear_outage_hold now tid b))"
    and "core_of (snd (clear_outage_hold now tid b)) = core_of b \<or>
      hold_cleared (core_of b) (core_of (snd (clear_outage_hold now tid b)))"
proof -
  let ?b = "snd (clear_outage_hold now tid b)"
  have "?b = b \<or> hold_cleared (core_of b) (core_of ?b) \<and> wf_board ?b = wf_board b"
  proof (cases "\<exists>t. get_ticket b tid = Some t \<and> t_held t")
    case True
    then show ?thesis using clear_hold_step by blast
  next
    case False
    then show ?thesis by (auto simp: clear_outage_hold_def split: option.splits)
  qed
  with assms core_inv_cleared [of "core_of b" "core_of ?b"] show "board_ok ?b" "core_of ?b = core_of b \<or> hold_cleared (core_of b) (core_of ?b)"
    by (auto simp: board_ok_def)
qed

lemma board_step_ok: "board_ok b \<Longrightarrow> board_step cfg b b' \<Longrightarrow> board_ok b'"
  by (erule board_step.cases) (auto simp: bstep_core clear_cases)

lemma start_empty:
  assumes "board_start cfg b"
  shows "wf_board b" and "core_of b = (\<lambda>_. None, \<lambda>_. None, \<lambda>_. None)"
  using assms
  by (auto simp: board_start_def init_board_def seed_defaults_def wip_upsert_def wf_board_def wf_ids_def
      core_of_def get_ticket_def get_lock_def get_approval_def)

lemma board_start_ok: "board_start cfg b \<Longrightarrow> board_ok b"
  using start_empty [of cfg b]
  by (simp add: board_ok_def core_inv_def inv_ids_def inv_claims_def inv_holds_def inv_quar_def
      inv_eyes_def inv_exec_def)

interpretation board: inductive_inv "board_start cfg" "board_step cfg" board_ok for cfg
  by unfold_locales (auto intro: board_start_ok board_step_ok)

interpretation lawful: inductive_inv "board_start cfg" "bstep cfg"
    "\<lambda>b. board_ok b \<and> inv_grant (core_of b)" for cfg
proof
  show "board_ok b \<and> inv_grant (core_of b)" if "board_start cfg b" for b
    using board_start_ok [OF that] start_empty [OF that] by (simp add: inv_grant_def)
next
  fix b b'
  assume b: "board_ok b \<and> inv_grant (core_of b)" and st: "bstep cfg b b'"
  have "inv_grant t \<and> core_inv t" if "astep\<^sup>*\<^sup>* (core_of b) t" for t
    using that
  proof (induction rule: rtranclp_induct)
    case base
    with b show ?case by (simp add: board_ok_def)
  next
    case (step u v)
    then show ?case using inv_grant_step core_inv_step by (auto simp: core_inv_def)
  qed
  with bstep_core [OF st] b show "board_ok b' \<and> inv_grant (core_of b')" by blast
qed

end
