(* ===== verification/BoardResults.thy ===== *)
theory BoardResults
  imports BoardSystem
begin

text \<open>
  What a committed claim has checked and done, and counting tickets by their lookup function.
\<close>

section \<open>What a committed claim and consume do\<close>

definition walled :: "config \<Rightarrow> int \<Rightarrow> ticket \<Rightarrow> ticket" where
  "walled cfg now t = (if truthy_num (t_wall t) then t else t\<lparr>t_wall := Some (now + c_wall_cap cfg)\<rparr>)"

lemma do_claim_ok:
  assumes "do_claim cfg now t p op h s b = Inr (r, b')" and "get_ticket b (t_id t) = Some t"
  obtains g b1 where
    "lock_acquire (resource_id_for t) (resource_kind_for t) ClaimHold (t_id t) (p_sub p)
       (Some (now + c_lease_ttl cfg)) b = Some (g, b1)"
    "get_ticket b' = (get_ticket b)(t_id t \<mapsto> walled cfg now
       (if t_status t = Todo \<and> \<not> t_quar t \<and> \<not> t_held t
        then ticket_claimed (p_sub p) now (now + c_lease_ttl cfg) g t else t))"
    "get_lock b' = get_lock b1" "get_approval b' = get_approval b"
    "jget ''fencing_token'' r = Some (JNum g)" "jget ''ticket_id'' r = Some (jnat (t_id t))"
proof -
  from assms(1) obtain g b1 where
    acq: "lock_acquire (resource_id_for t) (resource_kind_for t) ClaimHold (t_id t) (p_sub p)
       (Some (now + c_lease_ttl cfg)) b = Some (g, b1)"
    by (auto simp: do_claim_def Let_def)
  have id1: "\<And>lease x. t_id (ticket_claimed (p_sub p) now lease g x) = t_id x"
    and wl: "\<And>lease x. t_wall (ticket_claimed (p_sub p) now lease g x) = t_wall x"
    by (simp_all add: ticket_claimed_def)
  note ac = acquire_core(2,3) [OF acq]
  have t1: "get_ticket b1 (t_id t) = Some t" using ac assms(2) by simp
  show thesis
  proof (rule that [OF acq])
    show "get_ticket b' = (get_ticket b)(t_id t \<mapsto> walled cfg now
       (if t_status t = Todo \<and> \<not> t_quar t \<and> \<not> t_held t
        then ticket_claimed (p_sub p) now (now + c_lease_ttl cfg) g t else t))"
      using assms acq ac t1 id1 wl by (auto simp: do_claim_def Let_def walled_def)
  qed (use assms acq ac in \<open>auto simp: do_claim_def Let_def\<close>)
qed

lemma walled_cols [simp]:
  "t_id (walled cfg now t) = t_id t" "t_status (walled cfg now t) = t_status t"
  "t_claimed_by (walled cfg now t) = t_claimed_by t" "t_fence (walled cfg now t) = t_fence t"
  "t_team (walled cfg now t) = t_team t"
  by (simp_all add: walled_def)

lemma claimed_cols [simp]:
  "t_id (ticket_claimed sub now lease g t) = t_id t" "t_status (ticket_claimed sub now lease g t) = InProgress"
  "t_claimed_by (ticket_claimed sub now lease g t) = Some sub" "t_fence (ticket_claimed sub now lease g t) = Some g"
  "t_team (ticket_claimed sub now lease g t) = t_team t"
  by (simp_all add: ticket_claimed_def)

lemma do_claim_open:
  assumes "wf_board b" and "do_claim cfg now t p op h s b = Inr (r, b')" and "get_ticket b (t_id t) = Some t"
  shows "t_status t = Todo" and "\<not> t_quar t" and "\<not> t_held t"
proof -
  from assms(2) obtain g b1 where acq: "lock_acquire (resource_id_for t) (resource_kind_for t) ClaimHold (t_id t)
       (p_sub p) (Some (now + c_lease_ttl cfg)) b = Some (g, b1)"
    and cnt: "count_where (\<lambda>r. t_id r = t_id t \<and> t_status r = Todo \<and> \<not> t_quar r \<and> \<not> t_held r) (b_tickets b1) \<noteq> 0"
    by (auto simp: do_claim_def Let_def)
  obtain x where x: "x \<in> set (b_tickets b)" "t_id x = t_id t" "t_status x = Todo" "\<not> t_quar x" "\<not> t_held x"
    using count_where_ex [OF cnt, unfolded acquire_core(5) [OF acq]] by blast
  have "x = t" using get_ticket_in [OF assms(1) x(1)] x(2) assms(3) by simp
  with x show "t_status t = Todo" "\<not> t_quar t" "\<not> t_held t" by auto
qed

definition selected :: "nat option \<Rightarrow> string option \<Rightarrow> string option \<Rightarrow> string \<Rightarrow> board \<Rightarrow> ticket \<Rightarrow> bool" where
  "selected tid team typ sub b t = (case tid of
     Some k \<Rightarrow> select_targeted k sub team b = Inr t
   | None \<Rightarrow> candidate team typ b = Some t \<and> wip_block sub team b = None \<and> wip_block sub (t_team t) b = None)"

lemma claim_ok:
  assumes "wf_board b" and "claim cfg now p tid team typ op s b = Inr (r, b')"
    and "check_op (p_sub p) op (Some (claim_hash tid team typ)) b = Inr None"
  obtains (idle) "tid = None" "candidate team typ b = None" "r = no_work" "b' = b"
  | (claimed) t g b1 where "get_ticket b (t_id t) = Some t" "selected tid team typ (p_sub p) b t"
    "\<not> claims_quiesced b" "t_status t = Todo" "\<not> t_quar t" "\<not> t_held t"
    "lock_acquire (resource_id_for t) (resource_kind_for t) ClaimHold (t_id t) (p_sub p)
       (Some (now + c_lease_ttl cfg)) b = Some (g, b1)"
    "get_ticket b' = (get_ticket b)(t_id t \<mapsto> walled cfg now (ticket_claimed (p_sub p) now (now + c_lease_ttl cfg) g t))"
    "get_lock b' = get_lock b1" "get_approval b' = get_approval b"
    "jget ''fencing_token'' r = Some (JNum g)" "jget ''ticket_id'' r = Some (jnat (t_id t))"
proof -
  have finish: thesis
    if run: "do_claim cfg now t p op (claim_hash tid team typ) s b = Inr (r, b')"
      and t: "get_ticket b (t_id t) = Some t" and sel: "selected tid team typ (p_sub p) b t"
      and q: "\<not> claims_quiesced b" for t
  proof -
    note op = do_claim_open [OF assms(1) run t]
    from do_claim_ok [OF run t] op obtain g b1 where "lock_acquire (resource_id_for t) (resource_kind_for t)
        ClaimHold (t_id t) (p_sub p) (Some (now + c_lease_ttl cfg)) b = Some (g, b1)"
      "get_ticket b' = (get_ticket b)(t_id t \<mapsto> walled cfg now (ticket_claimed (p_sub p) now (now + c_lease_ttl cfg) g t))"
      "get_lock b' = get_lock b1" "get_approval b' = get_approval b"
      "jget ''fencing_token'' r = Some (JNum g)" "jget ''ticket_id'' r = Some (jnat (t_id t))"
      by auto
    from claimed [OF t sel q op this] show thesis .
  qed
  show thesis
  proof (cases tid)
    case (Some k)
    with assms(2,3) obtain t where t: "select_targeted k (p_sub p) team b = Inr t"
      "do_claim cfg now t p op (claim_hash tid team typ) s b = Inr (r, b')" "\<not> claims_quiesced b"
      by (auto simp: claim_def Let_def)
    have g: "get_ticket b (t_id t) = Some t" using select_targeted_in [OF t(1)] get_ticket_id by blast
    show thesis by (rule finish [OF t(2) g _ t(3)]) (use t Some in \<open>simp add: selected_def\<close>)
  next
    case None
    show thesis
    proof (cases "candidate team typ b")
      case None
      with assms(2,3) \<open>tid = None\<close> have "r = no_work" "b' = b"
        by (auto simp: claim_def Let_def split: option.splits)
      then show thesis by (rule idle [OF \<open>tid = None\<close> \<open>candidate team typ b = None\<close>])
    next
      case (Some t)
      with assms(2,3) \<open>tid = None\<close> have run: "do_claim cfg now t p op (claim_hash tid team typ) s b = Inr (r, b')"
        "\<not> claims_quiesced b" "wip_block (p_sub p) team b = None" "wip_block (p_sub p) (t_team t) b = None"
        by (auto simp: claim_def Let_def split: option.splits)
      show thesis
        by (rule finish [OF run(1) get_ticket_in [OF assms(1)] _ run(2)])
          (use Some run candidate_in [OF Some] \<open>tid = None\<close> in \<open>auto simp: selected_def\<close>)
    qed
  qed
qed

text \<open>Which tickets a claim may select.\<close>

lemma case_wip: "(case x of None \<Rightarrow> Inr y | Some u \<Rightarrow> Inl (f u)) = Inr z \<longleftrightarrow> x = None \<and> y = z"
  by (cases x) auto

lemma selected_gates:
  assumes "selected tid team typ sub b t"
  shows "deps_ready b (t_id t)" and "int (t_depth t) \<le> b_max_depth b"
    and "t_class t \<noteq> General \<Longrightarrow> t_parent t \<noteq> None \<Longrightarrow> ceremony_gate b t"
    and "\<exists>tm. wip_block sub tm b = None \<and> (t_team t \<noteq> None \<longrightarrow> tm = t_team t)"
proof -
  have tgt: "deps_ready b (t_id t) \<and> int (t_depth t) \<le> b_max_depth b \<and>
      (t_class t \<noteq> General \<longrightarrow> t_parent t \<noteq> None \<longrightarrow> ceremony_gate b t) \<and>
      wip_block sub (if t_team t = None then team else t_team t) b = None"
    if "select_targeted k sub team b = Inr t" for k
    using that get_ticket_id [OF select_targeted_in [OF that]]
    by (cases "t_class t") (auto simp: select_targeted_def ceremony_gate_def case_wip)
  have cnd: "deps_ready b (t_id t) \<and> int (t_depth t) \<le> b_max_depth b \<and> ceremony_gate b t"
    if "candidate team typ b = Some t"
    using candidate_in [OF that] by (simp add: eligible_def)
  show "deps_ready b (t_id t)" "int (t_depth t) \<le> b_max_depth b"
    using assms tgt cnd by (auto simp: selected_def split: option.splits)
  show "t_class t \<noteq> General \<Longrightarrow> t_parent t \<noteq> None \<Longrightarrow> ceremony_gate b t"
    using assms tgt cnd by (auto simp: selected_def split: option.splits)
  show "\<exists>tm. wip_block sub tm b = None \<and> (t_team t \<noteq> None \<longrightarrow> tm = t_team t)"
    using assms tgt by (fastforce simp: selected_def split: option.splits if_splits)
qed

section \<open>Counting tickets\<close>

lemma count_where_card:
  assumes "distinct (map key xs)"
  shows "count_where q xs = card {k. \<exists>x. row_of key k xs = Some x \<and> q x}"
  using assms
proof (induction xs)
  case Nil
  then show ?case by simp
next
  case (Cons x xs)
  let ?S = "{k. \<exists>y. row_of key k xs = Some y \<and> q y}"
  have fin: "finite ?S" by (rule finite_subset [of _ "key ` set xs"]) (auto dest: row_of_SomeD)
  have new: "row_of key (key x) xs = None" using Cons.prems by (auto simp: row_of_None)
  then have "key x \<notin> ?S" by simp
  moreover have "{k. \<exists>y. row_of key k (x # xs) = Some y \<and> q y} = (if q x then insert (key x) ?S else ?S)"
    using new by auto
  ultimately show ?case using Cons fin by simp
qed

lemma count_tickets:
  "wf_board b \<Longrightarrow> count_where q (b_tickets b) = card {k. \<exists>t. get_ticket b k = Some t \<and> q t}"
  by (simp add: count_where_card [of t_id] wf_board_def wf_ids_def get_ticket_def)

lemma finite_tickets: "finite {k. \<exists>t. get_ticket b k = Some t \<and> q t}"
  by (rule finite_subset [of _ "t_id ` set (b_tickets b)"]) (auto simp: get_ticket_def dest: row_of_SomeD)

lemma count_flip:
  assumes "wf_board b" and "wf_board b'" and "get_ticket b k = Some t"
    and "get_ticket b' = (get_ticket b)(k \<mapsto> t')" and "\<not> q t"
  shows "count_where q (b_tickets b') \<le> Suc (count_where q (b_tickets b))"
proof -
  have "{j. \<exists>x. get_ticket b' j = Some x \<and> q x} \<subseteq> insert k {j. \<exists>x. get_ticket b j = Some x \<and> q x}"
    using assms(4) by (auto split: if_splits)
  from card_mono [OF _ this] have "card {j. \<exists>x. get_ticket b' j = Some x \<and> q x} \<le> card (insert k {j. \<exists>x. get_ticket b j = Some x \<and> q x})"
    by (simp add: finite_tickets)
  also have "\<dots> \<le> Suc (card {j. \<exists>x. get_ticket b j = Some x \<and> q x})"
    by (simp add: card_insert_if finite_tickets)
  finally show ?thesis by (simp add: count_tickets assms(1,2))
qed

end
