(* ===== verification/BoardRuns.thy ===== *)
theory BoardRuns
  imports BoardResults
begin

text \<open>
  What every run of the Board keeps: segregation of duties, exclusive claims, fencing tokens that
  only rise, approvals that are spent once, and lifecycles that follow the state machine.
\<close>

section \<open>Interfaces\<close>

definition ok_step :: "config \<Rightarrow> board \<Rightarrow> board \<Rightarrow> bool" where
  "ok_step cfg b b' \<longleftrightarrow> board_ok b \<and> board_step cfg b b'"

definition ok_bstep :: "config \<Rightarrow> board \<Rightarrow> board \<Rightarrow> bool" where
  "ok_bstep cfg b b' \<longleftrightarrow> board_ok b \<and> bstep cfg b b'"

lemma ok_run: "(board_step cfg)\<^sup>*\<^sup>* b c \<Longrightarrow> board_ok b \<Longrightarrow> (ok_step cfg)\<^sup>*\<^sup>* b c \<and> board_ok c"
proof (induction rule: rtranclp_induct)
  case base
  then show ?case by simp
next
  case (step c d)
  then have "ok_step cfg c d" "board_ok d" using board_step_ok by (auto simp: ok_step_def)
  with step show ?case by auto
qed

lemma ok_brun: "(bstep cfg)\<^sup>*\<^sup>* b c \<Longrightarrow> board_ok b \<Longrightarrow> (ok_bstep cfg)\<^sup>*\<^sup>* b c \<and> board_ok c"
proof (induction rule: rtranclp_induct)
  case base
  then show ?case by simp
next
  case (step c d)
  then have "ok_bstep cfg c d" "board_ok d" using bstep_core by (auto simp: ok_bstep_def)
  with step show ?case by auto
qed

interpretation gens: step_preorder astep gens_rise
  by unfold_locales (fact gens_rise_step gens_rise_refl gens_rise_trans)+

interpretation stays: step_preorder astep approvals_stay
  by unfold_locales (fact approvals_stay_step approvals_stay_refl approvals_stay_trans)+

interpretation evolves: step_preorder astep tickets_evolve
  by unfold_locales (fact tickets_evolve_step tickets_evolve_refl tickets_evolve_trans)+

lemma step_core:
  assumes "ok_step cfg b b'" and "\<And>s t. astep\<^sup>*\<^sup>* s t \<Longrightarrow> R s t" and "\<And>s t. hold_cleared s t \<Longrightarrow> R s t"
  shows "R (core_of b) (core_of b')"
proof -
  from assms(1) have ok: "board_ok b" and st: "board_step cfg b b'" by (simp_all add: ok_step_def)
  from st show ?thesis
  proof cases
    case lawful_step
    show ?thesis by (rule assms(2) [OF bstep_core(2) [OF lawful_step ok]])
  next
    case (clear_step now tid)
    have "R (core_of b) (core_of b)" by (rule assms(2)) simp
    with clear_cases(2) [OF ok, of now tid] clear_step assms(3) show ?thesis by metis
  qed
qed

interpretation board_gens: step_preorder "ok_step cfg" "\<lambda>b b'. gens_rise (core_of b) (core_of b')" for cfg
proof
  show "ok_step cfg s t \<Longrightarrow> gens_rise (core_of s) (core_of t)" for s t
    by (rule step_core [of cfg s t gens_rise]) (auto intro: gens.run_rel gens_rise_cleared)
qed (auto intro: gens_rise_refl gens_rise_trans)

interpretation board_stays: step_preorder "ok_step cfg" "\<lambda>b b'. approvals_stay (core_of b) (core_of b')" for cfg
proof
  show "ok_step cfg s t \<Longrightarrow> approvals_stay (core_of s) (core_of t)" for s t
    by (rule step_core [of cfg s t approvals_stay]) (auto intro: stays.run_rel approvals_stay_cleared)
qed (auto intro: approvals_stay_refl approvals_stay_trans)

interpretation board_evolves: step_preorder "ok_bstep cfg" "\<lambda>b b'. tickets_evolve (core_of b) (core_of b')" for cfg
proof
  show "ok_bstep cfg s t \<Longrightarrow> tickets_evolve (core_of s) (core_of t)" for s t
    unfolding ok_bstep_def using evolves.run_rel bstep_core(2) by blast
qed (auto intro: tickets_evolve_refl tickets_evolve_trans)

text \<open>The two operations that mint a token, when they run for the first time.\<close>

definition board_mints :: "config \<Rightarrow> board \<Rightarrow> string \<Rightarrow> int \<Rightarrow> board \<Rightarrow> bool" where
  "board_mints cfg b rid g b' \<longleftrightarrow>
     (\<exists>now p tid team typ op s r t. claim cfg now p tid team typ op s b = Inr (r, b') \<and>
        check_op (p_sub p) op (Some (claim_hash tid team typ)) b = Inr None \<and>
        jget ''ticket_id'' r = Some (jnat (t_id t)) \<and> get_ticket b (t_id t) = Some t \<and>
        rid = resource_id_for t \<and> jget ''fencing_token'' r = Some (JNum g)) \<or>
     (\<exists>now p ref tk h op s r aid. consume cfg now p ref tk h op s b = Inr (r, b') \<and>
        parse_approval_id ref = Some aid \<and>
        check_op (p_sub p) op (Some (consume_hash aid)) b = Inr None \<and>
        jget ''host_id'' r = Some (JStr rid) \<and> jget ''fencing_token'' r = Some (JNum g))"

lemma mints_claim:
  "claim cfg now p tid team ty op s b = Inr (r, b') \<Longrightarrow>
     check_op (p_sub p) op (Some (claim_hash tid team ty)) b = Inr None \<Longrightarrow> get_ticket b k = Some t \<Longrightarrow>
     jget ''ticket_id'' r = Some (jnat k) \<Longrightarrow> jget ''fencing_token'' r = Some (JNum g) \<Longrightarrow>
     resource_id_for t = rid \<Longrightarrow> board_mints cfg b rid g b'"
  using get_ticket_id [of b k t] unfolding board_mints_def by blast

lemma mints_consume:
  "consume cfg now p ref tk h op s b = Inr (r, b') \<Longrightarrow> parse_approval_id ref = Some aid \<Longrightarrow>
     check_op (p_sub p) op (Some (consume_hash aid)) b = Inr None \<Longrightarrow>
     jget ''host_id'' r = Some (JStr rid) \<Longrightarrow> jget ''fencing_token'' r = Some (JNum g) \<Longrightarrow>
     board_mints cfg b rid g b'"
  unfolding board_mints_def by blast

lemma generation_core: "current_generation b r = gen_of (get_lock b) r"
  by (simp add: current_generation_def gen_of_def)

lemma mint_fresh:
  assumes "board_ok b" and "board_mints cfg b rid g b'"
  shows "current_generation b rid < g \<and> current_generation b' rid = g"
proof -
  have acq: "current_generation b rid < g \<and> current_generation b' rid = g"
    if "lock_acquire rid kind hk k sub lease b = Some (g, b1)" "get_lock b' = get_lock b1" for kind hk k sub lease b1
    using acquires_gen(2,3) [OF acquire_core(1) [OF that(1)]] that(2) by (simp add: generation_core)
  from assms(2) consider
    (claim) now p tid team ty op s r t where "claim cfg now p tid team ty op s b = Inr (r, b')"
      "check_op (p_sub p) op (Some (claim_hash tid team ty)) b = Inr None"
      "jget ''ticket_id'' r = Some (jnat (t_id t))" "get_ticket b (t_id t) = Some t" "rid = resource_id_for t"
      "jget ''fencing_token'' r = Some (JNum g)"
  | (consume) now p ref tk h op s r aid where "consume cfg now p ref tk h op s b = Inr (r, b')"
      "parse_approval_id ref = Some aid" "check_op (p_sub p) op (Some (consume_hash aid)) b = Inr None"
      "jget ''host_id'' r = Some (JStr rid)" "jget ''fencing_token'' r = Some (JNum g)"
    unfolding board_mints_def by blast
  then show ?thesis
  proof cases
    case claim
    from assms(1) have wf: "wf_board b" by (simp add: board_ok_def)
    from wf claim(1,2) show ?thesis
    proof (cases rule: claim_ok)
      case idle
      with claim(3) show ?thesis by (simp add: no_work_def)
    next
      case (claimed u g' b1)
      have "t_id u = t_id t" "g' = g" using claim(3,6) claimed(11,12) by simp_all
      with claim(4) claimed(1) have "u = t" "g' = g" by simp_all
      with claimed(7) claim(5) show ?thesis by (intro acq [OF _ claimed(9)]) simp
    qed
  next
    case consume
    from consume(1) show ?thesis
    proof (cases rule: consume_ok)
      case (replay a)
      with consume(2,3) show ?thesis by simp
    next
      case (spent a x g' b1 t c)
      have "a_host x = rid" "g' = g"
        using consume(4,5) by (simp_all add: spent(9) consume_response_def)
      moreover have "get_lock b' = get_lock b1"
        using spent(8,10) by (simp add: core_of_def)
      ultimately show ?thesis using spent(5) by (intro acq) simp_all
    qed
  qed
qed

lemma mint_step: "board_mints cfg b rid g b' \<Longrightarrow> board_step cfg b b'"
  unfolding board_mints_def by (auto intro!: lawful_step intro: b_claim b_consume)

interpretation board_fence: fencing board_ok "board_step cfg" current_generation "board_mints cfg" for cfg
proof
  show "board_ok s \<Longrightarrow> board_step cfg s t \<Longrightarrow> board_ok t" for s t by (rule board_step_ok)
  show "board_ok s \<Longrightarrow> board_step cfg s t \<Longrightarrow> current_generation s r \<le> current_generation t r" for s t r
    using board_gens.rel_step [of cfg s t]
    by (auto simp: ok_step_def gens_rise_def core_of_def generation_core)
qed (auto intro: mint_step dest: mint_fresh)

end
