(* ===== verification/BoardDemo.thy ===== *)
theory BoardDemo
  imports BoardSystem
begin

text \<open>
  A concrete run, used by the witnesses: an operator files a ticket on a host, an agent claims
  it and proposes a plan, another operator grants it, the Gateway consumes the approval.
\<close>

definition demo_cfg :: config where
  "demo_cfg = \<lparr>c_lease_ttl = 100, c_wall_cap = 1000, c_fleet = 1, c_gate_min = 1,
     c_gate_threshold = 1/2, c_gate_window = 50, c_wip_global = 5, c_wip_agent = 2, c_round_cap = 4,
     c_light_round_cap = 2, c_timebox = 500, c_min_roster = 2, c_curation = ''library'',
     c_wazuh_secret = None, c_tier_enabled = False, c_revocations_url = None, c_dev_noauth = False,
     c_kill_staleness = 60, c_ceiling = 2\<rparr>"

definition demo_world :: world where
  "demo_world = \<lparr>w_fetch = (\<lambda>_. None), w_notes_url = [], w_cmdb_url = [], w_sha = id,
     w_hmac = (\<lambda>k m. m), w_jparse = (\<lambda>_. None)\<rparr>"

definition human :: "string \<Rightarrow> principal" where
  "human sub = \<lparr>p_sub = sub, p_kind = Human, p_scopes = []\<rparr>"

definition agent :: "string \<Rightarrow> principal" where
  "agent sub = \<lparr>p_sub = sub, p_kind = Agent, p_scopes = []\<rparr>"

definition gateway :: principal where
  "gateway = \<lparr>p_sub = ''svc:gateway'', p_kind = Service, p_scopes = []\<rparr>"

definition demo_prep :: grant_prep where
  "demo_prep = \<lparr>gp_note = ''n1'', gp_rev = Some ''r1'', gp_hash = ''hash'', gp_bindings = [],
     gp_class = ''destructive'', gp_tainted = False, gp_verdict = None\<rparr>"

definition outcome :: "exn + (json \<times> board) \<Rightarrow> board" where
  "outcome r = snd (projr r)"

definition demo_create :: "board \<Rightarrow> exn + (json \<times> board)" where
  "demo_create = create demo_cfg 10 (human ''ann'') (create_defaults\<lparr>cr_title := Some ''t'', cr_type := None,
     cr_body := None, cr_host := Some ''h1'', cr_parent := None, cr_team := None\<rparr>) None ''http''"

definition demo_claim :: "board \<Rightarrow> exn + (json \<times> board)" where
  "demo_claim = claim demo_cfg 20 (agent ''a1'') (Some 1) None None None ''mcp''"

definition demo_propose :: "board \<Rightarrow> exn + (json \<times> board)" where
  "demo_propose = propose_commit 30 (agent ''a1'') 1 ''n1'' (Some ''r1'') (Some 1) None ''mcp''"

definition demo_grant :: "board \<Rightarrow> exn + (json \<times> board)" where
  "demo_grant = grant_commit demo_world 40 (human ''bob'') 1 Operator None ''http'' demo_prep"

definition demo_consume :: "board \<Rightarrow> exn + (json \<times> board)" where
  "demo_consume = consume demo_cfg 50 gateway ''A-1'' None None None ''http''"

definition demo0 :: board where "demo0 = seed_defaults demo_cfg (init_board 0 3 [])"
definition demo1 :: board where "demo1 = outcome (demo_create demo0)"
definition demo2 :: board where "demo2 = outcome (demo_claim demo1)"
definition demo3 :: board where "demo3 = outcome (demo_propose demo2)"
definition demo4 :: board where "demo4 = outcome (demo_grant demo3)"
definition demo5 :: board where "demo5 = outcome (demo_consume demo4)"


lemma outcome_ok: "\<not> isl r \<Longrightarrow> r = Inr (fst (projr r), outcome r)"
  by (cases r) (simp_all add: outcome_def)

lemma demo_runs:
  "\<not> isl (demo_create demo0)" "\<not> isl (demo_claim demo1)" "\<not> isl (demo_propose demo2)"
  "\<not> isl (demo_grant demo3)" "\<not> isl (demo_consume demo4)"
  by code_simp+

lemma demo_start: "board_start demo_cfg demo0"
  by (auto simp: board_start_def demo0_def)

lemma demo_results:
  "demo_create demo0 = Inr (fst (projr (demo_create demo0)), demo1)"
  "demo_claim demo1 = Inr (fst (projr (demo_claim demo1)), demo2)"
  "demo_propose demo2 = Inr (fst (projr (demo_propose demo2)), demo3)"
  "demo_grant demo3 = Inr (fst (projr (demo_grant demo3)), demo4)"
  "demo_consume demo4 = Inr (fst (projr (demo_consume demo4)), demo5)"
  using outcome_ok demo_runs unfolding demo1_def demo2_def demo3_def demo4_def demo5_def by blast+

lemma grant_finish_ok:
  "grant_commit w now p tid ak op s g b = Inr (r, b') \<Longrightarrow> grant_finish w now p tid ak op s g b = (Inr r, b')"
  by (simp add: grant_finish_def)

lemma demo_steps:
  "bstep demo_cfg demo0 demo1" "bstep demo_cfg demo1 demo2" "bstep demo_cfg demo2 demo3"
  "bstep demo_cfg demo3 demo4" "bstep demo_cfg demo4 demo5"
proof -
  show "bstep demo_cfg demo0 demo1" by (rule b_create [OF demo_results(1) [unfolded demo_create_def]])
  show "bstep demo_cfg demo1 demo2" by (rule b_claim [OF demo_results(2) [unfolded demo_claim_def]])
  show "bstep demo_cfg demo2 demo3" by (rule b_propose [OF demo_results(3) [unfolded demo_propose_def]])
  have "demo4 = snd (grant_finish demo_world 40 (human ''bob'') 1 Operator None ''http'' demo_prep demo3)"
    by (simp only: grant_finish_ok [OF demo_results(4) [unfolded demo_grant_def]] snd_conv)
  then show "bstep demo_cfg demo3 demo4" using b_grant by metis
  show "bstep demo_cfg demo4 demo5" by (rule b_consume [OF demo_results(5) [unfolded demo_consume_def]])
qed

lemma demo_lawful:
  "lawful_reach demo_cfg demo0" "lawful_reach demo_cfg demo1" "lawful_reach demo_cfg demo2"
  "lawful_reach demo_cfg demo3" "lawful_reach demo_cfg demo4" "lawful_reach demo_cfg demo5"
proof -
  show r0: "lawful_reach demo_cfg demo0" by (rule reach_start) (rule demo_start)
  show r1: "lawful_reach demo_cfg demo1" using r0 demo_steps(1) by (rule reach_step)
  show r2: "lawful_reach demo_cfg demo2" using r1 demo_steps(2) by (rule reach_step)
  show r3: "lawful_reach demo_cfg demo3" using r2 demo_steps(3) by (rule reach_step)
  show r4: "lawful_reach demo_cfg demo4" using r3 demo_steps(4) by (rule reach_step)
  show "lawful_reach demo_cfg demo5" using r4 demo_steps(5) by (rule reach_step)
qed

lemma lawful_board: "lawful_reach cfg b \<Longrightarrow> board_reach cfg b"
  by (induction rule: reach.induct) (auto intro: reach_start reach_step lawful_step)

lemmas demo_reach = demo_lawful [THEN lawful_board]

section \<open>A second holder\<close>

text \<open>The first agent releases and another claims the same host.\<close>

definition demo_release :: "board \<Rightarrow> exn + (json \<times> board)" where
  "demo_release = release 30 (agent ''a1'') 1 (Some 1) None None ''mcp''"

definition demo_reclaim :: "board \<Rightarrow> exn + (json \<times> board)" where
  "demo_reclaim = claim demo_cfg 40 (agent ''a2'') (Some 1) None None None ''mcp''"

definition free3 :: board where "free3 = outcome (demo_release demo2)"
definition free4 :: board where "free4 = outcome (demo_reclaim free3)"

lemma free_runs: "\<not> isl (demo_release demo2)" "\<not> isl (demo_reclaim free3)"
  by code_simp+

lemma free_results:
  "release 30 (agent ''a1'') 1 (Some 1) None None ''mcp'' demo2 = Inr (fst (projr (demo_release demo2)), free3)"
  "claim demo_cfg 40 (agent ''a2'') (Some 1) None None None ''mcp'' free3 = Inr (fst (projr (demo_reclaim free3)), free4)"
  using outcome_ok free_runs unfolding free3_def free4_def demo_release_def demo_reclaim_def by blast+

lemma free_steps: "bstep demo_cfg demo2 free3" "bstep demo_cfg free3 free4"
  by (rule b_release [OF free_results(1)], rule b_claim [OF free_results(2)])

section \<open>An outage hold cleared late\<close>

text \<open>
  The ticket's lease runs out in what looks like an outage, so it is held; its agent proposes all the
  same, the plan is granted, and only then an operator clears the hold. The ticket goes round again.
\<close>

definition late_propose :: "int \<Rightarrow> int \<Rightarrow> string \<Rightarrow> board \<Rightarrow> exn + (json \<times> board)" where
  "late_propose now tok nid = propose_commit now (agent ''a1'') 1 nid (Some ''r1'') (Some tok) None ''mcp''"

definition late_grant :: "int \<Rightarrow> string \<Rightarrow> board \<Rightarrow> exn + (json \<times> board)" where
  "late_grant now nid = grant_commit demo_world now (human ''bob'') 1 Operator None ''http'' (demo_prep\<lparr>gp_note := nid\<rparr>)"

definition late_claim :: "board \<Rightarrow> exn + (json \<times> board)" where
  "late_claim = claim demo_cfg 160 (agent ''a1'') (Some 1) None None None ''mcp''"

definition late_consume :: "board \<Rightarrow> exn + (json \<times> board)" where
  "late_consume = consume demo_cfg 190 gateway ''A-1'' None None None ''http''"

definition hold3 :: board where "hold3 = snd (reaper_tick demo_cfg 125 demo2)"
definition hold4 :: board where "hold4 = outcome (late_propose 130 1 ''n1'' hold3)"
definition hold5 :: board where "hold5 = outcome (late_grant 140 ''n1'' hold4)"
definition hold6 :: board where "hold6 = snd (clear_outage_hold 150 1 hold5)"
definition hold7 :: board where "hold7 = outcome (late_claim hold6)"
definition hold8 :: board where "hold8 = outcome (late_propose 170 3 ''n2'' hold7)"
definition hold9 :: board where "hold9 = outcome (late_grant 180 ''n2'' hold8)"
definition hold10 :: board where "hold10 = outcome (late_consume hold9)"

lemma late_runs:
  "\<not> isl (late_propose 130 1 ''n1'' hold3)" "\<not> isl (late_grant 140 ''n1'' hold4)" "\<not> isl (late_claim hold6)"
  "\<not> isl (late_propose 170 3 ''n2'' hold7)" "\<not> isl (late_grant 180 ''n2'' hold8)" "\<not> isl (late_consume hold9)"
  by code_simp+

lemma late_steps:
  "bstep demo_cfg hold3 hold4" "bstep demo_cfg hold4 hold5" "bstep demo_cfg hold6 hold7"
  "bstep demo_cfg hold7 hold8" "bstep demo_cfg hold8 hold9"
proof -
  have g: "bstep demo_cfg b (outcome (late_grant now nid b))" if "\<not> isl (late_grant now nid b)" for now nid b
  proof -
    have "grant_commit demo_world now (human ''bob'') 1 Operator None ''http'' (demo_prep\<lparr>gp_note := nid\<rparr>) b =
        Inr (fst (projr (late_grant now nid b)), outcome (late_grant now nid b))"
      using outcome_ok [OF that] by (simp only: late_grant_def)
    then have "snd (grant_finish demo_world now (human ''bob'') 1 Operator None ''http'' (demo_prep\<lparr>gp_note := nid\<rparr>) b) =
        outcome (late_grant now nid b)"
      by (simp only: grant_finish_ok snd_conv)
    then show ?thesis using b_grant by metis
  qed
  have pr: "bstep demo_cfg b (outcome (late_propose now tok nid b))" if "\<not> isl (late_propose now tok nid b)" for now tok nid b
    by (rule b_propose) (use outcome_ok [OF that] in \<open>simp only: late_propose_def\<close>)
  show "bstep demo_cfg hold3 hold4" unfolding hold4_def by (rule pr [OF late_runs(1)])
  show "bstep demo_cfg hold4 hold5" unfolding hold5_def by (rule g [OF late_runs(2)])
  show "bstep demo_cfg hold6 hold7" unfolding hold7_def
    by (rule b_claim) (use outcome_ok [OF late_runs(3)] in \<open>simp only: late_claim_def\<close>)
  show "bstep demo_cfg hold7 hold8" unfolding hold8_def by (rule pr [OF late_runs(4)])
  show "bstep demo_cfg hold8 hold9" unfolding hold9_def by (rule g [OF late_runs(5)])
qed

lemma late_reach: "board_reach demo_cfg hold9"
proof -
  have "board_reach demo_cfg hold3"
    using demo_reach(3) lawful_step [OF b_reap] unfolding hold3_def by (rule reach_step)
  from reach_step [OF this lawful_step [OF late_steps(1)]] have "board_reach demo_cfg hold4" .
  from reach_step [OF this lawful_step [OF late_steps(2)]] have "board_reach demo_cfg hold5" .
  from reach_step [OF this clear_step] have "board_reach demo_cfg hold6" unfolding hold6_def .
  from reach_step [OF this lawful_step [OF late_steps(3)]] have "board_reach demo_cfg hold7" .
  from reach_step [OF this lawful_step [OF late_steps(4)]] have "board_reach demo_cfg hold8" .
  from reach_step [OF this lawful_step [OF late_steps(5)]] show ?thesis .
qed

end
