(* ===== verification/BoardSafety.thy ===== *)
theory BoardSafety
  imports BoardRuns BoardDemo
begin

text \<open>
  The system properties: each holds in every store the Board can reach from a fresh one, or of
  every run between two such stores.
\<close>

section \<open>Segregation of duties\<close>

text \<open>C1. In every reachable store a ticket that is executing or verifying has an approval for that
  ticket that was consumed, whose consumer is recorded, and whose approver is not its proposer.\<close>

theorem executing_approved:
  assumes "board_reach cfg b" and "get_ticket b k = Some t" and "t_status t \<in> {Executing, Verifying}"
  shows "\<exists>a x. get_approval b a = Some x \<and> a_ticket x = k \<and> a_status x = Consumed \<and>
    a_consumed_by x \<noteq> None \<and> a_approver x \<noteq> a_proposer x"
proof -
  from board.reach_inv [OF assms(1)] have inv: "inv_exec (core_of b)" "inv_eyes (core_of b)"
    by (simp_all add: board_ok_def core_inv_def)
  from inv(1) assms(2,3) obtain a x where "get_approval b a = Some x" "a_ticket x = k" "a_status x = Consumed"
    unfolding inv_exec_def core_of_def prod.case by blast
  moreover from inv(2) this have "a_consumed_by x \<noteq> None" "a_approver x \<noteq> a_proposer x"
    unfolding inv_eyes_def core_of_def prod.case by blast+
  ultimately show ?thesis by blast
qed

lemma demo5_ticket: "map_option t_status (get_ticket demo5 1) = Some Executing"
  by code_simp

theorem executing_approved_witness:
  "\<exists>t. get_ticket demo5 1 = Some t \<and> (\<exists>a x. get_approval demo5 a = Some x \<and> a_ticket x = 1 \<and>
     a_status x = Consumed \<and> a_consumed_by x \<noteq> None \<and> a_approver x \<noteq> a_proposer x)"
proof -
  obtain t where t: "get_ticket demo5 1 = Some t" "t_status t = Executing"
    using demo5_ticket by auto
  from executing_approved [OF demo_reach(6) t(1)] t show ?thesis by auto
qed

text \<open>C31. Every reachable store is well formed: identifiers are unique and below the counters that mint them,
  no two locks are for one resource, a claim lock belongs to a ticket in progress on that resource, and no
  approval has its proposer for approver.\<close>

theorem store_well_formed:
  assumes "board_reach cfg b"
  shows "distinct (map t_id (b_tickets b)) \<and> distinct (map a_id (b_approvals b)) \<and> distinct (map l_rid (b_locks b)) \<and>
    (\<forall>t \<in> set (b_tickets b). t_id t < b_next_ticket b) \<and> (\<forall>x \<in> set (b_approvals b). a_id x < b_next_approval b) \<and>
    (\<forall>r l. get_lock b r = Some l \<and> l_hold l = Some ClaimHold \<longrightarrow>
       (\<exists>k t. l_ticket l = Some k \<and> get_ticket b k = Some t \<and> t_status t = InProgress \<and> resource_id_for t = r)) \<and>
    (\<forall>a x. get_approval b a = Some x \<longrightarrow> a_approver x \<noteq> a_proposer x)"
proof -
  have ok: "board_ok b" by (rule board.reach_inv [OF assms])
  then have "inv_holds (core_of b)" "inv_eyes (core_of b)" by (simp_all add: board_ok_def core_inv_def)
  moreover have "wf_board b" using ok by (simp add: board_ok_def)
  ultimately show ?thesis
    unfolding wf_board_def wf_ids_def inv_holds_def inv_eyes_def core_of_def prod.case by auto
qed

theorem store_well_formed_witness: "distinct (map t_id (b_tickets demo5)) \<and> distinct (map l_rid (b_locks demo5))"
  using store_well_formed [OF demo_reach(6)] by blast

text \<open>C25. The columns of an approval that a Gateway relies on never change, and an approval that has left
  the state granted stays as it is: once consumed or revoked it is so for ever, and its consumer
  stays on record.\<close>

theorem approvals_immutable:
  assumes "board_reach cfg b" and "(board_step cfg)\<^sup>*\<^sup>* b c" and "get_approval b a = Some x"
  shows "\<exists>y. get_approval c a = Some y \<and> a_ticket y = a_ticket x \<and> a_host y = a_host x \<and> a_hash y = a_hash x \<and>
    a_note y = a_note x \<and> a_rev y = a_rev x \<and> a_class y = a_class x \<and> a_proposer y = a_proposer x \<and>
    a_approver y = a_approver x \<and> a_akind y = a_akind x \<and> a_granted_at y = a_granted_at x \<and>
    (a_status x \<noteq> Granted \<longrightarrow> a_status y = a_status x \<and> a_consumed_by y = a_consumed_by x)"
proof -
  have "board_ok b" by (rule board.reach_inv [OF assms(1)])
  from board_stays.run_rel [OF conjunct1 [OF ok_run [OF assms(2) this]]] assms(3)
  obtain y where "get_approval c a = Some y" "same_a x y"
    "a_status x \<noteq> Granted \<longrightarrow> a_status y = a_status x \<and> a_consumed_by y = a_consumed_by x"
    unfolding approvals_stay_def core_of_def prod.case by blast
  then show ?thesis by (auto simp: same_a_def)
qed

lemma demo4_approval: "map_option a_status (get_approval demo4 1) = Some Granted"
  by code_simp

theorem approvals_immutable_witness:
  "\<exists>x y. get_approval demo4 1 = Some x \<and> get_approval demo5 1 = Some y \<and> a_hash y = a_hash x \<and> a_approver y = a_approver x"
proof -
  obtain x where x: "get_approval demo4 1 = Some x" using demo4_approval by auto
  have "(board_step demo_cfg)\<^sup>*\<^sup>* demo4 demo5" using lawful_step [OF demo_steps(5)] by blast
  from approvals_immutable [OF demo_reach(5) this x] x show ?thesis by auto
qed

text \<open>C4. An approval is single-use: after a consume that ran for the first time, and after any
  operations that follow it, no consume of the same approval succeeds except the replay of an earlier
  answer to the same caller and op\_id.\<close>

theorem consume_single_use:
  assumes "board_reach cfg b" and "parse_approval_id ref = Some aid" and "parse_approval_id ref2 = Some aid"
    and "consume cfg now p ref tk h op s b = Inr (r, b')"
    and "check_op (p_sub p) op (Some (consume_hash aid)) b = Inr None"
    and "(board_step cfg)\<^sup>*\<^sup>* b' c"
    and "check_op (p_sub p2) op2 (Some (consume_hash aid)) c = Inr None"
  shows "\<exists>e. consume cfg now2 p2 ref2 tk2 h2 op2 s2 c = Inl e"
proof -
  have ok: "board_ok b" by (rule board.reach_inv [OF assms(1)])
  have st: "board_step cfg b b'" by (rule lawful_step [OF b_consume [OF assms(4)]])
  from assms(4) have "\<exists>x. get_approval b' aid = Some x \<and> a_status x = Consumed"
  proof (cases rule: consume_ok)
    case (replay a)
    with assms(2,5) show ?thesis by simp
  next
    case (spent a x g b1 t d)
    with assms(2) acquire_core(3) [OF spent(5)] show ?thesis
      by (simp add: core_of_def approval_consumed_def)
  qed
  then obtain x where x: "get_approval b' aid = Some x" "a_status x = Consumed" by blast
  have "board_ok b'" by (rule board_step_ok [OF ok st])
  from board_stays.run_rel [OF conjunct1 [OF ok_run [OF assms(6) this]]] x
  obtain y where y: "get_approval c aid = Some y" "a_status y = Consumed"
    unfolding approvals_stay_def core_of_def prod.case by fastforce
  show ?thesis
  proof (cases "consume cfg now2 p2 ref2 tk2 h2 op2 s2 c")
    case (Inr rb)
    then obtain r2 b2 where "consume cfg now2 p2 ref2 tk2 h2 op2 s2 c = Inr (r2, b2)" by (cases rb) auto
    then show ?thesis
    proof (cases rule: consume_ok)
      case (replay a)
      with assms(3,7) show ?thesis by simp
    next
      case (spent a x' g b1 t d)
      with assms(3) y show ?thesis by simp
    qed
  qed simp
qed

theorem consume_single_use_witness: "\<exists>e. consume demo_cfg 60 gateway ''A-1'' None None None ''http'' demo5 = Inl e"
  by (rule consume_single_use [OF demo_reach(5) _ _ demo_results(5) [unfolded demo_consume_def]])
    (simp_all, code_simp+)

section \<open>Exclusive work and fencing\<close>

text \<open>C32. Work on a resource is exclusive: in every reachable store an in-progress ticket holds the claim
  on the lock of its resource under its own agent and token, and no other in-progress ticket works on
  that resource.\<close>

theorem claims_exclusive:
  assumes "board_reach cfg b" and "get_ticket b j = Some t" and "t_status t = InProgress"
  shows "(\<exists>l. get_lock b (resource_id_for t) = Some l \<and> l_ticket l = Some j \<and> l_hold l = Some ClaimHold \<and>
      l_agent l = t_claimed_by t \<and> Some (l_gen l) = t_fence t) \<and>
    (\<forall>k u. get_ticket b k = Some u \<and> t_status u = InProgress \<and> resource_id_for u = resource_id_for t \<longrightarrow> k = j)"
proof -
  have inv: "inv_claims (core_of b)"
    using board.reach_inv [OF assms(1)] by (simp add: board_ok_def core_inv_def)
  have held: "claimed_lock (get_lock b) k u" if "get_ticket b k = Some u" "t_status u = InProgress" for k u
    using inv that unfolding inv_claims_def core_of_def prod.case by blast
  show ?thesis
    using held [OF assms(2,3)] held by (fastforce simp: claimed_lock_def)
qed

lemma demo2_ticket: "map_option (\<lambda>t. (t_status t, resource_id_for t)) (get_ticket demo2 1) = Some (InProgress, ''h1'')"
  by code_simp

theorem claims_exclusive_witness:
  "\<exists>t l. get_ticket demo2 1 = Some t \<and> get_lock demo2 ''h1'' = Some l \<and> l_ticket l = Some 1 \<and> Some (l_gen l) = t_fence t"
proof -
  obtain t where t: "get_ticket demo2 1 = Some t" "t_status t = InProgress" "resource_id_for t = ''h1''"
    using demo2_ticket by auto
  from claims_exclusive [OF demo_reach(3) t(1,2)] t show ?thesis by auto
qed

text \<open>C6. Fencing tokens only rise: if a claim or a consume handed out a token for a resource and a later
  one hands out another, the later token is larger, and from then on the earlier token is below the
  resource's generation.\<close>

theorem handed_tokens_rise:
  assumes "board_reach cfg b" and "board_mints cfg b r g b'" and "(board_step cfg)\<^sup>*\<^sup>* b' c" and "board_mints cfg c r h c'"
  shows "g < h \<and> (\<forall>d. (board_step cfg)\<^sup>*\<^sup>* c' d \<longrightarrow> g < current_generation d r)"
  using board.reach_inv [OF assms(1)] assms(2-4) board_fence.tokens_rise board_fence.old_token_stale by blast

lemma demo_claim_run:
  "claim demo_cfg 20 (agent ''a1'') (Some 1) None None None ''mcp'' demo1 = Inr (fst (projr (demo_claim demo1)), demo2)"
  using demo_results(2) by (simp only: demo_claim_def)

lemma demo_consume_run:
  "consume demo_cfg 50 gateway ''A-1'' None None None ''http'' demo4 = Inr (fst (projr (demo_consume demo4)), demo5)"
  using demo_results(5) by (simp only: demo_consume_def)

lemma demo_answers:
  "map_option resource_id_for (get_ticket demo1 1) = Some ''h1''"
  "jget ''ticket_id'' (fst (projr (demo_claim demo1))) = Some (jnat 1)"
  "jget ''fencing_token'' (fst (projr (demo_claim demo1))) = Some (JNum 1)"
  "jget ''host_id'' (fst (projr (demo_consume demo4))) = Some (JStr ''h1'')"
  "jget ''fencing_token'' (fst (projr (demo_consume demo4))) = Some (JNum 3)"
  "parse_approval_id ''A-1'' = Some 1"
  by code_simp+

lemma demo_mints: "board_mints demo_cfg demo1 ''h1'' 1 demo2" "board_mints demo_cfg demo4 ''h1'' 3 demo5"
proof -
  obtain t where "get_ticket demo1 1 = Some t" "resource_id_for t = ''h1''" using demo_answers(1) by auto
  then show "board_mints demo_cfg demo1 ''h1'' 1 demo2"
    by (intro mints_claim [OF demo_claim_run check_op_None _ demo_answers(2,3)])
  show "board_mints demo_cfg demo4 ''h1'' 3 demo5"
    by (rule mints_consume [OF demo_consume_run demo_answers(6) check_op_None demo_answers(4,5)])
qed

lemma demo_between: "(board_step demo_cfg)\<^sup>*\<^sup>* demo2 demo4"
  using lawful_step [OF demo_steps(3)] lawful_step [OF demo_steps(4)] by auto

theorem handed_tokens_rise_witness: "(1::int) < 3 \<and> 1 < current_generation demo5 ''h1''"
  using handed_tokens_rise [OF demo_reach(2) demo_mints(1) demo_between demo_mints(2)] by blast





section \<open>Lifecycles\<close>



text \<open>As long as no outage hold is cleared, a live (granted) approval always belongs to an approved
  ticket that points back to it: there is never a dangling grant.\<close>

theorem granted_is_current:
  assumes "lawful_reach cfg b" and "get_approval b a = Some x" and "a_status x = Granted"
  shows "\<exists>t. get_ticket b (a_ticket x) = Some t \<and> t_status t = Approved \<and> t_approval t = Some a"
  using lawful.reach_inv [OF assms(1)] assms(2,3) unfolding inv_grant_def core_of_def prod.case by blast

theorem granted_is_current_witness:
  "\<exists>x t. get_approval demo4 1 = Some x \<and> get_ticket demo4 (a_ticket x) = Some t \<and> t_status t = Approved"
proof -
  obtain x where x: "get_approval demo4 1 = Some x" "a_status x = Granted" using demo4_approval by auto
  from granted_is_current [OF demo_lawful(5) x] x show ?thesis by blast
qed

text \<open>Clearing an outage hold breaks that: there is a reachable store in which a ticket's current approval
  is its second one, and the Gateway can still consume the first one, granted for an earlier plan before
  the hold was cleared; the ticket then executes on the superseded plan while the current approval stays
  granted.\<close>

theorem cleared_hold_stale_grant:
  "\<exists>b r b'. board_reach demo_cfg b \<and> consume demo_cfg 190 gateway ''A-1'' None None None ''http'' b = Inr (r, b') \<and>
     map_option t_approval (get_ticket b 1) = Some (Some 2) \<and>
     map_option (\<lambda>t. (t_status t, t_note t)) (get_ticket b' 1) = Some (Executing, Some ''n2'') \<and>
     map_option (\<lambda>x. (a_status x, a_note x)) (get_approval b' 1) = Some (Consumed, ''n1'') \<and>
     map_option a_status (get_approval b' 2) = Some Granted"
proof -
  have "consume demo_cfg 190 gateway ''A-1'' None None None ''http'' hold9 = Inr (fst (projr (late_consume hold9)), hold10)"
    using outcome_ok [OF late_runs(6)] unfolding hold10_def by (simp only: late_consume_def)
  moreover have "map_option t_approval (get_ticket hold9 1) = Some (Some 2)"
    "map_option (\<lambda>t. (t_status t, t_note t)) (get_ticket hold10 1) = Some (Executing, Some ''n2'')"
    "map_option (\<lambda>x. (a_status x, a_note x)) (get_approval hold10 1) = Some (Consumed, ''n1'')"
    "map_option a_status (get_approval hold10 2) = Some Granted"
    by code_simp+
  ultimately show ?thesis using late_reach by blast
qed

text \<open>A quarantined ticket is never worked on: in every reachable store it is still to do or cancelled,
  so no lock, proposal, approval or run belongs to it.\<close>

theorem quarantined_idle:
  assumes "board_reach cfg b" and "get_ticket b k = Some t" and "t_quar t"
  shows "t_status t \<in> {Todo, Cancelled}"
  using board.reach_inv [OF assms(1)] assms(2,3)
  unfolding board_ok_def core_inv_def inv_quar_def core_of_def prod.case by blast

definition demo_alert :: wazuh_prep where
  "demo_alert = \<lparr>wz_key = ''k'', wz_title = ''alert'', wz_body = ''b'', wz_agent = JStr ''7'', wz_host = None\<rparr>"

definition demo_webhook :: "board \<Rightarrow> exn + (json \<times> board)" where
  "demo_webhook = wazuh_commit demo_cfg 60 demo_alert"

definition alert1 :: board where "alert1 = outcome (demo_webhook demo0)"

lemma alert_reach: "board_reach demo_cfg alert1"
proof -
  have "\<not> isl (demo_webhook demo0)" by code_simp
  from outcome_ok [OF this] have "wazuh_commit demo_cfg 60 demo_alert demo0 = Inr (fst (projr (demo_webhook demo0)), alert1)"
    by (simp only: alert1_def demo_webhook_def)
  from lawful_step [OF b_wazuh [OF this]] show ?thesis by (rule reach_step [OF demo_reach(1)])
qed

theorem quarantined_idle_witness: "\<exists>t. get_ticket alert1 1 = Some t \<and> t_status t \<in> {Todo, Cancelled}"
proof -
  have "map_option t_quar (get_ticket alert1 1) = Some True" by code_simp
  then obtain t where "get_ticket alert1 1 = Some t" "t_quar t" by auto
  with quarantined_idle [OF alert_reach this] show ?thesis by blast
qed

end
