(* ===== verification/BoardSurface.thy ===== *)
theory BoardSurface
  imports BoardOps Bearer
begin

text \<open>
  The outer surface: the resource server (\<open>auth/rs.js\<close>), the budget middleware
  (\<open>auth/budget.js\<close>), the HTTP routes (\<open>api/http.js\<close>), the MCP tools (\<open>mcp/tools.js\<close>,
  \<open>mcp/server.js\<close>) and the boot requirements (\<open>config.js\<close>). A request is given by its route
  with the typed fields the handler reads; token validation (the \<open>jose\<close> library) and the reply of
  the budget service are parameters. An asynchronous handler runs without another operation in
  between here; the step relation of the system covers the interleavings.
\<close>

section \<open>Scopes and action classes\<close>

datatype scope = SRead | SClaim | SPropose | SUpdate | SApprove | SCeremony | SExecute | SAdmin | SAuthCreate

fun scope_str :: "scope \<Rightarrow> string" where
  "scope_str SRead = ''board:read''"
| "scope_str SClaim = ''board:claim''"
| "scope_str SPropose = ''board:propose''"
| "scope_str SUpdate = ''board:update''"
| "scope_str SApprove = ''board:approve''"
| "scope_str SCeremony = ''board:run-ceremony''"
| "scope_str SExecute = ''board:execute''"
| "scope_str SAdmin = ''board:admin''"
| "scope_str SAuthCreate = ''board:create-breakglass''"

definition scopes_supported :: "scope list" where
  "scopes_supported = [SRead, SClaim, SPropose, SUpdate, SApprove, SCeremony, SExecute, SAdmin]"

datatype action_class = ReadClass | WriteBenign | ProposeClass | SodCritical

fun class_str :: "action_class \<Rightarrow> string" where
  "class_str ReadClass = ''read''"
| "class_str WriteBenign = ''write-benign''"
| "class_str ProposeClass = ''propose''"
| "class_str SodCritical = ''sod-critical''"

section \<open>The resource server\<close>

fun holder_allowed_kinds :: "scope \<Rightarrow> pkind list option" where
  "holder_allowed_kinds SExecute = Some [Service]"
| "holder_allowed_kinds SApprove = Some [Human, Service]"
| "holder_allowed_kinds SAdmin = Some [Human, Service]"
| "holder_allowed_kinds _ = None"

definition dev_scopes :: string where
  "dev_scopes = ''board:read board:claim board:propose board:update board:approve board:run-ceremony''"

text \<open>\<open>jwt\<close> is the library's validation of signature, issuer and audience: the payload, or \<open>None\<close>
  when it throws.\<close>

definition verify_token :: "(string \<Rightarrow> json option) \<Rightarrow> string \<Rightarrow> refusal + json" where
  "verify_token jwt tok =
     need (jwt tok) (Refusal 401 ''invalid_token'') (\<lambda>payload.
     throw_if (case jget ''aud'' payload of Some (JArr xs) \<Rightarrow> length xs \<noteq> 1 | _ \<Rightarrow> False)
       (Refusal 401 ''invalid_token'')
     (throw_if (\<not> js_truthy (jget ''sub'' payload)) (Refusal 401 ''invalid_token'') (Inr payload)))"

definition authenticate :: "config \<Rightarrow> (string \<Rightarrow> json option) \<Rightarrow> headers \<Rightarrow> refusal + principal" where
  "authenticate cfg jwt h =
     (if c_dev_noauth cfg then
        let sub = truthy_or (h_dev_sub h) ''op:dev'' in
        Inr \<lparr>p_sub = sub,
          p_kind = (if truthy_str (h_dev_kind h) then kind_of (the (h_dev_kind h)) else infer_kind sub),
          p_scopes = split_words (truthy_or (h_dev_scopes h) dev_scopes)\<rparr>
      else
        need (bearer_token (truthy_or (h_authorization h) '''')) (Refusal 401 ''missing_token'') (\<lambda>tok.
        and_then (verify_token jwt tok) (\<lambda>payload.
          let sub = js_string (the (jget ''sub'' payload)) in
          Inr \<lparr>p_sub = sub, p_kind = claimed_kind payload sub,
            p_scopes = split_words (if js_truthy (jget ''scope'' payload)
              then js_string (the (jget ''scope'' payload)) else '''')\<rparr>)))"

definition require_scope ::
  "config \<Rightarrow> (string \<Rightarrow> json option) \<Rightarrow> scope \<Rightarrow> headers \<Rightarrow> refusal + principal" where
  "require_scope cfg jwt sc h =
     and_then (authenticate cfg jwt h) (\<lambda>p.
     throw_if (scope_str sc \<notin> set (p_scopes p)) (Refusal 403 ''insufficient_scope'')
     (throw_if (case holder_allowed_kinds sc of None \<Rightarrow> False | Some ks \<Rightarrow> p_kind p \<notin> set ks)
       (Refusal 403 ''insufficient_scope'') (Inr p)))"

section \<open>The budget middleware\<close>

text \<open>What the call of the budget service gives: a response with its status, or an exception.\<close>

datatype budget_reply = Replied nat | Unreachable

definition inflight_of :: "(string \<rightharpoonup> nat) \<Rightarrow> string \<Rightarrow> nat" where
  "inflight_of m sub = (case m sub of Some n \<Rightarrow> n | None \<Rightarrow> 0)"

definition budget_admit ::
  "config \<Rightarrow> action_class \<Rightarrow> string \<Rightarrow> budget_reply \<Rightarrow> (string \<rightharpoonup> nat)
     \<Rightarrow> refusal option \<times> (string \<rightharpoonup> nat)" where
  "budget_admit cfg cls sub reply m =
     (let cur = inflight_of m sub; m1 = m(sub \<mapsto> cur + 1) in
      if c_ceiling cfg \<le> cur then (Some (Refusal 429 ''budget''), m)
      else if c_dev_noauth cfg then (None, m1)
      else case reply of
          Replied st \<Rightarrow> (if st = 429 then Some (Refusal 429 ''budget'') else None, m1)
        | Unreachable \<Rightarrow> (if cls = SodCritical then Some (Refusal 503 ''budget_unavailable'') else None, m1))"

text \<open>The listener on \<open>finish\<close>, which the middleware installs once the request has been counted.\<close>

definition budget_finish :: "string \<Rightarrow> (string \<rightharpoonup> nat) \<Rightarrow> (string \<rightharpoonup> nat)" where
  "budget_finish sub m =
     (let n = (if inflight_of m sub = 0 then 1 else inflight_of m sub) - 1
      in if n = 0 then m(sub := None) else m(sub \<mapsto> n))"

section \<open>Boot requirements\<close>

datatype boot_problem = DevNoAuthSet | WazuhSecretUnset | BackupTargetUnset

definition boot_problems :: "string \<Rightarrow> string option \<Rightarrow> config \<Rightarrow> boot_problem list" where
  "boot_problems node_env backup_target cfg =
     (if node_env = ''production''
      then (if c_dev_noauth cfg then [DevNoAuthSet] else [])
         @ (if \<not> truthy_str (c_wazuh_secret cfg) then [WazuhSecretUnset] else [])
         @ (if \<not> truthy_str backup_target then [BackupTargetUnset] else [])
      else [])"

section \<open>HTTP routes\<close>

text \<open>
  One constructor per route, with the path parameters and the body fields its handler reads
  (strings and numbers of the type the service expects, \<open>None\<close> where a field is absent).
\<close>

datatype http_call =
    GetFactsTicket string | GetFactsApproval string | GetFactsHostLock string
  | GetEscalations nat | GetViolations nat | GetLineage string | GetHolds | GetWip | GetKill
  | GetTicket string | GetQueue query_args | GetApproval string | GetHuddle string
  | PostClaim "string option" "string option" "string option" "string option"
  | PostHeartbeat string "int option" "string option" "string option"
  | PostRelease string "int option" "string option" "string option"
  | PostTransition string string "int option" "string option" "string option"
  | PostTicket "string option" "string option" "string option" "string option" "string option"
      "string option" "string option"
  | PatchTicket string string json "int option" "nat option" "string option"
  | PostNote string "string option" "int option" "string option" "string option"
  | PostDep string string "string option"
  | PostTriage string "string option"
  | PostPhase string string "string option"
  | PostStatement string string "string option" "string option" "string option"
  | PostDecompose string "child_spec list" "string option"
  | PostApprove string "string option"
  | PostReject string "string option"
  | PostRevoke string "string option"
  | PostConsume string "string option" "string option" "string option"
  | PostOutcome string string "string option" "string option"
  | PostVerification string string "json option" "string option"
  | PostOperator string string "nat option" "string option" "string option"
  | PutWip string "string option" "int option" json
  | PutLineage "int option" json
  | PostClearQuarantine string "string option" "string option"
  | PostClearHold string
  | PostBreakglass "string option" "string option" "string option"

fun http_scope :: "http_call \<Rightarrow> scope" where
  "http_scope (PostClaim _ _ _ _) = SClaim"
| "http_scope (PostHeartbeat _ _ _ _) = SClaim"
| "http_scope (PostRelease _ _ _ _) = SClaim"
| "http_scope (PostTransition _ _ _ _ _) = SUpdate"
| "http_scope (PostTicket _ _ _ _ _ _ _) = SPropose"
| "http_scope (PatchTicket _ _ _ _ _ _) = SUpdate"
| "http_scope (PostNote _ _ _ _ _) = SUpdate"
| "http_scope (PostDep _ _ _) = SUpdate"
| "http_scope (PostTriage _ _) = SCeremony"
| "http_scope (PostPhase _ _ _) = SCeremony"
| "http_scope (PostStatement _ _ _ _ _) = SCeremony"
| "http_scope (PostDecompose _ _ _) = SCeremony"
| "http_scope (PostApprove _ _) = SApprove"
| "http_scope (PostReject _ _) = SApprove"
| "http_scope (PostRevoke _ _) = SApprove"
| "http_scope (PostConsume _ _ _ _) = SExecute"
| "http_scope (PostOutcome _ _ _ _) = SExecute"
| "http_scope (PostVerification _ _ _ _) = SExecute"
| "http_scope (PostOperator _ _ _ _ _) = SApprove"
| "http_scope (PutWip _ _ _ _) = SAdmin"
| "http_scope (PutLineage _ _) = SAdmin"
| "http_scope (PostClearQuarantine _ _ _) = SAdmin"
| "http_scope (PostClearHold _) = SAdmin"
| "http_scope (PostBreakglass _ _ _) = SAuthCreate"
| "http_scope _ = SRead"

text \<open>The action class given to the budget middleware; the reads have none.\<close>

fun http_class :: "http_call \<Rightarrow> action_class option" where
  "http_class (PostClaim _ _ _ _) = Some SodCritical"
| "http_class (PostHeartbeat _ _ _ _) = Some WriteBenign"
| "http_class (PostRelease _ _ _ _) = Some WriteBenign"
| "http_class (PostTransition _ _ _ _ _) = Some ProposeClass"
| "http_class (PostTicket _ _ _ _ _ _ _) = Some ProposeClass"
| "http_class (PatchTicket _ _ _ _ _ _) = Some WriteBenign"
| "http_class (PostNote _ _ _ _ _) = Some WriteBenign"
| "http_class (PostDep _ _ _) = Some WriteBenign"
| "http_class (PostTriage _ _) = Some ProposeClass"
| "http_class (PostPhase _ _ _) = Some ProposeClass"
| "http_class (PostStatement _ _ _ _ _) = Some ProposeClass"
| "http_class (PostDecompose _ _ _) = Some ProposeClass"
| "http_class (PostApprove _ _) = Some SodCritical"
| "http_class (PostReject _ _) = Some WriteBenign"
| "http_class (PostRevoke _ _) = Some SodCritical"
| "http_class (PostConsume _ _ _ _) = Some SodCritical"
| "http_class (PostOutcome _ _ _ _) = Some WriteBenign"
| "http_class (PostVerification _ _ _ _) = Some WriteBenign"
| "http_class (PostOperator _ _ _ _ _) = Some WriteBenign"
| "http_class (PutWip _ _ _ _) = Some SodCritical"
| "http_class (PutLineage _ _) = Some SodCritical"
| "http_class (PostClearQuarantine _ _ _) = Some SodCritical"
| "http_class (PostClearHold _) = Some WriteBenign"
| "http_class (PostBreakglass _ _ _) = Some WriteBenign"
| "http_class _ = None"

text \<open>
  \<open>parseNum\<close>: the digits of a reference, or what \<open>Number.parseInt\<close> reads at the front of the
  string (white space, a sign, digits); \<open>None\<close> is null.
\<close>

definition parse_int :: "string \<Rightarrow> int option" where
  "parse_int v =
     (let s = dropWhile is_ws v;
          neg = starts_with ''-'' s;
          ds = takeWhile is_digit (if neg \<or> starts_with ''+'' s then tl s else s)
      in if ds = [] then None else Some (if neg then - int (digits_val ds) else int (digits_val ds)))"

definition parse_num :: "string \<Rightarrow> int option" where
  "parse_num v =
     (if starts_with ''T-'' v \<and> all_digits (drop 2 v) then Some (int (digits_val (drop 2 v)))
      else parse_int v)"

text \<open>
  The row id a parsed reference denotes. Row ids start at 1, so a null or negative id, which finds
  no row in any query, is written as the id 0, which finds none either.
\<close>

definition row_id :: "int option \<Rightarrow> nat" where
  "row_id x = (case x of Some n \<Rightarrow> nat n | None \<Rightarrow> 0)"

definition path_id :: "string \<Rightarrow> nat" where
  "path_id v = row_id (parse_num v)"

text \<open>\<open>ticketId: req.body.ticket_id ? parseNum(req.body.ticket_id) : null\<close>.\<close>

definition claim_target :: "string option \<Rightarrow> nat option" where
  "claim_target tid =
     (if truthy_str tid then map_option (\<lambda>n. row_id (Some n)) (parse_num (the tid)) else None)"

text \<open>The dependency route parses its two ids as \<open>parseTicketId\<close> does, the first after \<open>parseNum\<close>.\<close>

definition dep_id :: "int option \<Rightarrow> nat option" where
  "dep_id x = (case x of Some n \<Rightarrow> if 0 \<le> n then Some (nat n) else None | None \<Rightarrow> None)"

definition body_args ::
  "string option \<Rightarrow> string option \<Rightarrow> string option \<Rightarrow> string option \<Rightarrow> string option \<Rightarrow> string option
     \<Rightarrow> create_args" where
  "body_args title ty body host parent team =
     create_defaults\<lparr>cr_title := title, cr_type := ty, cr_body := body, cr_host := host,
       cr_parent := parent, cr_team := team\<rparr>"

text \<open>A transaction's outcome as an answer and the store afterwards: a throw rolls back.\<close>

definition committed :: "board \<Rightarrow> exn + (json \<times> board) \<Rightarrow> (exn + json) \<times> board" where
  "committed b r = (case r of Inl e \<Rightarrow> (Inl e, b) | Inr (j, b') \<Rightarrow> (Inr j, b'))"

definition run_triage ::
  "world \<Rightarrow> int \<Rightarrow> principal \<Rightarrow> nat \<Rightarrow> string option \<Rightarrow> string \<Rightarrow> board \<Rightarrow> exn + (json \<times> board)" where
  "run_triage w now p k op surface b =
     and_then (triage_prepare w k b) (\<lambda>su. triage_commit now p k su op surface b)"

definition run_grant ::
  "config \<Rightarrow> world \<Rightarrow> int \<Rightarrow> principal \<Rightarrow> nat \<Rightarrow> string option \<Rightarrow> board \<Rightarrow> (exn + json) \<times> board" where
  "run_grant cfg w now p k op b =
     (case grant_prepare cfg w now Operator k b of
        Inl e \<Rightarrow> (Inl e, b)
      | Inr g \<Rightarrow> grant_finish w now p k Operator op ''http'' g b)"

definition found :: "json option \<Rightarrow> exn + json" where
  "found r = (case r of Some j \<Rightarrow> Inr j | None \<Rightarrow> Inl (err NOT_FOUND))"

fun http_read :: "http_call \<Rightarrow> board \<Rightarrow> exn + json" where
  "http_read (GetFactsTicket r) b = Inr (ticket_facts r b)"
| "http_read (GetFactsApproval r) b = Inr (approval_facts r b)"
| "http_read (GetFactsHostLock h) b = Inr (host_lock_facts h b)"
| "http_read (GetEscalations n) b = Inr (escalations n 100 b)"
| "http_read (GetViolations n) b = Inr (violations n 100 b)"
| "http_read (GetLineage r) b = Inr (lineage r b)"
| "http_read GetHolds b = Inr (holds_facts b)"
| "http_read GetWip b = Inr (wip_facts b)"
| "http_read GetKill b = Inr (kill_posture b)"
| "http_read (GetTicket r) b = found (tickets_get r b)"
| "http_read (GetQueue q) b = Inr (query q b)"
| "http_read (GetApproval r) b = found (read_approval r b)"
| "http_read (GetHuddle r) b =
     Inr (case huddle_state r b of Some j \<Rightarrow> j | None \<Rightarrow> JObj [(''open'', JBool False)])"
| "http_read _ b = Inr JNull"

fun http_run ::
  "config \<Rightarrow> world \<Rightarrow> int \<Rightarrow> principal \<Rightarrow> http_call \<Rightarrow> board \<Rightarrow> (exn + json) \<times> board" where
  "http_run cfg w now p (PostClaim tid team ty op) b =
     committed b (claim cfg now p (claim_target tid) team ty op ''http'' b)"
| "http_run cfg w now p (PostHeartbeat r tok note op) b =
     committed b (heartbeat cfg now p (path_id r) tok note op b)"
| "http_run cfg w now p (PostRelease r tok reason op) b =
     committed b (release now p (path_id r) tok reason op ''http'' b)"
| "http_run cfg w now p (PostTransition r to tok reason op) b =
     board_agent_transition w now p (path_id r) to tok reason op ''http'' b"
| "http_run cfg w now p (PostTicket title ty body host parent team op) b =
     committed b (create cfg now p (body_args title ty body host parent team) op ''http'' b)"
| "http_run cfg w now p (PatchTicket r field v tok ver op) b =
     committed b (update_ticket now p (path_id r) field v tok ver op ''http'' b)"
| "http_run cfg w now p (PostNote r note tok role op) b =
     committed b (link_note now p (path_id r) note tok
       (if role = None then Some ''general'' else role) op ''http'' b)"
| "http_run cfg w now p (PostDep r d op) b =
     committed b (add_dependency now p (dep_id (parse_num r)) (parse_ticket_id d) op ''http'' b)"
| "http_run cfg w now p (PostTriage r op) b =
     committed b (run_triage w now p (path_id r) op ''http'' b)"
| "http_run cfg w now p (PostPhase r to op) b =
     committed b (transition_phase cfg now p (path_id r) to op b)"
| "http_run cfg w now p (PostStatement r kind note rv op) b =
     committed b (statement cfg now p (path_id r) kind note rv op ''http'' b)"
| "http_run cfg w now p (PostDecompose r children op) b =
     committed b (decompose cfg now p (path_id r) children op ''http'' b)"
| "http_run cfg w now p (PostApprove r op) b = run_grant cfg w now p (path_id r) op b"
| "http_run cfg w now p (PostReject r op) b =
     committed b (operator_transition now p (path_id r) ''cancelled'' op None None ''http'' b)"
| "http_run cfg w now p (PostRevoke r op) b = committed b (revoke now p (path_id r) op ''http'' b)"
| "http_run cfg w now p (PostConsume r tid host op) b =
     committed b (consume cfg now p r tid host op ''http'' b)"
| "http_run cfg w now p (PostOutcome r to run op) b =
     committed b (run_outcome now p (path_id r) to run op ''http'' b)"
| "http_run cfg w now p (PostVerification r res ev op) b =
     committed b (submit_verification now p (path_id r) res ev op ''http'' b)"
| "http_run cfg w now p (PostOperator r to ver reason op) b =
     committed b (operator_transition now p (path_id r) to op reason ver ''http'' b)"
| "http_run cfg w now p (PutWip sc subj cap body) b = committed b (put_wip now p sc subj cap body b)"
| "http_run cfg w now p (PutLineage depth body) b = committed b (put_lineage now p depth body b)"
| "http_run cfg w now p (PostClearQuarantine r host op) b =
     committed b (clear_quarantine now p (path_id r) host op ''http'' b)"
| "http_run cfg w now p (PostClearHold r) b =
     (let (j, b') = clear_outage_hold now (path_id r) b in (Inr j, b'))"
| "http_run cfg w now p (PostBreakglass title body op) b =
     committed b (breakglass_review_ticket cfg now p title body op ''http'' b)"
| "http_run cfg w now p c b = (http_read c b, b)"

text \<open>The whole pipeline of a route, and the answer it sends.\<close>

datatype answer = Refused refusal | Answered nat "exn + json"

definition answer_of :: "exn + json \<Rightarrow> answer" where
  "answer_of r = (case r of Inl e \<Rightarrow> Answered (http_status e) (Inl e) | Inr j \<Rightarrow> Answered 200 (Inr j))"

definition http_handle ::
  "config \<Rightarrow> world \<Rightarrow> (string \<Rightarrow> json option) \<Rightarrow> int \<Rightarrow> budget_reply \<Rightarrow> headers \<Rightarrow> http_call
     \<Rightarrow> (string \<rightharpoonup> nat) \<times> board \<Rightarrow> answer \<times> (string \<rightharpoonup> nat) \<times> board" where
  "http_handle cfg w jwt now reply h c = (\<lambda>(m, b).
     case require_scope cfg jwt (http_scope c) h of
       Inl r \<Rightarrow> (Refused r, m, b)
     | Inr p \<Rightarrow>
         (case http_class c of
            None \<Rightarrow> (let (r, b') = http_run cfg w now p c b in (answer_of r, m, b'))
          | Some cls \<Rightarrow>
              (case budget_admit cfg cls (p_sub p) reply m of
                 (Some r, m1) \<Rightarrow> (Refused r, m1, b)
               | (None, m1) \<Rightarrow> (let (r, b') = http_run cfg w now p c b in (answer_of r, m1, b')))))"

end
