(* ===== verification/BoardMcp.thy ===== *)
theory BoardMcp
  imports BoardSurface
begin

text \<open>
  The MCP tools (\<open>mcp/tools.js\<close>, \<open>mcp/server.js\<close>): one constructor per registered tool with the
  arguments of its input schema, the validation of that schema, the scope each tool needs, and the
  handlers over the same service operations as the HTTP routes.
\<close>

section \<open>Tools and their schemas\<close>

datatype tool_call =
    TClaimNext "string option" "string option" string
  | TClaim string string
  | TRelease string int "string option" string
  | THeartbeat string int "string option" string
  | TTransition string string int "string option" string
  | TCreate string "string option" "string option" "string option" "string option" "string option" string
  | TUpdate string string json "int option" nat string
  | TGet string
  | TQuery query_args
  | TAddDependency string string string
  | TLinkNote string string int string
  | TCeremonyTransition string string string
  | TCeremonyStatement string string string "string option" string

fun tool_scope :: "tool_call \<Rightarrow> scope" where
  "tool_scope (TClaimNext _ _ _) = SClaim"
| "tool_scope (TClaim _ _) = SClaim"
| "tool_scope (TRelease _ _ _ _) = SClaim"
| "tool_scope (THeartbeat _ _ _ _) = SClaim"
| "tool_scope (TTransition _ _ _ _ _) = SUpdate"
| "tool_scope (TCreate _ _ _ _ _ _ _) = SPropose"
| "tool_scope (TUpdate _ _ _ _ _ _) = SUpdate"
| "tool_scope (TGet _) = SRead"
| "tool_scope (TQuery _) = SRead"
| "tool_scope (TAddDependency _ _ _) = SUpdate"
| "tool_scope (TLinkNote _ _ _ _) = SUpdate"
| "tool_scope (TCeremonyTransition _ _ _) = SCeremony"
| "tool_scope (TCeremonyStatement _ _ _ _ _) = SCeremony"

definition op_id_valid :: "string \<Rightarrow> bool" where
  "op_id_valid op = (1 \<le> length op \<and> length op \<le> 128)"

text \<open>The enumerations of the schemas and the bounds of \<open>op_id\<close>; the protocol library refuses a
  call that fails them.\<close>

fun tool_valid :: "tool_call \<Rightarrow> bool" where
  "tool_valid (TClaimNext _ _ op) = op_id_valid op"
| "tool_valid (TClaim _ op) = op_id_valid op"
| "tool_valid (TRelease _ _ _ op) = op_id_valid op"
| "tool_valid (THeartbeat _ _ _ op) = op_id_valid op"
| "tool_valid (TTransition _ to _ _ op) =
     (to \<in> set [''awaiting_approval'', ''needs_review'', ''blocked''] \<and> op_id_valid op)"
| "tool_valid (TCreate _ _ _ _ _ _ op) = op_id_valid op"
| "tool_valid (TUpdate _ field v _ _ op) =
     (field \<in> set [''priority'', ''severity'', ''body_section''] \<and>
      (case v of JStr _ \<Rightarrow> True | JNum _ \<Rightarrow> True | _ \<Rightarrow> False) \<and> op_id_valid op)"
| "tool_valid (TGet _) = True"
| "tool_valid (TQuery _) = True"
| "tool_valid (TAddDependency _ _ op) = op_id_valid op"
| "tool_valid (TLinkNote _ _ _ op) = op_id_valid op"
| "tool_valid (TCeremonyTransition _ to op) = (to \<in> set (map phase_str phase_order) \<and> op_id_valid op)"
| "tool_valid (TCeremonyStatement _ kind _ _ op) =
     (kind \<in> set [''position'', ''dissent'', ''veto'', ''veto_clear'', ''decision''] \<and> op_id_valid op)"

section \<open>Handlers\<close>

text \<open>
  \<open>num\<close>: the digits of a reference, or \<open>Number\<close> of the string; \<open>None\<close> is NaN. A numeral in another
  notation than decimal digits is out of scope.
\<close>

definition tool_num :: "string \<Rightarrow> int option" where
  "tool_num v =
     (if starts_with ''T-'' v \<and> all_digits (drop 2 v) then Some (int (digits_val (drop 2 v)))
      else if trim v = '''' then Some 0
      else if all_digits (trim v) then Some (int (digits_val (trim v))) else None)"

definition tool_id :: "string \<Rightarrow> nat" where
  "tool_id v = row_id (tool_num v)"

definition set_member :: "string \<Rightarrow> json \<Rightarrow> json \<Rightarrow> json" where
  "set_member k v j = (case j of
     JObj kvs \<Rightarrow> JObj (if k \<in> fst ` set kvs then map (\<lambda>(x, y). if x = k then (x, v) else (x, y)) kvs
        else kvs @ [(k, v)])
   | _ \<Rightarrow> j)"

text \<open>\<open>renderClaim\<close>.\<close>

definition render_claim :: "json \<Rightarrow> json" where
  "render_claim r =
     (if js_truthy (jget ''code'' r) then r
      else set_member ''ticket_id'' (case jget ''ticket_id'' r of
         Some (JNum n) \<Rightarrow> JStr (ticket_ref (nat n)) | _ \<Rightarrow> JNull) r)"

definition rendered :: "exn + (json \<times> board) \<Rightarrow> exn + (json \<times> board)" where
  "rendered r = and_then r (\<lambda>(j, b). Inr (render_claim j, b))"

fun mcp_run ::
  "config \<Rightarrow> world \<Rightarrow> int \<Rightarrow> principal \<Rightarrow> tool_call \<Rightarrow> board \<Rightarrow> (exn + json) \<times> board" where
  "mcp_run cfg w now p (TClaimNext team ty op) b =
     committed b (rendered (claim cfg now p None team ty (Some op) ''mcp'' b))"
| "mcp_run cfg w now p (TClaim r op) b =
     committed b (rendered (claim cfg now p (Some (tool_id r)) None None (Some op) ''mcp'' b))"
| "mcp_run cfg w now p (TRelease r tok reason op) b =
     committed b (release now p (tool_id r) (Some tok) reason (Some op) ''mcp'' b)"
| "mcp_run cfg w now p (THeartbeat r tok note op) b =
     committed b (heartbeat cfg now p (tool_id r) (Some tok) note (Some op) b)"
| "mcp_run cfg w now p (TTransition r to tok reason op) b =
     board_agent_transition w now p (tool_id r) to (Some tok) reason (Some op) ''mcp'' b"
| "mcp_run cfg w now p (TCreate title ty body host parent team op) b =
     committed b (create cfg now p (body_args (Some title) ty body host parent team) (Some op) ''mcp'' b)"
| "mcp_run cfg w now p (TUpdate r field v tok ver op) b =
     committed b (update_ticket now p (tool_id r) field v tok (Some ver) (Some op) ''mcp'' b)"
| "mcp_run cfg w now p (TGet r) b = (found (tickets_get r b), b)"
| "mcp_run cfg w now p (TQuery q) b = (Inr (query q b), b)"
| "mcp_run cfg w now p (TAddDependency r d op) b =
     committed b (add_dependency now p (dep_id (tool_num r)) (dep_id (tool_num d)) (Some op) ''mcp'' b)"
| "mcp_run cfg w now p (TLinkNote r note tok op) b =
     committed b (link_note now p (tool_id r) (Some note) (Some tok) (Some ''general'') (Some op) ''mcp'' b)"
| "mcp_run cfg w now p (TCeremonyTransition r to op) b =
     (if to = ''triage'' then committed b (run_triage w now p (tool_id r) (Some op) ''mcp'' b)
      else committed b (transition_phase cfg now p (tool_id r) to (Some op) b))"
| "mcp_run cfg w now p (TCeremonyStatement r kind note rv op) b =
     committed b (statement cfg now p (tool_id r) kind (Some note) rv (Some op) ''mcp'' b)"

text \<open>
  What a call gives the client: a result, a business outcome marked as an error, an exception the
  protocol layer reports, or the refusal of the schema.
\<close>

datatype tool_answer = ToolOk json | ToolError json | ToolThrows exn | SchemaRejected

fun ecode_str :: "ecode \<Rightarrow> string" where
  "ecode_str CLAIM_CONFLICT = ''CLAIM_CONFLICT''"
| "ecode_str NO_ELIGIBLE_WORK = ''NO_ELIGIBLE_WORK''"
| "ecode_str WIP_CAP = ''WIP_CAP''"
| "ecode_str LINEAGE_CAP = ''LINEAGE_CAP''"
| "ecode_str HOST_LOCKED = ''HOST_LOCKED''"
| "ecode_str QUIESCED = ''QUIESCED''"
| "ecode_str STALE_FENCING = ''STALE_FENCING''"
| "ecode_str NOT_HOLDER = ''NOT_HOLDER''"
| "ecode_str ILLEGAL_TRANSITION = ''ILLEGAL_TRANSITION''"
| "ecode_str NOT_FOUND = ''NOT_FOUND''"
| "ecode_str VERSION_CONFLICT = ''VERSION_CONFLICT''"
| "ecode_str FOUR_EYES = ''FOUR_EYES''"
| "ecode_str AUTO_APPROVE_FORBIDDEN = ''AUTO_APPROVE_FORBIDDEN''"
| "ecode_str APPROVAL_CONSUMED = ''approval_consumed''"
| "ecode_str APPROVAL_REVOKED = ''approval_revoked''"
| "ecode_str APPROVAL_EXPIRED = ''approval_expired''"
| "ecode_str PLAN_UNPARSEABLE = ''PLAN_UNPARSEABLE''"
| "ecode_str PLAN_PIN_MOVED = ''PLAN_PIN_MOVED''"
| "ecode_str DEP_UNMET = ''DEP_UNMET''"
| "ecode_str DEP_CYCLE = ''DEP_CYCLE''"
| "ecode_str OP_MISMATCH = ''OP_MISMATCH''"
| "ecode_str OP_IN_PROGRESS = ''OP_IN_PROGRESS''"
| "ecode_str OUT_OF_ORDER_STATEMENT = ''OUT_OF_ORDER_STATEMENT''"
| "ecode_str NOT_ROSTER = ''NOT_ROSTER''"
| "ecode_str VETO_UNRESOLVED = ''VETO_UNRESOLVED''"
| "ecode_str DISSENT_REQUIRED = ''DISSENT_REQUIRED''"
| "ecode_str DISSENT_UNGROUNDED = ''DISSENT_UNGROUNDED''"
| "ecode_str SIGNAL_UNAVAILABLE = ''SIGNAL_UNAVAILABLE''"
| "ecode_str DEP_UNAVAILABLE = ''DEP_UNAVAILABLE''"
| "ecode_str QUARANTINED = ''QUARANTINED''"
| "ecode_str VALIDATION = ''VALIDATION''"

text \<open>The body of a business error, its human-readable message left out.\<close>

definition to_structured :: "ecode \<Rightarrow> (string \<times> json) list \<Rightarrow> json" where
  "to_structured c ds = JObj ((''code'', JStr (ecode_str c)) # ds)"

definition insufficient :: "scope \<Rightarrow> json" where
  "insufficient sc = JObj [(''code'', JStr ''insufficient_scope''), (''scope'', JStr (scope_str sc))]"

definition guard :: "exn + json \<Rightarrow> tool_answer" where
  "guard r = (case r of
     Inl (Biz c ds) \<Rightarrow> ToolError (to_structured c ds)
   | Inl e \<Rightarrow> ToolThrows e
   | Inr j \<Rightarrow> if js_truthy (jget ''code'' j) then ToolError j else ToolOk j)"

definition mcp_call ::
  "config \<Rightarrow> world \<Rightarrow> int \<Rightarrow> principal \<Rightarrow> tool_call \<Rightarrow> board \<Rightarrow> tool_answer \<times> board" where
  "mcp_call cfg w now p c b =
     (if \<not> tool_valid c then (SchemaRejected, b)
      else if scope_str (tool_scope c) \<notin> set (p_scopes p) then (ToolError (insufficient (tool_scope c)), b)
      else let (r, b') = mcp_run cfg w now p c b in (guard r, b'))"

text \<open>The endpoint: the bearer is validated, the principal comes from the token only.\<close>

definition mcp_handle ::
  "config \<Rightarrow> world \<Rightarrow> (string \<Rightarrow> json option) \<Rightarrow> int \<Rightarrow> headers \<Rightarrow> tool_call \<Rightarrow> board \<Rightarrow> (refusal + tool_answer) \<times> board" where
  "mcp_handle cfg w jwt now h c b =
     (case authenticate cfg jwt h of
        Inl r \<Rightarrow> (Inl r, b)
      | Inr p \<Rightarrow> (let (a, b') = mcp_call cfg w now p c b in (Inr a, b')))"

end
