(* ===== verification/BoardAuthority.thy ===== *)
theory BoardAuthority
  imports BoardMcp BoardSystem BoardResults
begin

text \<open>
  Which status moves each operation makes, and from that which moves each route of the HTTP surface
  and each MCP tool makes; every route and tool runs steps of the system.
\<close>

section \<open>Moves of an agent\<close>

definition agent_moves :: "(status \<times> status) set" where
  "agent_moves = {(Todo, InProgress), (InProgress, Todo), (InProgress, AwaitingApproval),
     (InProgress, NeedsReview), (InProgress, Blocked)}"

definition only_moves :: "(status \<times> status) set \<Rightarrow> board \<Rightarrow> board \<Rightarrow> bool" where
  "only_moves R b c \<longleftrightarrow> get_approval c = get_approval b \<and>
     (\<forall>k t. get_ticket b k = Some t \<longrightarrow>
        (\<exists>u. get_ticket c k = Some u \<and> (t_status u = t_status t \<or> (t_status t, t_status u) \<in> R)))"

lemma only_moves_refl [simp]: "only_moves R b b"
  by (simp add: only_moves_def)

lemma only_moves_frame:
  "get_ticket c = get_ticket b \<Longrightarrow> get_approval c = get_approval b \<Longrightarrow> only_moves R b c"
  by (simp add: only_moves_def)

lemma only_moves_cong:
  "get_ticket d = get_ticket c \<Longrightarrow> get_approval d = get_approval c \<Longrightarrow> only_moves R b c \<Longrightarrow> only_moves R b d"
  by (simp add: only_moves_def)

lemma only_moves_trans: "only_moves R b c \<Longrightarrow> only_moves {} c d \<Longrightarrow> only_moves R b d"
  unfolding only_moves_def by (metis empty_iff)

lemma only_moves_after: "only_moves {} b c \<Longrightarrow> only_moves R c d \<Longrightarrow> only_moves R b d"
  unfolding only_moves_def by (metis empty_iff)

lemma only_moves_at:
  assumes "get_ticket c = (get_ticket b)(k := map_option f (get_ticket b k))" and "get_approval c = get_approval b"
    and "\<And>t. get_ticket b k = Some t \<Longrightarrow> t_status (f t) = t_status t \<or> (t_status t, t_status (f t)) \<in> R"
  shows "only_moves R b c"
  using assms by (auto simp: only_moves_def)

lemma only_moves_same [simp]: "same_core b c \<Longrightarrow> only_moves R b c"
  by (rule only_moves_frame) (simp_all add: same_core_gets)

lemma only_moves_birth:
  assumes "wf_board b" and "t_id row = b_next_ticket b"
  shows "only_moves R b (insert_ticket row b)"
proof -
  have "get_ticket b (b_next_ticket b) = None"
    using assms(1) by (auto simp: wf_board_def wf_ids_def get_ticket_def row_of_None)
  then show ?thesis
    using assms(2)
    by (auto simp: only_moves_def insert_ticket_def get_ticket_def get_approval_def [abs_def] row_of_append
        split: option.splits)
qed

lemma agent_moves_simps:
  "(Todo, InProgress) \<in> agent_moves" "(InProgress, Todo) \<in> agent_moves" "(InProgress, AwaitingApproval) \<in> agent_moves"
  "(InProgress, NeedsReview) \<in> agent_moves" "(InProgress, Blocked) \<in> agent_moves"
  by (simp_all add: agent_moves_def)

lemma same_core_refl: "same_core b b"
  by (simp add: same_core_def)

lemma claim_moves:
  assumes "wf_board b" and "claim cfg now p tid team ty op s b = Inr (r, b')"
  shows "only_moves agent_moves b b'"
proof (cases "check_op (p_sub p) op (Some (claim_hash tid team ty)) b")
  case (Inl e)
  with assms(2) show ?thesis by (simp add: claim_def Let_def)
next
  case (Inr x)
  show ?thesis
  proof (cases x)
    case None
    from assms Inr [unfolded None] show ?thesis
    proof (cases rule: claim_ok)
      case (claimed t g b1)
      show ?thesis
        by (rule only_moves_at [where k = "t_id t"
              and f = "\<lambda>t. walled cfg now (ticket_claimed (p_sub p) now (now + c_lease_ttl cfg) g t)"])
          (use claimed in \<open>auto simp: agent_moves_def\<close>)
    qed simp
  next
    case (Some a)
    with assms(2) Inr have "b' = b"
      by (auto simp: claim_def Let_def replay_claim_def split: option.splits json.splits if_splits)
    then show ?thesis by simp
  qed
qed

lemma once_moves:
  assumes "once sub op h b body = Inr (r, b')" and "body = Inr (r, b') \<Longrightarrow> only_moves R b b'"
  shows "only_moves R b b'"
  using assms by (auto simp: once_ok)

lemma heartbeat_moves:
  assumes "heartbeat cfg now p k tok note op b = Inr (r, b')"
  shows "only_moves R b b'"
  using assms by (auto simp: only_moves_def heartbeat_def Let_def split: if_splits option.splits)

lemma release_moves:
  assumes "release now p k tok re op s b = Inr (r, b')"
  shows "only_moves agent_moves b b'"
proof (rule once_moves [OF assms [unfolded release_def Let_def]], goal_cases)
  case 1
  then show ?case
    by (auto simp: only_moves_def release_ticket_def bump_version_def Let_def agent_moves_def ticket_requeued_def)
qed

lemma move_moves:
  assumes "agent_move now p k u tok re op s b = Inr (r, b')" and "u \<in> {NeedsReview, Blocked}"
  shows "only_moves agent_moves b b'"
proof (rule once_moves [OF assms(1) [unfolded agent_move_def]], goal_cases)
  case 1
  with assms(2) show ?case
    by (auto simp: only_moves_def Let_def agent_moves_def ticket_moved_def)
qed

lemma propose_moves:
  assumes "propose_commit now p k note rv tok op s b = Inr (r, b')"
  shows "only_moves agent_moves b b'"
  using assms
  by (auto simp: only_moves_def propose_commit_def Let_def agent_moves_def ticket_proposed_def)

lemma settle_moves: "(\<And>r c. x = Inr (r, c) \<Longrightarrow> only_moves R b c) \<Longrightarrow> only_moves R b (snd (settle b x))"
  by (auto simp: settle_def split: sum.splits)

lemma transition_moves: "only_moves agent_moves b (snd (agent_transition w now p k to tok re op s b))"
proof (cases "agent_check now p k to s b")
  case (Pair x c)
  show ?thesis
  proof (cases x)
    case (Inl e)
    have "same_core b (snd (agent_check now p k to s b))"
      by (simp add: agent_check_def log_violation_def same_core_refl split: option.splits)
    with Pair have "same_core b c" by simp
    with Pair Inl show ?thesis by (simp add: agent_transition_def)
  next
    case (Inr t)
    note ok = agent_check_ok [OF Pair [unfolded Inr]]
    have st: "u \<in> {NeedsReview, Blocked}" if "state_of to = Some u" "to \<noteq> status_str AwaitingApproval" for u
      using ok that state_of_str by (metis insert_iff option.inject)
    have "only_moves agent_moves b (snd (settle b (if to = status_str AwaitingApproval
             then and_then (plan_pin w k b) (\<lambda>(note, rv). propose_commit now p k note rv tok op s b)
             else need (state_of to) TypeErr (\<lambda>u. agent_move now p k u tok re op s b))))"
      by (rule settle_moves)
        (use st in \<open>auto simp del: status_str.simps split: if_splits dest: propose_moves move_moves\<close>)
    with Pair Inr ok show ?thesis by (simp add: agent_transition_def)
  qed
qed

lemma board_transition_moves:
  "only_moves agent_moves b (snd (board_agent_transition w now p k to tok re op s b))"
proof -
  obtain x c where at: "agent_transition w now p k to tok re op s b = (x, c)" by fastforce
  then have c: "only_moves agent_moves b c"
    using transition_moves [of b w now p k to tok re op s] by simp
  have "only_moves agent_moves b (snd (pause now k ''blocked'' c))"
    by (rule only_moves_cong [OF _ _ c]) (simp_all add: pause_def split: option.splits)
  with at c show ?thesis
    by (cases x) (simp_all add: board_agent_transition_def)
qed

lemma create_moves:
  assumes "wf_board b" and "create cfg now p a op s b = Inr (r, b')"
  shows "only_moves R b b'"
proof (rule once_moves [OF assms(2) [unfolded create_def]], goal_cases)
  case 1
  have "only_moves R b (insert_ticket (created_row cfg now p a b) b)"
    by (rule only_moves_birth [OF assms(1)]) simp
  with 1 show ?case by (auto simp: Let_def intro: only_moves_cong)
qed

lemma field_status: "apply_field field v = Inr f \<Longrightarrow> t_status (f t) = t_status t \<and> t_id (f t) = t_id t"
  by (auto simp: apply_field_def split: if_splits)

lemma update_moves:
  assumes "update_ticket now p k f v tok ex op s b = Inr (r, b')"
  shows "only_moves R b b'"
  using assms
  by (auto simp: only_moves_def update_ticket_def fence_if_claimed_def Let_def field_status split: if_splits)

lemma note_moves: "link_note now p k note tok role op s b = Inr (r, b') \<Longrightarrow> only_moves R b b'"
  by (auto simp: only_moves_def link_note_def fence_if_claimed_def Let_def split: if_splits)

lemma dep_moves: "add_dependency now p kd d op s b = Inr (r, b') \<Longrightarrow> only_moves R b b'"
  by (auto simp: only_moves_def add_dependency_def Let_def split: if_splits)

text \<open>The ceremony changes no status.\<close>

lemma set_phase_moves [simp]: "only_moves R b (set_phase now k ph b)"
  by (simp add: set_phase_def only_moves_def)

lemma triage_moves:
  assumes "triage_commit now p k su op s b = Inr (r, b')"
  shows "only_moves R b b'"
  using assms by (auto simp: triage_commit_def once_ok Let_def only_moves_def split: prod.splits)

lemma open_huddle_moves: "only_moves R b (snd (open_huddle cfg now t p op b))"
  by (simp add: open_huddle_def Let_def only_moves_def set_phase_def split: option.splits)

lemma backlog_core: "guard_backlog now k b = Inr c \<Longrightarrow> get_ticket c = get_ticket b \<and> get_approval c = get_approval b"
  by (auto simp: guard_backlog_def Let_def)

lemma phase_moves:
  assumes "transition_phase cfg now p k to op b = Inr (r, b')"
  shows "only_moves R b b'"
proof (rule once_moves [OF assms [unfolded transition_phase_def]], goal_cases)
  case 1
  then obtain t ph where ph: "(if ph = PPlanning then Inr (open_huddle cfg now t p op b) else
      and_then (if ph = PBacklog then guard_backlog now k b else Inr b) (\<lambda>b1.
        Inr (JObj [(''ticket_id'', jnat k), (''phase'', JStr to)],
          emit ''ceremony'' [(''ticket_id'', jnat k), (''phase'', JStr to)]
            (record_op now (p_sub p) op (Some (phase_hash k to))
              (JObj [(''ticket_id'', jnat k), (''phase'', JStr to)])
              (emit_event now ((cevent_row k ''phase_transition'')\<lparr>ce_from :=
                  Some (case t_phase t of Some q \<Rightarrow> q | None \<Rightarrow> PTriage),
                ce_to := Some ph, ce_actor := Some (p_sub p)\<rparr>) (set_phase now k ph b1)))))) = Inr (r, b')"
    unfolding need_ok Let_def throw_if_ok by blast
  show ?case
  proof (cases "ph = PPlanning")
    case True
    with ph open_huddle_moves [of R b cfg now t p op] show ?thesis by simp
  next
    case False
    obtain b1 where b1: "(if ph = PBacklog then guard_backlog now k b else Inr b) = Inr b1"
        "get_ticket b' = get_ticket (set_phase now k ph b1)" "get_approval b' = get_approval (set_phase now k ph b1)"
      using ph False by (auto simp del: split_paired_Ex)
    then have "get_ticket b1 = get_ticket b \<and> get_approval b1 = get_approval b"
      using backlog_core by (cases "ph = PBacklog") auto
    then have "only_moves {} b b1" by (simp add: only_moves_frame)
    from only_moves_cong [OF b1(2,3) only_moves_after [OF this set_phase_moves]] show ?thesis .
  qed
qed

lemma role_core: "claim_role k role sub b = Inr c \<Longrightarrow> get_ticket c = get_ticket b \<and> get_approval c = get_approval b"
  by (auto simp: claim_role_def Let_def split: if_splits)

lemma admit_core: "statement_admit cfg k kind sub h b = Inr c \<Longrightarrow> get_ticket c = get_ticket b \<and> get_approval c = get_approval b"
  by (auto simp: statement_admit_def split: if_splits dest!: role_core)

lemma effect_core: "statement_effect k kind sub note b = Inr c \<Longrightarrow> get_ticket c = get_ticket b \<and> get_approval c = get_approval b"
  by (auto simp: statement_effect_def split: if_splits)

lemma round_core:
  "get_ticket (snd (advance_round k h b)) = get_ticket b" "get_approval (snd (advance_round k h b)) = get_approval b"
  by (simp_all add: advance_round_def Let_def)

lemma statement_moves:
  assumes "statement cfg now p k kind note rv op s b = Inr (r, b')"
  shows "only_moves R b b'"
proof (rule once_moves [OF assms [unfolded statement_def Let_def]], goal_cases)
  case 1
  then obtain h b1 b2 where st: "statement_admit cfg k kind (p_sub p) h b = Inr b1"
      "statement_effect k kind (p_sub p) note b1 = Inr b2" "get_ticket b' = get_ticket b2" "get_approval b' = get_approval b2"
    by (auto simp: Let_def case_prod_beta round_core)
  show ?case
    by (rule only_moves_frame) (use st admit_core [OF st(1)] effect_core [OF st(2)] in simp_all)
qed

lemma create_wf:
  assumes "wf_board b" and "create cfg now p a op s b = Inr (r, b')"
    and "cr_born a = Todo \<or> cr_born a = NeedsReview \<and> \<not> cr_quar a"
  shows "wf_board b'"
proof -
  have w: "wf_board (insert_ticket (created_row cfg now p a b) b)"
    using create_sim_birth(1) [of b "created_row cfg now p a b"] assms(1,3) by auto
  from assms(2) show ?thesis
    unfolding create_def once_ok by (auto simp: Let_def w assms(1))
qed

lemma children_moves:
  "decompose_children cfg now p parent s cs b = Inr (rs, b') \<Longrightarrow> wf_board b \<Longrightarrow> only_moves R b b'"
proof (induction cs arbitrary: b rs)
  case Nil
  then show ?case by simp
next
  case (Cons c cs)
  from Cons.prems(1) obtain r b1 rs' where st: "create cfg now p (child_args parent c) None s b = Inr (r, b1)"
      "decompose_children cfg now p parent s cs (case rendered_id r of None \<Rightarrow> b1
         | Some k \<Rightarrow> upd_tickets (\<lambda>x. t_id x = k) (\<lambda>x. x\<lparr>t_lane := t_lane parent\<rparr>) b1) = Inr (rs', b')"
    by auto
  let ?b2 = "case rendered_id r of None \<Rightarrow> b1
         | Some k \<Rightarrow> upd_tickets (\<lambda>x. t_id x = k) (\<lambda>x. x\<lparr>t_lane := t_lane parent\<rparr>) b1"
  have w1: "wf_board b1"
    by (rule create_wf [OF Cons.prems(2) st(1)]) (simp add: child_args_def create_defaults_def)
  then have w2: "wf_board ?b2" by (simp split: option.split)
  have m: "only_moves {} b b1" by (rule create_moves [OF Cons.prems(2) st(1)])
  have "only_moves {} b1 ?b2" by (auto simp: only_moves_def split: option.split)
  from only_moves_after [OF only_moves_trans [OF m this] Cons.IH [OF st(2) w2]] show ?case .
qed

lemma decompose_moves: "decompose cfg now p k cs op s b = Inr (r, b') \<Longrightarrow> wf_board b \<Longrightarrow> only_moves R b b'"
  unfolding decompose_def
  by (auto simp: Let_def dest!: children_moves intro: only_moves_cong)

lemma breakglass_moves: "breakglass_review_ticket cfg now p ti bd op s b = Inr (r, b') \<Longrightarrow> wf_board b \<Longrightarrow> only_moves R b b'"
  unfolding breakglass_review_ticket_def
  by (auto simp: Let_def dest!: create_moves intro: only_moves_cong split: prod.splits)

lemma committed_moves:
  "(\<And>j c. x = Inr (j, c) \<Longrightarrow> only_moves R b c) \<Longrightarrow> only_moves R b (snd (committed b x))"
  by (auto simp: committed_def split: sum.splits)

lemma triage_run_moves: "run_triage w now p k op s b = Inr (r, b') \<Longrightarrow> only_moves R b b'"
  by (auto simp: run_triage_def dest: triage_moves)

lemma rendered_ok: "rendered x = Inr (r, b') \<longleftrightarrow> (\<exists>j. x = Inr (j, b') \<and> r = render_claim j)"
  by (auto simp: rendered_def)

lemmas agent_op_moves = claim_moves heartbeat_moves release_moves create_moves update_moves note_moves dep_moves
  triage_run_moves phase_moves statement_moves decompose_moves breakglass_moves

text \<open>Whatever is called through MCP moves tickets along agent moves only.\<close>

lemma mcp_run_moves: "wf_board b \<Longrightarrow> only_moves agent_moves b (snd (mcp_run cfg w now p c b))"
  by (cases c) (auto intro!: committed_moves board_transition_moves simp: rendered_ok dest: agent_op_moves)

lemma mcp_call_moves: "wf_board b \<Longrightarrow> only_moves agent_moves b (snd (mcp_call cfg w now p c b))"
  using mcp_run_moves [of b cfg w now p c] by (auto simp: mcp_call_def split: prod.splits)

text \<open>The routes an agent can be authorised for.\<close>

lemma http_run_agent:
  assumes "wf_board b" and "http_scope c \<notin> {SApprove, SExecute, SAdmin}"
  shows "only_moves agent_moves b (snd (http_run cfg w now p c b))"
  using assms
  by (cases c) (auto intro!: committed_moves board_transition_moves dest: agent_op_moves)

lemma require_scope_ok:
  "require_scope cfg jwt sc h = Inr p \<longleftrightarrow> authenticate cfg jwt h = Inr p \<and> scope_str sc \<in> set (p_scopes p) \<and>
     (case holder_allowed_kinds sc of None \<Rightarrow> True | Some ks \<Rightarrow> p_kind p \<in> set ks)"
  by (auto simp: require_scope_def split: option.splits)

lemma agent_scopes:
  "require_scope cfg jwt sc h = Inr p \<Longrightarrow> p_kind p = Agent \<Longrightarrow> sc \<notin> {SApprove, SExecute, SAdmin}"
  by (cases sc) (auto simp: require_scope_ok)

lemma http_handle_cases:
  assumes "http_handle cfg w jwt now reply h c (m, b) = (a, m', b')"
  obtains (refused) "b' = b" | (ran) p where "require_scope cfg jwt (http_scope c) h = Inr p" "b' = snd (http_run cfg w now p c b)"
  using assms by (auto simp: http_handle_def split: sum.splits option.splits prod.splits)

section \<open>Moves of the other scopes\<close>

definition moves :: "(status \<times> status) set \<Rightarrow> board \<Rightarrow> board \<Rightarrow> bool" where
  "moves R b c \<longleftrightarrow> (\<forall>k t. get_ticket b k = Some t \<longrightarrow>
     (\<exists>u. get_ticket c k = Some u \<and> (t_status u = t_status t \<or> (t_status t, t_status u) \<in> R)))"

lemma only_moves_moves: "only_moves R b c \<Longrightarrow> R \<subseteq> S \<Longrightarrow> moves S b c"
  unfolding only_moves_def moves_def by blast

lemma moves_frame: "get_ticket c = get_ticket b \<Longrightarrow> moves R b c"
  by (simp add: moves_def)

definition approve_moves :: "(status \<times> status) set" where
  "approve_moves = {(AwaitingApproval, Approved), (Approved, Cancelled)} \<union> {(x, y). y \<in> set (operator_targets x)}"

definition execute_moves :: "(status \<times> status) set" where
  "execute_moves = {(Approved, Executing), (Executing, Verifying), (Executing, NeedsReview), (Executing, Failed),
     (Verifying, Done), (Verifying, Failed)}"

fun scope_moves :: "scope \<Rightarrow> (status \<times> status) set" where
  "scope_moves SApprove = approve_moves"
| "scope_moves SExecute = execute_moves"
| "scope_moves SAdmin = UNIV \<times> {Todo}"
| "scope_moves SRead = {}"
| "scope_moves _ = agent_moves"

lemma operator_moves:
  assumes "operator_transition now p k to op re ex s b = Inr (r, b')"
  shows "moves approve_moves b b'"
proof -
  from assms obtain t u where t: "get_ticket b k = Some t" "operator_may_transition (t_status t) to"
      "state_of to = Some u" by (auto simp: operator_transition_def)
  then have u: "u \<in> set (operator_targets (t_status t))"
    by (auto simp: operator_may_transition_def)
  from assms t have "get_ticket b' = (get_ticket b)(k \<mapsto> ticket_operator_moved u now t)"
    by (auto simp: operator_transition_def Let_def split: if_splits)
  with t u show ?thesis by (simp add: moves_def approve_moves_def)
qed

lemma revoke_moves:
  assumes "revoke now p k op s b = Inr (r, b')"
  shows "moves approve_moves b b'"
  using assms by (auto simp: revoke_def Let_def moves_def approve_moves_def)

lemma grant_moves: "moves approve_moves b (snd (run_grant cfg w now p k op b))"
proof -
  have c: "moves approve_moves b b'" if "grant_commit w now p k Operator op s g b = Inr (r, b')" for g s r b'
  proof -
    from that consider "b' = b" | row allows where "grant_rows w now p k Operator op g b = Inr (row, allows)"
        "get_ticket b' = (get_ticket b)(k := map_option (ticket_approved (a_id row) now) (get_ticket b k))"
      by (auto simp: grant_commit_def once_ok Let_def ticket_approved_def)
    then show ?thesis
    proof cases
      case 2
      from grant_rows_ok [OF 2(1)] obtain t where "get_ticket b k = Some t" "t_status t = AwaitingApproval" by metis
      with 2(2) show ?thesis by (simp add: moves_def approve_moves_def ticket_approved_def)
    qed (simp add: moves_def)
  qed
  show ?thesis
    by (auto simp: run_grant_def grant_finish_def Let_def moves_frame dest: c split: sum.splits)
qed

lemma consume_moves:
  assumes "consume cfg now p rf tk host op s b = Inr (r, b')"
  shows "moves execute_moves b b'"
  using assms
proof (cases rule: consume_ok)
  case (replay aid)
  then show ?thesis by (simp add: moves_def)
next
  case (spent aid a g b1 t c)
  from spent(10) have "get_ticket b' = get_ticket c" by (simp add: core_of_def)
  with spent acquire_core(2) [OF spent(5)] show ?thesis
    by (auto simp: moves_def execute_moves_def ticket_executing_def)
qed

lemma outcome_moves:
  assumes "run_outcome now p k to run op s b = Inr (r, b')"
  shows "moves execute_moves b b'"
proof -
  obtain u where u: "List.find (\<lambda>x. status_str x = to) outcome_targets = Some u"
    using assms by (auto simp: run_outcome_def)
  then have u': "u \<in> {Verifying, NeedsReview, Failed}"
    by (auto simp: outcome_targets_def split: if_splits)
  have core: "get_ticket (if q then upd_approvals f g c else c) = get_ticket c" for q f g c
    by simp
  show ?thesis
  proof (cases "check_op (p_sub p) op (Some (outcome_hash k to)) b")
    case (Inr x)
    show ?thesis
    proof (cases x)
      case None
      with assms u Inr obtain t where t: "get_ticket b k = Some t" "t_status t = Executing"
        by (auto simp: run_outcome_def once_def simp del: status_str.simps)
      with assms u Inr None have "get_ticket b' = (get_ticket b)(k \<mapsto> ticket_outcome u now t)"
        by (auto simp: run_outcome_def once_def Let_def core simp del: status_str.simps)
      with t u' show ?thesis by (auto simp: moves_def execute_moves_def)
    next
      case (Some a)
      with assms u Inr have "b' = b" by (auto simp: run_outcome_def once_def)
      then show ?thesis by (simp add: moves_frame)
    qed
  qed (use assms u in \<open>auto simp: run_outcome_def once_def\<close>)
qed

lemma verification_moves:
  assumes "submit_verification now p k res ev op s b = Inr (r, b')"
  shows "moves execute_moves b b'"
  using assms
  by (auto simp: submit_verification_def once_ok Let_def moves_def execute_moves_def split: if_splits)

lemma admin_moves:
  "put_wip now p sc su cap body b = Inr (r, b') \<Longrightarrow> moves R b b'"
  "put_lineage now p d body b = Inr (r, b') \<Longrightarrow> moves R b b'"
  by (auto simp: put_wip_def set_wip_cap_def wip_upsert_def put_lineage_def set_lineage_depth_def moves_def)

lemma unquarantine_moves: "clear_quarantine now p k host op s b = Inr (r, b') \<Longrightarrow> moves R b b'"
  by (auto simp: clear_quarantine_def Let_def moves_def ticket_unquarantined_def)

lemma clear_moves: "moves (UNIV \<times> {Todo}) b (snd (clear_outage_hold now k b))"
  by (auto simp: clear_outage_hold_def Let_def moves_def ticket_unheld_def split: option.splits)

lemma committed_mv: "(\<And>j c. x = Inr (j, c) \<Longrightarrow> moves R b c) \<Longrightarrow> moves R b (snd (committed b x))"
  by (auto simp: committed_def moves_def split: sum.splits)

lemma http_run_moves:
  assumes "wf_board b"
  shows "moves (scope_moves (http_scope c)) b (snd (http_run cfg w now p c b))"
proof (cases "http_scope c \<in> {SApprove, SExecute, SAdmin, SRead}")
  case False
  then have "scope_moves (http_scope c) = agent_moves" by (cases "http_scope c") auto
  with False http_run_agent [OF assms, of c cfg w now p] show ?thesis
    by (auto intro: only_moves_moves)
next
  case True
  then show ?thesis
    by (cases c)
      (auto intro!: committed_mv grant_moves simp: moves_frame clear_moves case_prod_beta
        dest: operator_moves revoke_moves consume_moves outcome_moves verification_moves admin_moves unquarantine_moves)
qed

section \<open>Every route runs steps of the system\<close>

lemma committed_run:
  "(\<And>j c. x = Inr (j, c) \<Longrightarrow> bstep cfg b c) \<Longrightarrow> (board_step cfg)\<^sup>*\<^sup>* b (snd (committed b x))"
  by (auto simp: committed_def split: sum.splits intro: lawful_step)

lemma grant_run: "(board_step cfg)\<^sup>*\<^sup>* b (snd (run_grant cf w now p k op b))"
  using lawful_step [OF b_grant] by (auto simp: run_grant_def split: sum.splits)

lemma triage_run: "run_triage w now p k op s b = Inr (r, b') \<Longrightarrow> bstep cfg b b'"
  by (auto simp: run_triage_def intro: b_triage)

lemma transition_run: "(board_step cfg)\<^sup>*\<^sup>* b (snd (board_agent_transition w now p k to tok re op s b))"
  using lawful_step [OF b_agent] by auto

lemma clear_run: "(board_step cfg)\<^sup>*\<^sup>* b (snd (clear_outage_hold now k b))"
  using clear_step by auto

lemma http_run_steps: "(board_step cfg)\<^sup>*\<^sup>* b (snd (http_run cfg w now p c b))"
  by (cases c)
    (auto intro!: committed_run grant_run transition_run clear_run simp: case_prod_beta body_args_def
      intro: bstep.intros triage_run)

lemma mcp_run_steps: "(board_step cfg)\<^sup>*\<^sup>* b (snd (mcp_run cfg w now p c b))"
  by (cases c)
    (auto intro!: committed_run transition_run simp: body_args_def rendered_ok intro: bstep.intros triage_run)

end
