(* ===== verification/BoardAccess.thy ===== *)
theory BoardAccess
  imports BoardAuthority BoardDemo
begin

text \<open>
  Who may do what through the HTTP surface and the MCP endpoint, with a token validator and
  requests on the concrete run for the witnesses.
\<close>

section \<open>Concrete requests\<close>

definition bearer_of :: "string \<Rightarrow> headers" where
  "bearer_of tok = \<lparr>h_dev_sub = None, h_dev_scopes = None, h_dev_kind = None, h_authorization = Some (''Bearer '' @ tok)\<rparr>"

text \<open>A validator that knows three tokens: an agent's, the Gateway's and an operator's.\<close>

definition demo_payload :: "string \<Rightarrow> string \<Rightarrow> string \<Rightarrow> json" where
  "demo_payload sub kind scopes = JObj [(''aud'', JStr ''board''), (''sub'', JStr sub), (''kind'', JStr kind),
     (''scope'', JStr scopes)]"

definition demo_jwt :: "string \<Rightarrow> json option" where
  "demo_jwt tok = (if tok = ''agent'' then Some (demo_payload ''a1'' ''agent'' ''board:claim board:update board:execute'')
     else if tok = ''gateway'' then Some (demo_payload ''svc:gateway'' ''service'' ''board:read board:execute'')
     else if tok = ''operator'' then Some (demo_payload ''op:bob'' ''human'' ''board:approve board:admin'') else None)"

definition consume_request :: http_call where "consume_request = PostConsume ''A-1'' None None None"
definition claim_request :: http_call where "claim_request = PostClaim (Some ''T-000001'') None None None"

definition serve :: "string \<Rightarrow> int \<Rightarrow> http_call \<Rightarrow> board \<Rightarrow> answer \<times> (string \<rightharpoonup> nat) \<times> board" where
  "serve tok now c b = http_handle demo_cfg demo_world demo_jwt now (Replied 200) (bearer_of tok) c (\<lambda>_. None, b)"

definition status_at :: "board \<Rightarrow> nat \<Rightarrow> status option" where
  "status_at b k = map_option t_status (get_ticket b k)"

lemma served:
  "map_option t_status (get_ticket (snd (snd (serve ''gateway'' 50 consume_request demo4))) 1) = Some Executing"
  "map_option t_status (get_ticket (snd (snd (serve ''agent'' 50 consume_request demo4))) 1) = Some Approved"
  "map_option t_status (get_ticket (snd (snd (serve ''agent'' 20 claim_request demo1))) 1) = Some InProgress"
  "map_option t_status (get_ticket demo4 1) = Some Approved" "map_option t_status (get_ticket demo1 1) = Some Todo"
  by code_simp+

text \<open>The HTTP surface and the MCP endpoint add nothing to the system: whatever a request asks for,
  the store it leaves is reached from the store it found by steps of the board.\<close>

theorem surface_refines:
  "(board_step cfg)\<^sup>*\<^sup>* b (snd (snd (http_handle cfg w jwt now reply h c (m, b)))) \<and>
   (board_step cfg)\<^sup>*\<^sup>* b (snd (mcp_handle cfg w jwt now h tc b))"
proof
  show "(board_step cfg)\<^sup>*\<^sup>* b (snd (snd (http_handle cfg w jwt now reply h c (m, b))))"
    using http_run_steps [of cfg b w now _ c]
    by (auto simp: http_handle_def case_prod_beta split: sum.splits option.splits)
  show "(board_step cfg)\<^sup>*\<^sup>* b (snd (mcp_handle cfg w jwt now h tc b))"
    using mcp_run_steps [of cfg b w now _ tc]
    by (auto simp: mcp_handle_def mcp_call_def case_prod_beta split: sum.splits)
qed

text \<open>C16. Who may move a ticket over HTTP: in every reachable store, a request that changes the status of a
  ticket carries a principal with the scope of its route, and moves the status along the moves of that
  scope; an agent moves tickets along the agent moves only, and only a service holding board:execute
  makes a ticket executing or verifying.\<close>

theorem http_authority:
  assumes "board_reach cfg b" and "http_handle cfg w jwt now reply h c (m, b) = (a, m', b')"
    and "get_ticket b k = Some t" and "get_ticket b' k = Some u" and "t_status u \<noteq> t_status t"
  shows "\<exists>p. authenticate cfg jwt h = Inr p \<and> scope_str (http_scope c) \<in> set (p_scopes p) \<and>
    (t_status t, t_status u) \<in> scope_moves (http_scope c) \<and>
    (p_kind p = Agent \<longrightarrow> (t_status t, t_status u) \<in> agent_moves) \<and>
    (t_status u \<in> {Executing, Verifying} \<longrightarrow> p_kind p = Service \<and> http_scope c = SExecute)"
proof -
  have wf: "wf_board b" using board.reach_inv [OF assms(1)] by (simp add: board_ok_def)
  from assms(2) show ?thesis
  proof (cases rule: http_handle_cases)
    case refused
    with assms(3-5) show ?thesis by simp
  next
    case (ran p)
    from http_run_moves [OF wf, of c cfg w now p] ran(2) assms(3-5)
    have mv: "(t_status t, t_status u) \<in> scope_moves (http_scope c)"
      unfolding moves_def by (metis option.inject)
    have "http_scope c = SExecute" if "t_status u \<in> {Executing, Verifying}"
      using mv that by (cases "http_scope c"; cases "t_status t")
        (auto simp: approve_moves_def agent_moves_def)
    moreover have "(t_status t, t_status u) \<in> agent_moves" if "p_kind p = Agent"
      using mv agent_scopes [OF ran(1) that] by (cases "http_scope c") auto
    ultimately show ?thesis
      using mv ran(1) by (auto simp: require_scope_ok)
  qed
qed

theorem http_authority_witness:
  "\<exists>p t. authenticate demo_cfg demo_jwt (bearer_of ''gateway'') = Inr p \<and> p_kind p = Service \<and>
     get_ticket demo4 1 = Some t \<and> t_status t = Approved"
proof -
  obtain a m b where hd: "serve ''gateway'' 50 consume_request demo4 = (a, m, b)" by (cases "serve ''gateway'' 50 consume_request demo4") auto
  with served(1,4) obtain t u where tu: "get_ticket demo4 1 = Some t" "t_status t = Approved"
      "get_ticket b 1 = Some u" "t_status u = Executing" by auto
  from http_authority [OF demo_reach(5) hd [unfolded serve_def] tu(1,3)] tu show ?thesis by auto
qed

text \<open>Through MCP nobody, whatever the scopes and kind of the token, moves a ticket otherwise than along
  the agent moves, and no approval row is touched: the tools cannot grant, consume, close or execute.\<close>

theorem mcp_authority:
  assumes "board_reach cfg b"
  shows "only_moves agent_moves b (snd (mcp_handle cfg w jwt now h tc b))"
  using mcp_call_moves [of b cfg w now _ tc] board.reach_inv [OF assms]
  by (auto simp: mcp_handle_def board_ok_def case_prod_beta split: sum.splits)

theorem mcp_authority_witness:
  "only_moves agent_moves demo4 (snd (mcp_handle demo_cfg demo_world demo_jwt 50 (bearer_of ''agent'') (TClaim ''T-000001'' ''op'') demo4))"
  by (rule mcp_authority [OF demo_reach(5)])

text \<open>A targeted HTTP claim with a malformed ticket reference is not refused: \<open>parseNum\<close> gives null and
  the route claims whichever ticket is next, where the MCP tool answers \<open>NOT_FOUND\<close>.\<close>

theorem malformed_claim_takes_next:
  "http_run cfg w now p (PostClaim (Some r) team ty op) b =
     (if parse_num r = None then committed b (claim cfg now p None team ty op ''http'' b)
      else committed b (claim cfg now p (claim_target (Some r)) team ty op ''http'' b)) \<and>
   status_at (snd (snd (serve ''agent'' 20 (PostClaim (Some ''ticket-7'') None None None) demo1))) 1 = Some InProgress \<and>
   status_at (snd (mcp_handle demo_cfg demo_world demo_jwt 20 (bearer_of ''agent'') (TClaim ''ticket-7'' ''op'') demo1)) 1 = Some Todo"
proof (intro conjI)
  show "http_run cfg w now p (PostClaim (Some r) team ty op) b =
     (if parse_num r = None then committed b (claim cfg now p None team ty op ''http'' b)
      else committed b (claim cfg now p (claim_target (Some r)) team ty op ''http'' b))"
    by (simp add: claim_target_def)
qed code_simp+

text \<open>The sod-critical routes fail closed: when the budget service cannot be reached and the process is
  not in its unauthenticated mode, a claim, an approval, a revocation, a consume, a policy write or a
  quarantine clear is refused and leaves the store as it was.\<close>

theorem sod_critical_fails_closed:
  assumes "http_class c = Some SodCritical" and "\<not> c_dev_noauth cfg"
  shows "\<exists>r m'. http_handle cfg w jwt now Unreachable h c (m, b) = (Refused r, m', b)"
  using assms
  by (auto simp: http_handle_def budget_admit_def Let_def split: sum.splits option.splits)

theorem sod_critical_fails_closed_witness:
  "\<exists>r m'. http_handle demo_cfg demo_world demo_jwt 50 Unreachable (bearer_of ''gateway'') consume_request (\<lambda>_. None, demo4)
     = (Refused r, m', demo4)"
  by (rule sod_critical_fails_closed) (simp_all add: consume_request_def demo_cfg_def)

end
