(* ===== verification/BoardBudget.thy ===== *)
theory BoardBudget
  imports BoardSurface
begin

text \<open>
  The budget middleware over time: requests are admitted or refused, finish, or are cut off before
  their response is out, in which case the \<open>finish\<close> listener never runs. The state is the
  middleware's map, the requests of each principal that are being served, and those that were cut off.
\<close>

type_synonym gate = "(string \<rightharpoonup> nat) \<times> (string \<Rightarrow> nat) \<times> (string \<Rightarrow> nat)"

definition gate_start :: "gate \<Rightarrow> bool" where
  "gate_start g \<longleftrightarrow> g = (\<lambda>_. None, \<lambda>_. 0, \<lambda>_. 0)"

inductive gate_step :: "config \<Rightarrow> gate \<Rightarrow> gate \<Rightarrow> bool" for cfg :: config where
  g_arrive: "budget_admit cfg cls sub reply m = (r, m') \<Longrightarrow>
     gate_step cfg (m, opn, lost)
       (m', (if inflight_of m sub < c_ceiling cfg then opn(sub := opn sub + 1) else opn), lost)"
| g_finish: "0 < opn sub \<Longrightarrow> gate_step cfg (m, opn, lost) (budget_finish sub m, opn(sub := opn sub - 1), lost)"
| g_abort: "0 < opn sub \<Longrightarrow> gate_step cfg (m, opn, lost) (m, opn(sub := opn sub - 1), lost(sub := lost sub + 1))"

definition gate_inv :: "config \<Rightarrow> gate \<Rightarrow> bool" where
  "gate_inv cfg = (\<lambda>(m, opn, lost). \<forall>sub. inflight_of m sub = opn sub + lost sub \<and> inflight_of m sub \<le> c_ceiling cfg)"

lemma inflight_upd [simp]:
  "inflight_of (m(sub \<mapsto> n)) s = (if s = sub then n else inflight_of m s)"
  "inflight_of (m(sub := None)) s = (if s = sub then 0 else inflight_of m s)"
  by (simp_all add: inflight_of_def)

lemma inflight_admit:
  "inflight_of (snd (budget_admit cfg cls sub reply m)) s =
     (if s = sub \<and> inflight_of m sub < c_ceiling cfg then inflight_of m s + 1 else inflight_of m s)"
  by (simp add: budget_admit_def Let_def split: budget_reply.split)

lemma inflight_finish:
  "inflight_of (budget_finish sub m) s = (if s = sub then inflight_of m s - 1 else inflight_of m s)"
  by (simp add: budget_finish_def Let_def)

lemma gate_invI:
  "(\<And>s. inflight_of m s = opn s + lost s) \<Longrightarrow> (\<And>s. inflight_of m s \<le> c_ceiling cfg) \<Longrightarrow> gate_inv cfg (m, opn, lost)"
  by (simp only: gate_inv_def prod.case) blast

lemma gate_invD:
  assumes "gate_inv cfg (m, opn, lost)"
  shows "opn s = inflight_of m s - lost s" and "lost s \<le> inflight_of m s" and "inflight_of m s \<le> c_ceiling cfg"
  using assms by (simp_all add: gate_inv_def) (metis add_diff_cancel_right' le_add2)+

interpretation gate: inductive_inv gate_start "gate_step cfg" "gate_inv cfg" for cfg
proof
  show "gate_inv cfg g" if "gate_start g" for g
    using that by (simp add: gate_start_def gate_inv_def inflight_of_def)
  show "gate_inv cfg g'" if "gate_inv cfg g" "gate_step cfg g g'" for g g'
    using that(2,1)
  proof (induction rule: gate_step.induct)
    case (g_arrive cls sub reply m r m' opn lost)
    note inv = gate_invD [OF g_arrive(2)]
    have "m' = snd (budget_admit cfg cls sub reply m)" using g_arrive(1) by simp
    then show ?case by (intro gate_invI) (auto simp: inflight_admit inv Suc_le_eq Suc_diff_le)
  next
    case (g_finish opn sub m lost)
    note inv = gate_invD [OF g_finish(2)]
    show ?case using g_finish(1) inv(2,3)
      by (intro gate_invI) (auto simp: inflight_finish inv(1) intro: le_trans [OF diff_le_self])
  next
    case (g_abort opn sub m lost)
    note inv = gate_invD [OF g_abort(2)]
    show ?case using g_abort(1) inv(2,3) by (intro gate_invI) (auto simp: inv(1))
  qed
qed

lemma gate_lost_mono: "(gate_step cfg)\<^sup>*\<^sup>* g g' \<Longrightarrow> snd (snd g) sub \<le> snd (snd g') sub"
proof (induction rule: rtranclp_induct)
  case (step x y)
  from step(2) have "snd (snd x) sub \<le> snd (snd y) sub" by cases simp_all
  with step(3) show ?case by simp
qed simp

section \<open>A principal cut off twice\<close>

definition gate_cfg :: config where
  "gate_cfg = \<lparr>c_lease_ttl = 1, c_wall_cap = 1, c_fleet = 1, c_gate_min = 1,
     c_gate_threshold = 1, c_gate_window = 1, c_wip_global = 1, c_wip_agent = 1, c_round_cap = 1,
     c_light_round_cap = 1, c_timebox = 1, c_min_roster = 1, c_curation = [],
     c_wazuh_secret = None, c_tier_enabled = False, c_revocations_url = None, c_dev_noauth = False,
     c_kill_staleness = 1, c_ceiling = 1\<rparr>"

lemma gate_run:
  "gate_step gate_cfg (\<lambda>_. None, \<lambda>_. 0, \<lambda>_. 0) ([''a1'' \<mapsto> 1], (\<lambda>_. 0)(''a1'' := 1), \<lambda>_. 0)"
  "gate_step gate_cfg ([''a1'' \<mapsto> 1], (\<lambda>_. 0)(''a1'' := 1), \<lambda>_. 0)
     ([''a1'' \<mapsto> 1], (\<lambda>_. 0)(''a1'' := 1, ''a1'' := 0), (\<lambda>_. 0)(''a1'' := 1))"
proof -
  have "budget_admit gate_cfg WriteBenign ''a1'' (Replied 200) (\<lambda>_. None) = (None, [''a1'' \<mapsto> 1])"
    by (simp add: budget_admit_def inflight_of_def gate_cfg_def)
  from g_arrive [OF this, of "\<lambda>_. 0" "\<lambda>_. 0"]
  show "gate_step gate_cfg (\<lambda>_. None, \<lambda>_. 0, \<lambda>_. 0) ([''a1'' \<mapsto> 1], (\<lambda>_. 0)(''a1'' := 1), \<lambda>_. 0)"
    by (simp add: inflight_of_def gate_cfg_def)
  show "gate_step gate_cfg ([''a1'' \<mapsto> 1], (\<lambda>_. 0)(''a1'' := 1), \<lambda>_. 0)
     ([''a1'' \<mapsto> 1], (\<lambda>_. 0)(''a1'' := 1, ''a1'' := 0), (\<lambda>_. 0)(''a1'' := 1))"
    using g_abort [of "(\<lambda>_. 0)(''a1'' := 1)" "''a1''" gate_cfg "[''a1'' \<mapsto> 1]" "\<lambda>_. 0"] by simp
qed

lemma gate_cut:
  "reach gate_start (gate_step gate_cfg) ([''a1'' \<mapsto> 1], (\<lambda>_. 0)(''a1'' := 1, ''a1'' := 0), (\<lambda>_. 0)(''a1'' := 1))"
proof -
  have "reach gate_start (gate_step gate_cfg) (\<lambda>_. None, \<lambda>_. 0, \<lambda>_. 0)"
    by (rule reach_start) (simp add: gate_start_def)
  from reach_step [where stp = "gate_step gate_cfg", OF this gate_run(1)] gate_run(2) show ?thesis
    by (rule reach_step)
qed

text \<open>The concurrency ceiling holds whatever the interleaving: in every reachable state of the middleware
  the requests of a principal that are being served never exceed the ceiling, and its counter is exactly
  the requests being served plus those that were cut off.\<close>

theorem ceiling_holds:
  assumes "reach gate_start (gate_step cfg) (m, opn, lost)"
  shows "opn sub \<le> c_ceiling cfg \<and> inflight_of m sub = opn sub + lost sub"
  using gate.reach_inv [OF assms] by (auto simp: gate_inv_def dest: spec [of _ sub])

theorem ceiling_holds_witness: "((\<lambda>_. 0)(''a1'' := 1, ''a1'' := 0)) ''a1'' \<le> c_ceiling gate_cfg"
  using ceiling_holds [OF gate_cut, of "''a1''"] by blast

text \<open>Requests that are cut off leak: once a principal has had as many requests cut off as the ceiling
  allows, every later request of that principal is refused with 429, for ever.\<close>

theorem cut_off_requests_lock_out:
  assumes "reach gate_start (gate_step cfg) (m, opn, lost)" and "c_ceiling cfg \<le> lost sub"
    and "(gate_step cfg)\<^sup>*\<^sup>* (m, opn, lost) (m', opn', lost')"
  shows "budget_admit cfg cls sub reply m' = (Some (Refusal 429 ''budget''), m')"
proof -
  have "gate_inv cfg (m', opn', lost')"
    by (rule gate.run_inv [OF assms(3) gate.reach_inv [OF assms(1)]])
  moreover have "lost sub \<le> lost' sub" using gate_lost_mono [OF assms(3), of sub] by simp
  ultimately have "c_ceiling cfg \<le> inflight_of m' sub"
    using assms(2) by (auto simp: gate_inv_def dest: spec [of _ sub])
  then show ?thesis by (simp add: budget_admit_def)
qed

theorem cut_off_requests_lock_out_witness:
  "budget_admit gate_cfg WriteBenign ''a1'' (Replied 200) [''a1'' \<mapsto> 1] = (Some (Refusal 429 ''budget''), [''a1'' \<mapsto> 1])"
  by (rule cut_off_requests_lock_out [OF gate_cut _ rtranclp.rtrancl_refl]) (simp add: gate_cfg_def)

end
