(* ===== verification/BoardGates.thy ===== *)
theory BoardGates
  imports BoardRuns BoardDemo
begin

text \<open>
  What the gates of the board let through: the claim, the grant, the kill switch and the replay of a
  retried operation, each with a concrete instance.
\<close>

section \<open>Claims\<close>

text \<open>C15. What a claim that hands out work has checked and done: the ticket was to do, not quarantined, not
  held, its dependencies were ready, its lineage within the cap, its parent's ceremony far enough, no G2
  kill was on, nobody held its resource; now it is in progress by the caller under a token that is one
  above the resource's generation and that the answer carries.\<close>

theorem claim_gates:
  assumes "board_reach cfg b" and "claim cfg now p tid team ty op s b = Inr (r, b')"
    and "check_op (p_sub p) op (Some (claim_hash tid team ty)) b = Inr None" and "r \<noteq> no_work"
  shows "\<exists>t u. get_ticket b (t_id t) = Some t \<and> (tid = None \<or> tid = Some (t_id t)) \<and>
    t_status t = Todo \<and> \<not> t_quar t \<and> \<not> t_held t \<and> deps_ready b (t_id t) \<and> int (t_depth t) \<le> b_max_depth b \<and>
    (t_class t = General \<or> t_parent t = None \<or> ceremony_gate b t) \<and> \<not> claims_quiesced b \<and>
    (get_lock b (resource_id_for t) = None \<or> map_option l_ticket (get_lock b (resource_id_for t)) = Some None) \<and>
    get_ticket b' (t_id t) = Some u \<and> t_status u = InProgress \<and> t_claimed_by u = Some (p_sub p) \<and>
    t_fence u = Some (current_generation b (resource_id_for t) + 1) \<and>
    jget ''ticket_id'' r = Some (jnat (t_id t)) \<and>
    jget ''fencing_token'' r = Some (JNum (current_generation b (resource_id_for t) + 1))"
proof -
  have wf: "wf_board b" using board.reach_inv [OF assms(1)] by (simp add: board_ok_def)
  from wf assms(2,3) show ?thesis
  proof (cases rule: claim_ok)
    case idle
    with assms(4) show ?thesis by simp
  next
    case (claimed t g b1)
    note gates = selected_gates(1,2) [OF claimed(2)]
    have ceremony: "t_class t = General \<or> t_parent t = None \<or> ceremony_gate b t"
      using selected_gates(3) [OF claimed(2)] by blast
    have id: "tid = None \<or> tid = Some (t_id t)"
      using claimed(2) get_ticket_id [OF select_targeted_in] by (auto simp: selected_def split: option.splits)
    have free: "get_lock b (resource_id_for t) = None \<or> map_option l_ticket (get_lock b (resource_id_for t)) = Some None"
      using lock_acquire_free [OF claimed(7)] by (simp split: option.splits)
    note g = lock_acquire_gen [OF claimed(7)]
    have u: "get_ticket b' (t_id t) = Some (walled cfg now (ticket_claimed (p_sub p) now (now + c_lease_ttl cfg) g t))"
      using claimed(8) by simp
    show ?thesis
      by (rule exI [of _ t], rule exI [of _ "walled cfg now (ticket_claimed (p_sub p) now (now + c_lease_ttl cfg) g t)"])
        (use claimed gates ceremony id free g u in simp)
  qed
qed

text \<open>WIP caps hold after every claim: where a global cap is set, a first claim leaves at most that many
  tickets in progress, and where a cap for the caller is set, the caller has at most that many.\<close>

theorem wip_caps_hold:
  assumes "board_reach cfg b" and "claim cfg now p tid team ty op s b = Inr (r, b')"
    and "check_op (p_sub p) op (Some (claim_hash tid team ty)) b = Inr None" and "r \<noteq> no_work"
  shows "(case wip_cap ''global'' None b of None \<Rightarrow> True | Some c \<Rightarrow> int (wip_count_global b') \<le> c) \<and>
    (case wip_cap ''per_agent'' (Some (p_sub p)) b of None \<Rightarrow> True
     | Some c \<Rightarrow> int (wip_count_agent (p_sub p) b') \<le> c)"
proof -
  have ok: "board_ok b" by (rule board.reach_inv [OF assms(1)])
  then have wf: "wf_board b" by (simp add: board_ok_def)
  have "board_ok b'" by (rule board_step_ok [OF ok lawful_step [OF b_claim [OF assms(2)]]])
  then have wf': "wf_board b'" by (simp add: board_ok_def)
  from wf assms(2,3) show ?thesis
  proof (cases rule: claim_ok)
    case idle
    with assms(4) show ?thesis by simp
  next
    case (claimed t g b1)
    obtain tm where "wip_block (p_sub p) tm b = None" using selected_gates(4) [OF claimed(2)] by blast
    note room = wip_block_NoneD(1,2) [OF this]
    note flip = count_flip [OF wf wf' claimed(1,8)]
    have "wip_count_global b' \<le> Suc (wip_count_global b)"
      unfolding wip_count_global_def by (rule flip) (simp add: claimed)
    moreover have "wip_count_agent (p_sub p) b' \<le> Suc (wip_count_agent (p_sub p) b)"
      unfolding wip_count_agent_def by (rule flip) (simp add: claimed)
    ultimately show ?thesis
      using room by (auto simp: cap_reached_def split: option.splits)
  qed
qed

lemma demo_claim_facts:
  "fst (projr (demo_claim demo1)) \<noteq> no_work" "wip_cap ''global'' None demo1 = Some 5"
  "get_ticket demo1 1 \<noteq> None"
  by code_simp+

theorem claim_gates_witness:
  "\<exists>u. get_ticket demo2 1 = Some u \<and> t_status u = InProgress \<and> t_claimed_by u = Some ''a1''"
proof -
  have "\<exists>t u. get_ticket demo1 (t_id t) = Some t \<and> (Some 1 = None \<or> Some 1 = Some (t_id t)) \<and>
     get_ticket demo2 (t_id t) = Some u \<and> t_status u = InProgress \<and> t_claimed_by u = Some (p_sub (agent ''a1''))"
    using claim_gates [OF demo_reach(2) demo_results(2) [unfolded demo_claim_def] check_op_None
        demo_claim_facts(1) [unfolded demo_claim_def]] by blast
  then show ?thesis by (auto simp: agent_def)
qed

theorem wip_caps_hold_witness: "int (wip_count_global demo2) \<le> 5"
  using wip_caps_hold [OF demo_reach(2) demo_results(2) [unfolded demo_claim_def] check_op_None
        demo_claim_facts(1) [unfolded demo_claim_def]] demo_claim_facts(2) by simp

lemma first_min_spec:
  "case first_min key xs of None \<Rightarrow> xs = []
   | Some x \<Rightarrow> x \<in> set xs \<and> (\<forall>y \<in> set xs. key x \<le> key y)"
  by (induction xs) (auto split: option.splits)

text \<open>\<open>claim_next\<close> selects by specification: the candidate is an eligible ticket that no other eligible
  ticket precedes in priority and age, and there is none exactly when no ticket is eligible.\<close>

theorem candidate_spec:
  "case candidate team ty b of
     None \<Rightarrow> filter (eligible team ty b) (b_tickets b) = []
   | Some t \<Rightarrow> t \<in> set (b_tickets b) \<and> eligible team ty b t \<and>
       list_all (\<lambda>u. (t_prio t, t_created t) \<le> (t_prio u, t_created u)) (filter (eligible team ty b) (b_tickets b))"
  using first_min_spec [where key = "\<lambda>t. (t_prio t, t_created t)" and xs = "filter (eligible team ty b) (b_tickets b)"]
  by (simp only: candidate_def) (auto split: option.splits simp: list_all_iff simp del: less_eq_prod_simp)

section \<open>Grants\<close>

text \<open>What a first grant has checked and stored: the ticket awaited approval, the plan pin had not moved since
  the bytes were hashed, the approver is neither the proposer nor the claimant, and a tier-policy grant
  passed the floor: a plan of benign or standard class, untainted, with an automatic verdict.\<close>

theorem grant_checks:
  assumes "grant_commit w now p tid ak op s g b = Inr (r, b')"
    and "check_op (p_sub p) op (Some (grant_hash tid)) b = Inr None"
  shows "\<exists>t a. get_ticket b tid = Some t \<and> t_status t = AwaitingApproval \<and>
    t_note t = Some (gp_note g) \<and> t_rev t = gp_rev g \<and>
    t_proposer t \<noteq> Some (p_sub p) \<and> t_claimed_by t \<noteq> Some (p_sub p) \<and>
    (ak = TierPolicy \<longrightarrow> gp_class g \<notin> {''destructive'', ''irreversible''} \<and> \<not> gp_tainted g \<and>
       Option.bind (gp_verdict g) (jget ''approval_mode'') = Some (JStr ''auto'')) \<and>
    a \<in> set (b_approvals b') \<and> a_id a = b_next_approval b \<and> a_ticket a = tid \<and> a_status a = Granted \<and>
    a_approver a = p_sub p \<and> t_proposer t = Some (a_proposer a) \<and> a_hash a = gp_hash g \<and> a_class a = gp_class g \<and>
    map_option t_status (get_ticket b' tid) = Some Approved"
proof -
  from assms obtain row allows where rows: "grant_rows w now p tid ak op g b = Inr (row, allows)"
    and b': "b_approvals b' = b_approvals b @ [row]"
      "get_ticket b' = get_ticket (upd_tickets (\<lambda>r. t_id r = tid) (ticket_approved (a_id row) now) b)"
    by (auto simp: grant_commit_def Let_def insert_approval_def record_op_def add_audit_def emit_def upd_tickets_def get_ticket_def [abs_def])
  obtain t where t: "get_ticket b tid = Some t" "t_status t = AwaitingApproval"
      "t_proposer t = Some (a_proposer row)" "t_claimed_by t \<noteq> Some (p_sub p)"
      "t_note t = Some (gp_note g)" "t_rev t = gp_rev g"
    and row: "a_id row = b_next_approval b" "a_ticket row = tid" "a_status row = Granted"
      "a_approver row = p_sub p" "a_approver row \<noteq> a_proposer row" "a_hash row = gp_hash g"
      "a_class row = gp_class g" and floor: "ak = TierPolicy \<longrightarrow> floor_reasons g = []"
    using rows unfolding grant_rows_def by auto
  have f: "ak = TierPolicy \<longrightarrow> gp_class g \<notin> {''destructive'', ''irreversible''} \<and> \<not> gp_tainted g \<and>
       Option.bind (gp_verdict g) (jget ''approval_mode'') = Some (JStr ''auto'')"
    using floor by (auto simp: floor_reasons_def non_auto_classes_def split: if_splits option.splits)
  have "map_option t_status (get_ticket b' tid) = Some Approved"
    using t(1) by (simp add: b'(2) ticket_approved_def)
  with t row f show ?thesis
    by (intro exI [of _ t] exI [of _ row]) (auto simp: b'(1))
qed

text \<open>A kill freezes the destructive path: while the level is G1 or G2 no grant is prepared and no first
  consume goes through, and at G2 nobody claims either; a refused operation leaves the store alone.\<close>

theorem kill_freezes:
  assumes "k_level (b_auth b) = ''G1'' \<or> k_level (b_auth b) = ''G2''"
    and "\<And>hash. check_op (p_sub p) op hash b = Inr None"
  shows "grant_prepare cfg w now ak tid b = Inl (err AUTO_APPROVE_FORBIDDEN) \<and>
    isl (consume cfg now p ref tk host op s b) \<and>
    (k_level (b_auth b) = ''G1'' \<or> claim cfg now p target team ty op s b = Inl (err QUIESCED))"
proof -
  have "isl (consume cfg now p ref tk host op s b)"
    using assms by (auto simp: consume_def destructive_frozen_def throw_if_def need_def split: option.splits)
  moreover have "claim cfg now p target team ty op s b = Inl (err QUIESCED)" if "k_level (b_auth b) = ''G2''"
    using that assms(2) by (simp add: claim_def throw_if_def claims_quiesced_def Let_def)
  ultimately show ?thesis
    using assms(1) by (auto simp: grant_prepare_def destructive_frozen_def throw_if_def)
qed

definition demo_killed :: board where
  "demo_killed = snd (apply_kill 45 (Some 4) (Some ''G2'') demo4)"

lemma demo_killed_level: "k_level (b_auth demo_killed) = ''G2''"
  by code_simp

theorem kill_freezes_witness:
  "isl (consume demo_cfg 50 gateway ''A-1'' None None None ''http'' demo_killed) \<and>
   claim demo_cfg 50 (agent ''a1'') None None None None ''mcp'' demo_killed = Inl (err QUIESCED)"
  using kill_freezes [OF disjI2 [OF demo_killed_level] check_op_None, of demo_cfg]
  by (simp add: demo_killed_level)

text \<open>The freeze has a gap: \<open>grant\<close> reads the level before it fetches from Notes and CMDB and not again in its
  transaction, so a grant that was being prepared when the kill arrived still commits.\<close>

theorem inflight_grant_ignores_kill:
  assumes "grant_commit w now p tid ak op s g b = Inr (r, b')"
  shows "grant_commit w now p tid ak op s g (snd (apply_kill now (Some (k_epoch (b_auth b))) (Some ''G2'') b)) =
    Inr (r, snd (apply_kill now (Some (k_epoch (b_auth b))) (Some ''G2'') b'))"
proof -
  define x where "x = b_auth (snd (apply_kill now (Some (k_epoch (b_auth b))) (Some ''G2'') b))"
  have kill: "snd (apply_kill now (Some (k_epoch (b_auth b))) (Some ''G2'') c) = c\<lparr>b_auth := x\<rparr>"
    if "b_auth c = b_auth b" for c
    using that by (simp add: x_def apply_kill_def Let_def)
  have "b_auth b' = b_auth b"
    using assms unfolding grant_commit_def once_ok
    by (auto simp: Let_def insert_approval_def upd_tickets_def add_audit_def record_op_def emit_def)
  moreover have "grant_rows w now p tid ak op g (b\<lparr>b_auth := x\<rparr>) = grant_rows w now p tid ak op g b"
    by (simp add: grant_rows_def get_ticket_def)
  with assms have "grant_commit w now p tid ak op s g (b\<lparr>b_auth := x\<rparr>) = Inr (r, b'\<lparr>b_auth := x\<rparr>)"
    unfolding grant_commit_def once_ok
    by (auto simp: Let_def insert_approval_def upd_tickets_def add_audit_def record_op_def emit_def allowlist_def
        check_op_def find_op_def split: option.splits)
  ultimately show ?thesis by (simp add: kill)
qed

text \<open>The revocations poll takes any JSON object for an answer: one without level and flag, an error document
  for instance, lifts a kill; and an answer older than the mirror, though not applied, still counts as a sync,
  so the staleness guard of consume never trips.\<close>

theorem kill_poll_trusts_any_answer:
  assumes "truthy_str (c_revocations_url cfg)" and "\<not> c_dev_noauth cfg" and "e < k_epoch (b_auth b)" and "0 \<le> c_kill_staleness cfg"
  shows "k_level (b_auth (kill_poll cfg now (Some (JObj [(''error'', JStr m)])) b)) = ''G0'' \<and>
    b_auth (kill_poll cfg now (Some (JObj [(''epoch'', JNum e), (''level'', JStr l)])) b) =
      (b_auth b)\<lparr>k_updated := Some now\<rparr> \<and>
    \<not> kill_mirror_stale cfg now (kill_poll cfg now (Some (JObj [(''epoch'', JNum e), (''level'', JStr l)])) b)"
  using assms by (auto simp: kill_poll_def apply_kill_def mark_kill_synced_def kill_mirror_stale_def Let_def)

theorem grant_checks_witness:
  "\<exists>a \<in> set (b_approvals demo4). a_id a = 1 \<and> a_status a = Granted \<and> a_approver a = ''bob''"
proof -
  have "b_next_approval demo3 = 1" by code_simp
  with grant_checks [OF demo_results(4) [unfolded demo_grant_def] check_op_None] show ?thesis
    by (auto simp: human_def)
qed

lemma demo_inflight: "map_option t_status
    (get_ticket (snd (apply_kill 40 (Some (k_epoch (b_auth demo3))) (Some ''G2'') demo4)) 1) = Some Approved"
  by code_simp

theorem inflight_grant_ignores_kill_witness:
  "map_option t_status (get_ticket (snd (apply_kill 40 (Some (k_epoch (b_auth demo3))) (Some ''G2'') demo4)) 1) = Some Approved \<and>
   grant_commit demo_world 40 (human ''bob'') 1 Operator None ''http'' demo_prep
     (snd (apply_kill 40 (Some (k_epoch (b_auth demo3))) (Some ''G2'') demo3)) =
   Inr (fst (projr (demo_grant demo3)), snd (apply_kill 40 (Some (k_epoch (b_auth demo3))) (Some ''G2'') demo4))"
  using inflight_grant_ignores_kill [OF demo_results(4) [unfolded demo_grant_def]]
  by (simp only: demo_grant_def demo_inflight)

theorem kill_poll_trusts_any_answer_witness:
  "k_level (b_auth (kill_poll (demo_cfg\<lparr>c_revocations_url := Some ''u''\<rparr>) 60 (Some (JObj [(''error'', JStr ''x'')])) demo_killed)) = ''G0''"
proof -
  have "k_epoch (b_auth demo_killed) = 4" by code_simp
  then show ?thesis
    using kill_poll_trusts_any_answer [of "demo_cfg\<lparr>c_revocations_url := Some ''u''\<rparr>" 3 demo_killed 60 "''x''"]
    by (simp add: demo_cfg_def truthy_str_def)
qed

section \<open>Idempotence\<close>

lemma once_replays:
  assumes "once sub (Some op) h b k = Inr (r, b')" and "op \<noteq> []"
    and "k = Inr (r, b') \<Longrightarrow> find_op sub op b = None \<Longrightarrow> find_op sub op b' =
        Some \<lparr>o_sub = sub, o_op = op, o_hash = Some h, o_response = Some r, o_created = now\<rparr>"
  shows "check_op sub (Some op) (Some h) b' = Inr (Some r)"
proof (cases "check_op sub (Some op) (Some h) b = Inr None")
  case True
  with assms(1) have "k = Inr (r, b')" by simp
  from check_op_replays [OF assms(3) [OF this check_op_first [OF assms(2) True]]] assms(2) show ?thesis by simp
next
  case False
  with assms(1) show ?thesis by (auto simp: once_def split: option.splits)
qed

lemma ops_frame [simp]:
  "b_ops (upd_tickets P f b) = b_ops b" "b_ops (upd_approvals Q g b) = b_ops b"
  "b_ops (add_audit now row b) = b_ops b" "b_ops (emit ev fs b) = b_ops b"
  "b_ops (insert_approval x al b) = b_ops b"
  by (simp_all add: upd_tickets_def upd_approvals_def add_audit_def emit_def insert_approval_def)

lemma acquire_ops: "lock_acquire rid kind hk tid sub lease b = Some (g, b') \<Longrightarrow> b_ops b' = b_ops b"
  by (auto simp: lock_acquire_def upd_locks_def split: option.splits if_splits)

lemma find_op_recorded:
  assumes "op \<noteq> []" "find_op sub op b = None" "b_ops c = b_ops b" "b_ops b' = b_ops (record_op now sub (Some op) h r c)"
  shows "find_op sub op b' = Some \<lparr>o_sub = sub, o_op = op, o_hash = h, o_response = Some r, o_created = now\<rparr>"
  using find_op_record_op [of sub op c now h r] assms by (simp add: find_op_def)

text \<open>Retrying a consume under the same operation id is safe: in the store the first call left, whatever the
  clock, the other arguments and the state of the kill switch, it gives the same answer and changes nothing.\<close>

theorem consume_replays:
  assumes "consume cfg now p ref tk host (Some op) s b = Inr (r, b')" and "op \<noteq> []"
  shows "consume cfg' now' p ref tk' host' (Some op) s' b' = Inr (r, b')"
proof -
  obtain aid where aid: "parse_approval_id ref = Some aid" using assms(1) by (auto simp: consume_def)
  have "check_op (p_sub p) (Some op) (Some (consume_hash aid)) b' = Inr (Some r)"
    using assms(1) unfolding consume_def aid need_ok
    apply -
    apply (elim exE conjE)
    apply simp
    apply (erule once_replays [OF _ assms(2), where now = now])
    apply (clarsimp simp: Let_def)
    apply (rule find_op_recorded [OF assms(2)], assumption) prefer 2 apply simp
    by (simp add: acquire_ops)
  with aid show ?thesis by (simp add: consume_def once_def)
qed

definition retry_consume :: "board \<Rightarrow> exn + (json \<times> board)" where
  "retry_consume = consume demo_cfg 50 gateway ''A-1'' None None (Some ''k1'') ''http''"

lemma retry_result: "retry_consume demo4 = Inr (fst (projr (retry_consume demo4)), outcome (retry_consume demo4))"
  by (rule outcome_ok) code_simp

theorem consume_replays_witness:
  "consume demo_cfg 70 gateway ''A-1'' (Some ''T-9'') None (Some ''k1'') ''http'' (outcome (retry_consume demo4)) =
   Inr (fst (projr (retry_consume demo4)), outcome (retry_consume demo4))"
  by (rule consume_replays [OF trans [OF fun_cong [OF retry_consume_def, symmetric] retry_result]]) simp

end
