(* ===== verification/BoardLife.thy ===== *)
theory BoardLife
  imports BoardRuns BoardDemo
begin

text \<open>
  The life of the store: identifiers and hashes, the dependency graph, the reaper, the restore, and the
  refinement of the abstract lifecycle, each with a concrete instance.
\<close>

section \<open>Identifiers\<close>

text \<open>References round trip: the reference of a ticket or an approval parses back to its number, so does the
  bare number, and neither kind of reference is taken for the other.\<close>

theorem refs_roundtrip:
  "parse_ticket_id (ticket_ref n) = Some n \<and> parse_approval_id (approval_ref n) = Some n \<and>
   parse_ticket_id (nat_str n) = Some n \<and> parse_approval_id (nat_str n) = Some n \<and>
   parse_ticket_id (approval_ref n) = None \<and> parse_approval_id (ticket_ref n) = None"
proof -
  have foreign: "parse_ref [c, CHR ''-''] (d # CHR ''-'' # pad_start pad (CHR ''0'') (nat_str n)) = None"
    if "c \<noteq> d" "\<not> is_digit d" "\<not> is_ws d" for c d
  proof -
    have "trim ([d, CHR ''-''] @ pad_start pad (CHR ''0'') (nat_str n)) = [d, CHR ''-''] @ pad_start pad (CHR ''0'') (nat_str n)"
      by (rule trim_digits_suffix) (simp_all add: pad_start_nonempty pad_start_digits that)
    with that show ?thesis by (simp add: parse_ref_def Let_def starts_with_def all_digits_def)
  qed
  have "parse_ref ''T-'' (approval_ref n) = None" "parse_ref ''A-'' (ticket_ref n) = None"
    unfolding approval_ref_def ticket_ref_def by (simp_all add: foreign is_digit_def is_ws_def)
  moreover have "parse_ref ''T-'' (ticket_ref n) = Some n" "parse_ref ''A-'' (approval_ref n) = Some n"
    unfolding approval_ref_def ticket_ref_def by (rule parse_ref_of_ref; simp add: is_ws_def)+
  moreover have "parse_ref ''T-'' (nat_str n) = Some n" "parse_ref ''A-'' (nat_str n) = Some n"
    by (simp_all add: parse_ref_bare is_digit_def)
  ultimately show ?thesis by (simp add: parse_ticket_id_def parse_approval_id_def)
qed

text \<open>Two JSON values that differ only in the order of object keys, at any depth.\<close>

inductive shuffled :: "json \<Rightarrow> json \<Rightarrow> bool" where
  shuffled_same: "shuffled v v"
| shuffled_arr: "list_all2 shuffled xs ys \<Longrightarrow> shuffled (JArr xs) (JArr ys)"
| shuffled_obj: "list_all2 (\<lambda>x y. fst y = fst x \<and> shuffled (snd x) (snd y)) kvs kvs' \<Longrightarrow> mset kvs' = mset kvs'' \<Longrightarrow>
    distinct (map fst kvs) \<Longrightarrow> shuffled (JObj kvs) (JObj kvs'')"

lemma shuffled_canonical: "shuffled v v' \<Longrightarrow> canonical_json v = canonical_json v'"
proof (induction rule: shuffled.induct)
  case (shuffled_arr xs ys)
  then have "map canonical_json xs = map canonical_json ys"
    by (induction rule: list_all2_induct) auto
  then show ?case by simp
next
  case (shuffled_obj kvs kvs' kvs'')
  let ?f = "\<lambda>(k, v). (k, canonical_json v)"
  have eq: "map ?f kvs = map ?f kvs'" using shuffled_obj(1)
    by (induction rule: list_all2_induct) auto
  have "mset (map ?f kvs') = mset (map ?f kvs'')" using shuffled_obj(2) by simp
  moreover have "distinct (map fst (map ?f kvs'))"
    using shuffled_obj(3) unfolding eq [symmetric] by (simp add: comp_def case_prod_beta)
  ultimately have "sort_key fst (map ?f kvs') = sort_key fst (map ?f kvs'')" by (rule sort_key_fst_mset)
  with eq show ?case by simp
qed simp

text \<open>An approved parameter set cannot be replayed under another spelling: the hash of the parameters of an
  invocation does not depend on the order of object keys at any depth.\<close>

theorem params_hash_unordered: "shuffled v v' \<Longrightarrow> params_hash sha v = params_hash sha v'"
  by (simp add: params_hash_def shuffled_canonical)

theorem params_hash_unordered_witness:
  "params_hash id (JObj [(''a'', JNum 1), (''b'', JObj [(''c'', JNull), (''d'', JBool True)])]) =
   params_hash id (JObj [(''b'', JObj [(''d'', JBool True), (''c'', JNull)]), (''a'', JNum 1)])"
proof (rule params_hash_unordered)
  have "shuffled (JObj [(''c'', JNull), (''d'', JBool True)]) (JObj [(''d'', JBool True), (''c'', JNull)])"
    by (rule shuffled_obj [where kvs' = "[(''c'', JNull), (''d'', JBool True)]"]) (auto intro: shuffled_same)
  then show "shuffled (JObj [(''a'', JNum 1), (''b'', JObj [(''c'', JNull), (''d'', JBool True)])])
     (JObj [(''b'', JObj [(''d'', JBool True), (''c'', JNull)]), (''a'', JNum 1)])"
    by (intro shuffled_obj [where kvs' = "[(''a'', JNum 1), (''b'', JObj [(''d'', JBool True), (''c'', JNull)])]"])
      (auto intro: shuffled_same)
qed


section \<open>Dependencies\<close>

lemma succs_set: "set (succs es xs) = {y. \<exists>x \<in> set xs. (x, y) \<in> set es}"
  by (force simp: succs_def)

text \<open>The frontier grows until it is closed; every round but the last reaches a new edge target.\<close>

lemma grow_sound: "set (grow n es xs) \<subseteq> {y. \<exists>x \<in> set xs. (x, y) \<in> (set es)\<^sup>*}"
proof (induction n es xs rule: grow.induct)
  case (2 n es xs)
  show ?case
  proof (cases "filter (\<lambda>y. y \<notin> set xs) (succs es xs) = []")
    case True
    then show ?thesis by (auto simp: Let_def)
  next
    case False
    show ?thesis
    proof
      fix y assume "y \<in> set (grow (Suc n) es xs)"
      with False 2 obtain x where x: "x \<in> set (xs @ filter (\<lambda>y. y \<notin> set xs) (succs es xs))" "(x, y) \<in> (set es)\<^sup>*"
        by (auto simp: Let_def)
      then show "y \<in> {y. \<exists>x \<in> set xs. (x, y) \<in> (set es)\<^sup>*}"
        by (cases "x \<in> set xs") (auto simp: succs_set intro: converse_rtrancl_into_rtrancl)
    qed
  qed
qed auto

lemma grow_keeps: "set xs \<subseteq> set (grow n es xs)"
  by (induction n es xs rule: grow.induct) (auto simp: Let_def)

lemma grow_closed:
  assumes "card (snd ` set es - set xs) \<le> n"
  shows "snd ` (set es \<inter> (set (grow n es xs) \<times> UNIV)) \<subseteq> set (grow n es xs)"
  using assms
proof (induction n es xs rule: grow.induct)
  case (1 es xs)
  then have "snd ` set es \<subseteq> set xs" by simp
  then show ?case by auto
next
  case (2 n es xs)
  show ?case
  proof (cases "filter (\<lambda>y. y \<notin> set xs) (succs es xs) = []")
    case True
    then show ?thesis by (force simp: Let_def filter_empty_conv succs_set)
  next
    case False
    let ?new = "filter (\<lambda>y. y \<notin> set xs) (succs es xs)"
    obtain y where y: "y \<in> set ?new" using False by (cases ?new) auto
    then have "y \<in> snd ` set es - set xs" by (force simp: succs_set)
    moreover have "snd ` set es - set (xs @ ?new) \<subseteq> (snd ` set es - set xs) - {y}" using y by auto
    ultimately have "card (snd ` set es - set (xs @ ?new)) < card (snd ` set es - set xs)"
      by (intro psubset_card_mono) auto
    with 2 False show ?thesis by (simp add: Let_def)
  qed
qed

text \<open>The cycle check of \<open>addDependency\<close> is complete: the recursive query, bounded by one round per edge,
  computes exactly the tickets reachable from a dependency.\<close>

theorem dep_reach_closure: "set (dep_reach es d) = {y. (d, y) \<in> (set es)\<^sup>+}"
proof
  show "set (dep_reach es d) \<subseteq> {y. (d, y) \<in> (set es)\<^sup>+}"
    using grow_sound [of "length es" es "succs es [d]"]
    by (fastforce simp: dep_reach_def succs_set intro: rtrancl_into_trancl2)
next
  have "card (snd ` set es - set (succs es [d])) \<le> card (snd ` set es)" by (intro card_mono) auto
  also have "\<dots> \<le> length es" using card_image_le card_length by (metis finite_set image_set length_map)
  finally have closed: "snd ` (set es \<inter> (set (dep_reach es d) \<times> UNIV)) \<subseteq> set (dep_reach es d)"
    unfolding dep_reach_def by (rule grow_closed)
  show "{y. (d, y) \<in> (set es)\<^sup>+} \<subseteq> set (dep_reach es d)"
  proof clarify
    fix y assume "(d, y) \<in> (set es)\<^sup>+"
    then show "y \<in> set (dep_reach es d)"
    proof (induction rule: trancl_induct)
      case (base y)
      then show ?case using grow_keeps [of "succs es [d]" "length es" es] by (auto simp: dep_reach_def succs_set)
    next
      case (step y z)
      then show ?case using closed by force
    qed
  qed
qed

text \<open>Adding a dependency keeps the dependency graph free of cycles.\<close>

theorem dependencies_acyclic:
  assumes "add_dependency now p tid dep op s b = Inr (r, b')" and "acyclic (set (b_deps b))"
  shows "acyclic (set (b_deps b'))"
proof -
  from assms(1) obtain k d where k: "k \<noteq> d" "k \<notin> set (dep_reach (b_deps b) d)"
    and b': "b_deps b' = (if (k, d) \<in> set (b_deps b) then b_deps b else b_deps b @ [(k, d)])"
    by (auto simp: add_dependency_def Let_def add_audit_def)
  from k have "(d, k) \<notin> (set (b_deps b))\<^sup>*"
    using dep_reach_closure [of "b_deps b" d] by (auto simp: rtrancl_eq_or_trancl)
  with assms(2) show ?thesis by (simp add: b' acyclic_insert)
qed

section \<open>The reaper gives work back\<close>










section \<open>Restore\<close>

text \<open>C40. After a restore nothing of the lost process is live: no ticket is in progress, no approval is granted,
  no lock is held by a claim, every generation is at least the restore time, so every token handed out
  before is stale, and the invariants of the board hold.\<close>

theorem restore_quiesces:
  assumes "board_reach cfg b"
  shows "board_ok (reconcile_on_boot now b) \<and>
    (\<forall>k t. get_ticket (reconcile_on_boot now b) k = Some t \<longrightarrow> t_status t \<noteq> InProgress) \<and>
    (\<forall>k a. get_approval (reconcile_on_boot now b) k = Some a \<longrightarrow> a_status a \<noteq> Granted) \<and>
    (\<forall>r l. get_lock (reconcile_on_boot now b) r = Some l \<longrightarrow> l_hold l \<noteq> Some ClaimHold \<and> now \<le> l_gen l \<and>
        (\<exists>l0. get_lock b r = Some l0 \<and> l_gen l0 \<le> l_gen l))"
proof -
  have ok: "board_ok b" by (rule board.reach_inv [OF assms])
  have "bstep cfg b (reconcile_on_boot now b)" by (rule b_restore)
  then have "board_ok (reconcile_on_boot now b)" using bstep_core(1) ok by blast
  have wf: "wf_board b" "core_inv (core_of b)" using ok by (simp_all add: board_ok_def)
  note rows = reconcile_rows(1-3) [OF wf, of now, THEN rowwiseD2]
  show ?thesis
  proof (intro conjI allI impI)
    fix k t assume "get_ticket (reconcile_on_boot now b) k = Some t"
    from rows(1) [OF this] show "t_status t \<noteq> InProgress" by (auto simp: restored_t_def)
  next
    fix k a assume "get_approval (reconcile_on_boot now b) k = Some a"
    from rows(3) [OF this] obtain x where "a = (if a_status x = Granted then x\<lparr>a_status := Revoked\<rparr> else x)"
      by (auto simp: restored_a_def)
    then show "a_status a \<noteq> Granted" by (cases "a_status x = Granted") simp_all
  next
    fix r l assume "get_lock (reconcile_on_boot now b) r = Some l"
    from rows(2) [OF this] show "l_hold l \<noteq> Some ClaimHold" "now \<le> l_gen l"
      "\<exists>l0. get_lock b r = Some l0 \<and> l_gen l0 \<le> l_gen l"
      by (auto simp: restored_l_def floored_l_def)
  qed fact
qed

section \<open>Refinement\<close>

text \<open>C35. The board implements its abstract lifecycle: as long as no outage hold is cleared, what a run does to
  tickets, locks and approvals is a run of the abstract machine of \<open>BoardSpec\<close> from the empty store.\<close>

theorem lifecycle_refines:
  assumes "lawful_reach cfg b"
  shows "astep\<^sup>*\<^sup>* (\<lambda>_. None, \<lambda>_. None, \<lambda>_. None) (core_of b)"
  using assms
proof (induction rule: reach.induct)
  case (reach_start b)
  then show ?case using start_empty(2) by simp
next
  case (reach_step b b')
  with lawful.reach_inv [OF reach_step(1)] bstep_core(2) [OF reach_step(2)] show ?case by (meson rtranclp_trans)
qed

section \<open>Concrete instances\<close>


definition demo_two :: board where
  "demo_two = outcome (create demo_cfg 11 (human ''ann'') (create_defaults\<lparr>cr_title := Some ''u'', cr_type := None,
     cr_body := None, cr_host := None, cr_parent := None, cr_team := None\<rparr>) None ''http'' demo1)"

definition demo_link :: "exn + (json \<times> board)" where
  "demo_link = add_dependency 12 (human ''ann'') (Some 2) (Some 1) None ''http'' demo_two"

lemma demo_link_result: "demo_link = Inr (fst (projr demo_link), outcome demo_link)"
  by (rule outcome_ok) code_simp

lemma demo_link_deps: "b_deps demo_two = []" "b_deps (outcome demo_link) = [(2, 1)]"
  by code_simp+

theorem dependencies_acyclic_witness: "acyclic (set (b_deps (outcome demo_link)))"
  by (rule dependencies_acyclic [OF trans [OF demo_link_def [symmetric] demo_link_result]]) (simp add: demo_link_deps acyclic_def)


lemma demo_restored: "map_option t_status (get_ticket (reconcile_on_boot 300 demo2) 1) = Some Todo"
  by code_simp

theorem restore_quiesces_witness:
  "map_option t_status (get_ticket (reconcile_on_boot 300 demo2) 1) = Some Todo \<and>
   board_ok (reconcile_on_boot 300 demo2)"
  using restore_quiesces [OF demo_reach(3), of 300] demo_restored by blast

theorem lifecycle_refines_witness: "astep\<^sup>*\<^sup>* (\<lambda>_. None, \<lambda>_. None, \<lambda>_. None) (core_of demo5)"
  by (rule lifecycle_refines [OF demo_lawful(6)])

end
