(* ===== verification/VaultTypes.thy ===== *)
theory VaultTypes
  imports Bearer
begin

text \<open>
  The vocabulary and the store of the Vault (\<open>src/apps/vault/server/src/constants.js\<close>, \<open>ids.js\<close>,
  \<open>errors.js\<close>, \<open>db/schema.js\<close>): scopes, action and approval classes, the reject codes of a redemption,
  handles and releases, the rows of the tables, and the identifiers the Vault mints and parses.
\<close>

section \<open>Scopes and classes\<close>

datatype vscope = Reference | ReadCredential | ManageScope

fun vscope_str :: "vscope \<Rightarrow> string" where
  "vscope_str Reference = ''vault:reference''"
| "vscope_str ReadCredential = ''vault:read-credential''"
| "vscope_str ManageScope = ''vault:manage''"

definition vscopes_supported :: "vscope list" where
  "vscopes_supported = [Reference, ReadCredential, ManageScope]"

fun vholder_kinds :: "vscope \<Rightarrow> pkind list option" where
  "vholder_kinds ReadCredential = Some [Service]"
| "vholder_kinds ManageScope = Some [Human]"
| "vholder_kinds Reference = None"

definition gateway_sub :: string where "gateway_sub = ''svc:gateway''"

datatype vclass = VRead | VPropose | VWriteBenign | VDestructiveExec

fun vclass_str :: "vclass \<Rightarrow> string" where
  "vclass_str VRead = ''read''"
| "vclass_str VPropose = ''propose''"
| "vclass_str VWriteBenign = ''write-benign''"
| "vclass_str VDestructiveExec = ''destructive-exec''"

definition approval_class_order :: "string list" where
  "approval_class_order = [''benign'', ''standard'', ''destructive'', ''irreversible'']"

fun index_of :: "'a \<Rightarrow> 'a list \<Rightarrow> nat option" where
  "index_of x [] = None"
| "index_of x (y # ys) = (if x = y then Some 0 else map_option Suc (index_of x ys))"

text \<open>\<open>String(c || '')\<close>\<close>

definition string_or_empty :: "json option \<Rightarrow> string" where
  "string_or_empty j = (if js_truthy j then js_string (the j) else [])"

definition approval_class_rank :: "json option \<Rightarrow> nat option" where
  "approval_class_rank c = index_of (map lower_char (string_or_empty c)) approval_class_order"

definition approval_class_sufficient :: "json option \<Rightarrow> json option \<Rightarrow> bool" where
  "approval_class_sufficient required granted =
     (case (approval_class_rank required, approval_class_rank granted) of
        (Some r, Some g) \<Rightarrow> r \<le> g
      | _ \<Rightarrow> False)"

section \<open>Reject codes\<close>

datatype reject = NotGatewayChannel | InvalidToken | InsufficientScope | NotGateway | RevokedToken | AuthUnreachable
  | UnknownRelease | ReleaseNotPending | ReleaseExpired | ApprovalNotConsumed | ApprovalMismatch | ApprovalStale
  | BoardUnreachable | AuditUnavailable | EngineDenied | EngineUnavailable | EngineSealed | OpInProgress
  | ReReleaseCap | BudgetExceeded | BadRequest

fun reject_code :: "reject \<Rightarrow> string" where
  "reject_code NotGatewayChannel = ''not_gateway_channel''" | "reject_code InvalidToken = ''invalid_token''"
| "reject_code InsufficientScope = ''insufficient_scope''" | "reject_code NotGateway = ''not_gateway''"
| "reject_code RevokedToken = ''revoked''" | "reject_code AuthUnreachable = ''auth_unreachable''"
| "reject_code UnknownRelease = ''unknown_release''" | "reject_code ReleaseNotPending = ''release_not_pending''"
| "reject_code ReleaseExpired = ''release_expired''"
| "reject_code ApprovalNotConsumed = ''approval_not_consumed''"
| "reject_code ApprovalMismatch = ''approval_mismatch''" | "reject_code ApprovalStale = ''approval_stale''"
| "reject_code BoardUnreachable = ''board_unreachable''" | "reject_code AuditUnavailable = ''audit_unavailable''"
| "reject_code EngineDenied = ''engine_denied''" | "reject_code EngineUnavailable = ''engine_unavailable''"
| "reject_code EngineSealed = ''engine_sealed''" | "reject_code OpInProgress = ''in_progress''"
| "reject_code ReReleaseCap = ''re_release_cap''" | "reject_code BudgetExceeded = ''budget''"
| "reject_code BadRequest = ''bad_request''"

fun reject_http :: "reject \<Rightarrow> nat" where
  "reject_http InvalidToken = 401" | "reject_http AuthUnreachable = 503" | "reject_http UnknownRelease = 404"
| "reject_http ReleaseExpired = 410" | "reject_http BoardUnreachable = 503" | "reject_http AuditUnavailable = 503"
| "reject_http EngineUnavailable = 503" | "reject_http EngineSealed = 503" | "reject_http OpInProgress = 409"
| "reject_http BudgetExceeded = 429" | "reject_http BadRequest = 400" | "reject_http _ = 403"

fun reject_retry :: "reject \<Rightarrow> string" where
  "reject_retry InvalidToken = ''remint''" | "reject_retry AuthUnreachable = ''later''"
| "reject_retry BoardUnreachable = ''later''" | "reject_retry AuditUnavailable = ''later''"
| "reject_retry EngineUnavailable = ''later''" | "reject_retry EngineSealed = ''later''"
| "reject_retry OpInProgress = ''inprogress''" | "reject_retry BudgetExceeded = ''budget''"
| "reject_retry _ = ''never''"

definition reject_body :: "reject \<Rightarrow> json" where
  "reject_body r = JObj [(''code'', JStr (reject_code r)), (''retry'', JStr (reject_retry r))]"

text \<open>The reject codes of a release request, and the errors of the agent and operator surfaces: a status
  and a code, or an exception the routes answer with 500.\<close>

datatype release_err = TicketNotFound | NotClaimant | TicketTerminal | HostMismatch | BoardDown | UnknownHandle
  | AlreadyTerminal

fun release_err_code :: "release_err \<Rightarrow> string" where
  "release_err_code TicketNotFound = ''ticket_not_found''" | "release_err_code NotClaimant = ''not_claimant''"
| "release_err_code TicketTerminal = ''ticket_terminal''" | "release_err_code HostMismatch = ''host_mismatch''"
| "release_err_code BoardDown = ''board_unreachable''" | "release_err_code UnknownHandle = ''unknown_handle''"
| "release_err_code AlreadyTerminal = ''release_terminal''"

fun release_err_http :: "release_err \<Rightarrow> nat" where
  "release_err_http TicketNotFound = 404" | "release_err_http UnknownHandle = 404"
| "release_err_http BoardDown = 503" | "release_err_http AlreadyTerminal = 409" | "release_err_http _ = 403"

datatype vexn = VBiz nat string | VInternal

definition release_exn :: "release_err \<Rightarrow> vexn" where
  "release_exn e = VBiz (release_err_http e) (release_err_code e)"

section \<open>Rows\<close>

datatype hkind = SshCa | Kv

fun hkind_str :: "hkind \<Rightarrow> string" where
  "hkind_str SshCa = ''ssh-ca''" | "hkind_str Kv = ''kv''"

definition recoveries :: "string list" where
  "recoveries = [''ssh-ca-resettable'', ''provider-console'', ''console-only'']"

definition console_only :: string where "console_only = ''console-only''"

datatype rstatus = RPending | RRedeemed | RExpired | RRevoked

fun rstatus_str :: "rstatus \<Rightarrow> string" where
  "rstatus_str RPending = ''pending''" | "rstatus_str RRedeemed = ''redeemed''"
| "rstatus_str RExpired = ''expired''" | "rstatus_str RRevoked = ''revoked''"

definition re_release_cap :: nat where "re_release_cap = 3"

record handle_row =
  hd_handle :: string
  hd_host :: string
  hd_name :: string
  hd_kind :: hkind
  hd_ref :: string
  hd_desc :: "string option"
  hd_class :: string
  hd_rotation :: "json option"
  hd_recovery :: string
  hd_principal :: "string option"
  hd_created :: string
  hd_retired :: "string option"

datatype hstate = HNew | HStaged | HReady

fun hstate_str :: "hstate \<Rightarrow> string" where
  "hstate_str HNew = ''new''" | "hstate_str HStaged = ''staged''" | "hstate_str HReady = ''ready''"

text \<open>The columns \<open>signrole_diff\<close> and \<open>principals\<close> hold JSON texts the code writes and parses back; here
  they are the values. \<open>ntp_ok\<close> and \<open>ca_keys_provisioned_at\<close> are never written.\<close>

record host_row =
  ho_id :: string
  ho_state :: hstate
  ho_role :: "string option"
  ho_diff :: "json option"
  ho_diff_hash :: "string option"
  ho_principals :: "string list option"
  ho_recovery :: string
  ho_breakglass :: "string option"
  ho_created :: string
  ho_updated :: string

record release_row =
  rl_id :: string
  rl_handle :: string
  rl_host :: string
  rl_ticket :: string
  rl_by :: string
  rl_op :: "string option"
  rl_status :: rstatus
  rl_created :: string
  rl_expires :: int
  rl_redeemed_at :: "string option"
  rl_redeemed_by :: "string option"
  rl_redeem_op :: "string option"
  rl_count :: nat
  rl_approval :: "string option"
  rl_run :: "string option"

record vaudit =
  va_seq :: nat
  va_ts :: string
  va_event :: string
  va_actor :: "string option"
  va_handle :: "string option"
  va_release :: "string option"
  va_ticket :: "string option"
  va_approval :: "string option"
  va_run :: "string option"
  va_trace :: "string option"
  va_op :: "string option"
  va_outcome :: "string option"
  va_detail :: "string option"
  va_prev :: "string option"
  va_hash :: string

text \<open>The store, with the two structures the process keeps in memory: the mirror of the revocations
  (\<open>auth/introspect.js\<close>) and the single-use guard of the engine (\<open>engine/openbao.js\<close>). The tables
  \<open>op_ids\<close> and \<open>meta\<close> are never used.\<close>

record mirror =
  mi_jti :: "json list"
  mi_sub :: "json list"
  mi_kill :: json
  mi_epoch :: int

record vault =
  vs_handles :: "handle_row list"
  vs_hosts :: "host_row list"
  vs_releases :: "release_row list"
  vs_audit :: "vaudit list"
  vs_mirror :: mirror
  vs_jtis :: "(json \<times> int) list"

definition no_mirror :: mirror where
  "no_mirror = \<lparr>mi_jti = [], mi_sub = [], mi_kill = JStr ''G0'', mi_epoch = 0\<rparr>"

definition empty_vault :: vault where
  "empty_vault = \<lparr>vs_handles = [], vs_hosts = [], vs_releases = [], vs_audit = [], vs_mirror = no_mirror, vs_jtis = []\<rparr>"

section \<open>Configuration and world\<close>

record vconfig =
  vc_dev :: bool
  vc_production :: bool
  vc_gateway_cn :: string
  vc_redeem_bind :: "string option"
  vc_creds_files :: "string option list"
  vc_engine_files :: "string option list"
  vc_snapshot :: "string option"
  vc_unsealer :: string
  vc_drift :: int
  vc_window :: int
  vc_release_ttl :: int
  vc_ssh_ttl :: string
  vc_worm_url :: "string option"
  vc_revocations_url :: "string option"
  vc_ceiling :: nat

text \<open>SHA-256 in hexadecimal, and \<open>Date.parse\<close> on a text, whose grammar JavaScript leaves to the
  implementation.\<close>

record vworld =
  vw_sha :: "string \<Rightarrow> string"
  vw_date :: "string \<Rightarrow> int option"

section \<open>Identifiers\<close>

text \<open>\<open>HOST_RE\<close>, \<open>NAME_RE\<close> and \<open>REL_RE\<close>.\<close>

definition host_re :: "string \<Rightarrow> bool" where
  "host_re s = (s \<noteq> [] \<and> lower_alnum (hd s) \<and> lower_alnum (last s) \<and> list_all (\<lambda>c. lower_alnum c \<or> c = CHR ''-'') s)"

definition name_char :: "char \<Rightarrow> bool" where
  "name_char c = (alnum c \<or> c \<in> set ''._-'')"

definition name_re :: "string \<Rightarrow> bool" where
  "name_re s = (s \<noteq> [] \<and> alnum (hd s) \<and> list_all name_char s)"

definition is_release_id :: "string \<Rightarrow> bool" where
  "is_release_id s = (starts_with ''rel-'' s \<and> length s = 30 \<and> list_all crockford (drop 4 s))"

definition is_host_id :: "string \<Rightarrow> bool" where
  "is_host_id s = (length s \<le> 63 \<and> host_re s)"

definition handle_prefix :: string where "handle_prefix = ''cred://hosts/''"

definition make_handle :: "string \<Rightarrow> string \<Rightarrow> string" where
  "make_handle host name = handle_prefix @ host @ ''/'' @ name"

text \<open>\<open>HANDLE_RE\<close>: the host has no slash, so it ends at the first one.\<close>

definition parse_handle :: "string \<Rightarrow> (string \<times> string) option" where
  "parse_handle s =
     (let rest = drop (length handle_prefix) s;
          host = takeWhile (\<lambda>c. c \<noteq> CHR ''/'') rest;
          tl1 = dropWhile (\<lambda>c. c \<noteq> CHR ''/'') rest;
          name = drop 1 tl1
      in if starts_with handle_prefix s \<and> tl1 \<noteq> [] \<and> host_re host \<and> name_re name
         then Some (host, name) else None)"

lemma slashless: "host_re s \<Longrightarrow> CHR ''/'' \<notin> set s"
  by (auto simp: host_re_def lower_alnum_def is_digit_def list_all_iff)

lemma parse_make_handle:
  assumes "host_re h" and "name_re n"
  shows "parse_handle (make_handle h n) = Some (h, n)"
proof -
  have "\<forall>c \<in> set h. c \<noteq> CHR ''/''" using slashless [OF assms(1)] by auto
  then have "takeWhile (\<lambda>c. c \<noteq> CHR ''/'') (h @ CHR ''/'' # n) = h"
    "dropWhile (\<lambda>c. c \<noteq> CHR ''/'') (h @ CHR ''/'' # n) = CHR ''/'' # n"
    by (induction h) auto
  with assms show ?thesis
    by (simp add: parse_handle_def make_handle_def starts_with_def Let_def)
qed

end
