(* ===== verification/VaultAudit.thy ===== *)
theory VaultAudit
  imports VaultTypes
begin

text \<open>
  The audit log of the Vault (\<open>service/audit.js\<close>, \<open>clients/worm.js\<close>): an append-only table whose rows are
  chained by hashes, shipped one by one to an off-box sink that acknowledges, its verification, and the
  comparison with the head of the sink at boot.
\<close>

section \<open>The hash of a row\<close>

definition canonical :: "(string \<times> json) list \<Rightarrow> string" where
  "canonical fs = json_str (JArr (map (\<lambda>(k, v). JArr [JStr k, v]) (sort_key fst fs)))"

definition row_hash :: "(string \<Rightarrow> string) \<Rightarrow> (string \<times> json) list \<Rightarrow> string option \<Rightarrow> string" where
  "row_hash sha fs prev =
     ''sha256:'' @ sha (canonical fs @ ''|'' @ (case prev of None \<Rightarrow> [] | Some h \<Rightarrow> h))"

text \<open>\<open>HASH_FIELDS\<close> of a row.\<close>

definition hash_fields :: "vaudit \<Rightarrow> (string \<times> json) list" where
  "hash_fields r =
     [(''ts'', JStr (va_ts r)), (''event_type'', JStr (va_event r)), (''actor_sub'', jstr (va_actor r)),
      (''handle'', jstr (va_handle r)), (''release_id'', jstr (va_release r)), (''ticket_id'', jstr (va_ticket r)),
      (''approval_id'', jstr (va_approval r)), (''run_id'', jstr (va_run r)), (''traceparent'', jstr (va_trace r)),
      (''op_id'', jstr (va_op r)), (''outcome'', jstr (va_outcome r)), (''detail_json'', jstr (va_detail r))]"

section \<open>Appending\<close>

text \<open>\<open>head()\<close>: the last row; no row is number 0.\<close>

definition audit_head :: "vaudit list \<Rightarrow> nat \<times> string option" where
  "audit_head rows = (if rows = [] then (0, None) else (va_seq (last rows), Some (va_hash (last rows))))"

text \<open>A record to append, its other columns NULL; the sequence number, the time, the link and the hash are
  filled in by \<open>append_local\<close>.\<close>

definition event :: "string \<Rightarrow> vaudit" where
  "event kind = \<lparr>va_seq = 0, va_ts = [], va_event = kind, va_actor = None, va_handle = None, va_release = None,
     va_ticket = None, va_approval = None, va_run = None, va_trace = None, va_op = None, va_outcome = None,
     va_detail = None, va_prev = None, va_hash = []\<rparr>"

definition detail :: "(string \<times> json) list \<Rightarrow> string option" where
  "detail kvs = Some (json_str (JObj kvs))"

definition next_row :: "vworld \<Rightarrow> int \<Rightarrow> vaudit \<Rightarrow> vaudit list \<Rightarrow> vaudit" where
  "next_row w now rec rows =
     (let (n, h) = audit_head rows; r = rec\<lparr>va_seq := n + 1, va_ts := iso_string now, va_prev := h\<rparr>
      in r\<lparr>va_hash := row_hash (vw_sha w) (hash_fields r) h\<rparr>)"

definition append_local :: "vworld \<Rightarrow> int \<Rightarrow> vaudit \<Rightarrow> vault \<Rightarrow> vault" where
  "append_local w now rec v = v\<lparr>vs_audit := vs_audit v @ [next_row w now rec (vs_audit v)]\<rparr>"

text \<open>\<open>dualSink\<close> appends at once and then waits for the sink: the acknowledgement of \<open>WormSink.ship\<close>, from
  the status the sink answered, \<open>None\<close> when the call threw.\<close>

definition worm_acked :: "vconfig \<Rightarrow> nat option \<Rightarrow> bool" where
  "worm_acked cfg st =
     (if vc_dev cfg \<and> \<not> truthy_str (vc_worm_url cfg) then True
      else if \<not> truthy_str (vc_worm_url cfg) then False
      else case st of None \<Rightarrow> False | Some s \<Rightarrow> 200 \<le> s \<and> s < 300)"

definition worm_head :: "vconfig \<Rightarrow> fetched \<Rightarrow> json option" where
  "worm_head cfg reply =
     (if \<not> truthy_str (vc_worm_url cfg) then None
      else case reply of
          Resp st (Some j) \<Rightarrow> (if resp_ok st then Some j else None)
        | _ \<Rightarrow> None)"

section \<open>Verification\<close>

text \<open>An empty hash and no hash are the same to the code: \<open>x || null\<close>.\<close>

definition link :: "string option \<Rightarrow> string option" where
  "link h = (if truthy_str h then h else None)"

datatype chain_fault = PrevLink nat | RowHash nat

fun verify_rows :: "(string \<Rightarrow> string) \<Rightarrow> string option \<Rightarrow> vaudit list \<Rightarrow> chain_fault option" where
  "verify_rows sha prev [] = None"
| "verify_rows sha prev (r # rows) =
     (if link (va_prev r) \<noteq> link prev then Some (PrevLink (va_seq r))
      else if row_hash sha (hash_fields r) (va_prev r) \<noteq> va_hash r then Some (RowHash (va_seq r))
      else verify_rows sha (Some (va_hash r)) rows)"

definition head_json :: "nat \<times> string option \<Rightarrow> json" where
  "head_json h = JObj [(''seq'', JNum (int (fst h))), (''row_hash'', jstr (snd h))]"

definition verify_chain :: "vworld \<Rightarrow> vault \<Rightarrow> json" where
  "verify_chain w v =
     (let h = head_json (audit_head (vs_audit v)) in
      case verify_rows (vw_sha w) None (vs_audit v) of
        None \<Rightarrow> JObj [(''ok'', JBool True), (''brokenAt'', JNull), (''head'', h)]
      | Some (PrevLink n) \<Rightarrow> JObj [(''ok'', JBool False), (''brokenAt'', JNum (int n)),
          (''reason'', JStr ''prev_hash_link''), (''head'', h)]
      | Some (RowHash n) \<Rightarrow> JObj [(''ok'', JBool False), (''brokenAt'', JNum (int n)),
          (''reason'', JStr ''row_hash''), (''head'', h)])"

section \<open>The restore detector\<close>

text \<open>\<open>wormHead.seq || 0\<close> against the local number, and the hashes when the numbers agree.\<close>

definition head_seq :: "json \<Rightarrow> int" where
  "head_seq j = (case jget ''seq'' j of Some (JNum n) \<Rightarrow> n | _ \<Rightarrow> 0)"

definition regressed :: "nat \<times> string option \<Rightarrow> json \<Rightarrow> bool" where
  "regressed local worm =
     (int (fst local) < head_seq worm \<or>
      (jget ''seq'' worm = Some (JNum (int (fst local))) \<and> jget ''row_hash'' worm \<noteq> Some (jstr (snd local))))"

datatype boot_check = WormUnavailable | Restored | Intact

definition detect_restore :: "vconfig \<Rightarrow> vworld \<Rightarrow> int \<Rightarrow> fetched \<Rightarrow> vault \<Rightarrow> boot_check \<times> vault" where
  "detect_restore cfg w now reply v =
     (case worm_head cfg reply of
        None \<Rightarrow> (WormUnavailable, v)
      | Some JNull \<Rightarrow> (WormUnavailable, v)
      | Some worm \<Rightarrow>
          (let local = audit_head (vs_audit v) in
           if regressed local worm
           then (Restored, append_local w now ((event ''restore_marker'')\<lparr>va_outcome := Some ''ok'',
              va_detail := detail [(''worm_head'', worm), (''local_at_boot'', head_json local)]\<rparr>) v)
           else (Intact, v)))"

section \<open>Lemmas\<close>

lemma append_local_simps [simp]:
  "vs_handles (append_local w now r v) = vs_handles v" "vs_hosts (append_local w now r v) = vs_hosts v"
  "vs_releases (append_local w now r v) = vs_releases v" "vs_mirror (append_local w now r v) = vs_mirror v"
  "vs_jtis (append_local w now r v) = vs_jtis v"
  "vs_audit (append_local w now r v) = vs_audit v @ [next_row w now r (vs_audit v)]"
  by (simp_all add: append_local_def)

lemma link_None [simp]: "link None = None"
  by (simp add: link_def)

lemma row_hash_nonempty [simp]: "row_hash sha fs p \<noteq> []"
  by (simp add: row_hash_def)

lemma verify_rows_append:
  "verify_rows sha prev (xs @ [r]) = None \<longleftrightarrow>
     verify_rows sha prev xs = None \<and> link (va_prev r) = link (if xs = [] then prev else Some (va_hash (last xs))) \<and>
     row_hash sha (hash_fields r) (va_prev r) = va_hash r"
  by (induction sha prev xs rule: verify_rows.induct) (auto split: if_splits)

lemma hash_fields_hash [simp]: "hash_fields (r\<lparr>va_hash := h\<rparr>) = hash_fields r"
  by (simp add: hash_fields_def)

lemma next_row_links:
  "link (va_prev (next_row w now rec rows)) = link (if rows = [] then None else Some (va_hash (last rows)))"
  "row_hash (vw_sha w) (hash_fields (next_row w now rec rows)) (va_prev (next_row w now rec rows)) =
     va_hash (next_row w now rec rows)"
  "va_seq (next_row w now rec rows) = Suc (fst (audit_head rows))"
  by (simp_all add: next_row_def Let_def audit_head_def split_def)

lemma append_verifies:
  "verify_rows (vw_sha w) None (vs_audit v) = None \<Longrightarrow>
     verify_rows (vw_sha w) None (vs_audit (append_local w now rec v)) = None"
  by (simp add: verify_rows_append next_row_links)

end
