(* ===== verification/VaultAuth.thy ===== *)
theory VaultAuth
  imports VaultTypes
begin

text \<open>
  The resource server of the Vault and the live revocation check (\<open>auth/rs.js\<close>, \<open>auth/introspect.js\<close>). The
  validation of a token's signature, issuer and expiry (\<open>jose\<close>) is a parameter: the payload, or \<open>None\<close>
  when it throws.
\<close>

section \<open>The edge: scopes\<close>

text \<open>\<open>aud\<close> equals \<open>vault\<close>, single-valued.\<close>

definition audience_ok :: "json \<Rightarrow> bool" where
  "audience_ok payload =
     (case jget ''aud'' payload of
        Some (JArr xs) \<Rightarrow> length xs = 1 \<and> xs ! 0 = JStr ''vault''
      | Some (JStr s) \<Rightarrow> s = ''vault''
      | _ \<Rightarrow> False)"

definition vverify :: "(string \<Rightarrow> json option) \<Rightarrow> string \<Rightarrow> refusal + json" where
  "vverify jwt tok =
     need (jwt tok) (Refusal 401 ''invalid_token'') (\<lambda>payload.
     throw_if (\<not> audience_ok payload) (Refusal 401 ''invalid_token'')
     (throw_if (\<not> js_truthy (jget ''sub'' payload)) (Refusal 401 ''invalid_token'') (Inr payload)))"

definition vauthenticate :: "vconfig \<Rightarrow> (string \<Rightarrow> json option) \<Rightarrow> headers \<Rightarrow> refusal + principal" where
  "vauthenticate cfg jwt h =
     (if vc_dev cfg then
        let sub = truthy_or (h_dev_sub h) ''op:dev'' in
        Inr \<lparr>p_sub = sub,
          p_kind = (if truthy_str (h_dev_kind h) then kind_of (the (h_dev_kind h)) else infer_kind sub),
          p_scopes = split_words (truthy_or (h_dev_scopes h) ''vault:manage'')\<rparr>
      else
        need (bearer_token (truthy_or (h_authorization h) '''')) (Refusal 401 ''missing_token'') (\<lambda>tok.
        and_then (vverify jwt tok) (\<lambda>payload.
          let sub = js_string (the (jget ''sub'' payload)) in
          Inr \<lparr>p_sub = sub, p_kind = claimed_kind payload sub,
            p_scopes = split_words (string_or_empty (jget ''scope'' payload))\<rparr>)))"

definition vrequire_scope ::
  "vconfig \<Rightarrow> (string \<Rightarrow> json option) \<Rightarrow> vscope \<Rightarrow> headers \<Rightarrow> refusal + principal" where
  "vrequire_scope cfg jwt sc h =
     and_then (vauthenticate cfg jwt h) (\<lambda>p.
     throw_if (vscope_str sc \<notin> set (p_scopes p)) (Refusal 403 ''insufficient_scope'')
     (throw_if (case vholder_kinds sc of None \<Rightarrow> False | Some ks \<Rightarrow> p_kind p \<notin> set ks)
       (Refusal 403 ''insufficient_scope'') (Inr p)))"

section \<open>The redeemer: the holder checks\<close>

record holder =
  hl_sub :: string
  hl_jti :: "json option"
  hl_exp :: "int option"

definition is_object :: "json option \<Rightarrow> bool" where
  "is_object j = (case j of Some (JObj _) \<Rightarrow> True | Some (JArr _) \<Rightarrow> True | _ \<Rightarrow> False)"

definition thumb_ok :: "bool \<Rightarrow> string option \<Rightarrow> json \<Rightarrow> bool" where
  "thumb_ok dev thumb cnf =
     (js_truthy (jget ''x5t#S256'' cnf) \<and>
      (dev \<or> truthy_str thumb \<and> jget ''x5t#S256'' cnf = Some (JStr (the thumb))))"

text \<open>Steps 4 to 6a on the payload of a validated token.\<close>

definition apply_holder_checks :: "bool \<Rightarrow> json option \<Rightarrow> string option \<Rightarrow> reject + holder" where
  "apply_holder_checks dev claims thumb =
     throw_if (\<not> is_object claims) InvalidToken
     (let c = the claims in
      throw_if (\<not> audience_ok c) InvalidToken
     (throw_if (vscope_str ReadCredential \<notin> set (split_words (string_or_empty (jget ''scope'' c)))) InsufficientScope
     (throw_if (jget ''sub'' c \<noteq> Some (JStr gateway_sub)) NotGateway
     (throw_if (\<not> is_object (jget ''cnf'' c)) InvalidToken
     (throw_if (\<not> thumb_ok dev thumb (the (jget ''cnf'' c))) InvalidToken
     (Inr \<lparr>hl_sub = gateway_sub, hl_jti = jget ''jti'' c,
        hl_exp = (case jget ''exp'' c of Some (JNum n) \<Rightarrow> Some n | _ \<Rightarrow> None)\<rparr>))))))"

text \<open>Steps 1 to 6a: \<open>claims\<close> is what the validation gave, or in a development setup what the harness
  injected.\<close>

definition validate_holder_redeem :: "vconfig \<Rightarrow> json option \<Rightarrow> string option \<Rightarrow> reject + holder" where
  "validate_holder_redeem cfg claims thumb =
     (if vc_dev cfg then apply_holder_checks True claims thumb
      else need claims InvalidToken (\<lambda>c. apply_holder_checks False (Some c) thumb))"

section \<open>The revocation mirror\<close>

text \<open>\<open>new Set(x)\<close> of a JSON value, \<open>None\<close> when it throws; a missing member takes the default.\<close>

definition set_items :: "json option \<Rightarrow> json list option" where
  "set_items j = (case j of None \<Rightarrow> Some [] | Some JNull \<Rightarrow> Some [] | Some (JArr xs) \<Rightarrow> Some xs
     | Some (JStr s) \<Rightarrow> Some (map (\<lambda>c. JStr [c]) s) | _ \<Rightarrow> None)"

text \<open>\<open>Set.has\<close>: primitive values by value, objects never.\<close>

definition has_value :: "json option \<Rightarrow> json list \<Rightarrow> bool" where
  "has_value j xs = (case j of None \<Rightarrow> False | Some v \<Rightarrow> \<not> is_object j \<and> v \<in> set xs)"

text \<open>An epoch that is no number counts as 0 here; the code would make the displayed epoch NaN. When a set
  throws, the assignments before it stand and the poll ends.\<close>

definition set_denylist :: "json \<Rightarrow> mirror \<Rightarrow> mirror" where
  "set_denylist j m =
     (case set_items (jget ''denied_jti'' j) of
        None \<Rightarrow> m
      | Some jtis \<Rightarrow>
          (case set_items (jget ''denied_sub'' j) of
             None \<Rightarrow> m\<lparr>mi_jti := jtis\<rparr>
           | Some subs \<Rightarrow>
               \<lparr>mi_jti = jtis, mi_sub = subs,
                mi_kill = (case jget ''kill_level'' j of None \<Rightarrow> JStr ''G0'' | Some k \<Rightarrow> k),
                mi_epoch = max (mi_epoch m) (case jget ''epoch'' j of Some (JNum n) \<Rightarrow> n | _ \<Rightarrow> 0)\<rparr>))"

text \<open>One poll of the revocations: a null document throws when its members are read.\<close>

definition poll_revocations :: "vconfig \<Rightarrow> fetched \<Rightarrow> vault \<Rightarrow> vault" where
  "poll_revocations cfg reply v =
     (if vc_dev cfg \<or> \<not> truthy_str (vc_revocations_url cfg) then v
      else case reply of
          Resp st (Some j) \<Rightarrow>
            (if resp_ok st \<and> j \<noteq> JNull then v\<lparr>vs_mirror := set_denylist j (vs_mirror v)\<rparr> else v)
        | _ \<Rightarrow> v)"

section \<open>The live check\<close>

definition killed :: "mirror \<Rightarrow> bool" where
  "killed m = (js_truthy (Some (mi_kill m)) \<and> mi_kill m \<noteq> JStr ''G0'')"

text \<open>The local bite, before anything is awaited, with the machine-only detail of the rejection.\<close>

definition live_local :: "holder \<Rightarrow> mirror \<Rightarrow> (reject \<times> (string \<times> json) list) option" where
  "live_local h m =
     (if killed m then Some (RevokedToken, [(''kill'', mi_kill m)])
      else if js_truthy (hl_jti h) \<and> has_value (hl_jti h) (mi_jti m) then Some (RevokedToken, [(''by'', JStr ''jti'')])
      else if hl_sub h \<noteq> [] \<and> has_value (Some (JStr (hl_sub h))) (mi_sub m) then Some (RevokedToken, [(''by'', JStr ''sub'')])
      else None)"

text \<open>The introspection: anything but an active token is rejected, no answer fails closed.\<close>

definition live_remote :: "fetched \<Rightarrow> (reject \<times> (string \<times> json) list) option" where
  "live_remote reply =
     (case reply of
        Resp st (Some j) \<Rightarrow>
          (if \<not> resp_ok st then Some (AuthUnreachable, [])
           else if jget ''active'' j = Some (JBool True) then None
           else Some (RevokedToken, [(''by'', JStr ''introspect'')]))
      | _ \<Rightarrow> Some (AuthUnreachable, []))"

section \<open>Lemmas\<close>

lemma is_object_None [simp]: "\<not> is_object None"
  by (simp add: is_object_def)

lemma apply_holder_checks_ok:
  assumes "apply_holder_checks dev claims thumb = Inr h"
  shows "hl_sub h = gateway_sub \<and> (\<exists>c cnf. claims = Some c \<and> audience_ok c \<and> jget ''sub'' c = Some (JStr gateway_sub) \<and>
    vscope_str ReadCredential \<in> set (split_words (string_or_empty (jget ''scope'' c))) \<and>
    jget ''cnf'' c = Some cnf \<and> thumb_ok dev thumb cnf \<and> hl_jti h = jget ''jti'' c)"
proof (cases claims)
  case None
  with assms show ?thesis by (simp add: apply_holder_checks_def)
next
  case (Some c)
  with assms show ?thesis
    by (cases "jget ''cnf'' c") (auto simp: apply_holder_checks_def Let_def)
qed

lemmas validate_ok = apply_holder_checks_ok [where dev = True] apply_holder_checks_ok [where dev = False]

section \<open>The client of the engine\<close>

text \<open>
  The client of the OpenBao engine (\<open>engine/openbao.js\<close>): the single-use guard on the token's identifier,
  the three calls of a redemption (login with the Gateway's own token, a child token for one host, the one
  read or signature) and the classification of every answer. The engine itself is outside: its answers are
  the outcomes of the calls.
\<close>

datatype ekind = EDenied | ESealed | EUnavailable

fun ekind_str :: "ekind \<Rightarrow> string" where
  "ekind_str EDenied = ''denied''" | "ekind_str ESealed = ''sealed''" | "ekind_str EUnavailable = ''unavailable''"

datatype 'a eresult = EErr ekind | ECrash | EOk 'a

section \<open>The single-use guard\<close>

text \<open>Expired entries are dropped, then a known identifier is a replay; a token without one is not guarded.\<close>

definition jti_check :: "int \<Rightarrow> json option \<Rightarrow> int option \<Rightarrow> (json \<times> int) list \<Rightarrow> bool \<times> (json \<times> int) list" where
  "jti_check now jti expiry seen =
     (if \<not> js_truthy jti then (True, seen)
      else
        let kept = filter (\<lambda>(_, e). \<not> e * 1000 < now) seen in
        if has_value jti (map fst kept) then (False, kept)
        else (True, kept @ [(the jti, if truthy_num expiry then the expiry else now div 1000 + 120)]))"

section \<open>Calls\<close>

record engine_call =
  ec_path :: string
  ec_token :: "string option"
  ec_body :: "json option"

definition login_call :: "string \<Rightarrow> engine_call" where
  "login_call jwt = \<lparr>ec_path = ''/v1/auth/jwt/login'', ec_token = None,
     ec_body = Some (JObj [(''role'', JStr ''gateway-redeemer''), (''jwt'', JStr jwt)])\<rparr>"

definition policy_name :: "hkind \<Rightarrow> string \<Rightarrow> string" where
  "policy_name k host = (if k = SshCa then ''child-ssh-'' @ host else ''child-kv-'' @ host)"

definition child_call :: "string \<Rightarrow> hkind \<Rightarrow> string \<Rightarrow> engine_call" where
  "child_call tok k host = \<lparr>ec_path = ''/v1/auth/token/create'', ec_token = Some tok,
     ec_body = Some (JObj [(''policies'', JArr [JStr (policy_name k host)]), (''num_uses'', JNum 1), (''ttl'', JStr ''90s''),
       (''no_default_policy'', JBool True), (''renewable'', JBool False)])\<rparr>"

definition use_call ::
  "string \<Rightarrow> string \<Rightarrow> handle_row \<Rightarrow> string option \<Rightarrow> string \<Rightarrow> engine_call" where
  "use_call tok ttl h key ticket =
     (if hd_kind h = SshCa
      then \<lparr>ec_path = ''/v1/ssh/sign/gateway-'' @ hd_host h, ec_token = Some tok,
        ec_body = Some (JObj ((case key of None \<Rightarrow> [] | Some k \<Rightarrow> [(''public_key'', JStr k)]) @
          [(''valid_principals'', jstr (hd_principal h)), (''key_id'', JStr ticket), (''ttl'', JStr ttl)]))\<rparr>
      else \<lparr>ec_path = ''/v1/'' @ hd_ref h, ec_token = Some tok, ec_body = None\<rparr>)"

definition classify :: "fetched \<Rightarrow> json eresult" where
  "classify reply =
     (case reply of
        NetError \<Rightarrow> EErr EUnavailable
      | Resp st j \<Rightarrow>
          (if st = 503 then EErr ESealed
           else if st = 403 \<or> st = 400 then EErr EDenied
           else if \<not> resp_ok st then EErr EUnavailable
           else case j of None \<Rightarrow> ECrash | Some x \<Rightarrow> EOk x))"

definition jpath2 :: "string \<Rightarrow> string \<Rightarrow> json \<Rightarrow> json option" where
  "jpath2 a b j = Option.bind (jget a j) (jget b)"

definition client_token :: "fetched \<Rightarrow> string eresult" where
  "client_token reply =
     (case classify reply of
        EOk j \<Rightarrow> (if js_truthy (jpath2 ''auth'' ''client_token'' j)
           then EOk (js_string (the (jpath2 ''auth'' ''client_token'' j))) else EErr EDenied)
      | EErr k \<Rightarrow> EErr k
      | ECrash \<Rightarrow> ECrash)"

record engine_out =
  eo_kind :: hkind
  eo_value :: "json option"
  eo_metadata :: json
  eo_request :: "json option"

definition use_result :: "string \<Rightarrow> handle_row \<Rightarrow> string \<Rightarrow> fetched \<Rightarrow> engine_out eresult" where
  "use_result ttl h ticket reply =
     (case classify reply of
        EErr k \<Rightarrow> EErr k
      | ECrash \<Rightarrow> ECrash
      | EOk j \<Rightarrow>
          (if hd_kind h = SshCa
           then EOk \<lparr>eo_kind = SshCa, eo_value = jpath2 ''data'' ''signed_key'' j,
              eo_metadata = JObj [(''ttl'', JStr ttl), (''valid_principals'', jstr (hd_principal h)), (''key_id'', JStr ticket)],
              eo_request = jget ''request_id'' j\<rparr>
           else if nullish (jpath2 ''data'' ''data'' j) then EErr EDenied
           else EOk \<lparr>eo_kind = Kv, eo_value = jpath2 ''data'' ''data'' j, eo_metadata = JObj [],
              eo_request = jget ''request_id'' j\<rparr>))"

text \<open>\<open>sealStatus\<close>: \<open>None\<close> is a state that cannot be confirmed.\<close>

definition seal_status :: "fetched \<Rightarrow> bool option" where
  "seal_status reply = (case classify reply of EOk j \<Rightarrow> Some (js_truthy (jget ''sealed'' j)) | _ \<Rightarrow> None)"

end
