(* ===== verification/VaultReleases.thy ===== *)
theory VaultReleases
  imports VaultAudit VaultAuth
begin

text \<open>
  The life of a release (\<open>service/releases.js\<close>), the reads of the handles (\<open>service/handles.js\<close>) and the
  client of the Board facts (\<open>clients/board.js\<close>). A release is staged by the claimant of a ticket and is
  powerless until the redemption; its status moves by compare-and-set only. The minted identifier is an
  argument of the operation that inserts it.
\<close>

section \<open>Asking the Board\<close>

datatype board_answer = BDown | BCrash | BGot json

definition board_get :: "fetched \<Rightarrow> board_answer" where
  "board_get reply =
     (case reply of
        NetError \<Rightarrow> BDown
      | Resp st j \<Rightarrow> (if \<not> resp_ok st then BDown else case j of None \<Rightarrow> BCrash | Some x \<Rightarrow> BGot x))"

definition is_str :: "string \<Rightarrow> json \<Rightarrow> string \<Rightarrow> bool" where
  "is_str k j s = (jget k j = Some (JStr s))"

definition facts_exist :: "json \<Rightarrow> bool" where
  "facts_exist j = (js_truthy (Some j) \<and> js_truthy (jget ''exists'' j))"

definition terminal_status :: "json option \<Rightarrow> bool" where
  "terminal_status j = (j \<in> {Some (JStr ''done''), Some (JStr ''failed''), Some (JStr ''cancelled'')})"

section \<open>Rows\<close>

definition live_handle :: "vault \<Rightarrow> string \<Rightarrow> handle_row option" where
  "live_handle v h = List.find (\<lambda>r. hd_handle r = h \<and> hd_retired r = None) (vs_handles v)"

definition find_release :: "vault \<Rightarrow> string \<Rightarrow> release_row option" where
  "find_release v rid = row_of rl_id rid (vs_releases v)"

definition upd_release :: "string \<Rightarrow> (release_row \<Rightarrow> bool) \<Rightarrow> (release_row \<Rightarrow> release_row) \<Rightarrow> vault \<Rightarrow> vault" where
  "upd_release rid q f v = v\<lparr>vs_releases := update_where (\<lambda>r. rl_id r = rid \<and> q r) f (vs_releases v)\<rparr>"

text \<open>\<open>#cas\<close>: the status moves only from the expected one; the boolean is \<open>changes === 1\<close>.\<close>

definition release_cas ::
  "string \<Rightarrow> rstatus \<Rightarrow> (release_row \<Rightarrow> release_row) \<Rightarrow> vault \<Rightarrow> bool \<times> vault" where
  "release_cas rid st f v =
     (count_where (\<lambda>r. rl_id r = rid \<and> rl_status r = st) (vs_releases v) = 1,
      upd_release rid (\<lambda>r. rl_status r = st) f v)"

definition get_release :: "int \<Rightarrow> string \<Rightarrow> vault \<Rightarrow> release_row option \<times> vault" where
  "get_release now rid v =
     (case find_release v rid of
        None \<Rightarrow> (None, v)
      | Some r \<Rightarrow>
          if rl_status r = RPending \<and> rl_expires r \<le> now
          then (Some (r\<lparr>rl_status := RExpired\<rparr>), snd (release_cas rid RPending (\<lambda>r. r\<lparr>rl_status := RExpired\<rparr>) v))
          else (Some r, v))"

section \<open>Staging a release\<close>

text \<open>What precedes the call of the Board: the handle as it was read then.\<close>

definition request_handle :: "string \<Rightarrow> vault \<Rightarrow> vexn + handle_row" where
  "request_handle handle v = need (live_handle v handle) (release_exn UnknownHandle) Inr"

definition new_release ::
  "vconfig \<Rightarrow> int \<Rightarrow> string \<Rightarrow> principal \<Rightarrow> string \<Rightarrow> handle_row \<Rightarrow> string option \<Rightarrow> string \<Rightarrow> release_row" where
  "new_release cfg now rid p ticket h op handle =
     \<lparr>rl_id = rid, rl_handle = handle, rl_host = hd_host h, rl_ticket = ticket, rl_by = p_sub p, rl_op = op,
      rl_status = RPending, rl_created = iso_string now, rl_expires = now + vc_release_ttl cfg,
      rl_redeemed_at = None, rl_redeemed_by = None, rl_redeem_op = None, rl_count = 0,
      rl_approval = None, rl_run = None\<rparr>"

definition release_answer :: "release_row \<Rightarrow> json" where
  "release_answer r = JObj [(''release_id'', JStr (rl_id r)), (''status'', JStr (rstatus_str (rl_status r))),
     (''expires_at'', JNum (rl_expires r))]"

definition request_commit ::
  "vconfig \<Rightarrow> vworld \<Rightarrow> int \<Rightarrow> string \<Rightarrow> principal \<Rightarrow> string \<Rightarrow> string \<Rightarrow> string option \<Rightarrow> handle_row
     \<Rightarrow> fetched \<Rightarrow> vault \<Rightarrow> vexn + (json \<times> vault)" where
  "request_commit cfg w now rid p ticket handle op h reply v =
     (case board_get reply of
        BDown \<Rightarrow> Inl (release_exn BoardDown)
      | BCrash \<Rightarrow> Inl VInternal
      | BGot facts \<Rightarrow>
          throw_if (\<not> facts_exist facts) (release_exn TicketNotFound)
         (throw_if (\<not> is_str ''claimed_by'' facts (p_sub p)) (release_exn NotClaimant)
         (throw_if (terminal_status (jget ''status'' facts)) (release_exn TicketTerminal)
         (throw_if (\<not> is_str ''host_id'' facts (hd_host h)) (release_exn HostMismatch)
         (case List.find (\<lambda>r. rl_ticket r = ticket \<and> rl_handle r = handle \<and> rl_status r = RPending) (vs_releases v) of
            Some r \<Rightarrow> Inr (release_answer r, v)
          | None \<Rightarrow>
              throw_if (find_release v rid \<noteq> None) VInternal
              (let r = new_release cfg now rid p ticket h op handle;
                   v1 = v\<lparr>vs_releases := vs_releases v @ [r]\<rparr>;
                   v2 = append_local w now ((event ''release_staged'')\<lparr>va_actor := Some (p_sub p),
                     va_handle := Some handle, va_release := Some rid, va_ticket := Some ticket, va_op := op,
                     va_outcome := Some ''ok''\<rparr>) v1
               in Inr (release_answer r, v2)))))))"

definition release_status :: "int \<Rightarrow> string \<Rightarrow> vault \<Rightarrow> (vexn + json) \<times> vault" where
  "release_status now rid v =
     (if \<not> is_release_id rid then (Inl (VBiz 404 ''unknown_release''), v)
      else case get_release now rid v of
          (None, v1) \<Rightarrow> (Inl (VBiz 404 ''unknown_release''), v1)
        | (Some r, v1) \<Rightarrow> (Inr (JObj [(''status'', JStr (rstatus_str (rl_status r)))]), v1))"

section \<open>Redeeming, revoking, expiring\<close>

definition redeemed_row ::
  "int \<Rightarrow> string \<Rightarrow> string option \<Rightarrow> string option \<Rightarrow> string option \<Rightarrow> release_row \<Rightarrow> release_row" where
  "redeemed_row now by op approval run r =
     r\<lparr>rl_status := RRedeemed, rl_redeemed_at := Some (iso_string now), rl_redeemed_by := Some by,
       rl_redeem_op := op, rl_approval := approval, rl_run := run\<rparr>"

definition mark_redeemed ::
  "int \<Rightarrow> string \<Rightarrow> string \<Rightarrow> string option \<Rightarrow> string option \<Rightarrow> string option \<Rightarrow> vault \<Rightarrow> bool \<times> vault" where
  "mark_redeemed now rid by op approval run = release_cas rid RPending (redeemed_row now by op approval run)"

definition bump_re_release :: "string \<Rightarrow> nat \<Rightarrow> vault \<Rightarrow> nat option \<times> vault" where
  "bump_re_release rid cap v =
     (case find_release v rid of
        None \<Rightarrow> (None, v)
      | Some r \<Rightarrow> if rl_count r \<ge> cap then (None, v)
          else (Some (rl_count r + 1), upd_release rid (\<lambda>_. True) (\<lambda>r. r\<lparr>rl_count := rl_count r + 1\<rparr>) v))"

definition revoke_by_id :: "vworld \<Rightarrow> int \<Rightarrow> string \<Rightarrow> string \<Rightarrow> vault \<Rightarrow> bool \<times> vault" where
  "revoke_by_id w now rid actor v =
     (let (won, v1) = release_cas rid RPending (\<lambda>r. r\<lparr>rl_status := RRevoked\<rparr>) v in
      (won, append_local w now ((event ''release_revoked'')\<lparr>va_actor := Some actor, va_release := Some rid,
         va_outcome := Some (if won then ''ok'' else ''noop'')\<rparr>) v1))"

definition revoke_one :: "string \<Rightarrow> nat \<times> vault \<Rightarrow> nat \<times> vault" where
  "revoke_one rid = (\<lambda>(n, v). let (won, v1) = release_cas rid RPending (\<lambda>r. r\<lparr>rl_status := RRevoked\<rparr>) v
     in (if won then n + 1 else n, v1))"

definition revoke_by_ticket :: "vworld \<Rightarrow> int \<Rightarrow> string \<Rightarrow> string \<Rightarrow> vault \<Rightarrow> nat \<times> vault" where
  "revoke_by_ticket w now ticket actor v =
     (let ids = map rl_id (filter (\<lambda>r. rl_ticket r = ticket \<and> rl_status r = RPending) (vs_releases v));
          (n, v1) = fold revoke_one ids (0, v)
      in (n, append_local w now ((event ''release_revoked_ticket'')\<lparr>va_actor := Some actor, va_ticket := Some ticket,
         va_outcome := Some ''ok'', va_detail := detail [(''revoked'', JNum (int n))]\<rparr>) v1))"

definition sweep_expired :: "int \<Rightarrow> vault \<Rightarrow> nat \<times> vault" where
  "sweep_expired now v =
     (let p = (\<lambda>r. rl_status r = RPending \<and> rl_expires r \<le> now) in
      (count_where p (vs_releases v),
       v\<lparr>vs_releases := update_where p (\<lambda>r. r\<lparr>rl_status := RExpired\<rparr>) (vs_releases v)\<rparr>))"

definition revoke_all_pending :: "vworld \<Rightarrow> int \<Rightarrow> vault \<Rightarrow> nat \<times> vault" where
  "revoke_all_pending w now v =
     (let p = (\<lambda>r. rl_status r = RPending); n = count_where p (vs_releases v);
          v1 = v\<lparr>vs_releases := update_where p (\<lambda>r. r\<lparr>rl_status := RRevoked\<rparr>) (vs_releases v)\<rparr>
      in (n, if n \<noteq> 0 then append_local w now ((event ''cold_start_revoke'')\<lparr>va_outcome := Some ''ok'',
           va_detail := detail [(''revoked'', JNum (int n))]\<rparr>) v1 else v1))"

definition release_json :: "release_row \<Rightarrow> json" where
  "release_json r = JObj [(''release_id'', JStr (rl_id r)), (''handle'', JStr (rl_handle r)),
     (''host_id'', JStr (rl_host r)), (''ticket_id'', JStr (rl_ticket r)), (''requested_by_sub'', JStr (rl_by r)),
     (''request_op_id'', jstr (rl_op r)), (''status'', JStr (rstatus_str (rl_status r))),
     (''created_at'', JStr (rl_created r)), (''expires_at'', JNum (rl_expires r)),
     (''redeemed_at'', jstr (rl_redeemed_at r)), (''redeemed_by'', jstr (rl_redeemed_by r)),
     (''redeem_op_id'', jstr (rl_redeem_op r)), (''re_release_count'', JNum (int (rl_count r))),
     (''approval_id'', jstr (rl_approval r)), (''run_id'', jstr (rl_run r))]"

text \<open>An absent or empty filter does not restrict; the newest rows first, at most 500.\<close>

definition wanted :: "string option \<Rightarrow> string \<Rightarrow> bool" where
  "wanted q x = (\<not> truthy_str q \<or> q = Some x)"

definition newest_first :: "('r \<Rightarrow> 'k::linorder) \<Rightarrow> 'r list \<Rightarrow> 'r list" where
  "newest_first key rows = rev (sort_key key (rev rows))"

definition list_releases :: "string option \<Rightarrow> string option \<Rightarrow> string option \<Rightarrow> vault \<Rightarrow> json list" where
  "list_releases host ticket status v =
     map release_json (take 500 (newest_first rl_created
       (filter (\<lambda>r. wanted host (rl_host r) \<and> wanted ticket (rl_ticket r) \<and> wanted status (rstatus_str (rl_status r)))
          (vs_releases v))))"

section \<open>Handles\<close>

definition describe_handle :: "string \<Rightarrow> vault \<Rightarrow> vexn + json" where
  "describe_handle handle v =
     need (live_handle v handle) (VBiz 404 ''unknown_handle'') (\<lambda>r.
       Inr (JObj [(''handle'', JStr (hd_handle r)), (''host_id'', JStr (hd_host r)), (''kind'', JStr (hkind_str (hd_kind r))),
         (''description'', jstr (hd_desc r)), (''requires_approval_class'', JStr (hd_class r))]))"

definition handle_brief :: "handle_row \<Rightarrow> json" where
  "handle_brief r = JObj [(''handle'', JStr (hd_handle r)), (''host_id'', JStr (hd_host r)),
     (''kind'', JStr (hkind_str (hd_kind r))), (''description'', jstr (hd_desc r)),
     (''requires_approval_class'', JStr (hd_class r))]"

definition list_for_ticket :: "string \<Rightarrow> fetched \<Rightarrow> vault \<Rightarrow> vexn + json" where
  "list_for_ticket ticket reply v =
     (case board_get reply of
        BDown \<Rightarrow> Inl (release_exn BoardDown)
      | BCrash \<Rightarrow> Inl VInternal
      | BGot facts \<Rightarrow>
          throw_if (\<not> facts_exist facts) (VBiz 404 ''ticket_not_found'')
          (let host = jget ''host_id'' facts in
           Inr (JObj [(''ticket_id'', JStr ticket), (''host_id'', if js_truthy host then the host else JNull),
             (''handles'', JArr (if js_truthy host
               then map handle_brief (filter (\<lambda>r. host = Some (JStr (hd_host r)) \<and> hd_retired r = None) (vs_handles v))
               else []))])))"

definition list_handles :: "vault \<Rightarrow> json list" where
  "list_handles v =
     map (\<lambda>r. JObj [(''handle'', JStr (hd_handle r)), (''host_id'', JStr (hd_host r)), (''name'', JStr (hd_name r)),
         (''kind'', JStr (hkind_str (hd_kind r))), (''description'', jstr (hd_desc r)),
         (''requires_approval_class'', JStr (hd_class r)),
         (''rotation_policy'', jstr (map_option json_str (hd_rotation r))), (''recovery'', JStr (hd_recovery r)),
         (''created_at'', JStr (hd_created r))])
       (sort_key hd_handle (filter (\<lambda>r. hd_retired r = None) (vs_handles v)))"

definition handle_detail :: "string \<Rightarrow> vault \<Rightarrow> vexn + json" where
  "handle_detail handle v =
     need (live_handle v handle) (VBiz 404 ''unknown_handle'') (\<lambda>r.
       Inr (JObj [(''handle'', JStr (hd_handle r)), (''host_id'', JStr (hd_host r)), (''name'', JStr (hd_name r)),
         (''kind'', JStr (hkind_str (hd_kind r))), (''description'', jstr (hd_desc r)),
         (''requires_approval_class'', JStr (hd_class r)),
         (''rotation_policy'', case hd_rotation r of None \<Rightarrow> JNull | Some j \<Rightarrow> j), (''recovery'', JStr (hd_recovery r)),
         (''ssh_principal'', jstr (hd_principal r)), (''created_at'', JStr (hd_created r))]))"

end
