(* ===== verification/VaultManage.thy ===== *)
theory VaultManage
  imports VaultReleases VaultAuth
begin

text \<open>
  The operator surface of the Vault (\<open>service/manage.js\<close>): secrets, host onboarding with its staged sign
  role, the audit views, the status page and change control. Bodies are typed per route; a member of the
  wrong type is the case the code rejects or throws on.
\<close>

definition audit_change :: "vworld \<Rightarrow> int \<Rightarrow> string \<Rightarrow> string \<Rightarrow> (string \<times> json) list \<Rightarrow> vault \<Rightarrow> vault" where
  "audit_change w now actor action kvs = append_local w now ((event (''manage_'' @ action))\<lparr>va_actor := Some actor,
     va_outcome := Some ''ok'', va_detail := detail kvs\<rparr>)"

definition validation :: vexn where "validation = VBiz 422 ''validation''"

definition invariant_violation :: vexn where "invariant_violation = VBiz 422 ''invariant_violation''"

section \<open>Secrets\<close>

text \<open>\<open>INSERT \<dots> ON CONFLICT(handle) DO UPDATE\<close>.\<close>

definition upsert_handle :: "handle_row \<Rightarrow> (handle_row \<Rightarrow> handle_row) \<Rightarrow> vault \<Rightarrow> vault" where
  "upsert_handle r f v =
     (if count_where (\<lambda>x. hd_handle x = hd_handle r) (vs_handles v) = 0
      then v\<lparr>vs_handles := vs_handles v @ [r]\<rparr>
      else v\<lparr>vs_handles := update_where (\<lambda>x. hd_handle x = hd_handle r) f (vs_handles v)\<rparr>)"

definition name_arg :: "string option \<Rightarrow> bool" where
  "name_arg n = (case n of None \<Rightarrow> False | Some s \<Rightarrow> name_re s)"

definition host_arg :: "string option \<Rightarrow> bool" where
  "host_arg h = (case h of None \<Rightarrow> False | Some s \<Rightarrow> is_host_id s)"

text \<open>The engine client has no \<open>writeKv\<close> and no \<open>rotateKv\<close>, so the guarded calls of them do nothing.\<close>

definition create_kv ::
  "vworld \<Rightarrow> int \<Rightarrow> principal \<Rightarrow> string option \<Rightarrow> string option \<Rightarrow> string option \<Rightarrow> string option \<Rightarrow> json option
     \<Rightarrow> string option \<Rightarrow> vault \<Rightarrow> vexn + (json \<times> vault)" where
  "create_kv w now p host name value desc rotation recovery v =
     throw_if (\<not> host_arg host) validation
     (throw_if (\<not> name_arg name) validation
     (throw_if (\<not> truthy_str value) validation
     (throw_if (truthy_str recovery \<and> the recovery \<notin> set recoveries) validation
     (let h = the host; n = the name; handle = make_handle h n;
          rot = (if js_truthy rotation then rotation else None);
          rec = (case recovery of None \<Rightarrow> console_only | Some x \<Rightarrow> x);
          row = \<lparr>hd_handle = handle, hd_host = h, hd_name = n, hd_kind = Kv,
            hd_ref = ''kv/data/hosts/'' @ h @ ''/'' @ n, hd_desc = desc, hd_class = ''destructive'', hd_rotation = rot,
            hd_recovery = rec, hd_principal = None, hd_created = iso_string now, hd_retired = None\<rparr>;
          v1 = upsert_handle row (\<lambda>x. x\<lparr>hd_desc := desc, hd_rotation := rot, hd_recovery := rec\<rparr>) v
      in Inr (JObj [(''handle'', JStr handle), (''status'', JStr ''written'')],
           audit_change w now (p_sub p) ''kv_write'' [(''handle'', JStr handle)] v1)))))"

definition rotate_kv :: "vworld \<Rightarrow> int \<Rightarrow> principal \<Rightarrow> string \<Rightarrow> vault \<Rightarrow> vexn + (json \<times> vault)" where
  "rotate_kv w now p handle v =
     need (row_of hd_handle handle (vs_handles v)) (VBiz 404 ''unknown_handle'') (\<lambda>r.
       Inr (JObj [(''handle'', JStr handle), (''rotated'', JBool True), (''offbox_acked'', JBool False)],
         audit_change w now (p_sub p) ''kv_rotate'' [(''handle'', JStr handle), (''offbox_acked'', JBool False)] v))"

section \<open>Hosts and sign roles\<close>

definition host_json :: "host_row \<Rightarrow> json" where
  "host_json h = JObj [(''host_id'', JStr (ho_id h)), (''state'', JStr (hstate_str (ho_state h))),
     (''signrole_name'', jstr (ho_role h)), (''signrole_diff'', case ho_diff h of None \<Rightarrow> JNull | Some j \<Rightarrow> j),
     (''signrole_diff_hash'', jstr (ho_diff_hash h)),
     (''principals'', case ho_principals h of None \<Rightarrow> JNull | Some ps \<Rightarrow> JArr (map JStr ps)),
     (''ntp_ok'', JNum 0), (''ca_keys_provisioned_at'', JNull), (''recovery'', JStr (ho_recovery h)),
     (''breakglass_verified_at'', jstr (ho_breakglass h)), (''created_at'', JStr (ho_created h)),
     (''updated_at'', JStr (ho_updated h))]"

definition list_hosts :: "vault \<Rightarrow> json list" where
  "list_hosts v = map host_json (sort_key ho_id (vs_hosts v))"

definition find_host :: "vault \<Rightarrow> string \<Rightarrow> host_row option" where
  "find_host v h = row_of ho_id h (vs_hosts v)"

definition upd_host :: "string \<Rightarrow> (host_row \<Rightarrow> host_row) \<Rightarrow> vault \<Rightarrow> vault" where
  "upd_host h f v = v\<lparr>vs_hosts := update_where (\<lambda>r. ho_id r = h) f (vs_hosts v)\<rparr>"

definition register_host ::
  "vworld \<Rightarrow> int \<Rightarrow> principal \<Rightarrow> string option \<Rightarrow> string option \<Rightarrow> vault \<Rightarrow> vexn + (json \<times> vault)" where
  "register_host w now p host recovery v =
     throw_if (\<not> host_arg host) validation
     (let h = the host;
          row = \<lparr>ho_id = h, ho_state = HNew, ho_role = None, ho_diff = None, ho_diff_hash = None, ho_principals = None,
            ho_recovery = (case recovery of None \<Rightarrow> console_only | Some x \<Rightarrow> x), ho_breakglass = None,
            ho_created = iso_string now, ho_updated = iso_string now\<rparr>;
          v1 = (if find_host v h = None then v\<lparr>vs_hosts := vs_hosts v @ [row]\<rparr> else v)
      in Inr (JObj [(''host_id'', JStr h), (''state'', JStr ''new'')],
           audit_change w now (p_sub p) ''host_register'' [(''host_id'', JStr h)] v1))"

text \<open>\<open>s.split(',')\<close>\<close>

fun commas_from :: "string \<Rightarrow> string \<Rightarrow> string list" where
  "commas_from acc [] = [rev acc]"
| "commas_from acc (c # s) = (if c = CHR '','' then rev acc # commas_from [] s else commas_from (c # acc) s)"

definition split_commas :: "string \<Rightarrow> string list" where
  "split_commas = commas_from []"

definition name_list :: "json option \<Rightarrow> json list" where
  "name_list j =
     (case j of
        Some (JArr xs) \<Rightarrow> xs
      | _ \<Rightarrow> map JStr (filter (\<lambda>s. s \<noteq> []) (map trim (split_commas (string_or_empty j)))))"

text \<open>The first name with a wildcard or equal to root is refused; a name that is no string has no
  \<open>toLowerCase\<close>, so the code throws on it.\<close>

fun clean_names :: "json list \<Rightarrow> vexn + string list" where
  "clean_names [] = Inr []"
| "clean_names (JStr s # js) =
     (if CHR ''*'' \<in> set s \<or> map lower_char s = ''root'' then Inl invariant_violation
      else and_then (clean_names js) (\<lambda>ns. Inr (s # ns)))"
| "clean_names (JArr xs # js) = (if JStr ''*'' \<in> set xs then Inl invariant_violation else Inl VInternal)"
| "clean_names (_ # js) = Inl VInternal"

definition sign_role :: "string \<Rightarrow> string list \<Rightarrow> string list \<Rightarrow> json" where
  "sign_role role users principals = JObj [(''role'', JStr role), (''allowed_users'', JArr (map JStr users)),
     (''default_user'', JStr []), (''valid_principals'', JArr (map JStr principals)),
     (''allow_empty_principals'', JBool False)]"

definition sha_text :: "vworld \<Rightarrow> json \<Rightarrow> string" where
  "sha_text w j = ''sha256:'' @ vw_sha w (json_str j)"

definition stage_sign_role ::
  "vworld \<Rightarrow> int \<Rightarrow> principal \<Rightarrow> string \<Rightarrow> json option \<Rightarrow> json option \<Rightarrow> vault \<Rightarrow> vexn + (json \<times> vault)" where
  "stage_sign_role w now p host allowed principals v =
     need (find_host v host) (VBiz 404 ''unknown_host'') (\<lambda>_.
     (let us = name_list allowed; ps = name_list principals in
      and_then (clean_names (us @ ps)) (\<lambda>names.
      throw_if (ps = [] \<or> us = []) invariant_violation
      (let users = take (length us) names; prins = drop (length us) names;
           role = ''gateway-'' @ host; diff = sign_role role users prins; hash = sha_text w diff;
           v1 = upd_host host (\<lambda>h. h\<lparr>ho_state := HStaged, ho_role := Some role, ho_diff := Some diff,
             ho_diff_hash := Some hash, ho_principals := Some prins, ho_updated := iso_string now\<rparr>) v
       in Inr (JObj [(''host_id'', JStr host), (''signrole_name'', JStr role), (''diff'', diff),
              (''diff_hash'', JStr hash), (''state'', JStr ''staged'')],
            audit_change w now (p_sub p) ''signrole_stage'' [(''host_id'', JStr host), (''diff_hash'', JStr hash)] v1)))))"

definition apply_sign_role ::
  "vconfig \<Rightarrow> vworld \<Rightarrow> int \<Rightarrow> principal \<Rightarrow> string \<Rightarrow> string option \<Rightarrow> bool \<Rightarrow> vault \<Rightarrow> vexn + (json \<times> vault)" where
  "apply_sign_role cfg w now p host hash step_up v =
     need (find_host v host) (VBiz 409 ''not_staged'') (\<lambda>h.
     throw_if (ho_state h \<noteq> HStaged) (VBiz 409 ''not_staged'')
     (throw_if (ho_diff_hash h \<noteq> hash) (VBiz 409 ''stale_diff'')
     (throw_if (vc_production cfg \<and> \<not> step_up) (VBiz 403 ''step_up_required'')
     (let ps = (case ho_principals h of None \<Rightarrow> [] | Some xs \<Rightarrow> xs);
          name = (if ps = [] \<or> ps ! 0 = [] then ''access'' else ps ! 0);
          handle = make_handle host name; joined = join '','' ps;
          v1 = upd_host host (\<lambda>r. r\<lparr>ho_state := HReady, ho_updated := iso_string now\<rparr>) v;
          row = \<lparr>hd_handle = handle, hd_host = host, hd_name = name, hd_kind = SshCa,
            hd_ref = (case ho_role h of None \<Rightarrow> [] | Some x \<Rightarrow> x), hd_desc = Some (''SSH-CA access for '' @ host),
            hd_class = ''destructive'', hd_rotation = None, hd_recovery = ho_recovery h, hd_principal = Some joined,
            hd_created = iso_string now, hd_retired = None\<rparr>;
          v2 = upsert_handle row (\<lambda>x. x\<lparr>hd_principal := Some joined\<rparr>) v1
      in Inr (JObj [(''host_id'', JStr host), (''state'', JStr ''ready''), (''handle'', JStr handle)],
           audit_change w now (p_sub p) ''signrole_apply'' ([(''host_id'', JStr host)] @
             (case hash of None \<Rightarrow> [] | Some x \<Rightarrow> [(''diff_hash'', JStr x)]) @ [(''step_up'', JBool step_up)]) v2)))))"

section \<open>The audit views\<close>

text \<open>\<open>x LIKE pattern\<close>: \<open>%\<close> any run, \<open>_\<close> any character, letters without case.\<close>

fun like :: "string \<Rightarrow> string \<Rightarrow> bool" where
  "like [] s = (s = [])"
| "like (p # ps) [] = (p = CHR ''%'' \<and> like ps [])"
| "like (p # ps) (c # s) =
     (if p = CHR ''%'' then like ps (c # s) \<or> like (p # ps) s
      else (p = CHR ''_'' \<or> lower_char p = lower_char c) \<and> like ps s)"

definition like_opt :: "string \<Rightarrow> string option \<Rightarrow> bool" where
  "like_opt pat s = (case s of None \<Rightarrow> False | Some x \<Rightarrow> like pat x)"

definition audit_json :: "vaudit \<Rightarrow> json" where
  "audit_json r = JObj ((''seq'', JNum (int (va_seq r))) # hash_fields r @
     [(''prev_hash'', jstr (va_prev r)), (''row_hash'', JStr (va_hash r))])"

definition as_of :: "int \<Rightarrow> string \<times> json" where
  "as_of now = (''as_of'', JStr (iso_string now))"

definition audit_query ::
  "int \<Rightarrow> string option \<Rightarrow> string option \<Rightarrow> string option \<Rightarrow> string option \<Rightarrow> vault \<Rightarrow> json" where
  "audit_query now host ticket sub outcome v =
     JObj [(''rows'', JArr (map audit_json (take 500 (rev (filter (\<lambda>r.
         (\<not> truthy_str host \<or> like_opt (''%'' @ the host @ ''%'') (va_detail r)) \<and>
         (\<not> truthy_str ticket \<or> va_ticket r = ticket) \<and> (\<not> truthy_str sub \<or> va_actor r = sub) \<and>
         (\<not> truthy_str outcome \<or> va_outcome r = outcome)) (vs_audit v)))))), as_of now]"

definition exfil_row :: "vaudit \<Rightarrow> bool" where
  "exfil_row r = (va_event r = ''redeem_denied'' \<and>
     (like_opt ''agent:%'' (va_actor r) \<or> va_actor r = None \<or> like_opt ''%not_gateway%'' (va_detail r)))"

definition audit_exfil :: "int \<Rightarrow> vault \<Rightarrow> json" where
  "audit_exfil now v = JObj [(''rows'', JArr (map audit_json (take 200 (rev (filter exfil_row (vs_audit v)))))), as_of now]"

definition head_matches :: "nat \<times> string option \<Rightarrow> json \<Rightarrow> bool" where
  "head_matches local worm = (jget ''seq'' worm = Some (JNum (int (fst local))) \<and>
     jget ''row_hash'' worm = Some (jstr (snd local)))"

definition chain_status :: "vconfig \<Rightarrow> int \<Rightarrow> fetched \<Rightarrow> vault \<Rightarrow> json" where
  "chain_status cfg now reply v =
     (let local = audit_head (vs_audit v); worm = worm_head cfg reply in
      JObj [(''local_head'', head_json local), (''worm_head'', case worm of None \<Rightarrow> JNull | Some j \<Rightarrow> j),
        (''matched'', if js_truthy worm then JBool (head_matches local (the worm)) else JNull), as_of now])"

section \<open>Status and change control\<close>

definition vault_status :: "vconfig \<Rightarrow> int \<Rightarrow> fetched \<Rightarrow> fetched \<Rightarrow> vault \<Rightarrow> json" where
  "vault_status cfg now seal_reply worm_reply v =
     (let chain = chain_status cfg now worm_reply v; worm_ok = \<not> nullish (jget ''worm_head'' chain) in
      JObj [as_of now,
        (''seal'', case seal_status seal_reply of
            None \<Rightarrow> JObj [(''state'', JStr ''unknown''), (''confirmable'', JBool False)]
          | Some s \<Rightarrow> JObj [(''state'', JStr (if s then ''sealed'' else ''unsealed'')), (''confirmable'', JBool True)]),
        (''unsealer'', JObj [(''address'', JStr (vc_unsealer cfg)), (''seal_token_ttl'', JNull)]),
        (''recovery_quorum'', JObj [(''shares'', JStr ''3-of-5''), (''escrow'', JStr ''offline'')]),
        (''audit_sinks'', JObj [(''local'', JBool True), (''worm'', JBool worm_ok),
           (''both_current'', JBool (worm_ok \<and> js_truthy (jget ''matched'' chain)))]),
        (''engine_stream_xcorr'', JStr (if worm_ok then ''live'' else ''unknown'')),
        (''kill'', JObj [(''level'', mi_kill (vs_mirror v)), (''epoch'', JNum (mi_epoch (vs_mirror v)))]),
        (''backups'', JObj [(''snapshot_dest'', jstr (link (vc_snapshot cfg))), (''snapshot_dest_reachable'', JNull)]),
        (''ca'', JObj [(''fingerprint'', JNull), (''rotation_runbook'', JStr ''openbao/README.md'')]),
        (''ssh_ca_key'', JStr ''inside-barrier-non-exportable''),
        (''break_glass'', JArr (map (\<lambda>h. JObj [(''host_id'', JStr (ho_id h)), (''last_verified'', jstr (ho_breakglass h))])
           (sort_key ho_id (vs_hosts v))))])"

text \<open>Members that are undefined are left out of the text.\<close>

definition change_body :: "json option \<Rightarrow> json option \<Rightarrow> json option \<Rightarrow> (string \<times> json) list" where
  "change_body edit old new =
     concat (map (\<lambda>(k, x). case x of None \<Rightarrow> [] | Some j \<Rightarrow> [(k, j)])
       [(''edit'', edit), (''from'', old), (''to'', new)])"

definition change_control_diff :: "vworld \<Rightarrow> int \<Rightarrow> json option \<Rightarrow> json option \<Rightarrow> json option \<Rightarrow> json" where
  "change_control_diff w now edit old new =
     JObj (change_body edit old new @ [(''diff_hash'', JStr (sha_text w (JObj (change_body edit old new)))),
       (''gate_weakening'', JBool True), as_of now])"

definition change_control_apply ::
  "vconfig \<Rightarrow> vworld \<Rightarrow> int \<Rightarrow> principal \<Rightarrow> json option \<Rightarrow> json option \<Rightarrow> json option \<Rightarrow> string option \<Rightarrow> bool \<Rightarrow> vault
     \<Rightarrow> vexn + (json \<times> vault)" where
  "change_control_apply cfg w now p edit old new hash step_up v =
     (let body = change_body edit old new; expect = sha_text w (JObj body) in
      throw_if (hash \<noteq> Some expect) (VBiz 409 ''stale_diff'')
     (throw_if (vc_production cfg \<and> \<not> step_up) (VBiz 403 ''step_up_required'')
     (throw_if (killed (vs_mirror v)) (VBiz 409 ''kill_engaged'')
     (Inr (JObj ((case edit of None \<Rightarrow> [] | Some j \<Rightarrow> [(''edit'', j)]) @
            [(''applied'', JBool True), (''diff_hash'', JStr expect)]),
        audit_change w now (p_sub p) ''change_control_apply''
          (body @ [(''diff_hash'', JStr expect), (''step_up'', JBool step_up)]) v)))))"

end
