(* ===== verification/VaultRedeem.thy ===== *)
theory VaultRedeem
  imports VaultReleases VaultAuth
begin

text \<open>
  The redemption (\<open>service/redeem.js\<close>): a pipeline of checks with a call to another service between most of
  them. Every \<open>await\<close> lets other requests run, so a redemption is a machine: \<open>pc\<close> is the call a
  request waits for, with the local variables it needs afterwards, and one definition per segment between
  two calls. The messages of the exfiltration signal to Chat and the log are best effort and not part of
  any answer.
\<close>

section \<open>Requests in flight\<close>

record channel =
  ch_ok :: bool
  ch_cn :: "string option"
  ch_thumb :: "string option"
  ch_token :: string
  ch_claims :: "json option"

record redeem_req =
  rq_release :: string
  rq_ticket :: string
  rq_approval :: string
  rq_host :: string
  rq_plan :: string
  rq_run :: "string option"
  rq_op :: string
  rq_key :: "string option"
  rq_trace :: "string option"

text \<open>The local variables once the release has been read: the holder, the rows as they were read then,
  whether this is a repeat, \<open>revocationCheckTs\<close>, and the facts of the Board the checks passed on (the
  code does not keep these; the properties speak about them).\<close>

record rcase =
  rc_holder :: holder
  rc_release :: release_row
  rc_handle :: handle_row
  rc_repeat :: bool
  rc_live :: int
  rc_facts :: json

datatype result = Credential rcase json | Rejected reject | Crashed

datatype pc =
    AtToken
  | AtLive rcase
  | AtApproval rcase
  | AtLock rcase json
  | AtAttempt rcase
  | AtLiveAgain rcase
  | AtLogin rcase
  | AtChild rcase string
  | AtUse rcase string
  | AtOutcome rcase engine_out nat
  | AtDenial reject
  | Ended result

text \<open>What a call resolves to.\<close>

datatype reply = Claims "json option" | Fetched fetched | Shipped "nat option"

section \<open>Denials\<close>

text \<open>\<open>#denied\<close>: the row is appended, and the rejection leaves when the sink has acknowledged it.\<close>

definition denied_row ::
  "redeem_req \<Rightarrow> string option \<Rightarrow> reject \<Rightarrow> (string \<times> json) list \<Rightarrow> vaudit" where
  "denied_row req sub r det = (event ''redeem_denied'')\<lparr>va_actor := link sub, va_release := link (Some (rq_release req)),
     va_ticket := link (Some (rq_ticket req)), va_approval := link (Some (rq_approval req)), va_run := link (rq_run req),
     va_trace := link (rq_trace req), va_op := link (Some (rq_op req)), va_outcome := Some ''denied'',
     va_detail := detail ((''code'', JStr (reject_code r)) # det)\<rparr>"

definition deny ::
  "vworld \<Rightarrow> int \<Rightarrow> redeem_req \<Rightarrow> string option \<Rightarrow> reject \<Rightarrow> (string \<times> json) list \<Rightarrow> vault \<Rightarrow> pc \<times> vault" where
  "deny w now req sub r det v = (AtDenial r, append_local w now (denied_row req sub r det) v)"

definition after_denial :: "vconfig \<Rightarrow> reject \<Rightarrow> nat option \<Rightarrow> pc" where
  "after_denial cfg r st = Ended (Rejected (if worm_acked cfg st then r else AuditUnavailable))"

section \<open>Steps 0 to 8\<close>

definition redeem_start :: "vconfig \<Rightarrow> vworld \<Rightarrow> int \<Rightarrow> channel \<Rightarrow> redeem_req \<Rightarrow> vault \<Rightarrow> pc \<times> vault" where
  "redeem_start cfg w now ch req v =
     (if \<not> ch_ok ch then deny w now req None NotGatewayChannel [(''channel'', jstr (link (ch_cn ch)))] v
      else (AtToken, v))"

text \<open>\<open>#subFromClaims\<close>\<close>

definition sub_from_claims :: "vconfig \<Rightarrow> channel \<Rightarrow> string option" where
  "sub_from_claims cfg ch =
     (if vc_dev cfg \<and> js_truthy (Option.bind (ch_claims ch) (jget ''sub''))
      then Some (js_string (the (Option.bind (ch_claims ch) (jget ''sub'')))) else None)"

definition is_repeat :: "redeem_req \<Rightarrow> string \<Rightarrow> release_row \<Rightarrow> bool" where
  "is_repeat req sub r =
     (rl_status r = RRedeemed \<and> truthy_str (rl_redeem_op r) \<and> rl_redeem_op r = Some (rq_op req) \<and>
      rl_redeemed_by r = Some sub)"

text \<open>The first half of the live check needs no call; a development setup skips the second.\<close>

definition ask_live ::
  "vconfig \<Rightarrow> vworld \<Rightarrow> int \<Rightarrow> redeem_req \<Rightarrow> (rcase \<Rightarrow> pc) \<Rightarrow> (rcase \<Rightarrow> vault \<Rightarrow> pc \<times> vault) \<Rightarrow> bool \<Rightarrow> rcase
     \<Rightarrow> vault \<Rightarrow> pc \<times> vault" where
  "ask_live cfg w now req waiting continue with_detail c v =
     (case live_local (rc_holder c) (vs_mirror v) of
        Some (r, det) \<Rightarrow> deny w now req (Some (hl_sub (rc_holder c))) r (if with_detail then det else []) v
      | None \<Rightarrow> if vc_dev cfg then continue (c\<lparr>rc_live := now\<rparr>) v else (waiting c, v))"

definition after_token ::
  "vconfig \<Rightarrow> vworld \<Rightarrow> int \<Rightarrow> channel \<Rightarrow> redeem_req \<Rightarrow> json option \<Rightarrow> vault \<Rightarrow> pc \<times> vault" where
  "after_token cfg w now ch req claims v =
     (case validate_holder_redeem cfg (if vc_dev cfg then ch_claims ch else claims) (ch_thumb ch) of
        Inl r \<Rightarrow> deny w now req (sub_from_claims cfg ch) r [] v
      | Inr h \<Rightarrow>
          let sub = hl_sub h; no = (\<lambda>r det x. deny w now req (Some sub) r det x) in
          (case get_release now (rq_release req) v of
             (None, v1) \<Rightarrow> no UnknownRelease [] v1
           | (Some r, v1) \<Rightarrow>
               if rl_ticket r \<noteq> rq_ticket req then no ReleaseNotPending [(''reason'', JStr ''ticket_mismatch'')] v1
               else if rl_status r = RExpired then no ReleaseExpired [] v1
               else if rl_status r \<noteq> RPending \<and> \<not> is_repeat req sub r
                 then no ReleaseNotPending [(''status'', JStr (rstatus_str (rl_status r)))] v1
               else case live_handle v1 (rl_handle r) of
                   None \<Rightarrow> no ReleaseNotPending [(''reason'', JStr ''handle_retired'')] v1
                 | Some hr \<Rightarrow>
                     ask_live cfg w now req AtLive (\<lambda>c x. (AtApproval c, x)) True
                       \<lparr>rc_holder = h, rc_release = r, rc_handle = hr, rc_repeat = is_repeat req sub r, rc_live = 0,
                        rc_facts = JNull\<rparr> v1))"

definition after_live ::
  "vworld \<Rightarrow> int \<Rightarrow> redeem_req \<Rightarrow> rcase \<Rightarrow> fetched \<Rightarrow> vault \<Rightarrow> pc \<times> vault" where
  "after_live w now req c reply v =
     (case live_remote reply of
        Some (r, det) \<Rightarrow> deny w now req (Some (hl_sub (rc_holder c))) r det v
      | None \<Rightarrow> (AtApproval (c\<lparr>rc_live := now\<rparr>), v))"

section \<open>Step 9: the approval\<close>

text \<open>The first check the facts fail, with the detail the audit row gets; the time-bound checks come after.\<close>

definition facts_fault :: "redeem_req \<Rightarrow> rcase \<Rightarrow> json \<Rightarrow> (reject \<times> (string \<times> json) list) option" where
  "facts_fault req c f =
     (let bad = (\<lambda>why. Some (ApprovalMismatch, [(''reason'', JStr why)])) in
      if \<not> facts_exist f then bad ''unknown_approval''
      else if \<not> is_str ''status'' f ''consumed''
        then Some (ApprovalNotConsumed, (case jget ''status'' f of None \<Rightarrow> [] | Some s \<Rightarrow> [(''status'', s)]))
      else if \<not> is_str ''consumed_by'' f (hl_sub (rc_holder c)) then bad ''consumed_by''
      else if \<not> is_str ''ticket_id'' f (rq_ticket req) then bad ''ticket_id''
      else if \<not> is_str ''host_id'' f (rq_host req) then bad ''host_id_req''
      else if \<not> is_str ''host_id'' f (hd_host (rc_handle c)) then bad ''host_id_handle''
      else if \<not> is_str ''plan_hash'' f (rq_plan req) then bad ''plan_hash''
      else if \<not> approval_class_sufficient (Some (JStr (hd_class (rc_handle c)))) (jget ''action_class'' f)
        then Some (ApprovalMismatch, [(''reason'', JStr ''class''), (''required'', JStr (hd_class (rc_handle c)))] @
          (case jget ''action_class'' f of None \<Rightarrow> [] | Some g \<Rightarrow> [(''granted'', g)]))
      else None)"

definition consumed_at :: "vworld \<Rightarrow> json \<Rightarrow> int option" where
  "consumed_at w f =
     (case jget ''consumed_at'' f of
        Some (JNum n) \<Rightarrow> Some n
      | j \<Rightarrow> vw_date w (string_or_empty j))"

definition fresh_enough :: "vconfig \<Rightarrow> vworld \<Rightarrow> int \<Rightarrow> json \<Rightarrow> bool" where
  "fresh_enough cfg w now f = (case consumed_at w f of None \<Rightarrow> False | Some t \<Rightarrow> now - t \<le> vc_window cfg)"

section \<open>Step 10: the attempt\<close>

text \<open>The columns an attempt and an outcome share.\<close>

definition attempt_row :: "string \<Rightarrow> redeem_req \<Rightarrow> rcase \<Rightarrow> vaudit" where
  "attempt_row kind req c = (event kind)\<lparr>va_actor := Some (hl_sub (rc_holder c)), va_handle := Some (rl_handle (rc_release c)),
     va_release := Some (rl_id (rc_release c)), va_ticket := Some (rq_ticket req), va_approval := Some (rq_approval req),
     va_run := rq_run req, va_trace := rq_trace req, va_op := Some (rq_op req), va_outcome := Some ''ok''\<rparr>"

definition ask_attempt :: "vworld \<Rightarrow> int \<Rightarrow> redeem_req \<Rightarrow> rcase \<Rightarrow> vault \<Rightarrow> pc \<times> vault" where
  "ask_attempt w now req c v = (AtAttempt c, append_local w now (attempt_row ''redeem_attempt'' req c) v)"

definition after_approval ::
  "vconfig \<Rightarrow> vworld \<Rightarrow> int \<Rightarrow> redeem_req \<Rightarrow> rcase \<Rightarrow> fetched \<Rightarrow> vault \<Rightarrow> pc \<times> vault" where
  "after_approval cfg w now req c reply v =
     (let no = (\<lambda>r det. deny w now req (Some (hl_sub (rc_holder c))) r det v) in
      case board_get reply of
        BDown \<Rightarrow> no BoardUnreachable []
      | BCrash \<Rightarrow> (Ended Crashed, v)
      | BGot f \<Rightarrow>
          (case facts_fault req c f of
             Some (r, det) \<Rightarrow> no r det
           | None \<Rightarrow>
               if rl_status (rc_release c) = RPending
               then (if fresh_enough cfg w now f then ask_attempt w now req (c\<lparr>rc_facts := f\<rparr>) v
                     else no ApprovalStale [(''by'', JStr ''W'')])
               else if \<not> is_str ''ticket_status'' f ''executing''
                 then no ApprovalStale ((''by'', JStr ''ticket_status'') #
                   (case jget ''ticket_status'' f of None \<Rightarrow> [] | Some s \<Rightarrow> [(''ticket_status'', s)]))
               else (AtLock c f, v)))"

definition execution_hold :: "redeem_req \<Rightarrow> json \<Rightarrow> bool" where
  "execution_hold req lock = (facts_exist lock \<and> is_str ''hold_kind'' lock ''execution'' \<and>
     is_str ''claimed_by_ticket'' lock (rq_ticket req))"

definition after_lock ::
  "vworld \<Rightarrow> int \<Rightarrow> redeem_req \<Rightarrow> rcase \<Rightarrow> json \<Rightarrow> fetched \<Rightarrow> vault \<Rightarrow> pc \<times> vault" where
  "after_lock w now req c f reply v =
     (let no = (\<lambda>r det. deny w now req (Some (hl_sub (rc_holder c))) r det v) in
      case board_get reply of
        BDown \<Rightarrow> no BoardUnreachable []
      | BCrash \<Rightarrow> (Ended Crashed, v)
      | BGot lock \<Rightarrow> if execution_hold req lock then ask_attempt w now req (c\<lparr>rc_facts := f\<rparr>) v
          else no ApprovalStale [(''by'', JStr ''execution_hold'')])"

section \<open>Steps 11 to 13\<close>

text \<open>The guard of the engine is checked in the segment that starts the login.\<close>

definition ask_engine ::
  "vworld \<Rightarrow> int \<Rightarrow> redeem_req \<Rightarrow> rcase \<Rightarrow> vault \<Rightarrow> pc \<times> vault" where
  "ask_engine w now req c v =
     (let (fresh, seen) = jti_check now (hl_jti (rc_holder c)) (hl_exp (rc_holder c)) (vs_jtis v);
          v1 = v\<lparr>vs_jtis := seen\<rparr>
      in if fresh then (AtLogin c, v1)
         else deny w now req (Some (hl_sub (rc_holder c))) EngineDenied [(''engine'', JStr ''denied'')] v1)"

definition after_attempt ::
  "vconfig \<Rightarrow> vworld \<Rightarrow> int \<Rightarrow> redeem_req \<Rightarrow> rcase \<Rightarrow> nat option \<Rightarrow> vault \<Rightarrow> pc \<times> vault" where
  "after_attempt cfg w now req c st v =
     (if \<not> worm_acked cfg st then (Ended (Rejected AuditUnavailable), v)
      else
        let (n, v1) = (if rc_repeat c then bump_re_release (rl_id (rc_release c)) re_release_cap v else (Some 0, v)) in
        if n = None then deny w now req (Some (hl_sub (rc_holder c))) ReReleaseCap [] v1
        else if now - rc_live c > vc_drift cfg
        then ask_live cfg w now req AtLiveAgain (ask_engine w now req) False c v1
        else ask_engine w now req c v1)"

definition after_live_again ::
  "vworld \<Rightarrow> int \<Rightarrow> redeem_req \<Rightarrow> rcase \<Rightarrow> fetched \<Rightarrow> vault \<Rightarrow> pc \<times> vault" where
  "after_live_again w now req c reply v =
     (case live_remote reply of
        Some (r, det) \<Rightarrow> deny w now req (Some (hl_sub (rc_holder c))) r [] v
      | None \<Rightarrow> ask_engine w now req (c\<lparr>rc_live := now\<rparr>) v)"

definition engine_reject :: "ekind \<Rightarrow> reject" where
  "engine_reject k = (case k of EDenied \<Rightarrow> EngineDenied | ESealed \<Rightarrow> EngineSealed | EUnavailable \<Rightarrow> EngineUnavailable)"

definition engine_step ::
  "vworld \<Rightarrow> int \<Rightarrow> redeem_req \<Rightarrow> rcase \<Rightarrow> 'a eresult \<Rightarrow> ('a \<Rightarrow> vault \<Rightarrow> pc \<times> vault) \<Rightarrow> vault \<Rightarrow> pc \<times> vault" where
  "engine_step w now req c res continue v =
     (case res of
        EOk x \<Rightarrow> continue x v
      | EErr k \<Rightarrow> deny w now req (Some (hl_sub (rc_holder c))) (engine_reject k) [(''engine'', JStr (ekind_str k))] v
      | ECrash \<Rightarrow> (Ended Crashed, v))"

definition after_login :: "vworld \<Rightarrow> int \<Rightarrow> redeem_req \<Rightarrow> rcase \<Rightarrow> fetched \<Rightarrow> vault \<Rightarrow> pc \<times> vault" where
  "after_login w now req c reply = engine_step w now req c (client_token reply) (\<lambda>tok v. (AtChild c tok, v))"

definition after_child :: "vworld \<Rightarrow> int \<Rightarrow> redeem_req \<Rightarrow> rcase \<Rightarrow> fetched \<Rightarrow> vault \<Rightarrow> pc \<times> vault" where
  "after_child w now req c reply = engine_step w now req c (client_token reply) (\<lambda>tok v. (AtUse c tok, v))"

definition outcome_row :: "redeem_req \<Rightarrow> rcase \<Rightarrow> engine_out \<Rightarrow> vaudit" where
  "outcome_row req c out =
     (attempt_row (if rc_repeat c then ''re_release'' else ''redeem_outcome'') req c)\<lparr>va_detail :=
        detail ([(''kind'', JStr (hkind_str (eo_kind out)))] @
          (case eo_request out of None \<Rightarrow> [] | Some j \<Rightarrow> [(''engine_request_id'', j)]) @
          [(''re_release'', JBool (rc_repeat c))])\<rparr>"

definition after_use ::
  "vconfig \<Rightarrow> vworld \<Rightarrow> int \<Rightarrow> redeem_req \<Rightarrow> rcase \<Rightarrow> fetched \<Rightarrow> vault \<Rightarrow> pc \<times> vault" where
  "after_use cfg w now req c reply =
     engine_step w now req c (use_result (vc_ssh_ttl cfg) (rc_handle c) (rq_ticket req) reply)
       (\<lambda>out v. let v1 = append_local w now (outcome_row req c out) v
                in (AtOutcome c out (fst (audit_head (vs_audit v1))), v1))"

definition redeem_body :: "rcase \<Rightarrow> engine_out \<Rightarrow> nat \<Rightarrow> json" where
  "redeem_body c out seq =
     JObj ((case eo_value out of None \<Rightarrow> []
         | Some x \<Rightarrow> [(if eo_kind out = SshCa then ''signed_cert'' else ''plaintext'', x)]) @
       [(''metadata'', eo_metadata out), (''release_id'', JStr (rl_id (rc_release c))), (''audit_ref'', JNum (int seq))])"

definition after_outcome ::
  "vconfig \<Rightarrow> vworld \<Rightarrow> int \<Rightarrow> redeem_req \<Rightarrow> rcase \<Rightarrow> engine_out \<Rightarrow> nat \<Rightarrow> nat option \<Rightarrow> vault \<Rightarrow> pc \<times> vault" where
  "after_outcome cfg w now req c out seq st v =
     (if \<not> worm_acked cfg st then (Ended (Rejected AuditUnavailable), v)
      else if rc_repeat c then (Ended (Credential c (redeem_body c out seq)), v)
      else
        let (won, v1) = mark_redeemed now (rl_id (rc_release c)) (hl_sub (rc_holder c)) (Some (rq_op req))
              (Some (rq_approval req)) (rq_run req) v
        in if won then (Ended (Credential c (redeem_body c out seq)), v1)
           else deny w now req (Some (hl_sub (rc_holder c))) ReleaseNotPending [(''reason'', JStr ''cas_lost'')] v1)"

section \<open>The machine\<close>

text \<open>A redemption resumed with what its call resolved to; \<open>None\<close> when it does not wait for such an
  outcome.\<close>

fun redeem_resume ::
  "vconfig \<Rightarrow> vworld \<Rightarrow> int \<Rightarrow> channel \<Rightarrow> redeem_req \<Rightarrow> reply \<Rightarrow> pc \<Rightarrow> vault \<Rightarrow> (pc \<times> vault) option" where
  "redeem_resume cfg w now ch req (Claims j) AtToken v = Some (after_token cfg w now ch req j v)"
| "redeem_resume cfg w now ch req (Fetched r) (AtLive c) v = Some (after_live w now req c r v)"
| "redeem_resume cfg w now ch req (Fetched r) (AtApproval c) v = Some (after_approval cfg w now req c r v)"
| "redeem_resume cfg w now ch req (Fetched r) (AtLock c f) v = Some (after_lock w now req c f r v)"
| "redeem_resume cfg w now ch req (Shipped st) (AtAttempt c) v = Some (after_attempt cfg w now req c st v)"
| "redeem_resume cfg w now ch req (Fetched r) (AtLiveAgain c) v = Some (after_live_again w now req c r v)"
| "redeem_resume cfg w now ch req (Fetched r) (AtLogin c) v = Some (after_login w now req c r v)"
| "redeem_resume cfg w now ch req (Fetched r) (AtChild c tok) v = Some (after_child w now req c r v)"
| "redeem_resume cfg w now ch req (Fetched r) (AtUse c tok) v = Some (after_use cfg w now req c r v)"
| "redeem_resume cfg w now ch req (Shipped st) (AtOutcome c out seq) v = Some (after_outcome cfg w now req c out seq st v)"
| "redeem_resume cfg w now ch req (Shipped st) (AtDenial r) v = Some (after_denial cfg r st, v)"
| "redeem_resume cfg w now ch req _ _ v = None"

section \<open>What is asked\<close>

text \<open>The call a waiting redemption has made: the token to validate or to introspect, the path of a Board
  fact, a call of the engine, the shipping of the row just appended.\<close>

datatype call = ValidateToken string | Introspect string | BoardFact string | Engine engine_call | ShipRow

fun outgoing :: "vconfig \<Rightarrow> channel \<Rightarrow> redeem_req \<Rightarrow> pc \<Rightarrow> call option" where
  "outgoing cfg ch req AtToken = Some (ValidateToken (ch_token ch))"
| "outgoing cfg ch req (AtLive c) = Some (Introspect (encode_uri (ch_token ch)))"
| "outgoing cfg ch req (AtLiveAgain c) = Some (Introspect (encode_uri (ch_token ch)))"
| "outgoing cfg ch req (AtApproval c) = Some (BoardFact (''/facts/approval/'' @ encode_uri (rq_approval req)))"
| "outgoing cfg ch req (AtLock c f) = Some (BoardFact (''/facts/host-lock/'' @ encode_uri (rq_host req)))"
| "outgoing cfg ch req (AtLogin c) = Some (Engine (login_call (ch_token ch)))"
| "outgoing cfg ch req (AtChild c tok) = Some (Engine (child_call tok (hd_kind (rc_handle c)) (hd_host (rc_handle c))))"
| "outgoing cfg ch req (AtUse c tok) =
     Some (Engine (use_call tok (vc_ssh_ttl cfg) (rc_handle c) (rq_key req) (rq_ticket req)))"
| "outgoing cfg ch req (AtAttempt c) = Some ShipRow"
| "outgoing cfg ch req (AtOutcome c out seq) = Some ShipRow"
| "outgoing cfg ch req (AtDenial r) = Some ShipRow"
| "outgoing cfg ch req (Ended res) = None"

end
