(* ===== verification/VaultSurface.thy ===== *)
theory VaultSurface
  imports VaultManage VaultRedeem
begin

text \<open>
  The outer surface of the Vault: the operator routes on the edge listener (\<open>api/http.js\<close>), the four MCP
  tools (\<open>mcp/tools.js\<close>, \<open>mcp/server.js\<close>), the creds listener (\<open>api/redeem.js\<close>), the budget middleware
  (\<open>auth/budget.js\<close>) and the boot sequence (\<open>index.js\<close>, \<open>config.js\<close>).
\<close>

section \<open>The budget middleware\<close>

definition vinflight :: "(string \<rightharpoonup> nat) \<Rightarrow> string \<Rightarrow> nat" where
  "vinflight m sub = (case m sub of Some n \<Rightarrow> n | None \<Rightarrow> 0)"

text \<open>\<open>None\<close> for the status: the call of the budget service threw.\<close>

definition vbudget_admit ::
  "vconfig \<Rightarrow> nat \<Rightarrow> vclass \<Rightarrow> string \<Rightarrow> nat option \<Rightarrow> (string \<rightharpoonup> nat) \<Rightarrow> refusal option \<times> (string \<rightharpoonup> nat)" where
  "vbudget_admit cfg cap cls sub status m =
     (let cur = vinflight m sub; m1 = m(sub \<mapsto> cur + 1) in
      if cap \<le> cur then (Some (Refusal 429 ''budget''), m)
      else if vc_dev cfg then (None, m1)
      else case status of
          Some st \<Rightarrow> (if st = 429 then Some (Refusal 429 ''budget'') else None, m1)
        | None \<Rightarrow> (if cls = VDestructiveExec then Some (Refusal 503 ''budget_unavailable'') else None, m1))"

definition vbudget_finish :: "string \<Rightarrow> (string \<rightharpoonup> nat) \<Rightarrow> (string \<rightharpoonup> nat)" where
  "vbudget_finish sub m =
     (let n = (if vinflight m sub = 0 then 1 else vinflight m sub) - 1
      in if n = 0 then m(sub := None) else m(sub \<mapsto> n))"

section \<open>The operator routes\<close>

datatype vroute =
    GetHandles
  | GetHandle string
  | PostKv "string option" "string option" "string option" "string option" "json option" "string option"
  | PostRotate string
  | GetHosts
  | PostHost "string option" "string option"
  | PostStage string "json option" "json option"
  | PostApply string "string option" bool
  | GetAudit "string option" "string option" "string option" "string option"
  | GetExfil
  | GetChain
  | PostVerify
  | GetReleases "string option" "string option" "string option"
  | PostRevoke string
  | GetStatus
  | GetDiff "json option" "json option" "json option"
  | PostChange "json option" "json option" "json option" "string option" bool

fun vroute_writes :: "vroute \<Rightarrow> bool" where
  "vroute_writes (PostKv _ _ _ _ _ _) = True"
| "vroute_writes (PostRotate _) = True"
| "vroute_writes (PostHost _ _) = True"
| "vroute_writes (PostStage _ _ _) = True"
| "vroute_writes (PostApply _ _ _) = True"
| "vroute_writes (PostRevoke _) = True"
| "vroute_writes (PostChange _ _ _ _ _) = True"
| "vroute_writes _ = False"

definition kept :: "vexn + (json \<times> vault) \<Rightarrow> vault \<Rightarrow> (vexn + json) \<times> vault" where
  "kept r v = (case r of Inl e \<Rightarrow> (Inl e, v) | Inr (j, v') \<Rightarrow> (Inr j, v'))"

definition note_revoked :: string where
  "note_revoked = ''pending release revoked; issued certs remain valid to TTL/KRL''"

text \<open>The two replies are those of the engine and of the log sink, for the routes that ask them.\<close>

fun vroute_run ::
  "vconfig \<Rightarrow> vworld \<Rightarrow> int \<Rightarrow> fetched \<Rightarrow> fetched \<Rightarrow> principal \<Rightarrow> vroute \<Rightarrow> vault \<Rightarrow> (vexn + json) \<times> vault" where
  "vroute_run cfg w now er wr p GetHandles v = (Inr (JObj [(''handles'', JArr (list_handles v))]), v)"
| "vroute_run cfg w now er wr p (GetHandle h) v = (handle_detail h v, v)"
| "vroute_run cfg w now er wr p (PostKv host name value desc rot rec) v =
     kept (create_kv w now p host name value desc rot rec v) v"
| "vroute_run cfg w now er wr p (PostRotate h) v = kept (rotate_kv w now p h v) v"
| "vroute_run cfg w now er wr p GetHosts v = (Inr (JObj [(''hosts'', JArr (list_hosts v))]), v)"
| "vroute_run cfg w now er wr p (PostHost host rec) v = kept (register_host w now p host rec v) v"
| "vroute_run cfg w now er wr p (PostStage host us ps) v = kept (stage_sign_role w now p host us ps v) v"
| "vroute_run cfg w now er wr p (PostApply host hash su) v = kept (apply_sign_role cfg w now p host hash su v) v"
| "vroute_run cfg w now er wr p (GetAudit host tk sub oc) v = (Inr (audit_query now host tk sub oc v), v)"
| "vroute_run cfg w now er wr p GetExfil v = (Inr (audit_exfil now v), v)"
| "vroute_run cfg w now er wr p GetChain v = (Inr (chain_status cfg now wr v), v)"
| "vroute_run cfg w now er wr p PostVerify v =
     (Inr (case verify_chain w v of JObj kvs \<Rightarrow> JObj (kvs @ [as_of now]) | j \<Rightarrow> j), v)"
| "vroute_run cfg w now er wr p (GetReleases host tk st) v =
     (Inr (JObj [(''releases'', JArr (list_releases host tk st v)), as_of now]), v)"
| "vroute_run cfg w now er wr p (PostRevoke rid) v =
     (let (won, v1) = revoke_by_id w now rid (p_sub p) v
      in (Inr (JObj [(''revoked'', JBool won), (''note'', JStr note_revoked)]), v1))"
| "vroute_run cfg w now er wr p GetStatus v = (Inr (vault_status cfg now er wr v), v)"
| "vroute_run cfg w now er wr p (GetDiff e old new) v = (Inr (change_control_diff w now e old new), v)"
| "vroute_run cfg w now er wr p (PostChange e old new hash su) v =
     kept (change_control_apply cfg w now p e old new hash su v) v"

text \<open>\<open>sendErr\<close>: the status and the body of an answer.\<close>

definition vanswer :: "vexn + json \<Rightarrow> nat \<times> json" where
  "vanswer r =
     (case r of
        Inr j \<Rightarrow> (200, j)
      | Inl (VBiz st code) \<Rightarrow> (st, JObj [(''code'', JStr code)])
      | Inl VInternal \<Rightarrow> (500, JObj [(''code'', JStr ''internal'')]))"

datatype vresponse = VRefused refusal | VAnswered nat json

definition edge_handle ::
  "vconfig \<Rightarrow> vworld \<Rightarrow> (string \<Rightarrow> json option) \<Rightarrow> int \<Rightarrow> nat option \<Rightarrow> fetched \<Rightarrow> fetched \<Rightarrow> headers \<Rightarrow> vroute
     \<Rightarrow> (string \<rightharpoonup> nat) \<times> vault \<Rightarrow> vresponse \<times> (string \<rightharpoonup> nat) \<times> vault" where
  "edge_handle cfg w jwt now budget er wr h c = (\<lambda>(m, v).
     case vrequire_scope cfg jwt ManageScope h of
       Inl r \<Rightarrow> (VRefused r, m, v)
     | Inr p \<Rightarrow>
         let (refused, m1) = (if vroute_writes c then vbudget_admit cfg (vc_ceiling cfg) VWriteBenign (p_sub p) budget m
               else (None, m)) in
         (case refused of
            Some r \<Rightarrow> (VRefused r, m1, v)
          | None \<Rightarrow>
              let (r, v1) = vroute_run cfg w now er wr p c v; (st, j) = vanswer r
              in (VAnswered st j, m1, v1)))"

section \<open>The agent tools\<close>

datatype vtool = ListHandles string | DescribeHandle string | RequestRelease string string string | ReleaseStatus string

fun vtool_scope :: "vtool \<Rightarrow> vscope" where
  "vtool_scope (ListHandles _) = Reference"
| "vtool_scope (DescribeHandle _) = Reference"
| "vtool_scope (RequestRelease _ _ _) = Reference"
| "vtool_scope (ReleaseStatus _) = Reference"

fun vtool_valid :: "vtool \<Rightarrow> bool" where
  "vtool_valid (RequestRelease _ _ op) = (1 \<le> length op \<and> length op \<le> 128)"
| "vtool_valid _ = True"

fun vtool_run ::
  "vconfig \<Rightarrow> vworld \<Rightarrow> int \<Rightarrow> string \<Rightarrow> fetched \<Rightarrow> principal \<Rightarrow> vtool \<Rightarrow> vault \<Rightarrow> (vexn + json) \<times> vault" where
  "vtool_run cfg w now rid board p (ListHandles ticket) v = (list_for_ticket ticket board v, v)"
| "vtool_run cfg w now rid board p (DescribeHandle h) v = (describe_handle h v, v)"
| "vtool_run cfg w now rid board p (RequestRelease ticket h op) v =
     kept (and_then (request_handle h v) (\<lambda>row. request_commit cfg w now rid p ticket h (Some op) row board v)) v"
| "vtool_run cfg w now rid board p (ReleaseStatus rid') v = release_status now rid' v"

datatype vtool_answer = VToolOk json | VToolError json | VToolThrows | VSchemaRejected

definition vtool_guard :: "vexn + json \<Rightarrow> vtool_answer" where
  "vtool_guard r =
     (case r of Inr j \<Rightarrow> VToolOk j
      | Inl (VBiz st code) \<Rightarrow> VToolError (JObj [(''code'', JStr code)])
      | Inl VInternal \<Rightarrow> VToolThrows)"

definition vtool_call ::
  "vconfig \<Rightarrow> vworld \<Rightarrow> int \<Rightarrow> string \<Rightarrow> fetched \<Rightarrow> principal \<Rightarrow> vtool \<Rightarrow> vault \<Rightarrow> vtool_answer \<times> vault" where
  "vtool_call cfg w now rid board p t v =
     (if \<not> vtool_valid t then (VSchemaRejected, v)
      else if vscope_str (vtool_scope t) \<notin> set (p_scopes p)
      then (VToolError (JObj [(''code'', JStr ''insufficient_scope''), (''scope'', JStr (vscope_str (vtool_scope t)))]), v)
      else let (r, v1) = vtool_run cfg w now rid board p t v in (vtool_guard r, v1))"

definition vmcp_handle ::
  "vconfig \<Rightarrow> vworld \<Rightarrow> (string \<Rightarrow> json option) \<Rightarrow> int \<Rightarrow> string \<Rightarrow> fetched \<Rightarrow> headers \<Rightarrow> vtool \<Rightarrow> vault
     \<Rightarrow> (refusal + vtool_answer) \<times> vault" where
  "vmcp_handle cfg w jwt now rid board h t v =
     (case vauthenticate cfg jwt h of
        Inl r \<Rightarrow> (Inl r, v)
      | Inr p \<Rightarrow> (let (a, v1) = vtool_call cfg w now rid board p t v in (Inr a, v1)))"

section \<open>The creds listener\<close>

text \<open>\<open>a.includes(b)\<close>\<close>

fun has_substring :: "string \<Rightarrow> string \<Rightarrow> bool" where
  "has_substring [] sub = (sub = [])"
| "has_substring (c # s) sub = (starts_with sub (c # s) \<or> has_substring s sub)"

text \<open>The client certificate of the connection, \<open>None\<close> when there is none or the chain was not accepted;
  the thumbprint is the digest of its raw bytes.\<close>

record peer_cert =
  pe_cn :: "string option"
  pe_san :: string
  pe_thumb :: string

definition channel_facts ::
  "vconfig \<Rightarrow> string option \<Rightarrow> string option \<Rightarrow> peer_cert option \<Rightarrow> bool \<times> string option \<times> string option" where
  "channel_facts cfg dev_cn dev_thumb cert =
     (if vc_dev cfg then (link dev_cn = Some (vc_gateway_cn cfg), link dev_cn, link dev_thumb)
      else case cert of
          None \<Rightarrow> (False, None, None)
        | Some x \<Rightarrow> (pe_cn x = Some (vc_gateway_cn cfg) \<or> has_substring (pe_san x) (vc_gateway_cn cfg),
            link (pe_cn x), Some (pe_thumb x)))"

text \<open>\<open>RedeemReq\<close>: a strict schema, every member a string.\<close>

definition str_of :: "json option \<Rightarrow> string option" where
  "str_of j = (case j of Some (JStr s) \<Rightarrow> Some s | _ \<Rightarrow> None)"

definition required_keys :: "string list" where
  "required_keys = [''release_id'', ''ticket_id'', ''approval_id'', ''host_id'', ''plan_hash'', ''op_id'']"

definition optional_keys :: "string list" where
  "optional_keys = [''run_id'', ''ssh_public_key'', ''traceparent'']"

definition parse_redeem_req :: "json \<Rightarrow> redeem_req option" where
  "parse_redeem_req body =
     (case body of
        JObj kvs0 \<Rightarrow>
          (let kvs = filter (\<lambda>(k, _). k \<noteq> ''__claims'') kvs0; s = (\<lambda>k. str_of (map_of kvs k)) in
           if list_all (\<lambda>(k, j). k \<in> set (required_keys @ optional_keys) \<and> str_of (Some j) \<noteq> None) kvs \<and>
              list_all (\<lambda>k. s k \<noteq> None) required_keys \<and> the (s ''op_id'') \<noteq> [] \<and> length (the (s ''op_id'')) \<le> 128
           then Some \<lparr>rq_release = the (s ''release_id''), rq_ticket = the (s ''ticket_id''),
             rq_approval = the (s ''approval_id''), rq_host = the (s ''host_id''), rq_plan = the (s ''plan_hash''),
             rq_run = s ''run_id'', rq_op = the (s ''op_id''), rq_key = s ''ssh_public_key'', rq_trace = s ''traceparent''\<rparr>
           else None)
      | _ \<Rightarrow> None)"

text \<open>\<open>header?.replace(/^Bearer\s+/i, '') || 'dev'\<close>\<close>

definition redeem_token :: "string option \<Rightarrow> string" where
  "redeem_token h =
     (case h of None \<Rightarrow> ''dev''
      | Some v \<Rightarrow>
          let rest = (if map lower_char (take 6 v) = ''bearer'' \<and> takeWhile is_ws (drop 6 v) \<noteq> []
                then dropWhile is_ws (drop 6 v) else v)
          in if rest = [] then ''dev'' else rest)"

text \<open>What a finished redemption answers.\<close>

definition redeem_answer :: "result \<Rightarrow> nat \<times> json" where
  "redeem_answer r =
     (case r of
        Credential c body \<Rightarrow> (200, body)
      | Rejected x \<Rightarrow> (reject_http x, reject_body x)
      | Crashed \<Rightarrow> (500, JObj [(''code'', JStr ''internal''), (''retry'', JStr ''later'')]))"

text \<open>\<open>POST /redeem\<close> up to its first call: closed while the log sink was unreachable at boot, the ceiling
  keyed on the Gateway's name, the body, the channel. The second component is the redemption that waits.\<close>

definition redeem_request ::
  "vconfig \<Rightarrow> vworld \<Rightarrow> int \<Rightarrow> bool \<Rightarrow> nat \<Rightarrow> nat option \<Rightarrow> bool \<times> string option \<times> string option \<Rightarrow> string option
     \<Rightarrow> json option \<Rightarrow> json \<Rightarrow> (string \<rightharpoonup> nat) \<times> vault
     \<Rightarrow> (vresponse + channel \<times> redeem_req \<times> pc) \<times> (string \<rightharpoonup> nat) \<times> vault" where
  "redeem_request cfg w now is_open cap budget facts auth claims body = (\<lambda>(m, v).
     if \<not> is_open then (Inl (VAnswered 503 (reject_body AuditUnavailable)), m, v)
     else
       let (refused, m1) = vbudget_admit cfg cap VDestructiveExec (vc_gateway_cn cfg) budget m in
       (case refused of
          Some r \<Rightarrow> (Inl (VRefused r), m1, v)
        | None \<Rightarrow>
            (case parse_redeem_req body of
               None \<Rightarrow> (Inl (VAnswered (reject_http BadRequest) (reject_body BadRequest)), m1, v)
             | Some req \<Rightarrow>
                 let ch = \<lparr>ch_ok = fst facts, ch_cn = fst (snd facts), ch_thumb = snd (snd facts),
                       ch_token = redeem_token auth, ch_claims = claims\<rparr>;
                     (p, v1) = redeem_start cfg w now ch req v
                 in (Inr (ch, req, p), m1, v1))))"

text \<open>\<open>POST /releases/revoke\<close>\<close>

definition revoke_request ::
  "vconfig \<Rightarrow> vworld \<Rightarrow> int \<Rightarrow> bool \<Rightarrow> nat \<Rightarrow> nat option \<Rightarrow> bool \<times> string option \<times> string option \<Rightarrow> string option
     \<Rightarrow> (string \<rightharpoonup> nat) \<times> vault \<Rightarrow> vresponse \<times> (string \<rightharpoonup> nat) \<times> vault" where
  "revoke_request cfg w now is_open cap budget facts ticket = (\<lambda>(m, v).
     if \<not> is_open then (VAnswered 503 (reject_body AuditUnavailable), m, v)
     else
       let (refused, m1) = vbudget_admit cfg cap VDestructiveExec (vc_gateway_cn cfg) budget m in
       (case refused of
          Some r \<Rightarrow> (VRefused r, m1, v)
        | None \<Rightarrow>
            if \<not> fst facts then (VAnswered 403 (reject_body NotGatewayChannel), m1, v)
            else if \<not> truthy_str ticket then (VAnswered 400 (reject_body BadRequest), m1, v)
            else let (n, v1) = revoke_by_ticket w now (the ticket) (vc_gateway_cn cfg) v
              in (VAnswered 200 (JObj [(''revoked'', JNum (int n)),
                   (''note'', JStr ''pending releases revoked; issued certs remain valid to TTL/KRL'')]), m1, v1)))"

section \<open>Boot\<close>

datatype vboot_problem = VDevNoAuth | VRedeemBind | VCredsFiles | VEngineFiles | VWormUnset | VSnapshotUnset

definition all_set :: "string option list \<Rightarrow> bool" where
  "all_set xs = list_all truthy_str xs"

definition vboot_problems :: "vconfig \<Rightarrow> vboot_problem list" where
  "vboot_problems cfg =
     (if vc_production cfg
      then (if vc_dev cfg then [VDevNoAuth] else [])
         @ (if \<not> truthy_str (vc_redeem_bind cfg) \<or> starts_with ''0.0.0.0'' (the (vc_redeem_bind cfg)) then [VRedeemBind] else [])
         @ (if \<not> all_set (vc_creds_files cfg) then [VCredsFiles] else [])
         @ (if \<not> all_set (vc_engine_files cfg) then [VEngineFiles] else [])
         @ (if \<not> truthy_str (vc_worm_url cfg) then [VWormUnset] else [])
         @ (if \<not> truthy_str (vc_snapshot cfg) then [VSnapshotUnset] else [])
      else [])"

text \<open>The reconciliation at the start: the memory is fresh, pending releases are revoked, the head of the
  log is compared, and the creds listener opens unless the log sink could not be read.\<close>

definition vault_boot :: "vconfig \<Rightarrow> vworld \<Rightarrow> int \<Rightarrow> fetched \<Rightarrow> vault \<Rightarrow> bool \<times> vault" where
  "vault_boot cfg w now reply v0 =
     (let v = v0\<lparr>vs_mirror := no_mirror, vs_jtis := []\<rparr>;
          v1 = snd (revoke_all_pending w now v);
          (check, v2) = detect_restore cfg w now reply v1;
          v3 = (if check = Restored then snd (revoke_all_pending w now v2) else v2)
      in (check \<noteq> WormUnavailable, v3))"

end
