(* ===== verification/VaultSystem.thy ===== *)
theory VaultSystem
  imports VaultSurface
begin

text \<open>
  The Vault as a system: the store, and the redemptions in flight. A step is one segment of a redemption, an
  operator route, an agent tool, a revocation by the Gateway, a sweep, a poll or a restart. Everything
  another service answers is arbitrary, and so are the clock and the minted identifiers.
\<close>

type_synonym vjob = "channel \<times> redeem_req \<times> pc"

fun ended :: "pc \<Rightarrow> bool" where
  "ended (Ended r) = True"
| "ended _ = False"

inductive vstep :: "vconfig \<Rightarrow> vworld \<Rightarrow> vault \<times> vjob list \<Rightarrow> vault \<times> vjob list \<Rightarrow> bool"
  for cfg :: vconfig and w :: vworld where
  s_start: "redeem_start cfg w now ch req v = (p, v') \<Longrightarrow> vstep cfg w (v, js) (v', js @ [(ch, req, p)])"
| s_resume: "i < length js \<Longrightarrow> js ! i = (ch, req, p) \<Longrightarrow> redeem_resume cfg w now ch req r p v = Some (p', v') \<Longrightarrow>
    vstep cfg w (v, js) (v', js[i := (ch, req, p')])"
| s_route: "vstep cfg w (v, js) (snd (vroute_run cfg w now er wr pr c v), js)"
| s_tool: "vstep cfg w (v, js) (snd (vtool_run cfg w now rid board pr t v), js)"
| s_request: "request_commit cfg w now rid pr ticket handle op h reply v = Inr (a, v') \<Longrightarrow> vstep cfg w (v, js) (v', js)"
| s_revoke: "vstep cfg w (v, js) (snd (revoke_by_ticket w now ticket actor v), js)"
| s_sweep: "vstep cfg w (v, js) (snd (sweep_expired now v), js)"
| s_poll: "vstep cfg w (v, js) (poll_revocations cfg reply v, js)"
| s_boot: "vstep cfg w (v, js) (snd (vault_boot cfg w now reply v), filter (\<lambda>(ch, req, p). ended p) js)"

definition vault_start :: "vault \<times> vjob list \<Rightarrow> bool" where
  "vault_start s = (s = (empty_vault, []))"

section \<open>What a step does to the store\<close>

text \<open>A release keeps what it was staged with, and once it is no longer pending also its status and the
  columns of the redemption; its counter only grows, up to the cap.\<close>

definition row_evolves :: "release_row \<Rightarrow> release_row \<Rightarrow> bool" where
  "row_evolves r r' \<longleftrightarrow> rl_id r' = rl_id r \<and> rl_handle r' = rl_handle r \<and> rl_host r' = rl_host r \<and>
     rl_ticket r' = rl_ticket r \<and> rl_by r' = rl_by r \<and> rl_op r' = rl_op r \<and> rl_created r' = rl_created r \<and>
     rl_expires r' = rl_expires r \<and> rl_count r \<le> rl_count r' \<and>
     rl_count r' \<le> max (rl_count r) re_release_cap \<and>
     (rl_status r = RPending \<or> rl_status r' = rl_status r \<and> rl_redeemed_at r' = rl_redeemed_at r \<and>
        rl_redeemed_by r' = rl_redeemed_by r \<and> rl_redeem_op r' = rl_redeem_op r \<and>
        rl_approval r' = rl_approval r \<and> rl_run r' = rl_run r)"

text \<open>\<open>spare\<close> names the releases that neither become redeemed nor have their counter moved.\<close>

definition row_spared :: "release_row \<Rightarrow> release_row \<Rightarrow> bool" where
  "row_spared r r' \<longleftrightarrow> rl_count r' = rl_count r \<and> (rl_status r' = RRedeemed \<longrightarrow> rl_status r = RRedeemed)"

definition row_step :: "(string \<Rightarrow> bool) \<Rightarrow> string \<Rightarrow> release_row option \<Rightarrow> release_row option \<Rightarrow> bool" where
  "row_step spare k x x' \<longleftrightarrow>
     (case x of
        None \<Rightarrow> (case x' of None \<Rightarrow> True | Some r' \<Rightarrow> rl_status r' \<noteq> RRedeemed \<and> rl_count r' = 0)
      | Some r \<Rightarrow> (case x' of None \<Rightarrow> False | Some r' \<Rightarrow> row_evolves r r' \<and> (spare k \<longrightarrow> row_spared r r')))"

definition unique_releases :: "vault \<Rightarrow> bool" where
  "unique_releases v = distinct (map rl_id (vs_releases v))"

text \<open>The log only grows, row by row, each row linked to the head it found.\<close>

inductive grows :: "vworld \<Rightarrow> vaudit list \<Rightarrow> vaudit list \<Rightarrow> bool" for w :: vworld where
  grows_refl: "grows w rows rows"
| grows_next: "grows w rows rows' \<Longrightarrow> grows w rows (rows' @ [next_row w now rec rows'])"

definition vevolves :: "vworld \<Rightarrow> (string \<Rightarrow> bool) \<Rightarrow> vault \<Rightarrow> vault \<Rightarrow> bool" where
  "vevolves w spare v v' \<longleftrightarrow>
     (\<forall>k. row_step spare k (find_release v k) (find_release v' k)) \<and>
     grows w (vs_audit v) (vs_audit v') \<and> (unique_releases v \<longrightarrow> unique_releases v')"

declare grows_refl [simp]

lemma grows_one [simp]: "grows w rows (rows @ [next_row w now rec rows])"
  by (rule grows_next) simp

lemma grows_trans: "grows w a b \<Longrightarrow> grows w b c \<Longrightarrow> grows w a c"
  by (rotate_tac, induction rule: grows.induct) (auto intro: grows_next)

lemma grows_prefix: "grows w a b \<Longrightarrow> \<exists>rows. b = a @ rows"
  by (induction rule: grows.induct) auto

lemma row_evolves_refl [simp]: "row_evolves r r"
  by (simp add: row_evolves_def)

lemma row_evolves_trans: "row_evolves r s \<Longrightarrow> row_evolves s t \<Longrightarrow> row_evolves r t"
  by (auto simp: row_evolves_def)

lemma row_spared_refl [simp]: "row_spared r r"
  by (simp add: row_spared_def)

lemma row_step_refl [simp]: "row_step spare k x x"
  by (simp add: row_step_def split: option.splits)

lemma row_step_trans:
  assumes "row_step spare k x y" and "row_step (\<lambda>_. True) k y z"
  shows "row_step spare k x z"
  using assms by (auto simp: row_step_def row_spared_def row_evolves_def split: option.splits)

lemma vevolves_refl [simp]: "vevolves w spare v v"
  by (simp add: vevolves_def)

lemma vevolves_trans: "vevolves w spare v v' \<Longrightarrow> vevolves w (\<lambda>_. True) v' v'' \<Longrightarrow> vevolves w spare v v''"
  unfolding vevolves_def by (blast intro: row_step_trans grows_trans)

lemma row_step_weaken: "row_step (\<lambda>_. True) k x y \<Longrightarrow> row_step spare k x y"
  by (simp add: row_step_def split: option.splits)

lemma vevolves_weaken: "vevolves w (\<lambda>_. True) v v' \<Longrightarrow> vevolves w spare v v'"
  unfolding vevolves_def by (blast intro: row_step_weaken)

lemma vevolves_frame:
  "vs_releases v' = vs_releases v \<Longrightarrow> grows w (vs_audit v) (vs_audit v') \<Longrightarrow> vevolves w spare v v'"
  by (simp add: vevolves_def find_release_def unique_releases_def)

lemma vevolves_append [simp]: "vevolves w spare v (append_local w now rec v)"
  by (rule vevolves_frame) simp_all

lemma vevolves_then_append: "vevolves w spare v v' \<Longrightarrow> vevolves w spare v (append_local w now rec v')"
  by (erule vevolves_trans) simp

lemma vevolves_update:
  assumes "\<And>r. rl_id (f r) = rl_id r" and "\<And>r. p r \<Longrightarrow> row_evolves r (f r) \<and> (spare (rl_id r) \<longrightarrow> row_spared r (f r))"
  shows "vevolves w spare v (v\<lparr>vs_releases := update_where p f (vs_releases v)\<rparr>)"
  using assms row_of_key [of rl_id _ "vs_releases v"]
  by (auto simp: vevolves_def find_release_def unique_releases_def map_key_update_where row_of_update_where row_step_def
      split: option.splits)

section \<open>Each operation\<close>

lemma cas_evolves:
  assumes "\<And>r. rl_id (f r) = rl_id r" and "\<And>r. rl_status r = st \<Longrightarrow> row_evolves r (f r) \<and> row_spared r (f r)"
  shows "vevolves w spare v (snd (release_cas rid st f v))"
  unfolding release_cas_def upd_release_def snd_conv by (rule vevolves_update) (use assms in auto)

lemma close_evolves:
  "st = RExpired \<or> st = RRevoked \<Longrightarrow> vevolves w spare v (snd (release_cas rid RPending (\<lambda>r. r\<lparr>rl_status := st\<rparr>) v))"
  by (rule cas_evolves) (auto simp: row_evolves_def row_spared_def)

lemma get_release_evolves: "vevolves w spare v (snd (get_release now rid v))"
  using close_evolves [of RExpired w spare v rid] by (auto simp: get_release_def split: option.splits)

lemma revoke_one_evolves: "vevolves w (\<lambda>_. True) (snd x) (snd (revoke_one rid x))"
  using close_evolves [of RRevoked w "\<lambda>_. True" "snd x" rid] by (cases x) (simp add: revoke_one_def split_def Let_def)

lemma revoke_fold_evolves: "vevolves w (\<lambda>_. True) (snd x) (snd (fold revoke_one ids x))"
proof (induction ids arbitrary: x)
  case Nil
  then show ?case by simp
next
  case (Cons rid ids)
  from vevolves_trans [OF revoke_one_evolves Cons] show ?case by simp
qed

lemma revoke_ticket_evolves: "vevolves w spare v (snd (revoke_by_ticket w now ticket actor v))"
proof -
  have "vevolves w spare v (snd (fold revoke_one ids (0, v)))" for ids
    using revoke_fold_evolves [of w "(0, v)" ids] by (simp add: vevolves_weaken)
  then show ?thesis by (simp add: revoke_by_ticket_def Let_def split_def vevolves_then_append)
qed

lemma revoke_id_evolves: "vevolves w spare v (snd (revoke_by_id w now rid actor v))"
  using close_evolves [of RRevoked w spare v rid] by (simp add: revoke_by_id_def Let_def split_def vevolves_then_append)

lemma sweep_evolves: "vevolves w spare v (snd (sweep_expired now v))"
  unfolding sweep_expired_def Let_def snd_conv by (rule vevolves_update) (auto simp: row_evolves_def row_spared_def)

lemma revoke_all_evolves: "vevolves w spare v (snd (revoke_all_pending w now v))"
proof -
  have "vevolves w spare v (v\<lparr>vs_releases := update_where (\<lambda>r. rl_status r = RPending) (\<lambda>r. r\<lparr>rl_status := RRevoked\<rparr>) (vs_releases v)\<rparr>)"
    by (rule vevolves_update) (auto simp: row_evolves_def row_spared_def)
  then show ?thesis by (simp add: revoke_all_pending_def Let_def vevolves_then_append)
qed

lemma detect_evolves: "vevolves w spare v (snd (detect_restore cfg w now reply v))"
  by (auto simp: detect_restore_def Let_def split: option.splits json.splits)

lemma boot_evolves: "vevolves w spare v (snd (vault_boot cfg w now reply v))"
proof -
  let ?v = "v\<lparr>vs_mirror := no_mirror, vs_jtis := []\<rparr>"
  have "vevolves w spare v ?v" by (rule vevolves_frame) simp_all
  from vevolves_trans [OF vevolves_trans [OF this revoke_all_evolves] detect_evolves]
  have "vevolves w spare v (snd (detect_restore cfg w now reply (snd (revoke_all_pending w now ?v))))" .
  then show ?thesis
    using vevolves_trans [OF _ revoke_all_evolves] by (simp add: vault_boot_def Let_def split_def)
qed

lemma request_evolves:
  assumes "request_commit cfg w now rid pr ticket handle op h reply v = Inr (a, v')"
  shows "vevolves w spare v v'"
proof -
  have new: "vevolves w spare v (v\<lparr>vs_releases := vs_releases v @ [new_release cfg now rid pr ticket h op handle]\<rparr>)"
    if "find_release v rid = None"
    unfolding vevolves_def
  proof (intro conjI allI impI)
    let ?v = "v\<lparr>vs_releases := vs_releases v @ [new_release cfg now rid pr ticket h op handle]\<rparr>"
    show "row_step spare k (find_release v k) (find_release ?v k)" for k
      by (simp add: find_release_def row_of_append row_step_def new_release_def split: option.splits)
    show "grows w (vs_audit v) (vs_audit ?v)" by simp
    show "unique_releases ?v" if "unique_releases v"
      using that \<open>find_release v rid = None\<close>
      by (simp add: unique_releases_def find_release_def row_of_None new_release_def)
  qed
  from assms show ?thesis
    by (auto simp: request_commit_def Let_def vevolves_then_append new split: board_answer.splits option.splits)
qed

lemma tool_evolves: "vevolves w spare v (snd (vtool_run cfg w now rid board pr t v))"
proof (cases t)
  case (RequestRelease ticket h op)
  then show ?thesis
    using request_evolves by (auto simp: kept_def split: sum.splits)
next
  case (ReleaseStatus rid')
  then show ?thesis
    using get_release_evolves [of w spare v now rid'] by (auto simp: release_status_def split: prod.splits option.splits)
qed simp_all

lemma manage_evolves:
  "create_kv w now p host name value desc rot rec v = Inr (a, v') \<Longrightarrow> vevolves w spare v v'"
  "rotate_kv w now p h v = Inr (a, v') \<Longrightarrow> vevolves w spare v v'"
  "register_host w now p host recovery v = Inr (a, v') \<Longrightarrow> vevolves w spare v v'"
  "stage_sign_role w now p hs us ps v = Inr (a, v') \<Longrightarrow> vevolves w spare v v'"
  "apply_sign_role cfg w now p hs hash su v = Inr (a, v') \<Longrightarrow> vevolves w spare v v'"
  "change_control_apply cfg w now p e old new hash su v = Inr (a, v') \<Longrightarrow> vevolves w spare v v'"
  by (auto simp: create_kv_def rotate_kv_def register_host_def stage_sign_role_def apply_sign_role_def
      change_control_apply_def Let_def audit_change_def upsert_handle_def upd_host_def intro!: vevolves_frame)

lemma route_evolves: "vevolves w spare v (snd (vroute_run cfg w now er wr pr c v))"
  by (cases c) (auto simp: kept_def manage_evolves split_def Let_def revoke_id_evolves split: sum.splits)

lemma poll_evolves: "vevolves w spare v (poll_revocations cfg reply v)"
  by (rule vevolves_frame) (auto simp: poll_revocations_def split: fetched.splits option.splits)

end
