(* ===== verification/VaultMachine.thy ===== *)
theory VaultMachine
  imports VaultSystem
begin

text \<open>
  One redemption against the store: what the record of a redemption in flight has been checked for, and
  what one of its segments does to the releases.
\<close>

section \<open>What has been checked\<close>

text \<open>A row of the log is the record it was appended as, up to the columns the log fills in.\<close>

definition logged :: "vaudit \<Rightarrow> vaudit list \<Rightarrow> bool" where
  "logged rec rows \<longleftrightarrow> (\<exists>row \<in> set rows. row = rec\<lparr>va_seq := va_seq row, va_ts := va_ts row, va_prev := va_prev row,
     va_hash := va_hash row\<rparr>)"

definition case_ok :: "redeem_req \<Rightarrow> rcase \<Rightarrow> bool" where
  "case_ok req c \<longleftrightarrow> hl_sub (rc_holder c) = gateway_sub \<and> rl_id (rc_release c) = rq_release req \<and>
     rl_ticket (rc_release c) = rq_ticket req \<and> hd_handle (rc_handle c) = rl_handle (rc_release c) \<and>
     (if rc_repeat c then is_repeat req gateway_sub (rc_release c) else rl_status (rc_release c) = RPending)"

definition approved :: "redeem_req \<Rightarrow> rcase \<Rightarrow> vaudit list \<Rightarrow> bool" where
  "approved req c rows \<longleftrightarrow> case_ok req c \<and> facts_fault req c (rc_facts c) = None \<and>
     logged (attempt_row ''redeem_attempt'' req c) rows"

fun pc_ok :: "redeem_req \<Rightarrow> vaudit list \<Rightarrow> pc \<Rightarrow> bool" where
  "pc_ok req rows AtToken = True"
| "pc_ok req rows (AtLive c) = case_ok req c"
| "pc_ok req rows (AtApproval c) = case_ok req c"
| "pc_ok req rows (AtLock c f) = (case_ok req c \<and> facts_fault req c f = None)"
| "pc_ok req rows (AtAttempt c) = approved req c rows"
| "pc_ok req rows (AtLiveAgain c) = approved req c rows"
| "pc_ok req rows (AtLogin c) = approved req c rows"
| "pc_ok req rows (AtChild c tok) = approved req c rows"
| "pc_ok req rows (AtUse c tok) = approved req c rows"
| "pc_ok req rows (AtOutcome c out seq) = (approved req c rows \<and> logged (outcome_row req c out) rows)"
| "pc_ok req rows (AtDenial r) = True"
| "pc_ok req rows (Ended res) =
     (case res of Credential c body \<Rightarrow> approved req c rows \<and>
        (\<exists>out seq. body = redeem_body c out seq \<and> logged (outcome_row req c out) rows) | _ \<Rightarrow> True)"

definition job_ok :: "vaudit list \<Rightarrow> vjob \<Rightarrow> bool" where
  "job_ok rows = (\<lambda>(ch, req, p). pc_ok req rows p \<and> (ch_ok ch \<or> (\<exists>r. p = AtDenial r \<or> p = Ended (Rejected r))))"

lemma logged_append: "logged rec rows \<Longrightarrow> logged rec (rows @ ys)"
  by (auto simp: logged_def)

lemma logged_next: "logged rec (rows @ [next_row w now rec rows])"
  unfolding logged_def
  by (rule bexI [of _ "next_row w now rec rows"]) (simp_all add: next_row_def Let_def split_def)

lemma approved_append: "approved req c rows \<Longrightarrow> approved req c (rows @ ys)"
  by (simp add: approved_def logged_append)

lemma pc_ok_append: "pc_ok req rows p \<Longrightarrow> pc_ok req (rows @ ys) p"
  by (cases p) (auto simp: approved_append logged_append split: result.splits)

lemma job_ok_append: "job_ok rows j \<Longrightarrow> job_ok (rows @ ys) j"
  by (auto simp: job_ok_def pc_ok_append)

lemma facts_fault_cong: "rc_holder c' = rc_holder c \<Longrightarrow> rc_handle c' = rc_handle c \<Longrightarrow> facts_fault req c' f = facts_fault req c f"
  by (simp add: facts_fault_def)

lemma facts_fault_updates [simp]:
  "facts_fault req (c\<lparr>rc_live := t\<rparr>) f = facts_fault req c f" "facts_fault req (c\<lparr>rc_facts := g\<rparr>) f = facts_fault req c f"
  by (rule facts_fault_cong; simp)+

lemma attempt_row_updates [simp]:
  "attempt_row k req (c\<lparr>rc_live := t\<rparr>) = attempt_row k req c" "attempt_row k req (c\<lparr>rc_facts := g\<rparr>) = attempt_row k req c"
  by (simp_all add: attempt_row_def)

lemma case_ok_updates [simp]:
  "case_ok req (c\<lparr>rc_live := t\<rparr>) = case_ok req c" "case_ok req (c\<lparr>rc_facts := g\<rparr>) = case_ok req c"
  by (simp_all add: case_ok_def)

lemma approved_update [simp]: "approved req (c\<lparr>rc_live := t\<rparr>) rows = approved req c rows"
  by (simp add: approved_def)

text \<open>A segment that goes wrong ends in a denial or an end without a credential.\<close>

fun unpaid :: "pc \<Rightarrow> bool" where
  "unpaid (AtDenial r) = True"
| "unpaid (Ended (Rejected r)) = True"
| "unpaid (Ended Crashed) = True"
| "unpaid _ = False"

lemma unpaid_ok: "unpaid p \<Longrightarrow> pc_ok req rows p"
  by (cases p) (auto split: result.splits)

lemma deny_unpaid [simp]: "unpaid (fst (deny w now req sub r det v))"
  by (simp add: deny_def)

lemma validated_gateway: "validate_holder_redeem cfg claims thumb = Inr h \<Longrightarrow> hl_sub h = gateway_sub"
  using validate_ok by (auto simp: validate_holder_redeem_def split: if_splits)

lemma find_release_id: "find_release v rid = Some r \<Longrightarrow> rl_id r = rid"
  unfolding find_release_def by (rule row_of_key)

lemma get_release_live:
  "get_release now rid v = (Some r, v1) \<Longrightarrow> rl_status r \<noteq> RExpired \<Longrightarrow> v1 = v \<and> find_release v rid = Some r \<and> rl_id r = rid"
  by (cases "find_release v rid") (auto simp: get_release_def split: if_splits dest: find_release_id)

lemma live_handle_key: "live_handle v h = Some r \<Longrightarrow> hd_handle r = h"
  by (auto simp: live_handle_def find_Some_iff)

lemma is_repeat_redeemed: "is_repeat req sub r \<Longrightarrow> rl_status r = RRedeemed"
  by (simp add: is_repeat_def)

lemma after_token_cases:
  assumes "after_token cfg w now ch req claims v = (p, v')"
  obtains (out) "unpaid p"
  | (on) h r hr c where "hl_sub h = gateway_sub" "find_release v (rq_release req) = Some r" "rl_ticket r = rq_ticket req"
      "rl_status r = RPending \<or> is_repeat req gateway_sub r" "live_handle v (rl_handle r) = Some hr" "v' = v"
      "rc_holder c = h" "rc_release c = r" "rc_handle c = hr" "rc_repeat c = is_repeat req gateway_sub r"
      "p = AtLive c \<or> vc_dev cfg \<and> p = AtApproval c" "live_local h (vs_mirror v) = None"
proof (cases "unpaid p")
  case True
  then show ?thesis by (rule out)
next
  case False
  have no: "deny w now req sub r det x \<noteq> (p, v')" for sub r det x
    using False deny_unpaid by (metis fst_conv)
  from assms no obtain h where h: "validate_holder_redeem cfg (if vc_dev cfg then ch_claims ch else claims) (ch_thumb ch) = Inr h"
    by (auto simp: after_token_def split: sum.splits)
  note g = validated_gateway [OF h]
  from assms no h obtain r v1 where r: "get_release now (rq_release req) v = (Some r, v1)"
    by (auto simp: after_token_def Let_def split: sum.splits prod.splits option.splits)
  from assms no h r have st: "rl_ticket r = rq_ticket req" "rl_status r \<noteq> RExpired"
    "rl_status r = RPending \<or> is_repeat req gateway_sub r"
    by (auto simp: after_token_def Let_def g split: if_splits)
  note v1 = get_release_live [OF r st(2)]
  from assms no h r st v1 obtain hr where hr: "live_handle v (rl_handle r) = Some hr"
    by (auto simp: after_token_def Let_def g split: option.splits if_splits)
  define c where "c = \<lparr>rc_holder = h, rc_release = r, rc_handle = hr, rc_repeat = is_repeat req gateway_sub r, rc_live = 0,
     rc_facts = JNull\<rparr>"
  from assms h r st v1 hr have "ask_live cfg w now req AtLive (\<lambda>c x. (AtApproval c, x)) True c v = (p, v')"
    by (auto simp: after_token_def Let_def g c_def split: if_splits)
  with no have loc: "live_local h (vs_mirror v) = None"
    and px: "(p, v') = (AtLive c, v) \<or> vc_dev cfg \<and> (p, v') = (AtApproval (c\<lparr>rc_live := now\<rparr>), v)"
    by (auto simp: ask_live_def c_def split: option.splits prod.splits if_splits)
  have rest: "find_release v (rq_release req) = Some r" using v1 by simp
  from px show ?thesis
  proof
    assume "(p, v') = (AtLive c, v)"
    then show ?thesis
      by (intro on [OF g rest st(1,3) hr _ _ _ _ _ _ loc, of c]) (simp_all add: c_def)
  next
    assume "vc_dev cfg \<and> (p, v') = (AtApproval (c\<lparr>rc_live := now\<rparr>), v)"
    then show ?thesis
      by (intro on [OF g rest st(1,3) hr _ _ _ _ _ _ loc, of "c\<lparr>rc_live := now\<rparr>"]) (simp_all add: c_def)
  qed
qed

section \<open>The checks stay passed\<close>

lemma deny_ok [simp]: "pc_ok req rows (fst (deny w now req sub r det v))"
  by (rule unpaid_ok) simp

lemma after_token_ok:
  "after_token cfg w now ch req claims v = (p, v') \<Longrightarrow> pc_ok req rows p"
  by (erule after_token_cases) (auto simp: unpaid_ok case_ok_def live_handle_key find_release_id)

lemma ask_attempt_ok:
  "case_ok req c \<Longrightarrow> facts_fault req c f = None \<Longrightarrow> ask_attempt w now req (c\<lparr>rc_facts := f\<rparr>) v = x \<Longrightarrow>
     pc_ok req (vs_audit (snd x)) (fst x)"
  by (auto simp: ask_attempt_def approved_def logged_next)

lemma after_live_ok: "case_ok req c \<Longrightarrow> pc_ok req rows (fst (after_live w now req c r v))"
  by (auto simp: after_live_def split: option.splits)

lemma after_approval_ok:
  "case_ok req c \<Longrightarrow> pc_ok req (vs_audit (snd (after_approval cfg w now req c r v))) (fst (after_approval cfg w now req c r v))"
  by (auto simp: after_approval_def Let_def ask_attempt_ok split: board_answer.splits option.splits)

lemma after_lock_ok:
  "case_ok req c \<Longrightarrow> facts_fault req c f = None \<Longrightarrow>
     pc_ok req (vs_audit (snd (after_lock w now req c f r v))) (fst (after_lock w now req c f r v))"
  by (auto simp: after_lock_def Let_def ask_attempt_ok split: board_answer.splits)

lemma ask_engine_ok: "approved req c rows \<Longrightarrow> pc_ok req rows (fst (ask_engine w now req c v))"
  by (simp add: ask_engine_def Let_def split_def)

lemma ask_live_ok:
  "approved req c rows \<Longrightarrow> pc_ok req rows (fst (ask_live cfg w now req AtLiveAgain (ask_engine w now req) d c v))"
  by (auto simp: ask_live_def ask_engine_ok split: option.splits)

lemma after_attempt_ok: "approved req c rows \<Longrightarrow> pc_ok req rows (fst (after_attempt cfg w now req c st v))"
  by (simp add: after_attempt_def Let_def split_def ask_live_ok ask_engine_ok)

lemma after_live_again_ok: "approved req c rows \<Longrightarrow> pc_ok req rows (fst (after_live_again w now req c r v))"
  by (auto simp: after_live_again_def ask_engine_ok split: option.splits)

lemma engine_step_ok:
  "(\<And>x. pc_ok req rows (fst (k x v))) \<Longrightarrow> pc_ok req rows (fst (engine_step w now req c res k v))"
  by (cases res) (simp_all add: engine_step_def)

lemma after_login_ok: "approved req c rows \<Longrightarrow> pc_ok req rows (fst (after_login w now req c r v))"
  unfolding after_login_def by (rule engine_step_ok) simp

lemma after_child_ok: "approved req c rows \<Longrightarrow> pc_ok req rows (fst (after_child w now req c r v))"
  unfolding after_child_def by (rule engine_step_ok) simp

lemma after_use_ok:
  assumes "approved req c (vs_audit v)"
  shows "pc_ok req (vs_audit (snd (after_use cfg w now req c r v))) (fst (after_use cfg w now req c r v))"
  using assms by (auto simp: after_use_def engine_step_def Let_def approved_append logged_next
      intro: deny_ok split: eresult.splits)

lemma after_outcome_ok:
  "approved req c rows \<Longrightarrow> logged (outcome_row req c out) rows \<Longrightarrow>
     pc_ok req rows (fst (after_outcome cfg w now req c out seq st v))"
  by (auto simp: after_outcome_def Let_def split_def)

section \<open>What a segment does to the releases\<close>

fun past_bump :: "pc \<Rightarrow> rcase option" where
  "past_bump (AtLiveAgain c) = Some c"
| "past_bump (AtLogin c) = Some c"
| "past_bump (AtChild c tok) = Some c"
| "past_bump (AtUse c tok) = Some c"
| "past_bump (AtOutcome c out seq) = Some c"
| "past_bump (Ended (Credential c body)) = Some c"
| "past_bump _ = None"

text \<open>A first credential for release \<open>k\<close>, and a repeat that has taken one of its re-releases.\<close>

definition first_paid :: "string \<Rightarrow> pc \<Rightarrow> bool" where
  "first_paid k p \<longleftrightarrow> (\<exists>c body. p = Ended (Credential c body) \<and> \<not> rc_repeat c \<and> rl_id (rc_release c) = k)"

definition spending :: "string \<Rightarrow> pc \<Rightarrow> bool" where
  "spending k p \<longleftrightarrow> (\<exists>c. past_bump p = Some c \<and> rc_repeat c \<and> rl_id (rc_release c) = k)"

text \<open>A tame segment moves neither account.\<close>

definition tame :: "vworld \<Rightarrow> pc \<Rightarrow> vault \<Rightarrow> pc \<times> vault \<Rightarrow> bool" where
  "tame w p v x \<longleftrightarrow> vevolves w (\<lambda>_. True) v (snd x) \<and> (\<forall>k. \<not> first_paid k (fst x)) \<and>
     (\<forall>k. spending k (fst x) \<longrightarrow> spending k p)"

lemma unpaid_still: "unpaid p \<Longrightarrow> \<not> first_paid k p \<and> \<not> spending k p"
  by (cases p rule: unpaid.cases) (auto simp: first_paid_def spending_def)

lemma tame_unpaid: "vevolves w (\<lambda>_. True) v v' \<Longrightarrow> unpaid p' \<Longrightarrow> tame w p v (p', v')"
  by (simp add: tame_def unpaid_still)

lemma tame_deny: "vevolves w (\<lambda>_. True) v0 v \<Longrightarrow> tame w p v0 (deny w now req sub r det v)"
  using tame_unpaid [of w v0 "snd (deny w now req sub r det v)" "fst (deny w now req sub r det v)"]
  by (simp add: deny_def vevolves_then_append)

lemma tame_deny_here [simp]: "tame w p v (deny w now req sub r det v)"
  by (rule tame_deny) simp

lemma tame_early:
  assumes "vevolves w (\<lambda>_. True) v0 v"
  shows "tame w p v0 (AtLive c, v)" "tame w p v0 (AtApproval c, v)" "tame w p v0 (AtLock c f, v)" "tame w p v0 (Ended Crashed, v)"
    "tame w p v0 (Ended (Rejected r), v)" "tame w p v0 (ask_attempt w now req c v)"
  using assms by (simp_all add: tame_def first_paid_def spending_def ask_attempt_def vevolves_then_append)

lemmas tame_early_here [simp] = tame_early [OF vevolves_refl]

lemma tame_late:
  assumes "past_bump p = Some c" and "vevolves w (\<lambda>_. True) v0 v"
  shows "tame w p v0 (AtLogin c, v)" "tame w p v0 (AtLogin (c\<lparr>rc_live := t\<rparr>), v)" "tame w p v0 (AtLiveAgain c, v)"
    "tame w p v0 (AtChild c tok, v)" "tame w p v0 (AtUse c tok, v)" "tame w p v0 (AtOutcome c out seq, v)"
    "rc_repeat c \<Longrightarrow> tame w p v0 (Ended (Credential c body), v)"
  using assms by (simp_all add: tame_def first_paid_def spending_def)

lemma tame_ask_engine:
  assumes "past_bump p = Some c"
  shows "tame w p v (ask_engine w now req c v)" "tame w p v (ask_engine w now req (c\<lparr>rc_live := t\<rparr>) v)"
proof -
  have js: "vevolves w (\<lambda>_. True) v (v\<lparr>vs_jtis := js\<rparr>)" for js
    by (rule vevolves_frame) simp_all
  show "tame w p v (ask_engine w now req c v)" "tame w p v (ask_engine w now req (c\<lparr>rc_live := t\<rparr>) v)"
    by (simp_all add: ask_engine_def Let_def split_def tame_late [OF assms js] tame_deny [OF js])
qed

lemma tame_engine_step:
  "(\<And>x. tame w p v (k x v)) \<Longrightarrow> tame w p v (engine_step w now req c res k v)"
  by (cases res) (simp_all add: engine_step_def)

lemma tame_after_token: "tame w AtToken v (after_token cfg w now ch req claims v)"
proof -
  have rel: "vevolves w (\<lambda>_. True) v v1" if "get_release now (rq_release req) v = (x, v1)" for x v1
    using get_release_evolves [of w "\<lambda>_. True" v now "rq_release req"] that by simp
  have live: "tame w AtToken v (ask_live cfg w now req AtLive (\<lambda>c x. (AtApproval c, x)) True c v1)"
    if "get_release now (rq_release req) v = (x, v1)" for c x v1
    using rel [OF that] by (auto simp: ask_live_def tame_early tame_deny split: option.splits)
  show ?thesis
    unfolding after_token_def Let_def
    by (auto simp: live intro: tame_deny rel split: sum.splits option.splits prod.splits)
qed

lemma tame_after_live: "tame w (AtLive c) v (after_live w now req c r v)"
  by (auto simp: after_live_def split: option.splits)

lemma tame_after_approval: "tame w (AtApproval c) v (after_approval cfg w now req c r v)"
  by (auto simp: after_approval_def Let_def split: board_answer.splits option.splits)

lemma tame_after_lock: "tame w (AtLock c f) v (after_lock w now req c f r v)"
  by (auto simp: after_lock_def Let_def split: board_answer.splits)

lemma tame_after_live_again: "tame w (AtLiveAgain c) v (after_live_again w now req c r v)"
  by (auto simp: after_live_again_def tame_ask_engine split: option.splits)

lemma tame_ask_live_again:
  "past_bump p = Some c \<Longrightarrow> tame w p v (ask_live cfg w now req AtLiveAgain (ask_engine w now req) d c v)"
  by (auto simp: ask_live_def tame_ask_engine tame_late split: option.splits)

lemma tame_after_login: "tame w (AtLogin c) v (after_login w now req c r v)"
  unfolding after_login_def by (rule tame_engine_step) (simp add: tame_late)

lemma tame_after_child: "tame w (AtChild c tok) v (after_child w now req c r v)"
  unfolding after_child_def by (rule tame_engine_step) (simp add: tame_late)

lemma tame_after_use: "tame w (AtUse c tok) v (after_use cfg w now req c r v)"
  unfolding after_use_def by (rule tame_engine_step) (simp add: tame_late Let_def)

text \<open>A segment either is tame, or it counts a re-release and then is tame, or it wins the compare-and-set.\<close>

definition effect :: "vworld \<Rightarrow> string \<Rightarrow> pc \<Rightarrow> vault \<Rightarrow> pc \<Rightarrow> vault \<Rightarrow> bool" where
  "effect w rid p v p' v' \<longleftrightarrow> vevolves w (\<lambda>k. k \<noteq> rid) v v' \<and>
     (\<forall>k. first_paid k p' \<longrightarrow> (\<exists>r r'. find_release v k = Some r \<and> rl_status r \<noteq> RRedeemed \<and>
        find_release v' k = Some r' \<and> rl_status r' = RRedeemed)) \<and>
     (\<forall>k. spending k p' \<longrightarrow> spending k p \<or> (\<exists>r r'. find_release v k = Some r \<and> find_release v' k = Some r' \<and>
        rl_count r' = Suc (rl_count r)))"

lemma tame_effect: "tame w p v (p', v') \<Longrightarrow> effect w rid p v p' v'"
  by (auto simp: tame_def effect_def intro: vevolves_weaken)

lemma find_release_update:
  assumes "\<And>r. rl_id (f r) = rl_id r"
  shows "find_release (upd_release rid q f v) k =
     (if k = rid then map_option (\<lambda>r. if q r then f r else r) (find_release v k) else find_release v k)"
  using assms by (simp add: find_release_def upd_release_def row_of_update_at)

lemma bump_evolves:
  assumes "bump_re_release rid re_release_cap v = (n, v')"
  shows "vevolves w (\<lambda>k. k \<noteq> rid) v v'"
proof (cases "n = None")
  case True
  with assms have "v' = v" by (auto simp: bump_re_release_def split: option.splits if_splits)
  then show ?thesis by simp
next
  case False
  with assms obtain r where r: "find_release v rid = Some r" "rl_count r < re_release_cap"
    and v': "v' = upd_release rid (\<lambda>_. True) (\<lambda>r. r\<lparr>rl_count := rl_count r + 1\<rparr>) v"
    by (auto simp: bump_re_release_def split: option.splits if_splits)
  have "row_step (\<lambda>k. k \<noteq> rid) k (find_release v k) (find_release v' k)" for k
    using r unfolding v' by (subst find_release_update) (auto simp: row_step_def row_evolves_def split: option.splits)
  moreover have "unique_releases v \<Longrightarrow> unique_releases v'"
    by (simp add: v' unique_releases_def upd_release_def map_key_update_where)
  ultimately show ?thesis by (simp add: vevolves_def v' upd_release_def)
qed

lemma bump_counts:
  assumes "bump_re_release rid re_release_cap v = (Some n, v')"
  shows "\<exists>r r'. find_release v rid = Some r \<and> find_release v' rid = Some r' \<and> rl_count r' = Suc (rl_count r)"
  using assms by (auto simp: bump_re_release_def find_release_update split: option.splits if_splits)

lemma evolves_count:
  assumes "vevolves w (\<lambda>_. True) v v'" and "find_release v k = Some r"
  shows "\<exists>r'. find_release v' k = Some r' \<and> rl_count r' = rl_count r \<and> (rl_status r' = RRedeemed \<longrightarrow> rl_status r = RRedeemed) \<and>
    row_evolves r r'"
proof -
  have "row_step (\<lambda>_. True) k (find_release v k) (find_release v' k)" using assms(1) by (simp add: vevolves_def)
  with assms(2) show ?thesis by (auto simp: row_step_def row_spared_def split: option.splits)
qed

lemma spending_after:
  assumes "past_bump p = Some c" and "tame w p v1 (p', v')" and "spending k p'"
  shows "rc_repeat c \<and> k = rl_id (rc_release c)"
  using assms by (auto simp: tame_def spending_def)

lemma effect_after_attempt:
  assumes "rl_id (rc_release c) = rid" and "after_attempt cfg w now req c st v = (p', v')"
  shows "effect w rid (AtAttempt c) v p' v'"
proof -
  let ?next = "\<lambda>v1. if now - rc_live c > vc_drift cfg then ask_live cfg w now req AtLiveAgain (ask_engine w now req) False c v1
    else ask_engine w now req c v1"
  have next_tame: "tame w (AtLogin c) v1 (?next v1)" for v1
    by (simp add: tame_ask_live_again tame_ask_engine)
  have quiet: "tame w (AtAttempt c) v (?next v)" if "\<not> rc_repeat c"
    using next_tame [of v] that by (simp add: tame_def spending_def)
  consider (dead) "\<not> worm_acked cfg st" | (first) "worm_acked cfg st" "\<not> rc_repeat c"
    | (again) n v1 where "worm_acked cfg st" "rc_repeat c" "bump_re_release rid re_release_cap v = (n, v1)"
    by (cases "bump_re_release rid re_release_cap v") auto
  then show ?thesis
  proof cases
    case dead
    with assms have "(p', v') = (Ended (Rejected AuditUnavailable), v)" by (simp add: after_attempt_def)
    then show ?thesis by (simp add: tame_effect)
  next
    case first
    with assms have "?next v = (p', v')" by (simp add: after_attempt_def)
    with quiet [OF first(2)] show ?thesis by (intro tame_effect) simp
  next
    case again
    note ev = bump_evolves [OF again(3)]
    show ?thesis
    proof (cases n)
      case None
      with again(3) have "v1 = v" by (auto simp: bump_re_release_def split: option.splits if_splits)
      with assms again None have "(p', v') = deny w now req (Some (hl_sub (rc_holder c))) ReReleaseCap [] v"
        by (simp add: after_attempt_def)
      then show ?thesis by (metis tame_deny_here tame_effect)
    next
      case (Some m)
      with assms again have x: "?next v1 = (p', v')" by (simp add: after_attempt_def)
      have t: "tame w (AtLogin c) v1 (p', v')" using next_tame [of v1] x by simp
      obtain r r1 where r: "find_release v rid = Some r" "find_release v1 rid = Some r1" "rl_count r1 = Suc (rl_count r)"
        using bump_counts again(3) Some by blast
      obtain r' where r': "find_release v' rid = Some r'" "rl_count r' = rl_count r1"
        using t evolves_count [OF _ r(2), of w v'] by (auto simp: tame_def)
      have "\<exists>r r'. find_release v k = Some r \<and> find_release v' k = Some r' \<and> rl_count r' = Suc (rl_count r)"
        if "spending k p'" for k
        using spending_after [OF _ t that, of c] assms(1) r r' by simp
      moreover have "vevolves w (\<lambda>k. k \<noteq> rid) v v'" using t vevolves_trans [OF ev] by (simp add: tame_def)
      ultimately show ?thesis using t by (simp add: effect_def tame_def)
    qed
  qed
qed

lemma mark_wins:
  assumes "mark_redeemed now rid by op approval run v = (True, v')" and "unique_releases v"
  shows "\<exists>r. find_release v rid = Some r \<and> rl_status r = RPending \<and>
    find_release v' rid = Some (redeemed_row now by op approval run r)"
proof -
  from assms(1) have "count_where (\<lambda>r. rl_id r = rid \<and> rl_status r = RPending) (vs_releases v) = 1"
    and v': "v' = upd_release rid (\<lambda>r. rl_status r = RPending) (redeemed_row now by op approval run) v"
    by (auto simp: mark_redeemed_def release_cas_def)
  then have "count_where (\<lambda>r. rl_id r = rid \<and> rl_status r = RPending) (vs_releases v) \<noteq> 0" by simp
  then obtain r where r: "r \<in> set (vs_releases v)" "rl_id r = rid" "rl_status r = RPending"
    by (auto simp: count_where_0)
  have "find_release v rid = Some r"
    using row_of_distinct [OF assms(2) [unfolded unique_releases_def] r(1)] r(2) by (simp add: find_release_def)
  with r show ?thesis by (simp add: v' find_release_update redeemed_row_def)
qed

lemma mark_evolves: "vevolves w (\<lambda>k. k \<noteq> rid) v (snd (mark_redeemed now rid by op approval run v))"
  unfolding mark_redeemed_def release_cas_def upd_release_def snd_conv
  by (rule vevolves_update) (auto simp: redeemed_row_def row_evolves_def)

lemma effect_after_outcome:
  assumes "rl_id (rc_release c) = rid" and "unique_releases v"
    and "after_outcome cfg w now req c out seq st v = (p', v')"
  shows "effect w rid (AtOutcome c out seq) v p' v'"
proof -
  obtain won v1 where m: "mark_redeemed now rid (hl_sub (rc_holder c)) (Some (rq_op req)) (Some (rq_approval req)) (rq_run req) v
      = (won, v1)" by (meson surj_pair)
  have ev: "vevolves w (\<lambda>k. k \<noteq> rid) v v1"
    using mark_evolves [of w rid v now "hl_sub (rc_holder c)" "Some (rq_op req)" "Some (rq_approval req)" "rq_run req"] m by simp
  consider (dead) "\<not> worm_acked cfg st" | (again) "worm_acked cfg st" "rc_repeat c"
    | (won) "worm_acked cfg st" "\<not> rc_repeat c" "won" | (lost) "worm_acked cfg st" "\<not> rc_repeat c" "\<not> won"
    by blast
  then show ?thesis
  proof cases
    case dead
    with assms(3) have "(p', v') = (Ended (Rejected AuditUnavailable), v)" by (simp add: after_outcome_def)
    then show ?thesis by (simp add: tame_effect)
  next
    case again
    with assms(3) have x: "(p', v') = (Ended (Credential c (redeem_body c out seq)), v)" by (simp add: after_outcome_def)
    show ?thesis using again(2) x by (intro tame_effect) (simp add: tame_late(7))
  next
    case won
    with assms(1,3) m have x: "p' = Ended (Credential c (redeem_body c out seq))" "v' = v1"
      by (simp_all add: after_outcome_def)
    from m won(3) have "mark_redeemed now rid (hl_sub (rc_holder c)) (Some (rq_op req)) (Some (rq_approval req)) (rq_run req) v
      = (True, v1)" by simp
    from mark_wins [OF this assms(2)] obtain r where
      "find_release v rid = Some r" "rl_status r = RPending"
      "find_release v1 rid = Some (redeemed_row now (hl_sub (rc_holder c)) (Some (rq_op req)) (Some (rq_approval req)) (rq_run req) r)"
      by blast
    with ev x won(2) assms(1) show ?thesis
      by (simp add: effect_def first_paid_def spending_def redeemed_row_def)
  next
    case lost
    with assms(1,3) m have x: "(p', v') = deny w now req (Some (hl_sub (rc_holder c))) ReleaseNotPending
        [(''reason'', JStr ''cas_lost'')] v1"
      by (simp add: after_outcome_def)
    then have "tame w p' v1 (p', v')" and un: "unpaid p'" by (metis tame_deny_here, metis deny_unpaid fst_conv)
    with vevolves_trans [OF ev] show ?thesis by (simp add: effect_def tame_def unpaid_still [OF un])
  qed
qed

lemma resume_effect:
  assumes "redeem_resume cfg w now ch req r p v = Some (p', v')" and "pc_ok req (vs_audit v) p" and "unique_releases v"
  shows "effect w (rq_release req) p v p' v'"
proof -
  note t = tame_effect [of w p v p' v' "rq_release req"]
  have id: "rl_id (rc_release c) = rq_release req" if "approved req c rows" for req c rows
    using that by (simp add: approved_def case_ok_def)
  from assms show ?thesis
  proof (cases rule: redeem_resume.cases [of "(cfg, w, now, ch, req, r, p, v)"])
    case (1 _ _ _ _ _ j _)
    then show ?thesis using assms t tame_after_token [of w v cfg now ch req j] by simp
  next
    case (2 _ _ _ _ _ rp c _)
    then show ?thesis using assms t tame_after_live [of w c v now req rp] by simp
  next
    case (3 _ _ _ _ _ rp c _)
    then show ?thesis using assms t tame_after_approval [of w c v cfg now req rp] by simp
  next
    case (4 _ _ _ _ _ rp c f _)
    then show ?thesis using assms t tame_after_lock [of w c f v now req rp] by simp
  next
    case (5 _ _ _ _ _ st c _)
    then show ?thesis using assms by (auto intro: effect_after_attempt [OF id])
  next
    case (6 _ _ _ _ _ rp c _)
    then show ?thesis using assms t tame_after_live_again [of w c v now req rp] by simp
  next
    case (7 _ _ _ _ _ rp c _)
    then show ?thesis using assms t tame_after_login [of w c v now req rp] by simp
  next
    case (8 _ _ _ _ _ rp c tok _)
    then show ?thesis using assms t tame_after_child [of w c tok v now req rp] by simp
  next
    case (9 _ _ _ _ _ rp c tok _)
    then show ?thesis using assms t tame_after_use [of w c tok v cfg now req rp] by simp
  next
    case (10 _ _ _ _ _ st c out seq _)
    then show ?thesis using assms by (auto intro: effect_after_outcome [OF id])
  next
    case (11 _ _ _ _ _ st rj _)
    then show ?thesis using assms t tame_unpaid [of w v v "after_denial cfg rj st" "AtDenial rj"] by (auto simp: after_denial_def)
  qed simp_all
qed

lemma effect_audit: "effect w rid p v p' v' \<Longrightarrow> \<exists>rows. vs_audit v' = vs_audit v @ rows"
  by (auto simp: effect_def vevolves_def dest: grows_prefix)

lemma resume_pc_ok:
  assumes "redeem_resume cfg w now ch req r p v = Some (p', v')" and "pc_ok req (vs_audit v) p" and "unique_releases v"
  shows "pc_ok req (vs_audit v') p'"
proof -
  obtain rows where rows: "vs_audit v' = vs_audit v @ rows"
    using effect_audit [OF resume_effect [OF assms]] by blast
  note grow = pc_ok_append [where ys = rows]
  from assms(1,2) show ?thesis
  proof (cases rule: redeem_resume.cases [of "(cfg, w, now, ch, req, r, p, v)"])
    case (1 _ _ _ _ _ j _)
    then show ?thesis using assms after_token_ok by simp
  next
    case (2 _ _ _ _ _ rp c _)
    then show ?thesis using assms after_live_ok [of req c "vs_audit v'" w now rp v] by simp
  next
    case (3 _ _ _ _ _ rp c _)
    then show ?thesis using assms after_approval_ok [of req c cfg w now rp v] by simp
  next
    case (4 _ _ _ _ _ rp c f _)
    then show ?thesis using assms after_lock_ok [of req c f w now rp v] by simp
  next
    case (5 _ _ _ _ _ st c _)
    then show ?thesis using assms rows grow after_attempt_ok [of req c "vs_audit v" cfg w now st v] by simp
  next
    case (6 _ _ _ _ _ rp c _)
    then show ?thesis using assms rows grow after_live_again_ok [of req c "vs_audit v" w now rp v] by simp
  next
    case (7 _ _ _ _ _ rp c _)
    then show ?thesis using assms rows grow after_login_ok [of req c "vs_audit v" w now rp v] by simp
  next
    case (8 _ _ _ _ _ rp c tok _)
    then show ?thesis using assms rows grow after_child_ok [of req c "vs_audit v" w now rp v] by simp
  next
    case (9 _ _ _ _ _ rp c tok _)
    then show ?thesis using assms after_use_ok [of req c v cfg w now rp] by simp
  next
    case (10 _ _ _ _ _ st c out seq _)
    then show ?thesis using assms rows grow after_outcome_ok [of req c "vs_audit v" out cfg w now seq st v] by simp
  next
    case (11 _ _ _ _ _ st rj _)
    then show ?thesis using assms by (auto simp: after_denial_def)
  qed simp_all
qed

end
