(* ===== verification/VaultSafety.thy ===== *)
theory VaultSafety
  imports VaultMachine
begin

text \<open>
  What every run of the Vault keeps: the log is a verifying chain, a release pays out once and is repeated
  at most three times, and nobody gets a credential the Board has not approved.
\<close>

section \<open>The invariant\<close>

text \<open>The account of a release: the first credentials handed out for it and the repeats that have been
  counted, against its row.\<close>

definition account :: "vault \<Rightarrow> vjob list \<Rightarrow> string \<Rightarrow> bool" where
  "account v js k \<longleftrightarrow>
     (let firsts = count_where (\<lambda>j. first_paid k (snd (snd j))) js;
          repeats = count_where (\<lambda>j. spending k (snd (snd j))) js
      in case find_release v k of
           None \<Rightarrow> firsts = 0 \<and> repeats = 0
         | Some r \<Rightarrow> firsts \<le> (if rl_status r = RRedeemed then 1 else 0) \<and> repeats \<le> rl_count r \<and>
             rl_count r \<le> re_release_cap)"

definition vault_ok :: "vworld \<Rightarrow> vault \<times> vjob list \<Rightarrow> bool" where
  "vault_ok w = (\<lambda>(v, js). grows w [] (vs_audit v) \<and> unique_releases v \<and> (\<forall>k. account v js k) \<and>
     (\<forall>j \<in> set js. job_ok (vs_audit v) j))"

lemma count_update:
  "i < length js \<Longrightarrow> count_where P (js[i := x]) + (if P (js ! i) then 1 else 0) = count_where P js + (if P x then 1 else 0)"
proof (induction js arbitrary: i)
  case Nil
  then show ?case by simp
next
  case (Cons j js)
  then show ?case by (cases i) auto
qed

lemma account_evolves:
  assumes "vevolves w (\<lambda>_. True) v v'" and "account v js k"
    and "count_where (\<lambda>j. first_paid k (snd (snd j))) js' \<le> count_where (\<lambda>j. first_paid k (snd (snd j))) js"
    and "count_where (\<lambda>j. spending k (snd (snd j))) js' \<le> count_where (\<lambda>j. spending k (snd (snd j))) js"
  shows "account v' js' k"
proof -
  have "row_step (\<lambda>_. True) k (find_release v k) (find_release v' k)" using assms(1) by (simp add: vevolves_def)
  with assms(2-4) show ?thesis
    by (auto simp: account_def Let_def row_step_def row_spared_def row_evolves_def split: option.splits if_splits)
qed

lemma account_resume:
  assumes ef: "effect w rid p v p' v'" and i: "i < length js" "js ! i = (ch, req, p)" and ne: "\<not> ended p" and ac: "account v js k"
  shows "account v' (js[i := (ch, req, p')]) k"
proof -
  have nf: "\<not> first_paid k p" using ne by (auto simp: first_paid_def)
  have F: "count_where (\<lambda>j. first_paid k (snd (snd j))) (js[i := (ch, req, p')]) =
      count_where (\<lambda>j. first_paid k (snd (snd j))) js + (if first_paid k p' then 1 else 0)"
    using count_update [OF i(1), of "\<lambda>j. first_paid k (snd (snd j))" "(ch, req, p')"] i(2) nf by simp
  have R: "count_where (\<lambda>j. spending k (snd (snd j))) (js[i := (ch, req, p')]) + (if spending k p then 1 else 0) =
      count_where (\<lambda>j. spending k (snd (snd j))) js + (if spending k p' then 1 else 0)"
    using count_update [OF i(1), of "\<lambda>j. spending k (snd (snd j))" "(ch, req, p')"] i(2) by simp
  have row: "row_step (\<lambda>k. k \<noteq> rid) k (find_release v k) (find_release v' k)"
    and first: "first_paid k p' \<Longrightarrow> \<exists>r r'. find_release v k = Some r \<and> rl_status r \<noteq> RRedeemed \<and>
        find_release v' k = Some r' \<and> rl_status r' = RRedeemed"
    and spend: "spending k p' \<Longrightarrow> \<not> spending k p \<Longrightarrow> \<exists>r r'. find_release v k = Some r \<and> find_release v' k = Some r' \<and>
        rl_count r' = Suc (rl_count r)"
    using ef unfolding effect_def vevolves_def by blast+
  show ?thesis
  proof (cases "find_release v k")
    case None
    with first spend have "\<not> first_paid k p'" "spending k p' \<longrightarrow> spending k p" by auto
    with None ac row F R show ?thesis
      by (auto simp: account_def Let_def row_step_def split: option.splits if_splits)
  next
    case (Some r)
    with row obtain r' where r': "find_release v' k = Some r'" "row_evolves r r'"
      by (auto simp: row_step_def split: option.splits)
    from ac Some have old: "count_where (\<lambda>j. first_paid k (snd (snd j))) js \<le> (if rl_status r = RRedeemed then 1 else 0)"
      "count_where (\<lambda>j. spending k (snd (snd j))) js \<le> rl_count r" "rl_count r \<le> re_release_cap"
      by (simp_all add: account_def Let_def)
    have "count_where (\<lambda>j. first_paid k (snd (snd j))) (js[i := (ch, req, p')]) \<le> (if rl_status r' = RRedeemed then 1 else 0)"
      using F first old(1) r' Some by (auto simp: row_evolves_def split: if_splits)
    moreover have "count_where (\<lambda>j. spending k (snd (snd j))) (js[i := (ch, req, p')]) \<le> rl_count r'"
      using R spend old(2) r' Some by (cases "spending k p") (auto simp: row_evolves_def split: if_splits)
    moreover have "rl_count r' \<le> re_release_cap" using r'(2) old(3) by (auto simp: row_evolves_def)
    ultimately show ?thesis using r'(1) by (simp add: account_def Let_def)
  qed
qed

lemma vault_ok_evolves:
  assumes "vault_ok w (v, js)" and "vevolves w (\<lambda>_. True) v v'" and "set js' \<subseteq> set js"
    and "\<And>P. count_where P js' \<le> count_where P js"
  shows "vault_ok w (v', js')"
proof -
  have g: "grows w (vs_audit v) (vs_audit v')" and u: "unique_releases v \<longrightarrow> unique_releases v'"
    using assms(2) by (simp_all add: vevolves_def)
  obtain rows where rows: "vs_audit v' = vs_audit v @ rows" using grows_prefix [OF g] by blast
  have "grows w [] (vs_audit v')" using assms(1) g grows_trans by (auto simp: vault_ok_def)
  moreover have "account v' js' k" for k
    using assms(1,4) by (intro account_evolves [OF assms(2)]) (auto simp: vault_ok_def)
  moreover have "\<forall>j \<in> set js'. job_ok (vs_audit v') j"
    using assms(1,3) rows job_ok_append by (auto simp: vault_ok_def)
  ultimately show ?thesis using assms(1) u unfolding vault_ok_def by blast
qed

lemma count_filter_le: "count_where P (filter Q js) \<le> count_where P js"
  by (induction js) auto

lemma resume_open: "redeem_resume cfg w now ch req r p v = Some x \<Longrightarrow> \<not> ended p"
  by (cases p) auto

lemma vault_ok_resume:
  assumes "vault_ok w (v, js)" and "i < length js" and "js ! i = (ch, req, p)"
    and "redeem_resume cfg w now ch req r p v = Some (p', v')"
  shows "vault_ok w (v', js[i := (ch, req, p')])"
proof -
  have in_js: "(ch, req, p) \<in> set js" using assms(2,3) nth_mem by fastforce
  then have job: "job_ok (vs_audit v) (ch, req, p)" using assms(1) by (simp add: vault_ok_def)
  have uq: "unique_releases v" using assms(1) by (simp add: vault_ok_def)
  have pcok: "pc_ok req (vs_audit v) p" using job by (simp add: job_ok_def)
  note ef = resume_effect [OF assms(4) pcok uq]
  have g: "grows w (vs_audit v) (vs_audit v')" and u: "unique_releases v'"
    using ef uq by (simp_all add: effect_def vevolves_def)
  obtain rows where rows: "vs_audit v' = vs_audit v @ rows" using grows_prefix [OF g] by blast
  have "grows w [] (vs_audit v')" using assms(1) g grows_trans by (auto simp: vault_ok_def)
  moreover have "account v' (js[i := (ch, req, p')]) k" for k
    using assms(1) by (intro account_resume [OF ef assms(2,3) resume_open [OF assms(4)]]) (simp add: vault_ok_def)
  moreover have "job_ok (vs_audit v') (ch, req, p')"
  proof -
    have "ch_ok ch \<or> (\<exists>r. p' = AtDenial r \<or> p' = Ended (Rejected r))"
    proof (cases "ch_ok ch")
      case False
      with job obtain d where "p = AtDenial d" using resume_open [OF assms(4)] by (auto simp: job_ok_def)
      with assms(4) show ?thesis by (cases r) (auto simp: after_denial_def)
    qed simp
    then show ?thesis using resume_pc_ok [OF assms(4) pcok uq] by (simp add: job_ok_def)
  qed
  moreover have "set (js[i := (ch, req, p')]) \<subseteq> insert (ch, req, p') (set js)" by (rule set_update_subset_insert)
  moreover have "\<forall>j \<in> set js. job_ok (vs_audit v') j"
    using assms(1) rows job_ok_append by (auto simp: vault_ok_def)
  ultimately show ?thesis using u unfolding vault_ok_def by blast
qed

lemma vault_ok_start:
  assumes "vault_ok w (v, js)" and "redeem_start cfg w now ch req v = (p, v')"
  shows "vault_ok w (v', js @ [(ch, req, p)])"
proof -
  have ev: "vevolves w (\<lambda>_. True) v v'" and un: "p = AtToken \<and> ch_ok ch \<or> (\<exists>r. p = AtDenial r)"
    using assms(2) by (auto simp: redeem_start_def deny_def split: if_splits)
  have no: "\<not> first_paid k p" "\<not> spending k p" for k using un by (auto simp: first_paid_def spending_def)
  have "vault_ok w (v', js)" by (rule vault_ok_evolves [OF assms(1) ev]) simp_all
  moreover have "account v' (js @ [(ch, req, p)]) k = account v' js k" for k
    using no by (simp add: account_def)
  moreover have "job_ok (vs_audit v') (ch, req, p)" using un by (auto simp: job_ok_def)
  ultimately show ?thesis unfolding vault_ok_def by auto
qed

lemma vault_step_ok: "vault_ok w s \<Longrightarrow> vstep cfg w s t \<Longrightarrow> vault_ok w t"
proof (erule vstep.cases; clarsimp)
  fix now ch req v p v' js
  assume "vault_ok w (v, js)" "redeem_start cfg w now ch req v = (p, v')"
  then show "vault_ok w (v', js @ [(ch, req, p)])" by (rule vault_ok_start)
next
  fix i js ch req p now r v p' v'
  assume "vault_ok w (v, js)" "i < length js" "js ! i = (ch, req, p)" "redeem_resume cfg w now ch req r p v = Some (p', v')"
  then show "vault_ok w (v', js[i := (ch, req, p')])" by (rule vault_ok_resume)
qed (auto elim!: vault_ok_evolves intro: route_evolves tool_evolves request_evolves revoke_ticket_evolves sweep_evolves
    poll_evolves boot_evolves count_filter_le)

lemma vault_ok_empty: "vault_ok w (empty_vault, [])"
  by (simp add: vault_ok_def account_def Let_def find_release_def empty_vault_def unique_releases_def)

interpretation vault: inductive_inv vault_start "vstep cfg w" "vault_ok w" for cfg w
proof unfold_locales
  fix s :: "vault \<times> vjob list"
  assume "vault_start s"
  then show "vault_ok w s"
    by (simp add: vault_start_def vault_ok_empty)
next
  fix s t
  assume "vault_ok w s" and "vstep cfg w s t"
  then show "vault_ok w t" by (rule vault_step_ok)
qed

abbreviation vault_reach :: "vconfig \<Rightarrow> vworld \<Rightarrow> vault \<Rightarrow> vjob list \<Rightarrow> bool" where
  "vault_reach cfg w v js \<equiv> reach vault_start (vstep cfg w) (v, js)"

lemma grows_chain:
  "grows w rows rows' \<Longrightarrow> rows = [] \<Longrightarrow>
     verify_rows (vw_sha w) None rows' = None \<and> map va_seq rows' = [1..<Suc (length rows')]"
proof (induction rule: grows.induct)
  case (grows_next rows rows' now rec)
  then have "fst (audit_head rows') = length rows'"
    by (cases rows' rule: rev_cases) (auto simp: audit_head_def)
  with grows_next show ?case by (simp add: verify_rows_append next_row_links)
qed simp

lemma count_where_mono: "(\<And>j. P j \<Longrightarrow> Q j) \<Longrightarrow> count_where P js \<le> count_where Q js"
  by (induction js) auto

lemma paid_job:
  assumes "reach vault_start (vstep cfg w) (v, js)" and "(ch, req, Ended (Credential c body)) \<in> set js"
  shows "ch_ok ch" "case_ok req c" "facts_fault req c (rc_facts c) = None"
    "logged (attempt_row ''redeem_attempt'' req c) (vs_audit v)"
    "\<exists>out seq. body = redeem_body c out seq \<and> logged (outcome_row req c out) (vs_audit v)"
proof -
  have "job_ok (vs_audit v) (ch, req, Ended (Credential c body))"
    using vault.reach_inv [OF assms(1)] assms(2) by (simp add: vault_ok_def)
  then show "ch_ok ch" "case_ok req c" "facts_fault req c (rc_facts c) = None"
    "logged (attempt_row ''redeem_attempt'' req c) (vs_audit v)"
    "\<exists>out seq. body = redeem_body c out seq \<and> logged (outcome_row req c out) (vs_audit v)"
    by (simp_all add: job_ok_def approved_def)
qed

lemma facts_clean:
  "facts_fault req c f = None \<longleftrightarrow> facts_exist f \<and> is_str ''status'' f ''consumed'' \<and>
     is_str ''consumed_by'' f (hl_sub (rc_holder c)) \<and> is_str ''ticket_id'' f (rq_ticket req) \<and>
     is_str ''host_id'' f (rq_host req) \<and> is_str ''host_id'' f (hd_host (rc_handle c)) \<and>
     is_str ''plan_hash'' f (rq_plan req) \<and>
     approval_class_sufficient (Some (JStr (hd_class (rc_handle c)))) (jget ''action_class'' f)"
  by (simp add: facts_fault_def Let_def)

text \<open>What a run keeps: a release its columns, and what it was settled as; the log its rows.\<close>

definition vault_extends :: "vworld \<Rightarrow> vault \<Rightarrow> vault \<Rightarrow> bool" where
  "vault_extends w v v' \<longleftrightarrow> (\<forall>k r. find_release v k = Some r \<longrightarrow> (\<exists>r'. find_release v' k = Some r' \<and> row_evolves r r')) \<and>
     grows w (vs_audit v) (vs_audit v')"

lemma evolves_extends: "vevolves w spare v v' \<Longrightarrow> vault_extends w v v'"
  by (fastforce simp: vevolves_def vault_extends_def row_step_def split: option.splits)

lemma step_extends: "vault_ok w s \<Longrightarrow> vstep cfg w s t \<Longrightarrow> vault_extends w (fst s) (fst t)"
proof (erule vstep.cases; clarsimp)
  fix i js ch req p now r v p' v'
  assume a: "vault_ok w (v, js)" "i < length js" "js ! i = (ch, req, p)" "redeem_resume cfg w now ch req r p v = Some (p', v')"
  then have "job_ok (vs_audit v) (ch, req, p)" "unique_releases v"
    using nth_mem by (fastforce simp: vault_ok_def)+
  with resume_effect [OF a(4)] show "vault_extends w v v'"
    by (auto simp: job_ok_def effect_def intro: evolves_extends)
next
  fix now ch req v p v'
  assume "redeem_start cfg w now ch req v = (p, v')"
  then have "vevolves w (\<lambda>_. True) v v'" by (auto simp: redeem_start_def deny_def split: if_splits)
  then show "vault_extends w v v'" by (rule evolves_extends)
qed (auto intro!: evolves_extends route_evolves tool_evolves request_evolves revoke_ticket_evolves sweep_evolves
    poll_evolves boot_evolves)

interpretation vault_run: step_preorder "\<lambda>s t. vault_ok w s \<and> vstep cfg w s t" "\<lambda>s t. vault_extends w (fst s) (fst t)"
  for cfg w
proof unfold_locales
  fix s t :: "vault \<times> vjob list"
  assume "vault_ok w s \<and> vstep cfg w s t"
  then show "vault_extends w (fst s) (fst t)" using step_extends by blast
next
  fix s :: "vault \<times> vjob list"
  show "vault_extends w (fst s) (fst s)" by (simp add: vault_extends_def)
next
  fix s t u :: "vault \<times> vjob list"
  assume "vault_extends w (fst s) (fst t)" "vault_extends w (fst t) (fst u)"
  then show "vault_extends w (fst s) (fst u)"
    unfolding vault_extends_def by (meson row_evolves_trans grows_trans)
qed

lemma ok_vault_run:
  "(vstep cfg w)\<^sup>*\<^sup>* s t \<Longrightarrow> vault_ok w s \<Longrightarrow> (\<lambda>s t. vault_ok w s \<and> vstep cfg w s t)\<^sup>*\<^sup>* s t"
proof (induction rule: rtranclp_induct)
  case base
  then show ?case by simp
next
  case (step t u)
  then have "vault_ok w t" using vault.run_inv [OF step.hyps(1)] by blast
  with step.hyps(2) have "vault_ok w t \<and> vstep cfg w t u" by blast
  with step.IH [OF step.prems] show ?case by (rule rtranclp.rtrancl_into_rtrancl)
qed

end
