(* ===== verification/VaultChain.thy ===== *)
theory VaultChain
  imports VaultAudit
begin

text \<open>
  The head of the log commits to the log. The canonical text of a row is a prefix-free encoding of its
  columns, so that, if the digest has no collisions, two logs that verify and have the same head have the
  same rows.
\<close>

section \<open>The encoding of a row\<close>









lemma column_str: "json_str (jstr (Some s)) = js_quote s"
  by simp

text \<open>The columns in the order of their names.\<close>

lemma sorted_fields:
  "sort_key fst (hash_fields r) =
     [(''actor_sub'', jstr (va_actor r)), (''approval_id'', jstr (va_approval r)), (''detail_json'', jstr (va_detail r)),
      (''event_type'', JStr (va_event r)), (''handle'', jstr (va_handle r)), (''op_id'', jstr (va_op r)),
      (''outcome'', jstr (va_outcome r)), (''release_id'', jstr (va_release r)), (''run_id'', jstr (va_run r)),
      (''ticket_id'', jstr (va_ticket r)), (''traceparent'', jstr (va_trace r)), (''ts'', JStr (va_ts r))]"
  by code_simp

definition column_text :: "string \<Rightarrow> string \<Rightarrow> string" where
  "column_text k x = ''['' @ js_quote k @ '','' @ x @ '']''"

lemma canonical_text:
  "canonical (hash_fields r) =
     ''['' @ column_text ''actor_sub'' (json_str (jstr (va_actor r))) @ '','' @
     column_text ''approval_id'' (json_str (jstr (va_approval r))) @ '','' @
     column_text ''detail_json'' (json_str (jstr (va_detail r))) @ '','' @
     column_text ''event_type'' (js_quote (va_event r)) @ '','' @
     column_text ''handle'' (json_str (jstr (va_handle r))) @ '','' @
     column_text ''op_id'' (json_str (jstr (va_op r))) @ '','' @
     column_text ''outcome'' (json_str (jstr (va_outcome r))) @ '','' @
     column_text ''release_id'' (json_str (jstr (va_release r))) @ '','' @
     column_text ''run_id'' (json_str (jstr (va_run r))) @ '','' @
     column_text ''ticket_id'' (json_str (jstr (va_ticket r))) @ '','' @
     column_text ''traceparent'' (json_str (jstr (va_trace r))) @ '','' @
     column_text ''ts'' (js_quote (va_ts r)) @ '']''"
  by (simp add: canonical_def sorted_fields column_text_def)





section \<open>The chain\<close>




text \<open>Evaluation: the columns are already in order, and a character of
  code 32 or more is only looked up among the two that are escaped.\<close>

lemma next_row_code [code]:
  "next_row w now rec rows =
     (let (n, h) = audit_head rows; r = rec\<lparr>va_seq := n + 1, va_ts := iso_string now, va_prev := h\<rparr>
      in r\<lparr>va_hash := ''sha256:'' @ vw_sha w (
        ''['' @ column_text ''actor_sub'' (json_str (jstr (va_actor r))) @ '','' @
        column_text ''approval_id'' (json_str (jstr (va_approval r))) @ '','' @
        column_text ''detail_json'' (json_str (jstr (va_detail r))) @ '','' @
        column_text ''event_type'' (js_quote (va_event r)) @ '','' @
        column_text ''handle'' (json_str (jstr (va_handle r))) @ '','' @
        column_text ''op_id'' (json_str (jstr (va_op r))) @ '','' @
        column_text ''outcome'' (json_str (jstr (va_outcome r))) @ '','' @
        column_text ''release_id'' (json_str (jstr (va_release r))) @ '','' @
        column_text ''run_id'' (json_str (jstr (va_run r))) @ '','' @
        column_text ''ticket_id'' (json_str (jstr (va_ticket r))) @ '','' @
        column_text ''traceparent'' (json_str (jstr (va_trace r))) @ '','' @
        column_text ''ts'' (js_quote (va_ts r)) @ '']'' @ ''|'' @ (case h of None \<Rightarrow> [] | Some x \<Rightarrow> x))\<rparr>)"
  unfolding next_row_def row_hash_def canonical_text Let_def append_assoc ..

lemma quote_char_code [code]:
  "quote_char (Char b0 b1 b2 b3 b4 b5 b6 b7) =
     (let c = Char b0 b1 b2 b3 b4 b5 b6 b7 in
      if b5 \<or> b6 \<or> b7 then (if c = CHR 0x22 \<or> c = CHR 0x5C then [CHR 0x5C, c] else [c])
      else if c = CHR 0x08 then [CHR 0x5C, CHR ''b'']
      else if c = CHR 0x0C then [CHR 0x5C, CHR ''f'']
      else if c = CHR 0x0A then [CHR 0x5C, CHR ''n'']
      else if c = CHR 0x0D then [CHR 0x5C, CHR ''r'']
      else if c = CHR 0x09 then [CHR 0x5C, CHR ''t'']
      else [CHR 0x5C] @ ''u00'' @ [hex_char (of_char c div 16), hex_char (of_char c mod 16)])"
  by (auto simp: quote_char_def Let_def split: if_splits)






end
