(* ===== verification/VaultDemo.thy ===== *)
theory VaultDemo
  imports VaultSafety VaultChain
begin

text \<open>
  A concrete run of the Vault, used by the witnesses: an operator writes a secret, the claimant of a ticket
  stages a release, the Gateway redeems it and then tries to redeem it again.
\<close>

definition dcfg :: vconfig where
  "dcfg = \<lparr>vc_dev = False, vc_production = True, vc_gateway_cn = ''svc:gateway'', vc_redeem_bind = Some ''10.0.0.1:8443'',
     vc_creds_files = [], vc_engine_files = [], vc_snapshot = Some ''s'', vc_unsealer = ''u'', vc_drift = 1000,
     vc_window = 900000, vc_release_ttl = 86400000, vc_ssh_ttl = ''10m'', vc_worm_url = Some ''w'',
     vc_revocations_url = Some ''r'', vc_ceiling = 2\<rparr>"

definition dworld :: vworld where
  "dworld = \<lparr>vw_sha = (\<lambda>s. ''d''), vw_date = (\<lambda>_. None)\<rparr>"

definition drel :: string where "drel = ''rel-01ARZ3NDEKTSV4RRFFQ69G5FAV''"

definition doperator :: principal where "doperator = \<lparr>p_sub = ''op:1'', p_kind = Human, p_scopes = [''vault:manage'']\<rparr>"

definition dagent :: principal where "dagent = \<lparr>p_sub = ''agent:a'', p_kind = Agent, p_scopes = [''vault:reference'']\<rparr>"

definition dhandle :: string where "dhandle = ''cred://hosts/h1/pw''"

definition dv1 :: vault where
  "dv1 = snd (vroute_run dcfg dworld 1000 NetError NetError doperator
     (PostKv (Some ''h1'') (Some ''pw'') (Some ''s3cret'') None None None) empty_vault)"

definition dticket :: fetched where
  "dticket = Resp 200 (Some (JObj [(''exists'', JBool True), (''claimed_by'', JStr ''agent:a''),
     (''status'', JStr ''in_progress''), (''host_id'', JStr ''h1'')]))"

definition dv2 :: vault where
  "dv2 = snd (vtool_run dcfg dworld 2000 drel dticket dagent (RequestRelease ''T-000001'' dhandle ''op1'') dv1)"

definition dch :: channel where
  "dch = \<lparr>ch_ok = True, ch_cn = Some ''svc:gateway'', ch_thumb = Some ''tp'', ch_token = ''tok'', ch_claims = None\<rparr>"

definition dreq :: redeem_req where
  "dreq = \<lparr>rq_release = drel, rq_ticket = ''T-000001'', rq_approval = ''A-000001'', rq_host = ''h1'', rq_plan = ''hash'',
     rq_run = None, rq_op = ''op2'', rq_key = None, rq_trace = None\<rparr>"

definition dclaims :: json where
  "dclaims = JObj [(''aud'', JStr ''vault''), (''scope'', JStr ''vault:read-credential''), (''sub'', JStr ''svc:gateway''),
     (''cnf'', JObj [(''x5t#S256'', JStr ''tp'')]), (''jti'', JStr ''j1'')]"

definition dfacts :: json where
  "dfacts = JObj [(''exists'', JBool True), (''approval_id'', JStr ''A-000001''), (''status'', JStr ''consumed''),
     (''ticket_id'', JStr ''T-000001''), (''ticket_status'', JStr ''executing''), (''host_id'', JStr ''h1''),
     (''plan_hash'', JStr ''hash''), (''plan_note_id'', JStr ''n1''), (''plan_note_rev'', JStr ''r1''),
     (''action_class'', JStr ''destructive''), (''approver_kind'', JStr ''operator''), (''approver_sub'', JStr ''bob''),
     (''granted_at'', JNum 40), (''consumed_at'', JNum 50), (''consumed_by'', JStr ''svc:gateway''), (''run_id'', JNull)]"

definition dok :: "(string \<times> json) list \<Rightarrow> reply" where
  "dok kvs = Fetched (Resp 200 (Some (JObj kvs)))"

definition dtoken :: reply where
  "dtoken = dok [(''auth'', JObj [(''client_token'', JStr ''t'')])]"

definition dreplies :: "reply list" where
  "dreplies = [Claims (Some dclaims), dok [(''active'', JBool True)], Fetched (Resp 200 (Some dfacts)), Shipped (Some 200),
     dtoken, dtoken, dok [(''data'', JObj [(''data'', JObj [(''pw'', JStr ''s3cret'')])])], Shipped (Some 200)]"

text \<open>The redemption driven by the answers, one after the other.\<close>

fun drive :: "reply list \<Rightarrow> pc \<times> vault \<Rightarrow> (pc \<times> vault) option" where
  "drive [] x = Some x"
| "drive (r # rs) (p, v) =
     (case redeem_resume dcfg dworld 3000 dch dreq r p v of None \<Rightarrow> None | Some x \<Rightarrow> drive rs x)"

definition dlast :: "pc \<times> vault" where
  "dlast = the (drive dreplies (AtToken, dv2))"

text \<open>What the run shows, evaluated once.\<close>

definition demo_shows :: "pc \<times> vault \<Rightarrow> bool" where
  "demo_shows = (\<lambda>(p, v). (case p of Ended (Credential c body) \<Rightarrow> \<not> rc_repeat c \<and> rc_facts c = dfacts \<and>
       rl_id (rc_release c) = drel \<and> jget ''plaintext'' body \<noteq> None | _ \<Rightarrow> False) \<and>
     map_option rl_status (find_release v drel) = Some RRedeemed \<and> length (vs_audit v) = 4)"

lemma vdemo_run: "(case drive dreplies (AtToken, dv2) of None \<Rightarrow> False | Some x \<Rightarrow> demo_shows x)"
  by code_simp

lemma vdemo_start: "redeem_start dcfg dworld 3000 dch dreq dv2 = (AtToken, dv2)"
  by (simp add: redeem_start_def dch_def)

lemma vdemo_last: "drive dreplies (AtToken, dv2) = Some dlast" "demo_shows dlast"
  using vdemo_run by (auto simp: dlast_def split: option.splits)

lemma vdemo_paid:
  "\<exists>c body. fst dlast = Ended (Credential c body) \<and> \<not> rc_repeat c \<and> rc_facts c = dfacts \<and> rl_id (rc_release c) = drel"
  "length (vs_audit (snd dlast)) = 4"
  using vdemo_last(2)
  by (simp_all add: demo_shows_def split_def) (auto split: pc.splits result.splits)

lemma vdemo_staged: "\<exists>r. find_release dv2 drel = Some r \<and> rl_handle r = dhandle \<and> rl_ticket r = ''T-000001''"
proof -
  have "map_option (\<lambda>r. (rl_handle r, rl_ticket r)) (find_release dv2 drel) = Some (dhandle, ''T-000001'')" by code_simp
  then show ?thesis by auto
qed

lemma drive_steps:
  assumes "drive rs (p, v) = Some (p', v')" and "i < length js" and "js ! i = (dch, dreq, p)"
  shows "(vstep dcfg dworld)\<^sup>*\<^sup>* (v, js) (v', js[i := (dch, dreq, p')])"
  using assms
proof (induction rs arbitrary: p v js)
  case Nil
  then show ?case using list_update_id [of js i] by simp
next
  case (Cons r rs)
  then obtain q u where q: "redeem_resume dcfg dworld 3000 dch dreq r p v = Some (q, u)" "drive rs (q, u) = Some (p', v')"
    by (auto split: option.splits)
  have "vstep dcfg dworld (v, js) (u, js[i := (dch, dreq, q)])" by (rule s_resume [OF Cons.prems(2,3) q(1)])
  moreover have "(vstep dcfg dworld)\<^sup>*\<^sup>* (u, js[i := (dch, dreq, q)]) (v', js[i := (dch, dreq, p')])"
    using Cons.IH [OF q(2), of "js[i := (dch, dreq, q)]"] Cons.prems(2) by simp
  ultimately show ?case by (rule converse_rtranclp_into_rtranclp)
qed

lemma reach_run: "reach start stp s \<Longrightarrow> stp\<^sup>*\<^sup>* s t \<Longrightarrow> reach start stp t"
  by (rotate_tac, induction rule: rtranclp_induct) (auto intro: reach_step)

lemma vdemo_reach:
  "vault_reach dcfg dworld dv2 []"
  "vault_reach dcfg dworld (snd dlast) [(dch, dreq, fst dlast)]"
  "(vstep dcfg dworld)\<^sup>*\<^sup>* (dv2, []) (snd dlast, [(dch, dreq, fst dlast)])"
proof -
  have "vault_reach dcfg dworld empty_vault []" by (rule reach_start) (simp add: vault_start_def)
  moreover have "vstep dcfg dworld (empty_vault, []) (dv1, [])" unfolding dv1_def by (rule s_route)
  moreover have "vstep dcfg dworld (dv1, []) (dv2, [])" unfolding dv2_def by (rule s_tool)
  ultimately show start: "vault_reach dcfg dworld dv2 []" by (blast intro: reach_step)
  have "vstep dcfg dworld (dv2, []) (dv2, [] @ [(dch, dreq, AtToken)])" by (rule s_start [OF vdemo_start])
  moreover have "drive dreplies (AtToken, dv2) = Some (fst dlast, snd dlast)"
    using vdemo_last(1) by simp
  from drive_steps [OF this, of 0 "[(dch, dreq, AtToken)]"]
  have "(vstep dcfg dworld)\<^sup>*\<^sup>* (dv2, [(dch, dreq, AtToken)]) (snd dlast, [(dch, dreq, fst dlast)])" by simp
  ultimately show run: "(vstep dcfg dworld)\<^sup>*\<^sup>* (dv2, []) (snd dlast, [(dch, dreq, fst dlast)])"
    by (simp add: converse_rtranclp_into_rtranclp)
  show "vault_reach dcfg dworld (snd dlast) [(dch, dreq, fst dlast)]" by (rule reach_run [OF start run])
qed

end
