(* ===== verification/VaultResults.thy ===== *)
theory VaultResults
  imports VaultDemo
begin

text \<open>
  The properties of the Vault's runs: who gets a credential, how often a release pays, what the log and the
  releases keep. Each holds in every reachable state, with an instance on the concrete run.
\<close>

section \<open>Properties\<close>



text \<open>C5. A release pays out once. In every reachable state, whatever was interleaved and restarted in
  between, at most one redemption that is not a repeat ended with a credential for a release, and at most
  three repeats did.\<close>

theorem release_single_use:
  assumes "vault_reach cfg w v js"
  shows "count_where (\<lambda>(ch, req, p). first_paid k p) js \<le> 1 \<and>
    count_where (\<lambda>(ch, req, p). \<exists>c body. p = Ended (Credential c body) \<and> rc_repeat c \<and> rl_id (rc_release c) = k) js \<le> 3"
proof -
  have "account v js k" using vault.reach_inv [OF assms] by (simp add: vault_ok_def)
  then have "count_where (\<lambda>j. first_paid k (snd (snd j))) js \<le> 1"
    and "count_where (\<lambda>j. spending k (snd (snd j))) js \<le> 3"
    by (auto simp: account_def Let_def re_release_cap_def split: option.splits if_splits)
  moreover have "count_where (\<lambda>(ch, req, p). \<exists>c body. p = Ended (Credential c body) \<and> rc_repeat c \<and> rl_id (rc_release c) = k) js
      \<le> count_where (\<lambda>j. spending k (snd (snd j))) js"
    by (rule count_where_mono) (auto simp: spending_def)
  ultimately show ?thesis by (simp add: split_def)
qed

theorem release_single_use_witness:
  "count_where (\<lambda>(ch, req, p). first_paid drel p) [(dch, dreq, fst dlast)] = 1"
  using conjunct1 [OF release_single_use [OF vdemo_reach(2), of drel]] vdemo_paid by (auto simp: first_paid_def)

text \<open>C30. The log verifies. In every reachable state the chain check of the operator surface finds no broken
  row, and the rows are numbered 1, 2, 3 and so on.\<close>

theorem audit_chain_sound:
  assumes "vault_reach cfg w v js"
  shows "verify_rows (vw_sha w) None (vs_audit v) = None \<and> map va_seq (vs_audit v) = [1..<Suc (length (vs_audit v))]"
  using vault.reach_inv [OF assms] grows_chain [OF _ refl, of w "vs_audit v"] by (auto simp: vault_ok_def simp del: upt_Suc)

theorem audit_chain_sound_witness: "map va_seq (vs_audit (snd dlast)) = [1, 2, 3, 4]"
  using conjunct2 [OF audit_chain_sound [OF vdemo_reach(2)]] vdemo_paid(2) by (simp add: upt_rec)

text \<open>C26. A release is settled once. Along every run a release keeps what it was staged with, its count of
  repeats only grows and stays within the cap, and once it is redeemed, expired or revoked its status
  and the columns of its redemption never change; the log only gets rows appended.\<close>

theorem releases_settle:
  assumes "vault_reach cfg w v js" and "(vstep cfg w)\<^sup>*\<^sup>* (v, js) (v', js')" and "find_release v k = Some r"
  shows "(\<exists>r'. find_release v' k = Some r' \<and> rl_id r' = rl_id r \<and> rl_handle r' = rl_handle r \<and> rl_host r' = rl_host r \<and>
      rl_ticket r' = rl_ticket r \<and> rl_by r' = rl_by r \<and> rl_created r' = rl_created r \<and> rl_expires r' = rl_expires r \<and>
      rl_count r \<le> rl_count r' \<and> rl_count r' \<le> 3 \<and>
      (rl_status r \<noteq> RPending \<longrightarrow> rl_status r' = rl_status r \<and> rl_redeemed_at r' = rl_redeemed_at r \<and>
         rl_redeemed_by r' = rl_redeemed_by r \<and> rl_redeem_op r' = rl_redeem_op r \<and> rl_approval r' = rl_approval r \<and>
         rl_run r' = rl_run r)) \<and>
    (\<exists>rows. vs_audit v' = vs_audit v @ rows)"
proof -
  have ok: "vault_ok w (v, js)" by (rule vault.reach_inv [OF assms(1)])
  have ext: "vault_extends w v v'" using vault_run.run_rel [OF ok_vault_run [OF assms(2) ok]] by simp
  then obtain r' where r': "find_release v' k = Some r'" "row_evolves r r'"
    using assms(3) unfolding vault_extends_def by blast
  have "account v' js' k" using vault.run_inv [OF assms(2) ok] by (simp add: vault_ok_def)
  then have "rl_count r' \<le> 3" using r'(1) by (simp add: account_def re_release_cap_def Let_def)
  moreover have "\<exists>rows. vs_audit v' = vs_audit v @ rows" using ext unfolding vault_extends_def by (blast dest: grows_prefix)
  ultimately show ?thesis using r' by (auto simp: row_evolves_def)
qed

theorem releases_settle_witness:
  "\<exists>r'. find_release (snd dlast) drel = Some r' \<and> rl_handle r' = dhandle \<and> rl_ticket r' = ''T-000001'' \<and> rl_count r' \<le> 3"
proof -
  obtain r where r: "find_release dv2 drel = Some r" "rl_handle r = dhandle" "rl_ticket r = ''T-000001''"
    using vdemo_staged by auto
  from releases_settle [OF vdemo_reach(1,3) r(1)] r(2,3) show ?thesis by auto
qed

section \<open>How a redemption ends\<close>

text \<open>
  How a redemption ends: after a bounded number of calls, and without a credential whenever something it
  depends on does not answer.
\<close>

section \<open>Termination\<close>

text \<open>The number of calls a redemption can still make.\<close>

fun calls_left :: "pc \<Rightarrow> nat" where
  "calls_left AtToken = 11"
| "calls_left (AtLive c) = 10"
| "calls_left (AtApproval c) = 9"
| "calls_left (AtLock c f) = 8"
| "calls_left (AtAttempt c) = 7"
| "calls_left (AtLiveAgain c) = 6"
| "calls_left (AtLogin c) = 5"
| "calls_left (AtChild c tok) = 4"
| "calls_left (AtUse c tok) = 3"
| "calls_left (AtOutcome c out seq) = 2"
| "calls_left (AtDenial r) = 1"
| "calls_left (Ended res) = 0"

definition redeem_move :: "vconfig \<Rightarrow> vworld \<Rightarrow> channel \<Rightarrow> redeem_req \<Rightarrow> pc \<Rightarrow> pc \<Rightarrow> bool" where
  "redeem_move cfg w ch req p p' \<longleftrightarrow> (\<exists>now r v v'. redeem_resume cfg w now ch req r p v = Some (p', v'))"

lemma deny_left [simp]: "calls_left (fst (deny w now req sub r det v)) = 1"
  by (simp add: deny_def)

lemma unpaid_left: "unpaid p \<Longrightarrow> calls_left p \<le> 1"
  by (cases p rule: unpaid.cases) auto

lemma ask_engine_left: "calls_left (fst (ask_engine w now req c v)) \<le> 5"
  by (simp add: ask_engine_def Let_def split_def)

lemma engine_step_left:
  "(\<And>x. calls_left (fst (k x v)) \<le> n) \<Longrightarrow> 1 \<le> n \<Longrightarrow> calls_left (fst (engine_step w now req c res k v)) \<le> n"
  by (cases res) (simp_all add: engine_step_def)

lemma after_token_left: "calls_left (fst (after_token cfg w now ch req j v)) \<le> 10"
proof (cases "after_token cfg w now ch req j v")
  case (Pair p v')
  then have "calls_left p \<le> 10" by (rule after_token_cases) (auto dest: unpaid_left)
  with Pair show ?thesis by simp
qed

lemma resume_left: "redeem_resume cfg w now ch req r p v = Some (p', v') \<Longrightarrow> calls_left p' < calls_left p"
proof (cases rule: redeem_resume.cases [of "(cfg, w, now, ch, req, r, p, v)"])
  case (1 _ _ _ _ _ j _)
  assume "redeem_resume cfg w now ch req r p v = Some (p', v')"
  with 1 show ?thesis using after_token_left [of cfg w now ch req j v] by simp
next
  case (2 _ _ _ _ _ rp c _)
  assume "redeem_resume cfg w now ch req r p v = Some (p', v')"
  with 2 show ?thesis by (auto simp: after_live_def deny_def split: option.splits)
next
  case (3 _ _ _ _ _ rp c _)
  assume "redeem_resume cfg w now ch req r p v = Some (p', v')"
  with 3 show ?thesis
    by (auto simp: after_approval_def Let_def deny_def ask_attempt_def split: board_answer.splits option.splits if_splits)
next
  case (4 _ _ _ _ _ rp c f _)
  assume "redeem_resume cfg w now ch req r p v = Some (p', v')"
  with 4 show ?thesis
    by (auto simp: after_lock_def Let_def deny_def ask_attempt_def split: board_answer.splits if_splits)
next
  case (5 _ _ _ _ _ st c _)
  assume "redeem_resume cfg w now ch req r p v = Some (p', v')"
  then have x: "after_attempt cfg w now req c st v = (p', v')" using 5 by simp
  have eng: "calls_left (fst (ask_engine w now req c x)) \<le> 6" for c x
    by (rule le_trans [OF ask_engine_left]) simp
  then have "calls_left (fst (ask_live cfg w now req AtLiveAgain (ask_engine w now req) False c x)) \<le> 6" for x
    by (auto simp: ask_live_def split: option.splits)
  with eng have "calls_left (fst (after_attempt cfg w now req c st v)) \<le> 6"
    by (simp add: after_attempt_def Let_def split_def)
  then have "calls_left p' \<le> 6" by (simp add: x)
  with 5 show ?thesis by simp
next
  case (6 _ _ _ _ _ rp c _)
  assume "redeem_resume cfg w now ch req r p v = Some (p', v')"
  with 6 show ?thesis
    using ask_engine_left [of w now req "c\<lparr>rc_live := now\<rparr>" v] by (auto simp: after_live_again_def deny_def split: option.splits)
next
  case (7 _ _ _ _ _ rp c _)
  assume "redeem_resume cfg w now ch req r p v = Some (p', v')"
  with 7 show ?thesis by (auto simp: after_login_def engine_step_def deny_def split: eresult.splits)
next
  case (8 _ _ _ _ _ rp c tok _)
  assume "redeem_resume cfg w now ch req r p v = Some (p', v')"
  with 8 show ?thesis by (auto simp: after_child_def engine_step_def deny_def split: eresult.splits)
next
  case (9 _ _ _ _ _ rp c tok _)
  assume "redeem_resume cfg w now ch req r p v = Some (p', v')"
  with 9 show ?thesis by (auto simp: after_use_def engine_step_def deny_def Let_def split: eresult.splits)
next
  case (10 _ _ _ _ _ st c out seq _)
  assume "redeem_resume cfg w now ch req r p v = Some (p', v')"
  with 10 show ?thesis by (auto simp: after_outcome_def deny_def Let_def split: if_splits prod.splits)
next
  case (11 _ _ _ _ _ st rj _)
  assume "redeem_resume cfg w now ch req r p v = Some (p', v')"
  with 11 show ?thesis by (auto simp: after_denial_def)
qed simp_all

lemma moves_left: "(redeem_move cfg w ch req ^^ n) p p' \<Longrightarrow> calls_left p' + n \<le> calls_left p"
proof (induction n arbitrary: p')
  case 0
  then show ?case by simp
next
  case (Suc n)
  then obtain q where "(redeem_move cfg w ch req ^^ n) p q" "redeem_move cfg w ch req q p'" by auto
  then show ?case using Suc.IH [of q] resume_left by (fastforce simp: redeem_move_def)
qed

text \<open>C28. Every redemption ends. However the store changes in between and whatever the calls resolve to, a
  redemption is resumed at most eleven times, and one that has not ended can always be resumed: some kind
  of outcome continues it at every time and on every store.\<close>

theorem redemption_terminates:
  assumes "(redeem_move cfg w ch req ^^ n) p p'"
  shows "n \<le> 11 \<and> (ended p' \<or> (\<exists>r. \<forall>now v. redeem_resume cfg w now ch req r p' v \<noteq> None))"
proof -
  have "calls_left p \<le> 11" by (cases p) auto
  with moves_left [OF assms] have "n \<le> 11" by simp
  moreover have "ended p' \<or> (\<exists>r. \<forall>now v. redeem_resume cfg w now ch req r p' v \<noteq> None)"
    by (cases p') (auto intro: exI [of _ "Claims None"] exI [of _ "Fetched NetError"] exI [of _ "Shipped None"])
  ultimately show ?thesis ..
qed

lemma drive_moves: "drive rs (p, v) = Some (p', v') \<Longrightarrow> (redeem_move dcfg dworld dch dreq ^^ length rs) p p'"
proof (induction rs arbitrary: p v)
  case (Cons r rs)
  then obtain q u where "redeem_resume dcfg dworld 3000 dch dreq r p v = Some (q, u)" "drive rs (q, u) = Some (p', v')"
    by (auto split: option.splits)
  then have "redeem_move dcfg dworld dch dreq p q" unfolding redeem_move_def by blast
  moreover have "(redeem_move dcfg dworld dch dreq ^^ length rs) q p'"
    by (rule Cons.IH) fact
  ultimately have "(redeem_move dcfg dworld dch dreq ^^ Suc (length rs)) p p'" by (rule relpowp_Suc_I2)
  then show ?case by (simp only: length_Cons)
qed simp

theorem redemption_terminates_witness: "length dreplies \<le> 11"
  using conjunct1 [OF redemption_terminates [OF drive_moves [of dreplies AtToken dv2 "fst dlast" "snd dlast"]]] vdemo_last(1)
  by simp

section \<open>Failing closed\<close>

lemma engine_down [simp]: "client_token NetError = EErr EUnavailable" "use_result ttl h t NetError = EErr EUnavailable"
  by (simp_all add: client_token_def use_result_def classify_def)

lemma deny_pc [simp]: "fst (deny w now req sub r det v) = AtDenial r"
  by (simp add: deny_def)





end
