(* ===== verification/VaultNames.thy ===== *)
theory VaultNames
  imports VaultManage
begin

text \<open>
  The names the Vault builds and takes apart: handles, and the principals of a sign role.
\<close>

section \<open>Handles\<close>

lemma prefix_take: "starts_with p s \<Longrightarrow> s = p @ drop (length p) s"
  by (metis append_take_drop_id starts_with_def)

text \<open>Handles are parsed as they are made: a text parses to a host and a name exactly when it is the handle
  made of them and both are well formed.\<close>

theorem handle_roundtrip: "parse_handle s = Some (h, n) \<longleftrightarrow> s = make_handle h n \<and> host_re h \<and> name_re n"
proof
  assume a: "parse_handle s = Some (h, n)"
  define rest where "rest = drop (length handle_prefix) s"
  define tl1 where "tl1 = dropWhile (\<lambda>c. c \<noteq> CHR ''/'') rest"
  from a have s: "starts_with handle_prefix s" "tl1 \<noteq> []" "h = takeWhile (\<lambda>c. c \<noteq> CHR ''/'') rest" "n = drop 1 tl1"
    "host_re h" "name_re n"
    by (auto simp: parse_handle_def Let_def rest_def tl1_def split: if_splits)
  have "hd tl1 = CHR ''/''" using s(2) hd_dropWhile [of "\<lambda>c. c \<noteq> CHR ''/''" rest] by (simp add: tl1_def)
  then have "tl1 = CHR ''/'' # n" using s(2,4) by (cases tl1) auto
  moreover have "rest = h @ tl1" by (simp add: s(3) tl1_def)
  ultimately show "s = make_handle h n \<and> host_re h \<and> name_re n"
    using prefix_take [OF s(1)] s(5,6) by (simp add: make_handle_def rest_def)
next
  assume "s = make_handle h n \<and> host_re h \<and> name_re n"
  then show "parse_handle s = Some (h, n)" by (simp add: parse_make_handle)
qed

section \<open>Sign roles\<close>

lemma commas_from_free: "CHR '','' \<notin> set acc \<Longrightarrow> x \<in> set (commas_from acc s) \<Longrightarrow> CHR '','' \<notin> set x"
  by (induction acc s rule: commas_from.induct) (auto split: if_splits)

lemma commas_from_nonempty: "commas_from acc s \<noteq> []"
  by (induction acc s rule: commas_from.induct) auto

lemma commas_from_word: "CHR '','' \<notin> set x \<Longrightarrow> commas_from acc (x @ s) = commas_from (rev x @ acc) s"
  by (induction x arbitrary: acc) auto

lemma split_join: "xs \<noteq> [] \<Longrightarrow> list_all (\<lambda>x. CHR '','' \<notin> set x) xs \<Longrightarrow> split_commas (join '','' xs) = xs"
proof (induction xs)
  case (Cons x xs)
  show ?case
  proof (cases xs)
    case Nil
    with Cons.prems show ?thesis using commas_from_word [of x "[]" "[]"] by (simp add: split_commas_def)
  next
    case (Cons y ys)
    with Cons.IH Cons.prems show ?thesis
      using commas_from_word [of x "[]" "'','' @ join '','' (y # ys)"] by (simp add: split_commas_def)
  qed
qed simp

lemma set_trim: "set (trim s) \<subseteq> set s"
proof
  fix x
  assume "x \<in> set (trim s)"
  then show "x \<in> set s" by (metis set_dropWhileD set_rev trim_def)
qed

lemma clean_names_text:
  "clean_names (map JStr ss) = Inr ns \<Longrightarrow> ns = ss \<and> list_all (\<lambda>s. CHR ''*'' \<notin> set s \<and> map lower_char s \<noteq> ''root'') ss"
  by (induction ss arbitrary: ns) (auto split: if_splits)

lemma name_list_text:
  "name_list (Some (JStr s)) = map JStr (filter (\<lambda>s. s \<noteq> []) (map trim (split_commas (string_or_empty (Some (JStr s))))))"
  by (simp add: name_list_def)

lemma text_names_free:
  "x \<in> set (filter (\<lambda>s. s \<noteq> []) (map trim (split_commas t))) \<Longrightarrow> CHR '','' \<notin> set x"
  using commas_from_free [of "[]"] set_trim by (fastforce simp: split_commas_def)

lemma find_upd_host: "find_host (upd_host k f v) k = map_option f (find_host v k)" if "\<And>r. ho_id (f r) = ho_id r"
  using that by (simp add: find_host_def upd_host_def row_of_update_key)

lemma find_host_audit [simp]: "find_host (audit_change w now a b c v) k = find_host v k"
  by (simp add: find_host_def audit_change_def)

text \<open>What the principals of a staged host are when the role is applied: the texts between the commas.\<close>

definition staged_principals :: "vault \<Rightarrow> string \<Rightarrow> string list" where
  "staged_principals v host =
     (case find_host v host of None \<Rightarrow> [] | Some h \<Rightarrow>
        (case ho_principals h of None \<Rightarrow> [] | Some ps \<Rightarrow> split_commas (join '','' ps)))"

definition safe_principal :: "string \<Rightarrow> bool" where
  "safe_principal s = (CHR ''*'' \<notin> set s \<and> map lower_char s \<noteq> ''root'')"

text \<open>The check of a sign role holds for names given as one text and not for names given as a list. Staged
  from a text, every principal that the applied role will list is free of wildcards and is not root; but
  the list with the one element ``deploy,root'' is accepted, and root is among the principals.\<close>

theorem sign_role_principals:
  assumes "find_host v host = Some h0"
  shows "(case stage_sign_role w now p host (Some (JStr us)) (Some (JStr ps)) v of
       Inl e \<Rightarrow> True
     | Inr (a, v') \<Rightarrow> staged_principals v' host \<noteq> [] \<and> list_all safe_principal (staged_principals v' host)) \<and>
    (case stage_sign_role w now p host (Some (JArr [JStr ''deploy''])) (Some (JArr [JStr ''deploy,root''])) v of
       Inl e \<Rightarrow> False
     | Inr (a, v') \<Rightarrow> ''root'' \<in> set (staged_principals v' host))"
proof
  show "case stage_sign_role w now p host (Some (JStr us)) (Some (JStr ps)) v of
       Inl e \<Rightarrow> True
     | Inr (a, v') \<Rightarrow> staged_principals v' host \<noteq> [] \<and> list_all safe_principal (staged_principals v' host)"
  proof (cases "stage_sign_role w now p host (Some (JStr us)) (Some (JStr ps)) v")
    case (Inr x)
    define uu where "uu = filter (\<lambda>s. s \<noteq> []) (map trim (split_commas (string_or_empty (Some (JStr us)))))"
    define pp where "pp = filter (\<lambda>s. s \<noteq> []) (map trim (split_commas (string_or_empty (Some (JStr ps)))))"
    have names: "name_list (Some (JStr us)) = map JStr uu" "name_list (Some (JStr ps)) = map JStr pp"
      by (simp_all add: name_list_text uu_def pp_def)
    from Inr obtain ns where ns: "clean_names (map JStr (uu @ pp)) = Inr ns" "pp \<noteq> []"
      by (auto simp: stage_sign_role_def Let_def names)
    note clean = clean_names_text [OF ns(1)]
    have pri: "staged_principals (snd x) host = split_commas (join '','' pp)"
      using Inr assms ns clean by (auto simp: stage_sign_role_def Let_def names staged_principals_def find_upd_host)
    have "list_all (\<lambda>x. CHR '','' \<notin> set x) pp" using text_names_free by (auto simp: list_all_iff pp_def)
    then have "staged_principals (snd x) host = pp" using split_join [OF ns(2)] pri by simp
    moreover have "list_all safe_principal pp" using clean by (simp add: safe_principal_def [abs_def])
    ultimately show ?thesis using ns(2) Inr by (simp add: split_def)
  qed simp
next
  have "clean_names [JStr ''deploy'', JStr ''deploy,root''] = Inr [''deploy'', ''deploy,root'']"
    and "split_commas ''deploy,root'' = [''deploy'', ''root'']" by code_simp+
  then show "case stage_sign_role w now p host (Some (JArr [JStr ''deploy''])) (Some (JArr [JStr ''deploy,root''])) v of
       Inl e \<Rightarrow> False
     | Inr (a, v') \<Rightarrow> ''root'' \<in> set (staged_principals v' host)"
    using assms by (simp add: stage_sign_role_def Let_def name_list_def staged_principals_def find_upd_host)
qed

theorem sign_role_principals_witness:
  "let w = \<lparr>vw_sha = (\<lambda>_. []), vw_date = (\<lambda>_. None)\<rparr>; p = \<lparr>p_sub = ''op:1'', p_kind = Human, p_scopes = []\<rparr>;
     v = snd (projr (register_host w 0 p (Some ''h1'') None empty_vault)) in
   case stage_sign_role w 0 p ''h1'' (Some (JArr [JStr ''deploy''])) (Some (JArr [JStr ''deploy,root''])) v of
     Inl e \<Rightarrow> False
   | Inr (a, v') \<Rightarrow> ''root'' \<in> set (staged_principals v' ''h1'')"
proof -
  let ?w = "\<lparr>vw_sha = (\<lambda>_. []), vw_date = (\<lambda>_. None)\<rparr>" and ?p = "\<lparr>p_sub = ''op:1'', p_kind = Human, p_scopes = []\<rparr>"
  let ?v = "snd (projr (register_host ?w 0 ?p (Some ''h1'') None empty_vault))"
  have "host_arg (Some ''h1'')" by code_simp
  then have "find_host ?v ''h1'' \<noteq> None"
    by (simp add: register_host_def Let_def find_host_def empty_vault_def audit_change_def)
  then obtain h where "find_host ?v ''h1'' = Some h" by auto
  from conjunct2 [OF sign_role_principals [OF this, of ?w 0 ?p]] show ?thesis by (simp add: Let_def)
qed

end
