(* ===== verification/NotesText.thy ===== *)
theory NotesText
  imports NotesTypes
begin

text \<open>
  The texts of the Notes service: frontmatter (\<open>storage/frontmatter.js\<close>), templates and sections
  (\<open>storage/templates.js\<close>), the secret scan (\<open>storage/hygiene.js\<close>), the paths of the corpus
  (\<open>storage/corpus.js\<close>).
\<close>

section \<open>Frontmatter\<close>

type_synonym fm = "(string \<times> json) list"

definition fm_get :: "string \<Rightarrow> fm \<Rightarrow> json option" where
  "fm_get k fm = map_of fm k"

text \<open>\<open>fm.k = v\<close>: a key keeps its place.\<close>

fun fm_set :: "string \<Rightarrow> json \<Rightarrow> fm \<Rightarrow> fm" where
  "fm_set k v [] = [(k, v)]"
| "fm_set k v ((l, w) # fm) = (if l = k then (k, v) # fm else (l, w) # fm_set k v fm)"

fun drop_prefix :: "string \<Rightarrow> string \<Rightarrow> string option" where
  "drop_prefix [] s = Some s"
| "drop_prefix (c # p) [] = None"
| "drop_prefix (c # p) (d # s) = (if c = d then drop_prefix p s else None)"

definition skip_char :: "char \<Rightarrow> string \<Rightarrow> string" where
  "skip_char c s = (case s of d # t \<Rightarrow> if d = c then t else s | [] \<Rightarrow> s)"

definition cr :: char where "cr = CHR 0x0D"

definition nl :: char where "nl = CHR 0x0A"

text \<open>\<open>FM_RE\<close>: the fence that closes the block at a place of the text, and what follows it; the block
  is the shortest text before such a fence.\<close>

definition fm_close :: "string \<Rightarrow> string option" where
  "fm_close s = map_option (\<lambda>t. skip_char nl (skip_char cr t)) (drop_prefix (nl # ''---'') (skip_char cr s))"

fun fm_block :: "string \<Rightarrow> (string \<times> string) option" where
  "fm_block s =
     (case fm_close s of
        Some body \<Rightarrow> Some ([], body)
      | None \<Rightarrow> (case s of [] \<Rightarrow> None | c # t \<Rightarrow> map_option (\<lambda>(m, b). (c # m, b)) (fm_block t)))"

declare fm_block.simps [simp del]

definition fm_split :: "string \<Rightarrow> (string \<times> string) option" where
  "fm_split s =
     (case drop_prefix ''---'' s of
        None \<Rightarrow> None
      | Some t \<Rightarrow> (case drop_prefix [nl] (skip_char cr t) of None \<Rightarrow> None | Some u \<Rightarrow> fm_block u))"

definition fm_of_yaml :: "json option \<Rightarrow> fm" where
  "fm_of_yaml y = (case y of Some (JObj kvs) \<Rightarrow> kvs | _ \<Rightarrow> [])"

definition parse_note :: "nworld \<Rightarrow> string \<Rightarrow> fm \<times> string" where
  "parse_note w raw =
     (case fm_split raw of
        None \<Rightarrow> ([], raw)
      | Some (y, body) \<Rightarrow> (fm_of_yaml (nw_yload w y), body))"

definition fm_pick :: "string list \<Rightarrow> fm \<Rightarrow> fm" where
  "fm_pick ks fm = concat (map (\<lambda>k. case fm_get k fm of None \<Rightarrow> [] | Some v \<Rightarrow> [(k, v)]) ks)"

definition fm_order :: "fm \<Rightarrow> fm" where
  "fm_order fm = fm_pick canonical_frontmatter fm @ fm_pick display_only_frontmatter fm @
     filter (\<lambda>(k, v). k \<notin> set canonical_frontmatter \<and> k \<notin> set display_only_frontmatter) fm"

definition trim_end :: "string \<Rightarrow> string" where
  "trim_end s = rev (dropWhile is_ws (rev s))"

definition serialize :: "nworld \<Rightarrow> fm \<Rightarrow> string \<Rightarrow> string" where
  "serialize w fm body =
     ''---'' @ [nl] @ trim_end (nw_ydump w (fm_order fm)) @ [nl] @ ''---'' @ [nl] @ body"

definition readable :: "fm \<Rightarrow> fm" where
  "readable fm = filter (\<lambda>(k, v). k \<notin> set display_only_frontmatter) fm"

definition is_display_only :: "string \<Rightarrow> bool" where
  "is_display_only k = (k \<in> set display_only_frontmatter)"

definition with_display_phase :: "fm \<Rightarrow> json \<Rightarrow> fm" where
  "with_display_phase fm phase = fm_set ''ceremony_phase_display'' phase fm"

section \<open>Templates and sections\<close>

fun template_sections :: "string \<Rightarrow> string list" where
  "template_sections t =
     (if t = ''research'' then [''Objective'', ''What I did'', ''Findings'', ''Open questions'', ''Next step'']
      else if t = ''plan'' then [''Goal'', ''Approach'', ''Steps'', ''Risks'', ''Rollback'']
      else if t = ''retro'' then [''What happened (git + external before/after)'', ''Lessons'', ''Feed-forward to recon'']
      else if t = ''deliberation'' then ceremony_phases
      else [])"

definition h2 :: "string \<Rightarrow> string" where "h2 s = ''## '' @ s"

definition phase_lines :: "string \<Rightarrow> string list" where
  "phase_lines ph = h2 ph #
     (if ph = ''planning'' then [''### Independent positions'', ''### Joint discussion''] else []) @ [[]]"

text \<open>\<open>trimEnd\<close> is a method of strings only: other initial content of a deliberation throws.\<close>

definition instantiate :: "string \<Rightarrow> json option \<Rightarrow> nexn + string" where
  "instantiate t initial =
     (let sections = template_sections t; given = js_truthy initial; txt = key_text initial in
      if t = ''deliberation'' then
        (let lines = join [nl] (concat (map phase_lines sections)) in
         if \<not> given then Inr lines
         else case initial of
             Some (JStr s) \<Rightarrow> Inr (trim_end s @ [nl, nl] @ lines)
           | _ \<Rightarrow> Inl NType)
      else if given \<and> sections = [] then Inr txt
      else Inr ((if sections \<noteq> [] then join [nl] (map (\<lambda>s. h2 s @ [nl]) sections) @ [nl] else []) @
        (if given then txt else [])))"

fun split_on :: "char \<Rightarrow> string \<Rightarrow> string list" where
  "split_on d [] = [[]]"
| "split_on d (c # s) =
     (if c = d then [] # split_on d s
      else case split_on d s of [] \<Rightarrow> [[c]] | l # ls \<Rightarrow> (c # l) # ls)"

definition header_mark :: rx where "header_mark = Cat (Rep 2 (Some 3) (Chr (\<lambda>c. c = CHR ''#''))) (Rep 1 None (Chr is_ws))"

definition section_line :: "string \<Rightarrow> string \<Rightarrow> bool" where
  "section_line section line =
     list_ex (\<lambda>(q, s). s = []) (ends (cats [header_mark, lit section, star (Chr is_ws)]) (None, line))"

definition header_line :: "string \<Rightarrow> bool" where
  "header_line line = (ends header_mark (None, line) \<noteq> [])"

text \<open>The start and the end of a section's span, in lines.\<close>

definition find_section :: "string \<Rightarrow> string \<Rightarrow> (nat \<times> nat \<times> string list) option" where
  "find_section body section =
     (let lines = split_on nl body;
          pre = takeWhile (\<lambda>l. \<not> section_line section l) lines;
          i = length pre in
      if i = length lines then None
      else Some (i, i + 1 + length (takeWhile (\<lambda>l. \<not> header_line l) (drop (i + 1) lines)), lines))"

definition splice_at :: "nat \<Rightarrow> string \<Rightarrow> string list \<Rightarrow> string" where
  "splice_at i x lines = join [nl] (take i lines @ [x] @ drop i lines)"

section \<open>Secret scan\<close>

abbreviation cls :: "(char \<Rightarrow> bool) \<Rightarrow> rx" where "cls p \<equiv> Chr p"

definition token_char :: "char \<Rightarrow> bool" where
  "token_char c = (alnum c \<or> c \<in> set ''._-'')"

definition b64_char :: "char \<Rightarrow> bool" where
  "b64_char c = (alnum c \<or> c \<in> set ''_-'')"

definition upper_alnum :: "char \<Rightarrow> bool" where
  "upper_alnum c = (is_digit c \<or> (65 \<le> (of_char c :: nat) \<and> (of_char c :: nat) \<le> 90))"

definition quote_mark :: "char \<Rightarrow> bool" where
  "quote_mark c = (c = CHR 0x22 \<or> c = CHR 0x27)"

definition secret_patterns :: "(string \<times> rx) list" where
  "secret_patterns =
     [(''openbao_token'', cats [Edge, cls (\<lambda>c. c \<in> set ''sb''), lit ''.'', Rep 24 None (cls alnum), Edge]),
      (''hvs_token'', cats [Edge, lit ''hv'', cls (\<lambda>c. c \<in> set ''sb''), lit ''.'', Rep 20 None (cls token_char), Edge]),
      (''private_key_block'', cats [lit ''-----BEGIN '',
         maybe (alts (lit ''RSA '') [lit ''EC '', lit ''OPENSSH '', lit ''DSA '', lit ''PGP '']), lit ''PRIVATE KEY-----'']),
      (''aws_access_key'', cats [Edge, Alt (lit ''AKIA'') (lit ''ASIA''), Rep 16 (Some 16) (cls upper_alnum), Edge]),
      (''jwt'', cats [Edge, lit ''eyJ'', Rep 10 None (cls b64_char), lit ''.'', Rep 10 None (cls b64_char), lit ''.'',
         Rep 10 None (cls b64_char), Edge]),
      (''generic_secret_assignment'', cats [Edge,
         alts (ilit ''password'') [ilit ''passwd'', ilit ''secret'',
           cats [ilit ''api'', maybe (cls (\<lambda>c. c \<in> set ''_-'')), ilit ''key''], ilit ''token''],
         star (cls is_ws), cls (\<lambda>c. c \<in> set '':=''), star (cls is_ws), maybe (cls quote_mark),
         Rep 12 None (cls (\<lambda>c. \<not> is_ws c \<and> \<not> quote_mark c))])]"

definition handle_char :: "char \<Rightarrow> bool" where
  "handle_char c = (\<not> is_ws c \<and> c \<noteq> CHR '')'')"

definition handle_rx :: rx where
  "handle_rx = cats [Edge, lit ''cred://'', Rep 1 None (cls handle_char)]"

definition release_rx :: rx where
  "release_rx = cats [Edge, lit ''rel-'', Rep 26 (Some 26) (cls crockford), Edge]"

definition allowed_patterns :: "rx list" where
  "allowed_patterns = [handle_rx, release_rx]"

definition strip_allowed :: "string \<Rightarrow> string" where
  "strip_allowed s = foldl (\<lambda>t r. js_replace r '' '' t) s allowed_patterns"

fun scan_patterns :: "(string \<Rightarrow> string) \<Rightarrow> (string \<times> rx) list \<Rightarrow> string \<Rightarrow> (string \<times> nat \<times> nat \<times> string) option" where
  "scan_patterns hmac [] s = None"
| "scan_patterns hmac ((k, r) # ps) s =
     (case exec r None s of
        None \<Rightarrow> scan_patterns hmac ps s
      | Some (b, m, _) \<Rightarrow> Some (k, length b, length b + length m, take 16 (hmac m)))"

definition scan_for_secrets :: "nworld \<Rightarrow> string \<Rightarrow> (string \<times> nat \<times> nat \<times> string) option" where
  "scan_for_secrets w content = scan_patterns (nw_hmac w) secret_patterns (strip_allowed content)"

section \<open>Paths of the corpus\<close>

definition content_hash :: "nworld \<Rightarrow> string \<Rightarrow> string" where
  "content_hash w s = ''sha256:'' @ nw_sha w s"

definition derive_new_path :: "string \<Rightarrow> string \<Rightarrow> string \<Rightarrow> string" where
  "derive_new_path t slug nid =
     ''notes/'' @ t @ ''/'' @ slug @ ''-'' @ map lower_char (drop (length nid - 6) nid) @ ''.md''"

text \<open>\<open>path.resolve\<close>: the segments of an absolute path, innermost first.\<close>

fun walk_segments :: "string list \<Rightarrow> string list \<Rightarrow> string list" where
  "walk_segments st [] = st"
| "walk_segments st (x # xs) =
     (if x = [] \<or> x = ''.'' then walk_segments st xs
      else if x = ''..'' then walk_segments (drop 1 st) xs
      else walk_segments (x # st) xs)"

definition path_resolve :: "string \<Rightarrow> string \<Rightarrow> string" where
  "path_resolve base rel =
     (let st = walk_segments [] (split_on (CHR ''/'') base) in
      ''/'' @ join ''/'' (rev (walk_segments (if starts_with ''/'' rel then [] else st) (split_on (CHR ''/'') rel))))"

definition resolve_abs :: "nconfig \<Rightarrow> string \<Rightarrow> nexn + string" where
  "resolve_abs cfg rel =
     (let root = path_resolve (nc_corpus cfg) []; abs = path_resolve (nc_corpus cfg) rel in
      throw_if (abs \<noteq> root \<and> \<not> starts_with (root @ ''/'') abs) (nerr Validation) (Inr abs))"

end
