(* ===== verification/NotesGit.thy ===== *)
theory NotesGit
  imports NotesText
begin

text \<open>
  The git trail of the Notes service (\<open>git/repo.js\<close>): the message of a commit with its trailers, and
  the audit rows read back from the history. A repository is the list of its commits, newest first,
  as \<open>git.log\<close> gives them; the object id of a new commit is an argument. Then the push of the corpus.
\<close>

record commit =
  cm_oid :: string
  cm_message :: string
  cm_seconds :: int
  cm_path :: string
  cm_text :: string

record naudit =
  na_ts :: string
  na_sub :: string
  na_tool :: "string option"
  na_note :: "string option"
  na_ticket :: "string option"
  na_op :: "string option"
  na_fence :: "string option"
  na_commit :: string

section \<open>Messages\<close>

text \<open>The trailers \<open>commitFile\<close> is given: the keys of its list, in that order, absent when nullish.\<close>

record trailers =
  trl_note :: "json option"
  trl_ticket :: "json option"
  trl_op :: "json option"
  trl_fence :: "json option"

definition trailer :: "string \<Rightarrow> json option \<Rightarrow> string list" where
  "trailer k v = (if nullish v then [] else [k @ '': '' @ js_string (the v)])"

definition message_lines :: "string \<Rightarrow> string \<Rightarrow> string \<Rightarrow> trailers \<Rightarrow> string list" where
  "message_lines summary tool sub t =
     [take 100 (tool @ '': '' @ summary), [], ''Sub: '' @ sub] @
     trailer ''Note-Id'' (trl_note t) @ trailer ''Ticket'' (trl_ticket t) @ trailer ''Op-Id'' (trl_op t) @
     trailer ''Fence'' (trl_fence t) @ [''Tool: '' @ tool]"

definition build_message :: "string \<Rightarrow> string \<Rightarrow> string \<Rightarrow> trailers \<Rightarrow> string" where
  "build_message summary tool sub t = join [nl] (message_lines summary tool sub t) @ [nl]"

section \<open>Reading back\<close>

definition letter :: "char \<Rightarrow> bool" where
  "letter c = (alnum c \<and> \<not> is_digit c)"

definition key_char :: "char \<Rightarrow> bool" where
  "key_char c = (letter c \<or> c = CHR ''-'')"

text \<open>\<open>TRAILER_RE\<close> on a line.\<close>

definition trailer_of :: "string \<Rightarrow> (string \<times> string) option" where
  "trailer_of line =
     (let k = takeWhile key_char line; rest = drop (length k) line;
          v = (case drop 1 rest of c # t \<Rightarrow> if is_ws c then t else c # t | [] \<Rightarrow> [])
      in if k \<noteq> [] \<and> letter (hd k) \<and> take 1 rest = '':'' \<and> cr \<notin> set v \<and> nl \<notin> set v then Some (k, v) else None)"

text \<open>The last line of a key counts.\<close>

definition parse_trailers :: "string \<Rightarrow> (string \<times> string) list" where
  "parse_trailers msg = rev (List.map_filter trailer_of (split_on nl msg))"

definition trailer_get :: "string \<Rightarrow> (string \<times> string) list \<Rightarrow> string option" where
  "trailer_get k ts = (case map_of ts k of Some v \<Rightarrow> if v = [] then None else Some v | None \<Rightarrow> None)"

definition audit_of_commit :: "commit \<Rightarrow> naudit option" where
  "audit_of_commit c =
     (let t = parse_trailers (cm_message c) in
      map_option (\<lambda>sub. \<lparr>na_ts = iso_string (cm_seconds c * 1000), na_sub = sub, na_tool = trailer_get ''Tool'' t,
        na_note = trailer_get ''Note-Id'' t, na_ticket = trailer_get ''Ticket'' t, na_op = trailer_get ''Op-Id'' t,
        na_fence = trailer_get ''Fence'' t, na_commit = cm_oid c\<rparr>) (trailer_get ''Sub'' t))"

definition read_audit_trailers :: "nat \<Rightarrow> commit list \<Rightarrow> naudit list" where
  "read_audit_trailers limit hist = List.map_filter audit_of_commit (take limit hist)"

definition commit_file ::
  "nworld \<Rightarrow> string \<Rightarrow> int \<Rightarrow> string \<Rightarrow> string \<Rightarrow> string \<Rightarrow> string \<Rightarrow> string \<Rightarrow> trailers \<Rightarrow> commit list \<Rightarrow> commit list" where
  "commit_file w oid now path txt summary tool sub t hist =
     \<lparr>cm_oid = oid, cm_message = nw_message w (build_message summary tool sub t), cm_seconds = now div 1000,
       cm_path = path, cm_text = txt\<rparr> # hist"

definition head_oid :: "commit list \<Rightarrow> string option" where
  "head_oid hist = (case hist of [] \<Rightarrow> None | c # _ \<Rightarrow> Some (cm_oid c))"

section \<open>The push of the corpus\<close>

text \<open>
  The push of the corpus to its git remote (\<open>git/remote.js\<close>): the fields of the \<open>RemoteManager\<close>, and beside
  them what the event loop holds for it, the number of armed timers and the pushes in flight, each with
  the head that was current when it began.
\<close>

record remote =
  rm_reachable :: bool
  rm_pushed :: "string option"
  rm_pushed_at :: "int option"
  rm_pending :: "int option"
  rm_sha :: "string option"
  rm_timer :: bool
  rm_backoff :: int
  rm_armed :: nat
  rm_flight :: "string option list"

definition new_remote :: remote where
  "new_remote = \<lparr>rm_reachable = False, rm_pushed = None, rm_pushed_at = None, rm_pending = None, rm_sha = None,
     rm_timer = False, rm_backoff = 1000, rm_armed = 0, rm_flight = []\<rparr>"

definition probe_remote :: "bool \<Rightarrow> remote \<Rightarrow> remote" where
  "probe_remote reached r = r\<lparr>rm_reachable := reached\<rparr>"

definition notify_commit :: "int \<Rightarrow> string \<Rightarrow> remote \<Rightarrow> remote" where
  "notify_commit now sha r =
     (let r1 = (if rm_pending r = None then r\<lparr>rm_pending := Some now\<rparr> else r)\<lparr>rm_sha := Some sha\<rparr> in
      if rm_timer r1 then r1 else r1\<lparr>rm_timer := True, rm_armed := Suc (rm_armed r1)\<rparr>)"

text \<open>A timer fires: \<open>_flush\<close> up to its await, and what it does with the outcome of the push.\<close>

definition flush_start :: "string option \<Rightarrow> remote \<Rightarrow> remote" where
  "flush_start head r = r\<lparr>rm_timer := False, rm_armed := rm_armed r - 1, rm_flight := rm_flight r @ [head]\<rparr>"

definition drop_nth :: "nat \<Rightarrow> 'a list \<Rightarrow> 'a list" where
  "drop_nth i xs = take i xs @ drop (Suc i) xs"

definition push_done :: "int \<Rightarrow> nat \<Rightarrow> remote \<Rightarrow> remote" where
  "push_done now i r =
     r\<lparr>rm_flight := drop_nth i (rm_flight r), rm_reachable := True, rm_pushed := rm_sha r, rm_pushed_at := Some now,
       rm_pending := None, rm_backoff := 1000\<rparr>"

definition push_failed :: "nat \<Rightarrow> remote \<Rightarrow> remote" where
  "push_failed i r =
     r\<lparr>rm_flight := drop_nth i (rm_flight r), rm_reachable := False,
       rm_backoff := min (rm_backoff r * 2) (5 * 60 * 1000), rm_timer := True, rm_armed := Suc (rm_armed r)\<rparr>"

definition push_lag_seconds :: "int \<Rightarrow> remote \<Rightarrow> int" where
  "push_lag_seconds now r = (case rm_pending r of None \<Rightarrow> 0 | Some t \<Rightarrow> (now - t) div 1000)"

definition remote_healthy :: "nconfig \<Rightarrow> int \<Rightarrow> remote \<Rightarrow> bool" where
  "remote_healthy cfg now r = (rm_reachable r \<and> push_lag_seconds now r \<le> nc_lag_alarm cfg)"

definition remote_health :: "nconfig \<Rightarrow> int \<Rightarrow> remote \<Rightarrow> json" where
  "remote_health cfg now r =
     JObj [(''remote_reachable'', JBool (rm_reachable r)), (''git_push_lag_seconds'', JNum (push_lag_seconds now r)),
       (''last_pushed_commit'', jstr (rm_pushed r)), (''degraded'', JBool (\<not> remote_healthy cfg now r))]"

text \<open>\<open>checkDivergence\<close>: whether the heads agree, given what \<open>isDescendent\<close> answers when they differ.\<close>

definition check_divergence :: "string option option \<Rightarrow> string option \<Rightarrow> (string \<Rightarrow> string \<Rightarrow> bool) \<Rightarrow> bool" where
  "check_divergence remote_head local_head descends =
     (case (remote_head, local_head) of
        (Some (Some rh), Some lh) \<Rightarrow> rh = lh \<or> descends lh rh
      | _ \<Rightarrow> True)"

section \<open>Runs\<close>

inductive remote_step :: "remote \<Rightarrow> remote \<Rightarrow> bool" where
  rs_probe: "remote_step r (probe_remote b r)"
| rs_commit: "remote_step r (notify_commit now sha r)"
| rs_fire: "0 < rm_armed r \<Longrightarrow> remote_step r (flush_start head r)"
| rs_done: "i < length (rm_flight r) \<Longrightarrow> remote_step r (push_done now i r)"
| rs_failed: "i < length (rm_flight r) \<Longrightarrow> remote_step r (push_failed i r)"

text \<open>Something will try again as long as a commit is pending, and the delay stays between a second and five minutes.\<close>

definition remote_ok :: "remote \<Rightarrow> bool" where
  "remote_ok r =
     ((rm_timer r \<longrightarrow> 0 < rm_armed r) \<and> (rm_pending r \<noteq> None \<longrightarrow> 0 < rm_armed r \<or> rm_flight r \<noteq> []) \<and>
      1000 \<le> rm_backoff r \<and> rm_backoff r \<le> 300000 \<and> (rm_pushed r \<noteq> None \<longrightarrow> rm_sha r \<noteq> None))"

lemmas remote_defs = probe_remote_def notify_commit_def flush_start_def push_done_def push_failed_def

interpretation pusher: inductive_inv "\<lambda>r. r = new_remote" remote_step remote_ok
proof
  fix r assume "r = new_remote"
  then show "remote_ok r" by (simp add: remote_ok_def new_remote_def)
next
  fix r r' assume "remote_ok r" and "remote_step r r'"
  from this(2,1) show "remote_ok r'"
  proof cases
    case (rs_done i now)
    with \<open>remote_ok r\<close> show ?thesis by (auto simp: remote_ok_def push_done_def)
  qed (auto simp: remote_ok_def remote_defs Let_def)
qed

end
