(* ===== verification/NotesIndex.thy ===== *)
theory NotesIndex
  imports NotesGit
begin

text \<open>
  The index of the Notes service: the tables (\<open>index/db.js\<close>), the queries over them (\<open>index/repo.js\<close>), the
  effective taint over the link graph (\<open>storage/taint.js\<close>), the reconciler that projects the files into
  the tables (\<open>index/reconcile.js\<close>) and the search (\<open>index/search.js\<close>). The JSON texts of the columns
  \<open>tags\<close>, \<open>authored_by\<close> and \<open>result\<close> are the values they spell.
\<close>

section \<open>Tables and store\<close>

record note_row =
  nr_id :: string
  nr_path :: string
  nr_title :: "string option"
  nr_type :: "string option"
  nr_tags :: json
  nr_ticket :: "string option"
  nr_prov :: "string option"
  nr_taint :: "string option"
  nr_authored :: json
  nr_created :: "string option"
  nr_updated :: "string option"
  nr_hash :: string
  nr_mtime :: int
  nr_size :: nat
  nr_body :: string

record link_row =
  lk_from :: string
  lk_to :: "string option"
  lk_text :: string
  lk_isolated :: bool

record op_row =
  op_key :: string
  op_sub :: string
  op_result :: json
  op_commit :: string

record nfile =
  nf_text :: string
  nf_mtime :: int

text \<open>A link is resolved when its target is set; the two columns are always written together.\<close>

abbreviation lk_resolved :: "link_row \<Rightarrow> bool" where "lk_resolved l \<equiv> lk_to l \<noteq> None"

record nstate =
  ns_files :: "string \<Rightarrow> nfile option"
  ns_git :: "commit list"
  ns_notes :: "note_row list"
  ns_links :: "link_row list"
  ns_audit :: "naudit list"
  ns_ops :: "op_row list"
  ns_floor :: "(string \<times> int) list"
  ns_remote :: remote
  ns_events :: "(string \<times> json) list"

definition empty_nstate :: nstate where
  "empty_nstate = \<lparr>ns_files = (\<lambda>_. None), ns_git = [], ns_notes = [], ns_links = [], ns_audit = [], ns_ops = [],
     ns_floor = [], ns_remote = new_remote, ns_events = []\<rparr>"

definition nemit :: "string \<Rightarrow> json \<Rightarrow> nstate \<Rightarrow> nstate" where
  "nemit ev d s = s\<lparr>ns_events := ns_events s @ [(ev, d)]\<rparr>"

definition truncate_index :: "nstate \<Rightarrow> nstate" where
  "truncate_index s = s\<lparr>ns_notes := [], ns_links := [], ns_audit := [], ns_ops := [], ns_floor := []\<rparr>"

section \<open>Queries\<close>

definition get_note :: "string \<Rightarrow> nstate \<Rightarrow> note_row option" where
  "get_note i s = row_of nr_id i (ns_notes s)"

definition get_note_by_path :: "string \<Rightarrow> nstate \<Rightarrow> note_row option" where
  "get_note_by_path p s = row_of nr_path p (ns_notes s)"

definition delete_note :: "string \<Rightarrow> nstate \<Rightarrow> nstate" where
  "delete_note i s = s\<lparr>ns_notes := filter (\<lambda>r. nr_id r \<noteq> i) (ns_notes s)\<rparr>"

definition upsert_row :: "note_row \<Rightarrow> nstate \<Rightarrow> nstate" where
  "upsert_row r s =
     s\<lparr>ns_notes := (if get_note (nr_id r) s = None then ns_notes s @ [r]
        else update_where (\<lambda>x. nr_id x = nr_id r) (\<lambda>_. r) (ns_notes s))\<rparr>"

text \<open>\<open>title = ? COLLATE NOCASE LIMIT 1\<close>\<close>

definition id_for_text :: "string \<Rightarrow> nstate \<Rightarrow> string option" where
  "id_for_text t s =
     map_option nr_id (List.find (\<lambda>r. map_option (map lower_char) (nr_title r) = Some (map lower_char t)) (ns_notes s))"

definition set_links :: "string \<Rightarrow> (string \<times> bool) list \<Rightarrow> nstate \<Rightarrow> nstate" where
  "set_links from_id ls s =
     s\<lparr>ns_links := filter (\<lambda>l. lk_from l \<noteq> from_id) (ns_links s) @
        map (\<lambda>(t, hid). \<lparr>lk_from = from_id, lk_to = id_for_text t s, lk_text = t, lk_isolated = hid\<rparr>) ls\<rparr>"

definition back_resolve_dangling :: "string \<Rightarrow> string \<Rightarrow> nstate \<Rightarrow> nstate" where
  "back_resolve_dangling i title s =
     s\<lparr>ns_links := update_where (\<lambda>l. \<not> lk_resolved l \<and> lk_text l = title) (lk_to_update (\<lambda>_. Some i)) (ns_links s)\<rparr>"

definition backlinks :: "string \<Rightarrow> nstate \<Rightarrow> note_row list" where
  "backlinks i s =
     concat (map (\<lambda>l. if lk_to l = Some i \<and> \<not> lk_isolated l
        then (case get_note (lk_from l) s of None \<Rightarrow> [] | Some r \<Rightarrow> [r]) else []) (ns_links s))"

definition fence_floor :: "string \<Rightarrow> nstate \<Rightarrow> int" where
  "fence_floor t s = (case map_of (ns_floor s) t of None \<Rightarrow> 0 | Some g \<Rightarrow> g)"

definition raise_fence_floor :: "string \<Rightarrow> int \<Rightarrow> nstate \<Rightarrow> nstate" where
  "raise_fence_floor t g s =
     s\<lparr>ns_floor := (case map_of (ns_floor s) t of None \<Rightarrow> ns_floor s @ [(t, g)]
        | Some _ \<Rightarrow> map (\<lambda>(u, h). if u = t then (u, max h g) else (u, h)) (ns_floor s))\<rparr>"

definition get_op :: "string \<Rightarrow> nstate \<Rightarrow> op_row option" where
  "get_op k s = row_of op_key k (ns_ops s)"

definition put_op :: "op_row \<Rightarrow> nstate \<Rightarrow> nstate" where
  "put_op r s = s\<lparr>ns_ops := filter (\<lambda>x. op_key x \<noteq> op_key r) (ns_ops s) @ [r]\<rparr>"

definition append_audit :: "naudit \<Rightarrow> nstate \<Rightarrow> nstate" where
  "append_audit r s = s\<lparr>ns_audit := ns_audit s @ [r]\<rparr>"

text \<open>Newest first.\<close>

definition audit_for_note :: "string \<Rightarrow> nstate \<Rightarrow> naudit list" where
  "audit_for_note i s = rev (filter (\<lambda>r. na_note r = Some i) (ns_audit s))"

section \<open>Effective taint\<close>

definition own_of :: "note_row list \<Rightarrow> string \<Rightarrow> string" where
  "own_of rows i =
     (case row_of nr_id i rows of
        Some r \<Rightarrow> if truthy_str (nr_taint r) then the (nr_taint r) else ''clean''
      | None \<Rightarrow> ''clean'')"

definition links_of :: "link_row list \<Rightarrow> string \<Rightarrow> string list" where
  "links_of ls i = filter (\<lambda>t. t \<noteq> []) (List.map_filter lk_to (filter (\<lambda>l. lk_from l = i) ls))"

definition raises :: "string \<Rightarrow> bool" where
  "raises own = rank_lt (Rank 0) (taint_rank (Some (JStr own)))"

definition max_own :: "string \<Rightarrow> string \<Rightarrow> string" where
  "max_own a b = (if rank_ge (taint_rank (Some (JStr a))) (taint_rank (Some (JStr b))) then a else b)"

lemma links_of_none: "i \<notin> lk_from ` set ls \<Longrightarrow> links_of ls i = []"
  by (auto simp: links_of_def filter_empty_conv map_filter_def image_iff)

text \<open>
  The loop of \<open>effectiveTaint\<close>: the stack with its top in front, the ids seen, the taint so far and the ids
  that raised it. A round either takes an id with links of its own out of the unseen ones or
  shortens the stack.
\<close>

function taint_dfs ::
  "(string \<Rightarrow> string) \<Rightarrow> link_row list \<Rightarrow> string \<Rightarrow> string list \<Rightarrow> string list \<Rightarrow> string \<Rightarrow> string list
     \<Rightarrow> string \<times> string list" where
  "taint_dfs own ls rt [] seen eff via = (eff, via)"
| "taint_dfs own ls rt (i # st) seen eff via =
     (if i \<in> set seen \<or> i = rt then taint_dfs own ls rt st seen eff via
      else let seen' = i # seen;
               st' = rev (filter (\<lambda>n. n \<notin> set seen') (links_of ls i)) @ st
           in if raises (own i) then taint_dfs own ls rt st' seen' (max_own eff (own i)) (via @ [i])
              else taint_dfs own ls rt st' seen' eff via)"
  by pat_completeness auto

termination
proof (relation "inv_image (less_than <*lex*> less_than)
    (\<lambda>(own, ls, rt, st, seen, eff, via). (card (lk_from ` set ls - set seen), length st))", goal_cases)
  case 1
  show ?case by (intro wf_inv_image wf_lex_prod wf_less_than)
next
  case 2
  then show ?case by simp
next
  case (3 own ls rt i st seen eff via)
  then show ?case
  proof (cases "i \<in> lk_from ` set ls")
    case True
    then have "card (lk_from ` set ls - set (i # seen)) < card (lk_from ` set ls - set seen)"
      using 3(1) by (intro psubset_card_mono) auto
    with 3 show ?thesis by simp
  next
    case False
    then have "lk_from ` set ls - set (i # seen) = lk_from ` set ls - set seen" by auto
    with 3 show ?thesis by (simp add: links_of_none [OF False])
  qed
next
  case (4 own ls rt i st seen eff via)
  then show ?case
  proof (cases "i \<in> lk_from ` set ls")
    case True
    then have "card (lk_from ` set ls - set (i # seen)) < card (lk_from ` set ls - set seen)"
      using 4(1) by (intro psubset_card_mono) auto
    with 4 show ?thesis by simp
  next
    case False
    then have "lk_from ` set ls - set (i # seen) = lk_from ` set ls - set seen" by auto
    with 4 show ?thesis by (simp add: links_of_none [OF False])
  qed
qed

definition effective_taint :: "(string \<Rightarrow> string) \<Rightarrow> link_row list \<Rightarrow> string \<Rightarrow> string \<times> string list" where
  "effective_taint own ls rt = taint_dfs own ls rt (rev (links_of ls rt)) [] (own rt) []"

text \<open>The answer of \<open>repo.taint\<close>: own, effective, tainted via.\<close>

definition note_taint :: "string \<Rightarrow> nstate \<Rightarrow> string \<times> string \<times> string list" where
  "note_taint i s =
     (let own = own_of (ns_notes s) in (own i, effective_taint own (ns_links s) i))"

definition taint_json :: "string \<times> string \<times> string list \<Rightarrow> json" where
  "taint_json = (\<lambda>(own, eff, via). JObj [(''own'', JStr own), (''effective'', JStr eff), (''tainted_via'', JArr (map JStr via))])"

end
