(* ===== verification/NotesReconcile.thy ===== *)
theory NotesReconcile
  imports NotesIndex
begin

text \<open>
  The reconciler (\<open>index/reconcile.js\<close>): the row a file projects to, its wikilinks, the reconciliation of one
  file and of the whole corpus, the rebuilding of audit and fence floors from the git trailers; and the
  search (\<open>index/search.js\<close>). The directory walk is an argument: the paths it yields, in its order.
\<close>

section \<open>The row of a file\<close>

text \<open>A value bound to a text column: a number arrives as a real, a boolean, list or object throws.\<close>

fun bind_text :: "json \<Rightarrow> nexn + string option" where
  "bind_text (JStr s) = Inr (Some s)"
| "bind_text (JNum n) = Inr (Some (int_str n @ ''.0''))"
| "bind_text JNull = Inr None"
| "bind_text _ = Inl NBind"

text \<open>\<open>x ?? d\<close>\<close>

definition or_nullish :: "json option \<Rightarrow> json \<Rightarrow> json" where
  "or_nullish x d = (if nullish x then d else the x)"

definition row_own_taint :: "fm \<Rightarrow> json" where
  "row_own_taint canon =
     resolve_own_taint (or_else (fm_get ''provenance_taint'' canon) clean)
       (floor_for_provenance (Some (or_else (fm_get ''provenance'' canon) (JStr ''agent'')))) None"

text \<open>\<open>#rowFromFile\<close> with the binding of its values by the upsert, and \<open>None\<close> for a file without an id.\<close>

definition row_from_file :: "nworld \<Rightarrow> string \<Rightarrow> nfile \<Rightarrow> nexn + note_row option" where
  "row_from_file w path f =
     (let (m, body) = parse_note w (nf_text f); canon = readable m in
      if \<not> js_truthy (fm_get ''id'' canon) then Inr None
      else
        and_then (bind_text (the (fm_get ''id'' canon))) (\<lambda>i.
        and_then (bind_text (or_nullish (fm_get ''title'' canon) JNull)) (\<lambda>title.
        and_then (bind_text (or_nullish (fm_get ''type'' canon) (JStr ''general''))) (\<lambda>ty.
        and_then (bind_text (or_nullish (fm_get ''ticket'' canon) JNull)) (\<lambda>ticket.
        and_then (bind_text (or_nullish (fm_get ''provenance'' canon) (JStr ''agent''))) (\<lambda>prov.
        and_then (bind_text (row_own_taint canon)) (\<lambda>taint.
        and_then (bind_text (or_nullish (fm_get ''created'' canon) JNull)) (\<lambda>created.
        and_then (bind_text (or_nullish (fm_get ''updated'' canon) JNull)) (\<lambda>updated.
          Inr (Some \<lparr>nr_id = (case i of Some x \<Rightarrow> x | None \<Rightarrow> []), nr_path = path, nr_title = title, nr_type = ty,
            nr_tags = or_else (fm_get ''tags'' canon) (JArr []), nr_ticket = ticket, nr_prov = prov, nr_taint = taint,
            nr_authored = or_else (fm_get ''authored_by'' canon) (JArr []), nr_created = created, nr_updated = updated,
            nr_hash = content_hash w (nf_text f), nr_mtime = nf_mtime f, nr_size = length (nf_text f), nr_body = body\<rparr>))))))))))"

section \<open>Wikilinks\<close>

definition wikilink_re :: rx where
  "wikilink_re = cats [lit ''[['', Rep 1 None (cls (\<lambda>c. c \<noteq> CHR '']'')), lit '']]'']"

definition turn_head :: rx where
  "turn_head = cats [lit ''<!--'', star (cls is_ws), ilit ''turn'', Edge, star (cls (\<lambda>c. c \<noteq> CHR ''>'')), Edge, ilit ''isolated='']"

definition turn_tail :: rx where
  "turn_tail = cats [Alt (ilit ''true'') (ilit ''false''), star (cls (\<lambda>c. c \<noteq> CHR ''>'')), lit ''-->'']"

fun first_ending :: "rx \<Rightarrow> pos list \<Rightarrow> string option" where
  "first_ending r [] = None"
| "first_ending r (x # xs) = (if ends r x \<noteq> [] then Some (snd x) else first_ending r xs)"

text \<open>The captured flag of \<open>TURN_MARKER_RE\<close>, at the leftmost place the expression matches.\<close>

fun turn_marker :: "char option \<Rightarrow> string \<Rightarrow> bool option" where
  "turn_marker q s =
     (case first_ending turn_tail (ends turn_head (q, s)) of
        Some rest \<Rightarrow> Some (map lower_char (take 4 rest) = ''true'')
      | None \<Rightarrow> (case s of [] \<Rightarrow> None | c # t \<Rightarrow> turn_marker (Some c) t))"

declare turn_marker.simps [simp del]

definition link_target :: "string \<Rightarrow> string" where
  "link_target m = trim (take (length m - 4) (drop 2 m))"

fun links_from_lines :: "bool \<Rightarrow> string list \<Rightarrow> (string \<times> bool) list" where
  "links_from_lines hid [] = []"
| "links_from_lines hid (l # ls) =
     (let hid' = (case turn_marker None l of None \<Rightarrow> hid | Some b \<Rightarrow> b) in
      map (\<lambda>m. (link_target m, hid')) (js_matches wikilink_re l) @ links_from_lines hid' ls)"

definition extract_links :: "string \<Rightarrow> (string \<times> bool) list" where
  "extract_links body = links_from_lines False (split_on nl body)"

section \<open>Reconciliation\<close>

definition note_event :: "string \<Rightarrow> string \<Rightarrow> string \<Rightarrow> json" where
  "note_event kind i path = JObj [(''kind'', JStr kind), (''id'', JStr i), (''path'', JStr path)]"

definition index_row :: "note_row \<Rightarrow> nstate \<Rightarrow> nstate" where
  "index_row r s =
     (let s1 = set_links (nr_id r) (extract_links (nr_body r)) (upsert_row r s);
          s2 = (if truthy_str (nr_title r) then back_resolve_dangling (nr_id r) (the (nr_title r)) s1 else s1)
      in nemit ''note'' (note_event ''upsert'' (nr_id r) (nr_path r)) s2)"

definition reconcile_file :: "nworld \<Rightarrow> string \<Rightarrow> nstate \<Rightarrow> nexn + nstate" where
  "reconcile_file w path s =
     (case ns_files s path of
        None \<Rightarrow>
          (case get_note_by_path path s of
             None \<Rightarrow> Inr s
           | Some r \<Rightarrow> Inr (nemit ''note'' (note_event ''delete'' (nr_id r) path) (delete_note (nr_id r) s)))
      | Some f \<Rightarrow>
          and_then (row_from_file w path f) (\<lambda>row.
          Inr (case row of None \<Rightarrow> s | Some r \<Rightarrow> index_row r s)))"

definition audit_fence :: "naudit \<Rightarrow> (string \<times> int) option" where
  "audit_fence r =
     (if truthy_str (na_ticket r) \<and> truthy_str (na_fence r)
      then map_option (\<lambda>g. (the (na_ticket r), g)) (number_of_text (the (na_fence r))) else None)"

definition rebuild_audit :: "nstate \<Rightarrow> nstate" where
  "rebuild_audit s =
     foldl (\<lambda>t r. case audit_fence r of
         None \<Rightarrow> append_audit r t
       | Some (tk, g) \<Rightarrow> raise_fence_floor tk g (append_audit r t))
       (s\<lparr>ns_audit := [], ns_floor := []\<rparr>) (rev (read_audit_trailers 20000 (ns_git s)))"

text \<open>A file that throws ends the walk; what was done before stays.\<close>

fun reconcile_walk :: "nworld \<Rightarrow> string list \<Rightarrow> nstate \<Rightarrow> nexn option \<times> nstate" where
  "reconcile_walk w [] s = (None, s)"
| "reconcile_walk w (p # ps) s =
     (case reconcile_file w p s of Inl e \<Rightarrow> (Some e, s) | Inr s' \<Rightarrow> reconcile_walk w ps s')"

definition drop_vanished :: "string list \<Rightarrow> nstate \<Rightarrow> nstate" where
  "drop_vanished seen s = s\<lparr>ns_notes := filter (\<lambda>r. nr_path r \<in> set seen) (ns_notes s)\<rparr>"

definition reconcile_all :: "nworld \<Rightarrow> bool \<Rightarrow> string list \<Rightarrow> nstate \<Rightarrow> nexn option \<times> nstate" where
  "reconcile_all w full walk s =
     (case reconcile_walk w walk (if full then truncate_index s else s) of
        (Some e, s') \<Rightarrow> (Some e, s')
      | (None, s') \<Rightarrow> (None, rebuild_audit (if full then s' else drop_vanished walk s')))"

section \<open>Search\<close>

definition search_token_re :: rx where
  "search_token_re = Alt (cats [lit [CHR 0x22], star (cls (\<lambda>c. c \<noteq> CHR 0x22)), lit [CHR 0x22]])
     (Rep 1 None (cls (\<lambda>c. \<not> is_ws c)))"

definition quoted_phrase :: "string \<Rightarrow> bool" where
  "quoted_phrase t = (2 \<le> length t \<and> hd t = CHR 0x22 \<and> last t = CHR 0x22 \<and> CHR 0x22 \<notin> set (butlast (tl t)))"

definition upper_char :: "char \<Rightarrow> char" where
  "upper_char c = (let n = (of_char c :: nat) in if 97 \<le> n \<and> n \<le> 122 then char_of (n - 32) else c)"

definition boolean_ops :: "string list" where "boolean_ops = [''AND'', ''OR'', ''NOT'']"

text \<open>\<open>\p{L}\<close>, \<open>\p{N}\<close>, underscore, hyphen: a byte beyond ASCII counts as a letter.\<close>

definition search_char :: "char \<Rightarrow> bool" where
  "search_char c = (alnum c \<or> c \<in> set ''_-'' \<or> 128 \<le> (of_char c :: nat))"

definition search_token :: "string \<Rightarrow> string list" where
  "search_token t =
     (if quoted_phrase t then [t]
      else if map upper_char t \<in> set boolean_ops then [map upper_char t]
      else let cleaned = filter search_char t in
        if cleaned = [] then []
        else [[CHR 0x22] @ cleaned @ [CHR 0x22] @ (if t \<noteq> [] \<and> last t = CHR ''*'' then ''*'' else [])])"

definition sanitize_match :: "string \<Rightarrow> string" where
  "sanitize_match query =
     join '' '' (rev (dropWhile (\<lambda>t. t \<in> set boolean_ops) (rev (concat (map search_token (js_matches search_token_re (trim query)))))))"

record search_args =
  sa_query :: string
  sa_type :: "string option"
  sa_tag :: "string option"
  sa_ticket :: "string option"
  sa_limit :: "int option"

definition to_int32 :: "int \<Rightarrow> int" where
  "to_int32 n = (let m = n mod 4294967296 in if 2147483648 \<le> m then m - 4294967296 else m)"

definition search_limit :: "int option \<Rightarrow> nat" where
  "search_limit n = nat (min (max 1 (to_int32 (case n of None \<Rightarrow> 0 | Some k \<Rightarrow> k))) 25)"

definition json_each :: "json \<Rightarrow> json list" where
  "json_each j = (case j of JArr xs \<Rightarrow> xs | JObj kvs \<Rightarrow> map snd kvs | _ \<Rightarrow> [j])"

definition search_filter :: "search_args \<Rightarrow> note_row \<Rightarrow> bool" where
  "search_filter a r =
     ((truthy_str (sa_type a) \<longrightarrow> nr_type r = sa_type a) \<and>
      (truthy_str (sa_ticket a) \<longrightarrow> nr_ticket r = sa_ticket a) \<and>
      (truthy_str (sa_tag a) \<longrightarrow> JStr (the (sa_tag a)) \<in> set (json_each (nr_tags r))))"

definition updated_before :: "note_row \<Rightarrow> note_row \<Rightarrow> bool" where
  "updated_before a b =
     (case (nr_updated a, nr_updated b) of
        (Some x, Some y) \<Rightarrow> x < y
      | (None, Some _) \<Rightarrow> True
      | _ \<Rightarrow> False)"

fun insert_latest :: "note_row \<Rightarrow> note_row list \<Rightarrow> note_row list" where
  "insert_latest r [] = [r]"
| "insert_latest r (x # xs) = (if updated_before r x then x # insert_latest r xs else r # x # xs)"

definition latest_first :: "note_row list \<Rightarrow> note_row list" where
  "latest_first rows = foldr insert_latest rows []"

definition search_row :: "nstate \<Rightarrow> note_row \<Rightarrow> string \<Rightarrow> json \<Rightarrow> json" where
  "search_row s r snippet score =
     JObj [(''note_id'', JStr (nr_id r)), (''path'', JStr (nr_path r)), (''title'', jstr (nr_title r)),
       (''snippet'', JStr snippet), (''score'', score), (''taint'', JStr (fst (snd (note_taint (nr_id r) s))))]"

definition search :: "nworld \<Rightarrow> search_args \<Rightarrow> nstate \<Rightarrow> nexn + json" where
  "search w a s =
     (let m = sanitize_match (sa_query a); lim = search_limit (sa_limit a) in
      if m \<noteq> [] then
        (case nw_fts w m (map (\<lambda>r. (nr_id r, nr_title r, nr_body r)) (ns_notes s)) of
           None \<Rightarrow> Inl NBind
         | Some hits \<Rightarrow>
             Inr (JArr (take lim (List.map_filter (\<lambda>(i, snippet, score).
               case get_note i s of
                 Some r \<Rightarrow> if search_filter a r then Some (search_row s r snippet score) else None
               | None \<Rightarrow> None) hits))))
      else Inr (JArr (map (\<lambda>r. search_row s r (take 180 (nr_body r)) (JNum 0))
        (take lim (latest_first (filter (search_filter a) (ns_notes s)))))))"

section \<open>The fence\<close>

text \<open>
  The fencing of ticket-bound writes (\<open>board/fencing.js\<close>) over the reads of the Board
  (\<open>board/client.js\<close>). A read is a GET with a cached service token; what it answers is arbitrary.
\<close>

section \<open>Reads of the Board\<close>

record bclient =
  bc_token :: "json option"
  bc_expiry :: int

definition new_bclient :: bclient where
  "new_bclient = \<lparr>bc_token = None, bc_expiry = 0\<rparr>"

definition token_cached :: "int \<Rightarrow> bclient \<Rightarrow> bool" where
  "token_cached now c = (js_truthy (bc_token c) \<and> now < bc_expiry c - 5000)"

text \<open>\<open>#token\<close>: whether the client assertion could be signed, and the answer of the token endpoint; \<open>None\<close>
  when it throws.\<close>

definition service_token :: "int \<Rightarrow> bool \<Rightarrow> fetched \<Rightarrow> bclient \<Rightarrow> bclient option" where
  "service_token now signed reply c =
     (if token_cached now c then Some c
      else if \<not> signed then None
      else case reply of
          Resp st (Some j) \<Rightarrow>
            if \<not> resp_ok st \<or> j = JNull then None
            else Some \<lparr>bc_token = jget ''access_token'' j,
              bc_expiry = now + (if js_truthy (jget ''expires_in'' j)
                then (case number_of (jget ''expires_in'' j) of Some n \<Rightarrow> n * 1000 | None \<Rightarrow> 0) else 120000)\<rparr>
        | _ \<Rightarrow> None)"

text \<open>The body of an answer, \<open>Some None\<close> for 404; reading a member of null throws.\<close>

definition board_body :: "fetched \<Rightarrow> json option option" where
  "board_body r =
     (case r of
        NetError \<Rightarrow> None
      | Resp st b \<Rightarrow>
          if st = 404 then Some None
          else if \<not> resp_ok st then None
          else case b of None \<Rightarrow> None | Some JNull \<Rightarrow> None | Some j \<Rightarrow> Some (Some j))"

text \<open>\<open>currentFenceGeneration\<close>: the generation, \<open>None\<close> inside for NaN or a fraction; \<open>Some None\<close> when there
  is no lease.\<close>

definition current_fence_generation :: "fetched \<Rightarrow> int option option option" where
  "current_fence_generation r =
     map_option (map_option (\<lambda>j. number_of (coalesce (jget ''lock_generation'' j) (jget ''generation'' j)))) (board_body r)"

definition facts_read :: "fetched \<Rightarrow> json option option" where
  "facts_read r =
     map_option (map_option (\<lambda>j.
       if js_truthy (jget ''provenance'' j) then the (jget ''provenance'' j)
       else if js_truthy (jget ''host_originated'' j) then host_originated else JStr ''agent'')) (board_body r)"

definition ceremony_phase :: "fetched \<Rightarrow> nexn + json" where
  "ceremony_phase r =
     (case r of
        Resp st b \<Rightarrow>
          if \<not> resp_ok st then Inl (NAuth 503 ''BOARD_UNREACHABLE'')
          else (case b of
              Some j \<Rightarrow> if j = JNull then Inl NType else Inr (JObj [(''phase'', or_else (jget ''ceremony_phase'' j) JNull)])
            | None \<Rightarrow> Inl NType)
      | NetError \<Rightarrow> Inl NType)"

section \<open>The fence\<close>

definition ticket_detail :: "string \<Rightarrow> (string \<times> json) list" where
  "ticket_detail t = [(''ticket_id'', JStr t)]"

text \<open>Before the read: the token is there, is a non-negative integer and not below the floor.\<close>

definition fence_before :: "string \<Rightarrow> json option \<Rightarrow> nstate \<Rightarrow> nexn + int" where
  "fence_before t tok s =
     throw_if (nullish tok \<or> tok = Some (JStr [])) (NBiz FenceRequired (ticket_detail t))
     (need (case number_of tok of Some n \<Rightarrow> if n < 0 then None else Some n | None \<Rightarrow> None)
       (NBiz StaleFence (ticket_detail t)) (\<lambda>n.
     throw_if (n < fence_floor t s)
       (NBiz StaleFence (ticket_detail t @ [(''presented'', JNum n), (''floor'', JNum (fence_floor t s))]))
     (Inr n)))"

text \<open>After the read: the ticket has a lease, and the token is its generation; the floor rises to it.\<close>

definition fence_after :: "string \<Rightarrow> int \<Rightarrow> fetched \<Rightarrow> nstate \<Rightarrow> nexn + nstate" where
  "fence_after t n reply s =
     need (current_fence_generation reply) (NBiz FenceUnverifiable (ticket_detail t)) (\<lambda>cur.
     need cur (NBiz StaleFence (ticket_detail t)) (\<lambda>gen.
     throw_if (gen \<noteq> Some n) (NBiz StaleFence (ticket_detail t @
       [(''presented'', JNum n), (''current'', case gen of Some g \<Rightarrow> JNum g | None \<Rightarrow> JNull)]))
     (Inr (raise_fence_floor t n s))))"

end
