(* ===== verification/NotesService.thy ===== *)
theory NotesService
  imports NotesReconcile
begin

text \<open>
  The core of the Notes service (\<open>service.js\<close>). A mutating operation is cut where it waits: it starts
  (replay, validation, lookups, the fence up to the read of the Board), goes on with each answer of
  the Board, then queues for the writer of its note. The part the writer runs (\<open>mutex.run\<close>) is one
  definition: it keeps every effect it had when it throws. What the operations close over (rows, the
  new file) travels in the queued job.
\<close>

section \<open>Requests and jobs\<close>

record nprincipal =
  np_sub :: string
  np_scopes :: "string list"

record note_args =
  ca_type :: "json option"
  ca_title :: "json option"
  ca_ticket :: "json option"
  ca_initial :: "json option"
  ca_prov :: "json option"
  ca_fence :: "json option"
  ca_op :: "json option"

record append_args =
  aa_note :: "json option"
  aa_section :: "json option"
  aa_content :: "json option"
  aa_prov :: "json option"
  aa_display :: "json option"
  aa_fence :: "json option"
  aa_op :: "json option"
  aa_isolated :: "json option"

record link_args =
  la_from :: "json option"
  la_to :: "json option"
  la_fence :: "json option"
  la_op :: "json option"

record update_args =
  ua_note :: "json option"
  ua_content :: "json option"
  ua_hash :: "json option"
  ua_op :: "json option"

datatype nreq = RCreate note_args | RAppend append_args | RLink link_args | RUpdate update_args

datatype njob =
    JCreate note_args string string string int
  | JAppend append_args note_row
  | JLink link_args note_row note_row "string option"
  | JUpdate update_args note_row

text \<open>What an operation that waits for the Board holds: the arguments of a create, or the job it will queue.\<close>

datatype pend = PCreate note_args | PJob njob

datatype npc = AwaitLease string int pend | AwaitFacts note_args | Queued njob | Finished "nexn + json"

definition req_op :: "nreq \<Rightarrow> json option" where
  "req_op r = (case r of RCreate a \<Rightarrow> ca_op a | RAppend a \<Rightarrow> aa_op a | RLink a \<Rightarrow> la_op a | RUpdate a \<Rightarrow> ua_op a)"

definition req_fence :: "nreq \<Rightarrow> json option" where
  "req_fence r = (case r of RCreate a \<Rightarrow> ca_fence a | RAppend a \<Rightarrow> aa_fence a | RLink a \<Rightarrow> la_fence a | RUpdate a \<Rightarrow> None)"

definition job_req :: "njob \<Rightarrow> nreq" where
  "job_req j = (case j of JCreate a _ _ _ _ \<Rightarrow> RCreate a | JAppend a _ \<Rightarrow> RAppend a | JLink a _ _ _ \<Rightarrow> RLink a | JUpdate a _ \<Rightarrow> RUpdate a)"

text \<open>The key of the writer queue, and the ticket that binds the write.\<close>

definition job_key :: "njob \<Rightarrow> string" where
  "job_key j = (case j of JCreate _ i _ _ _ \<Rightarrow> i | JAppend a _ \<Rightarrow> json_text (aa_note a)
     | JLink a _ _ _ \<Rightarrow> json_text (la_from a) | JUpdate a _ \<Rightarrow> json_text (ua_note a))"

definition job_ticket :: "njob \<Rightarrow> json option" where
  "job_ticket j = (case j of JCreate a _ _ _ _ \<Rightarrow> ca_ticket a | JAppend _ r \<Rightarrow> Some (jstr (nr_ticket r))
     | JLink _ _ _ t \<Rightarrow> Some (jstr t) | JUpdate _ r \<Rightarrow> Some (jstr (nr_ticket r)))"

section \<open>Replays\<close>

definition replay :: "json option \<Rightarrow> nstate \<Rightarrow> nexn + json option" where
  "replay op s =
     (if \<not> js_truthy op then Inr None
      else and_then (bind_text (the op)) (\<lambda>k.
        Inr (map_option (\<lambda>r. case op_result r of
            JObj kvs \<Rightarrow> JObj ((''replayed'', JBool True) # kvs) | j \<Rightarrow> j)
          (case k of None \<Rightarrow> None | Some k' \<Rightarrow> get_op k' s))))"

definition remember_op :: "json option \<Rightarrow> string \<Rightarrow> json \<Rightarrow> string \<Rightarrow> nstate \<Rightarrow> nstate" where
  "remember_op op sub result oid s =
     (if \<not> js_truthy op then s
      else case bind_text (the op) of
          Inr (Some k) \<Rightarrow> put_op \<lparr>op_key = k, op_sub = sub, op_result = result, op_commit = oid\<rparr> s
        | _ \<Rightarrow> s)"

section \<open>Start of an operation\<close>

definition str_in :: "json option \<Rightarrow> string list \<Rightarrow> bool" where
  "str_in v xs = (case v of Some (JStr s) \<Rightarrow> s \<in> set xs | _ \<Rightarrow> False)"

definition truthy_text :: "json option \<Rightarrow> bool" where
  "truthy_text v = (case v of Some (JStr s) \<Rightarrow> s \<noteq> [] | _ \<Rightarrow> False)"

definition scan_error :: "nworld \<Rightarrow> string \<Rightarrow> nexn option" where
  "scan_error w txt =
     map_option (\<lambda>(k, _). NBiz HygieneReject [(''pattern_class'', JStr k)]) (scan_for_secrets w txt)"

definition no_error :: "'e option \<Rightarrow> 'e + 'a \<Rightarrow> 'e + 'a" where
  "no_error e k = (case e of None \<Rightarrow> k | Some x \<Rightarrow> Inl x)"

text \<open>\<open>createNote\<close> from the taint floor to the writer: the body, the scan, the new file.\<close>

definition create_own :: "note_args \<Rightarrow> json \<Rightarrow> json" where
  "create_own a fl = resolve_own_taint clean fl (taint_from_provenance (ca_prov a))"

definition create_fm :: "note_args \<Rightarrow> json \<Rightarrow> string \<Rightarrow> string \<Rightarrow> int \<Rightarrow> fm" where
  "create_fm a fl sub i now =
     [(''id'', JStr i), (''type'', the (ca_type a)), (''title'', the (ca_title a)),
      (''created'', JStr (iso_string now)), (''updated'', JStr (iso_string now))] @
     (if js_truthy (ca_ticket a) then [(''ticket'', the (ca_ticket a))] else []) @
     [(''tags'', JArr []),
      (''provenance'', or_else (ca_prov a) (if fl = host_originated then host_originated
         else if starts_with ''op:'' sub then JStr ''operator'' else JStr ''agent'')),
      (''provenance_taint'', create_own a fl), (''authored_by'', JArr [JStr sub])]"

definition create_build ::
  "nworld \<Rightarrow> int \<Rightarrow> string \<Rightarrow> nprincipal \<Rightarrow> note_args \<Rightarrow> json \<Rightarrow> nexn + npc" where
  "create_build w now i p a fl =
     and_then (instantiate (json_text (ca_type a)) (ca_initial a)) (\<lambda>body.
     no_error (scan_error w body)
     (Inr (Queued (JCreate a i (derive_new_path (json_text (ca_type a)) (slugify (json_text (ca_title a))) i)
        (serialize w (create_fm a fl (np_sub p) i now) body) now))))"

definition start_create :: "nworld \<Rightarrow> int \<Rightarrow> string \<Rightarrow> nprincipal \<Rightarrow> note_args \<Rightarrow> nstate \<Rightarrow> nexn + npc" where
  "start_create w now i p a s =
     throw_if (\<not> str_in (ca_type a) note_types) (nerr Validation)
     (throw_if (\<not> truthy_text (ca_title a)) (nerr Validation)
     (throw_if (js_truthy (ca_prov a) \<and> \<not> str_in (ca_prov a) provenances) (nerr Validation)
     (throw_if (js_truthy (ca_ticket a) \<and> \<not> is_ticket_shape (ca_ticket a)) (nerr Validation)
     (if js_truthy (ca_ticket a)
      then and_then (fence_before (json_text (ca_ticket a)) (ca_fence a) s) (\<lambda>n.
        Inr (AwaitLease (json_text (ca_ticket a)) n (PCreate a)))
      else create_build w now i p a clean))))"

text \<open>\<open>appendNote\<close> and \<open>linkNotes\<close>: a note bound to a ticket waits for the fence.\<close>

definition append_scan :: "nworld \<Rightarrow> append_args \<Rightarrow> note_row \<Rightarrow> nexn + npc" where
  "append_scan w a r = no_error (scan_error w (js_string (the (aa_content a)))) (Inr (Queued (JAppend a r)))"

definition start_append :: "nworld \<Rightarrow> append_args \<Rightarrow> nstate \<Rightarrow> nexn + npc" where
  "start_append w a s =
     throw_if (\<not> is_note_json (aa_note a)) (nerr Validation)
     (throw_if (\<not> truthy_text (aa_section a)) (nerr Validation)
     (throw_if (nullish (aa_content a)) (nerr Validation)
     (throw_if (js_truthy (aa_prov a) \<and> \<not> str_in (aa_prov a) provenances) (nerr Validation)
     (throw_if (js_truthy (aa_display a) \<and> \<not> str_in (aa_display a) ceremony_phases) (nerr Validation)
     (need (get_note (json_text (aa_note a)) s) (NBiz NotFound [(''id'', JStr (json_text (aa_note a)))]) (\<lambda>r.
      if truthy_str (nr_ticket r)
      then and_then (fence_before (the (nr_ticket r)) (aa_fence a) s) (\<lambda>n.
        Inr (AwaitLease (the (nr_ticket r)) n (PJob (JAppend a r))))
      else append_scan w a r))))))"

definition link_ticket :: "note_row \<Rightarrow> note_row \<Rightarrow> string option" where
  "link_ticket f t = (if truthy_str (nr_ticket f) then nr_ticket f else nr_ticket t)"

definition start_link :: "link_args \<Rightarrow> nstate \<Rightarrow> nexn + npc" where
  "start_link a s =
     throw_if (\<not> is_note_json (la_from a) \<or> \<not> is_note_json (la_to a)) (nerr Validation)
     (need (get_note (json_text (la_from a)) s) (nerr NotFound) (\<lambda>f.
      need (get_note (json_text (la_to a)) s) (nerr NotFound) (\<lambda>t.
      if truthy_str (link_ticket f t)
      then and_then (fence_before (the (link_ticket f t)) (la_fence a) s) (\<lambda>n.
        Inr (AwaitLease (the (link_ticket f t)) n (PJob (JLink a f t (link_ticket f t)))))
      else Inr (Queued (JLink a f t (link_ticket f t))))))"

definition start_update :: "update_args \<Rightarrow> nstate \<Rightarrow> nexn + npc" where
  "start_update a s =
     throw_if (\<not> is_note_json (ua_note a)) (nerr Validation)
     (throw_if (nullish (ua_content a)) (nerr Validation)
     (need (get_note (json_text (ua_note a)) s) (NBiz NotFound [(''id'', JStr (json_text (ua_note a)))]) (\<lambda>r.
       Inr (Queued (JUpdate a r)))))"

definition finish :: "nexn + npc \<Rightarrow> npc" where
  "finish r = (case r of Inl e \<Rightarrow> Finished (Inl e) | Inr pc \<Rightarrow> pc)"

definition start_op :: "nworld \<Rightarrow> int \<Rightarrow> string \<Rightarrow> nprincipal \<Rightarrow> nreq \<Rightarrow> nstate \<Rightarrow> npc" where
  "start_op w now i p r s =
     finish (and_then (replay (req_op r) s) (\<lambda>prior.
       case prior of
         Some j \<Rightarrow> Inr (Finished (Inr j))
       | None \<Rightarrow>
          (case r of
             RCreate a \<Rightarrow> start_create w now i p a s
           | RAppend a \<Rightarrow> start_append w a s
           | RLink a \<Rightarrow> start_link a s
           | RUpdate a \<Rightarrow> start_update a s)))"

section \<open>Answers of the Board\<close>

definition after_facts :: "nworld \<Rightarrow> int \<Rightarrow> string \<Rightarrow> nprincipal \<Rightarrow> note_args \<Rightarrow> fetched \<Rightarrow> nexn + npc" where
  "after_facts w now i p a reply =
     (case facts_read reply of
        None \<Rightarrow> create_build w now i p a host_originated
      | Some None \<Rightarrow> Inl (NBiz TicketUnknown (ticket_detail (json_text (ca_ticket a))))
      | Some (Some prov) \<Rightarrow>
          create_build w now i p a (floor_for_provenance (Some (or_else (Some prov) host_originated))))"

definition after_fence :: "nworld \<Rightarrow> pend \<Rightarrow> nexn + npc" where
  "after_fence w pd =
     (case pd of
        PCreate a \<Rightarrow> Inr (AwaitFacts a)
      | PJob (JAppend a r) \<Rightarrow> append_scan w a r
      | PJob j \<Rightarrow> Inr (Queued j))"

definition resume_op :: "nworld \<Rightarrow> int \<Rightarrow> string \<Rightarrow> nprincipal \<Rightarrow> fetched \<Rightarrow> npc \<Rightarrow> nstate \<Rightarrow> npc \<times> nstate" where
  "resume_op w now i p reply pc s =
     (case pc of
        AwaitLease t n pd \<Rightarrow>
          (case fence_after t n reply s of
             Inl e \<Rightarrow> (Finished (Inl e), s)
           | Inr s' \<Rightarrow> (finish (after_fence w pd), s'))
      | AwaitFacts a \<Rightarrow> (finish (after_facts w now i p a reply), s)
      | _ \<Rightarrow> (pc, s))"

section \<open>The writer of a note\<close>

text \<open>
  The answers of the file system and of git while the writer runs: the clock, whether a symbolic link is
  met, whether the file is written, the id of the commit or that git failed.
\<close>

record nenv =
  ne_now :: int
  ne_symlink :: bool
  ne_written :: bool
  ne_mtime :: int
  ne_commit :: "string option"

definition read_by_path :: "nconfig \<Rightarrow> string \<Rightarrow> nstate \<Rightarrow> nexn + string" where
  "read_by_path cfg path s =
     and_then (resolve_abs cfg path) (\<lambda>_. need (ns_files s path) NIo (\<lambda>f. Inr (nf_text f)))"

definition write_atomic :: "nconfig \<Rightarrow> nenv \<Rightarrow> string \<Rightarrow> string \<Rightarrow> nstate \<Rightarrow> nexn + nstate" where
  "write_atomic cfg e path txt s =
     throw_if (nc_max_bytes cfg < length txt) (nerr TooLarge)
     (and_then (resolve_abs cfg path) (\<lambda>_.
      throw_if (ne_symlink e) (nerr Validation)
     (throw_if (\<not> ne_written e) NIo
     (Inr (s\<lparr>ns_files := (ns_files s)(path \<mapsto> \<lparr>nf_text = txt, nf_mtime = ne_mtime e\<rparr>)\<rparr>)))))"

definition audit_event :: "naudit \<Rightarrow> json" where
  "audit_event r = JObj [(''note_id'', jstr (na_note r)), (''sub'', JStr (na_sub r)), (''tool'', jstr (na_tool r))]"

definition audit_write :: "naudit \<Rightarrow> nstate \<Rightarrow> nstate" where
  "audit_write r s = nemit ''audit'' (audit_event r) (append_audit r s)"

text \<open>
  The common tail of the four operations: write, commit, notify the push, reconcile, audit. The file and
  the commit stay when a later part throws.
\<close>

definition text_or_null :: "json option \<Rightarrow> string option" where
  "text_or_null v = (if js_truthy v then (case bind_text (the v) of Inr t \<Rightarrow> t | Inl _ \<Rightarrow> None) else None)"

definition persist ::
  "nconfig \<Rightarrow> nworld \<Rightarrow> nenv \<Rightarrow> nprincipal \<Rightarrow> string \<Rightarrow> string \<Rightarrow> string \<Rightarrow> string \<Rightarrow> trailers \<Rightarrow> string \<Rightarrow> nstate
     \<Rightarrow> (nexn + string) \<times> nstate" where
  "persist cfg w e p path txt summary tool tr ts s =
     (case write_atomic cfg e path txt s of
        Inl x \<Rightarrow> (Inl x, s)
      | Inr s1 \<Rightarrow>
         (case ne_commit e of
            None \<Rightarrow> (Inl NIo, s1)
          | Some oid \<Rightarrow>
             (let s2 = s1\<lparr>ns_git := commit_file w oid (ne_now e) path txt summary tool (np_sub p) tr (ns_git s1),
                         ns_remote := notify_commit (ne_now e) oid (ns_remote s1)\<rparr> in
              (case reconcile_file w path s2 of
                 Inl x \<Rightarrow> (Inl x, s2)
               | Inr s3 \<Rightarrow>
                  (Inr oid, audit_write \<lparr>na_ts = ts, na_sub = np_sub p, na_tool = Some tool,
                     na_note = text_or_null (trl_note tr), na_ticket = text_or_null (trl_ticket tr),
                     na_op = text_or_null (trl_op tr),
                     na_fence = (if nullish (trl_fence tr) then None else Some (js_string (the (trl_fence tr)))),
                     na_commit = oid\<rparr> s3)))))"

definition job_trailers :: "njob \<Rightarrow> trailers" where
  "job_trailers j = \<lparr>trl_note = Some (JStr (job_key j)), trl_ticket = job_ticket j, trl_op = req_op (job_req j),
     trl_fence = req_fence (job_req j)\<rparr>"

text \<open>\<open>Array.from(new Set([...xs, x]))\<close>: a text spreads into its characters, other values do not spread.\<close>

fun spread :: "json option \<Rightarrow> nexn + json list" where
  "spread (Some (JArr xs)) = Inr xs"
| "spread (Some (JStr s)) = Inr (map (\<lambda>c. JStr [c]) s)"
| "spread v = (if js_truthy v then Inl NType else Inr [])"

fun dedup :: "json list \<Rightarrow> json list \<Rightarrow> json list" where
  "dedup seen [] = []"
| "dedup seen (x # xs) = (if x \<in> set seen then dedup seen xs else x # dedup (x # seen) xs)"

definition add_member :: "json option \<Rightarrow> json \<Rightarrow> nexn + json" where
  "add_member v x = and_then (spread v) (\<lambda>xs. Inr (JArr (dedup [] (xs @ [x]))))"

section \<open>The new content\<close>

definition turn_line :: "append_args \<Rightarrow> note_row \<Rightarrow> string \<Rightarrow> int \<Rightarrow> string" where
  "turn_line a r sub now =
     (if nr_type r = Some ''deliberation''
      then ''<!-- turn sub='' @ sub @ '' ts='' @ iso_string now @ '' isolated='' @
        (if js_truthy (aa_isolated a) then ''true'' else ''false'') @ '' -->'' @ [nl]
      else [])"

definition append_taint :: "append_args \<Rightarrow> fm \<Rightarrow> fm" where
  "append_taint a m =
     (case taint_from_provenance (aa_prov a) of
        None \<Rightarrow> m
      | Some d \<Rightarrow> fm_set ''provenance_taint''
          (resolve_own_taint (or_else (fm_get ''provenance_taint'' m) clean) clean (Some d)) m)"

definition append_file ::
  "nworld \<Rightarrow> string \<Rightarrow> int \<Rightarrow> append_args \<Rightarrow> note_row \<Rightarrow> string \<Rightarrow> nexn + fm \<times> string" where
  "append_file w sub now a r raw =
     (let (m, body) = parse_note w raw in
      need (find_section body (json_text (aa_section a))) (NBiz SectionUnknown [(''section'', JStr (json_text (aa_section a)))])
        (\<lambda>(i, j, lines).
      and_then (add_member (fm_get ''authored_by'' (append_taint a m)) (JStr sub)) (\<lambda>authors.
        let m1 = fm_set ''updated'' (JStr (iso_string now)) (fm_set ''authored_by'' authors (append_taint a m));
            m2 = (if js_truthy (aa_display a) then with_display_phase m1 (the (aa_display a)) else m1)
        in Inr (m2, splice_at j ([nl] @ turn_line a r sub now @ js_string (the (aa_content a))) lines))))"

definition link_text :: "note_row \<Rightarrow> string" where
  "link_text t = ''[['' @ js_string (jstr (nr_title t)) @ '']]''"

definition link_file :: "nworld \<Rightarrow> int \<Rightarrow> note_row \<Rightarrow> string \<Rightarrow> nexn + fm \<times> string" where
  "link_file w now t raw =
     (let (m, body) = parse_note w raw;
          body' = (case find_section body ''Links'' of
             None \<Rightarrow> trim_end body @ [nl, nl] @ ''## Links'' @ [nl] @ ''- '' @ link_text t @ [nl]
           | Some (i, j, lines) \<Rightarrow> splice_at j (''- '' @ link_text t) lines)
      in and_then (add_member (fm_get ''links'' m) (jstr (nr_title t))) (\<lambda>ls.
         Inr (fm_set ''updated'' (JStr (iso_string now)) (fm_set ''links'' ls m), body')))"

definition preserve :: "string \<Rightarrow> fm \<Rightarrow> fm \<Rightarrow> fm" where
  "preserve k prev m = (case fm_get k prev of None \<Rightarrow> m | Some v \<Rightarrow> fm_set k v m)"

definition with_frontmatter_preserved :: "nworld \<Rightarrow> string \<Rightarrow> fm \<Rightarrow> string" where
  "with_frontmatter_preserved w content prev =
     (let (m, body) = parse_note w content;
          m1 = foldl (\<lambda>acc k. preserve k prev acc) m [''id'', ''type'', ''created'', ''ticket''];
          m2 = (if fm_get ''provenance'' m1 = None then preserve ''provenance'' prev m1 else m1);
          m3 = (case fm_get ''provenance_taint'' prev of
             None \<Rightarrow> m2
           | Some old \<Rightarrow> fm_set ''provenance_taint''
               (case fm_get ''provenance_taint'' m2 of
                  Some new \<Rightarrow> if js_truthy (Some new) \<and> rank_lt (taint_rank (Some old)) (taint_rank (Some new))
                    then new else old
                | None \<Rightarrow> old) m2)
      in serialize w m3 body)"

definition file_taint :: "fm \<Rightarrow> json" where
  "file_taint m = or_else (fm_get ''provenance_taint'' m) clean"

definition update_file ::
  "nworld \<Rightarrow> string \<Rightarrow> int \<Rightarrow> update_args \<Rightarrow> string \<Rightarrow> nexn + fm \<times> string" where
  "update_file w sub now a raw =
     throw_if (js_truthy (ua_hash a) \<and> ua_hash a \<noteq> Some (JStr (content_hash w raw)))
       (NBiz PreconditionHash [(''note_id'', JStr (json_text (ua_note a)))])
     (let prev = fst (parse_note w raw);
          (m, body) = parse_note w (with_frontmatter_preserved w (js_string (the (ua_content a))) prev) in
      throw_if (is_downgrade (file_taint prev) (file_taint m))
        (NBiz TaintDowngrade [(''prev'', file_taint prev), (''next'', file_taint m)])
     (no_error (scan_error w body)
     (and_then (add_member (fm_get ''authored_by'' prev) (JStr sub)) (\<lambda>authors.
        Inr (fm_set ''authored_by'' authors (fm_set ''updated'' (JStr (iso_string now)) m), body)))))"

section \<open>Running a job\<close>

definition job_path :: "njob \<Rightarrow> string" where
  "job_path j = (case j of JCreate _ _ path _ _ \<Rightarrow> path | JAppend _ r \<Rightarrow> nr_path r | JLink _ f _ _ \<Rightarrow> nr_path f
     | JUpdate _ r \<Rightarrow> nr_path r)"

definition job_tool :: "njob \<Rightarrow> string" where
  "job_tool j = (case j of JCreate _ _ _ _ _ \<Rightarrow> ''create_note'' | JAppend _ _ \<Rightarrow> ''append_note''
     | JLink _ _ _ _ \<Rightarrow> ''link_notes'' | JUpdate _ _ \<Rightarrow> ''update_note'')"

text \<open>The section sign and the arrow of the summaries are their UTF-8 bytes.\<close>

definition job_summary :: "njob \<Rightarrow> string" where
  "job_summary j = (case j of
       JCreate a _ _ _ _ \<Rightarrow> ''create '' @ json_text (ca_type a) @ '' '' @ [CHR 0x22] @ json_text (ca_title a) @ [CHR 0x22]
     | JAppend a _ \<Rightarrow> ''append '' @ [CHR 0xC2, CHR 0xA7] @ json_text (aa_section a)
     | JLink a _ _ _ \<Rightarrow> ''link '' @ [CHR 0xE2, CHR 0x86, CHR 0x92] @ '' '' @ json_text (la_to a)
     | JUpdate _ _ \<Rightarrow> ''overwrite note'')"

text \<open>The text the job writes: a create brings it, the others make it from the note as the writer finds it.\<close>

definition job_file :: "nworld \<Rightarrow> string \<Rightarrow> int \<Rightarrow> njob \<Rightarrow> string \<Rightarrow> nexn + fm \<times> string" where
  "job_file w sub now j raw =
     (case j of
        JAppend a r \<Rightarrow> append_file w sub now a r raw
      | JLink _ _ t _ \<Rightarrow> link_file w now t raw
      | JUpdate a _ \<Rightarrow> update_file w sub now a raw
      | JCreate _ _ _ _ _ \<Rightarrow> Inl NType)"

definition job_text :: "nconfig \<Rightarrow> nworld \<Rightarrow> nenv \<Rightarrow> nprincipal \<Rightarrow> njob \<Rightarrow> nstate \<Rightarrow> nexn + string" where
  "job_text cfg w e p j s =
     (case j of
        JCreate _ _ _ txt _ \<Rightarrow> Inr txt
      | _ \<Rightarrow>
         and_then (read_by_path cfg (job_path j) s) (\<lambda>raw.
         and_then (job_file w (np_sub p) (ne_now e) j raw) (\<lambda>(m, body). Inr (serialize w m body))))"

definition job_ts :: "nenv \<Rightarrow> njob \<Rightarrow> string" where
  "job_ts e j = iso_string (case j of JCreate _ _ _ _ now \<Rightarrow> now | _ \<Rightarrow> ne_now e)"

definition job_result :: "nworld \<Rightarrow> njob \<Rightarrow> string \<Rightarrow> string \<Rightarrow> json" where
  "job_result w j txt oid =
     JObj ((''ok'', JBool True) #
       (case j of
          JCreate _ i path _ _ \<Rightarrow> [(''note_id'', JStr i), (''path'', JStr path), (''content_hash'', JStr (content_hash w txt))]
        | JLink a _ _ _ \<Rightarrow> [(''from_id'', JStr (json_text (la_from a))), (''to_id'', JStr (json_text (la_to a)))]
        | _ \<Rightarrow> [(''note_id'', JStr (job_key j)), (''content_hash'', JStr (content_hash w txt))]) @
       [(''commit_sha'', JStr oid)])"

definition run_job ::
  "nconfig \<Rightarrow> nworld \<Rightarrow> nenv \<Rightarrow> nprincipal \<Rightarrow> njob \<Rightarrow> nstate \<Rightarrow> (nexn + json) \<times> nstate" where
  "run_job cfg w e p j s =
     (case job_text cfg w e p j s of
        Inl x \<Rightarrow> (Inl x, s)
      | Inr txt \<Rightarrow>
         (case persist cfg w e p (job_path j) txt (job_summary j) (job_tool j) (job_trailers j) (job_ts e j) s of
            (Inl x, s') \<Rightarrow> (Inl x, s')
          | (Inr oid, s') \<Rightarrow>
              (Inr (job_result w j txt oid), remember_op (req_op (job_req j)) (np_sub p) (job_result w j txt oid) oid s')))"

section \<open>Reads and the rebuild\<close>

definition read_note :: "nconfig \<Rightarrow> nworld \<Rightarrow> string \<Rightarrow> nstate \<Rightarrow> nexn + json" where
  "read_note cfg w i s =
     throw_if (\<not> is_note_id i) (nerr Validation)
     (need (get_note i s) (NBiz NotFound [(''id'', JStr i)]) (\<lambda>r.
      and_then (read_by_path cfg (nr_path r) s) (\<lambda>raw.
      let (m, body) = parse_note w raw in
      Inr (JObj [(''id'', JStr i), (''path'', JStr (nr_path r)), (''frontmatter'', JObj (readable m)), (''body'', JStr body),
        (''content_hash'', JStr (content_hash w raw)),
        (''commit_sha'', case audit_for_note i s of
            a # _ \<Rightarrow> if na_commit a \<noteq> [] then JStr (na_commit a) else jstr (head_oid (ns_git s))
          | [] \<Rightarrow> jstr (head_oid (ns_git s))),
        (''taint'', taint_json (note_taint i s))]))))"

definition list_backlinks :: "string \<Rightarrow> nstate \<Rightarrow> nexn + json" where
  "list_backlinks i s =
     throw_if (\<not> is_note_id i) (nerr Validation)
     (Inr (JArr (map (\<lambda>r. JObj [(''note_id'', JStr (nr_id r)), (''title'', jstr (nr_title r)), (''type'', jstr (nr_type r)),
        (''taint'', JStr (fst (snd (note_taint (nr_id r) s))))]) (backlinks i s))))"

definition read_taint :: "string \<Rightarrow> nstate \<Rightarrow> nexn + json" where
  "read_taint i s =
     throw_if (\<not> is_note_id i) (nerr Validation)
     (need (get_note i s) (NBiz NotFound [(''id'', JStr i)]) (\<lambda>_. Inr (taint_json (note_taint i s))))"

definition reindex :: "nworld \<Rightarrow> string list \<Rightarrow> nstate \<Rightarrow> (nexn + json) \<times> nstate" where
  "reindex w walk s =
     (case reconcile_all w True walk s of
        (Some x, s') \<Rightarrow> (Inl x, s')
      | (None, s') \<Rightarrow> (Inr (JObj [(''ok'', JBool True), (''reindexed'', JBool True)]), s'))"

end
