(* ===== verification/NotesSurface.thy ===== *)
theory NotesSurface
  imports NotesService
begin

text \<open>
  The surfaces of the Notes service: the resource server (\<open>auth/rs.js\<close>), the budget (\<open>auth/budget.js\<close>),
  the HTTP routes (\<open>api/http.js\<close>), the MCP tools (\<open>mcp/tools.js\<close>) and the boot requirement (\<open>config.js\<close>).
  A mutating route or tool yields a request of the service; a read is answered at once. The validation
  of a token's signature, issuer, audience and expiry is a parameter.
\<close>

section \<open>Authentication\<close>

definition nverify :: "(string \<Rightarrow> json option) \<Rightarrow> string \<Rightarrow> refusal + json" where
  "nverify jwt tok =
     need (jwt tok) (Refusal 401 ''invalid_token'') (\<lambda>payload.
     throw_if (case jget ''aud'' payload of Some (JArr xs) \<Rightarrow> length xs \<noteq> 1 | _ \<Rightarrow> False) (Refusal 401 ''invalid_token'')
     (throw_if (\<not> js_truthy (jget ''sub'' payload)) (Refusal 401 ''invalid_token'') (Inr payload)))"

definition nauthenticate :: "nconfig \<Rightarrow> (string \<Rightarrow> json option) \<Rightarrow> headers \<Rightarrow> refusal + nprincipal" where
  "nauthenticate cfg jwt h =
     (if nc_dev cfg then
        Inr \<lparr>np_sub = truthy_or (h_dev_sub h) ''op:dev'',
          np_scopes = split_words (truthy_or (h_dev_scopes h) ''notes:read notes:search notes:append notes:write'')\<rparr>
      else
        need (bearer_token (truthy_or (h_authorization h) [])) (Refusal 401 ''missing_token'') (\<lambda>tok.
        and_then (nverify jwt tok) (\<lambda>payload.
          Inr \<lparr>np_sub = js_string (the (jget ''sub'' payload)),
            np_scopes = split_words (if js_truthy (jget ''scope'' payload) then js_string (the (jget ''scope'' payload)) else [])\<rparr>)))"

definition nrequire_scope :: "nconfig \<Rightarrow> (string \<Rightarrow> json option) \<Rightarrow> nscope \<Rightarrow> headers \<Rightarrow> refusal + nprincipal" where
  "nrequire_scope cfg jwt sc h =
     and_then (nauthenticate cfg jwt h) (\<lambda>p.
     throw_if (nscope_str sc \<notin> set (np_scopes p)) (Refusal 403 ''insufficient_scope'') (Inr p))"

section \<open>Budget\<close>

text \<open>The status of the shared budget's answer, \<open>None\<close> when it cannot be reached: only a 429 refuses.\<close>

definition nbudget_admit ::
  "nconfig \<Rightarrow> string \<Rightarrow> nat option \<Rightarrow> (string \<Rightarrow> nat option) \<Rightarrow> refusal option \<times> (string \<Rightarrow> nat option)" where
  "nbudget_admit cfg sub shared m =
     (let cur = (case m sub of None \<Rightarrow> 0 | Some n \<Rightarrow> n) in
      if nc_ceiling cfg \<le> cur then (Some (Refusal 429 ''budget''), m)
      else (if shared = Some 429 then Some (Refusal 429 ''budget'') else None, m(sub \<mapsto> cur + 1)))"

definition nbudget_finish :: "string \<Rightarrow> (string \<Rightarrow> nat option) \<Rightarrow> (string \<Rightarrow> nat option)" where
  "nbudget_finish sub m =
     (let n = (case m sub of None \<Rightarrow> 1 | Some 0 \<Rightarrow> 1 | Some k \<Rightarrow> k) - 1 in
      if n = 0 then m(sub := None) else m(sub \<mapsto> n))"

section \<open>HTTP routes\<close>

datatype notes_call =
    GetNote string | GetBacklinks string | GetTaint string
  | GetSearch "string option" "string option" "string option" "string option" "string option" "string option"
  | PostNotes note_args | PostAppend string append_args | PostLinks string link_args | PutNote string update_args
  | PostReindex "string list"

fun call_scope :: "notes_call \<Rightarrow> nscope" where
  "call_scope (GetNote _) = NotesRead"
| "call_scope (GetBacklinks _) = NotesRead"
| "call_scope (GetTaint _) = NotesRead"
| "call_scope (GetSearch _ _ _ _ _ _) = NotesSearch"
| "call_scope (PostNotes _) = NotesAppend"
| "call_scope (PostAppend _ _) = NotesAppend"
| "call_scope (PostLinks _ _) = NotesAppend"
| "call_scope (PutNote _ _) = NotesWrite"
| "call_scope (PostReindex _) = NotesWrite"

text \<open>The path parameter replaces what the body says under the same name.\<close>

fun call_request :: "notes_call \<Rightarrow> nreq option" where
  "call_request (PostNotes a) = Some (RCreate a)"
| "call_request (PostAppend i a) = Some (RAppend (a\<lparr>aa_note := Some (JStr i)\<rparr>))"
| "call_request (PostLinks i a) = Some (RLink (a\<lparr>la_from := Some (JStr i)\<rparr>))"
| "call_request (PutNote i a) = Some (RUpdate (a\<lparr>ua_note := Some (JStr i)\<rparr>))"
| "call_request _ = None"

text \<open>The query parameters \<open>query\<close>, \<open>q\<close>, \<open>type\<close>, \<open>tag\<close>, \<open>ticket_id\<close>, \<open>limit\<close>, where they are single values.\<close>

definition search_query ::
  "string option \<Rightarrow> string option \<Rightarrow> string option \<Rightarrow> string option \<Rightarrow> string option \<Rightarrow> string option \<Rightarrow> search_args" where
  "search_query query q ty tag ticket limit =
     \<lparr>sa_query = truthy_or query (truthy_or q []), sa_type = ty, sa_tag = tag, sa_ticket = ticket,
       sa_limit = (if truthy_str limit then number_of_text (the limit) else Some 10)\<rparr>"

text \<open>The routes that answer at once.\<close>

fun call_answer :: "nconfig \<Rightarrow> nworld \<Rightarrow> notes_call \<Rightarrow> nstate \<Rightarrow> (nexn + json) \<times> nstate" where
  "call_answer cfg w (GetNote i) s = (read_note cfg w i s, s)"
| "call_answer cfg w (GetBacklinks i) s =
     (and_then (list_backlinks i s) (\<lambda>j. Inr (JObj [(''backlinks'', j)])), s)"
| "call_answer cfg w (GetTaint i) s = (read_taint i s, s)"
| "call_answer cfg w (GetSearch query q ty tag ticket limit) s =
     (and_then (search w (search_query query q ty tag ticket limit) s) (\<lambda>j. Inr (JObj [(''results'', j)])), s)"
| "call_answer cfg w (PostReindex walk) s = reindex w walk s"
| "call_answer cfg w _ s = (Inl NType, s)"

datatype nadmission = NRefused refusal | NRead "nexn + json" | NStart nprincipal nreq

definition notes_http ::
  "nconfig \<Rightarrow> nworld \<Rightarrow> (string \<Rightarrow> json option) \<Rightarrow> nat option \<Rightarrow> headers \<Rightarrow> notes_call
     \<Rightarrow> (string \<Rightarrow> nat option) \<times> nstate \<Rightarrow> nadmission \<times> (string \<Rightarrow> nat option) \<times> nstate" where
  "notes_http cfg w jwt shared h c = (\<lambda>(m, s).
     case nrequire_scope cfg jwt (call_scope c) h of
       Inl r \<Rightarrow> (NRefused r, m, s)
     | Inr p \<Rightarrow>
        (case nbudget_admit cfg (np_sub p) shared m of
           (Some r, m1) \<Rightarrow> (NRefused r, m1, s)
         | (None, m1) \<Rightarrow>
            (case call_request c of
               Some r \<Rightarrow> (NStart p r, m1, s)
             | None \<Rightarrow> (let (x, s') = call_answer cfg w c s in (NRead x, m1, s')))))"

text \<open>The status and the body a finished call is answered with.\<close>

definition notes_answer :: "nexn + json \<Rightarrow> nat \<times> json" where
  "notes_answer r =
     (case r of
        Inr j \<Rightarrow> (200, j)
      | Inl (NBiz c d) \<Rightarrow> (ncode_http c, JObj ((''code'', JStr (ncode_str c)) # d))
      | Inl (NAuth st c) \<Rightarrow> (st, JObj [(''error'', JStr c)])
      | Inl _ \<Rightarrow> (500, JObj [(''code'', JStr ''INTERNAL'')]))"

definition notes_healthz :: "nconfig \<Rightarrow> int \<Rightarrow> int option \<Rightarrow> remote \<Rightarrow> nat \<times> json" where
  "notes_healthz cfg now stamp r =
     (if remote_healthy cfg now r then 200 else 503,
      JObj [(''status'', JStr (if remote_healthy cfg now r then ''ok'' else ''degraded'')),
        (''index_last_reconcile_ms'', jint stamp), (''git'', remote_health cfg now r)])"

section \<open>MCP tools\<close>

datatype notes_tool =
    NtRead string | NtBacklinks string | NtSearch search_args
  | NtCreate note_args | NtAppend append_args | NtLink link_args | NtUpdate update_args

fun ntool_scope :: "notes_tool \<Rightarrow> nscope" where
  "ntool_scope (NtRead _) = NotesRead"
| "ntool_scope (NtBacklinks _) = NotesRead"
| "ntool_scope (NtSearch _) = NotesSearch"
| "ntool_scope (NtCreate _) = NotesAppend"
| "ntool_scope (NtAppend _) = NotesAppend"
| "ntool_scope (NtLink _) = NotesAppend"
| "ntool_scope (NtUpdate _) = NotesWrite"

definition is_string :: "json option \<Rightarrow> bool" where
  "is_string v = (case v of Some (JStr _) \<Rightarrow> True | _ \<Rightarrow> False)"

definition opt_string :: "json option \<Rightarrow> bool" where
  "opt_string v = (v = None \<or> is_string v)"

definition opt_in :: "json option \<Rightarrow> string list \<Rightarrow> bool" where
  "opt_in v xs = (v = None \<or> str_in v xs)"

text \<open>The input schemas; the protocol library refuses a call that fails them and drops other members.\<close>

fun ntool_valid :: "notes_tool \<Rightarrow> bool" where
  "ntool_valid (NtRead _) = True"
| "ntool_valid (NtBacklinks _) = True"
| "ntool_valid (NtSearch a) =
     ((case sa_type a of None \<Rightarrow> True | Some t \<Rightarrow> t \<in> set note_types) \<and>
      (case sa_limit a of None \<Rightarrow> True | Some n \<Rightarrow> 1 \<le> n \<and> n \<le> 25))"
| "ntool_valid (NtCreate a) =
     (str_in (ca_type a) note_types \<and> is_string (ca_title a) \<and> opt_string (ca_ticket a) \<and> opt_string (ca_initial a) \<and>
      opt_in (ca_prov a) provenances \<and> opt_string (ca_fence a) \<and> is_string (ca_op a))"
| "ntool_valid (NtAppend a) =
     (is_string (aa_note a) \<and> is_string (aa_section a) \<and> is_string (aa_content a) \<and> opt_in (aa_prov a) provenances \<and>
      opt_in (aa_display a) ceremony_phases \<and> opt_string (aa_fence a) \<and> is_string (aa_op a) \<and> aa_isolated a = None)"
| "ntool_valid (NtLink a) =
     (is_string (la_from a) \<and> is_string (la_to a) \<and> opt_string (la_fence a) \<and> is_string (la_op a))"
| "ntool_valid (NtUpdate a) =
     (is_string (ua_note a) \<and> is_string (ua_content a) \<and> is_string (ua_hash a) \<and> is_string (ua_op a))"

fun ntool_request :: "notes_tool \<Rightarrow> nreq option" where
  "ntool_request (NtCreate a) = Some (RCreate a)"
| "ntool_request (NtAppend a) = Some (RAppend a)"
| "ntool_request (NtLink a) = Some (RLink a)"
| "ntool_request (NtUpdate a) = Some (RUpdate a)"
| "ntool_request _ = None"

fun ntool_answer :: "nconfig \<Rightarrow> nworld \<Rightarrow> notes_tool \<Rightarrow> nstate \<Rightarrow> nexn + json" where
  "ntool_answer cfg w (NtRead i) s = read_note cfg w i s"
| "ntool_answer cfg w (NtBacklinks i) s = and_then (list_backlinks i s) (\<lambda>j. Inr (JObj [(''backlinks'', j)]))"
| "ntool_answer cfg w (NtSearch a) s =
     and_then (search w (a\<lparr>sa_limit := (if sa_limit a = None then Some 10 else sa_limit a)\<rparr>) s)
       (\<lambda>j. Inr (JObj [(''results'', j)]))"
| "ntool_answer cfg w _ s = Inl NType"

text \<open>A result, a structured error, or an exception for the protocol layer.\<close>

datatype ntool_result = ToolOk json | ToolFail string "(string \<times> json) list" | ToolThrow

definition tool_result :: "nexn + json \<Rightarrow> ntool_result" where
  "tool_result r =
     (case r of
        Inr j \<Rightarrow> ToolOk j
      | Inl (NBiz c d) \<Rightarrow> ToolFail (ncode_str c) d
      | Inl (NAuth st c) \<Rightarrow> ToolFail (if c = [] then ''DEPENDENCY'' else c) []
      | Inl _ \<Rightarrow> ToolThrow)"

datatype ntool_step = TsResult ntool_result | TsStart nprincipal nreq

definition notes_mcp :: "nconfig \<Rightarrow> nworld \<Rightarrow> nprincipal \<Rightarrow> notes_tool \<Rightarrow> nstate \<Rightarrow> ntool_step" where
  "notes_mcp cfg w p t s =
     (if nscope_str (ntool_scope t) \<notin> set (np_scopes p)
      then TsResult (ToolFail ''insufficient_scope'' [(''required'', JStr (nscope_str (ntool_scope t)))])
      else case ntool_request t of
          Some r \<Rightarrow> TsStart p r
        | None \<Rightarrow> TsResult (tool_result (ntool_answer cfg w t s)))"

section \<open>Boot\<close>

definition boot_refused :: "nconfig \<Rightarrow> bool" where
  "boot_refused cfg = (\<not> truthy_str (nc_remote_url cfg))"

text \<open>A fresh database is filled from the files before the service listens.\<close>

definition boot_index :: "nworld \<Rightarrow> bool \<Rightarrow> string list \<Rightarrow> nstate \<Rightarrow> nexn option \<times> nstate" where
  "boot_index w fresh walk s = reconcile_all w fresh walk (s\<lparr>ns_remote := new_remote, ns_events := []\<rparr>)"

end
