(* ===== verification/NotesSystem.thy ===== *)
theory NotesSystem
  imports NotesSurface
begin

text \<open>
  The Notes service running: the store and the operations under way, each with its principal and what
  the Board told it. Every step is one uninterrupted piece of the code with arbitrary arguments and
  answers, so every interleaving of operations is a run; the writer part of an operation is one step
  (\<open>NotesMutex\<close> shows that the writers of a note exclude each other). Files may also change from outside:
  the watcher reconciles them. A restart forgets the operations, not the store.
\<close>

record nrun =
  nn_who :: nprincipal
  nn_pc :: npc
  nn_job :: "njob option"
  nn_lease :: "(string \<times> int \<times> fetched) option"

record nsys =
  sy_store :: nstate
  sy_runs :: "nrun list"

definition start_run :: "nworld \<Rightarrow> int \<Rightarrow> string \<Rightarrow> nprincipal \<Rightarrow> nreq \<Rightarrow> nsys \<Rightarrow> nsys" where
  "start_run w now i p r y =
     y\<lparr>sy_runs := sy_runs y @ [\<lparr>nn_who = p, nn_pc = start_op w now i p r (sy_store y), nn_job = None, nn_lease = None\<rparr>]\<rparr>"

definition resume_run :: "nworld \<Rightarrow> int \<Rightarrow> string \<Rightarrow> fetched \<Rightarrow> nat \<Rightarrow> nsys \<Rightarrow> nsys" where
  "resume_run w now i reply k y =
     (let v = sy_runs y ! k; (pc, s) = resume_op w now i (nn_who v) reply (nn_pc v) (sy_store y) in
      \<lparr>sy_store = s, sy_runs = (sy_runs y)[k := v\<lparr>nn_pc := pc,
         nn_lease := (case nn_pc v of AwaitLease t n _ \<Rightarrow> Some (t, n, reply) | _ \<Rightarrow> nn_lease v)\<rparr>]\<rparr>)"

definition write_run :: "nconfig \<Rightarrow> nworld \<Rightarrow> nenv \<Rightarrow> njob \<Rightarrow> nat \<Rightarrow> nsys \<Rightarrow> nsys" where
  "write_run cfg w e j k y =
     (let v = sy_runs y ! k; (res, s) = run_job cfg w e (nn_who v) j (sy_store y) in
      \<lparr>sy_store = s, sy_runs = (sy_runs y)[k := v\<lparr>nn_pc := Finished res, nn_job := Some j\<rparr>]\<rparr>)"

inductive nstep :: "nconfig \<Rightarrow> nworld \<Rightarrow> nsys \<Rightarrow> nsys \<Rightarrow> bool" for cfg w where
  ns_start: "nstep cfg w y (start_run w now i p r y)"
| ns_resume: "k < length (sy_runs y) \<Longrightarrow> nstep cfg w y (resume_run w now i reply k y)"
| ns_write: "k < length (sy_runs y) \<Longrightarrow> nn_pc (sy_runs y ! k) = Queued j \<Longrightarrow> nstep cfg w y (write_run cfg w e j k y)"
| ns_reindex: "nstep cfg w y (y\<lparr>sy_store := snd (reindex w walk (sy_store y))\<rparr>)"
| ns_watch: "reconcile_file w path (sy_store y) = Inr s \<Longrightarrow> nstep cfg w y (y\<lparr>sy_store := s\<rparr>)"
| ns_outside: "nstep cfg w y (y\<lparr>sy_store := (sy_store y)\<lparr>ns_files := files\<rparr>\<rparr>)"
| ns_push: "remote_step (ns_remote (sy_store y)) r \<Longrightarrow> nstep cfg w y (y\<lparr>sy_store := (sy_store y)\<lparr>ns_remote := r\<rparr>\<rparr>)"
| ns_restart: "nstep cfg w y \<lparr>sy_store = snd (boot_index w fresh walk (sy_store y)), sy_runs = []\<rparr>"

inductive_cases nstepE: "nstep cfg w y z"

definition notes_start :: "nsys \<Rightarrow> bool" where
  "notes_start y = (y = \<lparr>sy_store = empty_nstate, sy_runs = []\<rparr>)"

abbreviation notes_reach :: "nconfig \<Rightarrow> nworld \<Rightarrow> nsys \<Rightarrow> bool" where
  "notes_reach cfg w \<equiv> reach notes_start (nstep cfg w)"

section \<open>The lease behind a ticket-bound write\<close>

definition bound_ticket :: "njob \<Rightarrow> string option" where
  "bound_ticket j =
     (case j of
        JCreate a _ _ _ _ \<Rightarrow> if js_truthy (ca_ticket a) then Some (json_text (ca_ticket a)) else None
      | JAppend _ r \<Rightarrow> if truthy_str (nr_ticket r) then nr_ticket r else None
      | JLink _ _ _ t \<Rightarrow> if truthy_str t then t else None
      | JUpdate _ _ \<Rightarrow> None)"

definition pend_ticket :: "pend \<Rightarrow> string option" where
  "pend_ticket pd = (case pd of PCreate a \<Rightarrow> Some (json_text (ca_ticket a)) | PJob j \<Rightarrow> bound_ticket j)"

definition pend_fence :: "pend \<Rightarrow> json option" where
  "pend_fence pd = (case pd of PCreate a \<Rightarrow> ca_fence a | PJob j \<Rightarrow> req_fence (job_req j))"

definition pend_ok :: "pend \<Rightarrow> bool" where
  "pend_ok pd = (case pd of PJob (JCreate _ _ _ _ _) \<Rightarrow> False | _ \<Rightarrow> True)"

text \<open>The Board answered that the ticket has a lease whose generation is the token of the call.\<close>

definition fenced :: "json option \<Rightarrow> string \<Rightarrow> (string \<times> int \<times> fetched) option \<Rightarrow> bool" where
  "fenced tok t l =
     (\<exists>n reply. l = Some (t, n, reply) \<and> 0 \<le> n \<and> number_of tok = Some n \<and>
        current_fence_generation reply = Some (Some (Some n)))"

text \<open>The content of a queued append or create passed the scan.\<close>

definition scanned :: "nworld \<Rightarrow> njob \<Rightarrow> bool" where
  "scanned w j =
     (case j of
        JAppend a _ \<Rightarrow> scan_for_secrets w (js_string (the (aa_content a))) = None
      | JCreate a _ _ txt _ \<Rightarrow> (\<exists>body. instantiate (json_text (ca_type a)) (ca_initial a) = Inr body \<and>
          scan_for_secrets w body = None \<and> (\<exists>m. txt = serialize w m body))
      | _ \<Rightarrow> True)"

definition run_pc_ok :: "nworld \<Rightarrow> npc \<Rightarrow> (string \<times> int \<times> fetched) option \<Rightarrow> bool" where
  "run_pc_ok w pc l =
     (case pc of
        AwaitLease t n pd \<Rightarrow> pend_ok pd \<and> pend_ticket pd = Some t \<and> number_of (pend_fence pd) = Some n \<and> 0 \<le> n
      | AwaitFacts a \<Rightarrow> fenced (ca_fence a) (json_text (ca_ticket a)) l
      | Queued j \<Rightarrow> scanned w j \<and>
          (case bound_ticket j of None \<Rightarrow> True | Some t \<Rightarrow> fenced (req_fence (job_req j)) t l)
      | Finished _ \<Rightarrow> True)"

definition nrun_ok :: "nworld \<Rightarrow> nrun \<Rightarrow> bool" where
  "nrun_ok w v =
     (run_pc_ok w (nn_pc v) (nn_lease v) \<and>
      (case nn_job v of None \<Rightarrow> True | Some j \<Rightarrow> (\<exists>r. nn_pc v = Finished r) \<and> run_pc_ok w (Queued j) (nn_lease v)))"

lemma fence_before_ok:
  "fence_before t tok s = Inr n \<longleftrightarrow>
     \<not> nullish tok \<and> tok \<noteq> Some (JStr []) \<and> number_of tok = Some n \<and> 0 \<le> n \<and> fence_floor t s \<le> n"
  by (auto simp: fence_before_def split: option.splits if_splits)

lemma fence_after_ok:
  "fence_after t n reply s = Inr s' \<longleftrightarrow>
     current_fence_generation reply = Some (Some (Some n)) \<and> s' = raise_fence_floor t n s"
  by (auto simp: fence_after_def)

lemma no_error_ok [simp]: "no_error e k = Inr x \<longleftrightarrow> e = None \<and> k = Inr x"
  by (auto simp: no_error_def split: option.splits)

lemma scan_error_None [simp]: "scan_error w txt = None \<longleftrightarrow> scan_for_secrets w txt = None"
  by (simp add: scan_error_def)

lemma finish_ok: "(\<And>pc. r = Inr pc \<Longrightarrow> P pc) \<Longrightarrow> (\<And>e. P (Finished (Inl e))) \<Longrightarrow> P (finish r)"
  by (cases r) (simp_all add: finish_def)

lemma create_build_ok:
  assumes "create_build w now i p a fl = Inr pc" and "js_truthy (ca_ticket a) \<longrightarrow> fenced (ca_fence a) (json_text (ca_ticket a)) l"
  shows "run_pc_ok w pc l"
  using assms
  by (auto simp: create_build_def run_pc_ok_def scanned_def bound_ticket_def job_req_def req_fence_def)

lemma append_scan_ok:
  assumes "append_scan w a r = Inr pc" and "truthy_str (nr_ticket r) \<longrightarrow> fenced (aa_fence a) (the (nr_ticket r)) l"
  shows "run_pc_ok w pc l"
  using assms
  by (auto simp: append_scan_def run_pc_ok_def scanned_def bound_ticket_def job_req_def req_fence_def split: option.splits)

lemmas start_defs = start_create_def start_append_def start_link_def start_update_def

lemma start_create_ok: "start_create w now i p a s = Inr pc \<Longrightarrow> run_pc_ok w pc l"
  by (auto simp: start_create_def fence_before_ok split: if_splits dest!: create_build_ok)
    (auto simp: run_pc_ok_def pend_ok_def pend_ticket_def pend_fence_def)

lemma start_append_ok: "start_append w a s = Inr pc \<Longrightarrow> run_pc_ok w pc l"
  by (auto simp: start_append_def fence_before_ok split: if_splits dest!: append_scan_ok)
    (auto simp: run_pc_ok_def pend_ok_def pend_ticket_def pend_fence_def bound_ticket_def job_req_def req_fence_def truthy_str_def
      split: option.splits)

lemma start_link_ok: "start_link a s = Inr pc \<Longrightarrow> run_pc_ok w pc l"
  by (auto simp: start_link_def fence_before_ok run_pc_ok_def pend_ok_def pend_ticket_def pend_fence_def bound_ticket_def scanned_def
      job_req_def req_fence_def truthy_str_def split: if_splits option.splits)

lemma start_update_ok: "start_update a s = Inr pc \<Longrightarrow> run_pc_ok w pc l"
  by (auto simp: start_update_def run_pc_ok_def scanned_def bound_ticket_def)

lemma finished_ok [simp]: "run_pc_ok w (Finished r) l"
  by (simp add: run_pc_ok_def)

lemma start_op_ok: "run_pc_ok w (start_op w now i p r s) l"
  unfolding start_op_def
  by (rule finish_ok) (auto split: option.splits nreq.splits
      intro: start_create_ok start_append_ok start_link_ok start_update_ok)

lemma start_op_not_written: "nn_pc v = start_op w now i p r s \<Longrightarrow> nn_job v = None \<Longrightarrow> nrun_ok w v"
  by (simp add: nrun_ok_def start_op_ok)

lemma after_fence_ok:
  assumes "after_fence w pd = Inr pc" and "pend_ok pd" and "pend_ticket pd = Some t" and "fenced (pend_fence pd) t l"
  shows "run_pc_ok w pc l"
proof (cases pd)
  case (PCreate a)
  with assms show ?thesis by (auto simp: after_fence_def pend_ticket_def pend_fence_def run_pc_ok_def)
next
  case (PJob j)
  show ?thesis
  proof (cases j)
    case (JAppend a r)
    with assms PJob show ?thesis
      by (intro append_scan_ok)
        (auto simp: after_fence_def pend_ticket_def pend_fence_def bound_ticket_def job_req_def req_fence_def split: if_splits)
  next
    case JCreate
    with assms(2) PJob show ?thesis by (simp add: pend_ok_def)
  qed (use assms PJob in \<open>auto simp: after_fence_def pend_ticket_def pend_fence_def run_pc_ok_def scanned_def split: option.splits\<close>)
qed

lemma after_facts_ok:
  "after_facts w now i p a reply = Inr pc \<Longrightarrow> fenced (ca_fence a) (json_text (ca_ticket a)) l \<Longrightarrow> run_pc_ok w pc l"
  by (auto simp: after_facts_def split: option.splits dest!: create_build_ok)

lemma resume_op_ok:
  assumes "run_pc_ok w pc l" and "resume_op w now i p reply pc s = (pc', s')"
  shows "run_pc_ok w pc' (case pc of AwaitLease t n _ \<Rightarrow> Some (t, n, reply) | _ \<Rightarrow> l)"
proof (cases pc)
  case (AwaitLease t n pd)
  show ?thesis
  proof (cases "fence_after t n reply s")
    case (Inl e)
    with assms AwaitLease show ?thesis by (auto simp: resume_op_def)
  next
    case (Inr s'')
    then have "fenced (pend_fence pd) t (Some (t, n, reply))"
      using assms(1) AwaitLease by (simp add: fence_after_ok fenced_def run_pc_ok_def)
    with assms(1) AwaitLease have "run_pc_ok w pc'' (Some (t, n, reply))" if "after_fence w pd = Inr pc''" for pc''
      using after_fence_ok [OF that] by (simp add: run_pc_ok_def)
    then have "run_pc_ok w (finish (after_fence w pd)) (Some (t, n, reply))"
      by (cases "after_fence w pd") (simp_all add: finish_def)
    with assms AwaitLease Inr show ?thesis by (simp add: resume_op_def)
  qed
next
  case (AwaitFacts a)
  then have "fenced (ca_fence a) (json_text (ca_ticket a)) l" using assms(1) by (simp add: run_pc_ok_def)
  then have "run_pc_ok w (finish (after_facts w now i p a reply)) l"
    by (cases "after_facts w now i p a reply") (simp_all add: finish_def after_facts_ok)
  with assms AwaitFacts show ?thesis by (simp add: resume_op_def)
qed (use assms in \<open>auto simp: resume_op_def\<close>)

definition notes_ok :: "nworld \<Rightarrow> nsys \<Rightarrow> bool" where
  "notes_ok w y = (\<forall>v \<in> set (sy_runs y). nrun_ok w v)"

lemma notes_ok_update:
  "notes_ok w y \<Longrightarrow> k < length (sy_runs y) \<Longrightarrow> nrun_ok w v \<Longrightarrow>
   notes_ok w \<lparr>sy_store = s, sy_runs = (sy_runs y)[k := v]\<rparr>"
  unfolding notes_ok_def by (auto dest!: set_update_subset_insert [THEN subsetD])

interpretation notesrun: inductive_inv notes_start "nstep cfg w" "notes_ok w"
proof
  fix y assume "notes_start y"
  then show "notes_ok w y" by (simp add: notes_start_def notes_ok_def)
next
  fix y z assume ok: "notes_ok w y" and "nstep cfg w y z"
  from this(2) show "notes_ok w z"
  proof cases
    case (ns_start now i p r)
    with ok show ?thesis by (auto simp: notes_ok_def start_run_def start_op_not_written)
  next
    case (ns_resume k now i reply)
    then have v: "nrun_ok w (sy_runs y ! k)" using ok by (simp add: notes_ok_def)
    obtain pc s where r: "resume_op w now i (nn_who (sy_runs y ! k)) reply (nn_pc (sy_runs y ! k)) (sy_store y) = (pc, s)"
      by fastforce
    have "run_pc_ok w pc (case nn_pc (sy_runs y ! k) of AwaitLease t n _ \<Rightarrow> Some (t, n, reply) | _ \<Rightarrow> nn_lease (sy_runs y ! k))"
      by (rule resume_op_ok [OF _ r]) (use v in \<open>simp add: nrun_ok_def\<close>)
    moreover have "pc = nn_pc (sy_runs y ! k)" if "nn_job (sy_runs y ! k) \<noteq> None"
      using that v r by (auto simp: nrun_ok_def resume_op_def)
    ultimately have "nrun_ok w ((sy_runs y ! k)\<lparr>nn_pc := pc, nn_lease := (case nn_pc (sy_runs y ! k) of
        AwaitLease t n _ \<Rightarrow> Some (t, n, reply) | _ \<Rightarrow> nn_lease (sy_runs y ! k))\<rparr>)"
      using v by (auto simp: nrun_ok_def split: option.splits)
    with ns_resume show ?thesis by (simp add: resume_run_def Let_def r notes_ok_update [OF ok])
  next
    case (ns_write k j e)
    then have v: "nrun_ok w (sy_runs y ! k)" using ok by (simp add: notes_ok_def)
    obtain res s where r: "run_job cfg w e (nn_who (sy_runs y ! k)) j (sy_store y) = (res, s)" by fastforce
    have "nrun_ok w ((sy_runs y ! k)\<lparr>nn_pc := Finished res, nn_job := Some j\<rparr>)"
      using v ns_write by (auto simp: nrun_ok_def)
    with ns_write show ?thesis by (simp add: write_run_def Let_def r notes_ok_update [OF ok])
  qed (use ok in \<open>auto simp: notes_ok_def\<close>)
qed

end
