(* ===== verification/NotesProjection.thy ===== *)
theory NotesProjection
  imports NotesSystem
begin

text \<open>
  What the files mean: the round trip of a note through its text, the firewall around the display-only
  fields, taint that is only raised, and the git trailers as the record of who wrote.
\<close>

section \<open>Round trip of a file\<close>

definition has_fence :: "string \<Rightarrow> bool" where
  "has_fence y = (\<exists>a b. y = a @ [nl] @ ''---'' @ b)"

text \<open>What js-yaml does with one mapping: loading the dump gives it back, no line of the dump starts with
  three hyphens.\<close>

definition yaml_ok :: "nworld \<Rightarrow> fm \<Rightarrow> bool" where
  "yaml_ok w m =
     (nw_yload w (trim_end (nw_ydump w m)) = Some (JObj m) \<and> \<not> has_fence (trim_end (nw_ydump w m)))"

lemma no_break_no_fence: "nl \<notin> set y \<Longrightarrow> \<not> has_fence y"
  by (auto simp: has_fence_def)

lemma drop_prefix_iff: "drop_prefix p s = Some t \<longleftrightarrow> s = p @ t"
  by (induction p s rule: drop_prefix.induct) auto

lemma nl_ne_cr [simp]: "nl \<noteq> cr" "cr \<noteq> nl" "nl \<noteq> CHR ''-''" "CHR ''-'' \<noteq> nl" "cr \<noteq> CHR ''-''" "CHR ''-'' \<noteq> cr"
  by (simp_all add: nl_def cr_def)

lemma fm_close_None:
  assumes "\<not> has_fence (x # y)" and "x # y \<noteq> [cr]" 
  shows "fm_close ((x # y) @ [nl] @ ''---'' @ z) = None \<or> (x = cr \<and> y = [])"
proof (rule ccontr)
  assume n: "\<not> ?thesis"
  then obtain t where t: "skip_char cr ((x # y) @ [nl] @ ''---'' @ z) = [nl] @ ''---'' @ t"
    by (auto simp: fm_close_def drop_prefix_iff)
  show False
  proof (cases "x = cr")
    case True
    with t have y: "y @ [nl] @ ''---'' @ z = [nl] @ ''---'' @ t" by (simp add: skip_char_def)
    from n True have "y \<noteq> []" by simp
    then obtain y1 where y1: "y = nl # y1" using y by (cases y) auto
    with y have *: "y1 @ [nl] @ ''---'' @ z = ''---'' @ t" by simp
    show False
    proof (cases "length y1 \<ge> 3")
      case True
      obtain a b c y2 where "y1 = a # b # c # y2"
        using True by (metis Suc_le_length_iff numeral_3_eq_3)
      with * y1 \<open>x = cr\<close> have "x # y = [cr] @ [nl] @ ''---'' @ y2" by simp
      with assms(1) show False unfolding has_fence_def by blast
    next
      case False
      then have "y1 = [] \<or> (\<exists>a. y1 = [a]) \<or> (\<exists>a b. y1 = [a, b])"
        by (cases y1; cases "tl y1"; cases "tl (tl y1)") auto
      with * show False by auto
    qed
  next
    case False
    with t have y: "(x # y) @ [nl] @ ''---'' @ z = [nl] @ ''---'' @ t" by (simp add: skip_char_def)
    then have x: "x = nl" "y @ [nl] @ ''---'' @ z = ''---'' @ t" by auto
    show False
    proof (cases "length y \<ge> 3")
      case True
      obtain a b c y2 where "y = a # b # c # y2"
        using True by (metis Suc_le_length_iff numeral_3_eq_3)
      with x have "x # y = [] @ [nl] @ ''---'' @ y2" by simp
      with assms(1) show False unfolding has_fence_def by blast
    next
      case False
      then have "y = [] \<or> (\<exists>a. y = [a]) \<or> (\<exists>a b. y = [a, b])"
        by (cases y; cases "tl y"; cases "tl (tl y)") auto
      with x show False by auto
    qed
  qed
qed

lemma fm_block_first:
  "\<not> has_fence y \<Longrightarrow> y = [] \<or> last y \<noteq> cr \<Longrightarrow>
   fm_block (y @ [nl] @ ''---'' @ [nl] @ body) = Some (y, body)"
proof (induction y)
  case Nil
  have "fm_close ([nl] @ ''---'' @ [nl] @ body) = Some body"
    by (simp add: fm_close_def skip_char_def)
  then show ?case by (subst fm_block.simps) simp
next
  case (Cons x y)
  have "\<not> has_fence y" using Cons.prems(1) unfolding has_fence_def by (metis append_Cons)
  moreover have "y = [] \<or> last y \<noteq> cr" using Cons.prems(2) by (auto split: if_splits)
  ultimately have ih: "fm_block (y @ [nl] @ ''---'' @ [nl] @ body) = Some (y, body)" by (rule Cons.IH)
  have "fm_close ((x # y) @ [nl] @ ''---'' @ [nl] @ body) = None"
  proof -
    have "x = cr \<longrightarrow> y \<noteq> []" using Cons.prems(2) by auto
    with fm_close_None [OF Cons.prems(1), of "[nl] @ body"] show ?thesis by auto
  qed
  with ih show ?case by (subst fm_block.simps) simp
qed

lemma trim_end_last: "trim_end s = [] \<or> \<not> is_ws (last (trim_end s))"
proof (cases "dropWhile is_ws (rev s) = []")
  case False
  from hd_dropWhile [OF this] False show ?thesis by (simp add: trim_end_def last_rev)
qed (simp add: trim_end_def)

lemma parse_serialize:
  assumes "yaml_ok w (fm_order m)"
  shows "parse_note w (serialize w m body) = (fm_order m, body)"
proof -
  let ?y = "trim_end (nw_ydump w (fm_order m))"
  have "is_ws cr" by (simp add: is_ws_def cr_def)
  with trim_end_last [of "nw_ydump w (fm_order m)"] have "?y = [] \<or> last ?y \<noteq> cr" by auto
  with assms have "fm_block (?y @ [nl] @ ''---'' @ [nl] @ body) = Some (?y, body)"
    by (intro fm_block_first) (simp_all add: yaml_ok_def)
  then have "fm_split (serialize w m body) = Some (?y, body)"
    by (simp add: fm_split_def serialize_def skip_char_def)
  with assms show ?thesis by (simp add: parse_note_def yaml_ok_def fm_of_yaml_def)
qed

lemma fm_get_pick: "fm_get k (fm_pick ks m) = (if k \<in> set ks then fm_get k m else None)"
  unfolding fm_pick_def fm_get_def by (induction ks) (auto simp: map_add_def split: option.splits)

lemma fm_get_filter:
  "fm_get k (filter (\<lambda>(k, v). P k) m) = (if P k then fm_get k m else None)"
  unfolding fm_get_def by (induction m) auto

lemma fm_get_order: "fm_get k (fm_order m) = fm_get k m"
proof -
  have "fm_get k (a @ b) = (case fm_get k a of None \<Rightarrow> fm_get k b | Some v \<Rightarrow> Some v)" for a b
    by (simp add: fm_get_def map_add_def split: option.splits)
  then show ?thesis
    unfolding fm_order_def
    by (simp add: fm_get_pick fm_get_filter split: option.splits)
qed

lemma fm_get_readable: "fm_get k (readable m) = (if is_display_only k then None else fm_get k m)"
  unfolding readable_def is_display_only_def by (subst fm_get_filter) simp

lemma fm_get_set: "fm_get k (fm_set l v m) = (if k = l then Some v else fm_get k m)"
  unfolding fm_get_def by (induction m) auto

section \<open>A YAML library for examples\<close>

text \<open>It knows two mappings, spelled \<open>a\<close> and \<open>b\<close>.\<close>

definition yaml_demo :: "fm \<Rightarrow> fm \<Rightarrow> nworld" where
  "yaml_demo m m' = \<lparr>nw_sha = (\<lambda>s. ''ab''), nw_hmac = (\<lambda>s. s),
     nw_yload = (\<lambda>y. Some (JObj (if y = ''a'' then m else m'))), nw_ydump = (\<lambda>x. if x = m then ''a'' else ''b''),
     nw_message = (\<lambda>s. s), nw_fts = (\<lambda>q rows. Some [])\<rparr>"

lemma yaml_demo_ok: "yaml_ok (yaml_demo m m') m" "yaml_ok (yaml_demo m m') m'"
proof -
  have "\<not> has_fence ''a''" "\<not> has_fence ''b''" by (simp_all add: no_break_no_fence nl_def)
  then show "yaml_ok (yaml_demo m m') m" "yaml_ok (yaml_demo m m') m'"
    by (simp_all add: yaml_ok_def yaml_demo_def trim_end_def is_ws_def)
qed

definition plain_fm :: fm where "plain_fm = [(''id'', JStr ''N-1''), (''title'', JStr ''Log'')]"

definition staged_fm :: fm where "staged_fm = plain_fm @ [(''ceremony_phase_display'', JStr ''recon'')]"

definition raised_fm :: fm where
  "raised_fm = [(''updated'', JStr (iso_string 5000)), (''provenance_taint'', host_originated), (''authored_by'', JArr [JStr ''agent:a1''])]"

lemma demo_ordered: "fm_order plain_fm = plain_fm" "fm_order staged_fm = staged_fm" "readable plain_fm = readable staged_fm"
  by code_simp+

text \<open>C21. A note comes back from its file as it was written: the body byte for byte, and every frontmatter
  field with its value, whatever the order of the fields, if the YAML library reads back the one
  mapping that was dumped.
\<close>

theorem frontmatter_roundtrip:
  assumes "yaml_ok w (fm_order m)"
  shows "snd (parse_note w (serialize w m body)) = body \<and>
    (\<forall>k. fm_get k (fst (parse_note w (serialize w m body))) = fm_get k m)"
  by (simp add: parse_serialize [OF assms] fm_get_order)

theorem frontmatter_roundtrip_witness:
  "snd (parse_note (yaml_demo plain_fm []) (serialize (yaml_demo plain_fm []) plain_fm [nl])) = [nl] \<and>
   fm_get ''title'' (fst (parse_note (yaml_demo plain_fm []) (serialize (yaml_demo plain_fm []) plain_fm [nl]))) = Some (JStr ''Log'')"
proof -
  have "yaml_ok (yaml_demo plain_fm []) (fm_order plain_fm)" by (simp add: demo_ordered yaml_demo_ok)
  from frontmatter_roundtrip [OF this] show ?thesis by (simp add: plain_fm_def fm_get_def)
qed

section \<open>The firewall\<close>

text \<open>Everything of an index row but what depends on the bytes of the file as a whole.\<close>

definition row_content :: "note_row \<Rightarrow> note_row" where
  "row_content r = r\<lparr>nr_hash := [], nr_size := 0\<rparr>"

definition row_outcome :: "nexn + note_row option \<Rightarrow> nexn + note_row option" where
  "row_outcome x = (case x of Inl e \<Rightarrow> Inl e | Inr r \<Rightarrow> Inr (map_option row_content r))"

lemma and_then_outcome:
  "(\<And>y. row_outcome (k y) = row_outcome (k' y)) \<Longrightarrow> row_outcome (and_then r k) = row_outcome (and_then r k')"
  by (cases r) simp_all

text \<open>The fields that mirror the state of the Board are decoration: two files of a note that differ in
  those fields only have the same index row (hash and size of the file apart) and the same wikilinks,
  so no query, backlink, search or taint can depend on them; and an append's display phase changes no
  readable field.
\<close>

theorem display_firewall:
  assumes "parse_note w (nf_text f) = (m, body)" and "parse_note w (nf_text g) = (m', body)"
    and "readable m = readable m'" and "nf_mtime f = nf_mtime g"
  shows "row_outcome (row_from_file w path f) = row_outcome (row_from_file w path g) \<and>
    readable (with_display_phase m ph) = readable m"
proof
  show "row_outcome (row_from_file w path f) = row_outcome (row_from_file w path g)"
    unfolding row_from_file_def Let_def assms(1,2) prod.case assms(3,4)
    by (cases "\<not> js_truthy (fm_get ''id'' (readable m'))")
      (simp_all, (rule and_then_outcome)+, simp add: row_outcome_def row_content_def)
  have "readable (fm_set k v m) = readable m" if "k \<in> set display_only_frontmatter" for k v
    using that unfolding readable_def
  proof (induction m)
    case (Cons x m)
    then show ?case by (cases x; cases "fst x = k") simp_all
  qed simp
  then show "readable (with_display_phase m ph) = readable m"
    by (simp add: with_display_phase_def display_only_frontmatter_def)
qed

abbreviation demo_file :: "fm \<Rightarrow> nfile" where
  "demo_file m \<equiv> \<lparr>nf_text = serialize (yaml_demo plain_fm staged_fm) m ''text'', nf_mtime = 1\<rparr>"

theorem display_firewall_witness:
  "nf_text (demo_file plain_fm) \<noteq> nf_text (demo_file staged_fm) \<and>
   row_outcome (row_from_file (yaml_demo plain_fm staged_fm) ''notes/a.md'' (demo_file plain_fm)) =
     row_outcome (row_from_file (yaml_demo plain_fm staged_fm) ''notes/a.md'' (demo_file staged_fm))"
proof
  let ?w = "yaml_demo plain_fm staged_fm"
  have "parse_note ?w (serialize ?w plain_fm ''text'') = (plain_fm, ''text'')"
    "parse_note ?w (serialize ?w staged_fm ''text'') = (staged_fm, ''text'')"
    using parse_serialize [of ?w plain_fm "''text''"] parse_serialize [of ?w staged_fm "''text''"] by (simp_all add: demo_ordered yaml_demo_ok)
  then show "row_outcome (row_from_file ?w ''notes/a.md'' (demo_file plain_fm)) =
     row_outcome (row_from_file ?w ''notes/a.md'' (demo_file staged_fm))"
    using display_firewall [of ?w "demo_file plain_fm" plain_fm "''text''" "demo_file staged_fm" staged_fm] by (simp add: demo_ordered)
  show "nf_text (demo_file plain_fm) \<noteq> nf_text (demo_file staged_fm)"
    by (simp add: serialize_def demo_ordered) (simp add: yaml_demo_def plain_fm_def staged_fm_def trim_end_def is_ws_def)
qed

section \<open>Taint is only raised\<close>

definition below :: "json \<Rightarrow> json \<Rightarrow> bool" where
  "below a b = rank_lt (taint_rank (Some a)) (taint_rank (Some b))"

lemma not_below_self [simp]: "\<not> below a a"
  by (cases "taint_rank (Some a)") (simp_all add: below_def)

lemma not_below_host [simp]: "\<not> below host_originated b"
  by (cases "taint_rank (Some b)") (use rank_le_1 in \<open>fastforce simp: below_def\<close>)+

lemma floor_host: "floor_for_provenance p = host_originated \<longleftrightarrow> key_text p = ''host_originated''"
  by (auto simp: floor_for_provenance_def Let_def clean_def host_originated_def split: option.splits)

lemma taint_from_provenance_host: "taint_from_provenance p = Some d \<Longrightarrow> d = host_originated"
  by (auto simp: taint_from_provenance_def split: if_splits)

lemma truthy_host [simp]: "js_truthy (Some host_originated)"
  by (simp add: host_originated_def)

lemma max_taint_host: "max_taint a host_originated = host_originated \<or> taint_rank (Some (max_taint a host_originated)) = Rank 1"
  by (cases "taint_rank (Some a)") (use rank_le_1 in \<open>fastforce simp: max_taint_def\<close>)+

lemma not_below_max_host: "\<not> below (max_taint a host_originated) b"
  using max_taint_host [of a] not_below_host [of b]
  by (auto simp: below_def)

lemma truthy_the: "js_truthy x \<Longrightarrow> js_truthy (Some (the x))"
  by (cases x) simp_all

lemma append_taint_raises: "\<not> below (file_taint (append_taint a m)) (file_taint m)"
proof (cases "taint_from_provenance (aa_prov a)")
  case None
  then show ?thesis by (simp add: append_taint_def)
next
  case (Some d)
  then have d: "d = host_originated" by (rule taint_from_provenance_host)
  define t where "t = resolve_own_taint (or_else (fm_get ''provenance_taint'' m) clean) clean (Some host_originated)"
  then have t: "t = max_taint (max_taint (or_else (fm_get ''provenance_taint'' m) clean) clean) host_originated"
    by (simp add: resolve_own_taint_def Let_def)
  have "js_truthy (Some t)"
    using t by (auto simp: max_taint_def or_else_def host_originated_def clean_def truthy_the)
  then have "file_taint (append_taint a m) = t"
    using Some d t_def by (simp add: append_taint_def file_taint_def fm_get_set or_else_def)
  then show ?thesis by (simp add: t not_below_max_host)
qed

lemma file_taint_set: "k \<noteq> ''provenance_taint'' \<Longrightarrow> file_taint (fm_set k v m) = file_taint m"
  by (simp add: file_taint_def fm_get_set)

lemma job_file_raises:
  assumes "job_file w sub now j raw = Inr (m, body)"
  shows "\<not> below (file_taint m) (file_taint (fst (parse_note w raw)))"
proof (cases j)
  case (JAppend a r)
  obtain m0 b0 where p: "parse_note w raw = (m0, b0)" by fastforce
  have "file_taint m = file_taint (append_taint a m0)"
    using assms JAppend p
    by (auto simp: job_file_def append_file_def Let_def file_taint_set with_display_phase_def split: if_splits)
  then show ?thesis by (simp add: p append_taint_raises)
next
  case (JLink a f t tk)
  obtain m0 b0 where p: "parse_note w raw = (m0, b0)" by fastforce
  have "file_taint m = file_taint m0"
    using assms JLink p by (auto simp: job_file_def link_file_def Let_def file_taint_set)
  then show ?thesis by (simp add: p)
next
  case (JUpdate a r)
  then show ?thesis using assms
    by (auto simp: job_file_def update_file_def Let_def file_taint_set below_def is_downgrade_def split: prod.splits)
qed (use assms in \<open>simp add: job_file_def\<close>)

text \<open>C20. No append, link or overwrite lowers the provenance taint of a note: read back from the new text,
  the taint does not rank below what it was, whatever the content, the declared provenance or the
  frontmatter an operator submits.
\<close>

theorem taint_raise_only:
  assumes "job_file w sub now j raw = Inr (m, body)" and "yaml_ok w (fm_order m)"
  shows "\<not> below (file_taint (fst (parse_note w (serialize w m body)))) (file_taint (fst (parse_note w raw)))"
proof -
  have "file_taint (fst (parse_note w (serialize w m body))) = file_taint m"
    by (simp add: parse_serialize [OF assms(2)] file_taint_def fm_get_order)
  with job_file_raises [OF assms(1)] show ?thesis by simp
qed

definition raise_job :: njob where
  "raise_job = JAppend \<lparr>aa_note = None, aa_section = Some (JStr ''Log''), aa_content = Some (JStr ''ok''),
     aa_prov = Some (JStr ''host_originated''), aa_display = None, aa_fence = None, aa_op = None, aa_isolated = None\<rparr>
     \<lparr>nr_id = ''N-1'', nr_path = ''notes/a.md'', nr_title = None, nr_type = None, nr_tags = JArr [], nr_ticket = None,
      nr_prov = None, nr_taint = None, nr_authored = JArr [], nr_created = None, nr_updated = None, nr_hash = [],
      nr_mtime = 0, nr_size = 0, nr_body = []\<rparr>"

lemma raise_job_runs:
  "case job_file (yaml_demo raised_fm []) ''agent:a1'' 5000 raise_job ''## Log'' of
     Inr (m, body) \<Rightarrow> fm_order m = raised_fm \<and> file_taint m = host_originated | Inl _ \<Rightarrow> False"
  by code_simp

theorem taint_raise_only_witness:
  "\<exists>m body. job_file (yaml_demo raised_fm []) ''agent:a1'' 5000 raise_job ''## Log'' = Inr (m, body) \<and>
     file_taint m = host_originated \<and>
     \<not> below (file_taint (fst (parse_note (yaml_demo raised_fm []) (serialize (yaml_demo raised_fm []) m body))))
       (file_taint (fst (parse_note (yaml_demo raised_fm []) ''## Log'')))"
proof -
  obtain m body where j: "job_file (yaml_demo raised_fm []) ''agent:a1'' 5000 raise_job ''## Log'' = Inr (m, body)"
    and m: "fm_order m = raised_fm" "file_taint m = host_originated"
    using raise_job_runs by (auto split: sum.splits prod.splits)
  have "yaml_ok (yaml_demo raised_fm []) (fm_order m)" by (simp add: m yaml_demo_ok)
  from taint_raise_only [OF j this] show ?thesis using j m by blast
qed

end
