(* ===== verification/NotesDemo.thy ===== *)
theory NotesDemo
  imports NotesProjection
begin

text \<open>
  A concrete world and a run in it: an agent creates a note for a ticket whose lease it holds. The content
  is a handle, which the secret scan lets through.
\<close>

section \<open>A handle passes the scan\<close>

lemma greedy_all:
  "list_all P t \<Longrightarrow> lo \<le> length t \<Longrightarrow> length t \<le> n \<Longrightarrow>
   \<exists>ys. greedy (ends (Chr P)) n lo None (q, t) = (last_of q t, []) # ys"
proof (induction t arbitrary: n lo q)
  case Nil
  then show ?case by (cases n) simp_all
next
  case (Cons c t)
  then obtain m where n: "n = Suc m" by (cases n) auto
  from Cons n obtain ys where "greedy (ends (Chr P)) m (lo - 1) None (Some c, t) = (last_of (Some c) t, []) # ys"
    by fastforce
  with Cons.prems(1) n show ?case by (simp add: last_of_def)
qed

lemma handle_rx_at_start:
  assumes "list_all handle_char t" and "t \<noteq> []"
  shows "\<exists>ys. ends handle_rx (None, ''cred://'' @ t) = (last_of (Some (CHR ''/'')) t, []) # ys"
proof -
  have "at_edge None (''cred://'' @ t)" by (simp add: at_edge_def word_char_def alnum_def lower_alnum_def)
  moreover have "ends (lit ''cred://'') (None, ''cred://'' @ t) = [(Some (CHR ''/''), t)]" by simp
  moreover have "1 \<le> length t" using assms(2) by (cases t) auto
  then have "\<exists>ys. ends (Rep 1 None (cls handle_char)) (Some (CHR ''/''), t) = (last_of (Some (CHR ''/'')) t, []) # ys"
    using greedy_all [OF assms(1), of 1 "1 + length t"] by simp
  ultimately show ?thesis unfolding handle_rx_def by auto
qed

lemma handle_replaced:
  assumes "list_all handle_char t" and "t \<noteq> []"
  shows "js_replace handle_rx '' '' (''cred://'' @ t) = '' ''"
proof -
  obtain ys where e: "ends handle_rx (None, ''cred://'' @ t) = (last_of (Some (CHR ''/'')) t, []) # ys"
    using handle_rx_at_start [OF assms] by blast
  have "exec handle_rx None (''cred://'' @ t) = Some ([], ''cred://'' @ t, (last_of (Some (CHR ''/'')) t, []))"
    unfolding exec.simps [of handle_rx None "''cred://'' @ t"] e by simp
  moreover have n: "exec handle_rx q [] = None" for q
    by (subst exec.simps) (simp add: handle_rx_def)
  ultimately show ?thesis unfolding js_replace_def by (simp add: n)
qed

lemma blank_scan: "scan_patterns h secret_patterns (js_replace release_rx '' '' '' '') = None"
  by code_simp

lemma handle_scan:
  assumes "list_all handle_char t" and "t \<noteq> []"
  shows "scan_for_secrets w (''cred://'' @ t) = None"
proof -
  have "strip_allowed (''cred://'' @ t) = js_replace release_rx '' '' '' ''"
    unfolding strip_allowed_def allowed_patterns_def foldl_Cons foldl_Nil handle_replaced [OF assms] by (rule refl)
  then show ?thesis unfolding scan_for_secrets_def by (simp only: blank_scan)
qed

section \<open>The world\<close>

definition nd_sub :: string where "nd_sub = ''agent:a1''"

definition nd_id :: string where "nd_id = ''N-'' @ replicate 25 (CHR ''0'') @ ''1''"

definition nd_ticket :: string where "nd_ticket = ''T-000001''"

definition nd_body :: string where "nd_body = ''cred://x''"

definition nd_create :: note_args where
  "nd_create = \<lparr>ca_type = Some (JStr ''general''), ca_title = Some (JStr ''Log''), ca_ticket = Some (JStr nd_ticket),
     ca_initial = Some (JStr nd_body), ca_prov = None, ca_fence = Some (JStr ''7''), ca_op = Some (JStr ''op1'')\<rparr>"

definition nd_fm :: fm where "nd_fm = create_fm nd_create clean nd_sub nd_id 1000"

text \<open>The YAML library of this world knows one mapping, that of the note.\<close>

definition nd_world :: nworld where
  "nd_world = \<lparr>nw_sha = (\<lambda>s. ''ab''), nw_hmac = (\<lambda>s. s), nw_yload = (\<lambda>y. Some (JObj (fm_order nd_fm))),
     nw_ydump = (\<lambda>m. ''note''), nw_message = (\<lambda>m. m), nw_fts = (\<lambda>q rows. Some [])\<rparr>"

definition nd_config :: nconfig where
  "nd_config = \<lparr>nc_dev = False, nc_corpus = ''/data/corpus'', nc_remote_url = Some ''https://git'', nc_lag_alarm = 900,
     nc_debounce = 60000, nc_max_bytes = 100000, nc_ceiling = 32\<rparr>"

definition nd_who :: nprincipal where "nd_who = \<lparr>np_sub = nd_sub, np_scopes = [''notes:append'']\<rparr>"

definition nd_lease :: fetched where "nd_lease = Resp 200 (Some (JObj [(''lock_generation'', JNum 7)]))"

definition nd_facts :: fetched where "nd_facts = Resp 200 (Some (JObj [(''provenance'', JStr ''agent'')]))"

definition nd_env :: nenv where
  "nd_env = \<lparr>ne_now = 2000, ne_symlink = False, ne_written = True, ne_mtime = 2000, ne_commit = Some ''c1''\<rparr>"

section \<open>The run\<close>

definition nd_path :: string where "nd_path = ''notes/general/log-000001.md''"

definition nd_job :: njob where
  "nd_job = JCreate nd_create nd_id nd_path (serialize nd_world nd_fm nd_body) 1000"

definition nd0 :: nsys where "nd0 = \<lparr>sy_store = empty_nstate, sy_runs = []\<rparr>"

definition nd1 :: nsys where "nd1 = start_run nd_world 800 nd_id nd_who (RCreate nd_create) nd0"

definition nd2 :: nsys where "nd2 = resume_run nd_world 900 nd_id nd_lease 0 nd1"

definition nd3 :: nsys where "nd3 = resume_run nd_world 1000 nd_id nd_facts 0 nd2"

definition nd4 :: nsys where "nd4 = write_run nd_config nd_world nd_env nd_job 0 nd3"

definition nd_store :: nstate where "nd_store = raise_fence_floor nd_ticket 7 empty_nstate"

lemmas nd_defs = nd_sub_def nd_ticket_def nd_body_def nd_create_def nd_who_def nd_lease_def nd_facts_def

lemma nd_args:
  "str_in (ca_type nd_create) note_types" "truthy_text (ca_title nd_create)" "\<not> js_truthy (ca_prov nd_create)"
  "js_truthy (ca_ticket nd_create)" "is_ticket_shape (ca_ticket nd_create)" "json_text (ca_ticket nd_create) = nd_ticket"
  "fence_before nd_ticket (ca_fence nd_create) empty_nstate = Inr 7" "replay (req_op (RCreate nd_create)) empty_nstate = Inr None"
  by code_simp+

lemma nd1_eq:
  "nd1 = \<lparr>sy_store = empty_nstate,
     sy_runs = [\<lparr>nn_who = nd_who, nn_pc = AwaitLease nd_ticket 7 (PCreate nd_create), nn_job = None, nn_lease = None\<rparr>]\<rparr>"
  using nd_args by (simp add: nd1_def nd0_def start_run_def start_op_def start_create_def finish_def throw_if_def)

lemma nd_answers:
  "current_fence_generation nd_lease = Some (Some (Some 7))" "facts_read nd_facts = Some (Some (JStr ''agent''))"
  "floor_for_provenance (Some (or_else (Some (JStr ''agent'')) host_originated)) = clean"
  "instantiate (json_text (ca_type nd_create)) (ca_initial nd_create) = Inr nd_body"
  "derive_new_path (json_text (ca_type nd_create)) (slugify (json_text (ca_title nd_create))) nd_id = nd_path"
  by code_simp+

lemma nd_scan: "scan_for_secrets w nd_body = None"
  using handle_scan [of "''x''" w] by (simp add: nd_body_def handle_char_def is_ws_def)

lemma nd3_eq:
  "nd3 = \<lparr>sy_store = nd_store,
     sy_runs = [\<lparr>nn_who = nd_who, nn_pc = Queued nd_job, nn_job = None, nn_lease = Some (nd_ticket, 7, nd_lease)\<rparr>]\<rparr>"
  using nd_answers nd_scan
  by (simp add: nd3_def nd2_def nd1_eq resume_run_def resume_op_def fence_after_def need_def throw_if_def after_fence_def
      finish_def after_facts_def create_build_def scan_error_def no_error_def nd_store_def nd_job_def nd_fm_def nd_who_def)


lemma nd4_eq:
  "nd4 = \<lparr>sy_store = snd (run_job nd_config nd_world nd_env nd_who nd_job nd_store), sy_runs = [\<lparr>nn_who = nd_who,
     nn_pc = Finished (fst (run_job nd_config nd_world nd_env nd_who nd_job nd_store)), nn_job = Some nd_job,
     nn_lease = Some (nd_ticket, 7, nd_lease)\<rparr>]\<rparr>"
  by (simp add: nd4_def nd3_eq write_run_def case_prod_beta)

lemma nd_reach: "notes_reach nd_config nd_world nd4"
proof -
  have "notes_reach nd_config nd_world nd0" by (rule reach_start) (simp add: notes_start_def nd0_def)
  then have "notes_reach nd_config nd_world nd1" unfolding nd1_def by (rule reach_step) (rule ns_start)
  then have "notes_reach nd_config nd_world nd2" unfolding nd2_def by (rule reach_step) (rule ns_resume, simp add: nd1_eq)
  then have "notes_reach nd_config nd_world nd3"
    unfolding nd3_def by (rule reach_step) (rule ns_resume, simp add: nd2_def nd1_eq resume_run_def case_prod_beta)
  then show ?thesis unfolding nd4_def by (rule reach_step) (rule ns_write, simp_all add: nd3_eq)
qed

lemma nd_run_in: "sy_runs nd4 ! 0 \<in> set (sy_runs nd4)" "nn_job (sy_runs nd4 ! 0) = Some nd_job"
  by (simp_all add: nd4_eq)

lemma nd_bound: "bound_ticket nd_job = Some nd_ticket"
  using nd_args by (simp add: bound_ticket_def nd_job_def)

lemma nd_resolve: "\<exists>p. resolve_abs nd_config nd_path = Inr p"
  by (simp add: resolve_abs_def nd_config_def nd_path_def path_resolve_def starts_with_def throw_if_def)

lemma nd_short: "length (serialize nd_world nd_fm nd_body) = 21"
  by (simp add: serialize_def nd_world_def nd_body_def trim_end_def is_ws_def)

lemma nd_yaml: "yaml_ok nd_world (fm_order nd_fm)"
proof -
  have "\<not> has_fence ''note''" by (rule no_break_no_fence) (simp add: nl_def)
  then show ?thesis by (simp add: yaml_ok_def nd_world_def trim_end_def is_ws_def)
qed

lemma nd_parse: "parse_note nd_world (serialize nd_world nd_fm nd_body) = (fm_order nd_fm, nd_body)"
  by (rule parse_serialize) (rule nd_yaml)

lemma nd_origin:
  "create_own nd_create clean = clean" "\<not> clean = host_originated" "\<not> starts_with ''op:'' nd_sub" "or_else (ca_prov nd_create) x = x"
  "nd_ticket \<noteq> []" "nd_id \<noteq> []" "resolve_own_taint clean (floor_for_provenance (Some (JStr ''agent''))) None = clean"
  "js_truthy (Some clean)" "bind_text clean = Inr (Some ''clean'')"
  by code_simp+

lemma nd_get:
  "fm_get ''id'' nd_fm = Some (JStr nd_id)" "fm_get ''type'' nd_fm = Some (JStr ''general'')"
  "fm_get ''title'' nd_fm = Some (JStr ''Log'')" "fm_get ''ticket'' nd_fm = Some (JStr nd_ticket)"
  "fm_get ''created'' nd_fm = Some (JStr (iso_string 1000))" "fm_get ''updated'' nd_fm = Some (JStr (iso_string 1000))"
  "fm_get ''provenance'' nd_fm = Some (JStr ''agent'')" "fm_get ''provenance_taint'' nd_fm = Some clean"
  unfolding nd_fm_def create_fm_def nd_origin fm_get_def using nd_args(4) by (simp_all add: nd_origin nd_create_def)

lemma nd_row: "\<exists>r. row_from_file nd_world nd_path \<lparr>nf_text = serialize nd_world nd_fm nd_body, nf_mtime = 2000\<rparr> = Inr (Some r)"
  by (simp add: row_from_file_def Let_def nd_parse fm_get_readable fm_get_order is_display_only_def row_own_taint_def
      display_only_frontmatter_def nd_get nd_origin or_else_def or_nullish_def)

lemma nd_runs: "\<exists>s. run_job nd_config nd_world nd_env nd_who nd_job nd_store = (Inr (job_result nd_world nd_job (serialize nd_world nd_fm nd_body) ''c1''), s)"
proof -
  obtain r where r: "row_from_file nd_world nd_path \<lparr>nf_text = serialize nd_world nd_fm nd_body, nf_mtime = 2000\<rparr> = Inr (Some r)"
    using nd_row by blast
  obtain p where p: "resolve_abs nd_config nd_path = Inr p" using nd_resolve by blast
  show ?thesis
    using r p nd_short
    by (simp add: run_job_def nd_job_def job_text_def persist_def write_atomic_def throw_if_def nd_env_def reconcile_file_def
       Let_def job_path_def nd_config_def)
qed

end
