(* ===== verification/SuiteContracts.thy ===== *)
theory SuiteContracts
  imports BoardApproval BoardSurface NotesDemo
begin

text \<open>
  The Board and Notes as they meet: what each reads from the answers the other gives, both sides from the
  code.
\<close>

section \<open>Notes reads the Board\<close>

text \<open>The GET routes of the Board (\<open>app.get\<close> in \<open>api/http.js\<close>); a segment that starts with a colon matches any
  non-empty one, letters match without regard to case. Below \<open>/api\<close> nothing else answers, so another
  path gets Express's 404.\<close>

definition board_get_routes :: "string list list" where
  "board_get_routes =
     [[''healthz''], [''.well-known'', ''oauth-protected-resource''],
      [''facts'', ''ticket'', '':id''], [''facts'', ''approval'', '':id''], [''facts'', ''host-lock'', '':host''],
      [''facts'', ''escalations''], [''facts'', ''violations''], [''facts'', ''lineage'', '':id''], [''facts'', ''holds''],
      [''facts'', ''wip''], [''facts'', ''kill''],
      [''api'', ''tickets'', '':id''], [''api'', ''queue''], [''api'', ''approvals'', '':id''],
      [''api'', ''tickets'', '':id'', ''huddle''], [''api'', ''events''], [''mcp'']]"

fun route_matches :: "string list \<Rightarrow> string list \<Rightarrow> bool" where
  "route_matches [] [] = True"
| "route_matches (p # ps) (x # xs) =
     ((if starts_with '':'' p then x \<noteq> [] else map lower_char x = p) \<and> route_matches ps xs)"
| "route_matches _ _ = False"

definition board_routed :: "string \<Rightarrow> bool" where
  "board_routed path = list_ex (\<lambda>r. route_matches r (drop 1 (split_on (CHR ''/'') path))) board_get_routes"

text \<open>The path of \<open>currentFenceGeneration\<close>.\<close>

definition lease_path :: "string \<Rightarrow> string" where
  "lease_path t = ''/api/tickets/'' @ encode_uri t @ ''/lease''"

lemma encode_plain: "list_all uri_unreserved s \<Longrightarrow> encode_uri s = s"
  by (induction s) (simp_all add: encode_uri_def)

lemma split_slash_one: "CHR ''/'' \<notin> set a \<Longrightarrow> split_on (CHR ''/'') (a @ CHR ''/'' # b) = a # split_on (CHR ''/'') b"
  by (induction a) auto

lemma ticket_shape_chars:
  assumes "is_ticket_shape (Some (JStr t))"
  shows "encode_uri t = t" and "CHR ''/'' \<notin> set t" and "t \<noteq> []"
proof -
  obtain d where d: "t = CHR ''T'' # CHR ''-'' # d" "list_all is_digit d"
    using assms by (cases t; cases "tl t") (auto simp: is_ticket_shape_def starts_with_def)
  then have "list_all uri_unreserved t"
    by (auto simp: list_all_iff uri_unreserved_def is_digit_def Let_def)
  then show "encode_uri t = t" by (rule encode_plain)
  show "CHR ''/'' \<notin> set t" using d by (auto simp: list_all_iff is_digit_def)
  show "t \<noteq> []" using d by simp
qed

lemma lease_unrouted: "is_ticket_shape (Some (JStr t)) \<Longrightarrow> \<not> board_routed (lease_path t)"
proof -
  assume s: "is_ticket_shape (Some (JStr t))"
  note c = ticket_shape_chars [OF s]
  have "split_on (CHR ''/'') (lease_path t) = [[], ''api'', ''tickets'', t, ''lease'']"
    using split_slash_one [OF c(2), of "''lease''"] by (simp add: lease_path_def c(1))
  then show ?thesis by (simp add: board_routed_def board_get_routes_def starts_with_def lower_char_def)
qed

text \<open>C38. The lease read that every ticket-bound write of Notes depends on is no route of the Board, and a 404
  admits no write: whenever such a write ran, the answer behind it was none this Board gives.
\<close>

theorem lease_read_has_no_route:
  assumes "notes_reach cfg w y" and "v \<in> set (sy_runs y)" and "nn_job v = Some j" and "bound_ticket j = Some t"
    and "is_ticket_shape (Some (JStr t))"
  shows "\<not> board_routed (lease_path t) \<and>
    (\<exists>n reply. nn_lease v = Some (t, n, reply) \<and> (\<forall>b. reply \<noteq> Resp 404 b))"
proof -
  have "nrun_ok w v" using notesrun.reach_inv [OF assms(1)] assms(2) by (simp add: notes_ok_def)
  then have "fenced (req_fence (job_req j)) t (nn_lease v)"
    using assms(3,4) by (simp add: nrun_ok_def run_pc_ok_def)
  then obtain n reply where "nn_lease v = Some (t, n, reply)" "current_fence_generation reply = Some (Some (Some n))"
    by (auto simp: fenced_def)
  moreover from this(2) have "\<forall>b. reply \<noteq> Resp 404 b"
    by (auto simp: current_fence_generation_def board_body_def)
  ultimately show ?thesis using lease_unrouted [OF assms(5)] by blast
qed

theorem lease_read_has_no_route_witness:
  "\<not> board_routed (lease_path nd_ticket) \<and> (\<exists>n reply. nn_lease (sy_runs nd4 ! 0) = Some (nd_ticket, n, reply) \<and> (\<forall>b. reply \<noteq> Resp 404 b))"
proof (rule lease_read_has_no_route [OF nd_reach nd_run_in nd_bound])
  show "is_ticket_shape (Some (JStr nd_ticket))" by code_simp
qed

text \<open>A ticket the Board renders has no field Notes looks for the provenance in, so the structural taint floor
  of a note created for it is always clean, also when the Board holds the ticket for host-originated.
\<close>

theorem board_taint_never_floors_notes:
  "after_facts w now i p a (Resp 200 (Some (render_ticket t))) = create_build w now i p a clean"
proof -
  have "jget ''provenance'' (render_ticket t) = None" "jget ''host_originated'' (render_ticket t) = None"
    by (simp_all add: render_ticket_def)
  then have "facts_read (Resp 200 (Some (render_ticket t))) = Some (Some (JStr ''agent''))"
    by (simp add: facts_read_def board_body_def resp_ok_def render_ticket_def)
  then show ?thesis
    by (simp add: after_facts_def or_else_def floor_for_provenance_def key_text_def)
qed

section \<open>The Board reads Notes\<close>

lemma own_of_nonempty: "own_of rows i \<noteq> []"
  by (auto simp: own_of_def truthy_str_def split: option.splits)

lemma effective_nonempty: "fst (snd (note_taint i s)) \<noteq> []"
proof -
  have "eff \<noteq> [] \<Longrightarrow> fst (taint_dfs own ls rt st seen eff via) \<noteq> []" if "\<And>x. own x \<noteq> []" for own ls rt st seen eff via
    using that by (induction own ls rt st seen eff via rule: taint_dfs.induct) (auto simp: Let_def max_own_def)
  then show ?thesis
    by (auto simp: note_taint_def effective_taint_def own_of_nonempty Let_def)
qed

text \<open>The taint the Board reads is a text, which counts as true whatever it says: fed with what Notes answers,
  the Board takes every note for tainted, a clean one too; and the bytes it takes for a pinned revision
  are those of the note as it is now.
\<close>

theorem board_reads_notes:
  assumes "read_taint i s = Inr taint" and "read_note cfg nw i s = Inr note"
    and "w_fetch w (w_notes_url w @ ''/api/notes/'' @ encode_uri i @ ''/taint?rev='' @ encode_uri rv) = Some taint"
    and "w_fetch w (w_notes_url w @ ''/api/notes/'' @ encode_uri i @ ''?rev='' @ encode_uri rv) = Some note"
  shows "notes_effective_taint w i (Some rv) = Inr True \<and>
    (\<exists>r f. get_note i s = Some r \<and> ns_files s (nr_path r) = Some f \<and>
       notes_revision_bytes w i (Some rv) = Inr (snd (parse_note nw (nf_text f)), Some rv))"
proof
  have "taint = taint_json (note_taint i s)" using assms(1) by (simp add: read_taint_def)
  then have "jget ''effective'' taint = Some (JStr (fst (snd (note_taint i s))))"
    by (simp add: taint_json_def split: prod.splits)
  then show "notes_effective_taint w i (Some rv) = Inr True"
    using assms(3) effective_nonempty [of i s] by (simp add: notes_effective_taint_def coalesce_def)
  from assms(2) obtain r f where r: "get_note i s = Some r" "ns_files s (nr_path r) = Some f"
    and n: "jget ''raw'' note = None" "jget ''rev'' note = None"
      "jget ''body'' note = Some (JStr (snd (parse_note nw (nf_text f))))"
    by (auto simp: read_note_def read_by_path_def Let_def case_prod_beta)
  have "notes_revision_bytes w i (Some rv) = Inr (snd (parse_note nw (nf_text f)), Some rv)"
    using assms(4) n by (simp add: notes_revision_bytes_def coalesce_def)
  with r show "\<exists>r f. get_note i s = Some r \<and> ns_files s (nr_path r) = Some f \<and>
       notes_revision_bytes w i (Some rv) = Inr (snd (parse_note nw (nf_text f)), Some rv)" by blast
qed

definition met_row :: note_row where
  "met_row = \<lparr>nr_id = nd_id, nr_path = nd_path, nr_title = Some ''Log'', nr_type = Some ''general'', nr_tags = JArr [],
     nr_ticket = Some nd_ticket, nr_prov = Some ''agent'', nr_taint = Some ''clean'', nr_authored = JArr [], nr_created = None,
     nr_updated = None, nr_hash = ''ab'', nr_mtime = 0, nr_size = 0, nr_body = nd_body\<rparr>"

definition met_store :: nstate where
  "met_store = empty_nstate\<lparr>ns_notes := [met_row],
     ns_files := [nd_path \<mapsto> \<lparr>nf_text = serialize nd_world nd_fm nd_body, nf_mtime = 0\<rparr>]\<rparr>"

definition met_world :: "json \<Rightarrow> json \<Rightarrow> world" where
  "met_world taint note = \<lparr>w_fetch = (\<lambda>u. if u = ''/api/notes/'' @ encode_uri nd_id @ ''/taint?rev='' @ encode_uri ''c1'' then Some taint
       else Some note), w_notes_url = [], w_cmdb_url = [], w_sha = id, w_hmac = (\<lambda>_. id), w_jparse = (\<lambda>_. None)\<rparr>"

lemma met_reads: "\<exists>t. read_taint nd_id met_store = Inr t" "\<exists>n. read_note nd_config nd_world nd_id met_store = Inr n"
proof -
  have "is_note_id nd_id" by code_simp
  then show "\<exists>t. read_taint nd_id met_store = Inr t" "\<exists>n. read_note nd_config nd_world nd_id met_store = Inr n"
    using nd_resolve by (auto simp: read_taint_def read_note_def throw_if_def need_def get_note_def met_store_def met_row_def
        read_by_path_def Let_def case_prod_beta)
qed

theorem board_reads_notes_witness:
  "\<exists>taint note. notes_effective_taint (met_world taint note) nd_id (Some ''c1'') = Inr True"
proof -
  obtain t n where r: "read_taint nd_id met_store = Inr t" "read_note nd_config nd_world nd_id met_store = Inr n"
    using met_reads by blast
  have "w_fetch (met_world t n) (w_notes_url (met_world t n) @ ''/api/notes/'' @ encode_uri nd_id @ ''/taint?rev='' @ encode_uri ''c1'') = Some t"
    "w_fetch (met_world t n) (w_notes_url (met_world t n) @ ''/api/notes/'' @ encode_uri nd_id @ ''?rev='' @ encode_uri ''c1'') = Some n"
    by (simp_all add: met_world_def)
  from board_reads_notes [OF r this] show ?thesis by blast
qed

end
