(* ===== verification/NotesTrail.thy ===== *)
theory NotesTrail
  imports NotesDemo
begin

text \<open>
  The git trailers as the source of the audit projection: what a rebuild reads back is what was
  audited, when no value spans lines; an operation id that does writes its own trailers.
\<close>

definition one_line :: "string \<Rightarrow> bool" where
  "one_line s = (nl \<notin> set s \<and> cr \<notin> set s)"

text \<open>A trailer value that is absent, or a text on one line.\<close>

definition plain :: "json option \<Rightarrow> bool" where
  "plain v = (nullish v \<or> (\<exists>t. v = Some (JStr t) \<and> t \<noteq> [] \<and> one_line t))"

section \<open>Lines\<close>

lemma split_on_nonempty [simp]: "split_on d s \<noteq> []"
  by (induction s) (auto split: list.splits)

lemma split_on_break: "split_on d (a @ d # b) = split_on d a @ split_on d b"
proof (induction a)
  case (Cons x a)
  then show ?case by (cases "split_on d a") auto
qed simp

lemma split_on_one: "d \<notin> set s \<Longrightarrow> split_on d s = [s]"
  by (induction s) auto

lemma split_join_lines:
  "(\<forall>l \<in> set ls. d \<notin> set l) \<Longrightarrow> ls \<noteq> [] \<Longrightarrow> split_on d (join [d] ls @ [d]) = ls @ [[]]"
proof (induction "[d]" ls rule: join.induct)
  case (2 x)
  then show ?case using split_on_break [of d x "[]"] by (simp add: split_on_one)
next
  case (3 x y xs)
  then show ?case using split_on_break [of d x "join [d] (y # xs) @ [d]"] by (simp add: split_on_one)
qed simp

section \<open>Trailers\<close>

lemma trailer_of_value:
  assumes "k \<noteq> []" and "letter (hd k)" and "list_all key_char k" and "one_line v"
  shows "trailer_of (k @ '': '' @ v) = Some (k, v)"
proof -
  have "takeWhile key_char (k @ '': '' @ v) = k"
    using assms(3) by (simp add: takeWhile_append list_all_iff key_char_def letter_def alnum_def lower_alnum_def is_digit_def)
  with assms show ?thesis by (simp add: trailer_of_def Let_def one_line_def is_ws_def)
qed

lemmas key_chars = key_char_def letter_def alnum_def lower_alnum_def is_digit_def

lemma key_letters:
  "one_line v \<Longrightarrow> trailer_of (''Sub: '' @ v) = Some (''Sub'', v)"
  "one_line v \<Longrightarrow> trailer_of (''Tool: '' @ v) = Some (''Tool'', v)"
  "one_line v \<Longrightarrow> trailer_of (''Note-Id'' @ '': '' @ v) = Some (''Note-Id'', v)"
  "one_line v \<Longrightarrow> trailer_of (''Ticket'' @ '': '' @ v) = Some (''Ticket'', v)"
  "one_line v \<Longrightarrow> trailer_of (''Op-Id'' @ '': '' @ v) = Some (''Op-Id'', v)"
  "one_line v \<Longrightarrow> trailer_of (''Fence'' @ '': '' @ v) = Some (''Fence'', v)"
  using trailer_of_value [of "''Sub''" v] trailer_of_value [of "''Tool''" v] trailer_of_value [of "''Note-Id''" v]
    trailer_of_value [of "''Ticket''" v] trailer_of_value [of "''Op-Id''" v] trailer_of_value [of "''Fence''" v]
  by (simp_all add: key_chars)

text \<open>The first line of a message carries no trailer: the underscore of the tool's name is no key character.\<close>

definition tools :: "string list" where
  "tools = [''create_note'', ''append_note'', ''link_notes'', ''update_note'']"

lemma underscore_no_trailer:
  assumes "list_all key_char k"
  shows "trailer_of (k @ CHR ''_'' # s) = None"
proof -
  have u: "\<not> key_char (CHR ''_'')" by (simp add: key_chars)
  with assms have "takeWhile key_char (k @ CHR ''_'' # s) = k" by (induction k) simp_all
  then show ?thesis by (simp add: trailer_of_def Let_def)
qed

lemma tool_head: "tool \<in> set tools \<Longrightarrow> \<exists>k t. list_all key_char k \<and> length k < 100 \<and> tool = k @ CHR ''_'' # t"
  unfolding tools_def
proof (elim set_ConsD [elim_format] disjE)
  assume "tool = ''create_note''"
  then show ?thesis
    by (intro exI [of _ "''create''"] exI [of _ "''note''"]) (simp add: key_chars)
next
  assume "tool = ''append_note''"
  then show ?thesis
    by (intro exI [of _ "''append''"] exI [of _ "''note''"]) (simp add: key_chars)
next
  assume "tool = ''link_notes''"
  then show ?thesis
    by (intro exI [of _ "''link''"] exI [of _ "''notes''"]) (simp add: key_chars)
next
  assume "tool = ''update_note''"
  then show ?thesis
    by (intro exI [of _ "''update''"] exI [of _ "''note''"]) (simp add: key_chars)
qed simp_all

lemma head_no_trailer: "tool \<in> set tools \<Longrightarrow> trailer_of (take 100 (tool @ '': '' @ summary)) = None"
proof -
  assume "tool \<in> set tools"
  then obtain k t where k: "list_all key_char k" "length k < 100" "tool = k @ CHR ''_'' # t" using tool_head by blast
  then have "take 100 (tool @ '': '' @ summary) = k @ CHR ''_'' # take (99 - length k) (t @ '': '' @ summary)"
    by (simp add: take_Cons')
  then show ?thesis using underscore_no_trailer [OF k(1)] by simp
qed

lemma trailer_of_Nil [simp]: "trailer_of [] = None"
  by (simp add: trailer_of_def)

definition value_of :: "json option \<Rightarrow> string option" where
  "value_of v = (if nullish v then None else Some (json_text v))"

definition pair_of :: "string \<Rightarrow> json option \<Rightarrow> (string \<times> string) list" where
  "pair_of k v = (case value_of v of None \<Rightarrow> [] | Some t \<Rightarrow> [(k, t)])"

lemma trailer_plain:
  assumes "plain v" and "\<And>t. one_line t \<Longrightarrow> trailer_of (k @ '': '' @ t) = Some (k, t)"
  shows "List.map_filter trailer_of (trailer k v) = pair_of k v"
  using assms by (auto simp: plain_def trailer_def pair_of_def value_of_def json_text_def map_filter_simps)

lemma trailer_one_line: "plain v \<Longrightarrow> nl \<notin> set k \<Longrightarrow> \<forall>l \<in> set (trailer k v). nl \<notin> set l"
  by (auto simp: plain_def trailer_def one_line_def nl_def)

definition plain_trailers :: "trailers \<Rightarrow> bool" where
  "plain_trailers t = (plain (trl_note t) \<and> plain (trl_ticket t) \<and> plain (trl_op t) \<and> plain (trl_fence t))"

lemma map_filter_append: "List.map_filter f (xs @ ys) = List.map_filter f xs @ List.map_filter f ys"
  by (simp add: map_filter_def)

lemma tools_one_line: "tool \<in> set tools \<Longrightarrow> one_line tool"
  by (auto simp: tools_def one_line_def nl_def cr_def)

lemma parse_message:
  assumes "tool \<in> set tools" and "one_line summary" and "one_line sub" and t: "plain_trailers t"
  shows "parse_trailers (build_message summary tool sub t) =
    rev ([(''Sub'', sub)] @ pair_of ''Note-Id'' (trl_note t) @ pair_of ''Ticket'' (trl_ticket t) @
      pair_of ''Op-Id'' (trl_op t) @ pair_of ''Fence'' (trl_fence t) @ [(''Tool'', tool)])"
proof -
  let ?ls = "message_lines summary tool sub t"
  have p: "plain (trl_note t)" "plain (trl_ticket t)" "plain (trl_op t)" "plain (trl_fence t)"
    using t by (simp_all add: plain_trailers_def)
  have "nl \<notin> set (take 100 (tool @ '': '' @ summary))"
    using assms(2) tools_one_line [OF assms(1)] by (auto simp: one_line_def nl_def dest!: in_set_takeD)
  moreover have "\<forall>l \<in> set (trailer ''Note-Id'' (trl_note t) @ trailer ''Ticket'' (trl_ticket t) @
      trailer ''Op-Id'' (trl_op t) @ trailer ''Fence'' (trl_fence t)). nl \<notin> set l"
    unfolding set_append ball_Un using p by (intro conjI trailer_one_line) (simp_all add: nl_def)
  ultimately have "\<forall>l \<in> set ?ls. nl \<notin> set l"
    using assms(3) tools_one_line [OF assms(1)] unfolding message_lines_def
    by (auto simp: one_line_def nl_def)
  then have "split_on nl (build_message summary tool sub t) = ?ls @ [[]]"
    unfolding build_message_def by (rule split_join_lines) (simp add: message_lines_def)
  moreover have "List.map_filter trailer_of (?ls @ [[]]) =
     [(''Sub'', sub)] @ pair_of ''Note-Id'' (trl_note t) @ pair_of ''Ticket'' (trl_ticket t) @
      pair_of ''Op-Id'' (trl_op t) @ pair_of ''Fence'' (trl_fence t) @ [(''Tool'', tool)]"
  proof -
    note head = head_no_trailer [OF assms(1), of summary]
    have one: "List.map_filter trailer_of [x] = (case trailer_of x of None \<Rightarrow> [] | Some y \<Rightarrow> [y])" for x
      by (simp add: map_filter_simps split: option.splits)
    have first: "List.map_filter trailer_of [take 100 (tool @ '': '' @ summary), [], ''Sub: '' @ sub] = [(''Sub'', sub)]"
      using head key_letters(1) [OF assms(3)] by (simp add: map_filter_simps)
    show ?thesis
      unfolding message_lines_def map_filter_append first one
      using trailer_plain [OF p(1) key_letters(3)] trailer_plain [OF p(2) key_letters(4)]
        trailer_plain [OF p(3) key_letters(5)] trailer_plain [OF p(4) key_letters(6)]
        key_letters(2) [OF tools_one_line [OF assms(1)]]
      by simp
  qed
  ultimately show ?thesis by (simp add: parse_trailers_def)
qed

section \<open>Audit and rebuild\<close>

lemma map_of_pair_of: "map_of (pair_of k v) l = (if l = k then value_of v else None)"
  by (auto simp: pair_of_def split: option.splits)

lemma map_of_rev_message:
  defines "ps \<equiv> \<lambda>sub t tool. rev ([(''Sub'', sub)] @ pair_of ''Note-Id'' (trl_note t) @ pair_of ''Ticket'' (trl_ticket t) @
      pair_of ''Op-Id'' (trl_op t) @ pair_of ''Fence'' (trl_fence t) @ [(''Tool'', tool)])"
  shows "map_of (ps sub t tool) ''Sub'' = Some sub" "map_of (ps sub t tool) ''Tool'' = Some tool"
    "map_of (ps sub t tool) ''Note-Id'' = value_of (trl_note t)" "map_of (ps sub t tool) ''Ticket'' = value_of (trl_ticket t)"
    "map_of (ps sub t tool) ''Op-Id'' = value_of (trl_op t)" "map_of (ps sub t tool) ''Fence'' = value_of (trl_fence t)"
proof -
  have r: "rev (pair_of k v) = pair_of k v" for k v by (simp add: pair_of_def split: option.splits)
  show "map_of (ps sub t tool) ''Sub'' = Some sub" "map_of (ps sub t tool) ''Tool'' = Some tool"
    "map_of (ps sub t tool) ''Note-Id'' = value_of (trl_note t)" "map_of (ps sub t tool) ''Ticket'' = value_of (trl_ticket t)"
    "map_of (ps sub t tool) ''Op-Id'' = value_of (trl_op t)" "map_of (ps sub t tool) ''Fence'' = value_of (trl_fence t)"
    unfolding ps_def by (simp_all add: r map_add_def map_of_pair_of split: option.splits)
qed

lemma value_nonempty: "plain v \<Longrightarrow> (case value_of v of Some x \<Rightarrow> if x = [] then None else Some x | None \<Rightarrow> None) = value_of v"
  by (auto simp: plain_def value_of_def json_text_def)

lemma audit_of_plain_commit:
  assumes "tool \<in> set tools" and "one_line summary" and "one_line sub" and "sub \<noteq> []" and t: "plain_trailers t"
    and "cm_message c = build_message summary tool sub t"
  shows "audit_of_commit c = Some \<lparr>na_ts = iso_string (cm_seconds c * 1000), na_sub = sub, na_tool = Some tool,
    na_note = value_of (trl_note t), na_ticket = value_of (trl_ticket t), na_op = value_of (trl_op t),
    na_fence = value_of (trl_fence t), na_commit = cm_oid c\<rparr>"
proof -
  have p: "plain (trl_note t)" "plain (trl_ticket t)" "plain (trl_op t)" "plain (trl_fence t)"
    using t by (simp_all add: plain_trailers_def)
  have "tool \<noteq> []" using assms(1) by (auto simp: tools_def)
  then show ?thesis
    unfolding audit_of_commit_def Let_def assms(6) parse_message [OF assms(1-3,5)] trailer_get_def map_of_rev_message
    using p assms(4) by (simp add: value_nonempty)
qed

lemma plain_audit:
  "plain v \<Longrightarrow> text_or_null v = value_of v"
  "plain v \<Longrightarrow> (if nullish v then None else Some (js_string (the v))) = value_of v"
  by (auto simp: plain_def value_of_def json_text_def text_or_null_def elim!: nullish.elims)

lemma job_tool_known: "job_tool j \<in> set tools"
  by (cases j) (simp_all add: job_tool_def tools_def)

lemma index_row_keeps [simp]: "ns_git (index_row r s) = ns_git s" "ns_audit (index_row r s) = ns_audit s"
  by (simp_all add: index_row_def Let_def nemit_def set_links_def upsert_row_def back_resolve_dangling_def)

lemma reconcile_keeps: "reconcile_file w path s = Inr s' \<Longrightarrow> ns_git s' = ns_git s \<and> ns_audit s' = ns_audit s"
  by (auto simp: reconcile_file_def nemit_def delete_note_def split: option.splits)

lemma persist_ok:
  assumes "persist cfg w e p path txt summary tool tr ts s = (Inr oid, s')"
  shows "\<exists>hist old. ns_git s' = commit_file w oid (ne_now e) path txt summary tool (np_sub p) tr hist \<and>
    ns_audit s' = old @ [\<lparr>na_ts = ts, na_sub = np_sub p, na_tool = Some tool,
      na_note = text_or_null (trl_note tr), na_ticket = text_or_null (trl_ticket tr), na_op = text_or_null (trl_op tr),
      na_fence = (if nullish (trl_fence tr) then None else Some (js_string (the (trl_fence tr)))), na_commit = oid\<rparr>]"
  using assms
  by (auto simp: persist_def Let_def audit_write_def nemit_def append_audit_def split: sum.splits option.splits
      dest!: reconcile_keeps)

lemma record_op_keeps [simp]: "ns_git (remember_op op sub r oid s) = ns_git s" "ns_audit (remember_op op sub r oid s) = ns_audit s"
  by (auto simp: remember_op_def put_op_def split: sum.splits option.splits)

text \<open>C18. The audit row a write appends is the one a rebuild reads back from its commit, up to the time stamp: the
  row and the trailers of the new commit name the same principal, tool, note, ticket, operation, fence
  and commit, when the values that go into the message are texts on one line.
\<close>

theorem audit_rebuilt_from_git:
  assumes "run_job cfg w e p j s = (Inr res, s')"
    and "one_line (np_sub p)" and "np_sub p \<noteq> []" and "one_line (job_summary j)" and "plain_trailers (job_trailers j)"
    and "nw_message w (build_message (job_summary j) (job_tool j) (np_sub p) (job_trailers j)) =
      build_message (job_summary j) (job_tool j) (np_sub p) (job_trailers j)"
  shows "map_option (na_ts_update (\<lambda>_. [])) (audit_of_commit (hd (ns_git s'))) = Some ((last (ns_audit s'))\<lparr>na_ts := []\<rparr>)"
proof -
  let ?t = "job_trailers j"
  from assms(1) obtain new oid s1
    where q: "persist cfg w e p (job_path j) new (job_summary j) (job_tool j) ?t (job_ts e j) s = (Inr oid, s1)"
    and s': "ns_git s' = ns_git s1" "ns_audit s' = ns_audit s1"
    by (auto simp: run_job_def split: sum.splits prod.splits)
  from persist_ok [OF q] obtain hist old where g: "ns_git s1 = commit_file w oid (ne_now e) (job_path j) new (job_summary j) (job_tool j) (np_sub p) ?t hist"
    and a: "ns_audit s1 = old @ [\<lparr>na_ts = job_ts e j, na_sub = np_sub p, na_tool = Some (job_tool j),
      na_note = text_or_null (trl_note ?t), na_ticket = text_or_null (trl_ticket ?t), na_op = text_or_null (trl_op ?t),
      na_fence = (if nullish (trl_fence ?t) then None else Some (js_string (the (trl_fence ?t)))), na_commit = oid\<rparr>]"
    by blast
  have p: "plain (trl_note ?t)" "plain (trl_ticket ?t)" "plain (trl_op ?t)" "plain (trl_fence ?t)"
    using assms(5) by (simp_all add: plain_trailers_def)
  have c: "cm_message (hd (ns_git s')) = build_message (job_summary j) (job_tool j) (np_sub p) ?t" "cm_oid (hd (ns_git s')) = oid"
    using assms(6) by (simp_all add: s' g commit_file_def)
  have "audit_of_commit (hd (ns_git s')) = Some \<lparr>na_ts = iso_string (cm_seconds (hd (ns_git s')) * 1000), na_sub = np_sub p,
    na_tool = Some (job_tool j), na_note = value_of (trl_note ?t), na_ticket = value_of (trl_ticket ?t),
    na_op = value_of (trl_op ?t), na_fence = value_of (trl_fence ?t), na_commit = oid\<rparr>"
    using audit_of_plain_commit [OF job_tool_known assms(4,2,3,5) c(1)] c(2) by simp
  moreover have "last (ns_audit s') = \<lparr>na_ts = job_ts e j, na_sub = np_sub p, na_tool = Some (job_tool j),
    na_note = value_of (trl_note ?t), na_ticket = value_of (trl_ticket ?t), na_op = value_of (trl_op ?t),
    na_fence = value_of (trl_fence ?t), na_commit = oid\<rparr>"
    unfolding s' a plain_audit(2) [OF p(4)] plain_audit(1) [OF p(1)] plain_audit(1) [OF p(2)] plain_audit(1) [OF p(3)]
    by simp
  ultimately show ?thesis by simp
qed

lemma nd_trailers:
  "plain_trailers (job_trailers nd_job)" "one_line (np_sub nd_who)" "np_sub nd_who \<noteq> []" "one_line (job_summary nd_job)"
  by (simp_all add: plain_trailers_def plain_def job_trailers_def nd_job_def job_key_def job_ticket_def job_req_def req_op_def
      req_fence_def nd_create_def nd_ticket_def nd_id_def nd_who_def nd_sub_def job_summary_def json_text_def one_line_def nl_def cr_def)

theorem audit_rebuilt_from_git_witness:
  "map_option (na_ts_update (\<lambda>_. [])) (audit_of_commit (hd (ns_git (snd (run_job nd_config nd_world nd_env nd_who nd_job nd_store))))) =
     Some ((last (ns_audit (snd (run_job nd_config nd_world nd_env nd_who nd_job nd_store))))\<lparr>na_ts := []\<rparr>)"
proof -
  obtain res s' where r: "run_job nd_config nd_world nd_env nd_who nd_job nd_store = (Inr res, s')" using nd_runs by blast
  have "nw_message nd_world x = x" for x by (simp add: nd_world_def)
  from audit_rebuilt_from_git [OF r nd_trailers(2-4) nd_trailers(1) this] r show ?thesis by simp
qed

section \<open>Forged trailers\<close>

text \<open>An operation id with a line break writes trailers of its own: for every principal that gets a write
  with such an id committed, the rebuild attributes the commit to whomever the id names.
\<close>

theorem op_id_forges_author:
  assumes "trl_op t = Some (JStr (x @ nl # ''Sub: '' @ victim))" and "nullish (trl_fence t)"
    and "one_line victim" and "victim \<noteq> []" and "tool \<in> set tools"
    and "cm_message c = build_message summary tool sub t"
  shows "\<exists>r. audit_of_commit c = Some r \<and> na_sub r = victim"
proof -
  let ?a = "join [nl] ([take 100 (tool @ '': '' @ summary), [], ''Sub: '' @ sub] @ trailer ''Note-Id'' (trl_note t) @
      trailer ''Ticket'' (trl_ticket t) @ [''Op-Id: '' @ x])"
  have j: "join [nl] (xs @ [y @ nl # z, u]) = join [nl] (xs @ [y]) @ nl # z @ nl # u" for xs y z u
    by (induction "[nl]" xs rule: join.induct) simp_all
  have "trailer ''Op-Id'' (trl_op t) = [(''Op-Id: '' @ x) @ nl # ''Sub: '' @ victim]" "trailer ''Fence'' (trl_fence t) = []"
    using assms(1,2) by (simp_all add: trailer_def)
  then have "build_message summary tool sub t = join [nl] (([take 100 (tool @ '': '' @ summary), [], ''Sub: '' @ sub] @
      trailer ''Note-Id'' (trl_note t) @ trailer ''Ticket'' (trl_ticket t)) @
      [(''Op-Id: '' @ x) @ nl # ''Sub: '' @ victim, ''Tool: '' @ tool]) @ [nl]"
    by (simp add: build_message_def message_lines_def)
  also have "\<dots> = ?a @ nl # (''Sub: '' @ victim) @ nl # (''Tool: '' @ tool) @ nl # []"
    unfolding j by simp
  finally have m: "build_message summary tool sub t = ?a @ nl # (''Sub: '' @ victim) @ nl # (''Tool: '' @ tool) @ nl # []" .
  have n: "nl \<notin> set (''Sub: '' @ victim)" "nl \<notin> set (''Tool: '' @ tool)"
    using assms(3) tools_one_line [OF assms(5)] by (simp_all add: one_line_def nl_def)
  have "split_on nl (build_message summary tool sub t) = split_on nl ?a @ [''Sub: '' @ victim, ''Tool: '' @ tool, []]"
    unfolding m split_on_break split_on_one [OF n(1)] split_on_one [OF n(2)] by simp
  then have "parse_trailers (cm_message c) = (''Tool'', tool) # (''Sub'', victim) # rev (List.map_filter trailer_of (split_on nl ?a))"
    using key_letters(1) [OF assms(3)] key_letters(2) [OF tools_one_line [OF assms(5)]]
    by (simp add: parse_trailers_def assms(6) map_filter_append map_filter_simps)
  with assms(4) show ?thesis by (simp add: audit_of_commit_def trailer_get_def Let_def)
qed

definition forged_trailers :: trailers where
  "forged_trailers = \<lparr>trl_note = Some (JStr ''N-1''), trl_ticket = None, trl_op = Some (JStr (''x'' @ nl # ''Sub: '' @ ''op:root'')),
     trl_fence = None\<rparr>"

theorem op_id_forges_author_witness:
  "\<exists>r. audit_of_commit \<lparr>cm_oid = ''c1'', cm_message = build_message ''overwrite note'' ''append_note'' ''agent:a1'' forged_trailers,
     cm_seconds = 0, cm_path = ''notes/a.md'', cm_text = []\<rparr> = Some r \<and> na_sub r = ''op:root''"
  by (rule op_id_forges_author [of forged_trailers "''x''" _ "''append_note''"]) (simp_all add: forged_trailers_def one_line_def nl_def cr_def tools_def)

end
