(* ===== verification/NotesBounds.thy ===== *)
theory NotesBounds
  imports NotesDemo
begin

text \<open>
  Where new notes are written, who may write, and what the push of the corpus guarantees.
\<close>

section \<open>Paths of new notes\<close>

definition path_char :: "char \<Rightarrow> bool" where
  "path_char c = (alnum c \<or> c = CHR ''-'' \<or> c = CHR ''_'')"

lemma hyphenate_chars: "list_all path_char (hyphenate run s)"
  by (induction run s rule: hyphenate.induct) (simp_all add: path_char_def alnum_def)

lemma strip_hyphens_chars: "list_all path_char s \<Longrightarrow> list_all path_char (strip_hyphens s)"
  unfolding strip_hyphens_def list_all_iff by (auto dest!: set_dropWhileD)

lemma slugify_chars: "list_all path_char (slugify t)" "slugify t \<noteq> []"
proof -
  let ?b = "take 60 (strip_hyphens (hyphenate False (map lower_char t)))"
  have "list_all path_char ?b"
    using strip_hyphens_chars [OF hyphenate_chars [of False "map lower_char t"]] by (auto simp: list_all_iff dest: in_set_takeD)
  then show "list_all path_char (slugify t)" "slugify t \<noteq> []"
    by (simp_all add: slugify_def Let_def path_char_def alnum_def lower_alnum_def)
qed

lemma crockford_path: "crockford c \<Longrightarrow> path_char (lower_char c)"
  unfolding crockford_def
  by (elim set_ConsD [elim_format] disjE) (simp_all add: path_char_def lower_char_def alnum_def lower_alnum_def is_digit_def)

lemma split_slash:
  "CHR ''/'' \<notin> set a \<Longrightarrow> split_on (CHR ''/'') (a @ CHR ''/'' # b) = a # split_on (CHR ''/'') b"
  by (induction a) auto

lemma no_slash: "CHR ''/'' \<notin> set a \<Longrightarrow> split_on (CHR ''/'') a = [a]"
  by (induction a) auto

lemma path_char_slash: "list_all path_char s \<Longrightarrow> CHR ''/'' \<notin> set s"
  by (auto simp: list_all_iff path_char_def alnum_def lower_alnum_def is_digit_def)

lemma note_type_chars: "t \<in> set note_types \<Longrightarrow> list_all path_char t \<and> t \<noteq> []"
  unfolding note_types_def
  by (elim set_ConsD [elim_format] disjE) (simp_all add: path_char_def alnum_def lower_alnum_def)

lemma join_snoc3: "xs \<noteq> [] \<Longrightarrow> join sep (xs @ ys) = join sep xs @ (if ys = [] then [] else sep @ join sep ys)"
  by (induction sep xs rule: join.induct) (auto simp: neq_Nil_conv)

text \<open>C36. A new note is written to \<open>notes/<type>/<slug>-<suffix>.md\<close> below the corpus root, whatever its title: the
  path of a create resolves to that place and nowhere else.
\<close>

theorem new_path_confined:
  assumes "t \<in> set note_types" and "is_note_id i" and "walk_segments [] (split_on (CHR ''/'') (nc_corpus cfg)) \<noteq> []"
  shows "\<exists>suffix. length suffix = 6 \<and> resolve_abs cfg (derive_new_path t (slugify title) i) =
    Inr (path_resolve (nc_corpus cfg) [] @ ''/notes/'' @ t @ ''/'' @ slugify title @ ''-'' @ suffix @ ''.md'')"
proof -
  let ?suf = "map lower_char (drop (length i - 6) i)" and ?st = "walk_segments [] (split_on (CHR ''/'') (nc_corpus cfg))"
  let ?f = "slugify title @ ''-'' @ ?suf @ ''.md''"
  have len: "length i = 28" using assms(2) by (simp add: is_note_id_def)
  have "set (drop 22 i) \<subseteq> set (drop 2 i)" by (simp add: set_drop_subset_set_drop)
  then have suf: "CHR ''/'' \<notin> set ?suf"
    using assms(2) crockford_path len by (intro path_char_slash) (auto simp: is_note_id_def list_all_iff)
  have f: "CHR ''/'' \<notin> set ?f" "?f \<noteq> []" "?f \<noteq> ''.''" "?f \<noteq> ''..''"
    using suf path_char_slash [OF slugify_chars(1)] slugify_chars(2) [of title] by (auto simp: append_eq_Cons_conv simp del: set_map)
  have t: "CHR ''/'' \<notin> set t" "t \<noteq> []" "t \<noteq> ''.''" "t \<noteq> ''..''"
    using note_type_chars [OF assms(1)] path_char_slash by (auto simp: path_char_def alnum_def lower_alnum_def is_digit_def)
  have s: "split_on (CHR ''/'') (derive_new_path t (slugify title) i) = [''notes'', t, ?f]"
    using split_slash [of "''notes''" "t @ ''/'' @ ?f"] split_slash [OF t(1), of ?f] no_slash [OF f(1)]
    by (simp add: derive_new_path_def)
  have rel: "\<not> starts_with ''/'' (derive_new_path t (slugify title) i)"
    by (simp add: starts_with_def derive_new_path_def)
  have w: "walk_segments ?st [''notes'', t, ?f] = ?f # t # ''notes'' # ?st" using t f by simp
  have "rev ?st \<noteq> []" using assms(3) by simp
  from join_snoc3 [OF this, of "''/''" "[''notes'', t, ?f]"]
  have p: "path_resolve (nc_corpus cfg) (derive_new_path t (slugify title) i) =
    ''/'' @ join ''/'' (rev ?st) @ ''/notes/'' @ t @ ''/'' @ ?f"
    unfolding path_resolve_def Let_def s using rel w by simp
  have r: "path_resolve (nc_corpus cfg) [] = ''/'' @ join ''/'' (rev ?st)"
    by (simp add: path_resolve_def starts_with_def)
  have "resolve_abs cfg (derive_new_path t (slugify title) i) =
    Inr (path_resolve (nc_corpus cfg) [] @ ''/notes/'' @ t @ ''/'' @ ?f)"
    unfolding resolve_abs_def Let_def p r by (simp add: starts_with_def)
  then show ?thesis using len by (intro exI [of _ ?suf]) simp
qed

theorem new_path_confined_witness:
  "\<exists>suffix. length suffix = 6 \<and> resolve_abs nd_config (derive_new_path ''general'' (slugify ''../../etc'') nd_id) =
    Inr (path_resolve (nc_corpus nd_config) [] @ ''/notes/'' @ ''general'' @ ''/'' @ slugify ''../../etc'' @ ''-'' @ suffix @ ''.md'')"
proof (rule new_path_confined)
  show "''general'' \<in> set note_types" by (simp add: note_types_def)
  show "is_note_id nd_id" by code_simp
  show "walk_segments [] (split_on (CHR ''/'') (nc_corpus nd_config)) \<noteq> []" by (simp add: nd_config_def)
qed

section \<open>Who may write\<close>





text \<open>C3. A note bound to a ticket is created, appended to or linked only under the lease: the Board answered the
  read behind the write with the generation the caller presented, a whole number that is not negative, so
  neither a stale holder nor a missing lease nor an unreachable Board lets the write through.
\<close>

theorem fenced_writes:
  assumes "notes_reach cfg w y" and "v \<in> set (sy_runs y)" and "nn_job v = Some j" and "bound_ticket j = Some t"
  shows "\<exists>n reply. nn_lease v = Some (t, n, reply) \<and> 0 \<le> n \<and> number_of (req_fence (job_req j)) = Some n \<and>
    current_fence_generation reply = Some (Some (Some n))"
proof -
  have "nrun_ok w v" using notesrun.reach_inv [OF assms(1)] assms(2) by (simp add: notes_ok_def)
  then show ?thesis using assms(3,4) by (simp add: nrun_ok_def run_pc_ok_def fenced_def)
qed

theorem fenced_writes_witness:
  "\<exists>n reply. nn_lease (sy_runs nd4 ! 0) = Some (nd_ticket, n, reply) \<and> 0 \<le> n \<and> number_of (req_fence (job_req nd_job)) = Some n \<and>
    current_fence_generation reply = Some (Some (Some n))"
  by (rule fenced_writes [OF nd_reach nd_run_in nd_bound])

section \<open>The push of the corpus\<close>

text \<open>In every reachable state of the push manager a pending commit is being pushed or a timer will try, and
  the next delay is between one second and five minutes.
\<close>

theorem pending_commit_is_retried:
  assumes "reach (\<lambda>r. r = new_remote) remote_step r" and "rm_pending r \<noteq> None"
  shows "(0 < rm_armed r \<or> rm_flight r \<noteq> []) \<and> 1000 \<le> rm_backoff r \<and> rm_backoff r \<le> 300000"
  using pusher.reach_inv [OF assms(1)] assms(2) by (simp add: remote_ok_def)

theorem pending_commit_is_retried_witness:
  "rm_pending (notify_commit 5 ''c1'' new_remote) \<noteq> None \<and> 0 < rm_armed (notify_commit 5 ''c1'' new_remote) + length (rm_flight (notify_commit 5 ''c1'' new_remote))"
proof
  show p: "rm_pending (notify_commit 5 ''c1'' new_remote) \<noteq> None" by (simp add: notify_commit_def new_remote_def)
  have "reach (\<lambda>r. r = new_remote) remote_step (notify_commit 5 ''c1'' new_remote)"
    by (rule reach_step, rule reach_start, rule refl, rule rs_commit)
  from pending_commit_is_retried [OF this p]
  show "0 < rm_armed (notify_commit 5 ''c1'' new_remote) + length (rm_flight (notify_commit 5 ''c1'' new_remote))" by auto
qed

text \<open>A commit made while a push is in flight is reported as pushed when that push, which began before it,
  succeeds: the health names it as the last pushed commit and shows no lag.
\<close>

theorem commit_during_push_reported_pushed:
  "\<exists>r. reach (\<lambda>r. r = new_remote) remote_step r \<and> rm_flight r = [Some first] \<and>
     (let r' = push_done t3 0 (notify_commit t2 second r) in
      remote_step\<^sup>*\<^sup>* r r' \<and> rm_pushed r' = Some second \<and> push_lag_seconds now r' = 0)"
proof -
  let ?a = "notify_commit t1 first new_remote"
  let ?r = "flush_start (Some first) ?a"
  have armed: "0 < rm_armed ?a" by (simp add: notify_commit_def new_remote_def Let_def)
  have "reach (\<lambda>r. r = new_remote) remote_step ?a"
    by (rule reach_step, rule reach_start, rule refl, rule rs_commit)
  then have reached: "reach (\<lambda>r. r = new_remote) remote_step ?r" by (rule reach_step) (rule rs_fire [OF armed])
  have fl: "rm_flight ?r = [Some first]" by (simp add: flush_start_def notify_commit_def new_remote_def Let_def)
  then have "0 < length (rm_flight (notify_commit t2 second ?r))" by (simp add: notify_commit_def Let_def)
  then have "remote_step (notify_commit t2 second ?r) (push_done t3 0 (notify_commit t2 second ?r))" by (rule rs_done)
  moreover have "remote_step ?r (notify_commit t2 second ?r)" by (rule rs_commit)
  ultimately have "remote_step\<^sup>*\<^sup>* ?r (push_done t3 0 (notify_commit t2 second ?r))" by auto
  moreover have "rm_pushed (push_done t3 0 (notify_commit t2 second ?r)) = Some second"
    "push_lag_seconds now (push_done t3 0 (notify_commit t2 second ?r)) = 0"
    by (simp_all add: push_done_def push_lag_seconds_def notify_commit_def Let_def)
  ultimately show ?thesis using reached fl unfolding Let_def by blast
qed

section \<open>The secret scan\<close>

text \<open>
  The secret scan: what a clean scan means, what the service therefore never commits, and what the allowed
  handles let through.
\<close>

definition secret_free :: "string \<Rightarrow> bool" where
  "secret_free t =
     (\<forall>(k, r) \<in> set secret_patterns. \<nexists>b u s. t = b @ u @ s \<and> rx_matches r (last_of None b) u s)"

lemma patterns_bounded: "list_all (\<lambda>(k, r). well_bounded r) secret_patterns"
  by code_simp

lemma scan_patterns_None:
  "scan_patterns h ps s = None \<longleftrightarrow> (\<forall>(k, r) \<in> set ps. exec r None s = None)"
  by (induction ps) (auto split: option.splits prod.splits)

lemma scan_secret_free: "scan_for_secrets w c = None \<longleftrightarrow> secret_free (strip_allowed c)"
proof -
  have "exec r None t = None \<longleftrightarrow> (\<nexists>b u s. t = b @ u @ s \<and> rx_matches r (last_of None b) u s)"
    if "(k, r) \<in> set secret_patterns" for k r t
    using patterns_bounded that by (intro exec_None) (auto simp: list_all_iff)
  then show ?thesis
    unfolding scan_for_secrets_def scan_patterns_None secret_free_def by (intro ball_cong) auto
qed

text \<open>C10. No append and no create reaches the writer of a note with a secret in it: outside the allowed handles,
  no piece of the appended content or of the new body has the shape of one of the six secret patterns,
  wherever it stands.
\<close>

theorem secrets_kept_out:
  assumes "notes_reach cfg w y" and "v \<in> set (sy_runs y)" and "nn_job v = Some j"
  shows "case j of
      JAppend a r \<Rightarrow> secret_free (strip_allowed (js_string (the (aa_content a))))
    | JCreate a i path new now \<Rightarrow> (\<exists>m body. new = serialize w m body \<and> secret_free (strip_allowed body))
    | _ \<Rightarrow> True"
proof -
  have "nrun_ok w v" using notesrun.reach_inv [OF assms(1)] assms(2) by (simp add: notes_ok_def)
  then have "scanned w j" using assms(3) by (simp add: nrun_ok_def run_pc_ok_def)
  then show ?thesis by (cases j) (auto simp: scanned_def scan_secret_free)
qed

theorem secrets_kept_out_witness:
  "\<exists>m body. serialize nd_world nd_fm nd_body = serialize nd_world m body \<and> secret_free (strip_allowed body)"
  using secrets_kept_out [OF nd_reach nd_run_in] by (simp add: nd_job_def)

section \<open>What a handle hides\<close>

text \<open>Whatever follows \<open>cred://\<close> is taken for a powerless handle: a token, key or password behind that prefix
  passes the scan, as long as it has no white space and no closing parenthesis.
\<close>

theorem cred_prefix_hides_secrets:
  assumes "list_all handle_char secret" and "secret \<noteq> []"
  shows "scan_for_secrets w (''cred://'' @ secret) = None"
  using assms by (rule handle_scan)

theorem cred_prefix_hides_secrets_witness: "scan_for_secrets nd_world (''cred://'' @ ''hvs.CAESIJ1234567890abcdef'') = None"
  by (rule cred_prefix_hides_secrets) (simp_all add: handle_char_def is_ws_def)

end
