(* ===== verification/NotesTaint.thy ===== *)
theory NotesTaint
  imports NotesReconcile
begin

text \<open>
  The walk of \<open>effectiveTaint\<close> computes the closure it promises: the raisers it lists are the notes reachable
  over resolved links whose own taint is host-originated.
\<close>

definition linked_to :: "link_row list \<Rightarrow> string \<Rightarrow> string \<Rightarrow> bool" where
  "linked_to ls a b = (b \<in> set (links_of ls a))"

lemma raises_iff: "raises t \<longleftrightarrow> t = ''host_originated''"
  by (simp add: raises_def rank_pos key_text_def)

lemma max_own_raise: "raises t \<Longrightarrow> max_own e t = ''host_originated''"
  by (simp add: raises_iff max_own_def taint_rank_def key_text_def Let_def split: option.splits)

text \<open>
  The invariant of the loop: what was seen or is on the stack is reachable, the links of the root and of
  what was seen lead to the root, to what was seen or to the stack, and the result so far fits what
  was seen.
\<close>

definition dfs_ok ::
  "(string \<Rightarrow> string) \<Rightarrow> link_row list \<Rightarrow> string \<Rightarrow> string list \<Rightarrow> string list \<Rightarrow> string \<Rightarrow> string list \<Rightarrow> bool" where
  "dfs_ok own ls rt st seen eff via =
     (rt \<notin> set seen \<and> (\<forall>x \<in> set st \<union> set seen. (linked_to ls)\<^sup>*\<^sup>* rt x) \<and>
      (\<forall>x \<in> insert rt (set seen). set (links_of ls x) \<subseteq> insert rt (set seen \<union> set st)) \<and>
      distinct via \<and> set via = {x \<in> set seen. raises (own x)} \<and>
      eff = (if via = [] then own rt else ''host_originated''))"

lemma dfs_ok_skip:
  assumes "dfs_ok own ls rt (i # st) seen eff via" and "i \<in> set seen \<or> i = rt"
  shows "dfs_ok own ls rt st seen eff via"
  using assms unfolding dfs_ok_def by auto

lemma dfs_ok_visit:
  assumes ok: "dfs_ok own ls rt (i # st) seen eff via" and i: "i \<notin> set seen" "i \<noteq> rt"
  defines "st' \<equiv> rev (filter (\<lambda>n. n \<notin> set (i # seen)) (links_of ls i)) @ st"
  shows "dfs_ok own ls rt st' (i # seen) (if raises (own i) then max_own eff (own i) else eff)
    (if raises (own i) then via @ [i] else via)"
proof -
  have reach_i: "(linked_to ls)\<^sup>*\<^sup>* rt i" using ok unfolding dfs_ok_def by simp
  have "(linked_to ls)\<^sup>*\<^sup>* rt x" if "x \<in> set (links_of ls i)" for x
    using reach_i that by (metis linked_to_def rtranclp.rtrancl_into_rtrancl)
  moreover have "i \<notin> set via" using ok i(1) unfolding dfs_ok_def by auto
  ultimately show ?thesis
    using ok i unfolding dfs_ok_def st'_def by (auto simp: max_own_raise)
qed

lemma dfs_result:
  "dfs_ok own ls rt st seen eff via \<Longrightarrow> taint_dfs own ls rt st seen eff via = (eff', via') \<Longrightarrow>
   distinct via' \<and> set via' = {x. x \<noteq> rt \<and> (linked_to ls)\<^sup>*\<^sup>* rt x \<and> raises (own x)} \<and>
   eff' = (if via' = [] then own rt else ''host_originated'')"
proof (induction own ls rt st seen eff via rule: taint_dfs.induct)
  case (1 own ls rt seen eff via)
  then have closed: "\<forall>x \<in> insert rt (set seen). set (links_of ls x) \<subseteq> insert rt (set seen)"
    and seen: "\<forall>x \<in> set seen. (linked_to ls)\<^sup>*\<^sup>* rt x" "rt \<notin> set seen"
    unfolding dfs_ok_def by auto
  have "x \<in> insert rt (set seen)" if "(linked_to ls)\<^sup>*\<^sup>* rt x" for x
    using that by (induction rule: rtranclp_induct) (use closed in \<open>auto simp: linked_to_def\<close>)
  with seen have "set seen = {x. x \<noteq> rt \<and> (linked_to ls)\<^sup>*\<^sup>* rt x}" by auto
  with 1 show ?case unfolding dfs_ok_def by auto
next
  case (2 own ls rt i st seen eff via)
  show ?case
  proof (cases "i \<in> set seen \<or> i = rt")
    case True
    with 2 show ?thesis using dfs_ok_skip by simp
  next
    case False
    with dfs_ok_visit [OF 2(4)] 2 show ?thesis by (auto simp: Let_def split: if_splits)
  qed
qed

lemma effective_taint_spec:
  assumes "effective_taint own ls rt = (eff, via)"
  shows "distinct via \<and> set via = {x. x \<noteq> rt \<and> (linked_to ls)\<^sup>*\<^sup>* rt x \<and> own x = ''host_originated''} \<and>
    eff = (if via = [] then own rt else ''host_originated'')"
proof -
  have "dfs_ok own ls rt (rev (links_of ls rt)) [] (own rt) []"
    by (auto simp: dfs_ok_def linked_to_def)
  from dfs_result [OF this] assms show ?thesis by (simp add: effective_taint_def raises_iff)
qed

text \<open>C9. The effective taint of a note is host-originated exactly when its own taint is or that of a note it
  reaches over resolved links, through cycles too, and the list it reports is exactly those notes, each
  once.
\<close>

theorem effective_taint_closure:
  "case note_taint i s of (own, eff, via) \<Rightarrow>
     distinct via \<and>
     set via = {j. j \<noteq> i \<and> (linked_to (ns_links s))\<^sup>*\<^sup>* i j \<and> own_of (ns_notes s) j = ''host_originated''} \<and>
     (eff = ''host_originated'') = (\<exists>j. (linked_to (ns_links s))\<^sup>*\<^sup>* i j \<and> own_of (ns_notes s) j = ''host_originated'')"
proof -
  obtain eff via where e: "effective_taint (own_of (ns_notes s)) (ns_links s) i = (eff, via)" by fastforce
  let ?R = "\<lambda>j. (linked_to (ns_links s))\<^sup>*\<^sup>* i j \<and> own_of (ns_notes s) j = ''host_originated''"
  from effective_taint_spec [OF e] have v: "distinct via" "set via = {j. j \<noteq> i \<and> ?R j}"
    "eff = (if via = [] then own_of (ns_notes s) i else ''host_originated'')" by auto
  have "(eff = ''host_originated'') = (\<exists>j. ?R j)"
  proof (cases "via = []")
    case True
    with v(2) have "\<forall>j. ?R j \<longrightarrow> j = i" by auto
    with True v(3) show ?thesis by auto
  next
    case False
    then have "hd via \<in> set via" by simp
    with v(2) have "\<exists>j. ?R j" by blast
    with False v(3) show ?thesis by simp
  qed
  with v(1,2) show ?thesis unfolding note_taint_def Let_def e prod.case by (intro conjI) assumption+
qed

end
