(* ===== verification/NotesRebuild.thy ===== *)
theory NotesRebuild
  imports NotesDemo NotesTaint
begin

text \<open>
  The index as a projection: what a full rebuild depends on, what it forgets, where it differs from the
  index that grew write by write; and the replay of operations.
\<close>

section \<open>A rebuild depends on files and history only\<close>

definition index_of_store :: "nstate \<Rightarrow> note_row list \<times> link_row list \<times> naudit list \<times> op_row list \<times> (string \<times> int) list" where
  "index_of_store s = (ns_notes s, ns_links s, ns_audit s, ns_ops s, ns_floor s)"

definition same_index :: "nstate \<Rightarrow> nstate \<Rightarrow> bool" where
  "same_index s t = (ns_files s = ns_files t \<and> ns_git s = ns_git t \<and> index_of_store s = index_of_store t)"

lemmas index_defs = same_index_def index_of_store_def nemit_def delete_note_def upsert_row_def set_links_def
  back_resolve_dangling_def get_note_def get_note_by_path_def id_for_text_def append_audit_def raise_fence_floor_def

lemma same_index_row: "same_index s t \<Longrightarrow> same_index (index_row r s) (index_row r t)"
  by (simp add: index_row_def Let_def index_defs)

lemma same_index_reconcile:
  assumes "same_index s t"
  shows "case reconcile_file w p s of
      Inl e \<Rightarrow> reconcile_file w p t = Inl e
    | Inr s' \<Rightarrow> (\<exists>t'. reconcile_file w p t = Inr t' \<and> same_index s' t')"
proof (cases "ns_files s p")
  case None
  then have "ns_files t p = None" using assms by (simp add: same_index_def)
  with None assms show ?thesis
    by (auto simp: reconcile_file_def index_defs split: option.splits)
next
  case (Some f)
  then have f: "ns_files t p = Some f" using assms by (simp add: same_index_def)
  show ?thesis
  proof (cases "row_from_file w p f")
    case (Inl e)
    with Some f show ?thesis by (simp add: reconcile_file_def)
  next
    case (Inr row)
    with Some f assms same_index_row [OF assms] show ?thesis
      by (cases row) (simp_all add: reconcile_file_def)
  qed
qed

lemma same_index_walk:
  "same_index s t \<Longrightarrow> fst (reconcile_walk w ps s) = fst (reconcile_walk w ps t) \<and>
     same_index (snd (reconcile_walk w ps s)) (snd (reconcile_walk w ps t))"
proof (induction ps arbitrary: s t)
  case (Cons p ps)
  show ?case
  proof (cases "reconcile_file w p s")
    case (Inl e)
    with same_index_reconcile [OF Cons.prems, of w p] Cons.prems show ?thesis by simp
  next
    case (Inr s')
    with same_index_reconcile [OF Cons.prems, of w p] obtain t' where "reconcile_file w p t = Inr t'" "same_index s' t'" by auto
    with Inr Cons.IH [of s' t'] show ?thesis by simp
  qed
qed simp

lemma same_index_audit: "same_index s t \<Longrightarrow> same_index (rebuild_audit s) (rebuild_audit t)"
proof -
  assume s: "same_index s t"
  let ?f = "\<lambda>t r. case audit_fence r of None \<Rightarrow> append_audit r t | Some (tk, g) \<Rightarrow> raise_fence_floor tk g (append_audit r t)"
  have "same_index (foldl ?f a rs) (foldl ?f b rs)" if "same_index a b" for a b rs
    using that
  proof (induction rs arbitrary: a b)
    case (Cons r rs)
    have "same_index (?f a r) (?f b r)" using Cons.prems by (auto simp: index_defs split: option.splits)
    from Cons.IH [OF this] show ?case by simp
  qed simp
  moreover have "same_index (s\<lparr>ns_audit := [], ns_floor := []\<rparr>) (t\<lparr>ns_audit := [], ns_floor := []\<rparr>)"
    using s by (simp add: index_defs)
  ultimately show ?thesis using s unfolding rebuild_audit_def same_index_def by simp
qed

text \<open>C17. The index is disposable: a full rebuild gives the same tables, and the same error if a file breaks it,
  from any state of the old index, as long as the files, the commits and the order of the walk are the
  same.
\<close>

theorem rebuild_ignores_old_index:
  assumes "ns_files s = ns_files t" and "ns_git s = ns_git t"
  shows "fst (reindex w walk s) = fst (reindex w walk t) \<and>
    index_of_store (snd (reindex w walk s)) = index_of_store (snd (reindex w walk t))"
proof -
  have "same_index (truncate_index s) (truncate_index t)" using assms by (simp add: index_defs truncate_index_def)
  from same_index_walk [OF this, of w walk]
  have w: "fst (reconcile_walk w walk (truncate_index s)) = fst (reconcile_walk w walk (truncate_index t))"
    "same_index (snd (reconcile_walk w walk (truncate_index s))) (snd (reconcile_walk w walk (truncate_index t)))" by auto
  then show ?thesis
    using same_index_audit [OF w(2)]
    by (auto simp: reindex_def reconcile_all_def same_index_def split: prod.splits option.splits)
qed

theorem rebuild_ignores_old_index_witness:
  "ns_floor nd_store \<noteq> ns_floor empty_nstate \<and>
   index_of_store (snd (reindex nd_world [nd_path] nd_store)) = index_of_store (snd (reindex nd_world [nd_path] empty_nstate))"
proof
  have "ns_files nd_store = ns_files empty_nstate" "ns_git nd_store = ns_git empty_nstate"
    by (simp_all add: nd_store_def raise_fence_floor_def)
  from rebuild_ignores_old_index [OF this]
  show "index_of_store (snd (reindex nd_world [nd_path] nd_store)) = index_of_store (snd (reindex nd_world [nd_path] empty_nstate))"
    by blast
  show "ns_floor nd_store \<noteq> ns_floor empty_nstate" by (simp add: nd_store_def raise_fence_floor_def empty_nstate_def)
qed

section \<open>Operations replayed and forgotten\<close>

text \<open>Right after a write committed under an operation id, every request with that id, of whatever kind
  and by whatever principal, is answered with the recorded result and starts nothing.
\<close>

theorem committed_op_replays:
  assumes "run_job cfg w e p j s = (Inr res, s')" and "req_op (job_req j) = Some (JStr k)" and "k \<noteq> []"
    and "req_op r = Some (JStr k)"
  shows "\<exists>kvs. res = JObj kvs \<and> start_op w now i q r s' = Finished (Inr (JObj ((''replayed'', JBool True) # kvs)))"
proof -
  from assms(1) obtain new oid s1 where res: "res = job_result w j new oid"
    and s': "s' = remember_op (req_op (job_req j)) (np_sub p) res oid s1"
    by (auto simp: run_job_def split: sum.splits prod.splits)
  obtain kvs where kvs: "res = JObj kvs" using res by (simp add: job_result_def)
  have "row_of op_key k (filter (\<lambda>x. op_key x \<noteq> k) xs @ [y]) = Some y" if "op_key y = k" for xs and y :: op_row
    using that by (induction xs) auto
  then have "get_op k s' = Some \<lparr>op_key = k, op_sub = np_sub p, op_result = res, op_commit = oid\<rparr>"
    using assms(2,3) by (simp add: s' remember_op_def get_op_def put_op_def)
  with assms(3,4) kvs show ?thesis by (simp add: start_op_def replay_def finish_def)
qed

theorem committed_op_replays_witness:
  "\<exists>kvs. job_result nd_world nd_job (serialize nd_world nd_fm nd_body) ''c1'' = JObj kvs \<and>
     start_op nd_world 3000 nd_id nd_who (RCreate nd_create) (snd (run_job nd_config nd_world nd_env nd_who nd_job nd_store)) =
       Finished (Inr (JObj ((''replayed'', JBool True) # kvs)))"
proof -
  obtain s' where r: "run_job nd_config nd_world nd_env nd_who nd_job nd_store =
      (Inr (job_result nd_world nd_job (serialize nd_world nd_fm nd_body) ''c1''), s')"
    using nd_runs by blast
  have k: "req_op (job_req nd_job) = Some (JStr ''op1'')" "req_op (RCreate nd_create) = Some (JStr ''op1'')"
    by (simp_all add: nd_job_def job_req_def req_op_def nd_create_def)
  from committed_op_replays [OF r k(1) _ k(2)] r show ?thesis by simp
qed

lemma walk_keeps_ops: "ns_ops (snd (reconcile_walk w ps s)) = ns_ops s"
proof (induction ps arbitrary: s)
  case (Cons p ps)
  have "ns_ops s' = ns_ops s" if "reconcile_file w p s = Inr s'" for s'
    using that by (auto simp: reconcile_file_def index_row_def Let_def nemit_def delete_note_def set_links_def
        upsert_row_def back_resolve_dangling_def split: option.splits)
  with Cons.IH show ?case by (auto split: sum.splits)
qed simp

lemma audit_keeps_ops: "ns_ops (rebuild_audit s) = ns_ops s"
proof -
  let ?f = "\<lambda>t r. case audit_fence r of None \<Rightarrow> append_audit r t | Some (tk, g) \<Rightarrow> raise_fence_floor tk g (append_audit r t)"
  have "ns_ops (foldl ?f a rs) = ns_ops a" for a rs
  proof (induction rs arbitrary: a)
    case (Cons r rs)
    then show ?case by (auto simp: append_audit_def raise_fence_floor_def split: option.splits)
  qed simp
  then show ?thesis unfolding rebuild_audit_def by simp
qed

text \<open>A reindex forgets every operation id: afterwards no request is recognised as a repeat, so a retry of a
  write that was committed before it runs again.
\<close>

theorem reindex_forgets_ops: "replay (Some (JStr k)) (snd (reindex w walk s)) = Inr None"
proof -
  have "ns_ops (snd (reindex w walk s)) = []"
    using walk_keeps_ops [of w walk "truncate_index s"]
    by (auto simp: reindex_def reconcile_all_def truncate_index_def audit_keeps_ops split: prod.splits option.splits)
  then show ?thesis by (simp add: replay_def get_op_def)
qed

end
