(* ===== verification/NotesMutex.thy ===== *)
theory NotesMutex
  imports Prelude
begin

text \<open>
  The writer queue of a note (\<open>KeyedMutex\<close> of \<open>storage/corpus.js\<close>). A call of \<open>run\<close> is a job. It takes the
  promise the map holds for its key as its predecessor and leaves its own in the map; it enters
  when the predecessor's promise is resolved, releases its gate at the end, and a later microtask
  deletes the map entry if it is still its own. A job's promise is \<open>prev.then(() => gate)\<close>: it is
  resolved when the job is released and its predecessor's promise is resolved.
\<close>

datatype mphase = Waiting | Inside | Released

record 'k mjob =
  mj_key :: 'k
  mj_prev :: "nat option"
  mj_phase :: mphase

text \<open>Jobs are numbered in the order of their calls; the map holds numbers.\<close>

record 'k mutex =
  mx_jobs :: "'k mjob list"
  mx_chains :: "'k \<Rightarrow> nat option"

definition new_mutex :: "'k mutex" where
  "new_mutex = \<lparr>mx_jobs = [], mx_chains = (\<lambda>_. None)\<rparr>"

inductive resolved :: "'k mjob list \<Rightarrow> nat \<Rightarrow> bool" for js :: "'k mjob list" where
  resolved_first: "i < length js \<Longrightarrow> mj_phase (js ! i) = Released \<Longrightarrow> mj_prev (js ! i) = None \<Longrightarrow> resolved js i"
| resolved_next: "i < length js \<Longrightarrow> mj_phase (js ! i) = Released \<Longrightarrow> mj_prev (js ! i) = Some p \<Longrightarrow> resolved js p \<Longrightarrow>
     resolved js i"

code_pred resolved .

definition may_enter :: "'k mjob list \<Rightarrow> nat \<Rightarrow> bool" where
  "may_enter js i = (case mj_prev (js ! i) of None \<Rightarrow> True | Some p \<Rightarrow> resolved js p)"

definition mutex_run :: "'k \<Rightarrow> 'k mutex \<Rightarrow> 'k mutex" where
  "mutex_run k m =
     m\<lparr>mx_jobs := mx_jobs m @ [\<lparr>mj_key = k, mj_prev = mx_chains m k, mj_phase = Waiting\<rparr>],
       mx_chains := (mx_chains m)(k \<mapsto> length (mx_jobs m))\<rparr>"

definition set_job_phase :: "nat \<Rightarrow> mphase \<Rightarrow> 'k mutex \<Rightarrow> 'k mutex" where
  "set_job_phase i ph m = m\<lparr>mx_jobs := (mx_jobs m)[i := (mx_jobs m ! i)\<lparr>mj_phase := ph\<rparr>]\<rparr>"

definition mutex_cleanup :: "nat \<Rightarrow> 'k mutex \<Rightarrow> 'k mutex" where
  "mutex_cleanup i m =
     (let k = mj_key (mx_jobs m ! i) in
      if mx_chains m k = Some i then m\<lparr>mx_chains := (mx_chains m)(k := None)\<rparr> else m)"

inductive mutex_step :: "'k mutex \<Rightarrow> 'k mutex \<Rightarrow> bool" where
  mx_call: "mutex_step m (mutex_run k m)"
| mx_enter: "i < length (mx_jobs m) \<Longrightarrow> mj_phase (mx_jobs m ! i) = Waiting \<Longrightarrow> may_enter (mx_jobs m) i \<Longrightarrow>
     mutex_step m (set_job_phase i Inside m)"
| mx_release: "i < length (mx_jobs m) \<Longrightarrow> mj_phase (mx_jobs m ! i) = Inside \<Longrightarrow> mutex_step m (set_job_phase i Released m)"
| mx_cleanup: "i < length (mx_jobs m) \<Longrightarrow> mj_phase (mx_jobs m ! i) = Released \<Longrightarrow> mutex_step m (mutex_cleanup i m)"

inductive_cases mutex_stepE: "mutex_step m m'"

section \<open>Mutual exclusion\<close>

text \<open>
  A job's predecessor is the latest earlier job of its key, or it has none and every earlier job of its
  key is released; a job past waiting has only released jobs of its key before it; the map names the
  latest job of a key, or every job of the key is released.
\<close>

definition latest_before :: "'k mjob list \<Rightarrow> 'k \<Rightarrow> nat \<Rightarrow> nat \<Rightarrow> bool" where
  "latest_before js k n p = (p < n \<and> mj_key (js ! p) = k \<and> (\<forall>q. p < q \<and> q < n \<longrightarrow> mj_key (js ! q) \<noteq> k))"

definition all_released :: "'k mjob list \<Rightarrow> 'k \<Rightarrow> nat \<Rightarrow> bool" where
  "all_released js k n = (\<forall>q < n. mj_key (js ! q) = k \<longrightarrow> mj_phase (js ! q) = Released)"

definition linked :: "'k mjob list \<Rightarrow> 'k \<Rightarrow> nat \<Rightarrow> nat option \<Rightarrow> bool" where
  "linked js k n prev = (case prev of None \<Rightarrow> all_released js k n | Some p \<Rightarrow> latest_before js k n p)"

definition mutex_ok :: "'k mutex \<Rightarrow> bool" where
  "mutex_ok m =
     ((\<forall>i < length (mx_jobs m). linked (mx_jobs m) (mj_key (mx_jobs m ! i)) i (mj_prev (mx_jobs m ! i))) \<and>
      (\<forall>i < length (mx_jobs m). mj_phase (mx_jobs m ! i) \<noteq> Waiting \<longrightarrow>
         all_released (mx_jobs m) (mj_key (mx_jobs m ! i)) i) \<and>
      (\<forall>k. linked (mx_jobs m) k (length (mx_jobs m)) (mx_chains m k)))"

lemma resolved_released: "resolved js i \<Longrightarrow> i < length js \<and> mj_phase (js ! i) = Released"
  by (induction rule: resolved.induct) auto

lemma latest_all_released:
  assumes "latest_before js k n p" and "all_released js k p" and "mj_phase (js ! p) = Released"
  shows "all_released js k n"
  unfolding all_released_def
proof (intro allI impI)
  fix q assume q: "q < n" "mj_key (js ! q) = k"
  show "mj_phase (js ! q) = Released"
  proof (cases "q < p")
    case True
    with assms(2) q show ?thesis by (simp add: all_released_def)
  next
    case False
    with assms(1) q have "q = p" by (meson latest_before_def linorder_neqE_nat)
    with assms(3) show ?thesis by simp
  qed
qed

lemma key_set_phase [simp]: "i < length js \<Longrightarrow> mj_key (js[i := (js ! i)\<lparr>mj_phase := ph\<rparr>] ! q) = mj_key (js ! q)"
  by (cases "q = i") auto

lemma prev_set_phase [simp]: "i < length js \<Longrightarrow> mj_prev (js[i := (js ! i)\<lparr>mj_phase := ph\<rparr>] ! q) = mj_prev (js ! q)"
  by (cases "q = i") auto

lemma all_released_set_phase:
  assumes "i < length js" and "all_released js k n" and "mj_phase (js ! i) \<noteq> Released \<or> ph = Released"
  shows "all_released (js[i := (js ! i)\<lparr>mj_phase := ph\<rparr>]) k n"
  using assms unfolding all_released_def by (auto simp: nth_list_update)

lemma linked_set_phase:
  assumes "i < length js" and "linked js k n pr" and "mj_phase (js ! i) \<noteq> Released \<or> ph = Released"
  shows "linked (js[i := (js ! i)\<lparr>mj_phase := ph\<rparr>]) k n pr"
  using assms all_released_set_phase [OF assms(1) _ assms(3)]
  unfolding linked_def latest_before_def by (auto split: option.splits)

lemma mutex_ok_set_phase:
  assumes ok: "mutex_ok m" and i: "i < length (mx_jobs m)" and ph: "mj_phase (mx_jobs m ! i) \<noteq> Released \<or> ph = Released"
    and done': "ph \<noteq> Waiting \<Longrightarrow> all_released (mx_jobs m) (mj_key (mx_jobs m ! i)) i"
  shows "mutex_ok (set_job_phase i ph m)"
proof -
  let ?js = "mx_jobs m" and ?js' = "(mx_jobs m)[i := (mx_jobs m ! i)\<lparr>mj_phase := ph\<rparr>]"
  have l: "linked ?js' k n pr" if "linked ?js k n pr" for k n pr
    by (rule linked_set_phase [OF i that ph])
  have r: "all_released ?js' (mj_key (?js' ! q)) q" if q: "q < length ?js" "mj_phase (?js' ! q) \<noteq> Waiting" for q
  proof (cases "q = i")
    case True
    with q i have "ph \<noteq> Waiting" by simp
    with True i show ?thesis using all_released_set_phase [OF i done' ph] by simp
  next
    case False
    with q ok have "all_released ?js (mj_key (?js ! q)) q" unfolding mutex_ok_def by simp
    then show ?thesis using all_released_set_phase [OF i _ ph] i by simp
  qed
  show ?thesis unfolding mutex_ok_def set_job_phase_def
    using ok l r i by (simp add: mutex_ok_def)
qed

lemma mutex_ok_enter:
  assumes ok: "mutex_ok m" and i: "i < length (mx_jobs m)" and e: "may_enter (mx_jobs m) i"
  shows "all_released (mx_jobs m) (mj_key (mx_jobs m ! i)) i"
proof -
  have li: "linked (mx_jobs m) (mj_key (mx_jobs m ! i)) i (mj_prev (mx_jobs m ! i))"
    using ok i unfolding mutex_ok_def by blast
  show ?thesis
  proof (cases "mj_prev (mx_jobs m ! i)")
    case None
    with li show ?thesis by (simp add: linked_def)
  next
    case (Some p)
    with li have lp: "latest_before (mx_jobs m) (mj_key (mx_jobs m ! i)) i p" by (simp add: linked_def)
    from Some e have "resolved (mx_jobs m) p" by (simp add: may_enter_def)
    from resolved_released [OF this] have p: "p < length (mx_jobs m)" "mj_phase (mx_jobs m ! p) = Released" by auto
    then have "all_released (mx_jobs m) (mj_key (mx_jobs m ! p)) p"
      using ok unfolding mutex_ok_def by simp
    moreover have "mj_key (mx_jobs m ! p) = mj_key (mx_jobs m ! i)" using lp by (simp add: latest_before_def)
    ultimately show ?thesis using latest_all_released [OF lp _ p(2)] by simp
  qed
qed

lemma all_released_append [simp]: "n \<le> length js \<Longrightarrow> all_released (js @ xs) k n = all_released js k n"
  unfolding all_released_def by (auto simp: nth_append)

lemma linked_append [simp]: "n \<le> length js \<Longrightarrow> linked (js @ xs) k n pr = linked js k n pr"
  unfolding linked_def latest_before_def by (auto simp: nth_append split: option.splits)

lemma mutex_ok_call:
  assumes "mutex_ok m"
  shows "mutex_ok (mutex_run k m)"
proof -
  let ?j = "\<lparr>mj_key = k, mj_prev = mx_chains m k, mj_phase = Waiting\<rparr>"
  have "linked (mx_jobs m @ [?j]) k' (Suc (length (mx_jobs m))) (if k' = k then Some (length (mx_jobs m)) else mx_chains m k')" for k'
  proof (cases "k' = k")
    case True
    then show ?thesis by (auto simp: linked_def latest_before_def)
  next
    case False
    have "linked (mx_jobs m) k' (length (mx_jobs m)) (mx_chains m k')" using assms by (simp add: mutex_ok_def)
    with False show ?thesis
      by (auto simp: linked_def latest_before_def all_released_def less_Suc_eq nth_append split: option.splits)
  qed
  then show ?thesis using assms
    by (auto simp: mutex_ok_def mutex_run_def less_Suc_eq nth_append)
qed

lemma mutex_ok_cleanup:
  assumes ok: "mutex_ok m" and i: "i < length (mx_jobs m)" and r: "mj_phase (mx_jobs m ! i) = Released"
  shows "mutex_ok (mutex_cleanup i m)"
proof (cases "mx_chains m (mj_key (mx_jobs m ! i)) = Some i")
  case True
  let ?k = "mj_key (mx_jobs m ! i)"
  have l: "latest_before (mx_jobs m) ?k (length (mx_jobs m)) i"
    using ok True unfolding mutex_ok_def by (metis (no_types, lifting) linked_def option.simps(5))
  have a: "all_released (mx_jobs m) ?k i" using ok i r unfolding mutex_ok_def by simp
  have "all_released (mx_jobs m) ?k (length (mx_jobs m))" by (rule latest_all_released [OF l a r])
  then have "linked (mx_jobs m) ?k (length (mx_jobs m)) None" by (simp add: linked_def)
  with ok True show ?thesis by (auto simp: mutex_ok_def mutex_cleanup_def)
next
  case False
  with ok show ?thesis by (simp add: mutex_cleanup_def Let_def)
qed

interpretation mutex: inductive_inv "\<lambda>m. m = new_mutex" mutex_step mutex_ok
proof
  fix m :: "'a mutex"
  assume "m = new_mutex"
  then show "mutex_ok m" by (simp add: new_mutex_def mutex_ok_def linked_def all_released_def)
next
  fix m m' :: "'a mutex"
  assume ok: "mutex_ok m" and "mutex_step m m'"
  from this(2) show "mutex_ok m'"
  proof cases
    case (mx_call k)
    with ok show ?thesis by (simp add: mutex_ok_call)
  next
    case (mx_enter i)
    with ok show ?thesis using mutex_ok_set_phase [OF ok] mutex_ok_enter [OF ok] by simp
  next
    case (mx_release i)
    with ok have "all_released (mx_jobs m) (mj_key (mx_jobs m ! i)) i" unfolding mutex_ok_def by simp
    with mx_release show ?thesis using mutex_ok_set_phase [OF ok mx_release(2)] by simp
  next
    case (mx_cleanup i)
    with ok show ?thesis by (simp add: mutex_ok_cleanup)
  qed
qed

text \<open>C19. In every reachable state of the writer queue at most one call is inside per note, and a call that is
  inside comes before every other one of its note that is still waiting: the writers of a note take turns
  in the order of their calls, also across the deletion of the map entry.
\<close>

theorem writers_take_turns:
  assumes "reach (\<lambda>m. m = new_mutex) mutex_step m"
    and "i < length (mx_jobs m)" and "j < length (mx_jobs m)" and "mj_key (mx_jobs m ! i) = mj_key (mx_jobs m ! j)"
    and "mj_phase (mx_jobs m ! i) = Inside" and "mj_phase (mx_jobs m ! j) \<noteq> Released" and "i \<noteq> j"
  shows "mj_phase (mx_jobs m ! j) = Waiting \<and> i < j"
proof -
  have ok: "mutex_ok m" by (rule mutex.reach_inv [OF assms(1)])
  then have in': "all_released (mx_jobs m) (mj_key (mx_jobs m ! q)) q"
    if "q < length (mx_jobs m)" "mj_phase (mx_jobs m ! q) \<noteq> Waiting" for q
    using that unfolding mutex_ok_def by blast
  have "\<not> j < i" using in' [OF assms(2)] assms(4-6) by (auto simp: all_released_def)
  then have "i < j" using assms(7) by simp
  moreover have "mj_phase (mx_jobs m ! j) = Waiting"
  proof (rule ccontr)
    assume "mj_phase (mx_jobs m ! j) \<noteq> Waiting"
    from in' [OF assms(3) this] \<open>i < j\<close> assms(4,5) show False by (auto simp: all_released_def)
  qed
  ultimately show ?thesis by simp
qed

definition demo_mutex :: "string mutex" where
  "demo_mutex = set_job_phase 0 Inside (mutex_run ''N-1'' (mutex_run ''N-1'' new_mutex))"

lemma demo_mutex_reach: "reach (\<lambda>m. m = new_mutex) mutex_step demo_mutex"
proof -
  let ?m = "mutex_run ''N-1'' (mutex_run ''N-1'' new_mutex) :: string mutex"
  have "reach (\<lambda>m. m = new_mutex) mutex_step ?m"
    by (rule reach_step, rule reach_step, rule reach_start, rule refl, rule mx_call, rule mx_call)
  moreover have "mutex_step ?m (set_job_phase 0 Inside ?m)"
    by (rule mx_enter) (simp_all add: mutex_run_def new_mutex_def may_enter_def nth_append)
  ultimately show ?thesis unfolding demo_mutex_def by (rule reach_step)
qed

theorem writers_take_turns_witness:
  "mj_phase (mx_jobs demo_mutex ! 0) = Inside \<and> mj_phase (mx_jobs demo_mutex ! 1) = Waiting"
proof -
  have f: "length (mx_jobs demo_mutex) = 2" "mj_key (mx_jobs demo_mutex ! 0) = mj_key (mx_jobs demo_mutex ! 1)"
    "mj_phase (mx_jobs demo_mutex ! 0) = Inside" "mj_phase (mx_jobs demo_mutex ! 1) \<noteq> Released"
    by (simp_all add: demo_mutex_def set_job_phase_def mutex_run_def new_mutex_def nth_append)
  from writers_take_turns [OF demo_mutex_reach _ _ f(2-4)] f(1,3) show ?thesis by simp
qed

end
