(* ===== verification/Spec2Isabelle.thy ===== *)
theory Spec2Isabelle
  imports DriveResults BoardSafety BoardAccess BoardBudget BoardGates BoardLife VaultResults VaultNames
    SuiteContracts NotesProjection NotesTrail NotesBounds NotesRebuild NotesMutex NotesTaint
begin

text \<open>
  A verification development for agent-corp, a suite of services that let software agents run operations
  work under human control. It models four of its services, statement by statement,
  proves what they promise, and where they meet puts their models together.

  \<^bold>\<open>The program.\<close> The Board (\<open>src/apps/board/server/src\<close>) keeps the tickets, their claims with
  fencing tokens, the plans, the approvals and the ceremonies; agents reach it over HTTP and MCP, and
  an operator grants. The Vault (\<open>src/apps/vault/server/src\<close>) keeps the credentials: an agent may
  stage a powerless release, the Gateway redeems it, and the Vault reads the Board again before it asks
  the engine. Notes (\<open>src/apps/notes/server/src\<close>) is the external memory of the agents: Markdown files that
  are the truth, a git history that is the audit trail, an index that can be thrown away. Drive
  (\<open>src/apps/drive/src\<close>) keeps the files the tickets deliver: content-addressed blobs, a version journal, tables
  rebuilt from it. Board, Vault and Drive keep an SQLite store; all four are single processes: a handler runs
  from one \<open>await\<close> to the next without interruption.

  \<^bold>\<open>The Board.\<close>
  \<^item> \<open>Prelude\<close>, \<open>Json\<close>: guards of a handler, tables, step systems and their contracts as locales
    (\<open>inductive_inv\<close>, \<open>step_preorder\<close>, \<open>fencing\<close>); JSON documents and JavaScript strings.
  \<^item> \<open>BoardTypes\<close>, \<open>BoardDb\<close>, \<open>BoardIds\<close>, \<open>BoardGuardrails\<close>: \<open>constants.js\<close>, \<open>db/schema.js\<close>,
    \<open>core/state-machine.js\<close>, \<open>ids.js\<close>, \<open>service/guardrails.js\<close>.
  \<^item> \<open>BoardClaim\<close>, \<open>BoardTickets\<close>, \<open>BoardApproval\<close>, \<open>BoardTransitions\<close>, \<open>BoardCeremony\<close>,
    \<open>BoardKickoffs\<close>, \<open>BoardOps\<close>: one theory per file of \<open>service/\<close> (the sweeps, the
    restore and the facts together in \<open>BoardOps\<close>, the clients of Notes and CMDB in \<open>BoardApproval\<close>).
  \<^item> \<open>Bearer\<close>, \<open>BoardSurface\<close>, \<open>BoardMcp\<close>: \<open>auth/rs.js\<close>, \<open>auth/budget.js\<close>, \<open>api/http.js\<close>, \<open>mcp/\<close>.
  \<^item> \<open>BoardSpec\<close> is the abstract board (tickets, locks and approvals as maps, a dozen moves);
    \<open>BoardRefine\<close> and its three companions prove that every committed operation
    is a sequence of those moves, \<open>BoardSystem\<close> composes all operations into one step relation,
    \<open>BoardRuns\<close> holds what its runs keep, \<open>BoardDemo\<close> a concrete run for the witnesses.
  \<^item> Results: \<open>BoardSafety\<close> (segregation of duties, single use, exclusive claims, tokens that rise),
    \<open>BoardAccess\<close> with \<open>BoardAuthority\<close> (who may do what over HTTP and MCP), \<open>BoardBudget\<close>,
    \<open>BoardGates\<close>, \<open>BoardLife\<close>.

  \<^bold>\<open>The Vault.\<close>
  \<^item> \<open>VaultTypes\<close>: \<open>constants.js\<close>, \<open>ids.js\<close>, \<open>errors.js\<close>, \<open>db/schema.js\<close>.
  \<^item> \<open>VaultAudit\<close>: the hash-chained log and its off-box sink. \<open>VaultAuth\<close>: the resource server, the
    holder checks, the live revocation check, the client of the engine.
  \<^item> \<open>VaultReleases\<close>, \<open>VaultManage\<close>: \<open>service/releases.js\<close>, \<open>handles.js\<close>, \<open>manage.js\<close>.
  \<^item> \<open>VaultRedeem\<close>: \<open>service/redeem.js\<close> as a machine, one definition per segment between two awaits.
  \<^item> \<open>VaultSurface\<close>: the HTTP routes, the four tools, the creds listener, boot.
  \<^item> \<open>VaultSystem\<close>: the store together with all redemptions in flight; every interleaving of
    segments, requests, sweeps and restarts is a step. \<open>VaultMachine\<close> and \<open>VaultSafety\<close> prove the
    invariants of its runs, \<open>VaultChain\<close> what the hash chain pins down, \<open>VaultDemo\<close> is a run for
    the witnesses.
  \<^item> Results: \<open>VaultResults\<close> (credentials, single use, releases, the log, outages,
    termination), \<open>VaultNames\<close> (handles and sign roles).

  \<^bold>\<open>Notes.\<close>
  \<^item> \<open>JsRegex\<close>: JavaScript regular expressions as the code uses them, the backtracking order of \<open>exec\<close> and
    \<open>replace\<close>, and a relational meaning the search is proved equivalent to.
  \<^item> \<open>NotesTypes\<close>, \<open>NotesText\<close>: \<open>constants.js\<close>, \<open>identifiers.js\<close>, \<open>storage/\<close>. \<open>NotesGit\<close>:
    \<open>git/\<close>. \<open>NotesIndex\<close>, \<open>NotesReconcile\<close>: \<open>index/\<close> and, in the latter, \<open>board/\<close>.
  \<^item> \<open>NotesService\<close>: \<open>service.js\<close>. A write is cut where it waits for the Board: a start, what follows the
    lease read, what follows the facts read, and the part inside the queue of the note, which is one step.
    \<open>NotesMutex\<close> models \<open>KeyedMutex\<close> itself and shows that the writers of a note exclude each other;
    writers of different notes share the index and the history through single uninterrupted calls.
  \<^item> \<open>NotesSurface\<close>: \<open>auth/\<close>, \<open>api/http.js\<close>, \<open>mcp/\<close>, boot. \<open>NotesSystem\<close>: the store and the operations under
    way, every interleaving with each other, with foreign changes of the files, reindexing and restarts.
  \<^item> Results: \<open>NotesBounds\<close> (the fence, paths, scopes, the push, secrets), \<open>NotesTaint\<close>,
    \<open>NotesProjection\<close> (files and frontmatter), \<open>NotesTrail\<close> (the git trail), \<open>NotesRebuild\<close> (the index);
    \<open>NotesDemo\<close> is a run for the witnesses.
  \<^item> \<open>SuiteContracts\<close> gives each of Board and Notes the answers of the other's model. The theorem of this
    theory does the same for Vault and Board.

  \<^bold>\<open>Drive.\<close>
  \<^item> \<open>DriveTypes\<close>, \<open>DriveStore\<close>: \<open>lib/\<close>, \<open>config.ts\<close>, \<open>db/schema.ts\<close>, \<open>storage/cas.ts\<close>, \<open>storage/journal.ts\<close>. Names
    lead to numbered files, so a file that is renamed or truncated under an open stream is the same file.
  \<^item> \<open>DriveOps\<close>, \<open>DriveReads\<close>: \<open>storage/store.ts\<close>, \<open>gc.ts\<close>, \<open>maintenance.ts\<close>, \<open>auth/board.ts\<close>. \<open>DriveSurface\<close>,
    \<open>DriveRoutes\<close>: the byte stream of an upload (its opening, one step per chunk, its end), \<open>auth/\<close>,
    \<open>http/\<close>, \<open>mcp/\<close>. \<open>DriveSystem\<close>: every interleaving of requests, streams, checks, sweeps, backups,
    collections, stops, crashes inside a commit, and boots.
  \<^item> \<open>DriveMoves\<close> is the abstract store: a dozen moves; \<open>DriveSteps\<close> proves that every action is a sequence of
    them. \<open>DriveLaws\<close> makes an invariant of the runs out of a law the moves keep (the locale \<open>drive_law\<close>);
    \<open>DriveTables\<close> interprets it for consistent tables and for fences, \<open>DriveCalm\<close> (with \<open>DriveReplay\<close>)
    for the agreement of tables and journal, and shows what a collection or a cut commit does to it.
  \<^item> \<open>DriveResults\<close>: fencing, append-only versions, reference counts, upload and download, boots.
    \<open>DriveDemo\<close> is a run for the witnesses.

  \<^bold>\<open>How the code is rendered.\<close>
  \<^item> A transaction is a function into \<open>exn + (response \<times> store)\<close>; \<open>Inl\<close> is the rollback. Events and audit
    rows are part of the store. A table is the list of its rows in rowid order, which decides ties
    of an ORDER BY. A failed UNIQUE, FOREIGN KEY or NOT NULL constraint is an exception of its own.
  \<^item> Times are epoch milliseconds; an operation reads the clock once. ISO strings are computed.
    JavaScript numbers are integers: every number the services store or compare is one.
  \<^item> An asynchronous operation of the Board is a preparation on the store it starts from and a commit on
    a later one, with arbitrary prepared data between them. A redemption has one step per segment.
  \<^item> Texts of Notes are their UTF-8 bytes, so the class of letters the search keeps is that of bytes.
  \<^item> Whatever is not under \<open>src/\<close> is an argument: the network and its answers, SHA-256 and HMAC,
    \<open>JSON.parse\<close>, the validation of a token (\<open>jose\<close>), minted identifiers, the YAML library, the object
    identifiers and message normalisation of git, full-text matching, the walk over the files. Answers are arbitrary
    in every theorem; nothing is assumed of another service. Of the hash Drive's theorems use that its text is
    never empty; identifiers minted by Drive are fresh.
  \<^item> Request bodies are typed per route after the schema the code checks; a reference that is null or
    negative is the number 0, which no row has.
  \<^item> A transaction of Drive that throws loses its changes of tables but not the lines it has put into the
    journal, nor a rename. Names of files are of ASCII, a page token stands decoded, a JSON body is parsed.
  \<^item> Bounds: the cycle query of the dependencies runs one round per edge, which \<open>dep_reach_closure\<close> shows
    to be enough; no other loop needs fuel. The search for tainted notes and the regular expressions
    terminate by measures.

  \<^bold>\<open>Not modelled.\<close> Process start and shutdown, TLS, timers, log lines, static files and best-effort
  notifications: I/O without an effect on the modelled state. The texts of messages and trace headers. The
  fraction in the outage audit row of the reaper, the only non-integer. The web interfaces, the
  vendored bundles, the tests and the documents. Failures of the operating system below Drive (a full disk, a
  failing fsync). The services in Python (Chat, CMDB, Mission
  Control, Library, PDF, the authorization server, the Gateway, the agent runtime) are separate processes
  that the modelled ones meet only through answers that are arbitrary here.
\<close>

section \<open>Board and Vault\<close>

text \<open>C8. The two services together enforce segregation of duties. If the facts the Vault was given for a
  credential are those a reachable Board serves for the approval the request names, that approval is
  consumed by the Gateway, is for the ticket, the host and the plan of the request, and whoever
  granted it is not who proposed it.\<close>

theorem credential_four_eyes:
  assumes "vault_reach vcfg w v js" and "(ch, req, Ended (Credential c body)) \<in> set js"
    and "board_reach bcfg b" and "rc_facts c = approval_facts (rq_approval req) b"
  shows "\<exists>a x. parse_approval_id (rq_approval req) = Some a \<and> get_approval b a = Some x \<and> a_status x = Consumed \<and>
    a_consumed_by x = Some gateway_sub \<and> ticket_ref (a_ticket x) = rq_ticket req \<and> a_host x = rq_host req \<and>
    a_host x = hd_host (rc_handle c) \<and> a_hash x = rq_plan req \<and> a_approver x \<noteq> a_proposer x"
proof -
  note paid = paid_job [OF assms(1,2)]
  have hold: "hl_sub (rc_holder c) = gateway_sub" using paid(2) by (simp add: case_ok_def)
  note facts = paid(3) [unfolded facts_clean hold assms(4)]
  then have "facts_exist (approval_facts (rq_approval req) b)" by blast
  then obtain x where "Option.bind (parse_approval_id (rq_approval req)) (get_approval b) = Some x"
    by (cases "Option.bind (parse_approval_id (rq_approval req)) (get_approval b)")
      (simp_all add: approval_facts_def exists_false_def facts_exist_def)
  then obtain a where x: "parse_approval_id (rq_approval req) = Some a" "get_approval b a = Some x"
    by (auto simp: bind_eq_Some_conv)
  with facts have f: "astatus_str (a_status x) = ''consumed''" "a_consumed_by x = Some gateway_sub"
    "ticket_ref (a_ticket x) = rq_ticket req" "a_host x = rq_host req" "a_host x = hd_host (rc_handle c)"
    "a_hash x = rq_plan req"
    by (auto simp: approval_facts_def is_str_def split: option.splits)
  have "a_status x = Consumed" using f(1) by (cases "a_status x") auto
  moreover have "a_approver x \<noteq> a_proposer x"
    using board.reach_inv [OF assms(3)] x(2) unfolding board_ok_def core_inv_def inv_eyes_def core_of_def prod.case by blast
  ultimately show ?thesis using x f by blast
qed

lemma demo_facts: "approval_facts ''A-000001'' demo5 = dfacts"
  by code_simp

theorem credential_four_eyes_witness:
  "\<exists>x. get_approval demo5 1 = Some x \<and> a_consumed_by x = Some gateway_sub \<and> a_approver x \<noteq> a_proposer x"
proof -
  obtain c body where c: "fst dlast = Ended (Credential c body)" "rc_facts c = dfacts" using vdemo_paid by blast
  have "rc_facts c = approval_facts (rq_approval dreq) demo5" using demo_facts c(2) by (simp add: dreq_def)
  moreover have "(dch, dreq, Ended (Credential c body)) \<in> set [(dch, dreq, fst dlast)]" by (simp add: c(1))
  moreover have "parse_approval_id (rq_approval dreq) = Some 1" unfolding dreq_def by code_simp
  ultimately show ?thesis using credential_four_eyes [OF vdemo_reach(2) _ demo_reach(6)] by fastforce
qed

end
